(* ===== verification/Prelude.thy ===== *)
theory Prelude
  imports Main "HOL-Library.FSet"
begin

text \<open>
  What every component of the library shares: the result of a fallible runtime function
  (\<open>DispatchResult\<close> and \<open>Result<T, DispatchError>\<close>) with the combinators that stand for
  \<open>?\<close>, \<open>ensure!\<close>, \<open>ok_or\<close> and a \<open>for\<close> loop whose body uses \<open>?\<close>; the unsigned machine integers
  of the source as natural numbers with their bounds written out; ordered sets as sorted lists;
  sums over the finitely many non-default entries of a storage map; and the locale of
  transition systems with an invariant, in which reachability is treated once.
\<close>

named_theorems res_simps \<open>inversion of a successful fallible computation\<close>
named_theorems uint_simps \<open>unfolding of checked, saturating and wrapping arithmetic\<close>
named_theorems inv_intros \<open>preservation of component invariants\<close>

section \<open>Fallible computations\<close>

type_synonym ('e, 'a) res = "'e + 'a"

definition attempt :: "('e, 'a) res \<Rightarrow> ('a \<Rightarrow> ('e, 'b) res) \<Rightarrow> ('e, 'b) res" where
  "attempt r k = (case r of Inl e \<Rightarrow> Inl e | Inr x \<Rightarrow> k x)"

definition ensure :: "bool \<Rightarrow> 'e \<Rightarrow> ('e, 'b) res \<Rightarrow> ('e, 'b) res" where
  "ensure c e k = (if c then k else Inl e)"

definition ok_or :: "'a option \<Rightarrow> 'e \<Rightarrow> ('e, 'a) res" where
  "ok_or x e = (case x of None \<Rightarrow> Inl e | Some y \<Rightarrow> Inr y)"

definition is_ok :: "('e, 'a) res \<Rightarrow> bool" where
  "is_ok r = (case r of Inl _ \<Rightarrow> False | Inr _ \<Rightarrow> True)"

fun fold_res :: "('x \<Rightarrow> 's \<Rightarrow> ('e, 's) res) \<Rightarrow> 'x list \<Rightarrow> 's \<Rightarrow> ('e, 's) res" where
  "fold_res f [] s = Inr s"
| "fold_res f (x # xs) s = attempt (f x s) (fold_res f xs)"

fun each_res :: "('x \<Rightarrow> ('e, unit) res) \<Rightarrow> 'x list \<Rightarrow> ('e, unit) res" where
  "each_res f [] = Inr ()"
| "each_res f (x # xs) = attempt (f x) (\<lambda>_. each_res f xs)"

lemma attempt_simps [simp]:
  "attempt (Inl e) k = Inl e"
  "attempt (Inr x) k = k x"
  by (simp_all add: attempt_def)

lemma ensure_simps [simp]:
  "ensure True e k = k"
  "ensure False e k = Inl e"
  by (simp_all add: ensure_def)

lemma ok_or_simps [simp]:
  "ok_or None e = Inl e"
  "ok_or (Some x) e = Inr x"
  by (simp_all add: ok_or_def)

lemma is_ok_simps [simp]:
  "is_ok (Inr x)"
  "\<not> is_ok (Inl e)"
  by (simp_all add: is_ok_def)

lemma is_ok_iff: "is_ok r \<longleftrightarrow> (\<exists>x. r = Inr x)"
  by (cases r) simp_all

lemma attempt_Inr_iff [res_simps]:
  "attempt r k = Inr y \<longleftrightarrow> (\<exists>x. r = Inr x \<and> k x = Inr y)"
  by (cases r) simp_all

lemma ensure_Inr_iff [res_simps]:
  "ensure c e k = Inr y \<longleftrightarrow> c \<and> k = Inr y"
  by (simp add: ensure_def)

lemma ok_or_Inr_iff [res_simps]:
  "ok_or x e = Inr y \<longleftrightarrow> x = Some y"
  by (cases x) simp_all

lemma attempt_Inl_iff:
  "attempt r k = Inl e \<longleftrightarrow> r = Inl e \<or> (\<exists>x. r = Inr x \<and> k x = Inl e)"
  by (cases r) auto

lemma attempt_cong [fundef_cong]:
  "r = r' \<Longrightarrow> (\<And>x. r' = Inr x \<Longrightarrow> k x = k' x) \<Longrightarrow> attempt r k = attempt r' k'"
  by (cases r') simp_all

lemma attempt_assoc: "attempt (attempt r f) g = attempt r (\<lambda>x. attempt (f x) g)"
  by (cases r) simp_all

lemma each_res_Inr_iff [res_simps]:
  "each_res f xs = Inr u \<longleftrightarrow> (\<forall>x \<in> set xs. f x = Inr ())"
  by (induction xs) (auto simp: res_simps)

lemma fold_res_append:
  "fold_res f (xs @ ys) s = attempt (fold_res f xs s) (fold_res f ys)"
  by (induction xs arbitrary: s) (auto simp: attempt_def split: sum.splits)

text \<open>The invariant rule for a loop with early exit.\<close>

lemma fold_res_inv:
  assumes "fold_res f xs s = Inr s'"
    and "P s"
    and "\<And>x t t'. x \<in> set xs \<Longrightarrow> P t \<Longrightarrow> f x t = Inr t' \<Longrightarrow> P t'"
  shows "P s'"
  using assms
proof (induction xs arbitrary: s)
  case Nil
  then show ?case by simp
next
  case (Cons x xs)
  from Cons.prems(1) obtain t where t: "f x s = Inr t" "fold_res f xs t = Inr s'"
    by (auto simp: res_simps)
  have "P t" using Cons.prems(2,3) t(1) by (meson list.set_intros(1))
  then show ?case
    using Cons.IH [OF t(2)] Cons.prems(3) by (meson list.set_intros(2))
qed

lemma fold_res_rel:
  assumes "fold_res f xs s = Inr s'"
    and "R s s"
    and "\<And>x t t'. x \<in> set xs \<Longrightarrow> R s t \<Longrightarrow> f x t = Inr t' \<Longrightarrow> R s t'"
  shows "R s s'"
  using fold_res_inv [of f xs s s' "R s"] assms by blast

section \<open>Unsigned machine integers\<close>

definition u32_max :: nat where "u32_max = 2 ^ 32 - 1"

definition u64_max :: nat where "u64_max = 2 ^ 64 - 1"

definition u128_max :: nat where "u128_max = 2 ^ 128 - 1"

definition checked_add :: "nat \<Rightarrow> nat \<Rightarrow> nat \<Rightarrow> nat option" where
  "checked_add mx a b = (if a + b \<le> mx then Some (a + b) else None)"

definition checked_sub :: "nat \<Rightarrow> nat \<Rightarrow> nat option" where
  "checked_sub a b = (if b \<le> a then Some (a - b) else None)"

definition checked_mul :: "nat \<Rightarrow> nat \<Rightarrow> nat \<Rightarrow> nat option" where
  "checked_mul mx a b = (if a * b \<le> mx then Some (a * b) else None)"

definition saturating_add :: "nat \<Rightarrow> nat \<Rightarrow> nat \<Rightarrow> nat" where
  "saturating_add mx a b = min mx (a + b)"

definition saturating_sub :: "nat \<Rightarrow> nat \<Rightarrow> nat" where
  "saturating_sub a b = (if b \<le> a then a - b else 0)"

definition saturating_mul :: "nat \<Rightarrow> nat \<Rightarrow> nat \<Rightarrow> nat" where
  "saturating_mul mx a b = min mx (a * b)"

definition wrapping_add :: "nat \<Rightarrow> nat \<Rightarrow> nat \<Rightarrow> nat" where
  "wrapping_add mx a b = (a + b) mod (mx + 1)"

definition wrapping_sub :: "nat \<Rightarrow> nat \<Rightarrow> nat \<Rightarrow> nat" where
  "wrapping_sub mx a b = (a + (mx + 1) - b) mod (mx + 1)"

lemma checked_add_Some [uint_simps]:
  "checked_add mx a b = Some c \<longleftrightarrow> c = a + b \<and> a + b \<le> mx"
  by (auto simp: checked_add_def)

lemma checked_sub_Some [uint_simps]:
  "checked_sub a b = Some c \<longleftrightarrow> b \<le> a \<and> c = a - b"
  by (auto simp: checked_sub_def)

lemma checked_mul_Some [uint_simps]:
  "checked_mul mx a b = Some c \<longleftrightarrow> c = a * b \<and> a * b \<le> mx"
  by (auto simp: checked_mul_def)

lemma saturating_sub_eq [simp]: "saturating_sub a b = a - b"
  by (simp add: saturating_sub_def)

lemma saturating_add_le: "saturating_add mx a b \<le> mx"
  by (simp add: saturating_add_def)

lemma saturating_add_exact: "a + b \<le> mx \<Longrightarrow> saturating_add mx a b = a + b"
  by (simp add: saturating_add_def)

lemma wrapping_add_exact: "a + b \<le> mx \<Longrightarrow> wrapping_add mx a b = a + b"
  by (simp add: wrapping_add_def)

lemma wrapping_sub_exact: "b \<le> a \<Longrightarrow> a \<le> mx \<Longrightarrow> wrapping_sub mx a b = a - b"
proof -
  assume "b \<le> a" "a \<le> mx"
  then have "a + (mx + 1) - b = (a - b) + (mx + 1)" by simp
  then have "wrapping_sub mx a b = (a - b) mod (mx + 1)"
    unfolding wrapping_sub_def by (metis mod_add_self2)
  then show ?thesis using \<open>a \<le> mx\<close> by simp
qed

section \<open>Ordered sets\<close>

text \<open>
  A \<open>BTreeSet\<close> that the source iterates over is the strictly increasing list of its elements.
\<close>

definition btree :: "'a::linorder list \<Rightarrow> 'a list" where
  "btree xs = sort (remdups xs)"

lemma set_btree [simp]: "set (btree xs) = set xs"
  by (simp add: btree_def)

lemma distinct_btree [simp]: "distinct (btree xs)"
  by (simp add: btree_def)

lemma sorted_btree [simp]: "sorted (btree xs)"
  by (simp add: btree_def)

lemma length_btree: "length (btree xs) = card (set xs)"
  by (metis distinct_btree distinct_card set_btree)

lemma btree_set_cong: "set xs = set ys \<Longrightarrow> btree xs = btree ys"
  by (simp add: sorted_distinct_set_unique)

section \<open>Sums over the non-default entries of a storage map\<close>

definition sum_supp :: "('k \<Rightarrow> nat) \<Rightarrow> 'k set \<Rightarrow> nat" where
  "sum_supp f A = sum f {x \<in> A. f x \<noteq> 0}"

definition fin_supp :: "('k \<Rightarrow> nat) \<Rightarrow> bool" where
  "fin_supp f \<longleftrightarrow> finite {x. f x \<noteq> 0}"

lemma fin_supp_zero [simp]: "fin_supp (\<lambda>_. 0)"
  by (simp add: fin_supp_def)

lemma fin_supp_upd [simp]: "fin_supp f \<Longrightarrow> fin_supp (f(k := v))"
  unfolding fin_supp_def
  by (rule finite_subset [of _ "insert k {x. f x \<noteq> 0}"]) auto

lemma fin_supp_subset: "fin_supp f \<Longrightarrow> finite {x \<in> A. f x \<noteq> 0}"
  unfolding fin_supp_def by (rule finite_subset [rotated]) auto

lemma sum_supp_cong:
  "(\<And>x. x \<in> A \<Longrightarrow> f x = g x) \<Longrightarrow> sum_supp f A = sum_supp g A"
  unfolding sum_supp_def by (rule sum.cong) auto

lemma sum_supp_finite: "finite A \<Longrightarrow> sum_supp f A = sum f A"
  unfolding sum_supp_def by (rule sum.mono_neutral_left) auto

lemma sum_supp_remove:
  assumes "fin_supp f" and "k \<in> A"
  shows "sum_supp f A = f k + sum_supp f (A - {k})"
proof -
  have eq: "{x \<in> A. f x \<noteq> 0} - {k} = {x \<in> A - {k}. f x \<noteq> 0}" by auto
  have "sum f {x \<in> A. f x \<noteq> 0} = f k + sum f ({x \<in> A. f x \<noteq> 0} - {k})"
    using assms fin_supp_subset [OF assms(1), of A]
    by (cases "f k = 0") (simp_all add: sum.remove)
  then show ?thesis unfolding sum_supp_def eq .
qed

lemma sum_supp_upd_in:
  assumes "fin_supp f" and "k \<in> A"
  shows "sum_supp (f(k := v)) A + f k = sum_supp f A + v"
proof -
  have "sum_supp (f(k := v)) (A - {k}) = sum_supp f (A - {k})"
    by (rule sum_supp_cong) auto
  then show ?thesis
    using sum_supp_remove [of "f(k := v)" k A] sum_supp_remove [of f k A] assms by simp
qed

lemma sum_supp_upd_notin: "k \<notin> A \<Longrightarrow> sum_supp (f(k := v)) A = sum_supp f A"
  by (rule sum_supp_cong) auto

lemma sum_supp_member_le: "fin_supp f \<Longrightarrow> k \<in> A \<Longrightarrow> f k \<le> sum_supp f A"
  by (simp add: sum_supp_remove)

lemma sum_supp_eq_0: "fin_supp f \<Longrightarrow> sum_supp f A = 0 \<longleftrightarrow> (\<forall>x \<in> A. f x = 0)"
  unfolding sum_supp_def using fin_supp_subset [of f A] by (subst sum_eq_0_iff) auto

definition supp_card :: "('k \<Rightarrow> nat) \<Rightarrow> nat" where
  "supp_card f = card {x. f x \<noteq> 0}"

lemma supp_card_upd:
  assumes "fin_supp f"
  shows "supp_card (f(k := v)) =
    (if f k = 0 \<and> v \<noteq> 0 then supp_card f + 1
     else if f k \<noteq> 0 \<and> v = 0 then supp_card f - 1 else supp_card f)"
proof -
  have fin: "finite {x. f x \<noteq> 0}" using assms by (simp add: fin_supp_def)
  have eq: "{x. (f(k := v)) x \<noteq> 0} =
      (if v = 0 then {x. f x \<noteq> 0} - {k} else insert k {x. f x \<noteq> 0})"
    by auto
  show ?thesis
    unfolding supp_card_def eq using fin by (auto simp: card_insert_if)
qed

lemma supp_card_zero_iff: "fin_supp f \<Longrightarrow> supp_card f = 0 \<longleftrightarrow> f = (\<lambda>_. 0)"
  by (auto simp: supp_card_def fin_supp_def)

section \<open>Transition systems with an invariant\<close>

locale invariant_system =
  fixes step :: "'s \<Rightarrow> 's \<Rightarrow> bool"
    and good :: "'s \<Rightarrow> bool"
  assumes step_good: "good s \<Longrightarrow> step s s' \<Longrightarrow> good s'"
begin

lemma reach_good: "step\<^sup>*\<^sup>* s s' \<Longrightarrow> good s \<Longrightarrow> good s'"
  by (induction rule: rtranclp_induct) (auto intro: step_good)

end

end
