(* ===== verification/Dispatch_Errors.thy ===== *)
theory Dispatch_Errors
  imports Prelude
begin

text \<open>
  The \<open>decl_error!\<close> enumeration of every modelled pallet, with the variants in the order of the
  source, and the \<open>DispatchError\<close> a runtime function fails with: the module error of one of the
  pallets, a textual error (\<open>Other\<close>), or the origin error of \<open>ensure_signed\<close> and \<open>ensure_root\<close>. Variants that two pallets
  share are written with the name of their type in front.
\<close>

datatype (plugins only: code) base_error =
    TooLong | CounterOverflow

datatype (plugins only: code) group_error =
    OnlyPrimaryKeyAllowed | DuplicateMember | NoSuchMember | LastMemberCannotQuit
  | MissingCurrentIdentity | ActiveMembersLimitExceeded | ActiveMembersLimitOverflow

datatype (plugins only: code) committee_error =
    DuplicateVote | NotAMember | NoSuchProposal | ProposalExpired | DuplicateProposal
  | MismatchedVotingIndex | InvalidProportion | FirstVoteReject | ProposalsLimitReached

datatype (plugins only: code) relayer_error =
    UserKeyCddMissing | PayingKeyCddMissing | NoPayingKey | NotPayingKey
  | NotAuthorizedForPayingKey | NotAuthorizedForUserKey | Overflow

datatype (plugins only: code) multisig_error =
    CddMissing | ProposalMissing | DecodingError | NoSigners | RequiredSignaturesOutOfBounds
  | NotASigner | NoSuchMultisig | NotEnoughSigners | NonceOverflow | AlreadyVoted | AlreadyASigner
  | FailedToChargeFee | IdentityNotCreator | ChangeNotAllowed | SignerAlreadyLinkedToMultisig
  | SignerAlreadyLinkedToIdentity | MultisigNotAllowedToLinkToItself | MissingCurrentIdentity
  | NotPrimaryKey | ProposalAlreadyRejected | ProposalExpired | ProposalAlreadyExecuted
  | MultisigMissingIdentity | FailedToSchedule | TooManySigners | CreatorControlsHaveBeenRemoved

datatype (plugins only: code) sto_error =
    Unauthorized | Overflow | InsufficientTokensRemaining | FundraiserNotFound | FundraiserNotLive
  | FundraiserClosed | FundraiserExpired | InvalidVenue | InvalidPriceTiers
  | InvalidOfferingWindow | MaxPriceExceeded | InvestmentAmountTooLow

datatype (plugins only: code) corporate_action_error =
    DetailsTooLong | DuplicateDidTax | TooManyDidTaxes | TooManyTargetIds | NoSuchCheckpointId
  | NoSuchCA | NoRecordDate | RecordDateAfterStart | DeclDateAfterRecordDate | DeclDateInFuture
  | NotTargetedByCA

datatype (plugins only: code) distribution_error =
    CANotBenefit | AlreadyExists | ExpiryBeforePayment | HolderAlreadyPaid | NoSuchDistribution
  | CannotClaimBeforeStart | CannotClaimAfterExpiry | BalancePerShareProductOverflowed
  | NotDistributionCreator | AlreadyReclaimed | NotExpired | DistributionStarted
  | InsufficientRemainingAmount | DistributionAmountIsZero | DistributionPerShareIsZero

datatype (plugins only: code) ballot_error =
    CANotNotice | AlreadyExists | NoSuchBallot | StartAfterEnd | NowAfterEnd
  | NumberOfChoicesOverflow | VotingAlreadyStarted | VotingNotStarted | VotingAlreadyEnded
  | WrongVoteCount | InsufficientVotes | NoSuchRCVFallback | RCVSelfCycle | RCVNotAllowed

datatype (plugins only: code) permissions_error =
    UnauthorizedCaller

datatype (plugins only: code) identity_error =
    AlreadyLinked | MissingCurrentIdentity | Unauthorized | InvalidAccountKey
  | UnAuthorizedCddProvider | InvalidAuthorizationFromOwner
  | InvalidAuthorizationFromCddProvider | NotCddProviderAttestation
  | AuthorizationsNotForSameDids | DidMustAlreadyExist | AuthorizationExpired | TargetHasNoCdd
  | AuthorizationHasBeenRevoked | InvalidAuthorizationSignature | KeyNotAllowed | NotPrimaryKey
  | DidDoesNotExist | DidAlreadyExists | SecondaryKeysContainPrimaryKey | FailedToChargeFee
  | NotASigner | CannotDecodeSignerAccountId | MultiSigHasBalance | AccountKeyIsBeingUsed
  | CustomScopeTooLong | CustomClaimTypeAlreadyExists | CustomClaimTypeDoesNotExist
  | ClaimDoesNotExist | IsChildIdentity | NoParentIdentity | NotParentOrChildIdentity
  | DuplicateKey | ExceptNotAllowedForExtrinsics

datatype (plugins only: code) external_agents_error =
    NoSuchAG | UnauthorizedAgent | AlreadyAnAgent | NotAnAgent | RemovingLastFullAgent
  | SecondaryKeyNotAuthorizedForAsset

datatype (plugins only: code) portfolio_error =
    PortfolioDoesNotExist | InsufficientPortfolioBalance | DestinationIsSamePortfolio
  | PortfolioNameAlreadyInUse | SecondaryKeyNotAuthorizedForPortfolio | UnauthorizedCustodian
  | InsufficientTokensLocked | PortfolioNotEmpty | DifferentIdentityPortfolios
  | NoDuplicateAssetsAllowed | NFTNotFoundInPortfolio | NFTAlreadyLocked | NFTNotLocked
  | InvalidTransferNFTNotOwned | InvalidTransferNFTIsLocked | EmptyTransfer
  | MissingOwnersPermission

datatype (plugins only: code) asset_error =
    Unauthorized | AssetAlreadyCreated | TickerTooLong | TickerNotAlphanumeric
  | TickerAlreadyRegistered | TotalSupplyAboveLimit | NoSuchAsset | AlreadyFrozen | NotAnOwner
  | BalanceOverflow | TotalSupplyOverflow | InvalidGranularity | NotFrozen | InvalidTransfer
  | InsufficientBalance | AssetAlreadyDivisible | InvalidEthereumSignature
  | TickerRegistrationExpired | SenderSameAsReceiver | NoSuchDoc | MaxLengthOfAssetNameExceeded
  | FundingRoundNameMaxLengthExceeded | InvalidAssetIdentifier
  | InvestorUniquenessClaimNotAllowed | InvalidCustomAssetTypeId
  | AssetMetadataNameMaxLengthExceeded | AssetMetadataValueMaxLengthExceeded
  | AssetMetadataTypeDefMaxLengthExceeded | AssetMetadataKeyIsMissing
  | AssetMetadataValueIsLocked | AssetMetadataLocalKeyAlreadyExists
  | AssetMetadataGlobalKeyAlreadyExists | TickerFirstByteNotValid | UnexpectedNonFungibleToken
  | IncompatibleAssetTypeUpdate | AssetMetadataKeyBelongsToNFTCollection
  | AssetMetadataValueIsEmpty | NumberOfAssetMediatorsExceeded | InvalidTickerCharacter

datatype (plugins only: code) protocol_fee_error =
    InsufficientAccountBalance | UnHandledImbalances | InsufficientSubsidyBalance

datatype (plugins only: code) checkpoint_error =
    NoSuchSchedule | ScheduleNotRemovable | SchedulesOverMaxComplexity | ScheduleIsEmpty
  | ScheduleFinished | ScheduleHasExpiredCheckpoints

datatype (plugins only: code) statistics_error =
    InvalidTransfer | StatTypeMissing | StatTypeNeededByTransferCondition
  | CannotRemoveStatTypeInUse | StatTypeLimitReached | TransferConditionLimitReached
  | WeightLimitExceeded

datatype (plugins only: code) compliance_error =
    Unauthorized | DidNotExist | InvalidComplianceRequirementId
  | IncorrectOperationOnTrustedIssuer | DuplicateComplianceRequirements
  | ComplianceRequirementTooComplex | WeightLimitExceeded

datatype (plugins only: code) nft_error =
    BalanceOverflow | BalanceUnderflow | CollectionAlredyRegistered | CollectionNotFound
  | DuplicateMetadataKey | DuplicatedNFTId | InvalidAssetType | InvalidMetadataAttribute
  | InvalidNFTTransferCollectionNotFound | InvalidNFTTransferSamePortfolio
  | InvalidNFTTransferNFTNotOwned | InvalidNFTTransferCountOverflow
  | InvalidNFTTransferComplianceFailure | InvalidNFTTransferFrozenAsset
  | InvalidNFTTransferInsufficientCount | MaxNumberOfKeysExceeded
  | MaxNumberOfNFTsPerLegExceeded | NFTNotFound | UnregisteredMetadataKey | ZeroCount
  | SupplyOverflow | SupplyUnderflow | InvalidNFTTransferNFTIsLocked

datatype (plugins only: code) settlement_error =
    InvalidVenue | Unauthorized | InstructionNotAffirmed | UnauthorizedSigner
  | ReceiptAlreadyClaimed | UnauthorizedVenue | InstructionDatesInvalid
  | InstructionSettleBlockPassed | InvalidSignature | SameSenderReceiver | SettleOnPastBlock
  | UnexpectedAffirmationStatus | FailedToSchedule | UnknownInstruction | SignerAlreadyExists
  | SignerDoesNotExist | ZeroAmount | InstructionSettleBlockNotReached | CallerIsNotAParty
  | MaxNumberOfNFTsExceeded | NumberOfTransferredNFTsUnderestimated | ReceiptForInvalidLegType
  | WeightLimitExceeded | MaxNumberOfFungibleAssetsExceeded | MaxNumberOfOffChainAssetsExceeded
  | NumberOfFungibleTransfersUnderestimated | UnexpectedOFFChainAsset
  | OffChainAssetCantBeLocked | NumberOfOffChainTransfersUnderestimated | LegNotFound
  | InputWeightIsLessThanMinimum | MaxNumberOfReceiptsExceeded
  | NotAllAffirmationsHaveBeenReceived | InvalidInstructionStatusForExecution
  | FailedToReleaseLockOrTransferAssets | DuplicateReceiptUid | ReceiptInstructionIdMissmatch
  | MultipleReceiptsForOneLeg | UnexpectedLegStatus | NumberOfVenueSignersExceeded
  | CallerIsNotAMediator | InvalidExpiryDate | MediatorAffirmationExpired

datatype (plugins only: code) dispatch_error =
    BadOrigin
  | Other string
  | BaseError base_error
  | PermissionsError permissions_error
  | IdentityError identity_error
  | ExternalAgentsError external_agents_error
  | PortfolioError portfolio_error
  | AssetError asset_error
  | ProtocolFeeError protocol_fee_error
  | CheckpointError checkpoint_error
  | StatisticsError statistics_error
  | ComplianceError compliance_error
  | NftError nft_error
  | SettlementError settlement_error
  | GroupError group_error
  | CommitteeError committee_error
  | RelayerError relayer_error
  | MultiSigError multisig_error
  | StoError sto_error
  | CorporateActionError corporate_action_error
  | DistributionError distribution_error
  | BallotError ballot_error

type_synonym 'a result = "(dispatch_error, 'a) res"

end
