(* ===== verification/Primitives.thy ===== *)
theory Primitives
  imports Dispatch_Errors
begin

text \<open>
  The data types of \<open>src/primitives\<close> that the pallets share: identifiers, portfolio identifiers
  with the order the ordered sets use, the subset restrictions of permissions with their lattice
  comparison and union, signing-key permissions and key records, and the weight meter. Byte-array
  identifiers (\<open>IdentityId\<close>, \<open>Ticker\<close>, \<open>AccountId\<close>) are the natural number their bytes spell in
  big-endian order, which keeps equality and the derived order.
\<close>

type_synonym IdentityId = nat
type_synonym Ticker = nat
type_synonym AccountId = nat
type_synonym Moment = nat
type_synonym BlockNumber = nat
type_synonym Balance = nat
type_synonym PortfolioNumber = nat
type_synonym PortfolioName = string
type_synonym PalletName = string
type_synonym DispatchableName = string

section \<open>Portfolio identifiers\<close>

datatype PortfolioKind = Default | User PortfolioNumber

datatype PortfolioId = PortfolioId (pid_did: IdentityId) (pid_kind: PortfolioKind)

definition default_portfolio :: "IdentityId \<Rightarrow> PortfolioId" where
  "default_portfolio did = PortfolioId did Default"

definition user_portfolio :: "IdentityId \<Rightarrow> PortfolioNumber \<Rightarrow> PortfolioId" where
  "user_portfolio did num = PortfolioId did (User num)"

lemma portfolio_ctor_simps [simp]:
  "pid_did (default_portfolio d) = d"
  "pid_kind (default_portfolio d) = Default"
  "pid_did (user_portfolio d n) = d"
  "pid_kind (user_portfolio d n) = User n"
  "user_portfolio d n = user_portfolio d' n' \<longleftrightarrow> d = d' \<and> n = n'"
  "user_portfolio d n \<noteq> default_portfolio d'"
  "default_portfolio d' \<noteq> user_portfolio d n"
  by (simp_all add: default_portfolio_def user_portfolio_def)

lemma portfolio_kind_default_iff: "pid_kind p = Default \<longleftrightarrow> p = default_portfolio (pid_did p)"
  by (cases p) (simp add: default_portfolio_def)

lemma portfolio_kind_user_iff: "pid_kind p = User n \<longleftrightarrow> p = user_portfolio (pid_did p) n"
  by (cases p) (simp add: user_portfolio_def)

instantiation PortfolioKind :: linorder
begin

definition kind_rank :: "PortfolioKind \<Rightarrow> nat" where
  "kind_rank k = (case k of Default \<Rightarrow> 0 | User n \<Rightarrow> Suc n)"

definition less_eq_PortfolioKind :: "PortfolioKind \<Rightarrow> PortfolioKind \<Rightarrow> bool" where
  "less_eq_PortfolioKind a b \<longleftrightarrow> kind_rank a \<le> kind_rank b"

definition less_PortfolioKind :: "PortfolioKind \<Rightarrow> PortfolioKind \<Rightarrow> bool" where
  "less_PortfolioKind a b \<longleftrightarrow> kind_rank a < kind_rank b"

instance
proof
  fix a b c :: PortfolioKind
  show "(a < b) = (a \<le> b \<and> \<not> b \<le> a)"
    by (auto simp: less_eq_PortfolioKind_def less_PortfolioKind_def)
  show "a \<le> a" by (simp add: less_eq_PortfolioKind_def)
  show "a \<le> b \<Longrightarrow> b \<le> c \<Longrightarrow> a \<le> c" by (simp add: less_eq_PortfolioKind_def)
  show "a \<le> b \<Longrightarrow> b \<le> a \<Longrightarrow> a = b"
    by (auto simp: less_eq_PortfolioKind_def kind_rank_def split: PortfolioKind.splits)
  show "a \<le> b \<or> b \<le> a" by (auto simp: less_eq_PortfolioKind_def)
qed

end

instantiation PortfolioId :: linorder
begin

definition less_eq_PortfolioId :: "PortfolioId \<Rightarrow> PortfolioId \<Rightarrow> bool" where
  "less_eq_PortfolioId a b \<longleftrightarrow>
     pid_did a < pid_did b \<or> pid_did a = pid_did b \<and> pid_kind a \<le> pid_kind b"

definition less_PortfolioId :: "PortfolioId \<Rightarrow> PortfolioId \<Rightarrow> bool" where
  "less_PortfolioId a b \<longleftrightarrow>
     pid_did a < pid_did b \<or> pid_did a = pid_did b \<and> pid_kind a < pid_kind b"

instance
proof
  fix a b c :: PortfolioId
  show "(a < b) = (a \<le> b \<and> \<not> b \<le> a)"
    by (auto simp: less_eq_PortfolioId_def less_PortfolioId_def)
  show "a \<le> a" by (simp add: less_eq_PortfolioId_def)
  show "a \<le> b \<Longrightarrow> b \<le> c \<Longrightarrow> a \<le> c" by (auto simp: less_eq_PortfolioId_def)
  show "a \<le> b \<Longrightarrow> b \<le> a \<Longrightarrow> a = b"
    by (auto simp: less_eq_PortfolioId_def intro: PortfolioId.expand)
  show "a \<le> b \<or> b \<le> a" by (auto simp: less_eq_PortfolioId_def)
qed

end

section \<open>Configuration constants and counters\<close>

text \<open>
  The associated constants of a pallet's \<open>Config\<close> trait are a record argument of its functions,
  extended by the theories of the pallets that have more of them. \<open>MaxLen\<close> is the generic length
  limit of \<open>pallets/base\<close>; \<open>accrue\<close> is the framework meter below the weight meter.
\<close>

datatype Weight = Weight (ref_time: nat) (proof_size: nat)

type_synonym frame_accrue = "Weight \<Rightarrow> Weight \<Rightarrow> Weight \<Rightarrow> Weight option"

record config =
  MaxLen :: nat
  accrue :: frame_accrue

definition ensure_length_ok :: "'c config_scheme \<Rightarrow> nat \<Rightarrow> unit result" where
  "ensure_length_ok cfg len = ensure (len \<le> MaxLen cfg) (BaseError TooLong) (Inr ())"

definition ensure_string_limited :: "'c config_scheme \<Rightarrow> string \<Rightarrow> unit result" where
  "ensure_string_limited cfg str = ensure_length_ok cfg (length str)"

definition ensure_custom_length_ok :: "nat \<Rightarrow> nat \<Rightarrow> unit result" where
  "ensure_custom_length_ok len limit = ensure (len \<le> limit) (BaseError TooLong) (Inr ())"

lemma ensure_string_limited_Inr [res_simps]:
  "ensure_string_limited cfg str = Inr u \<longleftrightarrow> length str \<le> MaxLen cfg"
  by (auto simp: ensure_string_limited_def ensure_length_ok_def res_simps)

definition checked_inc :: "nat \<Rightarrow> nat \<Rightarrow> nat option" where
  "checked_inc mx n = checked_add mx n 1"

definition try_next_pre :: "nat \<Rightarrow> nat \<Rightarrow> (nat \<times> nat) result" where
  "try_next_pre mx sq =
     attempt (ok_or (checked_inc mx sq) (BaseError CounterOverflow)) (\<lambda>i. Inr (i, i))"

definition try_next_post :: "nat \<Rightarrow> nat \<Rightarrow> (nat \<times> nat) result" where
  "try_next_post mx sq =
     attempt (ok_or (checked_inc mx sq) (BaseError CounterOverflow)) (\<lambda>i. Inr (sq, i))"

lemma try_next_pre_Inr [res_simps]:
  "try_next_pre mx sq = Inr p \<longleftrightarrow> p = (sq + 1, sq + 1) \<and> sq + 1 \<le> mx"
  by (auto simp: try_next_pre_def checked_inc_def res_simps uint_simps)

lemma try_next_post_Inr [res_simps]:
  "try_next_post mx sq = Inr p \<longleftrightarrow> p = (sq, sq + 1) \<and> sq + 1 \<le> mx"
  by (auto simp: try_next_post_def checked_inc_def res_simps uint_simps)

section \<open>Subset restrictions\<close>

datatype LatticeOrdering = Less | Equal | Incomparable | Greater

datatype 'a SubsetRestriction = Whole | These "'a fset" | Except "'a fset"

definition normalize :: "'a SubsetRestriction \<Rightarrow> 'a SubsetRestriction" where
  "normalize r = (case r of Except es \<Rightarrow> if es = {||} then Whole else r | _ \<Rightarrow> r)"

definition cmp_same :: "'a fset \<Rightarrow> 'a fset \<Rightarrow> LatticeOrdering" where
  "cmp_same a b =
     (case (a |\<subseteq>| b, b |\<subseteq>| a) of
        (True, True) \<Rightarrow> Equal
      | (True, False) \<Rightarrow> Less
      | (False, True) \<Rightarrow> Greater
      | (False, False) \<Rightarrow> Incomparable)"

definition cmp_diff :: "'a fset \<Rightarrow> 'a fset \<Rightarrow> LatticeOrdering \<Rightarrow> LatticeOrdering" where
  "cmp_diff a b n = (if a |\<inter>| b = {||} then n else Incomparable)"

fun lattice_cmp_normal :: "'a SubsetRestriction \<Rightarrow> 'a SubsetRestriction \<Rightarrow> LatticeOrdering" where
  "lattice_cmp_normal Whole Whole = Equal"
| "lattice_cmp_normal _ Whole = Less"
| "lattice_cmp_normal Whole _ = Greater"
| "lattice_cmp_normal (These a) (These b) = cmp_same a b"
| "lattice_cmp_normal (Except a) (Except b) = cmp_same b a"
| "lattice_cmp_normal (These a) (Except b) = cmp_diff a b Less"
| "lattice_cmp_normal (Except a) (These b) = cmp_diff a b Greater"

definition lattice_cmp :: "'a SubsetRestriction \<Rightarrow> 'a SubsetRestriction \<Rightarrow> LatticeOrdering" where
  "lattice_cmp a b = lattice_cmp_normal (normalize a) (normalize b)"

definition subset_ge :: "'a SubsetRestriction \<Rightarrow> 'a SubsetRestriction \<Rightarrow> bool" where
  "subset_ge a b = (case lattice_cmp a b of Greater \<Rightarrow> True | Equal \<Rightarrow> True | _ \<Rightarrow> False)"

fun subset_union :: "'a SubsetRestriction \<Rightarrow> 'a SubsetRestriction \<Rightarrow> 'a SubsetRestriction" where
  "subset_union Whole _ = Whole"
| "subset_union _ Whole = Whole"
| "subset_union (These l) (These r) = These (l |\<union>| r)"
| "subset_union (Except l) (Except r) = Except (l |\<inter>| r)"
| "subset_union (These l) (Except r) = Except (r |-| l)"
| "subset_union (Except r) (These l) = Except (r |-| l)"

definition subset_inner :: "'a SubsetRestriction \<Rightarrow> 'a fset option" where
  "subset_inner r = (case r of Whole \<Rightarrow> None | These es \<Rightarrow> Some es | Except es \<Rightarrow> Some es)"

definition subset_complexity :: "'a SubsetRestriction \<Rightarrow> nat" where
  "subset_complexity r = (case subset_inner r of None \<Rightarrow> 0 | Some es \<Rightarrow> fcard es)"

definition is_unrestricted :: "'a SubsetRestriction \<Rightarrow> bool" where
  "is_unrestricted r = (case r of Whole \<Rightarrow> True | _ \<Rightarrow> False)"

text \<open>The set of elements a restriction admits.\<close>

fun admitted :: "'a SubsetRestriction \<Rightarrow> 'a set" where
  "admitted Whole = UNIV"
| "admitted (These es) = fset es"
| "admitted (Except es) = - fset es"

lemma admitted_normalize [simp]: "admitted (normalize r) = admitted r"
  by (cases r) (auto simp: normalize_def)

lemma normalize_not_Except_empty: "normalize r = Except es \<Longrightarrow> es \<noteq> {||}"
  by (cases r) (auto simp: normalize_def split: if_splits)

lemma compl_fset_not_subset:
  assumes "infinite (UNIV :: 'a set)"
  shows "\<not> - fset a \<subseteq> fset (b :: 'a fset)"
proof
  assume "- fset a \<subseteq> fset b"
  then have "UNIV \<subseteq> fset a \<union> fset b" by auto
  then show False using assms finite_subset by fastforce
qed

lemma fset_not_UNIV: "infinite (UNIV :: 'a set) \<Longrightarrow> fset (a :: 'a fset) \<noteq> UNIV"
  by (metis finite_fset)

lemma cmp_same_cases:
  "cmp_same a b = Equal \<longleftrightarrow> fset a = fset b"
  "cmp_same a b = Less \<longleftrightarrow> fset a \<subset> fset b"
  "cmp_same a b = Greater \<longleftrightarrow> fset b \<subset> fset a"
  by (auto simp: cmp_same_def less_eq_fset.rep_eq split: bool.splits)

lemma subset_ge_normal:
  assumes inf: "infinite (UNIV :: 'a set)"
    and ne: "\<And>es. a = Except es \<Longrightarrow> es \<noteq> {||}"
  shows "lattice_cmp_normal a (b :: 'a SubsetRestriction) \<in> {Greater, Equal} \<longleftrightarrow>
    admitted b \<subseteq> admitted a"
proof (cases a)
  case Whole
  then show ?thesis by (cases b) simp_all
next
  case (These x)
  then show ?thesis
    using fset_not_UNIV [OF inf, of x] compl_fset_not_subset [OF inf, of _ x]
    by (cases b) (auto simp: cmp_same_cases cmp_diff_def)
next
  case (Except x)
  then have "fset x \<noteq> {}" using ne by (auto simp: fset_eq_iff)
  then show ?thesis
    using Except by (cases b) (auto simp: cmp_same_cases cmp_diff_def fset_eq_iff)
qed

lemma subset_ge_iff:
  assumes "infinite (UNIV :: 'a set)"
  shows "subset_ge a (b :: 'a SubsetRestriction) \<longleftrightarrow> admitted b \<subseteq> admitted a"
proof -
  have "subset_ge a b \<longleftrightarrow> lattice_cmp a b \<in> {Greater, Equal}"
    by (simp add: subset_ge_def split: LatticeOrdering.splits)
  then show ?thesis
    unfolding lattice_cmp_def
    using subset_ge_normal [OF assms, of "normalize a" "normalize b"]
    by (auto dest: normalize_not_Except_empty)
qed

lemma subset_ge_These: "subset_ge r (These es) \<longleftrightarrow> fset es \<subseteq> admitted r"
  by (cases r)
    (auto simp: subset_ge_def lattice_cmp_def normalize_def cmp_same_def cmp_diff_def
      less_eq_fset.rep_eq fset_eq_iff split: bool.splits)

lemma subset_union_admitted: "admitted (subset_union a b) = admitted a \<union> admitted b"
  by (cases a; cases b) auto

lemma infinite_UNIV_PortfolioId: "infinite (UNIV :: PortfolioId set)"
proof -
  have "inj (\<lambda>n. PortfolioId n Default)" by (simp add: inj_def)
  then have "infinite (range (\<lambda>n. PortfolioId n Default))"
    using finite_imageD infinite_UNIV_nat by blast
  then show ?thesis using finite_subset [of _ UNIV] by blast
qed

section \<open>Signing-key permissions and key records\<close>

record PalletPermissions =
  pallet_name :: PalletName
  dispatchable_names :: "DispatchableName SubsetRestriction"

type_synonym ExtrinsicPermissions = "PalletPermissions SubsetRestriction"

definition perm_matches :: "PalletPermissions \<Rightarrow> PalletName \<Rightarrow> DispatchableName \<Rightarrow> bool" where
  "perm_matches perm pallet dispatchable =
     (if pallet_name perm \<noteq> pallet then False
      else case dispatchable_names perm of
             Whole \<Rightarrow> True
           | These funcs \<Rightarrow> dispatchable |\<in>| funcs
           | Except funcs \<Rightarrow> dispatchable |\<notin>| funcs)"

definition sufficient_for :: "ExtrinsicPermissions \<Rightarrow> PalletName \<Rightarrow> DispatchableName \<Rightarrow> bool" where
  "sufficient_for perms pallet dispatchable =
     (case perms of
        Whole \<Rightarrow> True
      | These ps \<Rightarrow> fBex ps (\<lambda>p. perm_matches p pallet dispatchable)
      | Except ps \<Rightarrow> \<not> fBex ps (\<lambda>p. perm_matches p pallet dispatchable))"

record Permissions =
  asset_perms :: "Ticker SubsetRestriction"
  extrinsic_perms :: ExtrinsicPermissions
  portfolio_perms :: "PortfolioId SubsetRestriction"

definition empty_permissions :: Permissions where
  "empty_permissions =
     \<lparr>asset_perms = These {||}, extrinsic_perms = These {||}, portfolio_perms = These {||}\<rparr>"

definition full_permissions :: Permissions where
  "full_permissions = \<lparr>asset_perms = Whole, extrinsic_perms = Whole, portfolio_perms = Whole\<rparr>"

definition add_pallet_permissions :: "PalletPermissions \<Rightarrow> Permissions \<Rightarrow> Permissions" where
  "add_pallet_permissions pp ps =
     ps\<lparr>extrinsic_perms := subset_union (extrinsic_perms ps) (These {|pp|})\<rparr>"

datatype KeyRecord =
    PrimaryKey IdentityId
  | SecondaryKeyRecord IdentityId Permissions
  | MultiSigSignerKey AccountId

definition get_did_key_type :: "KeyRecord \<Rightarrow> (IdentityId \<times> bool) option" where
  "get_did_key_type r =
     (case r of
        PrimaryKey did \<Rightarrow> Some (did, True)
      | SecondaryKeyRecord did _ \<Rightarrow> Some (did, False)
      | MultiSigSignerKey _ \<Rightarrow> None)"

record SecondaryKey =
  sk_key :: AccountId
  sk_permissions :: Permissions

datatype Signatory = Identity IdentityId | Account AccountId

definition has_asset_permission :: "SecondaryKey \<Rightarrow> Ticker \<Rightarrow> bool" where
  "has_asset_permission sk asset = subset_ge (asset_perms (sk_permissions sk)) (These {|asset|})"

definition has_extrinsic_permission ::
  "SecondaryKey \<Rightarrow> PalletName \<Rightarrow> DispatchableName \<Rightarrow> bool" where
  "has_extrinsic_permission sk pallet dispatchable =
     sufficient_for (extrinsic_perms (sk_permissions sk)) pallet dispatchable"

definition has_portfolio_permission :: "SecondaryKey \<Rightarrow> PortfolioId list \<Rightarrow> bool" where
  "has_portfolio_permission sk ps =
     subset_ge (portfolio_perms (sk_permissions sk)) (These (fset_of_list ps))"

lemma has_asset_permission_iff:
  "has_asset_permission sk t \<longleftrightarrow> t \<in> admitted (asset_perms (sk_permissions sk))"
  by (simp add: has_asset_permission_def subset_ge_These)

lemma has_portfolio_permission_iff:
  "has_portfolio_permission sk ps \<longleftrightarrow> set ps \<subseteq> admitted (portfolio_perms (sk_permissions sk))"
  by (simp add: has_portfolio_permission_def subset_ge_These fset_of_list.rep_eq)

section \<open>Weight meter\<close>

record WeightMeter =
  minimum_charge :: Weight
  meter_consumed :: Weight
  meter_limit :: Weight

text \<open>
  The framework meter below \<open>WeightMeter\<close> is the field \<open>accrue\<close> of the configuration: given the
  limit, the weight consumed so far and a weight, it returns the new consumed weight, or nothing
  when the weight cannot be consumed.
\<close>

definition from_limit :: "Weight \<Rightarrow> Weight \<Rightarrow> WeightMeter option" where
  "from_limit minimum limit =
     (if ref_time limit < ref_time minimum then None
      else Some \<lparr>minimum_charge = minimum, meter_consumed = Weight 0 0, meter_limit = limit\<rparr>)"

definition max_limit :: "Weight \<Rightarrow> WeightMeter" where
  "max_limit minimum =
     \<lparr>minimum_charge = minimum, meter_consumed = Weight 0 0,
      meter_limit = Weight u64_max u64_max\<rparr>"

definition max_limit_no_minimum :: WeightMeter where
  "max_limit_no_minimum =
     \<lparr>minimum_charge = Weight 0 0, meter_consumed = Weight 0 0,
      meter_limit = Weight u64_max u64_max\<rparr>"

definition consumed :: "WeightMeter \<Rightarrow> Weight" where
  "consumed m =
     (if ref_time (meter_consumed m) < ref_time (minimum_charge m) then minimum_charge m
      else meter_consumed m)"

definition check_accrue :: "'c config_scheme \<Rightarrow> Weight \<Rightarrow> WeightMeter \<Rightarrow> WeightMeter option" where
  "check_accrue cfg w m =
     (case accrue cfg (meter_limit m) (meter_consumed m) w of
        None \<Rightarrow> None
      | Some c \<Rightarrow> Some (m\<lparr>meter_consumed := c\<rparr>))"

definition consume_weight_until_limit ::
  "'c config_scheme \<Rightarrow> Weight \<Rightarrow> WeightMeter \<Rightarrow> bool \<times> WeightMeter" where
  "consume_weight_until_limit cfg w m =
     (case accrue cfg (meter_limit m) (meter_consumed m) w of
        None \<Rightarrow> (False, m\<lparr>meter_consumed := meter_limit m\<rparr>)
      | Some c \<Rightarrow> (True, m\<lparr>meter_consumed := c\<rparr>))"

end
