(* ===== verification/Identity_Keys.thy ===== *)
theory Identity_Keys
  imports Primitives
begin

text \<open>
  The part of the identity pallet every other pallet goes through: the key records of accounts
  (\<open>pallets/identity/src/keys.rs\<close>), the check that a caller may call the current extrinsic
  (\<open>pallets/permissions\<close>) and the two-step authorizations (\<open>pallets/identity/src/auth.rs\<close>).
  The storage of the runtime is one extensible record; this theory declares its first two layers.
  A storage map with a default value is a total function, an \<open>Option\<close> map is a partial one.
\<close>

section \<open>Storage\<close>

datatype Origin = Root | Signed AccountId | Unsigned

record system_store =
  timestamp :: Moment
  block_number :: BlockNumber
  CurrentPalletName :: PalletName
  CurrentDispatchableName :: DispatchableName

datatype AgentGroup = Full | Custom nat | ExceptMeta | PolymeshV1CAA | PolymeshV1PIA

datatype AuthorizationData =
    AttestPrimaryKeyRotation IdentityId
  | RotatePrimaryKey
  | TransferTicker Ticker
  | AddMultiSigSigner AccountId
  | TransferAssetOwnership Ticker
  | JoinIdentity Permissions
  | PortfolioCustody PortfolioId
  | BecomeAgent Ticker AgentGroup
  | AddRelayerPayingKey AccountId AccountId Balance
  | RotatePrimaryKeyToSecondary Permissions

datatype AuthorizationError = Invalid | Unauthorized | Expired | BadType

definition dispatch_error_of_auth :: "AuthorizationError \<Rightarrow> dispatch_error" where
  "dispatch_error_of_auth e =
     (case e of
        Invalid \<Rightarrow> Other ''Authorization does not exist''
      | AuthorizationError.Unauthorized \<Rightarrow> Other ''Illegal use of Authorization''
      | Expired \<Rightarrow> Other ''Authorization expired''
      | BadType \<Rightarrow> Other ''Authorization type is wrong'')"

record Authorization =
  authorization_data :: AuthorizationData
  authorized_by :: IdentityId
  auth_expiry :: "Moment option"
  auth_id :: nat
  auth_count :: nat

record DidRecord =
  primary_key :: "AccountId option"

record identity_store = system_store +
  DidRecords :: "IdentityId \<Rightarrow> DidRecord option"
  IsDidFrozen :: "IdentityId \<Rightarrow> bool"
  CurrentDid :: "IdentityId option"
  KeyRecords :: "AccountId \<Rightarrow> KeyRecord option"
  DidKeys :: "IdentityId \<Rightarrow> AccountId \<Rightarrow> bool"
  MultiPurposeNonce :: nat
  Authorizations :: "Signatory \<Rightarrow> nat \<Rightarrow> Authorization option"
  AuthorizationsGiven :: "IdentityId \<Rightarrow> nat \<Rightarrow> Signatory option"

section \<open>Key records\<close>

definition get_identity :: "'a identity_store_scheme \<Rightarrow> AccountId \<Rightarrow> IdentityId option" where
  "get_identity s key =
     (case KeyRecords s key of
        Some (PrimaryKey did) \<Rightarrow> Some did
      | Some (SecondaryKeyRecord did _) \<Rightarrow> if \<not> IsDidFrozen s did then Some did else None
      | _ \<Rightarrow> None)"

definition is_key_authorized :: "'a identity_store_scheme \<Rightarrow> IdentityId \<Rightarrow> AccountId \<Rightarrow> bool" where
  "is_key_authorized s did key \<longleftrightarrow> get_identity s key = Some did"

definition get_primary_key :: "'a identity_store_scheme \<Rightarrow> IdentityId \<Rightarrow> AccountId option" where
  "get_primary_key s did = Option.bind (DidRecords s did) primary_key"

definition is_primary_key :: "'a identity_store_scheme \<Rightarrow> IdentityId \<Rightarrow> AccountId \<Rightarrow> bool" where
  "is_primary_key s did key \<longleftrightarrow> get_primary_key s did = Some key"

definition is_identity_exists :: "'a identity_store_scheme \<Rightarrow> IdentityId \<Rightarrow> bool" where
  "is_identity_exists s did \<longleftrightarrow> DidRecords s did \<noteq> None"

definition can_add_key_record :: "'a identity_store_scheme \<Rightarrow> AccountId \<Rightarrow> bool" where
  "can_add_key_record s key \<longleftrightarrow> KeyRecords s key = None"

definition add_key_record ::
  "AccountId \<Rightarrow> KeyRecord \<Rightarrow> 'a identity_store_scheme \<Rightarrow> 'a identity_store_scheme" where
  "add_key_record key r s =
     (if can_add_key_record s key then
        let s1 = s\<lparr>KeyRecords := (KeyRecords s)(key \<mapsto> r)\<rparr> in
        case get_did_key_type r of
          None \<Rightarrow> s1
        | Some (did, is_primary) \<Rightarrow>
            let s2 = s1\<lparr>DidKeys := (DidKeys s1)(did := (DidKeys s1 did)(key := True))\<rparr> in
            if is_primary
            then s2\<lparr>DidRecords := (DidRecords s2)(did \<mapsto> \<lparr>primary_key = Some key\<rparr>)\<rparr>
            else s2
      else s)"

definition remove_did_key ::
  "IdentityId \<Rightarrow> AccountId \<Rightarrow> 'a identity_store_scheme \<Rightarrow> 'a identity_store_scheme" where
  "remove_did_key did key s = s\<lparr>DidKeys := (DidKeys s)(did := (DidKeys s did)(key := False))\<rparr>"

definition clear_primary_key ::
  "IdentityId \<Rightarrow> AccountId \<Rightarrow> 'a identity_store_scheme \<Rightarrow> 'a identity_store_scheme" where
  "clear_primary_key did key s =
     (case DidRecords s did of
        Some d \<Rightarrow>
          if primary_key d = Some key
          then s\<lparr>DidRecords := (DidRecords s)(did \<mapsto> d\<lparr>primary_key := None\<rparr>)\<rparr>
          else s
      | None \<Rightarrow> s)"

definition remove_key_record ::
  "AccountId \<Rightarrow> IdentityId option \<Rightarrow> 'a identity_store_scheme \<Rightarrow> 'a identity_store_scheme" where
  "remove_key_record key did s =
     (let (s1, remove_key) =
        (case KeyRecords s key of
           Some (PrimaryKey did1) \<Rightarrow>
             if Some did1 = did then (remove_did_key did1 key (clear_primary_key did1 key s), True)
             else (s, False)
         | Some (SecondaryKeyRecord did1 _) \<Rightarrow>
             if Some did1 = did then (remove_did_key did1 key s, True) else (s, False)
         | Some (MultiSigSignerKey _) \<Rightarrow> if did = None then (s, True) else (s, False)
         | None \<Rightarrow> (s, False))
      in if remove_key then s1\<lparr>KeyRecords := (KeyRecords s1)(key := None)\<rparr> else s1)"

text \<open>\<open>DidKeys\<close> is the reverse of \<open>KeyRecords\<close>.\<close>

definition did_keys_inverse :: "'a identity_store_scheme \<Rightarrow> bool" where
  "did_keys_inverse s \<longleftrightarrow>
     (\<forall>did key. DidKeys s did key \<longleftrightarrow>
        (\<exists>p. Option.bind (KeyRecords s key) get_did_key_type = Some (did, p)))"

lemma add_key_record_inverse [inv_intros]:
  "did_keys_inverse s \<Longrightarrow> did_keys_inverse (add_key_record key r s)"
  by (auto simp: did_keys_inverse_def add_key_record_def can_add_key_record_def Let_def
      split: option.splits prod.splits if_splits)

lemma remove_key_record_inverse [inv_intros]:
  "did_keys_inverse s \<Longrightarrow> did_keys_inverse (remove_key_record key did s)"
  by (auto simp: did_keys_inverse_def remove_key_record_def remove_did_key_def
      clear_primary_key_def get_did_key_type_def Let_def
      split: option.splits prod.splits if_splits KeyRecord.splits)

section \<open>Call permissions\<close>

record AccountCallPermissionsData =
  ap_primary_did :: IdentityId
  ap_secondary_key :: "SecondaryKey option"

record PermissionedCallOriginData =
  sender :: AccountId
  primary_did :: IdentityId
  secondary_key :: "SecondaryKey option"

definition ensure_signed :: "Origin \<Rightarrow> AccountId result" where
  "ensure_signed origin = (case origin of Signed who \<Rightarrow> Inr who | _ \<Rightarrow> Inl BadOrigin)"

definition ensure_root :: "Origin \<Rightarrow> unit result" where
  "ensure_root origin = (case origin of Root \<Rightarrow> Inr () | _ \<Rightarrow> Inl BadOrigin)"

definition check_account_call_permissions ::
  "'a identity_store_scheme \<Rightarrow> AccountId \<Rightarrow> PalletName \<Rightarrow> DispatchableName
    \<Rightarrow> AccountCallPermissionsData option" where
  "check_account_call_permissions s who pallet function =
     (case KeyRecords s who of
        Some (PrimaryKey did) \<Rightarrow> Some \<lparr>ap_primary_did = did, ap_secondary_key = None\<rparr>
      | Some (SecondaryKeyRecord did permissions) \<Rightarrow>
          if \<not> IsDidFrozen s did then
            let sk = \<lparr>sk_key = who, sk_permissions = permissions\<rparr> in
            if has_extrinsic_permission sk pallet function
            then Some \<lparr>ap_primary_did = did, ap_secondary_key = Some sk\<rparr>
            else None
          else None
      | _ \<Rightarrow> None)"

definition ensure_call_permissions ::
  "'a identity_store_scheme \<Rightarrow> AccountId \<Rightarrow> AccountCallPermissionsData result" where
  "ensure_call_permissions s who =
     ok_or (check_account_call_permissions s who (CurrentPalletName s) (CurrentDispatchableName s))
       (PermissionsError UnauthorizedCaller)"

definition ensure_origin_call_permissions ::
  "'a identity_store_scheme \<Rightarrow> Origin \<Rightarrow> PermissionedCallOriginData result" where
  "ensure_origin_call_permissions s origin =
     attempt (ensure_signed origin) (\<lambda>who.
     attempt (ensure_call_permissions s who) (\<lambda>d.
     Inr \<lparr>sender = who, primary_did = ap_primary_did d, secondary_key = ap_secondary_key d\<rparr>))"

definition ensure_perms :: "'a identity_store_scheme \<Rightarrow> Origin \<Rightarrow> IdentityId result" where
  "ensure_perms s origin = attempt (ensure_origin_call_permissions s origin) (\<lambda>x. Inr (primary_did x))"

definition swap_call_metadata ::
  "PalletName \<Rightarrow> DispatchableName \<Rightarrow> 'a system_store_scheme
    \<Rightarrow> (PalletName \<times> DispatchableName) \<times> 'a system_store_scheme" where
  "swap_call_metadata p d s =
     ((CurrentPalletName s, CurrentDispatchableName s),
      s\<lparr>CurrentPalletName := p, CurrentDispatchableName := d\<rparr>)"

definition with_call_metadata ::
  "PalletName \<Rightarrow> DispatchableName \<Rightarrow> ('a system_store_scheme \<Rightarrow> 'r \<times> 'a system_store_scheme)
    \<Rightarrow> 'a system_store_scheme \<Rightarrow> 'r \<times> 'a system_store_scheme" where
  "with_call_metadata p d tx s =
     (let ((p0, d0), s1) = swap_call_metadata p d s;
          (r, s2) = tx s1;
          (_, s3) = swap_call_metadata p0 d0 s2
      in (r, s3))"

lemma ensure_signed_Inr [res_simps]: "ensure_signed origin = Inr who \<longleftrightarrow> origin = Signed who"
  by (cases origin) (simp_all add: ensure_signed_def)

lemma ensure_root_Inr [res_simps]: "ensure_root origin = Inr u \<longleftrightarrow> origin = Root"
  by (cases origin) (simp_all add: ensure_root_def)

text \<open>Who may call: the owner of a primary key, or an unfrozen secondary key with the permission.\<close>

lemma check_account_call_permissions_Some:
  "check_account_call_permissions s who pallet function = Some d \<longleftrightarrow>
     (KeyRecords s who = Some (PrimaryKey (ap_primary_did d)) \<and> ap_secondary_key d = None) \<or>
     (\<exists>perms. KeyRecords s who = Some (SecondaryKeyRecord (ap_primary_did d) perms) \<and>
        \<not> IsDidFrozen s (ap_primary_did d) \<and> sufficient_for (extrinsic_perms perms) pallet function \<and>
        ap_secondary_key d = Some \<lparr>sk_key = who, sk_permissions = perms\<rparr>)"
  by (cases d)
    (auto simp: check_account_call_permissions_def has_extrinsic_permission_def Let_def
      split: option.splits KeyRecord.splits)

lemma ensure_perms_did:
  "ensure_perms s origin = Inr did \<Longrightarrow> \<exists>who. origin = Signed who \<and> get_identity s who = Some did"
  by (auto simp: ensure_perms_def ensure_origin_call_permissions_def ensure_call_permissions_def
      res_simps check_account_call_permissions_Some get_identity_def)

section \<open>Authorizations\<close>

definition set_authorization ::
  "Signatory \<Rightarrow> nat \<Rightarrow> Authorization option \<Rightarrow> 'a identity_store_scheme
    \<Rightarrow> 'a identity_store_scheme" where
  "set_authorization target i v s =
     s\<lparr>Authorizations := (Authorizations s)(target := (Authorizations s target)(i := v))\<rparr>"

definition set_authorization_given ::
  "IdentityId \<Rightarrow> nat \<Rightarrow> Signatory option \<Rightarrow> 'a identity_store_scheme
    \<Rightarrow> 'a identity_store_scheme" where
  "set_authorization_given did i v s =
     s\<lparr>AuthorizationsGiven := (AuthorizationsGiven s)(did := (AuthorizationsGiven s did)(i := v))\<rparr>"

definition add_auth ::
  "IdentityId \<Rightarrow> Signatory \<Rightarrow> AuthorizationData \<Rightarrow> Moment option \<Rightarrow> 'a identity_store_scheme
    \<Rightarrow> nat \<times> 'a identity_store_scheme" where
  "add_auth from target dat expiry s =
     (let new_nonce = wrapping_add u64_max (MultiPurposeNonce s) 1;
          s1 = s\<lparr>MultiPurposeNonce := new_nonce\<rparr>;
          auth = \<lparr>authorization_data = dat, authorized_by = from, auth_expiry = expiry,
                  auth_id = new_nonce, auth_count = 50\<rparr>;
          s2 = set_authorization target new_nonce (Some auth) s1;
          s3 = set_authorization_given from new_nonce (Some target) s2
      in (new_nonce, s3))"

definition ensure_authorization ::
  "'a identity_store_scheme \<Rightarrow> Signatory \<Rightarrow> nat \<Rightarrow> Authorization result" where
  "ensure_authorization s target i =
     ok_or (Authorizations s target i) (dispatch_error_of_auth Invalid)"

definition ensure_auth_by :: "IdentityId \<Rightarrow> IdentityId \<Rightarrow> unit result" where
  "ensure_auth_by auth_by from =
     ensure (auth_by = from) (dispatch_error_of_auth AuthorizationError.Unauthorized) (Inr ())"

definition unsafe_remove_auth ::
  "Signatory \<Rightarrow> nat \<Rightarrow> IdentityId \<Rightarrow> 'a identity_store_scheme \<Rightarrow> 'a identity_store_scheme" where
  "unsafe_remove_auth target i authorizer s =
     set_authorization_given authorizer i None (set_authorization target i None s)"

definition eq_either :: "Signatory \<Rightarrow> IdentityId \<Rightarrow> AccountId \<Rightarrow> bool" where
  "eq_either sg did key = (case sg of Account k \<Rightarrow> k = key | Identity i \<Rightarrow> i = did)"

definition current_identity_or ::
  "'a identity_store_scheme \<Rightarrow> AccountId \<Rightarrow> IdentityId result" where
  "current_identity_or s key =
     ok_or (case CurrentDid s of Some d \<Rightarrow> Some d | None \<Rightarrow> get_identity s key)
       (Other ''Current identity is none and key is not linked to any identity'')"

definition base_remove_authorization ::
  "Origin \<Rightarrow> Signatory \<Rightarrow> nat \<Rightarrow> 'a identity_store_scheme \<Rightarrow> ('a identity_store_scheme) result" where
  "base_remove_authorization origin target i s =
     attempt (ensure_signed origin) (\<lambda>who.
     attempt (if KeyRecords s who \<noteq> None
              then attempt (ensure_call_permissions s who) (\<lambda>d. Inr (ap_primary_did d))
              else current_identity_or s who) (\<lambda>from_did.
     attempt (ensure_authorization s target i) (\<lambda>auth.
     let revoked = authorized_by auth = from_did in
     ensure (revoked \<or> eq_either target from_did who) (IdentityError identity_error.Unauthorized)
       (Inr (unsafe_remove_auth target i (authorized_by auth) s)))))"

text \<open>
  \<open>accept_auth_with\<close> writes storage on its error path too, so it returns the state with the
  result. The extrinsic around it runs in a storage layer of the framework, which keeps the state
  of a success and drops the state of a failure: \<open>storage_layer\<close>.
\<close>

definition accept_auth_with ::
  "Signatory \<Rightarrow> nat
    \<Rightarrow> (AuthorizationData \<Rightarrow> IdentityId \<Rightarrow> 'a identity_store_scheme \<Rightarrow> ('a identity_store_scheme) result)
    \<Rightarrow> 'a identity_store_scheme \<Rightarrow> 'a identity_store_scheme \<times> unit result" where
  "accept_auth_with target i accepter s =
     (case ensure_authorization s target i of
        Inl e \<Rightarrow> (s, Inl e)
      | Inr auth \<Rightarrow>
          if (case auth_expiry auth of None \<Rightarrow> False | Some expiry \<Rightarrow> \<not> expiry > timestamp s)
          then (s, Inl (dispatch_error_of_auth Expired))
          else
            (case accepter (authorization_data auth) (authorized_by auth) s of
               Inl e \<Rightarrow>
                 let auth' = auth\<lparr>auth_count := saturating_sub (auth_count auth) 1\<rparr> in
                 (if auth_count auth' = 0
                  then unsafe_remove_auth target i (authorized_by auth) s
                  else set_authorization target i (Some auth') s, Inl e)
             | Inr s' \<Rightarrow> (unsafe_remove_auth target i (authorized_by auth) s', Inr ())))"

definition storage_layer :: "'s \<times> unit result \<Rightarrow> 's result" where
  "storage_layer p = (case snd p of Inl e \<Rightarrow> Inl e | Inr _ \<Rightarrow> Inr (fst p))"

lemma accept_auth_with_Inr [res_simps]:
  "storage_layer (accept_auth_with target i accepter s) = Inr t \<longleftrightarrow>
     (\<exists>auth s'. Authorizations s target i = Some auth \<and>
        (\<forall>e. auth_expiry auth = Some e \<longrightarrow> timestamp s < e) \<and>
        accepter (authorization_data auth) (authorized_by auth) s = Inr s' \<and>
        t = unsafe_remove_auth target i (authorized_by auth) s')"
  by (auto simp: accept_auth_with_def storage_layer_def ensure_authorization_def Let_def ok_or_Inr_iff
      split: option.splits sum.splits if_splits)

lemma unsafe_remove_auth_gone [simp]:
  "Authorizations (unsafe_remove_auth target i by s) target i = None"
  by (simp add: unsafe_remove_auth_def set_authorization_def set_authorization_given_def)

end
