(* ===== verification/Asset_Storage.thy ===== *)
theory Asset_Storage
  imports Identity_Keys
begin

text \<open>
  The storage layers of the asset and NFT pallets and the queries other pallets make of them
  through \<open>AssetFnTrait\<close> and \<open>NFTTrait\<close> (\<open>pallets/asset/src/lib.rs\<close>, \<open>pallets/nft/src/lib.rs\<close>).
  They come before the portfolio pallet, which both pallets call and which calls back only into
  these queries. A double map to \<open>bool\<close> in which only \<open>true\<close> is ever stored is a set of keys.
\<close>

type_synonym CustomAssetTypeId = nat
type_synonym AssetName = string
type_synonym FundingRoundName = string
type_synonym NFTId = nat
type_synonym NFTCollectionId = nat
type_synonym NFTCount = nat

definition ONE_UNIT :: Balance where "ONE_UNIT = 1000000"

definition MAX_SUPPLY :: Balance where "MAX_SUPPLY = ONE_UNIT * 1000000000000"

datatype NonFungibleType =
    NFDerivative | NFFixedIncome | NFInvoice | NFCustom CustomAssetTypeId

datatype AssetType =
    EquityCommon | EquityPreferred | Commodity | FixedIncome | REIT | Fund
  | RevenueShareAgreement | StructuredProduct | Derivative | CustomAsset CustomAssetTypeId
  | StableCoin | NonFungible NonFungibleType

definition is_non_fungible :: "AssetType \<Rightarrow> bool" where
  "is_non_fungible t = (case t of NonFungible _ \<Rightarrow> True | _ \<Rightarrow> False)"

definition is_fungible :: "AssetType \<Rightarrow> bool" where
  "is_fungible t = (case t of NonFungible _ \<Rightarrow> False | _ \<Rightarrow> True)"

datatype AssetOwnershipRelation = NotOwned | TickerOwned | AssetOwned

record SecurityToken =
  total_supply :: Balance
  owner_did :: IdentityId
  divisible :: bool
  asset_type :: AssetType

record TickerRegistration =
  ticker_owner :: IdentityId
  ticker_expiry :: "Moment option"

record TickerRegistrationConfig =
  max_ticker_length :: nat
  registration_length :: "Moment option"

datatype AssetMetadataKey = Global nat | Local nat

instantiation AssetMetadataKey :: linorder
begin

definition metadata_key_rank :: "AssetMetadataKey \<Rightarrow> nat \<times> nat" where
  "metadata_key_rank k = (case k of Global n \<Rightarrow> (0, n) | Local n \<Rightarrow> (1, n))"

definition less_eq_AssetMetadataKey :: "AssetMetadataKey \<Rightarrow> AssetMetadataKey \<Rightarrow> bool" where
  "less_eq_AssetMetadataKey a b \<longleftrightarrow>
     fst (metadata_key_rank a) < fst (metadata_key_rank b) \<or>
     fst (metadata_key_rank a) = fst (metadata_key_rank b) \<and>
     snd (metadata_key_rank a) \<le> snd (metadata_key_rank b)"

definition less_AssetMetadataKey :: "AssetMetadataKey \<Rightarrow> AssetMetadataKey \<Rightarrow> bool" where
  "less_AssetMetadataKey a b \<longleftrightarrow> a \<le> b \<and> \<not> b \<le> a"

instance
proof
  fix a b c :: AssetMetadataKey
  show "(a < b) = (a \<le> b \<and> \<not> b \<le> a)" by (simp add: less_AssetMetadataKey_def)
  show "a \<le> a" by (simp add: less_eq_AssetMetadataKey_def)
  show "a \<le> b \<Longrightarrow> b \<le> c \<Longrightarrow> a \<le> c" by (auto simp: less_eq_AssetMetadataKey_def)
  show "a \<le> b \<Longrightarrow> b \<le> a \<Longrightarrow> a = b"
    by (cases a; cases b) (auto simp: less_eq_AssetMetadataKey_def metadata_key_rank_def)
  show "a \<le> b \<or> b \<le> a" by (auto simp: less_eq_AssetMetadataKey_def)
qed

end

record asset_store = identity_store +
  Tickers :: "Ticker \<Rightarrow> TickerRegistration option"
  TickerConfig :: TickerRegistrationConfig
  Tokens :: "Ticker \<Rightarrow> SecurityToken option"
  AssetNames :: "Ticker \<Rightarrow> AssetName option"
  BalanceOf :: "Ticker \<Rightarrow> IdentityId \<Rightarrow> Balance"
  CustomTypeIdSequence :: CustomAssetTypeId
  CustomTypes :: "CustomAssetTypeId \<Rightarrow> string option"
  CustomTypesInverse :: "string \<Rightarrow> CustomAssetTypeId option"
  FundingRound :: "Ticker \<Rightarrow> FundingRoundName"
  IssuedInFundingRound :: "Ticker \<Rightarrow> FundingRoundName \<Rightarrow> Balance"
  Frozen :: "Ticker \<Rightarrow> bool"
  AssetOwnershipRelations :: "IdentityId \<Rightarrow> Ticker \<Rightarrow> AssetOwnershipRelation"
  AssetMetadataGlobalKeyToName :: "nat \<Rightarrow> string option"
  AssetMetadataLocalKeyToName :: "Ticker \<Rightarrow> nat \<Rightarrow> string option"
  TickersExemptFromAffirmation :: "Ticker \<Rightarrow> bool"
  PreApprovedTicker :: "IdentityId \<Rightarrow> Ticker \<Rightarrow> bool"
  MandatoryMediators :: "Ticker \<Rightarrow> IdentityId list"

record NFTCollection =
  collection_id :: NFTCollectionId
  collection_ticker :: Ticker

record nft_store = asset_store +
  NumberOfNFTs :: "Ticker \<Rightarrow> IdentityId \<Rightarrow> NFTCount"
  CollectionTicker :: "Ticker \<Rightarrow> NFTCollectionId option"
  Collection :: "NFTCollectionId \<Rightarrow> NFTCollection option"
  CollectionKeys :: "NFTCollectionId \<Rightarrow> AssetMetadataKey list"
  MetadataValue :: "NFTCollectionId \<times> NFTId \<Rightarrow> AssetMetadataKey \<Rightarrow> string option"
  NextCollectionId :: NFTCollectionId
  NextNFTId :: "NFTCollectionId \<Rightarrow> NFTId"
  NFTsInCollection :: "Ticker \<Rightarrow> NFTCount"
  NFTOwner :: "Ticker \<Rightarrow> NFTId \<Rightarrow> PortfolioId option"

section \<open>Queries of the asset pallet\<close>

definition token_details :: "'a asset_store_scheme \<Rightarrow> Ticker \<Rightarrow> SecurityToken result" where
  "token_details s ticker = ok_or (Tokens s ticker) (AssetError NoSuchAsset)"

definition is_divisible :: "'a asset_store_scheme \<Rightarrow> Ticker \<Rightarrow> bool" where
  "is_divisible s ticker =
     (case token_details s ticker of Inr t \<Rightarrow> divisible t | Inl _ \<Rightarrow> False)"

definition is_unit_multiple :: "Balance \<Rightarrow> bool" where
  "is_unit_multiple v \<longleftrightarrow> v mod ONE_UNIT = 0"

definition check_granularity :: "'a asset_store_scheme \<Rightarrow> Ticker \<Rightarrow> Balance \<Rightarrow> bool" where
  "check_granularity s ticker v \<longleftrightarrow> is_divisible s ticker \<or> is_unit_multiple v"

definition ensure_granular :: "'a asset_store_scheme \<Rightarrow> Ticker \<Rightarrow> Balance \<Rightarrow> unit result" where
  "ensure_granular s ticker v =
     ensure (check_granularity s ticker v) (AssetError InvalidGranularity) (Inr ())"

definition skip_ticker_affirmation :: "'a asset_store_scheme \<Rightarrow> IdentityId \<Rightarrow> Ticker \<Rightarrow> bool" where
  "skip_ticker_affirmation s did ticker =
     (if TickersExemptFromAffirmation s ticker then True else PreApprovedTicker s did ticker)"

definition ticker_affirmation_exemption :: "'a asset_store_scheme \<Rightarrow> Ticker \<Rightarrow> bool" where
  "ticker_affirmation_exemption s ticker = TickersExemptFromAffirmation s ticker"

section \<open>Queries and updates of the NFT pallet\<close>

definition is_collection_key :: "'a nft_store_scheme \<Rightarrow> Ticker \<Rightarrow> AssetMetadataKey \<Rightarrow> bool" where
  "is_collection_key s ticker key =
     (case CollectionTicker s ticker of
        Some c \<Rightarrow> List.member (CollectionKeys s c) key
      | None \<Rightarrow> False)"

definition move_portfolio_owner ::
  "Ticker \<Rightarrow> NFTId \<Rightarrow> PortfolioId \<Rightarrow> 'a nft_store_scheme \<Rightarrow> 'a nft_store_scheme" where
  "move_portfolio_owner ticker nft_id owner s =
     s\<lparr>NFTOwner := (NFTOwner s)(ticker := (NFTOwner s ticker)(nft_id \<mapsto> owner))\<rparr>"

end
