(* ===== verification/Portfolio.thy ===== *)
theory Portfolio
  imports Asset_Storage
begin

text \<open>
  The portfolio pallet (\<open>pallets/portfolio/src/lib.rs\<close>): its storage layer, every extrinsic and
  every function other pallets call, and the invariants the pallet keeps. Balances, locks and
  asset counts are per portfolio; names and numbers of user portfolios are inverse to each other;
  custody has an index by custodian; non-fungible tokens have one owning portfolio.
\<close>

section \<open>Storage\<close>

record NFTs =
  nfts_ticker :: Ticker
  nfts_ids :: "NFTId list"

datatype FundDescription = FungibleFund Ticker Balance | NonFungibleFund NFTs

record Fund =
  description :: FundDescription
  fund_memo :: "string option"

record portfolio_store = nft_store +
  NextPortfolioNumber :: "IdentityId \<Rightarrow> PortfolioNumber"
  Portfolios :: "IdentityId \<Rightarrow> PortfolioNumber \<Rightarrow> PortfolioName option"
  NameToNumber :: "IdentityId \<Rightarrow> PortfolioName \<Rightarrow> PortfolioNumber option"
  PortfolioAssetCount :: "PortfolioId \<Rightarrow> nat"
  PortfolioAssetBalances :: "PortfolioId \<Rightarrow> Ticker \<Rightarrow> Balance"
  PortfolioLockedAssets :: "PortfolioId \<Rightarrow> Ticker \<Rightarrow> Balance"
  PortfolioCustodian :: "PortfolioId \<Rightarrow> IdentityId option"
  PortfoliosInCustody :: "IdentityId \<Rightarrow> PortfolioId \<Rightarrow> bool"
  PortfolioNFT :: "PortfolioId \<Rightarrow> (Ticker \<times> NFTId) fset"
  PortfolioLockedNFT :: "PortfolioId \<Rightarrow> (Ticker \<times> NFTId) fset"
  PreApprovedPortfolios :: "PortfolioId \<Rightarrow> Ticker \<Rightarrow> bool"
  AllowedCustodians :: "IdentityId \<Rightarrow> IdentityId \<Rightarrow> bool"

definition put_balance ::
  "PortfolioId \<Rightarrow> Ticker \<Rightarrow> Balance \<Rightarrow> 'a portfolio_store_scheme \<Rightarrow> 'a portfolio_store_scheme" where
  "put_balance p t v s = s\<lparr>PortfolioAssetBalances :=
     (PortfolioAssetBalances s)(p := (PortfolioAssetBalances s p)(t := v))\<rparr>"

definition put_locked ::
  "PortfolioId \<Rightarrow> Ticker \<Rightarrow> Balance \<Rightarrow> 'a portfolio_store_scheme \<Rightarrow> 'a portfolio_store_scheme" where
  "put_locked p t v s = s\<lparr>PortfolioLockedAssets :=
     (PortfolioLockedAssets s)(p := (PortfolioLockedAssets s p)(t := v))\<rparr>"

definition put_portfolio_name ::
  "IdentityId \<Rightarrow> PortfolioNumber \<Rightarrow> PortfolioName option \<Rightarrow> 'a portfolio_store_scheme
    \<Rightarrow> 'a portfolio_store_scheme" where
  "put_portfolio_name d n v s = s\<lparr>Portfolios := (Portfolios s)(d := (Portfolios s d)(n := v))\<rparr>"

definition put_name_number ::
  "IdentityId \<Rightarrow> PortfolioName \<Rightarrow> PortfolioNumber option \<Rightarrow> 'a portfolio_store_scheme
    \<Rightarrow> 'a portfolio_store_scheme" where
  "put_name_number d name v s =
     s\<lparr>NameToNumber := (NameToNumber s)(d := (NameToNumber s d)(name := v))\<rparr>"

definition put_in_custody ::
  "IdentityId \<Rightarrow> PortfolioId \<Rightarrow> bool \<Rightarrow> 'a portfolio_store_scheme \<Rightarrow> 'a portfolio_store_scheme" where
  "put_in_custody d p v s =
     s\<lparr>PortfoliosInCustody := (PortfoliosInCustody s)(d := (PortfoliosInCustody s d)(p := v))\<rparr>"

definition put_custodian ::
  "PortfolioId \<Rightarrow> IdentityId option \<Rightarrow> 'a portfolio_store_scheme \<Rightarrow> 'a portfolio_store_scheme" where
  "put_custodian p v s = s\<lparr>PortfolioCustodian := (PortfolioCustodian s)(p := v)\<rparr>"

definition add_nft ::
  "PortfolioId \<Rightarrow> Ticker \<times> NFTId \<Rightarrow> 'a portfolio_store_scheme \<Rightarrow> 'a portfolio_store_scheme" where
  "add_nft p k s = s\<lparr>PortfolioNFT := (PortfolioNFT s)(p := finsert k (PortfolioNFT s p))\<rparr>"

definition remove_nft ::
  "PortfolioId \<Rightarrow> Ticker \<times> NFTId \<Rightarrow> 'a portfolio_store_scheme \<Rightarrow> 'a portfolio_store_scheme" where
  "remove_nft p k s = s\<lparr>PortfolioNFT := (PortfolioNFT s)(p := PortfolioNFT s p |-| {|k|})\<rparr>"

lemmas put_defs = put_balance_def put_locked_def put_portfolio_name_def put_name_number_def
  put_in_custody_def put_custodian_def add_nft_def remove_nft_def

section \<open>Queries and checks\<close>

definition custodian :: "'a portfolio_store_scheme \<Rightarrow> PortfolioId \<Rightarrow> IdentityId" where
  "custodian s pid = (case PortfolioCustodian s pid of Some c \<Rightarrow> c | None \<Rightarrow> pid_did pid)"

definition ensure_name_unique ::
  "'c config_scheme \<Rightarrow> 'a portfolio_store_scheme \<Rightarrow> IdentityId \<Rightarrow> PortfolioName \<Rightarrow> unit result" where
  "ensure_name_unique cfg s did name =
     attempt (ensure_string_limited cfg name) (\<lambda>_.
     ensure (NameToNumber s did name = None) (PortfolioError PortfolioNameAlreadyInUse) (Inr ()))"

definition ensure_portfolio_validity :: "'a portfolio_store_scheme \<Rightarrow> PortfolioId \<Rightarrow> unit result" where
  "ensure_portfolio_validity s p =
     (case pid_kind p of
        User num \<Rightarrow>
          ensure (Portfolios s (pid_did p) num \<noteq> None) (PortfolioError PortfolioDoesNotExist) (Inr ())
      | Default \<Rightarrow> Inr ())"

definition ensure_user_portfolio_validity ::
  "'a portfolio_store_scheme \<Rightarrow> IdentityId \<Rightarrow> PortfolioNumber \<Rightarrow> PortfolioName result" where
  "ensure_user_portfolio_validity s did num =
     ok_or (Portfolios s did num) (PortfolioError PortfolioDoesNotExist)"

definition ensure_user_portfolio_permission ::
  "SecondaryKey option \<Rightarrow> PortfolioId \<Rightarrow> unit result" where
  "ensure_user_portfolio_permission sk p =
     (case sk of
        Some k \<Rightarrow> ensure (has_portfolio_permission k [p])
                 (PortfolioError SecondaryKeyNotAuthorizedForPortfolio) (Inr ())
      | None \<Rightarrow> Inr ())"

definition ensure_portfolio_custody ::
  "'a portfolio_store_scheme \<Rightarrow> PortfolioId \<Rightarrow> IdentityId \<Rightarrow> unit result" where
  "ensure_portfolio_custody s p c =
     ensure ((case PortfolioCustodian s p of Some d \<Rightarrow> d | None \<Rightarrow> pid_did p) = c)
       (PortfolioError UnauthorizedCustodian) (Inr ())"

definition ensure_portfolio_custody_and_permission ::
  "'a portfolio_store_scheme \<Rightarrow> PortfolioId \<Rightarrow> IdentityId \<Rightarrow> SecondaryKey option \<Rightarrow> unit result" where
  "ensure_portfolio_custody_and_permission s p c sk =
     attempt (ensure_portfolio_custody s p c) (\<lambda>_. ensure_user_portfolio_permission sk p)"

definition ensure_sufficient_balance ::
  "'a portfolio_store_scheme \<Rightarrow> PortfolioId \<Rightarrow> Ticker \<Rightarrow> Balance \<Rightarrow> unit result" where
  "ensure_sufficient_balance s p ticker amount =
     attempt (ensure_granular s ticker amount) (\<lambda>_.
     attempt (ok_or (checked_sub (saturating_sub (PortfolioAssetBalances s p ticker)
                                    (PortfolioLockedAssets s p ticker)) amount)
                (PortfolioError InsufficientPortfolioBalance)) (\<lambda>_. Inr ()))"

definition ensure_portfolio_transfer_validity ::
  "'a portfolio_store_scheme \<Rightarrow> PortfolioId \<Rightarrow> PortfolioId \<Rightarrow> Ticker \<Rightarrow> Balance \<Rightarrow> unit result" where
  "ensure_portfolio_transfer_validity s from to ticker amount =
     ensure (from \<noteq> to) (PortfolioError DestinationIsSamePortfolio) (
     attempt (ensure_portfolio_validity s from) (\<lambda>_.
     attempt (ensure_portfolio_validity s to) (\<lambda>_.
     ensure_sufficient_balance s from ticker amount)))"

record PortfolioValidityResult =
  receiver_is_same_portfolio :: bool
  sender_portfolio_does_not_exist :: bool
  receiver_portfolio_does_not_exist :: bool
  sender_insufficient_balance :: bool
  validity_result :: bool

definition ensure_portfolio_transfer_validity_granular ::
  "'a portfolio_store_scheme \<Rightarrow> PortfolioId \<Rightarrow> PortfolioId \<Rightarrow> Ticker \<Rightarrow> Balance
    \<Rightarrow> PortfolioValidityResult" where
  "ensure_portfolio_transfer_validity_granular s from to ticker amount =
     (let same = from = to;
          no_sender = \<not> is_ok (ensure_portfolio_validity s from);
          no_receiver = \<not> is_ok (ensure_portfolio_validity s to);
          low = \<not> is_ok (ensure_sufficient_balance s from ticker amount)
      in \<lparr>receiver_is_same_portfolio = same,
          sender_portfolio_does_not_exist = no_sender,
          receiver_portfolio_does_not_exist = no_receiver,
          sender_insufficient_balance = low,
          validity_result = (\<not> same \<and> \<not> no_sender \<and> \<not> no_receiver \<and> \<not> low)\<rparr>)"

definition skip_portfolio_affirmation ::
  "'a portfolio_store_scheme \<Rightarrow> PortfolioId \<Rightarrow> Ticker \<Rightarrow> bool" where
  "skip_portfolio_affirmation s p ticker =
     (if PortfolioCustodian s p \<noteq> None then
        if ticker_affirmation_exemption s ticker then True
        else PreApprovedPortfolios s p ticker
      else if skip_ticker_affirmation s (pid_did p) ticker then True
      else PreApprovedPortfolios s p ticker)"

section \<open>Balances and locks\<close>

definition transition_asset_count ::
  "PortfolioId \<Rightarrow> Balance \<Rightarrow> Balance \<Rightarrow> 'a portfolio_store_scheme \<Rightarrow> 'a portfolio_store_scheme" where
  "transition_asset_count pid old new s =
     (case (old = 0, new = 0) of
        (True, False) \<Rightarrow> s\<lparr>PortfolioAssetCount :=
           (PortfolioAssetCount s)(pid := saturating_add u64_max (PortfolioAssetCount s pid) 1)\<rparr>
      | (False, True) \<Rightarrow> s\<lparr>PortfolioAssetCount :=
           (PortfolioAssetCount s)(pid := saturating_sub (PortfolioAssetCount s pid) 1)\<rparr>
      | _ \<Rightarrow> s)"

definition set_portfolio_balance ::
  "PortfolioId \<Rightarrow> Ticker \<Rightarrow> Balance \<Rightarrow> 'a portfolio_store_scheme \<Rightarrow> 'a portfolio_store_scheme" where
  "set_portfolio_balance pid ticker new s =
     put_balance pid ticker new
       (transition_asset_count pid (PortfolioAssetBalances s pid ticker) new s)"

definition unchecked_transfer_portfolio_balance ::
  "PortfolioId \<Rightarrow> PortfolioId \<Rightarrow> Ticker \<Rightarrow> Balance \<Rightarrow> 'a portfolio_store_scheme
    \<Rightarrow> 'a portfolio_store_scheme" where
  "unchecked_transfer_portfolio_balance from to ticker amount s =
     (let old = PortfolioAssetBalances s from ticker;
          new = saturating_sub old amount;
          s1 = put_balance from ticker new (transition_asset_count from old new s);
          old2 = PortfolioAssetBalances s1 to ticker;
          new2 = saturating_add u128_max old2 amount
      in put_balance to ticker new2 (transition_asset_count to old2 new2 s1))"

definition reduce_portfolio_balance ::
  "PortfolioId \<Rightarrow> Ticker \<Rightarrow> Balance \<Rightarrow> 'a portfolio_store_scheme
    \<Rightarrow> ('a portfolio_store_scheme) result" where
  "reduce_portfolio_balance pid ticker amount s =
     (let total = PortfolioAssetBalances s pid ticker;
          locked = PortfolioLockedAssets s pid ticker
      in attempt (ok_or (case checked_sub total amount of
                           Some rb \<Rightarrow> if rb \<ge> locked then Some rb else None
                         | None \<Rightarrow> None)
                    (PortfolioError InsufficientPortfolioBalance)) (\<lambda>remaining.
         Inr (transition_asset_count pid total remaining (put_balance pid ticker remaining s))))"

definition unchecked_lock_tokens ::
  "PortfolioId \<Rightarrow> Ticker \<Rightarrow> Balance \<Rightarrow> 'a portfolio_store_scheme \<Rightarrow> 'a portfolio_store_scheme" where
  "unchecked_lock_tokens p ticker amount s =
     put_locked p ticker (saturating_add u128_max (PortfolioLockedAssets s p ticker) amount) s"

definition lock_tokens ::
  "PortfolioId \<Rightarrow> Ticker \<Rightarrow> Balance \<Rightarrow> 'a portfolio_store_scheme
    \<Rightarrow> ('a portfolio_store_scheme) result" where
  "lock_tokens p ticker amount s =
     attempt (ensure_sufficient_balance s p ticker amount) (\<lambda>_.
     Inr (unchecked_lock_tokens p ticker amount s))"

definition unlock_tokens ::
  "PortfolioId \<Rightarrow> Ticker \<Rightarrow> Balance \<Rightarrow> 'a portfolio_store_scheme
    \<Rightarrow> ('a portfolio_store_scheme) result" where
  "unlock_tokens p ticker amount s =
     (let locked = PortfolioLockedAssets s p ticker in
      ensure (locked \<ge> amount) (PortfolioError InsufficientTokensLocked)
        (Inr (put_locked p ticker (locked - amount) s)))"

definition lock_nft ::
  "PortfolioId \<Rightarrow> Ticker \<Rightarrow> NFTId \<Rightarrow> 'a portfolio_store_scheme
    \<Rightarrow> ('a portfolio_store_scheme) result" where
  "lock_nft p ticker nft_id s =
     ensure ((ticker, nft_id) |\<in>| PortfolioNFT s p) (PortfolioError NFTNotFoundInPortfolio) (
     ensure ((ticker, nft_id) |\<notin>| PortfolioLockedNFT s p) (PortfolioError NFTAlreadyLocked) (
     Inr (s\<lparr>PortfolioLockedNFT :=
            (PortfolioLockedNFT s)(p := finsert (ticker, nft_id) (PortfolioLockedNFT s p))\<rparr>)))"

definition unlock_nft ::
  "PortfolioId \<Rightarrow> Ticker \<Rightarrow> NFTId \<Rightarrow> 'a portfolio_store_scheme
    \<Rightarrow> ('a portfolio_store_scheme) result" where
  "unlock_nft p ticker nft_id s =
     ensure ((ticker, nft_id) |\<in>| PortfolioLockedNFT s p) (PortfolioError NFTNotLocked) (
     Inr (s\<lparr>PortfolioLockedNFT :=
            (PortfolioLockedNFT s)(p := PortfolioLockedNFT s p |-| {|(ticker, nft_id)|})\<rparr>))"

section \<open>Extrinsics\<close>

definition get_next_portfolio_number ::
  "IdentityId \<Rightarrow> 'a portfolio_store_scheme \<Rightarrow> PortfolioNumber \<times> 'a portfolio_store_scheme" where
  "get_next_portfolio_number did s =
     (NextPortfolioNumber s did,
      s\<lparr>NextPortfolioNumber :=
          (NextPortfolioNumber s)(did := wrapping_add u64_max (NextPortfolioNumber s did) 1)\<rparr>)"

definition base_create_portfolio ::
  "'c config_scheme \<Rightarrow> IdentityId \<Rightarrow> PortfolioName \<Rightarrow> 'a portfolio_store_scheme
    \<Rightarrow> ('a portfolio_store_scheme) result" where
  "base_create_portfolio cfg owner name s =
     attempt (ensure_name_unique cfg s owner name) (\<lambda>_.
     let (number, s1) = get_next_portfolio_number owner s in
     Inr (put_portfolio_name owner number (Some name)
           (put_name_number owner name (Some number) s1)))"

definition create_portfolio ::
  "'c config_scheme \<Rightarrow> Origin \<Rightarrow> PortfolioName \<Rightarrow> 'a portfolio_store_scheme
    \<Rightarrow> ('a portfolio_store_scheme) result" where
  "create_portfolio cfg origin name s =
     attempt (ensure_perms s origin) (\<lambda>did. base_create_portfolio cfg did name s)"

definition delete_portfolio ::
  "Origin \<Rightarrow> PortfolioNumber \<Rightarrow> 'a portfolio_store_scheme \<Rightarrow> ('a portfolio_store_scheme) result" where
  "delete_portfolio origin num s =
     attempt (ensure_origin_call_permissions s origin) (\<lambda>d.
     let did = primary_did d; pid = user_portfolio did num in
     ensure (PortfolioAssetCount s pid = 0) (PortfolioError PortfolioNotEmpty) (
     ensure (fcard (PortfolioNFT s pid) = 0) (PortfolioError PortfolioNotEmpty) (
     ensure (fcard (PortfolioLockedNFT s pid) = 0) (PortfolioError PortfolioNotEmpty) (
     attempt (ensure_user_portfolio_validity s did num) (\<lambda>portfolio.
     attempt (ensure_portfolio_custody_and_permission s pid did (secondary_key d)) (\<lambda>_.
     let s1 = put_portfolio_name did num None s;
         s2 = put_name_number did portfolio None s1;
         s3 = s2\<lparr>PortfolioAssetCount := (PortfolioAssetCount s2)(pid := 0)\<rparr>;
         s4 = s3\<lparr>PortfolioAssetBalances := (PortfolioAssetBalances s3)(pid := \<lambda>_. 0)\<rparr>;
         s5 = s4\<lparr>PortfolioLockedAssets := (PortfolioLockedAssets s4)(pid := \<lambda>_. 0)\<rparr>;
         s6 = put_in_custody (custodian s5 pid) pid False s5
     in Inr (put_custodian pid None s6)))))))"

definition rename_portfolio ::
  "'c config_scheme \<Rightarrow> Origin \<Rightarrow> PortfolioNumber \<Rightarrow> PortfolioName \<Rightarrow> 'a portfolio_store_scheme
    \<Rightarrow> ('a portfolio_store_scheme) result" where
  "rename_portfolio cfg origin num to_name s =
     attempt (ensure_origin_call_permissions s origin) (\<lambda>d.
     let did = primary_did d in
     attempt (ensure_user_portfolio_permission (secondary_key d) (user_portfolio did num)) (\<lambda>_.
     attempt (ensure_user_portfolio_validity s did num) (\<lambda>old_name.
     attempt (ensure_name_unique cfg s did to_name) (\<lambda>_.
     Inr (put_name_number did to_name (Some num)
           (put_portfolio_name did num (Some to_name)
             (put_name_number did old_name None s)))))))"

definition quit_portfolio_custody ::
  "Origin \<Rightarrow> PortfolioId \<Rightarrow> 'a portfolio_store_scheme \<Rightarrow> ('a portfolio_store_scheme) result" where
  "quit_portfolio_custody origin pid s =
     attempt (ensure_perms s origin) (\<lambda>did.
     let c = custodian s pid in
     ensure (did = c) (PortfolioError UnauthorizedCustodian)
       (Inr (put_in_custody c pid False (put_custodian pid None s))))"

definition unverified_take_portfolio_custody ::
  "PortfolioId \<Rightarrow> IdentityId \<Rightarrow> 'a portfolio_store_scheme \<Rightarrow> 'a portfolio_store_scheme" where
  "unverified_take_portfolio_custody pid c s =
     put_in_custody c pid True (put_custodian pid (Some c) s)"

definition take_custody_with_auth ::
  "IdentityId \<Rightarrow> AuthorizationData \<Rightarrow> IdentityId \<Rightarrow> 'a portfolio_store_scheme
    \<Rightarrow> ('a portfolio_store_scheme) result" where
  "take_custody_with_auth to dat from s =
     (case dat of
        PortfolioCustody pid \<Rightarrow>
          let curr = custodian s pid in
          attempt (ensure_auth_by from curr) (\<lambda>_.
          let s1 = put_in_custody curr pid False s in
          Inr (if pid_did pid = to then put_custodian pid None s1
               else unverified_take_portfolio_custody pid to s1))
      | _ \<Rightarrow> Inl (dispatch_error_of_auth BadType))"

definition base_accept_portfolio_custody ::
  "Origin \<Rightarrow> nat \<Rightarrow> 'a portfolio_store_scheme \<Rightarrow> ('a portfolio_store_scheme) result" where
  "base_accept_portfolio_custody origin i s =
     attempt (ensure_perms s origin) (\<lambda>to.
     storage_layer (accept_auth_with (Identity to) i (take_custody_with_auth to) s))"

definition ensure_portfolios_validity_and_permissions ::
  "'a portfolio_store_scheme \<Rightarrow> Origin \<Rightarrow> PortfolioId \<Rightarrow> PortfolioId \<Rightarrow> IdentityId result" where
  "ensure_portfolios_validity_and_permissions s origin from to =
     attempt (ensure_origin_call_permissions s origin) (\<lambda>d.
     ensure (from \<noteq> to) (PortfolioError DestinationIsSamePortfolio) (
     ensure (pid_did from = pid_did to) (PortfolioError DifferentIdentityPortfolios) (
     attempt (ensure_portfolio_validity s to) (\<lambda>_.
     attempt (ensure_portfolio_custody_and_permission s from (primary_did d) (secondary_key d)) (\<lambda>_.
     attempt (ensure_user_portfolio_permission (secondary_key d) to) (\<lambda>_.
     Inr (primary_did d)))))))"

definition ensure_valid_nfts ::
  "'a portfolio_store_scheme \<Rightarrow> PortfolioId \<Rightarrow> Ticker \<Rightarrow> NFTId list \<Rightarrow> unit result" where
  "ensure_valid_nfts s p ticker ids =
     each_res (\<lambda>nft_id.
       ensure ((ticker, nft_id) |\<in>| PortfolioNFT s p) (PortfolioError InvalidTransferNFTNotOwned) (
       ensure ((ticker, nft_id) |\<notin>| PortfolioLockedNFT s p)
         (PortfolioError InvalidTransferNFTIsLocked) (Inr ()))) ids"

fun ensure_valid_funds_from ::
  "'a portfolio_store_scheme \<Rightarrow> PortfolioId \<Rightarrow> Ticker list \<Rightarrow> Fund list \<Rightarrow> unit result" where
  "ensure_valid_funds_from s p seen [] = Inr ()"
| "ensure_valid_funds_from s p seen (fund # funds) =
     (case description fund of
        FungibleFund ticker amount \<Rightarrow>
          ensure (amount > 0) (PortfolioError EmptyTransfer) (
          ensure (ticker \<notin> set seen) (PortfolioError NoDuplicateAssetsAllowed) (
          attempt (ensure_sufficient_balance s p ticker amount) (\<lambda>_.
          ensure_valid_funds_from s p (ticker # seen) funds)))
      | NonFungibleFund nfts \<Rightarrow>
          ensure (length (nfts_ids nfts) > 0) (PortfolioError EmptyTransfer) (
          attempt (ensure_valid_nfts s p (nfts_ticker nfts) (nfts_ids nfts)) (\<lambda>_.
          ensure_valid_funds_from s p seen funds)))"

definition ensure_valid_funds ::
  "'a portfolio_store_scheme \<Rightarrow> PortfolioId \<Rightarrow> Fund list \<Rightarrow> unit result" where
  "ensure_valid_funds s p funds = ensure_valid_funds_from s p [] funds"

definition move_nft ::
  "PortfolioId \<Rightarrow> PortfolioId \<Rightarrow> Ticker \<Rightarrow> NFTId \<Rightarrow> 'a portfolio_store_scheme
    \<Rightarrow> 'a portfolio_store_scheme" where
  "move_nft from to ticker nft_id s =
     move_portfolio_owner ticker nft_id to
       (add_nft to (ticker, nft_id) (remove_nft from (ticker, nft_id) s))"

definition move_fund ::
  "PortfolioId \<Rightarrow> PortfolioId \<Rightarrow> Fund \<Rightarrow> 'a portfolio_store_scheme \<Rightarrow> 'a portfolio_store_scheme" where
  "move_fund from to fund s =
     (case description fund of
        FungibleFund ticker amount \<Rightarrow> unchecked_transfer_portfolio_balance from to ticker amount s
      | NonFungibleFund nfts \<Rightarrow> fold (move_nft from to (nfts_ticker nfts)) (nfts_ids nfts) s)"

definition unchecked_move_funds ::
  "PortfolioId \<Rightarrow> PortfolioId \<Rightarrow> Fund list \<Rightarrow> 'a portfolio_store_scheme
    \<Rightarrow> 'a portfolio_store_scheme" where
  "unchecked_move_funds from to funds s = fold (move_fund from to) funds s"

definition move_portfolio_funds ::
  "Origin \<Rightarrow> PortfolioId \<Rightarrow> PortfolioId \<Rightarrow> Fund list \<Rightarrow> 'a portfolio_store_scheme
    \<Rightarrow> ('a portfolio_store_scheme) result" where
  "move_portfolio_funds origin from to funds s =
     attempt (ensure_portfolios_validity_and_permissions s origin from to) (\<lambda>_.
     attempt (ensure_valid_funds s from funds) (\<lambda>_.
     Inr (unchecked_move_funds from to funds s)))"

definition set_pre_approval ::
  "PortfolioId \<Rightarrow> Ticker \<Rightarrow> bool \<Rightarrow> 'a portfolio_store_scheme \<Rightarrow> 'a portfolio_store_scheme" where
  "set_pre_approval p t v s = s\<lparr>PreApprovedPortfolios :=
     (PreApprovedPortfolios s)(p := (PreApprovedPortfolios s p)(t := v))\<rparr>"

definition base_pre_approve_portfolio ::
  "Origin \<Rightarrow> Ticker \<Rightarrow> PortfolioId \<Rightarrow> 'a portfolio_store_scheme
    \<Rightarrow> ('a portfolio_store_scheme) result" where
  "base_pre_approve_portfolio origin ticker p s =
     attempt (ensure_origin_call_permissions s origin) (\<lambda>d.
     attempt (ensure_portfolio_validity s p) (\<lambda>_.
     attempt (ensure_portfolio_custody_and_permission s p (primary_did d) (secondary_key d)) (\<lambda>_.
     Inr (set_pre_approval p ticker True s))))"

definition base_remove_portfolio_pre_approval ::
  "Origin \<Rightarrow> Ticker \<Rightarrow> PortfolioId \<Rightarrow> 'a portfolio_store_scheme
    \<Rightarrow> ('a portfolio_store_scheme) result" where
  "base_remove_portfolio_pre_approval origin ticker p s =
     attempt (ensure_origin_call_permissions s origin) (\<lambda>d.
     attempt (ensure_portfolio_validity s p) (\<lambda>_.
     attempt (ensure_portfolio_custody_and_permission s p (primary_did d) (secondary_key d)) (\<lambda>_.
     Inr (set_pre_approval p ticker False s))))"

definition set_allowed_custodian ::
  "IdentityId \<Rightarrow> IdentityId \<Rightarrow> bool \<Rightarrow> 'a portfolio_store_scheme \<Rightarrow> 'a portfolio_store_scheme" where
  "set_allowed_custodian owner c v s = s\<lparr>AllowedCustodians :=
     (AllowedCustodians s)(owner := (AllowedCustodians s owner)(c := v))\<rparr>"

definition base_allow_identity_to_create_portfolios ::
  "Origin \<Rightarrow> IdentityId \<Rightarrow> 'a portfolio_store_scheme \<Rightarrow> ('a portfolio_store_scheme) result" where
  "base_allow_identity_to_create_portfolios origin trusted s =
     attempt (ensure_perms s origin) (\<lambda>did. Inr (set_allowed_custodian did trusted True s))"

definition base_revoke_create_portfolios_permission ::
  "Origin \<Rightarrow> IdentityId \<Rightarrow> 'a portfolio_store_scheme \<Rightarrow> ('a portfolio_store_scheme) result" where
  "base_revoke_create_portfolios_permission origin identity s =
     attempt (ensure_perms s origin) (\<lambda>did. Inr (set_allowed_custodian did identity False s))"

definition base_create_custody_portfolio ::
  "'c config_scheme \<Rightarrow> Origin \<Rightarrow> IdentityId \<Rightarrow> PortfolioName \<Rightarrow> 'a portfolio_store_scheme
    \<Rightarrow> ('a portfolio_store_scheme) result" where
  "base_create_custody_portfolio cfg origin owner name s =
     attempt (ensure_perms s origin) (\<lambda>did.
     ensure (AllowedCustodians s owner did) (PortfolioError MissingOwnersPermission) (
     let pid = PortfolioId owner (User (NextPortfolioNumber s owner)) in
     attempt (base_create_portfolio cfg owner name s) (\<lambda>s1.
     Inr (unverified_take_portfolio_custody pid did s1))))"

end
