(* ===== verification/Portfolio_Invariants.thy ===== *)
theory Portfolio_Invariants
  imports Portfolio
begin

text \<open>
  What the portfolio pallet guarantees: the invariants of its storage, that every operation keeps
  them, what each operation does to balances and locks, and that no portfolio operation changes
  the holdings of an identity.
\<close>

section \<open>Invariants\<close>

definition locked_within_balance :: "'a portfolio_store_scheme \<Rightarrow> bool" where
  "locked_within_balance s \<longleftrightarrow>
     (\<forall>p t. PortfolioLockedAssets s p t \<le> PortfolioAssetBalances s p t)"

definition asset_count_exact :: "'a portfolio_store_scheme \<Rightarrow> bool" where
  "asset_count_exact s \<longleftrightarrow>
     (\<forall>p. fin_supp (PortfolioAssetBalances s p) \<and>
          PortfolioAssetCount s p = supp_card (PortfolioAssetBalances s p))"

definition portfolio_total :: "'a portfolio_store_scheme \<Rightarrow> Ticker \<Rightarrow> Balance" where
  "portfolio_total s t = sum_supp (\<lambda>p. PortfolioAssetBalances s p t) UNIV"

definition did_total :: "'a portfolio_store_scheme \<Rightarrow> IdentityId \<Rightarrow> Ticker \<Rightarrow> Balance" where
  "did_total s d t = sum_supp (\<lambda>p. PortfolioAssetBalances s p t) {p. pid_did p = d}"

definition balances_bounded :: "'a portfolio_store_scheme \<Rightarrow> bool" where
  "balances_bounded s \<longleftrightarrow>
     (\<forall>t. fin_supp (\<lambda>p. PortfolioAssetBalances s p t) \<and> portfolio_total s t \<le> u128_max)"

definition names_bijective :: "'a portfolio_store_scheme \<Rightarrow> bool" where
  "names_bijective s \<longleftrightarrow>
     (\<forall>d n name. Portfolios s d n = Some name \<longleftrightarrow> NameToNumber s d name = Some n)"

definition numbers_fresh :: "'a portfolio_store_scheme \<Rightarrow> bool" where
  "numbers_fresh s \<longleftrightarrow> (\<forall>d n. Portfolios s d n \<noteq> None \<longrightarrow> n < NextPortfolioNumber s d)"

definition custody_indexed :: "'a portfolio_store_scheme \<Rightarrow> bool" where
  "custody_indexed s \<longleftrightarrow> (\<forall>d p. PortfoliosInCustody s d p \<longleftrightarrow> PortfolioCustodian s p = Some d)"

definition nft_owner_exact :: "'a portfolio_store_scheme \<Rightarrow> bool" where
  "nft_owner_exact s \<longleftrightarrow> (\<forall>p t n. (t, n) |\<in>| PortfolioNFT s p \<longleftrightarrow> NFTOwner s t n = Some p)"

definition locked_nft_owned :: "'a portfolio_store_scheme \<Rightarrow> bool" where
  "locked_nft_owned s \<longleftrightarrow> (\<forall>p k. k |\<in>| PortfolioLockedNFT s p \<longrightarrow> k |\<in>| PortfolioNFT s p)"

definition circulating :: "'a portfolio_store_scheme \<Rightarrow> Ticker set" where
  "circulating s = {t. portfolio_total s t \<noteq> 0}"

definition tickers_bounded :: "'a portfolio_store_scheme \<Rightarrow> bool" where
  "tickers_bounded s \<longleftrightarrow> finite (circulating s) \<and> card (circulating s) < u64_max"

definition portfolio_inv :: "'a portfolio_store_scheme \<Rightarrow> bool" where
  "portfolio_inv s \<longleftrightarrow>
     locked_within_balance s \<and> asset_count_exact s \<and> balances_bounded s \<and> tickers_bounded s \<and>
     names_bijective s \<and> numbers_fresh s \<and> nft_owner_exact s \<and> locked_nft_owned s"

text \<open>
  The asset count of a portfolio is a 64-bit counter that saturates: it is exact because fewer
  than \<open>2^64 - 1\<close> tickers circulate. The sequence number of portfolios is a 64-bit counter that
  wraps: numbers stay fresh as long as it has not reached its end.
\<close>

definition numbers_left :: "'a portfolio_store_scheme \<Rightarrow> bool" where
  "numbers_left s \<longleftrightarrow> (\<forall>d. NextPortfolioNumber s d < u64_max)"

lemmas portfolio_inv_defs = portfolio_inv_def locked_within_balance_def asset_count_exact_def
  balances_bounded_def names_bijective_def numbers_fresh_def nft_owner_exact_def
  locked_nft_owned_def

lemma circulating_iff:
  assumes "fin_supp (\<lambda>p. PortfolioAssetBalances s p t)"
  shows "t \<in> circulating s \<longleftrightarrow> (\<exists>p. PortfolioAssetBalances s p t \<noteq> 0)"
  using sum_supp_eq_0 [OF assms, of UNIV]
  unfolding circulating_def portfolio_total_def mem_Collect_eq by (metis UNIV_I)

lemma circulating_eq:
  "balances_bounded s \<Longrightarrow> circulating s = {t. \<exists>p. PortfolioAssetBalances s p t \<noteq> 0}"
  using circulating_iff [of s] unfolding balances_bounded_def by blast

lemma asset_count_lt:
  assumes inv: "portfolio_inv s"
  shows "PortfolioAssetCount s p < u64_max"
proof -
  have "{t. PortfolioAssetBalances s p t \<noteq> 0} \<subseteq> circulating s"
    using inv circulating_eq [of s] by (auto simp: portfolio_inv_def)
  then have "supp_card (PortfolioAssetBalances s p) \<le> card (circulating s)"
    using inv by (simp add: supp_card_def portfolio_inv_def tickers_bounded_def card_mono)
  then show ?thesis
    using inv by (simp add: portfolio_inv_def asset_count_exact_def tickers_bounded_def)
qed

section \<open>Changing one balance\<close>

definition asset_count_after :: "Balance \<Rightarrow> Balance \<Rightarrow> nat \<Rightarrow> nat" where
  "asset_count_after old new c =
     (if old = 0 \<and> new \<noteq> 0 then saturating_add u64_max c 1
      else if old \<noteq> 0 \<and> new = 0 then c - 1 else c)"

lemma transition_asset_count_eq:
  "transition_asset_count pid old new s = s\<lparr>PortfolioAssetCount :=
     (PortfolioAssetCount s)(pid := asset_count_after old new (PortfolioAssetCount s pid))\<rparr>"
  by (auto simp: transition_asset_count_def asset_count_after_def)

lemma asset_count_after_exact:
  assumes "fin_supp f" "c = supp_card f" "c < u64_max"
  shows "asset_count_after (f k) v c = supp_card (f(k := v))"
  using assms supp_card_upd [OF assms(1), of k v]
  by (auto simp: asset_count_after_def saturating_add_def)

lemma set_portfolio_balance_eq:
  "set_portfolio_balance p t v s = s\<lparr>
     PortfolioAssetCount := (PortfolioAssetCount s)(p :=
        asset_count_after (PortfolioAssetBalances s p t) v (PortfolioAssetCount s p)),
     PortfolioAssetBalances := (PortfolioAssetBalances s)(p := (PortfolioAssetBalances s p)(t := v))\<rparr>"
  by (simp add: set_portfolio_balance_def transition_asset_count_eq put_defs)

lemma set_portfolio_balance_sel [simp]:
  "PortfolioAssetBalances (set_portfolio_balance p t v s) =
     (PortfolioAssetBalances s)(p := (PortfolioAssetBalances s p)(t := v))"
  "PortfolioLockedAssets (set_portfolio_balance p t v s) = PortfolioLockedAssets s"
  "Portfolios (set_portfolio_balance p t v s) = Portfolios s"
  "NameToNumber (set_portfolio_balance p t v s) = NameToNumber s"
  "NextPortfolioNumber (set_portfolio_balance p t v s) = NextPortfolioNumber s"
  "PortfolioCustodian (set_portfolio_balance p t v s) = PortfolioCustodian s"
  "PortfoliosInCustody (set_portfolio_balance p t v s) = PortfoliosInCustody s"
  "PortfolioNFT (set_portfolio_balance p t v s) = PortfolioNFT s"
  "PortfolioLockedNFT (set_portfolio_balance p t v s) = PortfolioLockedNFT s"
  "NFTOwner (set_portfolio_balance p t v s) = NFTOwner s"
  by (simp_all add: set_portfolio_balance_eq)

lemma balance_column_upd:
  "(\<lambda>q. ((PortfolioAssetBalances s)(p := (PortfolioAssetBalances s p)(t := v))) q u) =
     (if u = t then (\<lambda>q. PortfolioAssetBalances s q t)(p := v)
      else (\<lambda>q. PortfolioAssetBalances s q u))"
  by auto

lemma set_portfolio_balance_total:
  assumes "fin_supp (\<lambda>q. PortfolioAssetBalances s q t)"
  shows "portfolio_total (set_portfolio_balance p t v s) t + PortfolioAssetBalances s p t =
    portfolio_total s t + v"
  unfolding portfolio_total_def set_portfolio_balance_sel balance_column_upd
  using sum_supp_upd_in [OF assms, of p UNIV v] by simp

lemma set_portfolio_balance_total_other:
  "u \<noteq> t \<Longrightarrow> portfolio_total (set_portfolio_balance p t v s) u = portfolio_total s u"
  unfolding portfolio_total_def set_portfolio_balance_sel balance_column_upd by simp

lemma set_portfolio_balance_did_total:
  assumes "fin_supp (\<lambda>q. PortfolioAssetBalances s q t)"
  shows "did_total (set_portfolio_balance p t v s) (pid_did p) t + PortfolioAssetBalances s p t =
    did_total s (pid_did p) t + v"
  unfolding did_total_def set_portfolio_balance_sel balance_column_upd
  using sum_supp_upd_in [OF assms, of p "{q. pid_did q = pid_did p}" v] by simp

lemma set_portfolio_balance_did_total_other:
  "u \<noteq> t \<or> d \<noteq> pid_did p \<Longrightarrow>
    did_total (set_portfolio_balance p t v s) d u = did_total s d u"
  unfolding did_total_def set_portfolio_balance_sel balance_column_upd
  by (auto intro: sum_supp_upd_notin)

text \<open>
  Setting one balance keeps the invariant when the new balance covers the lock and the total of
  the ticker stays within the range of a balance.
\<close>

lemma set_portfolio_balance_inv:
  assumes inv: "portfolio_inv s"
    and new: "v \<noteq> 0 \<Longrightarrow> card (insert t (circulating s)) < u64_max"
    and lock: "PortfolioLockedAssets s p t \<le> v"
    and total: "portfolio_total s t + v \<le> u128_max + PortfolioAssetBalances s p t"
  shows "portfolio_inv (set_portfolio_balance p t v s)"
proof -
  let ?s = "set_portfolio_balance p t v s"
  have fs: "fin_supp (\<lambda>q. PortfolioAssetBalances s q u)" for u
    using inv by (simp add: portfolio_inv_defs)
  have fp: "fin_supp (PortfolioAssetBalances s q)"
    and cp: "PortfolioAssetCount s q = supp_card (PortfolioAssetBalances s q)" for q
    using inv by (simp_all add: portfolio_inv_defs)
  have bb: "balances_bounded s" using inv by (simp add: portfolio_inv_def)
  have "locked_within_balance ?s"
    using inv lock by (simp add: portfolio_inv_def locked_within_balance_def)
  moreover have "asset_count_exact ?s"
    using fp cp asset_count_after_exact [OF fp cp asset_count_lt [OF inv, of p], of t v]
    by (simp add: asset_count_exact_def set_portfolio_balance_eq)
  moreover have "balances_bounded ?s"
    unfolding balances_bounded_def
  proof (intro allI conjI)
    fix u
    show "fin_supp (\<lambda>q. PortfolioAssetBalances ?s q u)"
      unfolding set_portfolio_balance_sel balance_column_upd using fs by simp
    show "portfolio_total ?s u \<le> u128_max"
      using inv total set_portfolio_balance_total [OF fs, of p t v]
        set_portfolio_balance_total_other [of u t p v s]
      by (cases "u = t") (simp_all add: portfolio_inv_defs)
  qed
  moreover have "tickers_bounded ?s"
  proof -
    have fin: "finite (circulating s)" "card (circulating s) < u64_max"
      using inv by (simp_all add: portfolio_inv_def tickers_bounded_def)
    have "circulating ?s \<subseteq> (if v = 0 then circulating s else insert t (circulating s))"
      unfolding circulating_eq [OF \<open>balances_bounded ?s\<close>] circulating_eq [OF bb]
      by (auto split: if_splits)
    moreover have "finite (if v = 0 then circulating s else insert t (circulating s))"
      using fin by simp
    ultimately have "finite (circulating ?s)"
      and "card (circulating ?s) \<le> card (if v = 0 then circulating s else insert t (circulating s))"
      using finite_subset card_mono by blast+
    then show ?thesis using fin new by (auto simp: tickers_bounded_def split: if_splits)
  qed
  ultimately show ?thesis
    using inv
    unfolding portfolio_inv_def names_bijective_def numbers_fresh_def nft_owner_exact_def
       locked_nft_owned_def set_portfolio_balance_sel
    by blast
qed

section \<open>Transfers between portfolios\<close>

lemma transfer_as_updates:
  "from \<noteq> to \<Longrightarrow>
   unchecked_transfer_portfolio_balance from to t a s =
     set_portfolio_balance to t (saturating_add u128_max (PortfolioAssetBalances s to t) a)
       (set_portfolio_balance from t (PortfolioAssetBalances s from t - a) s)"
  by (simp add: unchecked_transfer_portfolio_balance_def set_portfolio_balance_def
      transition_asset_count_eq put_defs Let_def)

lemma transfer_fits:
  assumes "portfolio_inv s" "from \<noteq> to" "a \<le> PortfolioAssetBalances s from t"
  shows "PortfolioAssetBalances s to t + a \<le> u128_max"
proof -
  let ?f = "\<lambda>p. PortfolioAssetBalances s p t"
  have fs: "fin_supp ?f" and tot: "sum_supp ?f UNIV \<le> u128_max"
    using assms(1) by (simp_all add: portfolio_inv_defs portfolio_total_def)
  have "sum_supp ?f UNIV = ?f from + sum_supp ?f (UNIV - {from})"
    by (rule sum_supp_remove [OF fs]) simp
  moreover have "?f to \<le> sum_supp ?f (UNIV - {from})"
    using assms(2) by (intro sum_supp_member_le [OF fs]) simp
  ultimately show ?thesis using tot assms(3) by linarith
qed

lemma transfer_sel:
  assumes "portfolio_inv s" "from \<noteq> to" "a \<le> PortfolioAssetBalances s from t"
  shows "PortfolioAssetBalances (unchecked_transfer_portfolio_balance from to t a s) p u =
      (if u = t \<and> p = from then PortfolioAssetBalances s from t - a
       else if u = t \<and> p = to then PortfolioAssetBalances s to t + a
       else PortfolioAssetBalances s p u)"
    and "PortfolioLockedAssets (unchecked_transfer_portfolio_balance from to t a s) =
      PortfolioLockedAssets s"
    and "PortfolioNFT (unchecked_transfer_portfolio_balance from to t a s) = PortfolioNFT s"
    and "PortfolioLockedNFT (unchecked_transfer_portfolio_balance from to t a s) =
      PortfolioLockedNFT s"
    and "NFTOwner (unchecked_transfer_portfolio_balance from to t a s) = NFTOwner s"
  using transfer_fits [OF assms] assms(2)
  by (simp_all add: transfer_as_updates saturating_add_def)

lemma transfer_inv:
  assumes inv: "portfolio_inv s" and ne: "from \<noteq> to"
    and amt: "a \<le> PortfolioAssetBalances s from t - PortfolioLockedAssets s from t"
  shows "portfolio_inv (unchecked_transfer_portfolio_balance from to t a s)"
proof -
  let ?s1 = "set_portfolio_balance from t (PortfolioAssetBalances s from t - a) s"
  have le: "PortfolioLockedAssets s p u \<le> PortfolioAssetBalances s p u" for p u
    using inv by (simp add: portfolio_inv_defs)
  have amt': "a \<le> PortfolioAssetBalances s from t" using amt by simp
  have tot: "portfolio_total s t \<le> u128_max" and fs: "fin_supp (\<lambda>q. PortfolioAssetBalances s q t)"
    using inv by (simp_all add: portfolio_inv_defs)
  have circ: "PortfolioAssetBalances s p t \<noteq> 0 \<Longrightarrow> t \<in> circulating s" for p
    using circulating_iff [OF fs] by blast
  have bound: "finite (circulating s)" "card (circulating s) < u64_max"
    using inv by (simp_all add: portfolio_inv_def tickers_bounded_def)
  have i1: "portfolio_inv ?s1"
    by (rule set_portfolio_balance_inv [OF inv])
      (use amt le [of "from" t] tot circ [of "from"] bound in \<open>auto simp: insert_absorb\<close>)
  have t1: "portfolio_total ?s1 t + a = portfolio_total s t"
    using set_portfolio_balance_total [OF fs, of "from" "PortfolioAssetBalances s from t - a"] amt'
    by simp
  have sub: "circulating ?s1 \<subseteq> circulating s"
    using inv i1 by (auto simp: portfolio_inv_def circulating_eq split: if_splits)
  have "card (insert t (circulating ?s1)) < u64_max" if "PortfolioAssetBalances s to t + a \<noteq> 0"
  proof -
    have "t \<in> circulating s" using that circ amt' by (metis add_is_0 le_zero_eq)
    then have "insert t (circulating ?s1) \<subseteq> circulating s" using sub by blast
    then show ?thesis using bound by (meson card_mono le_less_trans)
  qed
  then have "portfolio_inv (set_portfolio_balance to t (PortfolioAssetBalances s to t + a) ?s1)"
    by (intro set_portfolio_balance_inv [OF i1])
      (use le [of to t] ne t1 tot in simp_all)
  then show ?thesis
    using transfer_fits [OF inv ne amt'] ne
    by (simp add: transfer_as_updates saturating_add_def)
qed

lemma transfer_portfolio_total:
  assumes inv: "portfolio_inv s" and ne: "from \<noteq> to"
    and amt: "a \<le> PortfolioAssetBalances s from t"
  shows "portfolio_total (unchecked_transfer_portfolio_balance from to t a s) u = portfolio_total s u"
proof -
  let ?s1 = "set_portfolio_balance from t (PortfolioAssetBalances s from t - a) s"
  have fs: "fin_supp (\<lambda>q. PortfolioAssetBalances s q t)"
    using inv by (simp add: portfolio_inv_defs)
  have fs1: "fin_supp (\<lambda>q. PortfolioAssetBalances ?s1 q t)"
    unfolding set_portfolio_balance_sel balance_column_upd using fs by simp
  show ?thesis
    using set_portfolio_balance_total [OF fs, of "from" "PortfolioAssetBalances s from t - a"]
      set_portfolio_balance_total [OF fs1, of to "PortfolioAssetBalances s to t + a"]
      transfer_fits [OF inv ne amt] ne amt
    by (cases "u = t")
      (simp_all add: transfer_as_updates saturating_add_def set_portfolio_balance_total_other)
qed

lemma transfer_did_total:
  assumes inv: "portfolio_inv s" and ne: "from \<noteq> to"
    and amt: "a \<le> PortfolioAssetBalances s from t"
  shows "did_total (unchecked_transfer_portfolio_balance from to t a s) d u +
      (if u = t \<and> d = pid_did from then a else 0) =
    did_total s d u + (if u = t \<and> d = pid_did to then a else 0)"
proof -
  let ?s1 = "set_portfolio_balance from t (PortfolioAssetBalances s from t - a) s"
  let ?s2 = "set_portfolio_balance to t (PortfolioAssetBalances s to t + a) ?s1"
  have eq: "unchecked_transfer_portfolio_balance from to t a s = ?s2"
    using transfer_fits [OF inv ne amt] ne by (simp add: transfer_as_updates saturating_add_def)
  have fs: "fin_supp (\<lambda>q. PortfolioAssetBalances s q t)"
    using inv by (simp add: portfolio_inv_defs)
  have fs1: "fin_supp (\<lambda>q. PortfolioAssetBalances ?s1 q t)"
    unfolding set_portfolio_balance_sel balance_column_upd using fs by simp
  have 1: "did_total ?s1 d u + (if u = t \<and> d = pid_did from then a else 0) = did_total s d u"
    using set_portfolio_balance_did_total [OF fs, of "from" "PortfolioAssetBalances s from t - a"]
      set_portfolio_balance_did_total_other [of u t d "from"] amt by auto
  have 2: "did_total ?s2 d u = did_total ?s1 d u + (if u = t \<and> d = pid_did to then a else 0)"
    using set_portfolio_balance_did_total [OF fs1, of to "PortfolioAssetBalances s to t + a"]
      set_portfolio_balance_did_total_other [of u t d to _ ?s1] ne by auto
  show ?thesis unfolding eq using 1 2 by simp
qed

section \<open>Frame rules\<close>

text \<open>
  The invariant reads only the fields collected in \<open>portfolio_view\<close>; an update of any other field
  of the runtime storage keeps it.
\<close>

definition balance_view where
  "balance_view s = (PortfolioAssetBalances s, PortfolioLockedAssets s, PortfolioAssetCount s)"

definition name_view where
  "name_view s = (Portfolios s, NameToNumber s, NextPortfolioNumber s)"

definition custody_view where
  "custody_view s = (PortfolioCustodian s, PortfoliosInCustody s)"

definition nft_view where
  "nft_view s = (PortfolioNFT s, PortfolioLockedNFT s, NFTOwner s)"

definition portfolio_view where
  "portfolio_view s = (balance_view s, name_view s, nft_view s)"

lemmas view_defs = portfolio_view_def balance_view_def name_view_def custody_view_def nft_view_def

definition balance_inv :: "'a portfolio_store_scheme \<Rightarrow> bool" where
  "balance_inv s \<longleftrightarrow>
     locked_within_balance s \<and> asset_count_exact s \<and> balances_bounded s \<and> tickers_bounded s"

definition name_inv :: "'a portfolio_store_scheme \<Rightarrow> bool" where
  "name_inv s \<longleftrightarrow> names_bijective s \<and> numbers_fresh s"

definition nft_inv :: "'a portfolio_store_scheme \<Rightarrow> bool" where
  "nft_inv s \<longleftrightarrow> nft_owner_exact s \<and> locked_nft_owned s"

lemma portfolio_inv_parts:
  "portfolio_inv s \<longleftrightarrow> balance_inv s \<and> name_inv s \<and> nft_inv s"
  by (auto simp: portfolio_inv_def balance_inv_def name_inv_def nft_inv_def)

lemma total_cong:
  "PortfolioAssetBalances s' = PortfolioAssetBalances s \<Longrightarrow> portfolio_total s' = portfolio_total s"
  "PortfolioAssetBalances s' = PortfolioAssetBalances s \<Longrightarrow> did_total s' = did_total s"
  "PortfolioAssetBalances s' = PortfolioAssetBalances s \<Longrightarrow> circulating s' = circulating s"
  by (auto simp: portfolio_total_def did_total_def circulating_def fun_eq_iff)

lemma balance_inv_cong: "balance_view s' = balance_view s \<Longrightarrow> balance_inv s' = balance_inv s"
  using total_cong [of s' s]
  by (simp add: view_defs balance_inv_def locked_within_balance_def asset_count_exact_def
      balances_bounded_def tickers_bounded_def)

lemma name_inv_cong: "name_view s' = name_view s \<Longrightarrow> name_inv s' = name_inv s"
  by (simp add: view_defs name_inv_def names_bijective_def numbers_fresh_def)

lemma custody_cong: "custody_view s' = custody_view s \<Longrightarrow> custody_indexed s' = custody_indexed s"
  by (simp add: view_defs custody_indexed_def)

lemma nft_inv_cong: "nft_view s' = nft_view s \<Longrightarrow> nft_inv s' = nft_inv s"
  by (simp add: view_defs nft_inv_def nft_owner_exact_def locked_nft_owned_def)

lemma portfolio_inv_cong: "portfolio_view s' = portfolio_view s \<Longrightarrow> portfolio_inv s' = portfolio_inv s"
  using balance_inv_cong name_inv_cong nft_inv_cong
  unfolding portfolio_inv_parts portfolio_view_def by (metis prod.inject)

lemma balance_le_max:
  assumes "portfolio_inv s"
  shows "PortfolioAssetBalances s p t \<le> u128_max"
proof -
  have "fin_supp (\<lambda>p. PortfolioAssetBalances s p t)" and le: "portfolio_total s t \<le> u128_max"
    using assms by (simp_all add: portfolio_inv_defs)
  then have "PortfolioAssetBalances s p t \<le> portfolio_total s t"
    unfolding portfolio_total_def by (intro sum_supp_member_le) simp_all
  then show ?thesis using le by simp
qed

section \<open>Locks\<close>

lemma ensure_sufficient_balance_Inr [res_simps]:
  "ensure_sufficient_balance s p t a = Inr u \<longleftrightarrow>
     check_granularity s t a \<and> a \<le> PortfolioAssetBalances s p t - PortfolioLockedAssets s p t"
  by (auto simp: ensure_sufficient_balance_def ensure_granular_def res_simps uint_simps)

lemma put_locked_inv:
  assumes "portfolio_inv s" "v \<le> PortfolioAssetBalances s p t"
  shows "portfolio_inv (put_locked p t v s)"
proof -
  have "balance_inv (put_locked p t v s)"
    using assms total_cong [of "put_locked p t v s" s]
    by (auto simp: portfolio_inv_parts balance_inv_def locked_within_balance_def
        asset_count_exact_def balances_bounded_def tickers_bounded_def put_locked_def)
  then show ?thesis
    using assms name_inv_cong [of "put_locked p t v s" s] nft_inv_cong [of "put_locked p t v s" s]
    by (simp add: portfolio_inv_parts view_defs put_locked_def)
qed

lemma lock_tokens_Inr:
  assumes "portfolio_inv s"
  shows "lock_tokens p t a s = Inr s' \<longleftrightarrow>
    check_granularity s t a \<and> PortfolioLockedAssets s p t + a \<le> PortfolioAssetBalances s p t \<and>
    s' = put_locked p t (PortfolioLockedAssets s p t + a) s"
proof -
  have "PortfolioLockedAssets s p t \<le> PortfolioAssetBalances s p t"
    using assms by (simp add: portfolio_inv_defs)
  then have le: "a \<le> PortfolioAssetBalances s p t - PortfolioLockedAssets s p t \<longleftrightarrow>
      PortfolioLockedAssets s p t + a \<le> PortfolioAssetBalances s p t" by linarith
  show ?thesis
    using balance_le_max [OF assms, of p t]
    by (auto simp: lock_tokens_def res_simps le unchecked_lock_tokens_def saturating_add_def)
qed

lemma unlock_tokens_Inr [res_simps]:
  "unlock_tokens p t a s = Inr s' \<longleftrightarrow>
    a \<le> PortfolioLockedAssets s p t \<and> s' = put_locked p t (PortfolioLockedAssets s p t - a) s"
  by (auto simp: unlock_tokens_def res_simps Let_def)

lemma lock_tokens_inv [inv_intros]:
  "portfolio_inv s \<Longrightarrow> lock_tokens p t a s = Inr s' \<Longrightarrow> portfolio_inv s'"
  by (auto simp: lock_tokens_Inr intro: put_locked_inv)

lemma unlock_tokens_inv [inv_intros]:
  assumes "portfolio_inv s" "unlock_tokens p t a s = Inr s'"
  shows "portfolio_inv s'"
proof -
  have "PortfolioLockedAssets s p t \<le> PortfolioAssetBalances s p t"
    using assms(1) by (simp add: portfolio_inv_defs)
  then show ?thesis using assms by (auto simp: res_simps intro: put_locked_inv)
qed

lemma nft_only_inv:
  assumes "portfolio_inv s" "nft_inv s'"
    and "balance_view s' = balance_view s" "name_view s' = name_view s"
  shows "portfolio_inv s'"
  using assms(1,2) balance_inv_cong [OF assms(3)] name_inv_cong [OF assms(4)]
  by (simp add: portfolio_inv_parts)

lemma lock_nft_inv [inv_intros]:
  "portfolio_inv s \<Longrightarrow> lock_nft p t n s = Inr s' \<Longrightarrow> portfolio_inv s'"
  by (rule nft_only_inv [of s])
    (auto simp: lock_nft_def res_simps view_defs portfolio_inv_parts nft_inv_def
      nft_owner_exact_def locked_nft_owned_def split: if_splits)

lemma unlock_nft_inv [inv_intros]:
  "portfolio_inv s \<Longrightarrow> unlock_nft p t n s = Inr s' \<Longrightarrow> portfolio_inv s'"
  by (rule nft_only_inv [of s])
    (auto simp: unlock_nft_def res_simps view_defs portfolio_inv_parts nft_inv_def
      nft_owner_exact_def locked_nft_owned_def split: if_splits)

section \<open>Names\<close>

lemma base_create_portfolio_Inr [res_simps]:
  "base_create_portfolio cfg owner name s = Inr s' \<longleftrightarrow>
     length name \<le> MaxLen cfg \<and> NameToNumber s owner name = None \<and>
     s' = s\<lparr>
       NextPortfolioNumber := (NextPortfolioNumber s)(owner :=
         wrapping_add u64_max (NextPortfolioNumber s owner) 1),
       NameToNumber := (NameToNumber s)(owner :=
         (NameToNumber s owner)(name \<mapsto> NextPortfolioNumber s owner)),
       Portfolios := (Portfolios s)(owner :=
         (Portfolios s owner)(NextPortfolioNumber s owner \<mapsto> name))\<rparr>"
  by (auto simp: base_create_portfolio_def ensure_name_unique_def get_next_portfolio_number_def
      put_defs res_simps)

lemma name_only_inv:
  assumes "portfolio_inv s" "name_inv s'"
    and "balance_view s' = balance_view s" "nft_view s' = nft_view s"
  shows "portfolio_inv s'"
  using assms(1,2) balance_inv_cong [OF assms(3)] nft_inv_cong [OF assms(4)]
  by (simp add: portfolio_inv_parts)

lemma base_create_portfolio_inv [inv_intros]:
  assumes inv: "portfolio_inv s" and left: "NextPortfolioNumber s owner < u64_max"
    and step: "base_create_portfolio cfg owner name s = Inr s'"
  shows "portfolio_inv s'"
proof (rule name_only_inv [OF inv])
  let ?n = "NextPortfolioNumber s owner"
  have bij: "Portfolios s d n = Some m \<longleftrightarrow> NameToNumber s d m = Some n" for d n m
    using inv by (simp add: portfolio_inv_def names_bijective_def)
  have lt: "Portfolios s d n \<noteq> None \<Longrightarrow> n < NextPortfolioNumber s d" for d n
    using inv by (auto simp: portfolio_inv_def numbers_fresh_def)
  have fresh: "Portfolios s owner ?n = None" using lt by blast
  have nn: "NameToNumber s owner name = None" using step by (simp add: res_simps)
  have w: "wrapping_add u64_max ?n 1 = ?n + 1" using left by (simp add: wrapping_add_exact)
  have "names_bijective s'"
    using step fresh bij nn
    by (auto simp: names_bijective_def res_simps) (metis option.distinct(1))+
  moreover have "numbers_fresh s'"
    using step lt w by (fastforce simp: numbers_fresh_def res_simps)
  ultimately show "name_inv s'" by (simp add: name_inv_def)
qed (use step in \<open>auto simp: res_simps view_defs\<close>)

lemma rename_portfolio_inv [inv_intros]:
  assumes inv: "portfolio_inv s" and step: "rename_portfolio cfg origin num to_name s = Inr s'"
  shows "portfolio_inv s'"
proof (rule name_only_inv [OF inv])
  have bij: "Portfolios s d n = Some m \<longleftrightarrow> NameToNumber s d m = Some n" for d n m
    using inv by (simp add: portfolio_inv_def names_bijective_def)
  have lt: "numbers_fresh s" using inv by (simp add: portfolio_inv_def)
  obtain did old where old: "Portfolios s did num = Some old" and free: "NameToNumber s did to_name = None"
    and s': "s' = put_name_number did to_name (Some num)
      (put_portfolio_name did num (Some to_name) (put_name_number did old None s))"
    using step
    by (auto simp: rename_portfolio_def ensure_user_portfolio_validity_def ensure_name_unique_def
        res_simps Let_def)
  have "names_bijective s'"
    unfolding names_bijective_def s' put_defs using old free bij
    by (auto split: if_splits) (metis option.distinct(1) option.inject)+
  moreover have "numbers_fresh s'"
    using lt old unfolding numbers_fresh_def s' put_defs by auto
  ultimately show "name_inv s'" by (simp add: name_inv_def)
qed (use step in \<open>auto simp: rename_portfolio_def res_simps view_defs put_defs Let_def\<close>)

section \<open>Custody\<close>

lemma custody_steps:
  "custody_indexed s \<Longrightarrow>
    custody_indexed (put_in_custody (custodian s p) p False (put_custodian p None s))"
  "custody_indexed s \<Longrightarrow>
    custody_indexed (put_custodian p None (put_in_custody (custodian s p) p False s))"
  "custody_indexed s \<Longrightarrow> custody_indexed (unverified_take_portfolio_custody p c
      (put_in_custody (custodian s p) p False s))"
  "custody_indexed s \<Longrightarrow> PortfolioCustodian s p = None \<Longrightarrow>
    custody_indexed (unverified_take_portfolio_custody p c s)"
  by (auto simp: custody_indexed_def put_defs custodian_def unverified_take_portfolio_custody_def
      split: option.splits if_splits)

lemma quit_portfolio_custody_Inr:
  "quit_portfolio_custody origin pid s = Inr s' \<longleftrightarrow>
     ensure_perms s origin = Inr (custodian s pid) \<and>
     s' = put_in_custody (custodian s pid) pid False (put_custodian pid None s)"
  by (auto simp: quit_portfolio_custody_def res_simps Let_def)

definition custody_taken ::
  "IdentityId \<Rightarrow> PortfolioId \<Rightarrow> 'a portfolio_store_scheme \<Rightarrow> 'a portfolio_store_scheme" where
  "custody_taken to pid s =
     (if pid_did pid = to then put_custodian pid None (put_in_custody (custodian s pid) pid False s)
      else unverified_take_portfolio_custody pid to (put_in_custody (custodian s pid) pid False s))"

lemma take_custody_with_auth_Inr [res_simps]:
  "take_custody_with_auth to dat from s = Inr s' \<longleftrightarrow>
     (\<exists>pid. dat = PortfolioCustody pid \<and> from = custodian s pid \<and> s' = custody_taken to pid s)"
  by (cases dat)
    (auto simp: take_custody_with_auth_def ensure_auth_by_def custody_taken_def res_simps Let_def)

lemma accept_portfolio_custody_Inr:
  "base_accept_portfolio_custody origin i s = Inr s' \<longleftrightarrow>
     (\<exists>to auth pid. ensure_perms s origin = Inr to \<and>
        Authorizations s (Identity to) i = Some auth \<and>
        (\<forall>e. auth_expiry auth = Some e \<longrightarrow> timestamp s < e) \<and>
        authorization_data auth = PortfolioCustody pid \<and> authorized_by auth = custodian s pid \<and>
        s' = unsafe_remove_auth (Identity to) i (authorized_by auth) (custody_taken to pid s))"
  by (fastforce simp: base_accept_portfolio_custody_def res_simps)

lemma portfolio_view_custody [simp]:
  "portfolio_view (put_in_custody d p v s) = portfolio_view s"
  "portfolio_view (put_custodian p c s) = portfolio_view s"
  "portfolio_view (unverified_take_portfolio_custody p d s) = portfolio_view s"
  "portfolio_view (custody_taken d p s) = portfolio_view s"
  "portfolio_view (unsafe_remove_auth sg i by s) = portfolio_view s"
  "portfolio_view (set_pre_approval p t v s) = portfolio_view s"
  "portfolio_view (set_allowed_custodian d e v s) = portfolio_view s"
  by (simp_all add: view_defs put_defs unverified_take_portfolio_custody_def custody_taken_def
      unsafe_remove_auth_def set_authorization_def set_authorization_given_def
      set_pre_approval_def set_allowed_custodian_def)

lemma custody_view_frame [simp]:
  "custody_view (unsafe_remove_auth sg i by s) = custody_view s"
  "custody_view (set_pre_approval p t v s) = custody_view s"
  "custody_view (set_allowed_custodian d e v s) = custody_view s"
  by (simp_all add: view_defs unsafe_remove_auth_def set_authorization_def
      set_authorization_given_def set_pre_approval_def set_allowed_custodian_def)

lemma create_custody_portfolio_Inr:
  "base_create_custody_portfolio cfg origin owner name s = Inr s' \<longleftrightarrow>
     (\<exists>did s1. ensure_perms s origin = Inr did \<and> AllowedCustodians s owner did \<and>
        base_create_portfolio cfg owner name s = Inr s1 \<and>
        s' = unverified_take_portfolio_custody
               (user_portfolio owner (NextPortfolioNumber s owner)) did s1)"
  by (auto simp: base_create_custody_portfolio_def user_portfolio_def attempt_Inr_iff
      ensure_Inr_iff Let_def)

section \<open>Deletion\<close>

lemma delete_portfolio_effect:
  assumes inv: "portfolio_inv s" and step: "delete_portfolio origin num s = Inr s'"
  obtains did name where "ensure_perms s origin = Inr did" "Portfolios s did num = Some name"
    "PortfolioAssetBalances s (user_portfolio did num) = (\<lambda>_. 0)"
    "PortfolioNFT s (user_portfolio did num) = {||}"
    "custodian s (user_portfolio did num) = did"
    "balance_view s' = balance_view s" "nft_view s' = nft_view s"
    "Portfolios s' = (Portfolios s)(did := (Portfolios s did)(num := None))"
    "NameToNumber s' = (NameToNumber s)(did := (NameToNumber s did)(name := None))"
    "NextPortfolioNumber s' = NextPortfolioNumber s"
    "custody_view s' = custody_view (put_custodian (user_portfolio did num) None
        (put_in_custody (custodian s (user_portfolio did num)) (user_portfolio did num) False s))"
proof -
  obtain d name where d: "ensure_origin_call_permissions s origin = Inr d"
    and cnt: "PortfolioAssetCount s (user_portfolio (primary_did d) num) = 0"
    and nfts: "PortfolioNFT s (user_portfolio (primary_did d) num) = {||}"
    and name: "Portfolios s (primary_did d) num = Some name"
    and cust: "custodian s (user_portfolio (primary_did d) num) = primary_did d"
    and s': "s' = put_custodian (user_portfolio (primary_did d) num) None
      (put_in_custody (custodian s (user_portfolio (primary_did d) num))
        (user_portfolio (primary_did d) num) False
        ((put_name_number (primary_did d) name None (put_portfolio_name (primary_did d) num None s))\<lparr>
          PortfolioAssetCount := (PortfolioAssetCount s)(user_portfolio (primary_did d) num := 0),
          PortfolioAssetBalances :=
            (PortfolioAssetBalances s)(user_portfolio (primary_did d) num := \<lambda>_. 0),
          PortfolioLockedAssets :=
            (PortfolioLockedAssets s)(user_portfolio (primary_did d) num := \<lambda>_. 0)\<rparr>))"
    using step
    by (auto simp: delete_portfolio_def ensure_user_portfolio_validity_def custodian_def
        ensure_portfolio_custody_and_permission_def ensure_portfolio_custody_def
        put_defs res_simps Let_def fcard_0_eq)
  let ?pid = "user_portfolio (primary_did d) num"
  have bal: "PortfolioAssetBalances s ?pid = (\<lambda>_. 0)"
    using inv cnt by (simp add: portfolio_inv_defs supp_card_zero_iff)
  have lock: "PortfolioLockedAssets s ?pid = (\<lambda>_. 0)"
  proof
    fix t
    have "PortfolioLockedAssets s ?pid t \<le> PortfolioAssetBalances s ?pid t"
      using inv by (simp add: portfolio_inv_defs)
    then show "PortfolioLockedAssets s ?pid t = 0" using bal by simp
  qed
  have upd: "(PortfolioAssetCount s)(?pid := 0) = PortfolioAssetCount s"
    "(PortfolioAssetBalances s)(?pid := \<lambda>_. 0) = PortfolioAssetBalances s"
    "(PortfolioLockedAssets s)(?pid := \<lambda>_. 0) = PortfolioLockedAssets s"
    using cnt bal lock by (auto simp: fun_eq_iff)
  show thesis
    by (rule that [of "primary_did d" name])
      (use d name nfts cust bal in
        \<open>simp_all add: s' upd view_defs put_defs ensure_perms_def custodian_def\<close>)
qed

lemma delete_portfolio_inv [inv_intros]:
  assumes inv: "portfolio_inv s" and step: "delete_portfolio origin num s = Inr s'"
  shows "portfolio_inv s'"
proof (rule delete_portfolio_effect [OF inv step])
  fix did name
  assume name: "Portfolios s did num = Some name"
    and v: "balance_view s' = balance_view s" "nft_view s' = nft_view s"
    and P: "Portfolios s' = (Portfolios s)(did := (Portfolios s did)(num := None))"
    and N: "NameToNumber s' = (NameToNumber s)(did := (NameToNumber s did)(name := None))"
    and nx: "NextPortfolioNumber s' = NextPortfolioNumber s"
  have bij: "Portfolios s d n = Some m \<longleftrightarrow> NameToNumber s d m = Some n" for d n m
    using inv by (simp add: portfolio_inv_def names_bijective_def)
  have "names_bijective s'"
    unfolding names_bijective_def P N using name bij
    by (auto split: if_splits) (metis option.inject)+
  moreover have "numbers_fresh s'"
    using inv unfolding portfolio_inv_def numbers_fresh_def P nx by auto
  ultimately show ?thesis
    using name_only_inv [OF inv _ v] by (simp add: name_inv_def)
qed

section \<open>Moving funds\<close>

fun fungible_tickers :: "Fund list \<Rightarrow> Ticker list" where
  "fungible_tickers [] = []"
| "fungible_tickers (f # fs) =
     (case description f of
        FungibleFund t _ \<Rightarrow> t # fungible_tickers fs
      | NonFungibleFund _ \<Rightarrow> fungible_tickers fs)"

definition moved :: "Fund list \<Rightarrow> Ticker \<Rightarrow> Balance" where
  "moved funds t = sum_list (map (\<lambda>f. case description f of
     FungibleFund u a \<Rightarrow> if u = t then a else 0 | NonFungibleFund _ \<Rightarrow> 0) funds)"

definition held_by_either ::
  "'a portfolio_store_scheme \<Rightarrow> PortfolioId \<Rightarrow> PortfolioId \<Rightarrow> Ticker \<times> NFTId \<Rightarrow> bool" where
  "held_by_either s from to k \<longleftrightarrow> k |\<in>| PortfolioNFT s from \<or> k |\<in>| PortfolioNFT s to"

text \<open>A fund that can be moved out of \<open>from\<close>; non-fungible tokens may have arrived in \<open>to\<close> already.\<close>

definition movable :: "'a portfolio_store_scheme \<Rightarrow> PortfolioId \<Rightarrow> PortfolioId \<Rightarrow> Fund \<Rightarrow> bool" where
  "movable s from to f =
     (case description f of
        FungibleFund t a \<Rightarrow> a \<le> PortfolioAssetBalances s from t - PortfolioLockedAssets s from t
      | NonFungibleFund nfts \<Rightarrow> (\<forall>n \<in> set (nfts_ids nfts).
          held_by_either s from to (nfts_ticker nfts, n) \<and>
          (nfts_ticker nfts, n) |\<notin>| PortfolioLockedNFT s from))"

lemma ensure_valid_funds_from_Inr:
  "ensure_valid_funds_from s p seen funds = Inr () \<Longrightarrow>
     (\<forall>f \<in> set funds. movable s p to f) \<and> distinct (fungible_tickers funds) \<and>
     set (fungible_tickers funds) \<inter> set seen = {}"
proof (induction s p seen funds rule: ensure_valid_funds_from.induct)
  case (1 s p seen)
  then show ?case by simp
next
  case (2 s p seen fund funds)
  show ?case
  proof (cases "description fund")
    case (FungibleFund t a)
    then show ?thesis using 2 by (auto simp: res_simps movable_def)
  next
    case (NonFungibleFund nfts)
    then show ?thesis using 2
      by (auto simp: res_simps movable_def held_by_either_def ensure_valid_nfts_def)
  qed
qed

lemma move_nft_sel [simp]:
  "balance_view (move_nft from to t n s) = balance_view s"
  "name_view (move_nft from to t n s) = name_view s"
  "PortfolioLockedNFT (move_nft from to t n s) = PortfolioLockedNFT s"
  "PortfolioNFT (move_nft from to t n s) =
     (let f = (PortfolioNFT s)(from := PortfolioNFT s from |-| {|(t, n)|})
      in f(to := finsert (t, n) (f to)))"
  by (simp_all add: move_nft_def put_defs move_portfolio_owner_def view_defs Let_def)

lemma move_nft_inv:
  assumes inv: "portfolio_inv s"
    and own: "(t, n) |\<in>| PortfolioNFT s from \<or> (t, n) |\<in>| PortfolioNFT s to"
    and free: "(t, n) |\<notin>| PortfolioLockedNFT s from"
  shows "portfolio_inv (move_nft from to t n s)"
proof (rule nft_only_inv [OF inv])
  have ex: "(u, m) |\<in>| PortfolioNFT s p \<longleftrightarrow> NFTOwner s u m = Some p" for p u m
    using inv by (simp add: portfolio_inv_def nft_owner_exact_def)
  have lk: "k |\<in>| PortfolioLockedNFT s p \<Longrightarrow> k |\<in>| PortfolioNFT s p" for p k
    using inv unfolding portfolio_inv_def locked_nft_owned_def by blast
  have "nft_owner_exact (move_nft from to t n s)"
    using own unfolding nft_owner_exact_def
    by (auto simp: move_nft_def put_defs move_portfolio_owner_def ex split: if_splits)
  moreover have "locked_nft_owned (move_nft from to t n s)"
    using lk free ex own unfolding locked_nft_owned_def by (auto simp: Let_def split: if_splits)
  ultimately show "nft_inv (move_nft from to t n s)" by (simp add: nft_inv_def)
qed simp_all

lemma move_nft_held: "held_by_either s from to k \<Longrightarrow> held_by_either (move_nft from to t n s) from to k"
  by (auto simp: held_by_either_def Let_def)

lemma fold_move_nft:
  assumes "portfolio_inv s"
    and "\<And>n. n \<in> set ns \<Longrightarrow> held_by_either s from to (t, n) \<and> (t, n) |\<notin>| PortfolioLockedNFT s from"
  shows "portfolio_inv (fold (move_nft from to t) ns s) \<and>
    balance_view (fold (move_nft from to t) ns s) = balance_view s \<and>
    PortfolioLockedNFT (fold (move_nft from to t) ns s) = PortfolioLockedNFT s \<and>
    (\<forall>k. held_by_either s from to k \<longrightarrow>
      held_by_either (fold (move_nft from to t) ns s) from to k)"
proof (rule fold_invariant
    [where Q = "\<lambda>n. held_by_either s from to (t, n) \<and> (t, n) |\<notin>| PortfolioLockedNFT s from"])
  fix n u
  assume Q: "held_by_either s from to (t, n) \<and> (t, n) |\<notin>| PortfolioLockedNFT s from"
    and P: "portfolio_inv u \<and> balance_view u = balance_view s \<and>
      PortfolioLockedNFT u = PortfolioLockedNFT s \<and>
      (\<forall>k. held_by_either s from to k \<longrightarrow> held_by_either u from to k)"
  then have "held_by_either u from to (t, n)" by blast
  then have "portfolio_inv (move_nft from to t n u)"
    using P Q by (intro move_nft_inv) (simp_all add: held_by_either_def)
  then show "portfolio_inv (move_nft from to t n u) \<and>
      balance_view (move_nft from to t n u) = balance_view s \<and>
      PortfolioLockedNFT (move_nft from to t n u) = PortfolioLockedNFT s \<and>
      (\<forall>k. held_by_either s from to k \<longrightarrow> held_by_either (move_nft from to t n u) from to k)"
    using P move_nft_held by (metis move_nft_sel(1) move_nft_sel(3))
qed (use assms in auto)

text \<open>
  \<open>moves s s' from to g\<close>: the state \<open>s'\<close> is \<open>s\<close> with the unlocked amount \<open>g t\<close> of every ticker
  moved from one portfolio to the other.
\<close>

definition moves ::
  "'a portfolio_store_scheme \<Rightarrow> 'a portfolio_store_scheme \<Rightarrow> PortfolioId \<Rightarrow> PortfolioId
    \<Rightarrow> (Ticker \<Rightarrow> Balance) \<Rightarrow> bool" where
  "moves s s' from to g \<longleftrightarrow>
     portfolio_inv s' \<and>
     (\<forall>p t. PortfolioAssetBalances s' p t =
        (if p = from then PortfolioAssetBalances s p t - g t
         else if p = to then PortfolioAssetBalances s p t + g t
         else PortfolioAssetBalances s p t)) \<and>
     (\<forall>t. PortfolioLockedAssets s from t + g t \<le> PortfolioAssetBalances s from t) \<and>
     PortfolioLockedAssets s' = PortfolioLockedAssets s \<and>
     PortfolioLockedNFT s' = PortfolioLockedNFT s \<and>
     (\<forall>k. held_by_either s from to k \<longrightarrow> held_by_either s' from to k)"

lemma moves_refl: "portfolio_inv s \<Longrightarrow> moves s s from to (\<lambda>_. 0)"
  by (simp add: moves_def portfolio_inv_def locked_within_balance_def)

lemma moves_trans:
  assumes 1: "moves s s1 from to g" and 2: "moves s1 s2 from to h"
  shows "moves s s2 from to (\<lambda>t. g t + h t)"
proof -
  have b1: "PortfolioAssetBalances s1 p t = (if p = from then PortfolioAssetBalances s p t - g t
      else if p = to then PortfolioAssetBalances s p t + g t else PortfolioAssetBalances s p t)"
    and l1: "PortfolioLockedAssets s1 = PortfolioLockedAssets s"
    and h1: "held_by_either s from to k \<Longrightarrow> held_by_either s1 from to k" for p t k
    using 1 unfolding moves_def by blast+
  have "PortfolioLockedAssets s from t + (g t + h t) \<le> PortfolioAssetBalances s from t" for t
  proof -
    have "PortfolioLockedAssets s1 from t + h t \<le> PortfolioAssetBalances s1 from t"
      and "PortfolioLockedAssets s from t + g t \<le> PortfolioAssetBalances s from t"
      using 1 2 by (simp_all add: moves_def)
    then show ?thesis using b1 [of "from" t] l1 by simp
  qed
  then show ?thesis
    using 1 2 b1 h1 by (simp add: moves_def)
qed

lemma move_fund_moves:
  assumes inv: "portfolio_inv s" and ne: "from \<noteq> to" and ok: "movable s from to f"
  shows "moves s (move_fund from to f s) from to (moved [f])"
proof (cases "description f")
  case (FungibleFund t a)
  have le: "PortfolioLockedAssets s p u \<le> PortfolioAssetBalances s p u" for p u
    using inv by (simp add: portfolio_inv_defs)
  have a: "a \<le> PortfolioAssetBalances s from t - PortfolioLockedAssets s from t"
    using ok FungibleFund by (simp add: movable_def)
  then have a': "a \<le> PortfolioAssetBalances s from t"
    and lk: "PortfolioLockedAssets s from t + a \<le> PortfolioAssetBalances s from t"
    using le [of "from" t] by simp_all
  have mv: "move_fund from to f s = unchecked_transfer_portfolio_balance from to t a s"
    and m: "moved [f] = (\<lambda>u. if u = t then a else 0)"
    using FungibleFund by (auto simp: move_fund_def moved_def)
  show ?thesis
    unfolding moves_def mv m
    using transfer_inv [OF inv ne a] transfer_sel [OF inv ne a'] ne lk le
    by (auto simp: held_by_either_def)
next
  case (NonFungibleFund nfts)
  have mv: "move_fund from to f s = fold (move_nft from to (nfts_ticker nfts)) (nfts_ids nfts) s"
    and m: "moved [f] = (\<lambda>_. 0)"
    using NonFungibleFund by (auto simp: move_fund_def moved_def)
  have "\<And>n. n \<in> set (nfts_ids nfts) \<Longrightarrow> held_by_either s from to (nfts_ticker nfts, n) \<and>
      (nfts_ticker nfts, n) |\<notin>| PortfolioLockedNFT s from"
    using ok NonFungibleFund by (auto simp: movable_def held_by_either_def)
  from fold_move_nft [OF inv this] show ?thesis
    using inv unfolding moves_def mv m
    by (auto simp: balance_view_def portfolio_inv_def locked_within_balance_def)
qed

lemma moves_movable:
  assumes mv: "moves s s' from to (moved [f])" and ok: "movable s from to g"
    and dist: "\<And>t a. description g = FungibleFund t a \<Longrightarrow> moved [f] t = 0"
  shows "movable s' from to g"
proof (cases "description g")
  case (FungibleFund t a)
  then show ?thesis using mv ok dist [OF FungibleFund] by (simp add: moves_def movable_def)
next
  case (NonFungibleFund nfts)
  then show ?thesis using mv ok by (simp add: moves_def movable_def)
qed

lemma moved_Cons: "moved (f # fs) = (\<lambda>t. moved [f] t + moved fs t)"
  by (simp add: moved_def fun_eq_iff)

lemma unchecked_move_funds_moves:
  assumes "portfolio_inv s" "from \<noteq> to" "\<forall>f \<in> set funds. movable s from to f"
    and "distinct (fungible_tickers funds)"
  shows "moves s (unchecked_move_funds from to funds s) from to (moved funds)"
  using assms unfolding unchecked_move_funds_def
proof (induction funds arbitrary: s)
  case Nil
  have "moved [] = (\<lambda>_. 0)" by (simp add: moved_def fun_eq_iff)
  then show ?case using moves_refl [OF Nil(1)] by simp
next
  case (Cons f fs)
  let ?s = "move_fund from to f s"
  have mv: "moves s ?s from to (moved [f])"
    using Cons.prems by (intro move_fund_moves) auto
  have dist: "moved [f] t = 0"
    if "g \<in> set fs" "description g = FungibleFund t a" for g t a
  proof -
    have "t \<in> set (fungible_tickers fs)"
      using that by (induction fs) (auto split: FundDescription.splits)
    then show ?thesis
      using Cons.prems(4) by (auto simp: moved_def split: FundDescription.splits)
  qed
  have "\<forall>g \<in> set fs. movable ?s from to g"
    using moves_movable [OF mv] dist Cons.prems(3) by (metis list.set_intros(2))
  then have "moves ?s (fold (move_fund from to) fs ?s) from to (moved fs)"
    using Cons.IH [of ?s] mv Cons.prems
    by (auto simp: moves_def split: FundDescription.splits)
  from moves_trans [OF mv this] show ?case
    unfolding moved_Cons [of f fs] by simp
qed

lemma moves_did_total:
  assumes mv: "moves s s' from to g" and inv: "portfolio_inv s" and ne: "from \<noteq> to"
  shows "did_total s' d t + (if d = pid_did from then g t else 0) =
    did_total s d t + (if d = pid_did to then g t else 0)"
proof -
  let ?f = "\<lambda>p. PortfolioAssetBalances s p t"
  let ?h = "?f(from := ?f from - g t)"
  have fs: "fin_supp ?f" using inv by (simp add: portfolio_inv_defs)
  then have fh: "fin_supp ?h" by simp
  have eq: "(\<lambda>p. PortfolioAssetBalances s' p t) = ?h(to := ?f to + g t)"
    using mv ne by (auto simp: moves_def)
  have g: "g t \<le> ?f from" using mv by (auto simp: moves_def dest: spec [of _ t])
  have 1: "sum_supp ?h {p. pid_did p = d} + (if d = pid_did from then g t else 0) =
      sum_supp ?f {p. pid_did p = d}"
    using sum_supp_upd_in [OF fs, of "from" "{p. pid_did p = d}" "?f from - g t"]
      sum_supp_upd_notin [of "from" "{p. pid_did p = d}" ?f "?f from - g t"] g by auto
  have 2: "sum_supp (?h(to := ?f to + g t)) {p. pid_did p = d} =
      sum_supp ?h {p. pid_did p = d} + (if d = pid_did to then g t else 0)"
    using sum_supp_upd_in [OF fh, of to "{p. pid_did p = d}" "?f to + g t"]
      sum_supp_upd_notin [of to "{p. pid_did p = d}" ?h "?f to + g t"] ne by auto
  show ?thesis unfolding did_total_def eq using 1 2 by simp
qed

lemma move_portfolio_funds_moves:
  assumes inv: "portfolio_inv s" and step: "move_portfolio_funds origin from to funds s = Inr s'"
  shows "moves s s' from to (moved funds)" and "from \<noteq> to" and "pid_did from = pid_did to"
proof -
  have ne: "from \<noteq> to" "pid_did from = pid_did to"
    and v: "ensure_valid_funds_from s from [] funds = Inr ()"
    and s': "s' = unchecked_move_funds from to funds s"
    using step
    by (auto simp: move_portfolio_funds_def ensure_portfolios_validity_and_permissions_def
        ensure_valid_funds_def attempt_Inr_iff ensure_Inr_iff)
  show "moves s s' from to (moved funds)"
    unfolding s' using ensure_valid_funds_from_Inr [OF v, of to]
    by (intro unchecked_move_funds_moves [OF inv ne(1)]) auto
  show "from \<noteq> to" "pid_did from = pid_did to" using ne .
qed

end
