(* ===== verification/Locking.thy ===== *)
theory Locking
  imports Prelude
begin

text \<open>
  The contract between a ledger that can lock amounts (the portfolio pallet) and its clients (the
  settlement engine): what locking and unlocking do to the locked amounts, and when they succeed.
  The client lemmas about whole batches are proved once from the contract.
\<close>

definition batch_amount :: "('k \<times> nat) list \<Rightarrow> 'k \<Rightarrow> nat" where
  "batch_amount kas k = sum_list (map snd (filter (\<lambda>ka. fst ka = k) kas))"

lemma batch_amount_Nil [simp]: "batch_amount [] k = 0"
  by (simp add: batch_amount_def)

lemma batch_amount_Cons [simp]:
  "batch_amount ((j, a) # kas) k = (if j = k then a else 0) + batch_amount kas k"
  by (simp add: batch_amount_def)

lemma batch_amount_append:
  "batch_amount (kas @ kas') k = batch_amount kas k + batch_amount kas' k"
  by (simp add: batch_amount_def)

lemma batch_amount_rev: "batch_amount (rev kas) k = batch_amount kas k"
  by (simp add: batch_amount_def rev_filter [symmetric] rev_map [symmetric] sum_list_rev)

locale lock_ledger =
  fixes ok :: "'s \<Rightarrow> bool"
    and balance :: "'s \<Rightarrow> 'k \<Rightarrow> nat"
    and locked :: "'s \<Rightarrow> 'k \<Rightarrow> nat"
    and lock :: "'k \<Rightarrow> nat \<Rightarrow> 's \<Rightarrow> ('e, 's) res"
    and unlock :: "'k \<Rightarrow> nat \<Rightarrow> 's \<Rightarrow> ('e, 's) res"
  assumes locked_le: "ok s \<Longrightarrow> locked s k \<le> balance s k"
    and lock_ok: "ok s \<Longrightarrow> lock k a s = Inr s' \<Longrightarrow> ok s'"
    and lock_locked: "ok s \<Longrightarrow> lock k a s = Inr s' \<Longrightarrow> locked s' = (locked s)(k := locked s k + a)"
    and lock_balance: "ok s \<Longrightarrow> lock k a s = Inr s' \<Longrightarrow> balance s' = balance s"
    and unlock_succeeds: "ok s \<Longrightarrow> a \<le> locked s k \<Longrightarrow> \<exists>s'. unlock k a s = Inr s'"
    and unlock_bound: "ok s \<Longrightarrow> unlock k a s = Inr s' \<Longrightarrow> a \<le> locked s k"
    and unlock_ok: "ok s \<Longrightarrow> unlock k a s = Inr s' \<Longrightarrow> ok s'"
    and unlock_locked:
      "ok s \<Longrightarrow> unlock k a s = Inr s' \<Longrightarrow> locked s' = (locked s)(k := locked s k - a)"
    and unlock_balance: "ok s \<Longrightarrow> unlock k a s = Inr s' \<Longrightarrow> balance s' = balance s"
begin

definition lock_all :: "('k \<times> nat) list \<Rightarrow> 's \<Rightarrow> ('e, 's) res" where
  "lock_all kas = fold_res (\<lambda>(k, a). lock k a) kas"

definition unlock_all :: "('k \<times> nat) list \<Rightarrow> 's \<Rightarrow> ('e, 's) res" where
  "unlock_all kas = fold_res (\<lambda>(k, a). unlock k a) kas"

lemma lock_all_effect:
  assumes "ok s" "lock_all kas s = Inr s'"
  shows "ok s' \<and> balance s' = balance s \<and> (\<forall>k. locked s' k = locked s k + batch_amount kas k)"
  using assms
proof (induction kas arbitrary: s)
  case Nil
  then show ?case by (simp add: lock_all_def)
next
  case (Cons ka kas)
  obtain k a where ka: "ka = (k, a)" by (cases ka)
  obtain t where t: "lock k a s = Inr t" "lock_all kas t = Inr s'"
    using Cons.prems(2) by (auto simp: lock_all_def ka res_simps)
  have "ok t" using lock_ok [OF Cons.prems(1) t(1)] .
  from Cons.IH [OF this t(2)] show ?case
    using lock_locked [OF Cons.prems(1) t(1)] lock_balance [OF Cons.prems(1) t(1)]
    by (auto simp: ka)
qed

lemma unlock_all_succeeds:
  assumes "ok s" "\<And>k. batch_amount kas k \<le> locked s k"
  shows "\<exists>s'. unlock_all kas s = Inr s' \<and> ok s' \<and> balance s' = balance s \<and>
    (\<forall>k. locked s' k = locked s k - batch_amount kas k)"
  using assms
proof (induction kas arbitrary: s)
  case Nil
  then show ?case by (simp add: unlock_all_def)
next
  case (Cons ka kas)
  obtain k a where ka: "ka = (k, a)" by (cases ka)
  have "a \<le> locked s k" using Cons.prems(2) [of k] by (simp add: ka)
  then obtain t where t: "unlock k a s = Inr t"
    using unlock_succeeds [OF Cons.prems(1)] by blast
  have lt: "locked t = (locked s)(k := locked s k - a)"
    by (rule unlock_locked [OF Cons.prems(1) t])
  have "batch_amount kas j \<le> locked t j" for j
    using Cons.prems(2) [of j] by (auto simp: ka lt)
  then obtain u where "unlock_all kas t = Inr u \<and> ok u \<and> balance u = balance t \<and>
      (\<forall>j. locked u j = locked t j - batch_amount kas j)"
    using Cons.IH [OF unlock_ok [OF Cons.prems(1) t]] by blast
  then show ?case
    using t lt unlock_balance [OF Cons.prems(1) t]
    by (auto simp: ka unlock_all_def)
qed

text \<open>Whatever was locked as a batch can be unlocked as a batch, in the order of locking or any other.\<close>

lemma lock_all_unlock_all:
  assumes "ok s" "lock_all kas s = Inr s1" "\<And>k. batch_amount kas' k = batch_amount kas k"
  shows "\<exists>s2. unlock_all kas' s1 = Inr s2 \<and> ok s2 \<and> locked s2 = locked s \<and> balance s2 = balance s"
proof -
  note eff = lock_all_effect [OF assms(1,2)]
  obtain s2 where s2: "unlock_all kas' s1 = Inr s2" "ok s2" "balance s2 = balance s1"
    "\<forall>k. locked s2 k = locked s1 k - batch_amount kas' k"
    using unlock_all_succeeds [of s1 kas'] eff assms(3) by auto
  then show ?thesis using eff assms(3) by (auto simp: fun_eq_iff)
qed

lemma lock_all_fits:
  assumes "ok s" "lock_all kas s = Inr s'"
  shows "locked s k + batch_amount kas k \<le> balance s k"
  using lock_all_effect [OF assms] locked_le [of s' k] by auto

end

end
