(* ===== verification/Portfolio_Theorems.thy ===== *)
theory Portfolio_Theorems
  imports Portfolio_Invariants Locking
begin

text \<open>
  The portfolio pallet as a transition system, its instance of the locking contract, and the
  properties of the pallet with the concrete ledgers they are applied to.
\<close>

section \<open>The pallet as a transition system\<close>

inductive portfolio_step ::
  "'c config_scheme \<Rightarrow> 'a portfolio_store_scheme \<Rightarrow> 'a portfolio_store_scheme \<Rightarrow> bool"
  for cfg where
  create: "create_portfolio cfg origin name s = Inr s' \<Longrightarrow> portfolio_step cfg s s'"
| delete: "delete_portfolio origin num s = Inr s' \<Longrightarrow> portfolio_step cfg s s'"
| rename: "rename_portfolio cfg origin num name s = Inr s' \<Longrightarrow> portfolio_step cfg s s'"
| quit_custody: "quit_portfolio_custody origin pid s = Inr s' \<Longrightarrow> portfolio_step cfg s s'"
| accept_custody: "base_accept_portfolio_custody origin i s = Inr s' \<Longrightarrow> portfolio_step cfg s s'"
| move: "move_portfolio_funds origin from to funds s = Inr s' \<Longrightarrow> portfolio_step cfg s s'"
| pre_approve: "base_pre_approve_portfolio origin t pid s = Inr s' \<Longrightarrow> portfolio_step cfg s s'"
| remove_pre_approval:
    "base_remove_portfolio_pre_approval origin t pid s = Inr s' \<Longrightarrow> portfolio_step cfg s s'"
| allow: "base_allow_identity_to_create_portfolios origin d s = Inr s' \<Longrightarrow> portfolio_step cfg s s'"
| revoke: "base_revoke_create_portfolios_permission origin d s = Inr s' \<Longrightarrow> portfolio_step cfg s s'"
| create_custody:
    "base_create_custody_portfolio cfg origin owner name s = Inr s' \<Longrightarrow> portfolio_step cfg s s'"
| lock: "lock_tokens pid t a s = Inr s' \<Longrightarrow> portfolio_step cfg s s'"
| unlock: "unlock_tokens pid t a s = Inr s' \<Longrightarrow> portfolio_step cfg s s'"
| lock_nft: "lock_nft pid t n s = Inr s' \<Longrightarrow> portfolio_step cfg s s'"
| unlock_nft: "unlock_nft pid t n s = Inr s' \<Longrightarrow> portfolio_step cfg s s'"

lemma pre_approval_view:
  "base_pre_approve_portfolio origin t pid s = Inr s' \<Longrightarrow> portfolio_view s' = portfolio_view s"
  "base_remove_portfolio_pre_approval origin t pid s = Inr s' \<Longrightarrow> portfolio_view s' = portfolio_view s"
  "base_allow_identity_to_create_portfolios origin d s = Inr s' \<Longrightarrow> portfolio_view s' = portfolio_view s"
  "base_revoke_create_portfolios_permission origin d s = Inr s' \<Longrightarrow> portfolio_view s' = portfolio_view s"
  "quit_portfolio_custody origin pid s = Inr s' \<Longrightarrow> portfolio_view s' = portfolio_view s"
  "base_accept_portfolio_custody origin i s = Inr s' \<Longrightarrow> portfolio_view s' = portfolio_view s"
  by (auto simp: base_pre_approve_portfolio_def base_remove_portfolio_pre_approval_def
      base_allow_identity_to_create_portfolios_def base_revoke_create_portfolios_permission_def
      quit_portfolio_custody_Inr accept_portfolio_custody_Inr attempt_Inr_iff)

lemma create_portfolio_base:
  "create_portfolio cfg origin name s = Inr s' \<Longrightarrow>
    \<exists>did. ensure_perms s origin = Inr did \<and> base_create_portfolio cfg did name s = Inr s'"
  by (auto simp: create_portfolio_def attempt_Inr_iff)

lemma portfolio_step_inv:
  assumes "portfolio_step cfg s s'" and inv: "portfolio_inv s" and left: "numbers_left s"
  shows "portfolio_inv s'"
  using assms(1)
proof cases
  case (create origin name)
  then show ?thesis
    using base_create_portfolio_inv [OF inv] left create_portfolio_base
    unfolding numbers_left_def by blast
next
  case (create_custody origin owner name)
  then obtain did s1 where s1: "base_create_portfolio cfg owner name s = Inr s1"
    and s': "s' = unverified_take_portfolio_custody
      (user_portfolio owner (NextPortfolioNumber s owner)) did s1"
    by (auto simp: create_custody_portfolio_Inr)
  have "portfolio_inv s1"
    using base_create_portfolio_inv [OF inv _ s1] left by (simp add: numbers_left_def)
  then show ?thesis using portfolio_inv_cong [of s' s1] by (simp add: s')
next
  case (move origin "from" to funds)
  then show ?thesis using move_portfolio_funds_moves(1) [OF inv] by (auto simp: moves_def)
next
  case (quit_custody origin pid)
  then show ?thesis using pre_approval_view(5) portfolio_inv_cong inv by blast
next
  case (accept_custody origin i)
  then show ?thesis using pre_approval_view(6) portfolio_inv_cong inv by blast
next
  case (pre_approve origin t pid)
  then show ?thesis using pre_approval_view(1) portfolio_inv_cong inv by blast
next
  case (remove_pre_approval origin t pid)
  then show ?thesis using pre_approval_view(2) portfolio_inv_cong inv by blast
next
  case (allow origin d)
  then show ?thesis using pre_approval_view(3) portfolio_inv_cong inv by blast
next
  case (revoke origin d)
  then show ?thesis using pre_approval_view(4) portfolio_inv_cong inv by blast
qed (blast intro: delete_portfolio_inv [OF inv] rename_portfolio_inv [OF inv]
    lock_tokens_inv [OF inv] unlock_tokens_inv [OF inv] lock_nft_inv [OF inv]
    unlock_nft_inv [OF inv])+

interpretation portfolio_system: invariant_system
  "\<lambda>s s'. numbers_left s \<and> portfolio_step cfg s s'" portfolio_inv
  by unfold_locales (auto intro: portfolio_step_inv)

lemma locked_within: "portfolio_inv s \<Longrightarrow> PortfolioLockedAssets s p t \<le> PortfolioAssetBalances s p t"
  by (simp add: portfolio_inv_def locked_within_balance_def)

lemma put_locked_sel [simp]:
  "PortfolioAssetBalances (put_locked p t v s) = PortfolioAssetBalances s"
  "PortfolioLockedAssets (put_locked p t v s) q u =
    (if q = p \<and> u = t then v else PortfolioLockedAssets s q u)"
  by (simp_all add: put_locked_def)

interpretation portfolio_locks: lock_ledger portfolio_inv
  "\<lambda>s k. PortfolioAssetBalances s (fst k) (snd k)" "\<lambda>s k. PortfolioLockedAssets s (fst k) (snd k)"
  "\<lambda>k. lock_tokens (fst k) (snd k)" "\<lambda>k. unlock_tokens (fst k) (snd k)"
proof unfold_locales
  fix s s' :: "'a portfolio_store_scheme" and k :: "PortfolioId \<times> Ticker" and a
  assume inv: "portfolio_inv s"
  show "PortfolioLockedAssets s (fst k) (snd k) \<le> PortfolioAssetBalances s (fst k) (snd k)"
    by (rule locked_within [OF inv])
  show "a \<le> PortfolioLockedAssets s (fst k) (snd k) \<Longrightarrow>
      \<exists>s'. unlock_tokens (fst k) (snd k) a s = Inr s'"
    by (simp add: unlock_tokens_Inr)
  {
    assume l: "lock_tokens (fst k) (snd k) a s = Inr s'"
    show "portfolio_inv s'" by (rule lock_tokens_inv [OF inv l])
    show "(\<lambda>k. PortfolioLockedAssets s' (fst k) (snd k)) =
        (\<lambda>k. PortfolioLockedAssets s (fst k) (snd k))(k := PortfolioLockedAssets s (fst k) (snd k) + a)"
      and "(\<lambda>k. PortfolioAssetBalances s' (fst k) (snd k)) =
        (\<lambda>k. PortfolioAssetBalances s (fst k) (snd k))"
      using l by (auto simp: lock_tokens_Inr [OF inv] fun_eq_iff)
  next
    assume u: "unlock_tokens (fst k) (snd k) a s = Inr s'"
    show "portfolio_inv s'" by (rule unlock_tokens_inv [OF inv u])
    show "a \<le> PortfolioLockedAssets s (fst k) (snd k)"
      and "(\<lambda>k. PortfolioLockedAssets s' (fst k) (snd k)) =
        (\<lambda>k. PortfolioLockedAssets s (fst k) (snd k))(k := PortfolioLockedAssets s (fst k) (snd k) - a)"
      and "(\<lambda>k. PortfolioAssetBalances s' (fst k) (snd k)) =
        (\<lambda>k. PortfolioAssetBalances s (fst k) (snd k))"
      using u by (auto simp: unlock_tokens_Inr fun_eq_iff)
  }
qed

lemma portfolio_step_balances:
  assumes "portfolio_step cfg s s'" and inv: "portfolio_inv s"
  shows "PortfolioAssetBalances s' = PortfolioAssetBalances s \<or>
    (\<exists>from to g. from \<noteq> to \<and> pid_did from = pid_did to \<and> moves s s' from to g)"
  using assms(1)
proof cases
  case (move origin "from" to funds)
  then show ?thesis using move_portfolio_funds_moves [OF inv] by blast
next
  case (create origin name)
  then show ?thesis by (auto dest!: create_portfolio_base simp: base_create_portfolio_Inr)
next
  case (create_custody origin owner name)
  then show ?thesis
    by (auto simp: create_custody_portfolio_Inr base_create_portfolio_Inr
        unverified_take_portfolio_custody_def put_defs)
next
  case (delete origin num)
  then show ?thesis
    by (elim delete_portfolio_effect [OF inv]) (simp add: balance_view_def)
next
  case (rename origin num name)
  then show ?thesis by (auto simp: rename_portfolio_def put_defs res_simps Let_def)
next
  case (lock pid t a)
  then show ?thesis by (auto simp: lock_tokens_Inr [OF inv])
next
  case (unlock pid t a)
  then show ?thesis by (auto simp: unlock_tokens_Inr)
next
  case (lock_nft pid t n)
  then show ?thesis by (auto simp: lock_nft_def res_simps)
next
  case (unlock_nft pid t n)
  then show ?thesis by (auto simp: unlock_nft_def res_simps)
qed (auto dest!: pre_approval_view simp: view_defs)

section \<open>Concrete ledgers\<close>

definition ex_config :: config where
  "ex_config = \<lparr>MaxLen = 32, accrue = (\<lambda>limit used w.
     if ref_time used + ref_time w \<le> ref_time limit
     then Some (Weight (ref_time used + ref_time w) (proof_size used + proof_size w)) else None)\<rparr>"

text \<open>Two identities with one primary key each; ticker 7 is an indivisible token of identity 1.\<close>

definition ex_empty :: portfolio_store where
  "ex_empty = \<lparr>timestamp = 100, block_number = 10,
     CurrentPalletName = ''Portfolio'', CurrentDispatchableName = ''any'',
     DidRecords = [1 \<mapsto> \<lparr>primary_key = Some 1\<rparr>, 2 \<mapsto> \<lparr>primary_key = Some 2\<rparr>],
     IsDidFrozen = (\<lambda>_. False), CurrentDid = None,
     KeyRecords = [1 \<mapsto> PrimaryKey 1, 2 \<mapsto> PrimaryKey 2],
     DidKeys = (\<lambda>d k. d = k \<and> (d = 1 \<or> d = 2)), MultiPurposeNonce = 1,
     Authorizations = (\<lambda>_ _. None), AuthorizationsGiven = (\<lambda>_ _. None),
     Tickers = (\<lambda>_. None), TickerConfig = \<lparr>max_ticker_length = 12, registration_length = None\<rparr>,
     Tokens = [7 \<mapsto> \<lparr>total_supply = 50000000, owner_did = 1, divisible = False,
                     asset_type = EquityCommon\<rparr>],
     AssetNames = (\<lambda>_. None), BalanceOf = (\<lambda>_ _. 0), CustomTypeIdSequence = 0,
     CustomTypes = (\<lambda>_. None), CustomTypesInverse = (\<lambda>_. None), FundingRound = (\<lambda>_. ''r''),
     IssuedInFundingRound = (\<lambda>_ _. 0), Frozen = (\<lambda>_. False),
     AssetOwnershipRelations = (\<lambda>_ _. NotOwned), AssetMetadataGlobalKeyToName = (\<lambda>_. None),
     AssetMetadataLocalKeyToName = (\<lambda>_ _. None), TickersExemptFromAffirmation = (\<lambda>_. False),
     PreApprovedTicker = (\<lambda>_ _. False), MandatoryMediators = (\<lambda>_. []),
     NumberOfNFTs = (\<lambda>_ _. 0), CollectionTicker = (\<lambda>_. None), Collection = (\<lambda>_. None),
     CollectionKeys = (\<lambda>_. []), MetadataValue = (\<lambda>_ _. None), NextCollectionId = 0,
     NextNFTId = (\<lambda>_. 0), NFTsInCollection = (\<lambda>_. 0), NFTOwner = (\<lambda>_ _. None),
     NextPortfolioNumber = (\<lambda>_. 1), Portfolios = (\<lambda>_ _. None), NameToNumber = (\<lambda>_ _. None),
     PortfolioAssetCount = (\<lambda>_. 0), PortfolioAssetBalances = (\<lambda>_ _. 0),
     PortfolioLockedAssets = (\<lambda>_ _. 0), PortfolioCustodian = (\<lambda>_. None),
     PortfoliosInCustody = (\<lambda>_ _. False), PortfolioNFT = (\<lambda>_. {||}),
     PortfolioLockedNFT = (\<lambda>_. {||}), PreApprovedPortfolios = (\<lambda>_ _. False),
     AllowedCustodians = (\<lambda>_ _. False)\<rparr>"

definition ex_named :: portfolio_store where
  "ex_named = put_portfolio_name 1 1 (Some ''p'') (put_name_number 1 ''p'' (Some 1)
     (ex_empty\<lparr>NextPortfolioNumber := (\<lambda>_. 1)(1 := 2)\<rparr>))"

definition ex_ledger :: portfolio_store where
  "ex_ledger = set_portfolio_balance (default_portfolio 1) 7 50000000 ex_named"

lemma ex_named_inv: "portfolio_inv ex_named"
  by (auto simp: ex_named_def ex_empty_def put_defs portfolio_inv_defs tickers_bounded_def
      circulating_def portfolio_total_def sum_supp_def supp_card_def u64_max_def)

lemma ex_named_empty: "portfolio_total ex_named t = 0" "circulating ex_named = {}"
  "PortfolioLockedAssets ex_named p t = 0" "PortfolioAssetBalances ex_named p t = 0"
  by (simp_all add: ex_named_def ex_empty_def put_defs portfolio_total_def sum_supp_def
      circulating_def)

lemma ex_ledger_inv: "portfolio_inv ex_ledger"
  unfolding ex_ledger_def
  by (rule set_portfolio_balance_inv [OF ex_named_inv])
    (simp_all add: ex_named_empty u64_max_def u128_max_def)

lemmas ex_defs = ex_ledger_def ex_named_def ex_empty_def ex_config_def

lemma ex_numbers_left: "numbers_left ex_ledger"
  by (simp add: ex_defs numbers_left_def u64_max_def put_defs set_portfolio_balance_eq)

section \<open>Properties\<close>

text \<open>
  (C14) In every state the portfolio pallet can reach, by any sequence of its extrinsics and of the
  lock and unlock calls of other pallets, no portfolio has more tokens locked than it holds, the
  asset count of a portfolio is the number of tickers it holds, portfolio names and numbers are
  inverse to each other, every non-fungible token is in exactly the portfolio recorded as its owner,
  and only owned tokens are locked.
\<close>

theorem portfolio_reachable_inv:
  assumes "(\<lambda>s s'. numbers_left s \<and> portfolio_step cfg s s')\<^sup>*\<^sup>* s s'" and "portfolio_inv s"
  shows "portfolio_inv s'"
  using portfolio_system.reach_good [OF assms] .

theorem portfolio_reachable_inv_witness:
  "portfolio_inv (put_locked (default_portfolio 1) 7 3000000 ex_ledger)"
proof -
  have "lock_tokens (default_portfolio 1) 7 3000000 ex_ledger =
      Inr (put_locked (default_portfolio 1) 7 3000000 ex_ledger)"
    by (simp add: lock_tokens_Inr [OF ex_ledger_inv])
      (simp add: ex_defs set_portfolio_balance_eq put_defs check_granularity_def is_unit_multiple_def
        ONE_UNIT_def)
  then have "(\<lambda>s s'. numbers_left s \<and> portfolio_step ex_config s s')\<^sup>*\<^sup>* ex_ledger
      (put_locked (default_portfolio 1) 7 3000000 ex_ledger)"
    using ex_numbers_left portfolio_step.lock [of _ _ _ ex_ledger _ ex_config] by blast
  then show ?thesis by (rule portfolio_reachable_inv) (rule ex_ledger_inv)
qed

text \<open>
  (C6) No portfolio operation changes what an identity holds: for every identity and ticker the sum
  over all portfolios of the identity is the same before and after.
\<close>

theorem portfolio_step_holdings:
  assumes "portfolio_step cfg s s'" and "portfolio_inv s"
  shows "did_total s' d t = did_total s d t"
  using portfolio_step_balances [OF assms]
proof
  assume "PortfolioAssetBalances s' = PortfolioAssetBalances s"
  then show ?thesis using total_cong(2) [of s' s] by simp
next
  assume "\<exists>from to g. from \<noteq> to \<and> pid_did from = pid_did to \<and> moves s s' from to g"
  then obtain p q g where "p \<noteq> q" "pid_did p = pid_did q" "moves s s' p q g" by blast
  then show ?thesis using moves_did_total [of s s' p q g d t] assms(2) by simp
qed

definition ex_funds :: "Fund list" where
  "ex_funds = [\<lparr>description = FungibleFund 7 2000000, fund_memo = None\<rparr>]"

lemma ex_move:
  "move_portfolio_funds (Signed 1) (default_portfolio 1) (user_portfolio 1 1) ex_funds ex_ledger =
     Inr (unchecked_transfer_portfolio_balance (default_portfolio 1) (user_portfolio 1 1) 7 2000000
       ex_ledger)"
  by (simp add: ex_funds_def move_portfolio_funds_def ensure_portfolios_validity_and_permissions_def
      ensure_origin_call_permissions_def ensure_signed_def ensure_call_permissions_def
      check_account_call_permissions_def ensure_portfolio_validity_def
      ensure_portfolio_custody_and_permission_def ensure_portfolio_custody_def
      ensure_user_portfolio_permission_def ensure_valid_funds_def ensure_sufficient_balance_def
      ensure_granular_def check_granularity_def is_unit_multiple_def ONE_UNIT_def checked_sub_def
      unchecked_move_funds_def move_fund_def ex_defs set_portfolio_balance_eq put_defs)

theorem portfolio_step_holdings_witness:
  "did_total (unchecked_transfer_portfolio_balance (default_portfolio 1) (user_portfolio 1 1) 7
      2000000 ex_ledger) 1 7 = did_total ex_ledger 1 7"
  using portfolio_step_holdings [OF portfolio_step.move [OF ex_move, of ex_config] ex_ledger_inv] .

text \<open>
  (C15) A successful \<open>move_portfolio_funds\<close> moves exactly the listed amounts: the sender loses and the
  receiver gains, ticker by ticker, the sum of the listed amounts, every other portfolio and every
  lock is untouched, and only unlocked tokens were moved.
\<close>

theorem move_portfolio_funds_effect:
  assumes "move_portfolio_funds origin from to funds s = Inr s'" and "portfolio_inv s"
  shows "PortfolioAssetBalances s' from t + moved funds t = PortfolioAssetBalances s from t \<and>
    PortfolioAssetBalances s' to t = PortfolioAssetBalances s to t + moved funds t \<and>
    (p \<noteq> from \<longrightarrow> p \<noteq> to \<longrightarrow> PortfolioAssetBalances s' p t = PortfolioAssetBalances s p t) \<and>
    PortfolioLockedAssets s' = PortfolioLockedAssets s \<and>
    PortfolioLockedAssets s from t \<le> PortfolioAssetBalances s' from t"
proof -
  note mv = move_portfolio_funds_moves [OF assms(2,1)]
  have le: "PortfolioLockedAssets s from t + moved funds t \<le> PortfolioAssetBalances s from t"
    and b: "PortfolioAssetBalances s' p t = (if p = from then PortfolioAssetBalances s p t - moved funds t
      else if p = to then PortfolioAssetBalances s p t + moved funds t
      else PortfolioAssetBalances s p t)"
    and l: "PortfolioLockedAssets s' = PortfolioLockedAssets s" for p
    using mv(1) by (simp_all add: moves_def)
  show ?thesis using le b [of "from"] b [of to] b [of p] l mv(2) by simp
qed

theorem move_portfolio_funds_effect_witness:
  "PortfolioAssetBalances (unchecked_transfer_portfolio_balance (default_portfolio 1)
      (user_portfolio 1 1) 7 2000000 ex_ledger) (user_portfolio 1 1) 7 =
    PortfolioAssetBalances ex_ledger (user_portfolio 1 1) 7 + 2000000"
  using move_portfolio_funds_effect [OF ex_move ex_ledger_inv, of 7]
  by (simp add: moved_def ex_funds_def)

text \<open>
  Only the custodian of the sending portfolio moves funds out of it, and a secondary key needs
  the permission for both portfolios; the two portfolios belong to one identity.
\<close>

theorem move_portfolio_funds_authorized:
  assumes "move_portfolio_funds origin from to funds s = Inr s'"
  shows "\<exists>who. origin = Signed who \<and> get_identity s who = Some (custodian s from) \<and>
    pid_did from = pid_did to \<and>
    (\<forall>did perms. KeyRecords s who = Some (SecondaryKeyRecord did perms) \<longrightarrow>
       {from, to} \<subseteq> admitted (portfolio_perms perms))"
proof -
  obtain d where d: "ensure_origin_call_permissions s origin = Inr d"
    and same: "pid_did from = pid_did to"
    and cust: "custodian s from = primary_did d"
    and perm: "ensure_user_portfolio_permission (secondary_key d) from = Inr ()"
      "ensure_user_portfolio_permission (secondary_key d) to = Inr ()"
    using assms
    by (auto simp: move_portfolio_funds_def ensure_portfolios_validity_and_permissions_def
        ensure_portfolio_custody_and_permission_def ensure_portfolio_custody_def custodian_def
        attempt_Inr_iff ensure_Inr_iff)
  show ?thesis
    using d same cust perm
    by (auto simp: ensure_origin_call_permissions_def ensure_call_permissions_def res_simps
        check_account_call_permissions_Some get_identity_def ensure_user_portfolio_permission_def
        has_portfolio_permission_iff)
qed

theorem move_portfolio_funds_authorized_witness:
  "get_identity ex_ledger 1 = Some (custodian ex_ledger (default_portfolio 1))"
  using move_portfolio_funds_authorized [OF ex_move] by auto

text \<open>
  (C16) Locking a batch of amounts and later unlocking the same amounts in any order succeeds and
  gives back the locks and balances the batch started from.
\<close>

theorem lock_batch_unlock_batch:
  assumes "fold_res (\<lambda>(k, a). lock_tokens (fst k) (snd k) a) kas s = Inr s1"
    and "\<And>k. batch_amount kas' k = batch_amount kas k" and "portfolio_inv s"
  shows "\<exists>s2. fold_res (\<lambda>(k, a). unlock_tokens (fst k) (snd k) a) kas' s1 = Inr s2 \<and>
    PortfolioLockedAssets s2 = PortfolioLockedAssets s \<and>
    PortfolioAssetBalances s2 = PortfolioAssetBalances s"
proof -
  obtain s2 where s2: "fold_res (\<lambda>(k, a). unlock_tokens (fst k) (snd k) a) kas' s1 = Inr s2"
    and l: "(\<lambda>k. PortfolioLockedAssets s2 (fst k) (snd k)) =
      (\<lambda>k. PortfolioLockedAssets s (fst k) (snd k))"
    and b: "(\<lambda>k. PortfolioAssetBalances s2 (fst k) (snd k)) =
      (\<lambda>k. PortfolioAssetBalances s (fst k) (snd k))"
    using portfolio_locks.lock_all_unlock_all [OF assms(3), of kas s1 kas'] assms(1,2)
    unfolding portfolio_locks.lock_all_def portfolio_locks.unlock_all_def by blast
  have "PortfolioLockedAssets s2 p t = PortfolioLockedAssets s p t"
    and "PortfolioAssetBalances s2 p t = PortfolioAssetBalances s p t" for p t
    using fun_cong [OF l, of "(p, t)"] fun_cong [OF b, of "(p, t)"] by simp_all
  then show ?thesis using s2 by (auto simp: fun_eq_iff)
qed

theorem lock_batch_unlock_batch_witness:
  "\<exists>s1 s2. fold_res (\<lambda>(k, a). lock_tokens (fst k) (snd k) a)
      [((default_portfolio 1, 7), 3000000), ((default_portfolio 1, 7), 2000000)] ex_ledger = Inr s1 \<and>
    fold_res (\<lambda>(k, a). unlock_tokens (fst k) (snd k) a)
      [((default_portfolio 1, 7), 2000000), ((default_portfolio 1, 7), 3000000)] s1 = Inr s2 \<and>
    PortfolioLockedAssets s2 = PortfolioLockedAssets ex_ledger"
proof -
  obtain s1 where s1: "fold_res (\<lambda>(k, a). lock_tokens (fst k) (snd k) a)
      [((default_portfolio 1, 7), 3000000), ((default_portfolio 1, 7), 2000000)] ex_ledger = Inr s1"
    by (simp add: lock_tokens_def ensure_sufficient_balance_def ensure_granular_def
        check_granularity_def is_unit_multiple_def ONE_UNIT_def checked_sub_def
        unchecked_lock_tokens_def saturating_add_def u128_max_def ex_defs set_portfolio_balance_eq
        put_defs)
  have "\<And>k. batch_amount [((default_portfolio 1, 7), 2000000), ((default_portfolio 1, 7), 3000000)] k =
      batch_amount [((default_portfolio 1, 7), 3000000), ((default_portfolio 1, 7), 2000000)] k"
    by simp
  from lock_batch_unlock_batch [OF s1 this ex_ledger_inv] show ?thesis using s1 by blast
qed

text \<open>
  (C17) Deleting a portfolio loses nothing: the deleted portfolio was empty, in the custody of its
  owner and is gone afterwards, and no balance, lock or token ownership changes.
\<close>

theorem delete_portfolio_safe:
  assumes "delete_portfolio origin num s = Inr s'" and "portfolio_inv s"
  shows "\<exists>did. ensure_perms s origin = Inr did \<and>
    (\<forall>t. PortfolioAssetBalances s (user_portfolio did num) t = 0) \<and>
    PortfolioNFT s (user_portfolio did num) = {||} \<and>
    custodian s (user_portfolio did num) = did \<and>
    Portfolios s did num \<noteq> None \<and> Portfolios s' did num = None \<and>
    PortfolioAssetBalances s' = PortfolioAssetBalances s \<and>
    PortfolioLockedAssets s' = PortfolioLockedAssets s \<and> NFTOwner s' = NFTOwner s"
  by (rule delete_portfolio_effect [OF assms(2,1)])
    (intro exI conjI, assumption, simp_all add: view_defs)

theorem delete_portfolio_safe_witness:
  "\<exists>s'. delete_portfolio (Signed 1) 1 ex_ledger = Inr s' \<and> Portfolios s' 1 1 = None \<and>
    PortfolioAssetBalances s' = PortfolioAssetBalances ex_ledger"
proof -
  have p: "ensure_perms ex_ledger (Signed 1) = Inr 1"
    by (simp add: ensure_perms_def ensure_origin_call_permissions_def ensure_signed_def
        ensure_call_permissions_def check_account_call_permissions_def ex_defs
        set_portfolio_balance_eq put_defs)
  have "is_ok (delete_portfolio (Signed 1) 1 ex_ledger)"
    by (simp add: Let_def delete_portfolio_def ensure_origin_call_permissions_def ensure_signed_def
        ensure_call_permissions_def check_account_call_permissions_def
        ensure_user_portfolio_validity_def ensure_portfolio_custody_and_permission_def
        ensure_portfolio_custody_def ensure_user_portfolio_permission_def
        ex_defs set_portfolio_balance_eq put_defs)
  then obtain s' where s': "delete_portfolio (Signed 1) 1 ex_ledger = Inr s'"
    by (auto simp: is_ok_iff)
  show ?thesis using delete_portfolio_safe [OF s' ex_ledger_inv] s' p by auto
qed

end
