(* ===== verification/External_Agents.thy ===== *)
theory External_Agents
  imports Portfolio_Theorems
begin

text \<open>
  The external agents pallet (\<open>pallets/external-agents/src/lib.rs\<close>): which identities act for a
  ticker, in which group, and with which permissions. The pallet promises that the counter of full
  agents is exact and that a ticker that has a full agent never loses its last one.
\<close>

type_synonym AGId = nat

record agents_store = portfolio_store +
  AGIdSequence :: "Ticker \<Rightarrow> AGId"
  AgentOf :: "IdentityId \<Rightarrow> Ticker \<Rightarrow> bool"
  GroupOfAgent :: "Ticker \<Rightarrow> IdentityId \<Rightarrow> AgentGroup option"
  NumFullAgents :: "Ticker \<Rightarrow> nat"
  GroupPermissions :: "Ticker \<Rightarrow> AGId \<Rightarrow> ExtrinsicPermissions option"

section \<open>Permissions\<close>

definition MAX_PALLETS :: nat where "MAX_PALLETS = 80"

definition MAX_EXTRINSICS :: nat where "MAX_EXTRINSICS = 80"

definition MAX_NAME_LEN :: nat where "MAX_NAME_LEN = 60"

definition pallet_perms_limited :: "PalletPermissions \<Rightarrow> bool" where
  "pallet_perms_limited elem \<longleftrightarrow>
     length (pallet_name elem) \<le> MAX_NAME_LEN \<and>
     (case subset_inner (dispatchable_names elem) of
        None \<Rightarrow> True
      | Some names \<Rightarrow> fcard names \<le> MAX_EXTRINSICS \<and> fBall names (\<lambda>n. length n \<le> MAX_NAME_LEN))"

definition ensure_extrinsic_perms_length_limited :: "ExtrinsicPermissions \<Rightarrow> unit result" where
  "ensure_extrinsic_perms_length_limited perms =
     (case subset_inner perms of
        None \<Rightarrow> Inr ()
      | Some elems \<Rightarrow>
          attempt (ensure_custom_length_ok (fcard elems) MAX_PALLETS) (\<lambda>_.
          ensure (fBall elems pallet_perms_limited) (BaseError TooLong) (Inr ())))"

definition entire_pallet :: "PalletName \<Rightarrow> PalletPermissions" where
  "entire_pallet p = \<lparr>pallet_name = p, dispatchable_names = Whole\<rparr>"

definition agent_permissions ::
  "'a agents_store_scheme \<Rightarrow> Ticker \<Rightarrow> IdentityId \<Rightarrow> ExtrinsicPermissions" where
  "agent_permissions s ticker agent =
     (case GroupOfAgent s ticker agent of
        None \<Rightarrow> These {||}
      | Some Full \<Rightarrow> Whole
      | Some (Custom ag_id) \<Rightarrow>
          (case GroupPermissions s ticker ag_id of Some perms \<Rightarrow> perms | None \<Rightarrow> These {||})
      | Some ExceptMeta \<Rightarrow> Except {|entire_pallet ''ExternalAgents''|}
      | Some PolymeshV1CAA \<Rightarrow> These {|entire_pallet ''CorporateAction'',
          entire_pallet ''CorporateBallot'', entire_pallet ''CapitalDistribution''|}
      | Some PolymeshV1PIA \<Rightarrow> These {|
          \<lparr>pallet_name = ''Sto'', dispatchable_names = Except {|''invest''|}\<rparr>,
          \<lparr>pallet_name = ''Asset'',
           dispatchable_names = These {|''issue'', ''redeem'', ''controller_transfer''|}\<rparr>|})"

definition ensure_agent_permissioned ::
  "'a agents_store_scheme \<Rightarrow> Ticker \<Rightarrow> IdentityId \<Rightarrow> unit result" where
  "ensure_agent_permissioned s ticker agent =
     ensure (sufficient_for (agent_permissions s ticker agent)
               (CurrentPalletName s) (CurrentDispatchableName s))
       (ExternalAgentsError UnauthorizedAgent) (Inr ())"

definition ensure_asset_perms ::
  "'a agents_store_scheme \<Rightarrow> Origin \<Rightarrow> Ticker \<Rightarrow> PermissionedCallOriginData result" where
  "ensure_asset_perms s origin ticker =
     attempt (ensure_origin_call_permissions s origin) (\<lambda>d.
     case secondary_key d of
       Some sk \<Rightarrow> ensure (has_asset_permission sk ticker)
                   (ExternalAgentsError SecondaryKeyNotAuthorizedForAsset) (Inr d)
     | None \<Rightarrow> Inr d)"

definition ensure_agent_asset_perms ::
  "'a agents_store_scheme \<Rightarrow> Origin \<Rightarrow> Ticker \<Rightarrow> PermissionedCallOriginData result" where
  "ensure_agent_asset_perms s origin ticker =
     attempt (ensure_asset_perms s origin ticker) (\<lambda>d.
     attempt (ensure_agent_permissioned s ticker (primary_did d)) (\<lambda>_. Inr d))"

definition ea_ensure_perms ::
  "'a agents_store_scheme \<Rightarrow> Origin \<Rightarrow> Ticker \<Rightarrow> IdentityId result" where
  "ea_ensure_perms s origin ticker =
     attempt (ensure_agent_asset_perms s origin ticker) (\<lambda>d. Inr (primary_did d))"

section \<open>Groups and agents\<close>

definition ensure_custom_agent_group_exists ::
  "'a agents_store_scheme \<Rightarrow> Ticker \<Rightarrow> AGId \<Rightarrow> unit result" where
  "ensure_custom_agent_group_exists s ticker i =
     ensure (1 \<le> i \<and> i \<le> AGIdSequence s ticker) (ExternalAgentsError NoSuchAG) (Inr ())"

definition ensure_agent_group_valid ::
  "'a agents_store_scheme \<Rightarrow> Ticker \<Rightarrow> AgentGroup \<Rightarrow> unit result" where
  "ensure_agent_group_valid s ticker grp =
     (case grp of Custom i \<Rightarrow> ensure_custom_agent_group_exists s ticker i | _ \<Rightarrow> Inr ())"

definition dec_full_count ::
  "Ticker \<Rightarrow> 'a agents_store_scheme \<Rightarrow> ('a agents_store_scheme) result" where
  "dec_full_count ticker s =
     attempt (ok_or (case checked_sub (NumFullAgents s ticker) 1 of
                       Some x \<Rightarrow> if x > 0 then Some x else None
                     | None \<Rightarrow> None)
                (ExternalAgentsError RemovingLastFullAgent)) (\<lambda>n.
     Inr (s\<lparr>NumFullAgents := (NumFullAgents s)(ticker := n)\<rparr>))"

definition inc_full_count ::
  "Ticker \<Rightarrow> 'a agents_store_scheme \<Rightarrow> ('a agents_store_scheme) result" where
  "inc_full_count ticker s =
     attempt (try_next_post u32_max (NumFullAgents s ticker)) (\<lambda>(_, n).
     Inr (s\<lparr>NumFullAgents := (NumFullAgents s)(ticker := n)\<rparr>))"

definition set_group_of_agent ::
  "Ticker \<Rightarrow> IdentityId \<Rightarrow> AgentGroup option \<Rightarrow> 'a agents_store_scheme
    \<Rightarrow> 'a agents_store_scheme" where
  "set_group_of_agent ticker agent g s =
     s\<lparr>GroupOfAgent := (GroupOfAgent s)(ticker := (GroupOfAgent s ticker)(agent := g))\<rparr>"

definition set_agent_of ::
  "IdentityId \<Rightarrow> Ticker \<Rightarrow> bool \<Rightarrow> 'a agents_store_scheme \<Rightarrow> 'a agents_store_scheme" where
  "set_agent_of agent ticker v s =
     s\<lparr>AgentOf := (AgentOf s)(agent := (AgentOf s agent)(ticker := v))\<rparr>"

definition try_mutate_agents_group ::
  "Ticker \<Rightarrow> IdentityId \<Rightarrow> AgentGroup option \<Rightarrow> 'a agents_store_scheme
    \<Rightarrow> ('a agents_store_scheme) result" where
  "try_mutate_agents_group ticker agent grp s =
     (let slot = GroupOfAgent s ticker agent in
      ensure (slot \<noteq> None) (ExternalAgentsError NotAnAgent) (
      attempt (case (slot, grp) of
                 (Some Full, Some Full) \<Rightarrow> Inr s
               | (Some Full, _) \<Rightarrow> dec_full_count ticker s
               | (_, Some Full) \<Rightarrow> inc_full_count ticker s
               | _ \<Rightarrow> Inr s) (\<lambda>s1.
      let s2 = if grp = None then set_agent_of agent ticker False s1 else s1 in
      Inr (set_group_of_agent ticker agent grp s2))))"

definition unchecked_add_agent ::
  "Ticker \<Rightarrow> IdentityId \<Rightarrow> AgentGroup \<Rightarrow> 'a agents_store_scheme
    \<Rightarrow> ('a agents_store_scheme) result" where
  "unchecked_add_agent ticker did grp s =
     attempt (case grp of Full \<Rightarrow> inc_full_count ticker s | _ \<Rightarrow> Inr s) (\<lambda>s1.
     Inr (set_agent_of did ticker True (set_group_of_agent ticker did (Some grp) s1)))"

definition put_group_permissions ::
  "Ticker \<Rightarrow> AGId \<Rightarrow> ExtrinsicPermissions \<Rightarrow> 'a agents_store_scheme \<Rightarrow> 'a agents_store_scheme" where
  "put_group_permissions ticker i perms s =
     s\<lparr>GroupPermissions := (GroupPermissions s)(ticker := (GroupPermissions s ticker)(i \<mapsto> perms))\<rparr>"

definition base_create_group ::
  "Origin \<Rightarrow> Ticker \<Rightarrow> ExtrinsicPermissions \<Rightarrow> 'a agents_store_scheme
    \<Rightarrow> ((IdentityId \<times> AGId) \<times> 'a agents_store_scheme) result" where
  "base_create_group origin ticker perms s =
     attempt (ea_ensure_perms s origin ticker) (\<lambda>did.
     attempt (ensure_extrinsic_perms_length_limited perms) (\<lambda>_.
     attempt (try_next_pre u32_max (AGIdSequence s ticker)) (\<lambda>(i, sq).
     let s1 = s\<lparr>AGIdSequence := (AGIdSequence s)(ticker := sq)\<rparr> in
     Inr ((did, i), put_group_permissions ticker i perms s1))))"

definition base_set_group_permissions ::
  "Origin \<Rightarrow> Ticker \<Rightarrow> AGId \<Rightarrow> ExtrinsicPermissions \<Rightarrow> 'a agents_store_scheme
    \<Rightarrow> ('a agents_store_scheme) result" where
  "base_set_group_permissions origin ticker i perms s =
     attempt (ea_ensure_perms s origin ticker) (\<lambda>_.
     attempt (ensure_extrinsic_perms_length_limited perms) (\<lambda>_.
     attempt (ensure_custom_agent_group_exists s ticker i) (\<lambda>_.
     Inr (put_group_permissions ticker i perms s))))"

definition base_remove_agent ::
  "Origin \<Rightarrow> Ticker \<Rightarrow> IdentityId \<Rightarrow> 'a agents_store_scheme \<Rightarrow> ('a agents_store_scheme) result" where
  "base_remove_agent origin ticker agent s =
     attempt (ea_ensure_perms s origin ticker) (\<lambda>_. try_mutate_agents_group ticker agent None s)"

definition base_abdicate ::
  "Origin \<Rightarrow> Ticker \<Rightarrow> 'a agents_store_scheme \<Rightarrow> ('a agents_store_scheme) result" where
  "base_abdicate origin ticker s =
     attempt (ensure_asset_perms s origin ticker) (\<lambda>d.
     try_mutate_agents_group ticker (primary_did d) None s)"

definition unsafe_change_group ::
  "Ticker \<Rightarrow> IdentityId \<Rightarrow> AgentGroup \<Rightarrow> 'a agents_store_scheme
    \<Rightarrow> ('a agents_store_scheme) result" where
  "unsafe_change_group ticker agent grp s =
     attempt (ensure_agent_group_valid s ticker grp) (\<lambda>_.
     try_mutate_agents_group ticker agent (Some grp) s)"

definition base_change_group ::
  "Origin \<Rightarrow> Ticker \<Rightarrow> IdentityId \<Rightarrow> AgentGroup \<Rightarrow> 'a agents_store_scheme
    \<Rightarrow> ('a agents_store_scheme) result" where
  "base_change_group origin ticker agent grp s =
     attempt (ea_ensure_perms s origin ticker) (\<lambda>_. unsafe_change_group ticker agent grp s)"

definition base_create_and_change_custom_group ::
  "Origin \<Rightarrow> Ticker \<Rightarrow> ExtrinsicPermissions \<Rightarrow> IdentityId \<Rightarrow> 'a agents_store_scheme
    \<Rightarrow> ('a agents_store_scheme) result" where
  "base_create_and_change_custom_group origin ticker perms agent s =
     attempt (base_create_group origin ticker perms s) (\<lambda>((_, ag_id), s1).
     unsafe_change_group ticker agent (Custom ag_id) s1)"

definition base_create_group_and_add_auth ::
  "Origin \<Rightarrow> Ticker \<Rightarrow> ExtrinsicPermissions \<Rightarrow> IdentityId \<Rightarrow> Moment option
    \<Rightarrow> 'a agents_store_scheme \<Rightarrow> ('a agents_store_scheme) result" where
  "base_create_group_and_add_auth origin ticker perms target expiry s =
     attempt (base_create_group origin ticker perms s) (\<lambda>((did, ag_id), s1).
     Inr (snd (add_auth did (Identity target) (BecomeAgent ticker (Custom ag_id)) expiry s1)))"

definition become_agent_with_auth ::
  "IdentityId \<Rightarrow> AuthorizationData \<Rightarrow> IdentityId \<Rightarrow> 'a agents_store_scheme
    \<Rightarrow> ('a agents_store_scheme) result" where
  "become_agent_with_auth to dat from s =
     (case dat of
        BecomeAgent ticker grp \<Rightarrow>
          attempt (ensure_agent_permissioned s ticker from) (\<lambda>_.
          attempt (ensure_agent_group_valid s ticker grp) (\<lambda>_.
          ensure (GroupOfAgent s ticker to = None) (ExternalAgentsError AlreadyAnAgent) (
          unchecked_add_agent ticker to grp s)))
      | _ \<Rightarrow> Inl (dispatch_error_of_auth BadType))"

definition base_accept_become_agent ::
  "Origin \<Rightarrow> nat \<Rightarrow> 'a agents_store_scheme \<Rightarrow> ('a agents_store_scheme) result" where
  "base_accept_become_agent origin i s =
     attempt (ensure_perms s origin) (\<lambda>to.
     storage_layer (accept_auth_with (Identity to) i (become_agent_with_auth to) s))"

section \<open>Invariant\<close>

definition full_agents :: "'a agents_store_scheme \<Rightarrow> Ticker \<Rightarrow> IdentityId set" where
  "full_agents s t = {d. GroupOfAgent s t d = Some Full}"

definition full_count_exact :: "'a agents_store_scheme \<Rightarrow> bool" where
  "full_count_exact s \<longleftrightarrow>
     (\<forall>t. finite (full_agents s t) \<and> NumFullAgents s t = card (full_agents s t))"

definition agent_index_exact :: "'a agents_store_scheme \<Rightarrow> bool" where
  "agent_index_exact s \<longleftrightarrow> (\<forall>t d. AgentOf s d t \<longleftrightarrow> GroupOfAgent s t d \<noteq> None)"

definition groups_numbered :: "'a agents_store_scheme \<Rightarrow> bool" where
  "groups_numbered s \<longleftrightarrow>
     (\<forall>t i. GroupPermissions s t i \<noteq> None \<longleftrightarrow> 1 \<le> i \<and> i \<le> AGIdSequence s t)"

definition agents_in_groups :: "'a agents_store_scheme \<Rightarrow> bool" where
  "agents_in_groups s \<longleftrightarrow>
     (\<forall>t d i. GroupOfAgent s t d = Some (Custom i) \<longrightarrow> GroupPermissions s t i \<noteq> None)"

definition agents_inv :: "'a agents_store_scheme \<Rightarrow> bool" where
  "agents_inv s \<longleftrightarrow> full_count_exact s \<and> agent_index_exact s \<and> groups_numbered s \<and> agents_in_groups s"

lemmas agents_inv_defs = agents_inv_def full_count_exact_def agent_index_exact_def
  groups_numbered_def agents_in_groups_def

definition full_count_after :: "AgentGroup option \<Rightarrow> AgentGroup option \<Rightarrow> nat \<Rightarrow> nat" where
  "full_count_after old new n =
     (if old = Some Full \<and> new \<noteq> Some Full then n - 1
      else if old \<noteq> Some Full \<and> new = Some Full then n + 1 else n)"

lemma full_count_Inr [res_simps]:
  "dec_full_count t s = Inr s' \<longleftrightarrow>
     2 \<le> NumFullAgents s t \<and> s' = s\<lparr>NumFullAgents := (NumFullAgents s)(t := NumFullAgents s t - 1)\<rparr>"
  "inc_full_count t s = Inr s' \<longleftrightarrow>
     NumFullAgents s t + 1 \<le> u32_max \<and>
     s' = s\<lparr>NumFullAgents := (NumFullAgents s)(t := NumFullAgents s t + 1)\<rparr>"
  by (auto simp: dec_full_count_def inc_full_count_def res_simps checked_sub_def
      split: option.splits if_splits)

lemma try_mutate_agents_group_Inr [res_simps]:
  "try_mutate_agents_group t a g s = Inr s' \<longleftrightarrow>
     GroupOfAgent s t a \<noteq> None \<and>
     (GroupOfAgent s t a = Some Full \<and> g \<noteq> Some Full \<longrightarrow> 2 \<le> NumFullAgents s t) \<and>
     (GroupOfAgent s t a \<noteq> Some Full \<and> g = Some Full \<longrightarrow> NumFullAgents s t + 1 \<le> u32_max) \<and>
     s' = s\<lparr>NumFullAgents := (NumFullAgents s)(t :=
              full_count_after (GroupOfAgent s t a) g (NumFullAgents s t)),
            AgentOf := (AgentOf s)(a := (AgentOf s a)(t := (g \<noteq> None \<and> AgentOf s a t))),
            GroupOfAgent := (GroupOfAgent s)(t := (GroupOfAgent s t)(a := g))\<rparr>"
proof (cases "GroupOfAgent s t a")
  case None
  then show ?thesis by (simp add: try_mutate_agents_group_def)
next
  case (Some old)
  then show ?thesis
    by (cases old; cases g; (cases "the g")?)
      (auto simp: try_mutate_agents_group_def full_count_after_def set_agent_of_def
        set_group_of_agent_def res_simps)
qed

lemma unchecked_add_agent_Inr [res_simps]:
  "unchecked_add_agent t d g s = Inr s' \<longleftrightarrow>
     (g = Full \<longrightarrow> NumFullAgents s t + 1 \<le> u32_max) \<and>
     s' = s\<lparr>NumFullAgents := (NumFullAgents s)(t := NumFullAgents s t + (if g = Full then 1 else 0)),
            AgentOf := (AgentOf s)(d := (AgentOf s d)(t := True)),
            GroupOfAgent := (GroupOfAgent s)(t := (GroupOfAgent s t)(d \<mapsto> g))\<rparr>"
  by (cases g) (auto simp: unchecked_add_agent_def set_agent_of_def set_group_of_agent_def res_simps)

lemma full_agents_upd:
  "{d. ((GroupOfAgent s t)(a := g)) d = Some Full} =
     (if g = Some Full then insert a (full_agents s t) else full_agents s t - {a})"
  by (auto simp: full_agents_def)

lemma full_count_after_card:
  assumes "finite (full_agents s t)" "n = card (full_agents s t)"
  shows "full_count_after (GroupOfAgent s t a) g n =
    card {d. ((GroupOfAgent s t)(a := g)) d = Some Full}"
proof -
  have "a \<in> full_agents s t \<longleftrightarrow> GroupOfAgent s t a = Some Full" by (simp add: full_agents_def)
  then show ?thesis
    using assms unfolding full_agents_upd full_count_after_def
    by (auto simp: card_Diff_singleton insert_absorb)
qed

lemma change_group_inv:
  assumes inv: "agents_inv s"
    and step: "try_mutate_agents_group t a g s = Inr s'"
    and valid: "\<And>i. g = Some (Custom i) \<Longrightarrow> GroupPermissions s t i \<noteq> None"
  shows "agents_inv s'"
proof -
  have fin: "finite (full_agents s u)" "NumFullAgents s u = card (full_agents s u)" for u
    using inv by (simp_all add: agents_inv_defs)
  have "full_count_exact s'"
    using step fin full_count_after_card [of s t "NumFullAgents s t" a g]
    by (auto simp: full_count_exact_def full_agents_def res_simps
        intro: finite_subset [of _ "insert a {d. GroupOfAgent s t d = Some Full}"])
  then show ?thesis
    using step inv valid by (auto simp: agents_inv_defs res_simps)
qed

lemma add_agent_inv:
  assumes inv: "agents_inv s" and none: "GroupOfAgent s t d = None"
    and step: "unchecked_add_agent t d g s = Inr s'"
    and valid: "\<And>i. g = Custom i \<Longrightarrow> GroupPermissions s t i \<noteq> None"
  shows "agents_inv s'"
proof -
  have fin: "finite (full_agents s u)" "NumFullAgents s u = card (full_agents s u)" for u
    using inv by (simp_all add: agents_inv_defs)
  have "full_count_after (GroupOfAgent s t d) (Some g) (NumFullAgents s t) =
      NumFullAgents s t + (if g = Full then 1 else 0)"
    using none by (simp add: full_count_after_def)
  then have "full_count_exact s'"
    using step fin full_count_after_card [of s t "NumFullAgents s t" d "Some g"]
    by (auto simp: full_count_exact_def full_agents_def res_simps
        intro: finite_subset [of _ "insert d {d. GroupOfAgent s t d = Some Full}"])
  then show ?thesis
    using step inv valid by (auto simp: agents_inv_defs res_simps)
qed

section \<open>The pallet as a transition system\<close>

inductive agents_step :: "'a agents_store_scheme \<Rightarrow> 'a agents_store_scheme \<Rightarrow> bool" where
  create_group: "base_create_group origin t perms s = Inr (r, s') \<Longrightarrow> agents_step s s'"
| set_permissions: "base_set_group_permissions origin t i perms s = Inr s' \<Longrightarrow> agents_step s s'"
| remove_agent: "base_remove_agent origin t a s = Inr s' \<Longrightarrow> agents_step s s'"
| abdicate: "base_abdicate origin t s = Inr s' \<Longrightarrow> agents_step s s'"
| change_group: "base_change_group origin t a g s = Inr s' \<Longrightarrow> agents_step s s'"
| create_and_change:
    "base_create_and_change_custom_group origin t perms a s = Inr s' \<Longrightarrow> agents_step s s'"
| create_and_auth:
    "base_create_group_and_add_auth origin t perms d expiry s = Inr s' \<Longrightarrow> agents_step s s'"
| accept: "base_accept_become_agent origin i s = Inr s' \<Longrightarrow> agents_step s s'"

definition agents_view where
  "agents_view s = (AGIdSequence s, AgentOf s, GroupOfAgent s, NumFullAgents s, GroupPermissions s)"

lemma agents_inv_cong: "agents_view s' = agents_view s \<Longrightarrow> agents_inv s' = agents_inv s"
  by (simp add: agents_view_def agents_inv_defs full_agents_def)

lemma agents_inv_perm_dom:
  assumes "agents_inv s" "AGIdSequence s' = AGIdSequence s" "AgentOf s' = AgentOf s"
    "GroupOfAgent s' = GroupOfAgent s" "NumFullAgents s' = NumFullAgents s"
    "\<And>t i. (GroupPermissions s' t i = None) = (GroupPermissions s t i = None)"
  shows "agents_inv s'"
  using assms(1) unfolding agents_inv_defs full_agents_def assms(2-6) .

lemma agents_view_auth [simp]:
  "agents_view (unsafe_remove_auth sg i by s) = agents_view s"
  "agents_view (snd (add_auth d sg dat e s)) = agents_view s"
  by (simp_all add: agents_view_def unsafe_remove_auth_def add_auth_def set_authorization_def
      set_authorization_given_def Let_def)

lemma base_create_group_Inr:
  "base_create_group origin t perms s = Inr (r, s') \<Longrightarrow>
     AGIdSequence s t + 1 \<le> u32_max \<and> snd r = AGIdSequence s t + 1 \<and>
     s' = s\<lparr>AGIdSequence := (AGIdSequence s)(t := AGIdSequence s t + 1),
            GroupPermissions := (GroupPermissions s)(t :=
              (GroupPermissions s t)(AGIdSequence s t + 1 \<mapsto> perms))\<rparr>"
  by (auto simp: base_create_group_def put_group_permissions_def res_simps)

lemma base_create_group_inv:
  assumes "agents_inv s" "base_create_group origin t perms s = Inr (r, s')"
  shows "agents_inv s'" and "GroupOfAgent s' = GroupOfAgent s"
    and "GroupPermissions s' t (snd r) \<noteq> None"
  using base_create_group_Inr [OF assms(2)] assms(1)
  by (auto simp: agents_inv_defs full_agents_def split: if_splits)

lemma ensure_agent_group_valid_Inr:
  "agents_inv s \<Longrightarrow> ensure_agent_group_valid s t g = Inr u \<Longrightarrow> g = Custom i \<Longrightarrow>
    GroupPermissions s t i \<noteq> None"
  by (auto simp: ensure_agent_group_valid_def ensure_custom_agent_group_exists_def res_simps
      agents_inv_defs)

lemma unsafe_change_group_inv:
  "agents_inv s \<Longrightarrow> unsafe_change_group t a g s = Inr s' \<Longrightarrow> agents_inv s'"
  using change_group_inv [of s t a "Some g" s'] ensure_agent_group_valid_Inr [of s t g]
  by (auto simp: unsafe_change_group_def attempt_Inr_iff)

lemma become_agent_with_auth_Inr [res_simps]:
  "become_agent_with_auth to dat from s = Inr s' \<longleftrightarrow>
     (\<exists>t g. dat = BecomeAgent t g \<and> ensure_agent_permissioned s t from = Inr () \<and>
        ensure_agent_group_valid s t g = Inr () \<and> GroupOfAgent s t to = None \<and>
        unchecked_add_agent t to g s = Inr s')"
  by (cases dat) (auto simp: become_agent_with_auth_def attempt_Inr_iff ensure_Inr_iff)

lemma accept_become_agent_Inr:
  assumes "base_accept_become_agent origin i s = Inr s'"
  obtains to t g s1 d where "GroupOfAgent s t to = None" "unchecked_add_agent t to g s = Inr s1"
    "ensure_agent_group_valid s t g = Inr ()" "s' = unsafe_remove_auth (Identity to) i d s1"
  using assms
  by (auto simp: base_accept_become_agent_def attempt_Inr_iff accept_auth_with_Inr
      become_agent_with_auth_Inr)

lemma agents_step_inv:
  assumes "agents_step s s'" and inv: "agents_inv s"
  shows "agents_inv s'"
  using assms(1)
proof cases
  case (create_group origin t perms r)
  then show ?thesis using base_create_group_inv(1) [OF inv] by blast
next
  case (set_permissions origin t i perms)
  then have ex: "1 \<le> i \<and> i \<le> AGIdSequence s t"
    and s': "s' = s\<lparr>GroupPermissions := (GroupPermissions s)(t := (GroupPermissions s t)(i \<mapsto> perms))\<rparr>"
    by (auto simp: base_set_group_permissions_def put_group_permissions_def
        ensure_custom_agent_group_exists_def attempt_Inr_iff ensure_Inr_iff)
  have "GroupPermissions s t i \<noteq> None" using inv ex by (simp add: agents_inv_def groups_numbered_def)
  then have "(GroupPermissions s' u j = None) = (GroupPermissions s u j = None)" for u j
    by (auto simp: s')
  then show ?thesis using agents_inv_perm_dom [OF inv, of s'] by (simp add: s')
next
  case (remove_agent origin t a)
  then show ?thesis
    using change_group_inv [OF inv, of t a None] by (auto simp: base_remove_agent_def attempt_Inr_iff)
next
  case (abdicate origin t)
  then show ?thesis
    using change_group_inv [OF inv, of t _ None] by (auto simp: base_abdicate_def attempt_Inr_iff)
next
  case (change_group origin t a g)
  then show ?thesis
    using unsafe_change_group_inv [OF inv] by (auto simp: base_change_group_def attempt_Inr_iff)
next
  case (create_and_change origin t perms a)
  then obtain r s1 where "base_create_group origin t perms s = Inr (r, s1)"
    "unsafe_change_group t a (Custom (snd r)) s1 = Inr s'"
    by (auto simp: base_create_and_change_custom_group_def attempt_Inr_iff)
  then show ?thesis using base_create_group_inv(1) [OF inv] unsafe_change_group_inv by blast
next
  case (create_and_auth origin t perms d expiry)
  then obtain r s1 where s1: "base_create_group origin t perms s = Inr (r, s1)"
    and v: "agents_view s' = agents_view s1"
    by (auto simp: base_create_group_and_add_auth_def attempt_Inr_iff)
  then show ?thesis using base_create_group_inv(1) [OF inv s1] agents_inv_cong [OF v] by simp
next
  case (accept origin i)
  then obtain to t g s1 d where none: "GroupOfAgent s t to = None"
    and add: "unchecked_add_agent t to g s = Inr s1"
    and valid: "ensure_agent_group_valid s t g = Inr ()"
    and s': "s' = unsafe_remove_auth (Identity to) i d s1"
    by (rule accept_become_agent_Inr)
  have "agents_inv s1"
    using add_agent_inv [OF inv none add] ensure_agent_group_valid_Inr [OF inv valid] by blast
  then show ?thesis using agents_inv_cong [of s' s1] by (simp add: s')
qed

interpretation agents_system: invariant_system agents_step agents_inv
  by unfold_locales (rule agents_step_inv)

text \<open>A step keeps at least one full agent of a ticker that has one.\<close>

lemma change_group_keeps_full:
  assumes inv: "agents_inv s" and step: "try_mutate_agents_group t a g s = Inr s'"
    and some: "full_agents s u \<noteq> {}"
  shows "full_agents s' u \<noteq> {}"
proof (cases "u = t")
  case True
  have eq: "full_agents s' t =
      (if g = Some Full then insert a (full_agents s t) else full_agents s t - {a})"
    using step full_agents_upd [of s t a g] by (auto simp: res_simps full_agents_def)
  have "2 \<le> card (full_agents s t)" if "a \<in> full_agents s t" "g \<noteq> Some Full"
    using that step inv by (auto simp: res_simps agents_inv_defs full_agents_def)
  then have "full_agents s t - {a} \<noteq> {}" if "a \<in> full_agents s t" "g \<noteq> Some Full"
    using that by (metis card.empty card_Diff_singleton One_nat_def Suc_1 diff_is_0_eq not_less_eq_eq)
  then show ?thesis using eq some True by (cases "a \<in> full_agents s t") auto
next
  case False
  then show ?thesis using step some by (auto simp: res_simps full_agents_def)
qed

lemma agents_step_keeps_full:
  assumes "agents_step s s'" and inv: "agents_inv s" and some: "full_agents s u \<noteq> {}"
  shows "full_agents s' u \<noteq> {}"
  using assms(1)
proof cases
  case (create_group origin t perms r)
  then show ?thesis using base_create_group_inv(2) [OF inv] some by (simp add: full_agents_def)
next
  case (set_permissions origin t i perms)
  then show ?thesis
    using some by (auto simp: base_set_group_permissions_def put_group_permissions_def
        attempt_Inr_iff full_agents_def)
next
  case (remove_agent origin t a)
  then show ?thesis
    using change_group_keeps_full [OF inv _ some] by (auto simp: base_remove_agent_def attempt_Inr_iff)
next
  case (abdicate origin t)
  then show ?thesis
    using change_group_keeps_full [OF inv _ some] by (auto simp: base_abdicate_def attempt_Inr_iff)
next
  case (change_group origin t a g)
  then show ?thesis
    using change_group_keeps_full [OF inv _ some]
    by (auto simp: base_change_group_def unsafe_change_group_def attempt_Inr_iff)
next
  case (create_and_change origin t perms a)
  then obtain r s1 where s1: "base_create_group origin t perms s = Inr (r, s1)"
    and ch: "try_mutate_agents_group t a (Some (Custom (snd r))) s1 = Inr s'"
    by (auto simp: base_create_and_change_custom_group_def unsafe_change_group_def attempt_Inr_iff)
  have "full_agents s1 u \<noteq> {}"
    using base_create_group_inv(2) [OF inv s1] some by (simp add: full_agents_def)
  then show ?thesis using change_group_keeps_full [OF base_create_group_inv(1) [OF inv s1] ch] by blast
next
  case (create_and_auth origin t perms d expiry)
  then obtain r s1 where s1: "base_create_group origin t perms s = Inr (r, s1)"
    and v: "agents_view s' = agents_view s1"
    by (auto simp: base_create_group_and_add_auth_def attempt_Inr_iff)
  then show ?thesis
    using base_create_group_inv(2) [OF inv s1] some by (simp add: full_agents_def agents_view_def)
next
  case (accept origin i)
  then obtain to t g s1 d where none: "GroupOfAgent s t to = None"
    and add: "unchecked_add_agent t to g s = Inr s1"
    and s': "s' = unsafe_remove_auth (Identity to) i d s1"
    by (rule accept_become_agent_Inr)
  have "full_agents s u \<subseteq> full_agents s1 u"
    using add none by (auto simp: res_simps full_agents_def)
  moreover have "GroupOfAgent s' = GroupOfAgent s1"
    using agents_view_auth(1) [of "Identity to" i d s1] by (simp add: s' agents_view_def)
  ultimately show ?thesis using some by (auto simp: full_agents_def)
qed

section \<open>Properties\<close>

text \<open>Identity 1 is a full agent of ticker 7, identity 2 manages corporate actions.\<close>

definition ex_agents :: agents_store where
  "ex_agents = portfolio_store.extend ex_ledger
     (agents_store.fields (\<lambda>_. 0) (\<lambda>d t. t = 7 \<and> (d = 1 \<or> d = 2))
        ((\<lambda>_ _. None)(7 := [1 \<mapsto> Full, 2 \<mapsto> PolymeshV1CAA])) ((\<lambda>_. 0)(7 := 1)) (\<lambda>_ _. None))"

lemmas ex_agents_defs = ex_agents_def portfolio_store.defs agents_store.defs

lemma ex_full_agents: "full_agents ex_agents t = (if t = 7 then {1} else {})"
  by (auto simp: full_agents_def ex_agents_defs)

lemma ex_agents_inv: "agents_inv ex_agents"
proof -
  have "full_count_exact ex_agents"
    unfolding full_count_exact_def ex_full_agents by (simp add: ex_agents_defs)
  then show ?thesis by (auto simp: agents_inv_defs ex_agents_defs)
qed

lemma ex_remove_agent:
  "base_remove_agent (Signed 1) 7 2 ex_agents = Inr (set_group_of_agent 7 2 None
     (set_agent_of 2 7 False ex_agents))"
  by (simp add: base_remove_agent_def ea_ensure_perms_def ensure_agent_asset_perms_def
      ensure_asset_perms_def ensure_origin_call_permissions_def ensure_signed_def
      ensure_call_permissions_def check_account_call_permissions_def ensure_agent_permissioned_def
      agent_permissions_def sufficient_for_def try_mutate_agents_group_def ex_agents_defs ex_defs
      set_portfolio_balance_eq put_defs)

text \<open>
  (C18) In every state the external agents pallet can reach, the counter of full agents of a ticker is
  the number of its full agents, the index of agents by identity is exact, the custom groups of a
  ticker are numbered without gaps from 1, and every agent in a custom group is in an existing one.
\<close>

theorem agents_reachable_inv:
  assumes "agents_step\<^sup>*\<^sup>* s s'" and "agents_inv s"
  shows "agents_inv s'"
  using agents_system.reach_good [OF assms] .

theorem agents_reachable_inv_witness:
  "agents_inv (set_group_of_agent 7 2 None (set_agent_of 2 7 False ex_agents))"
  using agents_reachable_inv [OF r_into_rtranclp [of agents_step,
    OF agents_step.remove_agent [OF ex_remove_agent]] ex_agents_inv] .

text \<open>
  (C19) A ticker never loses its last full agent: along any sequence of operations of the pallet a
  ticker that has a full agent still has one at the end.
\<close>

theorem full_agent_remains:
  assumes "agents_step\<^sup>*\<^sup>* s s'" and "agents_inv s" and "full_agents s t \<noteq> {}"
  shows "full_agents s' t \<noteq> {}"
  using assms
proof (induction rule: rtranclp_induct)
  case base
  then show ?case by simp
next
  case (step u v)
  then show ?case using agents_step_keeps_full agents_system.reach_good by blast
qed

theorem full_agent_remains_witness:
  "full_agents (set_group_of_agent 7 2 None (set_agent_of 2 7 False ex_agents)) 7 \<noteq> {}"
  using full_agent_remains [OF r_into_rtranclp [of agents_step,
    OF agents_step.remove_agent [OF ex_remove_agent]] ex_agents_inv, of 7]
  by (simp add: ex_full_agents)

text \<open>
  What an agent of a ticker may call, group by group: nothing without a group, everything as a
  full agent, the stored permissions of a custom group, everything outside the external agents pallet
  for \<open>ExceptMeta\<close>, the three corporate action pallets for \<open>PolymeshV1CAA\<close>, and for
  \<open>PolymeshV1PIA\<close> the \<open>Sto\<close> pallet except \<open>invest\<close> and three extrinsics of the asset pallet.
\<close>

theorem agent_permissions_table:
  "sufficient_for (agent_permissions s t d) pallet call =
     (case GroupOfAgent s t d of
        None \<Rightarrow> False
      | Some Full \<Rightarrow> True
      | Some (Custom i) \<Rightarrow> (case GroupPermissions s t i of
                             None \<Rightarrow> False | Some perms \<Rightarrow> sufficient_for perms pallet call)
      | Some ExceptMeta \<Rightarrow> pallet \<noteq> ''ExternalAgents''
      | Some PolymeshV1CAA \<Rightarrow>
          pallet \<in> {''CorporateAction'', ''CorporateBallot'', ''CapitalDistribution''}
      | Some PolymeshV1PIA \<Rightarrow>
          pallet = ''Sto'' \<and> call \<noteq> ''invest'' \<or>
          pallet = ''Asset'' \<and> call \<in> {''issue'', ''redeem'', ''controller_transfer''})"
  by (auto simp: agent_permissions_def sufficient_for_def perm_matches_def entire_pallet_def
      split: option.splits AgentGroup.splits)

text \<open>
  An extrinsic guarded by the agent check of a ticker only goes through for a signed account
  whose identity is an agent of the ticker with the permission for the current call, and if the
  account is a secondary key, for a key that has the ticker among its assets and the call among its
  extrinsics.
\<close>

theorem ensure_agent_asset_perms_guards:
  assumes "ensure_agent_asset_perms s origin t = Inr d"
  shows "origin = Signed (sender d) \<and> get_identity s (sender d) = Some (primary_did d) \<and>
    GroupOfAgent s t (primary_did d) \<noteq> None \<and>
    sufficient_for (agent_permissions s t (primary_did d))
      (CurrentPalletName s) (CurrentDispatchableName s) \<and>
    (\<forall>did perms. KeyRecords s (sender d) = Some (SecondaryKeyRecord did perms) \<longrightarrow>
       t \<in> admitted (asset_perms perms) \<and>
       sufficient_for (extrinsic_perms perms) (CurrentPalletName s) (CurrentDispatchableName s))"
proof -
  have perm: "sufficient_for (agent_permissions s t (primary_did d))
      (CurrentPalletName s) (CurrentDispatchableName s)"
    using assms
    by (auto simp: ensure_agent_asset_perms_def ensure_agent_permissioned_def res_simps)
  then have "GroupOfAgent s t (primary_did d) \<noteq> None"
    by (rule contrapos_pn) (simp add: agent_permissions_def sufficient_for_def)
  moreover obtain who a where "origin = Signed who" "who = sender d"
    and a: "check_account_call_permissions s who (CurrentPalletName s) (CurrentDispatchableName s) = Some a"
      "primary_did d = ap_primary_did a" "secondary_key d = ap_secondary_key a"
    using assms
    by (auto simp: ensure_agent_asset_perms_def ensure_asset_perms_def ensure_origin_call_permissions_def
        ensure_call_permissions_def res_simps split: option.splits)
  moreover have "t \<in> admitted (asset_perms (sk_permissions sk))" if "secondary_key d = Some sk" for sk
    using assms that
    by (auto simp: ensure_agent_asset_perms_def ensure_asset_perms_def has_asset_permission_iff
        res_simps split: option.splits)
  ultimately show ?thesis
    using perm check_account_call_permissions_Some [THEN iffD1, OF a(1)]
    by (auto simp: get_identity_def)
qed

theorem ensure_agent_asset_perms_guards_witness:
  "GroupOfAgent ex_agents 7 1 \<noteq> None"
proof -
  have "ensure_agent_asset_perms ex_agents (Signed 1) 7 =
      Inr \<lparr>sender = 1, primary_did = 1, secondary_key = None\<rparr>"
    by (simp add: ensure_agent_asset_perms_def ensure_asset_perms_def
        ensure_origin_call_permissions_def ensure_signed_def ensure_call_permissions_def
        check_account_call_permissions_def ensure_agent_permissioned_def agent_permissions_def
        sufficient_for_def ex_agents_defs ex_defs set_portfolio_balance_eq put_defs)
  from ensure_agent_asset_perms_guards [OF this] show ?thesis by simp
qed

end
