(* ===== verification/Protocol_Fee.thy ===== *)
theory Protocol_Fee
  imports External_Agents
begin

text \<open>
  The protocol fee pallet (\<open>pallets/protocol-fee/src/lib.rs\<close>), which other pallets charge for
  operations such as issuing an asset, with the subsidies of the relayer pallet
  (\<open>pallets/relayer/src/lib.rs\<close>) a fee is debited from. The currency is an associated type of the
  pallet: its free balances are the field \<open>FreeBalance\<close>, and its \<open>withdraw\<close>, the handler of the
  collected imbalance and the product with a \<open>Perbill\<close> ratio are parameters of the configuration.
\<close>

datatype ProtocolOp =
    AssetRegisterTicker | AssetIssue | AssetAddDocuments | AssetCreateAsset
  | CheckpointCreateSchedule | ComplianceManagerAddComplianceRequirement
  | IdentityCddRegisterDid | IdentityAddClaim | IdentityAddSecondaryKeysWithAuthorization
  | PipsPropose | ContractsPutCode | CorporateBallotAttachBallot | CapitalDistributionDistribute
  | NFTCreateCollection | NFTMint | IdentityCreateChildIdentity

datatype PosRatio = PosRatio nat nat

record Subsidy =
  paying_key :: AccountId
  remaining :: Balance

record fee_store = agents_store +
  CurrentPayer :: "AccountId option"
  FreeBalance :: "AccountId \<Rightarrow> Balance"
  Subsidies :: "AccountId \<Rightarrow> Subsidy option"
  BaseFees :: "ProtocolOp \<Rightarrow> Balance"
  Coefficient :: PosRatio

record fee_config = config +
  perbill_of_rational_mul :: "nat \<Rightarrow> nat \<Rightarrow> Balance \<Rightarrow> Balance"
  currency_withdraw ::
    "AccountId \<Rightarrow> Balance \<Rightarrow> (AccountId \<Rightarrow> Balance) \<Rightarrow> (AccountId \<Rightarrow> Balance) option"
  on_protocol_fee_payment :: "Balance \<Rightarrow> (AccountId \<Rightarrow> Balance) \<Rightarrow> (AccountId \<Rightarrow> Balance)"

section \<open>Subsidies\<close>

text \<open>\<open>None\<close> stands for the invalid transaction error, which every caller below maps away.\<close>

definition get_subsidy :: "'a fee_store_scheme \<Rightarrow> AccountId \<Rightarrow> Balance \<Rightarrow> Subsidy option option" where
  "get_subsidy s user_key fee =
     (case Subsidies s user_key of
        None \<Rightarrow> Some None
      | Some sub \<Rightarrow> if remaining sub < fee then None else Some (Some sub))"

definition check_subsidy :: "'a fee_store_scheme \<Rightarrow> AccountId \<Rightarrow> Balance \<Rightarrow> AccountId option option" where
  "check_subsidy s user_key fee = map_option (map_option paying_key) (get_subsidy s user_key fee)"

definition debit_subsidy ::
  "AccountId \<Rightarrow> Balance \<Rightarrow> 'a fee_store_scheme \<Rightarrow> (AccountId option \<times> 'a fee_store_scheme) option" where
  "debit_subsidy user_key fee s =
     (case get_subsidy s user_key fee of
        None \<Rightarrow> None
      | Some None \<Rightarrow> Some (None, s)
      | Some (Some sub) \<Rightarrow>
          Some (Some (paying_key sub), s\<lparr>Subsidies := (Subsidies s)(user_key \<mapsto>
            sub\<lparr>remaining := saturating_sub (remaining sub) fee\<rparr>)\<rparr>))"

section \<open>Fees\<close>

definition compute_fee :: "'c fee_config_scheme \<Rightarrow> 'a fee_store_scheme \<Rightarrow> ProtocolOp list \<Rightarrow> Balance" where
  "compute_fee cfg s ops =
     (case Coefficient s of PosRatio n d \<Rightarrow>
        perbill_of_rational_mul cfg n d (fold (\<lambda>e a. wrapping_add u128_max a (BaseFees s e)) ops 0))"

definition withdraw_fee ::
  "'c fee_config_scheme \<Rightarrow> AccountId \<Rightarrow> Balance \<Rightarrow> 'a fee_store_scheme \<Rightarrow> ('a fee_store_scheme) result" where
  "withdraw_fee cfg account fee s =
     attempt (ok_or (check_subsidy s account fee) (ProtocolFeeError InsufficientSubsidyBalance)) (\<lambda>subsidiser.
     attempt (case subsidiser of
                Some subsidiser_key \<Rightarrow>
                  attempt (ok_or (debit_subsidy account fee s)
                             (ProtocolFeeError InsufficientSubsidyBalance))
                    (\<lambda>(_, s1). Inr (subsidiser_key, s1))
              | None \<Rightarrow> Inr (account, s)) (\<lambda>(fee_key, s1).
     attempt (ok_or (currency_withdraw cfg fee_key fee (FreeBalance s1))
                (ProtocolFeeError InsufficientAccountBalance)) (\<lambda>ledger.
     Inr (s1\<lparr>FreeBalance := ledger\<rparr>))))"

definition withdraw_from_payer ::
  "'c fee_config_scheme \<Rightarrow> Balance \<Rightarrow> 'a fee_store_scheme \<Rightarrow> ('a fee_store_scheme) result" where
  "withdraw_from_payer cfg fee s =
     (case CurrentPayer s of
        Some payer \<Rightarrow>
          attempt (withdraw_fee cfg payer fee s) (\<lambda>s1.
          Inr (s1\<lparr>FreeBalance := on_protocol_fee_payment cfg fee (FreeBalance s1)\<rparr>))
      | None \<Rightarrow> Inr s)"

definition charge_fees ::
  "'c fee_config_scheme \<Rightarrow> ProtocolOp list \<Rightarrow> 'a fee_store_scheme \<Rightarrow> ('a fee_store_scheme) result" where
  "charge_fees cfg ops s =
     (if ops = [] then Inr s
      else let fee = compute_fee cfg s ops in
        if fee = 0 then Inr s else withdraw_from_payer cfg fee s)"

definition charge_fee ::
  "'c fee_config_scheme \<Rightarrow> ProtocolOp \<Rightarrow> 'a fee_store_scheme \<Rightarrow> ('a fee_store_scheme) result" where
  "charge_fee cfg op = charge_fees cfg [op]"

definition batch_charge_fee ::
  "'c fee_config_scheme \<Rightarrow> ProtocolOp \<Rightarrow> nat \<Rightarrow> 'a fee_store_scheme \<Rightarrow> ('a fee_store_scheme) result" where
  "batch_charge_fee cfg op count s =
     (let fee = saturating_mul u128_max (compute_fee cfg s [op]) (count mod (u32_max + 1)) in
      if fee = 0 then Inr s else withdraw_from_payer cfg fee s)"

definition change_coefficient ::
  "Origin \<Rightarrow> PosRatio \<Rightarrow> 'a fee_store_scheme \<Rightarrow> ('a fee_store_scheme) result" where
  "change_coefficient origin coefficient s =
     attempt (ensure_root origin) (\<lambda>_. Inr (s\<lparr>Coefficient := coefficient\<rparr>))"

definition change_base_fee ::
  "Origin \<Rightarrow> ProtocolOp \<Rightarrow> Balance \<Rightarrow> 'a fee_store_scheme \<Rightarrow> ('a fee_store_scheme) result" where
  "change_base_fee origin op base_fee s =
     attempt (ensure_root origin) (\<lambda>_. Inr (s\<lparr>BaseFees := (BaseFees s)(op := base_fee)\<rparr>))"

section \<open>What a charge changes\<close>

text \<open>A charge touches the free balances and at most the subsidy of the payer.\<close>

lemma withdraw_fee_Inr:
  "withdraw_fee cfg account fee s = Inr s' \<Longrightarrow>
    \<exists>key ledger subs. currency_withdraw cfg key fee (FreeBalance s) = Some ledger \<and>
      s' = s\<lparr>FreeBalance := ledger, Subsidies := subs\<rparr> \<and>
      (case Subsidies s account of
         None \<Rightarrow> key = account \<and> subs = Subsidies s
       | Some sub \<Rightarrow> key = paying_key sub \<and> fee \<le> remaining sub \<and>
           subs = (Subsidies s)(account \<mapsto> sub\<lparr>remaining := remaining sub - fee\<rparr>))"
  by (cases "Subsidies s account")
    (auto simp: withdraw_fee_def check_subsidy_def get_subsidy_def debit_subsidy_def res_simps
      split: if_splits)

lemma charge_fees_frame:
  assumes "charge_fees cfg ops s = Inr s'"
  obtains ledger subs where "s' = s\<lparr>Subsidies := subs, FreeBalance := ledger\<rparr>"
proof -
  have keep: "s = s\<lparr>Subsidies := Subsidies s, FreeBalance := FreeBalance s\<rparr>" by simp
  have "\<exists>ledger subs. s' = s\<lparr>Subsidies := subs, FreeBalance := ledger\<rparr>"
  proof (cases "ops = [] \<or> compute_fee cfg s ops = 0 \<or> CurrentPayer s = None")
    case True
    then have "s' = s"
      using assms by (auto simp: charge_fees_def withdraw_from_payer_def Let_def split: if_splits)
    then show ?thesis using keep by metis
  next
    case False
    then obtain payer s1 where "withdraw_fee cfg payer (compute_fee cfg s ops) s = Inr s1"
      and s': "s' = s1\<lparr>FreeBalance := on_protocol_fee_payment cfg (compute_fee cfg s ops) (FreeBalance s1)\<rparr>"
      using assms by (auto simp: charge_fees_def withdraw_from_payer_def Let_def res_simps)
    then show ?thesis by (fastforce dest!: withdraw_fee_Inr)
  qed
  then show thesis using that by blast
qed

end
