(* ===== verification/Checkpoint.thy ===== *)
theory Checkpoint
  imports Protocol_Fee
begin

text \<open>
  The checkpoint pallet (\<open>pallets/asset/src/checkpoint/mod.rs\<close>) with its schedules
  (\<open>pallets/common/src/traits/checkpoint.rs\<close>): snapshots of the balances of a ticker that are filled
  in lazily, by the first change of a balance after the snapshot. The storage maps \<open>TotalSupply\<close> and
  \<open>Balance\<close> of the pallet are the fields \<open>CheckpointSupply\<close> and \<open>CheckpointBalance\<close>. A \<open>BTreeSet\<close> of
  moments is its increasing list and a \<open>BTreeMap\<close> its list of pairs with increasing keys;
  \<open>BalanceUpdates\<close> is only ever appended to, so a key is present when its list is not empty.
\<close>

type_synonym CheckpointId = nat
type_synonym ScheduleId = nat

section \<open>Ordered maps\<close>

fun btree_insert :: "'k::linorder \<Rightarrow> 'v \<Rightarrow> ('k \<times> 'v) list \<Rightarrow> ('k \<times> 'v) list" where
  "btree_insert k v [] = [(k, v)]"
| "btree_insert k v ((k', v') # m) =
     (if k < k' then (k, v) # (k', v') # m
      else if k = k' then (k, v) # m
      else (k', v') # btree_insert k v m)"

definition btree_remove :: "'k \<Rightarrow> ('k \<times> 'v) list \<Rightarrow> ('k \<times> 'v) list" where
  "btree_remove k m = filter (\<lambda>(k', _). k' \<noteq> k) m"

definition btree_map :: "('k::linorder \<times> 'v) list \<Rightarrow> bool" where
  "btree_map m \<longleftrightarrow> sorted_wrt (<) (map fst m)"

lemma keys_btree_insert [simp]: "fst ` set (btree_insert k v m) = insert k (fst ` set m)"
  by (induction k v m rule: btree_insert.induct) auto

lemma btree_map_insert [simp]: "btree_map m \<Longrightarrow> btree_map (btree_insert k v m)"
proof (induction k v m rule: btree_insert.induct)
  case (2 k v k' v' m)
  then show ?case
    using keys_btree_insert [of k v m] by (auto simp: btree_map_def image_iff Ball_def; force)
qed (simp add: btree_map_def)

lemma map_of_btree_insert [simp]:
  "btree_map m \<Longrightarrow> map_of (btree_insert k v m) = (map_of m)(k \<mapsto> v)"
  by (induction k v m rule: btree_insert.induct) (auto simp: btree_map_def fun_eq_iff)

lemma btree_map_filter [simp]: "btree_map m \<Longrightarrow> btree_map (filter P m)"
  unfolding btree_map_def by (induction m) auto

lemma btree_map_distinct: "btree_map m \<Longrightarrow> distinct (map fst m)"
  by (simp add: btree_map_def strict_sorted_iff)

lemma map_of_btree_remove [simp]: "map_of (btree_remove k m) = (map_of m)(k := None)"
  by (induction m) (auto simp: btree_remove_def fun_eq_iff)

section \<open>Schedules\<close>

record ScheduleCheckpoints =
  pending :: "Moment list"

definition new_checkpoints :: "Moment list \<Rightarrow> ScheduleCheckpoints" where
  "new_checkpoints ps = \<lparr>pending = btree ps\<rparr>"

definition remove_expired :: "Moment \<Rightarrow> ScheduleCheckpoints \<Rightarrow> Moment list \<times> ScheduleCheckpoints" where
  "remove_expired now sc =
     (filter (\<lambda>n. now \<ge> n) (pending sc), sc\<lparr>pending := filter (\<lambda>n. \<not> now \<ge> n) (pending sc)\<rparr>)"

definition ensure_no_expired :: "Moment \<Rightarrow> ScheduleCheckpoints \<Rightarrow> bool" where
  "ensure_no_expired now sc = list_all (\<lambda>p. p \<ge> now) (pending sc)"

definition schedule_next :: "ScheduleCheckpoints \<Rightarrow> Moment option" where
  "schedule_next sc = (case pending sc of [] \<Rightarrow> None | p # _ \<Rightarrow> Some p)"

record NextCheckpoints =
  next_at :: Moment
  total_pending :: nat
  schedules :: "(ScheduleId \<times> Moment) list"

definition default_next_checkpoints :: NextCheckpoints where
  "default_next_checkpoints = \<lparr>next_at = u64_max, total_pending = 0, schedules = []\<rparr>"

definition expired :: "Moment \<Rightarrow> NextCheckpoints \<Rightarrow> bool" where
  "expired now c \<longleftrightarrow> now \<ge> next_at c"

definition min_next :: "(ScheduleId \<times> Moment) list \<Rightarrow> Moment" where
  "min_next m = fold (\<lambda>(_, nxt) a. if nxt < a then nxt else a) m u64_max"

definition expired_schedules :: "Moment \<Rightarrow> NextCheckpoints \<Rightarrow> ScheduleId list \<times> NextCheckpoints" where
  "expired_schedules now c =
     (let gone = filter (\<lambda>(_, nxt). now \<ge> nxt) (schedules c);
          kept = filter (\<lambda>(_, nxt). \<not> now \<ge> nxt) (schedules c)
      in (map fst gone, c\<lparr>schedules := kept, next_at := min_next kept\<rparr>))"

definition inc_total_pending :: "nat \<Rightarrow> NextCheckpoints \<Rightarrow> NextCheckpoints" where
  "inc_total_pending num c = c\<lparr>total_pending := saturating_add u64_max (total_pending c) num\<rparr>"

definition dec_total_pending :: "nat \<Rightarrow> NextCheckpoints \<Rightarrow> NextCheckpoints" where
  "dec_total_pending num c = c\<lparr>total_pending := saturating_sub (total_pending c) num\<rparr>"

definition recal_next :: "NextCheckpoints \<Rightarrow> NextCheckpoints" where
  "recal_next c = c\<lparr>next_at := min_next (schedules c)\<rparr>"

definition add_schedule_next :: "ScheduleId \<Rightarrow> Moment \<Rightarrow> NextCheckpoints \<Rightarrow> NextCheckpoints" where
  "add_schedule_next i cp c =
     (let c1 = c\<lparr>schedules := btree_insert i cp (schedules c)\<rparr> in
      if cp < next_at c1 then c1\<lparr>next_at := cp\<rparr> else c1)"

definition cache_remove_schedule :: "ScheduleId \<Rightarrow> NextCheckpoints \<Rightarrow> NextCheckpoints" where
  "cache_remove_schedule i c =
     (let c1 = c\<lparr>schedules := btree_remove i (schedules c)\<rparr> in
      if Some (next_at c) = map_of (schedules c) i then recal_next c1 else c1)"

section \<open>Storage\<close>

record checkpoint_store = fee_store +
  CheckpointSupply :: "Ticker \<Rightarrow> CheckpointId \<Rightarrow> Balance"
  CheckpointBalance :: "Ticker \<times> CheckpointId \<Rightarrow> IdentityId \<Rightarrow> Balance option"
  CheckpointIdSequence :: "Ticker \<Rightarrow> CheckpointId"
  BalanceUpdates :: "Ticker \<Rightarrow> IdentityId \<Rightarrow> CheckpointId list"
  Timestamps :: "Ticker \<Rightarrow> CheckpointId \<Rightarrow> Moment"
  SchedulesMaxComplexity :: nat
  ScheduleIdSequence :: "Ticker \<Rightarrow> ScheduleId"
  CachedNextCheckpoints :: "Ticker \<Rightarrow> NextCheckpoints option"
  ScheduledCheckpoints :: "Ticker \<Rightarrow> ScheduleId \<Rightarrow> ScheduleCheckpoints option"
  ScheduleRefCount :: "Ticker \<Rightarrow> ScheduleId \<Rightarrow> nat"
  SchedulePoints :: "Ticker \<Rightarrow> ScheduleId \<Rightarrow> CheckpointId list"

definition put_cached ::
  "Ticker \<Rightarrow> NextCheckpoints option \<Rightarrow> 'a checkpoint_store_scheme \<Rightarrow> 'a checkpoint_store_scheme" where
  "put_cached t v s = s\<lparr>CachedNextCheckpoints := (CachedNextCheckpoints s)(t := v)\<rparr>"

definition put_schedule ::
  "Ticker \<Rightarrow> ScheduleId \<Rightarrow> ScheduleCheckpoints option \<Rightarrow> 'a checkpoint_store_scheme
    \<Rightarrow> 'a checkpoint_store_scheme" where
  "put_schedule t i v s =
     s\<lparr>ScheduledCheckpoints := (ScheduledCheckpoints s)(t := (ScheduledCheckpoints s t)(i := v))\<rparr>"

definition put_ref_count ::
  "Ticker \<Rightarrow> ScheduleId \<Rightarrow> nat \<Rightarrow> 'a checkpoint_store_scheme \<Rightarrow> 'a checkpoint_store_scheme" where
  "put_ref_count t i v s =
     s\<lparr>ScheduleRefCount := (ScheduleRefCount s)(t := (ScheduleRefCount s t)(i := v))\<rparr>"

definition put_checkpoint_sequence ::
  "Ticker \<Rightarrow> CheckpointId \<Rightarrow> 'a checkpoint_store_scheme \<Rightarrow> 'a checkpoint_store_scheme" where
  "put_checkpoint_sequence t v s = s\<lparr>CheckpointIdSequence := (CheckpointIdSequence s)(t := v)\<rparr>"

definition append_schedule_point ::
  "Ticker \<Rightarrow> ScheduleId \<Rightarrow> CheckpointId \<Rightarrow> 'a checkpoint_store_scheme \<Rightarrow> 'a checkpoint_store_scheme" where
  "append_schedule_point t i v s =
     s\<lparr>SchedulePoints := (SchedulePoints s)(t := (SchedulePoints s t)(i := SchedulePoints s t i @ [v]))\<rparr>"

lemmas cp_put_defs = put_cached_def put_schedule_def put_ref_count_def put_checkpoint_sequence_def
  append_schedule_point_def

section \<open>Recording and reading balances\<close>

text \<open>The binary search of a slice: the index of the key, or where it would be inserted.\<close>

function binary_search_from :: "'e::linorder list \<Rightarrow> 'e \<Rightarrow> nat \<Rightarrow> nat \<Rightarrow> nat + nat" where
  "binary_search_from arr key left right =
     (if left < right then
        let mid = left + (right - left) div 2 in
        if arr ! mid < key then binary_search_from arr key (mid + 1) right
        else if key < arr ! mid then binary_search_from arr key left mid
        else Inr mid
      else Inl left)"
  by pat_completeness auto

termination by (relation "measure (\<lambda>(_, _, left, right). right - left)") auto

declare binary_search_from.simps [simp del]

definition binary_search :: "'e::linorder list \<Rightarrow> 'e \<Rightarrow> nat + nat" where
  "binary_search arr key = binary_search_from arr key 0 (length arr)"

definition find_ceiling :: "'e::linorder list \<Rightarrow> 'e \<Rightarrow> 'e" where
  "find_ceiling arr key = arr ! (case binary_search arr key of Inl i \<Rightarrow> i | Inr i \<Rightarrow> i)"

definition checkpoint_exists :: "'a checkpoint_store_scheme \<Rightarrow> Ticker \<Rightarrow> CheckpointId \<Rightarrow> bool" where
  "checkpoint_exists s ticker cp \<longleftrightarrow> cp > 0 \<and> cp \<le> CheckpointIdSequence s ticker"

definition balance_at ::
  "'a checkpoint_store_scheme \<Rightarrow> Ticker \<Rightarrow> IdentityId \<Rightarrow> CheckpointId \<Rightarrow> Balance option" where
  "balance_at s ticker did cp =
     (if checkpoint_exists s ticker cp \<and> BalanceUpdates s ticker did \<noteq> [] then
        let balance_updates = BalanceUpdates s ticker did in
        if cp \<le> last balance_updates then
          let i = find_ceiling balance_updates cp in
          Some (case CheckpointBalance s (ticker, i) did of Some b \<Rightarrow> b | None \<Rightarrow> 0)
        else None
      else None)"

definition get_balance_at ::
  "'a checkpoint_store_scheme \<Rightarrow> Ticker \<Rightarrow> IdentityId \<Rightarrow> CheckpointId \<Rightarrow> Balance" where
  "get_balance_at s ticker did at =
     (case balance_at s ticker did at of Some b \<Rightarrow> b | None \<Rightarrow> BalanceOf s ticker did)"

definition record_balance ::
  "Ticker \<Rightarrow> CheckpointId \<Rightarrow> IdentityId \<times> Balance \<Rightarrow> 'a checkpoint_store_scheme
    \<Rightarrow> 'a checkpoint_store_scheme" where
  "record_balance ticker last_cp u s =
     (case u of (did, balance) \<Rightarrow>
        if CheckpointBalance s (ticker, last_cp) did = None then
          s\<lparr>CheckpointBalance := (CheckpointBalance s)((ticker, last_cp) :=
              (CheckpointBalance s (ticker, last_cp))(did \<mapsto> balance)),
            BalanceUpdates := (BalanceUpdates s)(ticker :=
              (BalanceUpdates s ticker)(did := BalanceUpdates s ticker did @ [last_cp]))\<rparr>
        else s)"

definition update_balances ::
  "Ticker \<Rightarrow> (IdentityId \<times> Balance) list \<Rightarrow> 'a checkpoint_store_scheme
    \<Rightarrow> 'a checkpoint_store_scheme" where
  "update_balances ticker updates s =
     (let last_cp = CheckpointIdSequence s ticker in
      if last_cp < 1 then s else fold (record_balance ticker last_cp) updates s)"

section \<open>Creating checkpoints\<close>

definition create_at ::
  "Ticker \<Rightarrow> CheckpointId \<Rightarrow> Moment \<Rightarrow> 'a checkpoint_store_scheme \<Rightarrow> 'a checkpoint_store_scheme" where
  "create_at ticker i at s =
     (let supply = (case token_details s ticker of Inr t \<Rightarrow> total_supply t | Inl _ \<Rightarrow> 0) in
      s\<lparr>CheckpointSupply := (CheckpointSupply s)(ticker := (CheckpointSupply s ticker)(i := supply)),
        Timestamps := (Timestamps s)(ticker := (Timestamps s ticker)(i := at))\<rparr>)"

definition create_at_by ::
  "Ticker \<Rightarrow> Moment \<Rightarrow> 'a checkpoint_store_scheme
    \<Rightarrow> (CheckpointId \<times> 'a checkpoint_store_scheme) result" where
  "create_at_by ticker at s =
     attempt (try_next_pre u64_max (CheckpointIdSequence s ticker)) (\<lambda>(i, _).
     Inr (i, create_at ticker i at (put_checkpoint_sequence ticker i s)))"

definition create_checkpoint ::
  "Origin \<Rightarrow> Ticker \<Rightarrow> 'a checkpoint_store_scheme \<Rightarrow> ('a checkpoint_store_scheme) result" where
  "create_checkpoint origin ticker s =
     attempt (ea_ensure_perms s origin ticker) (\<lambda>_.
     attempt (create_at_by ticker (timestamp s) s) (\<lambda>(_, s1). Inr s1))"

definition create_scheduled ::
  "Ticker \<Rightarrow> ScheduleId \<Rightarrow> Moment \<Rightarrow> CheckpointId \<times> 'a checkpoint_store_scheme
    \<Rightarrow> (CheckpointId \<times> 'a checkpoint_store_scheme) result" where
  "create_scheduled ticker schedule_id at st =
     (case st of (cp_id, s) \<Rightarrow>
        attempt (try_next_pre u64_max cp_id) (\<lambda>(i, cp_id).
        Inr (cp_id, append_schedule_point ticker schedule_id i (create_at ticker i at s))))"

definition advance_schedule ::
  "Ticker \<Rightarrow> Moment \<Rightarrow> ScheduleId \<Rightarrow> NextCheckpoints \<times> CheckpointId \<times> 'a checkpoint_store_scheme
    \<Rightarrow> (NextCheckpoints \<times> CheckpointId \<times> 'a checkpoint_store_scheme) result" where
  "advance_schedule ticker now schedule_id st =
     (case st of (cached, cp_id, s) \<Rightarrow>
        case ScheduledCheckpoints s ticker schedule_id of
          Some schedule \<Rightarrow>
            (let (checkpoints, schedule) = remove_expired now schedule;
                 (cached, s) =
                   (case schedule_next schedule of
                      Some nxt \<Rightarrow> (add_schedule_next schedule_id nxt cached,
                                   put_schedule ticker schedule_id (Some schedule) s)
                    | None \<Rightarrow> (cached, put_schedule ticker schedule_id None s));
                 cached = dec_total_pending (length checkpoints) cached
             in attempt (fold_res (create_scheduled ticker schedule_id) checkpoints (cp_id, s))
                  (\<lambda>(cp_id, s). Inr (cached, cp_id, s)))
        | None \<Rightarrow> Inr (cached, cp_id, s))"

definition advance_schedules ::
  "Ticker \<Rightarrow> 'a checkpoint_store_scheme \<Rightarrow> ('a checkpoint_store_scheme) result" where
  "advance_schedules ticker s =
     (case CachedNextCheckpoints s ticker of
        None \<Rightarrow> Inr s
      | Some cached \<Rightarrow>
          let now = timestamp s in
          if \<not> expired now cached then Inr s
          else let cp_id = CheckpointIdSequence s ticker;
                   (schedule_ids, cached) = expired_schedules now cached
            in attempt (fold_res (advance_schedule ticker now) schedule_ids (cached, cp_id, s))
                 (\<lambda>(cached, cp_id, s).
                   Inr (put_checkpoint_sequence ticker cp_id
                     (put_cached ticker (if schedules cached = [] then None else Some cached) s))))"

definition advance_update_balances ::
  "Ticker \<Rightarrow> (IdentityId \<times> Balance) list \<Rightarrow> 'a checkpoint_store_scheme
    \<Rightarrow> ('a checkpoint_store_scheme) result" where
  "advance_update_balances ticker updates s =
     attempt (advance_schedules ticker s) (\<lambda>s1. Inr (update_balances ticker updates s1))"

section \<open>Managing schedules\<close>

definition base_create_schedule ::
  "'c fee_config_scheme \<Rightarrow> Ticker \<Rightarrow> ScheduleCheckpoints \<Rightarrow> nat \<Rightarrow> 'a checkpoint_store_scheme
    \<Rightarrow> ((ScheduleId \<times> Moment) \<times> 'a checkpoint_store_scheme) result" where
  "base_create_schedule cfg ticker schedule ref_count s =
     attempt (ok_or (schedule_next schedule) (CheckpointError ScheduleIsEmpty)) (\<lambda>nxt.
     let len = length (pending schedule); max_comp = SchedulesMaxComplexity s in
     ensure (len \<le> u64_max) (CheckpointError SchedulesOverMaxComplexity) (
     ensure (len \<le> max_comp) (CheckpointError SchedulesOverMaxComplexity) (
     let cached = (case CachedNextCheckpoints s ticker of
                     Some c \<Rightarrow> c | None \<Rightarrow> default_next_checkpoints) in
     ensure (saturating_add u64_max (total_pending cached) len \<le> max_comp)
       (CheckpointError SchedulesOverMaxComplexity) (
     ensure (ensure_no_expired (timestamp s) schedule)
       (CheckpointError ScheduleHasExpiredCheckpoints) (
     attempt (try_next_pre u64_max (ScheduleIdSequence s ticker)) (\<lambda>(i, _).
     attempt (charge_fee cfg CheckpointCreateSchedule s) (\<lambda>s1.
     let cached = inc_total_pending len (add_schedule_next i nxt cached);
         s2 = put_ref_count ticker i ref_count
                (put_schedule ticker i (Some schedule) (put_cached ticker (Some cached) s1))
     in Inr ((i, nxt), s2\<lparr>ScheduleIdSequence := (ScheduleIdSequence s2)(ticker := i)\<rparr>))))))))"

definition create_schedule ::
  "'c fee_config_scheme \<Rightarrow> Origin \<Rightarrow> Ticker \<Rightarrow> Moment list \<Rightarrow> 'a checkpoint_store_scheme
    \<Rightarrow> ('a checkpoint_store_scheme) result" where
  "create_schedule cfg origin ticker ps s =
     attempt (ea_ensure_perms s origin ticker) (\<lambda>_.
     attempt (base_create_schedule cfg ticker (new_checkpoints ps) 0 s) (\<lambda>(_, s1). Inr s1))"

definition base_remove_schedule ::
  "Ticker \<Rightarrow> ScheduleId \<Rightarrow> 'a checkpoint_store_scheme \<Rightarrow> ('a checkpoint_store_scheme) result" where
  "base_remove_schedule ticker i s =
     attempt (ok_or (ScheduledCheckpoints s ticker i) (CheckpointError NoSuchSchedule)) (\<lambda>schedule.
     ensure (ScheduleRefCount s ticker i = 0) (CheckpointError ScheduleNotRemovable) (
     let s1 = put_ref_count ticker i 0 s;
         s2 = (case CachedNextCheckpoints s1 ticker of
                 Some cached \<Rightarrow>
                   put_cached ticker (Some (dec_total_pending (length (pending schedule))
                     (cache_remove_schedule i cached))) s1
               | None \<Rightarrow> s1)
     in Inr (put_schedule ticker i None s2)))"

definition remove_schedule ::
  "Origin \<Rightarrow> Ticker \<Rightarrow> ScheduleId \<Rightarrow> 'a checkpoint_store_scheme \<Rightarrow> ('a checkpoint_store_scheme) result" where
  "remove_schedule origin ticker i s =
     attempt (ea_ensure_perms s origin ticker) (\<lambda>_. base_remove_schedule ticker i s)"

definition set_schedules_max_complexity ::
  "Origin \<Rightarrow> nat \<Rightarrow> 'a checkpoint_store_scheme \<Rightarrow> ('a checkpoint_store_scheme) result" where
  "set_schedules_max_complexity origin max_complexity s =
     attempt (ensure_root origin) (\<lambda>_. Inr (s\<lparr>SchedulesMaxComplexity := max_complexity\<rparr>))"

definition inc_schedule_ref ::
  "Ticker \<Rightarrow> ScheduleId \<Rightarrow> 'a checkpoint_store_scheme \<Rightarrow> 'a checkpoint_store_scheme" where
  "inc_schedule_ref ticker i s =
     put_ref_count ticker i (saturating_add u32_max (ScheduleRefCount s ticker i) 1) s"

definition dec_schedule_ref ::
  "Ticker \<Rightarrow> ScheduleId \<Rightarrow> 'a checkpoint_store_scheme \<Rightarrow> 'a checkpoint_store_scheme" where
  "dec_schedule_ref ticker i s =
     put_ref_count ticker i (saturating_sub (ScheduleRefCount s ticker i) 1) s"

definition ensure_schedule_next_checkpoint ::
  "'a checkpoint_store_scheme \<Rightarrow> Ticker \<Rightarrow> ScheduleId \<Rightarrow> (Moment \<times> nat) result" where
  "ensure_schedule_next_checkpoint s ticker i =
     attempt (ok_or (ScheduledCheckpoints s ticker i) (CheckpointError NoSuchSchedule)) (\<lambda>schedule.
     attempt (ok_or (schedule_next schedule) (CheckpointError ScheduleFinished)) (\<lambda>cp_at.
     Inr (cp_at, length (SchedulePoints s ticker i))))"

end
