(* ===== verification/Checkpoint_Theorems.thy ===== *)
theory Checkpoint_Theorems
  imports Checkpoint
begin

text \<open>
  What the checkpoint pallet promises: the balance it reports for a checkpoint is the balance at
  the time of the checkpoint whatever happens later, and the cache of the next due checkpoints
  agrees with the schedules, so that no due checkpoint is missed.
\<close>

section \<open>Binary search\<close>

lemma binary_search_from_correct:
  assumes "sorted arr" "left \<le> right" "right \<le> length arr"
    and "\<And>i. i < left \<Longrightarrow> arr ! i < key" and "\<And>i. right \<le> i \<Longrightarrow> i < length arr \<Longrightarrow> key < arr ! i"
  shows "case binary_search_from arr key left right of
      Inr m \<Rightarrow> m < length arr \<and> arr ! m = key
    | Inl m \<Rightarrow> m \<le> length arr \<and> (\<forall>i < m. arr ! i < key) \<and> (\<forall>i. m \<le> i \<and> i < length arr \<longrightarrow> key < arr ! i)"
  using assms
proof (induction arr key left right rule: binary_search_from.induct)
  case (1 arr key left right)
  show ?case
  proof (cases "left < right")
    case False
    then show ?thesis using "1.prems" by (subst binary_search_from.simps) auto
  next
    case True
    define mid where "mid = left + (right - left) div 2"
    have m: "left \<le> mid" "mid < right" "mid < length arr" using True "1.prems"(3) by (auto simp: mid_def)
    consider "arr ! mid < key" | "key < arr ! mid" | "arr ! mid = key" by fastforce
    then show ?thesis
    proof cases
      case 1
      have "arr ! i < key" if "i < mid + 1" for i
        using that 1 m sorted_nth_mono [OF \<open>sorted arr\<close>, of i mid] by auto
      then show ?thesis
        using "1.IH"(1) [OF True mid_def 1] "1.prems" m True 1
        by (subst binary_search_from.simps) (simp add: Let_def flip: mid_def)
    next
      case 2
      have "key < arr ! i" if "mid \<le> i" "i < length arr" for i
        using that 2 sorted_nth_mono [OF \<open>sorted arr\<close>, of mid i] by auto
      then show ?thesis
        using "1.IH"(2) [OF True mid_def less_not_sym [OF 2] 2] "1.prems" m True 2 less_not_sym [OF 2]
        by (subst binary_search_from.simps) (auto simp: Let_def simp flip: mid_def)
    next
      case 3
      then show ?thesis
        using True m by (subst binary_search_from.simps) (simp add: Let_def flip: mid_def)
    qed
  qed
qed

lemma find_ceiling_spec:
  assumes "sorted arr" "arr \<noteq> []" "key \<le> last arr"
  shows "find_ceiling arr key \<in> set arr" "key \<le> find_ceiling arr key"
    "\<And>x. x \<in> set arr \<Longrightarrow> key \<le> x \<Longrightarrow> find_ceiling arr key \<le> x"
proof -
  note bs = binary_search_from_correct [of arr 0 "length arr" key, folded binary_search_def]
  obtain i where i: "find_ceiling arr key = arr ! i" "i < length arr" "key \<le> arr ! i"
    and below: "\<And>j. j < i \<Longrightarrow> arr ! j < key \<or> arr ! i = key"
  proof (cases "binary_search arr key")
    case (Inl m)
    then have m: "m \<le> length arr" "\<And>j. j < m \<Longrightarrow> arr ! j < key"
      "\<And>j. m \<le> j \<Longrightarrow> j < length arr \<Longrightarrow> key < arr ! j"
      using bs assms(1) by auto
    have "m \<noteq> length arr"
      using m(2) [of "length arr - 1"] assms(2,3) by (auto simp: last_conv_nth)
    then show ?thesis using that [of m] m Inl by (simp add: find_ceiling_def less_imp_le)
  next
    case (Inr m)
    then show ?thesis using that [of m] bs assms(1) by (simp add: find_ceiling_def)
  qed
  show "find_ceiling arr key \<in> set arr" "key \<le> find_ceiling arr key" using i by auto
  fix x assume "x \<in> set arr" "key \<le> x"
  then obtain j where j: "x = arr ! j" "j < length arr" by (auto simp: in_set_conv_nth)
  show "find_ceiling arr key \<le> x"
  proof (cases "j < i")
    case True
    then show ?thesis using below [of j] \<open>key \<le> x\<close> i(1) j(1) by auto
  next
    case False
    then show ?thesis using sorted_nth_mono [OF assms(1), of i j] i(1) j by simp
  qed
qed

lemma sorted_le_last: "sorted xs \<Longrightarrow> x \<in> set xs \<Longrightarrow> x \<le> last xs"
  by (induction xs) auto

lemma find_first_ge:
  assumes "sorted us" "us \<noteq> []" "key \<le> last us"
  shows "List.find (\<lambda>u. key \<le> u) us = Some (find_ceiling us key)"
proof -
  have "List.find (\<lambda>u. key \<le> u) us \<noteq> None"
    unfolding find_None_iff using assms(2,3) last_in_set [of us] by blast
  then obtain x where x: "List.find (\<lambda>u. key \<le> u) us = Some x" by blast
  then obtain i where i: "i < length us" "key \<le> us ! i" "x = us ! i" "\<And>j. j < i \<Longrightarrow> \<not> key \<le> us ! j"
    by (auto simp: find_Some_iff)
  have "x \<le> find_ceiling us key"
  proof -
    obtain j where j: "j < length us" "find_ceiling us key = us ! j"
      using find_ceiling_spec(1) [OF assms] by (metis in_set_conv_nth)
    then have "i \<le> j" using i(4) [of j] find_ceiling_spec(2) [OF assms] by (metis not_le)
    then show ?thesis using sorted_nth_mono [OF assms(1)] i(3) j by simp
  qed
  moreover have "find_ceiling us key \<le> x" using find_ceiling_spec(3) [OF assms] i by simp
  ultimately show ?thesis using x by simp
qed

section \<open>The history of balances\<close>

definition checkpoint_inv :: "'a checkpoint_store_scheme \<Rightarrow> bool" where
  "checkpoint_inv s \<longleftrightarrow> (\<forall>t d. sorted_wrt (<) (BalanceUpdates s t d) \<and>
     (\<forall>c \<in> set (BalanceUpdates s t d). 0 < c \<and> c \<le> CheckpointIdSequence s t) \<and>
     (\<forall>c. CheckpointBalance s (t, c) d \<noteq> None \<longleftrightarrow> c \<in> set (BalanceUpdates s t d)))"

lemma get_balance_at_first:
  assumes "checkpoint_inv s" "checkpoint_exists s t cp"
  shows "get_balance_at s t d cp =
    (case List.find (\<lambda>u. cp \<le> u) (BalanceUpdates s t d) of
       Some i \<Rightarrow> the (CheckpointBalance s (t, i) d) | None \<Rightarrow> BalanceOf s t d)"
proof (cases "BalanceUpdates s t d \<noteq> [] \<and> cp \<le> last (BalanceUpdates s t d)")
  case True
  have s: "sorted (BalanceUpdates s t d)"
    using assms(1) by (simp add: checkpoint_inv_def strict_sorted_iff)
  then have "CheckpointBalance s (t, find_ceiling (BalanceUpdates s t d) cp) d \<noteq> None"
    using find_ceiling_spec(1) [OF s] True assms(1) by (simp add: checkpoint_inv_def)
  then show ?thesis
    using True assms(2) find_first_ge [OF s]
    by (auto simp: get_balance_at_def balance_at_def Let_def)
next
  case False
  have "x \<le> last (BalanceUpdates s t d)" if "x \<in> set (BalanceUpdates s t d)" for x
    using that assms(1) by (simp add: checkpoint_inv_def strict_sorted_iff sorted_le_last)
  then have "List.find (\<lambda>u. cp \<le> u) (BalanceUpdates s t d) = None"
    unfolding find_None_iff using False by (metis empty_iff empty_set order.trans)
  then show ?thesis using False by (auto simp: get_balance_at_def balance_at_def Let_def)
qed

lemma record_balances_effect:
  "fold (record_balance t l) (map (\<lambda>d. (d, f d)) ds) s =
     s\<lparr>CheckpointBalance := (\<lambda>k d. if k = (t, l) \<and> d \<in> set ds \<and> CheckpointBalance s k d = None
          then Some (f d) else CheckpointBalance s k d),
       BalanceUpdates := (\<lambda>u d. if u = t \<and> d \<in> set ds \<and> CheckpointBalance s (t, l) d = None
          then BalanceUpdates s u d @ [l] else BalanceUpdates s u d)\<rparr>"
proof (induction ds arbitrary: s)
  case (Cons d ds)
  show ?case
  proof (cases "CheckpointBalance s (t, l) d = None")
    case True
    define cb where "cb = (CheckpointBalance s)((t, l) := (CheckpointBalance s (t, l))(d \<mapsto> f d))"
    define bu where "bu = (BalanceUpdates s)(t := (BalanceUpdates s t)(d := BalanceUpdates s t d @ [l]))"
    have "(\<lambda>k e. if k = (t, l) \<and> e \<in> set ds \<and> cb k e = None then Some (f e) else cb k e) =
        (\<lambda>k e. if k = (t, l) \<and> e \<in> set (d # ds) \<and> CheckpointBalance s k e = None then Some (f e)
          else CheckpointBalance s k e)"
      using True by (intro ext) (auto simp: cb_def)
    moreover have "(\<lambda>u e. if u = t \<and> e \<in> set ds \<and> cb (t, l) e = None then bu u e @ [l] else bu u e) =
        (\<lambda>u e. if u = t \<and> e \<in> set (d # ds) \<and> CheckpointBalance s (t, l) e = None
          then BalanceUpdates s u e @ [l] else BalanceUpdates s u e)"
      using True by (intro ext) (auto simp: cb_def bu_def)
    moreover have "record_balance t l (d, f d) s = s\<lparr>CheckpointBalance := cb, BalanceUpdates := bu\<rparr>"
      using True by (simp add: record_balance_def cb_def bu_def)
    ultimately show ?thesis using Cons.IH [of "s\<lparr>CheckpointBalance := cb, BalanceUpdates := bu\<rparr>"]
      by (simp cong: if_cong)
  next
    case False
    have "(e \<in> set ds \<and> CheckpointBalance s (t, l) e = None) =
        (e \<in> set (d # ds) \<and> CheckpointBalance s (t, l) e = None)" for e using False by auto
    moreover have "record_balance t l (d, f d) s = s" using False by (auto simp: record_balance_def)
    ultimately show ?thesis using Cons.IH [of s] by (simp cong: conj_cong)
  qed
qed simp

text \<open>The state without what the advancing of schedules may change.\<close>

definition forget_schedules :: "'a checkpoint_store_scheme \<Rightarrow> 'a checkpoint_store_scheme" where
  "forget_schedules s = s\<lparr>CheckpointSupply := (\<lambda>_ _. 0), CheckpointIdSequence := (\<lambda>_. 0),
     Timestamps := (\<lambda>_ _. 0), CachedNextCheckpoints := (\<lambda>_. None),
     ScheduledCheckpoints := (\<lambda>_ _. None), SchedulePoints := (\<lambda>_ _. [])\<rparr>"

lemma forget_schedules_simps [simp]:
  "forget_schedules (put_cached t v s) = forget_schedules s"
  "forget_schedules (put_schedule t i w s) = forget_schedules s"
  "forget_schedules (put_checkpoint_sequence t n s) = forget_schedules s"
  "forget_schedules (append_schedule_point t i n s) = forget_schedules s"
  "forget_schedules (create_at t n at s) = forget_schedules s"
  by (simp_all add: forget_schedules_def cp_put_defs create_at_def Let_def)

lemma forget_schedules_sel:
  assumes "forget_schedules s' = forget_schedules s"
  shows "CheckpointBalance s' = CheckpointBalance s" "BalanceUpdates s' = BalanceUpdates s"
    "BalanceOf s' = BalanceOf s" "Tokens s' = Tokens s" "timestamp s' = timestamp s"
    "ScheduleIdSequence s' = ScheduleIdSequence s"
  using arg_cong [OF assms, of CheckpointBalance] arg_cong [OF assms, of BalanceUpdates]
    arg_cong [OF assms, of BalanceOf] arg_cong [OF assms, of Tokens]
    arg_cong [OF assms, of timestamp] arg_cong [OF assms, of ScheduleIdSequence]
  by (simp_all add: forget_schedules_def)

lemma create_scheduled_step:
  "create_scheduled t i at (cp, s) = Inr r \<longleftrightarrow> cp + 1 \<le> u64_max \<and>
     r = (cp + 1, append_schedule_point t i (cp + 1) (create_at t (cp + 1) at s))"
  by (auto simp: create_scheduled_def res_simps)

lemma create_scheduled_effect:
  assumes "fold_res (create_scheduled t i) ats (cp, s) = Inr (cp', s')"
  shows "forget_schedules s' = forget_schedules s \<and> cp' = cp + length ats \<and>
    CheckpointIdSequence s' = CheckpointIdSequence s \<and> ScheduledCheckpoints s' = ScheduledCheckpoints s \<and>
    (\<forall>c. Timestamps s' t c = (if cp < c \<and> c \<le> cp' then ats ! (c - cp - 1) else Timestamps s t c)) \<and>
    (\<forall>c. CheckpointSupply s' t c = (if cp < c \<and> c \<le> cp'
       then (case Tokens s t of Some x \<Rightarrow> total_supply x | None \<Rightarrow> 0) else CheckpointSupply s t c))"
  using assms
proof (induction ats arbitrary: cp s)
  case (Cons a ats)
  define s1 where "s1 = append_schedule_point t i (cp + 1) (create_at t (cp + 1) a s)"
  have "fold_res (create_scheduled t i) ats (cp + 1, s1) = Inr (cp', s')"
    using Cons.prems by (simp add: attempt_Inr_iff create_scheduled_step s1_def)
  note IH = Cons.IH [OF this]
  have s1: "forget_schedules s1 = forget_schedules s" "Tokens s1 = Tokens s"
    "CheckpointIdSequence s1 = CheckpointIdSequence s" "ScheduledCheckpoints s1 = ScheduledCheckpoints s"
    "Timestamps s1 t = (Timestamps s t)(cp + 1 := a)"
    "CheckpointSupply s1 t = (CheckpointSupply s t)
      (cp + 1 := (case Tokens s t of Some x \<Rightarrow> total_supply x | None \<Rightarrow> 0))"
    by (auto simp: s1_def create_at_def append_schedule_point_def Let_def forget_schedules_def
        token_details_def ok_or_def split: option.splits)
  have "(a # ats) ! (c - cp - 1) = (if c = cp + 1 then a else ats ! (c - (cp + 1) - 1))" if "cp < c" for c
    using that by (cases "c - cp - 1") auto
  then show ?case using IH by (auto simp: s1)
qed simp

section \<open>The cache of due checkpoints\<close>

definition pend :: "(ScheduleId \<Rightarrow> ScheduleCheckpoints option) \<Rightarrow> ScheduleId \<Rightarrow> Moment list" where
  "pend S i = (case S i of None \<Rightarrow> [] | Some sc \<Rightarrow> pending sc)"

definition schedules_ok :: "(ScheduleId \<Rightarrow> ScheduleCheckpoints option) \<Rightarrow> bool" where
  "schedules_ok S \<longleftrightarrow> fin_supp (\<lambda>i. length (pend S i)) \<and>
     (\<forall>i. sorted (pend S i) \<and> distinct (pend S i) \<and> (S i \<noteq> None \<longrightarrow> pend S i \<noteq> []))"

text \<open>The cache agrees with the schedules but for the identifiers that are being advanced.\<close>

definition cache_except ::
  "ScheduleId set \<Rightarrow> (ScheduleId \<Rightarrow> ScheduleCheckpoints option) \<Rightarrow> NextCheckpoints \<Rightarrow> bool" where
  "cache_except X S c \<longleftrightarrow> schedules_ok S \<and> btree_map (schedules c) \<and>
     (\<forall>i. map_of (schedules c) i = (if i \<in> X \<or> pend S i = [] then None else Some (hd (pend S i)))) \<and>
     next_at c = min_next (schedules c) \<and>
     total_pending c = sum_supp (\<lambda>i. length (pend S i)) UNIV"

definition cache_ok :: "(ScheduleId \<Rightarrow> ScheduleCheckpoints option) \<Rightarrow> NextCheckpoints option \<Rightarrow> bool" where
  "cache_ok S c \<longleftrightarrow> (case c of None \<Rightarrow> S = (\<lambda>_. None) | Some c \<Rightarrow> cache_except {} S c)"

definition schedule_inv :: "'a checkpoint_store_scheme \<Rightarrow> bool" where
  "schedule_inv s \<longleftrightarrow> (\<forall>t. cache_ok (ScheduledCheckpoints s t) (CachedNextCheckpoints s t) \<and>
     (\<forall>i. ScheduleIdSequence s t < i \<longrightarrow> ScheduledCheckpoints s t i = None))"

lemma schedule_next_hd: "schedule_next sc = (if pending sc = [] then None else Some (hd (pending sc)))"
  by (auto simp: schedule_next_def split: list.splits)

lemma min_next_Min: "min_next m = Min (insert u64_max (snd ` set m))"
proof -
  have "fold (\<lambda>(_, n) a. if n < a then n else a) m b = Min (insert b (snd ` set m))" for b
  proof (induction m arbitrary: b)
    case (Cons x m)
    obtain i n where x: "x = (i, n)" by (cases x)
    have "(if n < b then n else b) = min n b" by (auto simp: min_def)
    then have "fold (\<lambda>(_, n) a. if n < a then n else a) (x # m) b = Min (insert (min n b) (snd ` set m))"
      by (simp only: x fold.simps comp_apply prod.case Cons.IH)
    also have "\<dots> = Min (insert b (snd ` set (x # m)))"
      by (cases "m = []") (auto simp: x min.assoc min.commute min.left_commute Min_insert)
    finally show ?case .
  qed simp
  then show ?thesis by (simp add: min_next_def)
qed

lemma min_next_le_iff: "min_next m \<le> n \<longleftrightarrow> u64_max \<le> n \<or> (\<exists>(i, k) \<in> set m. k \<le> n)"
  unfolding min_next_Min by (subst Min_le_iff) (auto, force)

lemma set_btree_insert_new:
  "k \<notin> fst ` set m \<Longrightarrow> set (btree_insert k v m) = insert (k, v) (set m)"
  by (induction k v m rule: btree_insert.induct) auto

lemma min_next_insert:
  "k \<notin> fst ` set m \<Longrightarrow> min_next (btree_insert k v m) = (if v < min_next m then v else min_next m)"
proof -
  assume "k \<notin> fst ` set m"
  then have "min_next (btree_insert k v m) = Min (insert v (insert u64_max (snd ` set m)))"
    by (simp add: min_next_Min set_btree_insert_new insert_commute)
  also have "\<dots> = min v (min_next m)" by (simp add: min_next_Min Min_insert)
  finally show ?thesis by (simp add: min_def)
qed

lemma min_next_remove:
  assumes "btree_map m" "map_of m k \<noteq> Some (min_next m)"
  shows "min_next (btree_remove k m) = min_next m"
proof -
  let ?A = "insert u64_max (snd ` set m)" and ?B = "insert u64_max (snd ` set (btree_remove k m))"
  have "?B \<subseteq> ?A" by (auto simp: btree_remove_def)
  moreover have "Min ?A \<in> ?B"
  proof (cases "min_next m = u64_max")
    case False
    then obtain i where "(i, min_next m) \<in> set m"
      using Min_in [of ?A] by (auto simp: min_next_Min)
    moreover from this have "i \<noteq> k"
      using assms btree_map_distinct [OF assms(1)] by auto
    ultimately show ?thesis by (force simp: btree_remove_def min_next_Min)
  qed (simp add: min_next_Min)
  ultimately have "Min ?B = Min ?A" by (intro Min_eqI) (auto intro!: Min_le)
  then show ?thesis by (simp add: min_next_Min)
qed

lemma pend_upd: "pend (S(i := v)) = (pend S)(i := (case v of None \<Rightarrow> [] | Some sc \<Rightarrow> pending sc))"
  by (auto simp: pend_def fun_eq_iff)

lemma cache_keys: "cache_except X S c \<Longrightarrow> i \<in> X \<Longrightarrow> i \<notin> fst ` set (schedules c)"
  by (auto simp: cache_except_def dest!: weak_map_of_SomeI)

lemma add_schedule_next_fields:
  "schedules (add_schedule_next i n c) = btree_insert i n (schedules c)"
  "next_at (add_schedule_next i n c) = (if n < next_at c then n else next_at c)"
  "total_pending (add_schedule_next i n c) = total_pending c"
  by (simp_all add: add_schedule_next_def Let_def)

lemma schedules_ok_upd:
  assumes "schedules_ok S" "sorted (pending sc)" "distinct (pending sc)"
  shows "schedules_ok (S(i := if pending sc = [] then None else Some sc))"
proof -
  have "pend (S(i := if pending sc = [] then None else Some sc)) = (pend S)(i := pending sc)"
    by (simp add: pend_upd)
  moreover have "(\<lambda>j. length (((pend S)(i := pending sc)) j)) =
      (\<lambda>j. length (pend S j))(i := length (pending sc))" by auto
  ultimately show ?thesis using assms by (auto simp: schedules_ok_def)
qed

lemma pending_total_upd:
  assumes "schedules_ok S"
  shows "sum_supp (\<lambda>j. length (pend (S(i := v)) j)) UNIV + length (pend S i) =
    sum_supp (\<lambda>j. length (pend S j)) UNIV + length (pend (S(i := v)) i)"
proof -
  have "(\<lambda>j. length (pend (S(i := v)) j)) =
      (\<lambda>j. length (pend S j))(i := length (pend (S(i := v)) i))" by (auto simp: pend_upd)
  then show ?thesis
    using sum_supp_upd_in [of "\<lambda>j. length (pend S j)" i UNIV "length (pend (S(i := v)) i)"] assms
    by (simp add: schedules_ok_def)
qed

lemma cache_except_advance:
  fixes now :: Moment
  assumes c: "cache_except (insert i X) S c" and i: "i \<notin> X" "S i = Some sc"
  defines "rest \<equiv> sc\<lparr>pending := filter (\<lambda>n. \<not> now \<ge> n) (pending sc)\<rparr>"
  defines "S1 \<equiv> S(i := if pending rest = [] then None else Some rest)"
  shows "cache_except X S1 (dec_total_pending (length (filter (\<lambda>n. now \<ge> n) (pending sc)))
    (if pending rest = [] then c else add_schedule_next i (hd (pending rest)) c))"
proof -
  have S: "schedules_ok S" and p: "pend S i = pending sc"
    using c i by (auto simp: cache_except_def pend_def)
  then have so: "sorted (pending sc)" "distinct (pending sc)"
    by (auto simp: schedules_ok_def dest: spec [of _ i])
  have p1: "pend S1 = (pend S)(i := pending rest)" by (simp add: S1_def pend_upd)
  have ok1: "schedules_ok S1"
    unfolding S1_def by (rule schedules_ok_upd [OF S]) (use so in \<open>simp_all add: rest_def sorted_wrt_filter\<close>)
  have "length (filter (\<lambda>n. now \<ge> n) (pending sc)) + length (pending rest) = length (pending sc)"
    unfolding rest_def using sum_length_filter_compl [of "\<lambda>n. now \<ge> n"] by simp
  then have tot: "sum_supp (\<lambda>j. length (pend S1 j)) UNIV =
      total_pending c - length (filter (\<lambda>n. now \<ge> n) (pending sc))"
    using pending_total_upd [OF S, of i "if pending rest = [] then None else Some rest"] c
    unfolding S1_def [symmetric] by (simp add: p p1 cache_except_def)
  show ?thesis
    using c ok1 tot i(1) cache_keys [OF c, of i]
    by (auto simp: cache_except_def dec_total_pending_def add_schedule_next_fields min_next_insert p1)
qed

lemma put_schedule_sel [simp]:
  "ScheduledCheckpoints (put_schedule t i v s) t = (ScheduledCheckpoints s t)(i := v)"
  "CheckpointIdSequence (put_schedule t i v s) = CheckpointIdSequence s"
  "Timestamps (put_schedule t i v s) = Timestamps s"
  "CheckpointSupply (put_schedule t i v s) = CheckpointSupply s"
  "Tokens (put_schedule t i v s) = Tokens s"
  "CachedNextCheckpoints (put_schedule t i v s) = CachedNextCheckpoints s"
  by (simp_all add: put_schedule_def)

text \<open>
  The new checkpoints of an advance from \<open>cp\<close> to \<open>cp'\<close> carry a due time and the current supply.
\<close>

definition new_points ::
  "Ticker \<Rightarrow> Moment \<Rightarrow> CheckpointId \<Rightarrow> CheckpointId \<Rightarrow> 'a checkpoint_store_scheme
    \<Rightarrow> 'a checkpoint_store_scheme \<Rightarrow> bool" where
  "new_points t now cp cp' s s' \<longleftrightarrow> forget_schedules s' = forget_schedules s \<and>
     CheckpointIdSequence s' = CheckpointIdSequence s \<and> cp \<le> cp' \<and>
     (\<forall>c. c \<le> cp \<or> cp' < c \<longrightarrow>
        Timestamps s' t c = Timestamps s t c \<and> CheckpointSupply s' t c = CheckpointSupply s t c) \<and>
     (\<forall>c. cp < c \<and> c \<le> cp' \<longrightarrow> Timestamps s' t c \<le> now \<and>
        CheckpointSupply s' t c = (case Tokens s t of Some x \<Rightarrow> total_supply x | None \<Rightarrow> 0))"

lemma new_points_trans:
  "new_points t now cp cp1 s s1 \<Longrightarrow> new_points t now cp1 cp2 s1 s2 \<Longrightarrow> new_points t now cp cp2 s s2"
  using forget_schedules_sel(4) [of s1 s] unfolding new_points_def
  by (auto simp: not_le) (metis not_le order.trans less_imp_le_nat)+

lemma advance_schedule_effect:
  assumes "advance_schedule t now i (c, cp, s) = Inr (c1, cp1, s1)"
    and c: "cache_except (insert i X) (ScheduledCheckpoints s t) c" and "i \<notin> X"
    and some: "ScheduledCheckpoints s t i \<noteq> None"
  defines "S \<equiv> pend (ScheduledCheckpoints s t)"
  shows "cache_except X (ScheduledCheckpoints s1 t) c1"
    and "pend (ScheduledCheckpoints s1 t) = S(i := filter (\<lambda>n. \<not> now \<ge> n) (S i))"
    and "cp1 = cp + length (filter (\<lambda>n. now \<ge> n) (S i))"
    and "new_points t now cp cp1 s s1"
proof -
  obtain sc where sc: "ScheduledCheckpoints s t i = Some sc" using some by blast
  let ?ats = "filter (\<lambda>n. now \<ge> n) (pending sc)"
  let ?rest = "sc\<lparr>pending := filter (\<lambda>n. \<not> now \<ge> n) (pending sc)\<rparr>"
  define v where "v = (if pending ?rest = [] then None else Some ?rest)"
  have c1: "c1 = dec_total_pending (length ?ats)
      (if pending ?rest = [] then c else add_schedule_next i (hd (pending ?rest)) c)"
    and f: "fold_res (create_scheduled t i) ?ats (cp, put_schedule t i v s) = Inr (cp1, s1)"
    using assms(1)
    by (auto simp: advance_schedule_def sc remove_expired_def schedule_next_hd attempt_Inr_iff v_def
        split: if_splits)
  note e = create_scheduled_effect [OF f]
  have Si: "S i = pending sc" by (simp add: S_def pend_def sc)
  show "cache_except X (ScheduledCheckpoints s1 t) c1"
    using cache_except_advance [OF c \<open>i \<notin> X\<close> sc, of now] e by (simp add: c1 v_def)
  show "pend (ScheduledCheckpoints s1 t) = S(i := filter (\<lambda>n. \<not> now \<ge> n) (S i))"
    using e Si unfolding S_def by (simp add: pend_upd v_def)
  show "cp1 = cp + length (filter (\<lambda>n. now \<ge> n) (S i))" using e by (simp add: Si)
  have "?ats ! (k - cp - 1) \<le> now" if "cp < k" "k \<le> cp1" for k
    using that e nth_mem [of "k - cp - 1" ?ats] by auto
  then show "new_points t now cp cp1 s s1" using e by (auto simp: new_points_def)
qed

lemma advance_loop_effect:
  assumes "fold_res (advance_schedule t now) ids (c, cp, s) = Inr (c', cp', s')"
    and "cache_except (set ids) (ScheduledCheckpoints s t) c" and "distinct ids"
    and "\<forall>i \<in> set ids. ScheduledCheckpoints s t i \<noteq> None"
  shows "cache_except {} (ScheduledCheckpoints s' t) c' \<and>
    pend (ScheduledCheckpoints s' t) = (\<lambda>i. if i \<in> set ids
      then filter (\<lambda>n. \<not> now \<ge> n) (pend (ScheduledCheckpoints s t) i)
      else pend (ScheduledCheckpoints s t) i) \<and>
    cp' = cp + (\<Sum>i\<leftarrow>ids. length (filter (\<lambda>n. now \<ge> n) (pend (ScheduledCheckpoints s t) i))) \<and>
    new_points t now cp cp' s s'"
  using assms
proof (induction ids arbitrary: c cp s)
  case Nil
  then show ?case by (simp add: new_points_def)
next
  case (Cons i ids)
  obtain c1 cp1 s1 where st: "advance_schedule t now i (c, cp, s) = Inr (c1, cp1, s1)"
    and rest: "fold_res (advance_schedule t now) ids (c1, cp1, s1) = Inr (c', cp', s')"
    using Cons.prems(1) by (auto simp: attempt_Inr_iff)
  have i: "i \<notin> set ids" "ScheduledCheckpoints s t i \<noteq> None"
    "cache_except (insert i (set ids)) (ScheduledCheckpoints s t) c"
    using Cons.prems by auto
  note e = advance_schedule_effect [OF st i(3,1,2)]
  have "ScheduledCheckpoints s1 t j \<noteq> None" if "j \<in> set ids" for j
  proof -
    have "j \<noteq> i" using that i by blast
    then have "pend (ScheduledCheckpoints s1 t) j = pend (ScheduledCheckpoints s t) j" using e(2) by simp
    also have "\<dots> \<noteq> []"
      using Cons.prems(4) that i(3) by (auto simp: cache_except_def schedules_ok_def)
    finally show ?thesis by (cases "ScheduledCheckpoints s1 t j") (simp_all add: pend_def)
  qed
  note IH = Cons.IH [OF rest e(1) _ ballI [OF this]]
  have "map (\<lambda>j. length (filter (\<lambda>n. now \<ge> n) (pend (ScheduledCheckpoints s1 t) j))) ids =
      map (\<lambda>j. length (filter (\<lambda>n. now \<ge> n) (pend (ScheduledCheckpoints s t) j))) ids"
    using e(2) i(1) by auto
  then have "cp' = cp + (\<Sum>j\<leftarrow>i # ids. length (filter (\<lambda>n. now \<ge> n) (pend (ScheduledCheckpoints s t) j)))"
    using IH e(3) Cons.prems(3) by (simp del: map_eq_conv)
  moreover have "pend (ScheduledCheckpoints s' t) = (\<lambda>j. if j \<in> set (i # ids)
      then filter (\<lambda>n. \<not> now \<ge> n) (pend (ScheduledCheckpoints s t) j)
      else pend (ScheduledCheckpoints s t) j)"
    using IH e(2) Cons.prems(3) by (auto simp: fun_eq_iff)
  moreover have "new_points t now cp cp' s s'" "cache_except {} (ScheduledCheckpoints s' t) c'"
    using IH Cons.prems(3) new_points_trans [OF e(4)] by auto
  ultimately show ?case by blast
qed

text \<open>Advancing creates the due checkpoints and leaves the others pending.\<close>

definition due :: "'a checkpoint_store_scheme \<Rightarrow> Ticker \<Rightarrow> nat" where
  "due s t = sum_supp (\<lambda>i. length (filter (\<lambda>n. timestamp s \<ge> n)
     (pend (ScheduledCheckpoints s t) i))) UNIV"

lemma cache_ok_idle:
  assumes c: "cache_except {} S c" and "map_of (schedules c) i = None \<or> now < the (map_of (schedules c) i)"
  shows "filter (\<lambda>n. now \<ge> n) (pend S i) = []"
proof (cases "pend S i")
  case (Cons p ps)
  have "map_of (schedules c) i = Some p" using c Cons by (auto simp: cache_except_def dest: spec [of _ i])
  moreover have "sorted (pend S i)" using c by (auto simp: cache_except_def schedules_ok_def)
  ultimately show ?thesis using assms(2) Cons by (auto simp: filter_empty_conv)
qed simp

lemma expired_ids:
  assumes "btree_map m"
  shows "set (map fst (filter (\<lambda>(_, n). now \<ge> n) m)) =
    {i. \<exists>n. map_of m i = Some n \<and> now \<ge> n}" and "distinct (map fst (filter (\<lambda>(_, n). now \<ge> n) m))"
  using btree_map_distinct [OF assms] btree_map_distinct [OF btree_map_filter [OF assms]]
  by (force simp: image_iff)+

lemma map_of_kept:
  assumes "btree_map m"
  shows "map_of (filter (\<lambda>(_, n). \<not> now \<ge> n) m) i =
    (case map_of m i of Some n \<Rightarrow> if now \<ge> n then None else Some n | None \<Rightarrow> None)"
  using btree_map_distinct [OF assms] by (induction m) (auto split: option.splits, force)

lemma expired_schedules_except:
  assumes c: "cache_except {} S c" and e: "expired_schedules now c = (ids, c1)"
  shows "cache_except (set ids) S c1" "distinct ids" "\<forall>i \<in> set ids. S i \<noteq> None"
    "\<And>i. i \<notin> set ids \<Longrightarrow> filter (\<lambda>n. now \<ge> n) (pend S i) = []"
proof -
  have m: "btree_map (schedules c)" using c by (simp add: cache_except_def)
  have ids: "set ids = {i. \<exists>n. map_of (schedules c) i = Some n \<and> now \<ge> n}" and "distinct ids"
    and c1: "c1 = c\<lparr>schedules := filter (\<lambda>(_, n). \<not> now \<ge> n) (schedules c),
      next_at := min_next (filter (\<lambda>(_, n). \<not> now \<ge> n) (schedules c))\<rparr>"
    using e expired_ids [OF m, of now] by (auto simp: expired_schedules_def Let_def)
  show "distinct ids" by fact
  show "cache_except (set ids) S c1"
    using c map_of_kept [OF m, of now] by (auto simp: cache_except_def c1 ids)
  show "\<forall>i \<in> set ids. S i \<noteq> None"
    using c by (auto simp: cache_except_def ids pend_def split: if_splits option.splits)
  show "filter (\<lambda>n. now \<ge> n) (pend S i) = []" if "i \<notin> set ids" for i
    by (rule cache_ok_idle [OF c]) (use that ids in auto)
qed

lemma sum_list_due:
  assumes "distinct ids" "\<And>i. i \<notin> set ids \<Longrightarrow> f i = []"
  shows "(\<Sum>i\<leftarrow>ids. length (f i)) = sum_supp (\<lambda>i. length (f i)) UNIV"
proof -
  have "(\<Sum>i\<leftarrow>ids. length (f i)) = sum (\<lambda>i. length (f i)) (set ids)"
    using assms(1) by (simp add: sum_list_distinct_conv_sum_set)
  also have "\<dots> = sum (\<lambda>i. length (f i)) {i \<in> UNIV. length (f i) \<noteq> 0}"
    by (rule sum.mono_neutral_right) (use assms(2) in auto)
  finally show ?thesis by (simp add: sum_supp_def)
qed

definition advanced :: "'a checkpoint_store_scheme \<Rightarrow> 'a checkpoint_store_scheme \<Rightarrow> Ticker \<Rightarrow> bool" where
  "advanced s s' t \<longleftrightarrow>
     cache_ok (ScheduledCheckpoints s' t) (CachedNextCheckpoints s' t) \<and>
     (\<forall>i. pend (ScheduledCheckpoints s' t) i =
        filter (\<lambda>n. \<not> timestamp s \<ge> n) (pend (ScheduledCheckpoints s t) i)) \<and>
     CheckpointIdSequence s' t = CheckpointIdSequence s t + due s t \<and>
     new_points t (timestamp s) (CheckpointIdSequence s t) (CheckpointIdSequence s' t) s
       (s'\<lparr>CheckpointIdSequence := CheckpointIdSequence s\<rparr>)"

lemma advanced_idle:
  assumes "cache_ok (ScheduledCheckpoints s t) (CachedNextCheckpoints s t)"
    and idle: "\<And>i. filter (\<lambda>n. timestamp s \<ge> n) (pend (ScheduledCheckpoints s t) i) = []"
  shows "advanced s s t"
proof -
  have "filter (\<lambda>n. \<not> timestamp s \<ge> n) (pend (ScheduledCheckpoints s t) i) =
      pend (ScheduledCheckpoints s t) i" for i
    using idle [of i] by (auto simp: filter_empty_conv filter_id_conv)
  then show ?thesis using assms by (simp add: advanced_def due_def sum_supp_def new_points_def)
qed

lemma cache_empty:
  assumes "cache_except {} S c" "schedules c = []"
  shows "S = (\<lambda>_. None)"
proof
  fix i
  have "map_of (schedules c) i = (if pend S i = [] then None else Some (hd (pend S i)))"
    and "S i \<noteq> None \<longrightarrow> pend S i \<noteq> []"
    using assms(1) by (auto simp: cache_except_def schedules_ok_def)
  then show "S i = None" using assms(2) by (simp split: if_splits)
qed

lemma advanced_due:
  assumes c: "cache_except {} (ScheduledCheckpoints s t) c"
    and ids: "expired_schedules (timestamp s) c = (ids, c1)"
    and f: "fold_res (advance_schedule t (timestamp s)) ids (c1, CheckpointIdSequence s t, s) =
      Inr (c2, cp, s1)"
  shows "advanced s (put_checkpoint_sequence t cp
    (put_cached t (if schedules c2 = [] then None else Some c2) s1)) t" (is "advanced s ?s' t")
proof -
  let ?S = "ScheduledCheckpoints s t" and ?now = "timestamp s"
  note x = expired_schedules_except [OF c ids]
  note l = advance_loop_effect [OF f x(1-3)]
  have eq: "ScheduledCheckpoints ?s' t = ScheduledCheckpoints s1 t" "CheckpointIdSequence ?s' t = cp"
    by (simp_all add: cp_put_defs)
  have keep: "filter (\<lambda>n. \<not> ?now \<ge> n) (pend ?S i) = pend ?S i" if "i \<notin> set ids" for i
    using x(4) [OF that] by (auto simp: filter_empty_conv filter_id_conv)
  have "cache_ok (ScheduledCheckpoints ?s' t) (CachedNextCheckpoints ?s' t)"
  proof (cases "schedules c2 = []")
    case True
    then show ?thesis using cache_empty l by (auto simp: cache_ok_def cp_put_defs)
  qed (use l in \<open>simp add: cache_ok_def cp_put_defs\<close>)
  moreover have "cp = CheckpointIdSequence s t + due s t"
    using l sum_list_due [OF x(2), of "\<lambda>i. filter (\<lambda>n. ?now \<ge> n) (pend ?S i)"] x(4)
    by (simp add: due_def)
  ultimately show ?thesis
    using l keep by (simp add: advanced_def eq new_points_def cp_put_defs forget_schedules_def)
qed

lemma advance_schedules_advanced:
  assumes inv: "cache_ok (ScheduledCheckpoints s t) (CachedNextCheckpoints s t)"
    and adv: "advance_schedules t s = Inr s'" and now: "timestamp s < u64_max"
  shows "advanced s s' t"
proof (cases "CachedNextCheckpoints s t")
  case None
  then have "s' = s" "pend (ScheduledCheckpoints s t) = (\<lambda>_. [])"
    using adv inv by (auto simp: advance_schedules_def cache_ok_def pend_def)
  then show ?thesis using advanced_idle [OF inv] by simp
next
  case (Some c)
  then have c: "cache_except {} (ScheduledCheckpoints s t) c" using inv by (simp add: cache_ok_def)
  show ?thesis
  proof (cases "expired (timestamp s) c")
    case False
    have "timestamp s < n" if "map_of (schedules c) i = Some n" for i n
      using map_of_SomeD [OF that] False c by (auto simp: expired_def cache_except_def min_next_le_iff)
    then have "advanced s s t"
      by (intro advanced_idle [OF inv] cache_ok_idle [OF c]) (metis option.collapse)
    then show ?thesis using adv Some False by (simp add: advance_schedules_def)
  next
    case True
    obtain ids c1 where ids: "expired_schedules (timestamp s) c = (ids, c1)" by fastforce
    then show ?thesis
      using adv Some True advanced_due [OF c ids] by (auto simp: advance_schedules_def attempt_Inr_iff)
  qed
qed

text \<open>The schedules of the other tickers.\<close>

definition other_tickers where
  "other_tickers t s = (\<lambda>u. if u = t then (\<lambda>_. None, None, 0)
     else (ScheduledCheckpoints s u, CachedNextCheckpoints s u, CheckpointIdSequence s u))"

lemma other_tickers_simps [simp]:
  "other_tickers t (put_cached t v s) = other_tickers t s"
  "other_tickers t (put_schedule t i w s) = other_tickers t s"
  "other_tickers t (put_checkpoint_sequence t n s) = other_tickers t s"
  "other_tickers t (append_schedule_point t i n s) = other_tickers t s"
  "other_tickers t (create_at u n at s) = other_tickers t s"
  by (auto simp: other_tickers_def cp_put_defs create_at_def Let_def)

lemma advance_schedule_others:
  "advance_schedule t now i (c, cp, s) = Inr (c1, cp1, s1) \<Longrightarrow> other_tickers t s1 = other_tickers t s"
proof -
  have "fold_res (create_scheduled t i) ats (k, s0) = Inr (k', s') \<Longrightarrow>
      other_tickers t s' = other_tickers t s0" for ats k s0 k' s'
    by (induction ats arbitrary: k s0) (auto simp: attempt_Inr_iff create_scheduled_step)
  then show "advance_schedule t now i (c, cp, s) = Inr (c1, cp1, s1) \<Longrightarrow> ?thesis"
    by (force simp: advance_schedule_def remove_expired_def attempt_Inr_iff split: option.splits)
qed

lemma advance_schedules_others:
  "advance_schedules t s = Inr s' \<Longrightarrow> other_tickers t s' = other_tickers t s"
proof -
  have "fold_res (advance_schedule t now) ids (c, cp, s) = Inr (c', cp', s1) \<Longrightarrow>
      other_tickers t s1 = other_tickers t s" for now ids c cp c' cp' s1
    by (induction ids arbitrary: c cp s)
      (auto simp: attempt_Inr_iff dest!: advance_schedule_others)
  then show "advance_schedules t s = Inr s' \<Longrightarrow> ?thesis"
    by (auto simp: advance_schedules_def attempt_Inr_iff Let_def split: option.splits if_splits prod.splits)
qed

lemma other_tickers_sel:
  assumes "other_tickers t s' = other_tickers t s" "u \<noteq> t"
  shows "ScheduledCheckpoints s' u = ScheduledCheckpoints s u"
    "CachedNextCheckpoints s' u = CachedNextCheckpoints s u"
    "CheckpointIdSequence s' u = CheckpointIdSequence s u"
  using fun_cong [OF assms(1), of u] assms(2) by (simp_all add: other_tickers_def)

lemma advance_schedules_inv:
  assumes adv: "advance_schedules t s = Inr s'" and inv: "schedule_inv s" and now: "timestamp s < u64_max"
  shows "schedule_inv s'" "advanced s s' t" "forget_schedules s' = forget_schedules s"
    "CheckpointIdSequence s u \<le> CheckpointIdSequence s' u"
proof -
  note oth = other_tickers_sel [OF advance_schedules_others [OF adv]]
  have "cache_ok (ScheduledCheckpoints s t) (CachedNextCheckpoints s t)"
    using inv by (simp add: schedule_inv_def)
  from advance_schedules_advanced [OF this adv now] show a: "advanced s s' t" .
  then have f: "forget_schedules (s'\<lparr>CheckpointIdSequence := CheckpointIdSequence s\<rparr>) = forget_schedules s"
    by (simp add: advanced_def new_points_def)
  then show f': "forget_schedules s' = forget_schedules s" by (simp add: forget_schedules_def)
  have "ScheduledCheckpoints s' t i = None" if "ScheduledCheckpoints s t i = None" for i
  proof -
    have "pend (ScheduledCheckpoints s' t) i = []" using a that by (simp add: advanced_def pend_def)
    then show ?thesis
      using a by (auto simp: advanced_def cache_ok_def cache_except_def schedules_ok_def
          split: option.splits)
  qed
  then show "schedule_inv s'"
    using a oth inv forget_schedules_sel(6) [OF f'] unfolding schedule_inv_def advanced_def by metis
  show "CheckpointIdSequence s u \<le> CheckpointIdSequence s' u"
    using a oth(3) [of u] by (cases "u = t") (simp_all add: advanced_def)
qed

section \<open>Histories do not change\<close>

definition checkpoint_view where
  "checkpoint_view s = (CheckpointBalance s, BalanceUpdates s, CheckpointIdSequence s,
     ScheduledCheckpoints s, CachedNextCheckpoints s, ScheduleIdSequence s)"

lemma checkpoint_view_inv:
  assumes "checkpoint_view s' = checkpoint_view s"
  shows "checkpoint_inv s' = checkpoint_inv s" "schedule_inv s' = schedule_inv s"
    "checkpoint_exists s' = checkpoint_exists s" "balance_at s' = balance_at s"
proof -
  show "checkpoint_inv s' = checkpoint_inv s" "schedule_inv s' = schedule_inv s"
    using assms by (simp_all add: checkpoint_view_def checkpoint_inv_def schedule_inv_def)
  show "checkpoint_exists s' = checkpoint_exists s" "balance_at s' = balance_at s"
    using assms by (intro ext, simp add: checkpoint_view_def checkpoint_exists_def balance_at_def Let_def)+
qed

lemma update_balances_effect:
  "update_balances t (map (\<lambda>d. (d, f d)) ds) s =
     (if CheckpointIdSequence s t < 1 then s else let l = CheckpointIdSequence s t in
      s\<lparr>CheckpointBalance := (\<lambda>k d. if k = (t, l) \<and> d \<in> set ds \<and> CheckpointBalance s k d = None
          then Some (f d) else CheckpointBalance s k d),
       BalanceUpdates := (\<lambda>u d. if u = t \<and> d \<in> set ds \<and> CheckpointBalance s (t, l) d = None
          then BalanceUpdates s u d @ [l] else BalanceUpdates s u d)\<rparr>)"
  unfolding update_balances_def Let_def record_balances_effect ..

lemma update_balances_inv:
  assumes inv: "checkpoint_inv s"
  shows "checkpoint_inv (update_balances t (map (\<lambda>d. (d, f d)) ds) s)"
proof (cases "CheckpointIdSequence s t < 1")
  case False
  let ?l = "CheckpointIdSequence s t"
  have "c < ?l" if "c \<in> set (BalanceUpdates s t d)" "CheckpointBalance s (t, ?l) d = None" for c d
    using that inv unfolding checkpoint_inv_def by (metis le_neq_implies_less)
  then show ?thesis
    using inv False
    by (auto simp: checkpoint_inv_def update_balances_effect Let_def sorted_wrt_append)
qed (use inv in \<open>simp add: update_balances_effect\<close>)

lemma find_append: "List.find P (xs @ [x]) =
    (case List.find P xs of Some y \<Rightarrow> Some y | None \<Rightarrow> if P x then Some x else None)"
  by (induction xs) auto

text \<open>The core: recording a balance before it changes keeps what every checkpoint reports.\<close>

definition reported :: "CheckpointId list \<Rightarrow> (CheckpointId \<Rightarrow> Balance option) \<Rightarrow> Balance \<Rightarrow> CheckpointId \<Rightarrow> Balance" where
  "reported us cb b cp = (case List.find (\<lambda>u. cp \<le> u) us of Some i \<Rightarrow> the (cb i) | None \<Rightarrow> b)"

lemma reported_recorded:
  assumes "l \<notin> set us" "cp \<le> l"
  shows "reported (us @ [l]) (cb(l \<mapsto> b)) b' cp = reported us cb b cp"
proof (cases "List.find (\<lambda>u. cp \<le> u) us")
  case (Some i)
  then have "i \<noteq> l" using assms(1) by (auto simp: find_Some_iff)
  then show ?thesis using Some by (simp add: reported_def find_append)
qed (simp add: reported_def find_append assms(2))

lemma reported_fixed:
  assumes "l \<in> set us" "cp \<le> l"
  shows "reported us cb b' cp = reported us cb b cp"
proof -
  have "List.find (\<lambda>u. cp \<le> u) us \<noteq> None" unfolding find_None_iff using assms by blast
  then show ?thesis by (auto simp: reported_def)
qed

lemma get_balance_at_reported:
  "checkpoint_inv s \<Longrightarrow> checkpoint_exists s t cp \<Longrightarrow>
    get_balance_at s t d cp =
      reported (BalanceUpdates s t d) (\<lambda>i. CheckpointBalance s (t, i) d) (BalanceOf s t d) cp"
  unfolding reported_def by (rule get_balance_at_first)

lemma update_balances_history:
  assumes inv: "checkpoint_inv s" and ex: "checkpoint_exists s u cp"
    and v: "checkpoint_view s' = checkpoint_view (update_balances t (map (\<lambda>d. (d, BalanceOf s t d)) ds) s)"
    and b: "\<And>u d. u \<noteq> t \<or> d \<notin> set ds \<Longrightarrow> BalanceOf s' u d = BalanceOf s u d"
  shows "get_balance_at s' u d cp = get_balance_at s u d cp"
proof -
  let ?l = "CheckpointIdSequence s t" and ?cb = "\<lambda>s i. CheckpointBalance s (u, i) d"
  have inv': "checkpoint_inv s'" using checkpoint_view_inv(1) [OF v] update_balances_inv [OF inv] by simp
  have bu: "BalanceUpdates s' u d = (if ?l \<ge> 1 \<and> u = t \<and> d \<in> set ds \<and> CheckpointBalance s (t, ?l) d = None
      then BalanceUpdates s u d @ [?l] else BalanceUpdates s u d)"
    and cb: "?cb s' = (if ?l \<ge> 1 \<and> u = t \<and> d \<in> set ds \<and> CheckpointBalance s (t, ?l) d = None
      then (?cb s)(?l \<mapsto> BalanceOf s t d) else ?cb s)"
    and "CheckpointIdSequence s' = CheckpointIdSequence s"
    using v by (auto simp: checkpoint_view_def update_balances_effect Let_def fun_eq_iff split: if_splits)
  then have ex': "checkpoint_exists s' u cp" using ex by (simp add: checkpoint_exists_def)
  have mem: "CheckpointBalance s (t, ?l) d = None \<longleftrightarrow> ?l \<notin> set (BalanceUpdates s t d)"
    using inv unfolding checkpoint_inv_def by blast
  have le: "u = t \<Longrightarrow> cp \<le> ?l \<and> ?l \<ge> 1" using ex by (auto simp: checkpoint_exists_def)
  have "reported (BalanceUpdates s' u d) (?cb s') (BalanceOf s' u d) cp =
      reported (BalanceUpdates s u d) (?cb s) (BalanceOf s u d) cp"
  proof (cases "u = t \<and> d \<in> set ds")
    case False
    then show ?thesis using b [of u d] unfolding bu cb by auto
  next
    case True
    then show ?thesis
      using mem le reported_recorded [of ?l] reported_fixed [of ?l] unfolding bu cb by auto
  qed
  then show ?thesis
    by (simp only: get_balance_at_reported [OF inv ex] get_balance_at_reported [OF inv' ex'])
qed

lemma checkpoint_inv_grow:
  assumes "checkpoint_inv s" "CheckpointBalance s' = CheckpointBalance s"
    "BalanceUpdates s' = BalanceUpdates s" "\<And>u. CheckpointIdSequence s u \<le> CheckpointIdSequence s' u"
  shows "checkpoint_inv s'"
  using assms unfolding checkpoint_inv_def by (metis order.trans)

lemma get_balance_at_grow:
  assumes inv: "checkpoint_inv s" and same: "CheckpointBalance s' = CheckpointBalance s"
    "BalanceUpdates s' = BalanceUpdates s" "BalanceOf s' = BalanceOf s"
    and grow: "\<And>u. CheckpointIdSequence s u \<le> CheckpointIdSequence s' u"
  shows "checkpoint_exists s t cp \<Longrightarrow> get_balance_at s' t d cp = get_balance_at s t d cp"
    and "CheckpointIdSequence s t < cp \<Longrightarrow> cp \<le> CheckpointIdSequence s' t \<Longrightarrow>
      get_balance_at s' t d cp = BalanceOf s t d"
proof -
  have inv': "checkpoint_inv s'" by (rule checkpoint_inv_grow [OF inv same(1,2) grow])
  show "get_balance_at s' t d cp = get_balance_at s t d cp" if ex: "checkpoint_exists s t cp"
  proof -
    have "checkpoint_exists s' t cp" using ex grow [of t] by (simp add: checkpoint_exists_def)
    from get_balance_at_reported [OF inv' this] get_balance_at_reported [OF inv ex] show ?thesis
      by (simp add: same)
  qed
  assume new: "CheckpointIdSequence s t < cp" "cp \<le> CheckpointIdSequence s' t"
  then have ex: "checkpoint_exists s' t cp" by (simp add: checkpoint_exists_def)
  have "List.find (\<lambda>u. cp \<le> u) (BalanceUpdates s t d) = None"
    unfolding find_None_iff using inv new(1) unfolding checkpoint_inv_def by fastforce
  then show "get_balance_at s' t d cp = BalanceOf s t d"
    using get_balance_at_first [OF inv' ex] by (simp add: same)
qed

text \<open>
  A change of balances as the asset pallet makes it: the balances of \<open>ds\<close> before the change are
  passed to \<open>advance_update_balances\<close>, and only they change.
\<close>

definition balance_change ::
  "Ticker \<Rightarrow> IdentityId list \<Rightarrow> 'a checkpoint_store_scheme \<Rightarrow> 'a checkpoint_store_scheme \<Rightarrow> bool" where
  "balance_change t ds s s' \<longleftrightarrow> (\<exists>s1.
     advance_update_balances t (map (\<lambda>d. (d, BalanceOf s t d)) ds) s = Inr s1 \<and>
     checkpoint_view s' = checkpoint_view s1 \<and>
     (\<forall>u d. u \<noteq> t \<or> d \<notin> set ds \<longrightarrow> BalanceOf s' u d = BalanceOf s u d))"

lemma update_balances_view:
  "CheckpointIdSequence (update_balances t (map (\<lambda>d. (d, f d)) ds) s) = CheckpointIdSequence s"
  "schedule_inv (update_balances t (map (\<lambda>d. (d, f d)) ds) s) = schedule_inv s"
  by (simp_all add: update_balances_effect Let_def schedule_inv_def)

lemma balance_change_effect:
  assumes bc: "balance_change t ds s s'" and cp: "checkpoint_inv s" and sc: "schedule_inv s"
    and now: "timestamp s < u64_max"
  shows "checkpoint_inv s'" "schedule_inv s'"
    "CheckpointIdSequence s' t = CheckpointIdSequence s t + due s t"
    "\<And>u. CheckpointIdSequence s u \<le> CheckpointIdSequence s' u"
    "\<And>u d c. checkpoint_exists s u c \<Longrightarrow> get_balance_at s' u d c = get_balance_at s u d c"
    "\<And>u d c. CheckpointIdSequence s u < c \<Longrightarrow> c \<le> CheckpointIdSequence s' u \<Longrightarrow>
       get_balance_at s' u d c = BalanceOf s u d"
proof -
  obtain s0 where adv: "advance_schedules t s = Inr s0"
    and v: "checkpoint_view s' = checkpoint_view (update_balances t (map (\<lambda>d. (d, BalanceOf s t d)) ds) s0)"
    and b: "\<And>u d. u \<noteq> t \<or> d \<notin> set ds \<Longrightarrow> BalanceOf s' u d = BalanceOf s u d"
    using bc by (auto simp: balance_change_def advance_update_balances_def attempt_Inr_iff)
  note a = advance_schedules_inv [OF adv sc now]
  note sel = forget_schedules_sel [OF a(3)]
  have v': "checkpoint_view s' = checkpoint_view (update_balances t (map (\<lambda>d. (d, BalanceOf s0 t d)) ds) s0)"
    using v by (simp add: sel(3))
  have inv0: "checkpoint_inv s0" by (rule checkpoint_inv_grow [OF cp sel(1,2) a(4)])
  show "checkpoint_inv s'" "schedule_inv s'"
    using checkpoint_view_inv(1,2) [OF v] update_balances_inv [OF inv0] a(1)
    by (simp_all add: update_balances_view)
  have seq: "CheckpointIdSequence s' = CheckpointIdSequence s0"
    using v by (simp add: checkpoint_view_def update_balances_view)
  then show "CheckpointIdSequence s' t = CheckpointIdSequence s t + due s t"
    using a(2) by (simp add: advanced_def)
  show "CheckpointIdSequence s u \<le> CheckpointIdSequence s' u" for u using a(4) seq by simp
  note h = update_balances_history [OF inv0 _ v'] and g = get_balance_at_grow [OF cp sel(1-3) a(4)]
  show "get_balance_at s' u d c = get_balance_at s u d c" if ex: "checkpoint_exists s u c" for u d c
  proof -
    have "checkpoint_exists s0 u c" using ex a(4) [of u] by (simp add: checkpoint_exists_def)
    then show ?thesis using h [of u c d] g(1) [OF ex] b by (simp add: sel(3))
  qed
  show "get_balance_at s' u d c = BalanceOf s u d"
    if c: "CheckpointIdSequence s u < c" "c \<le> CheckpointIdSequence s' u" for u d c
  proof -
    have "checkpoint_exists s0 u c" using c seq by (simp add: checkpoint_exists_def)
    then show ?thesis using h [of u c d] g(2) [OF c(1)] c(2) b by (simp add: sel(3) seq)
  qed
qed

section \<open>Creating and removing schedules\<close>

lemma cache_ok_default:
  "cache_ok S c \<Longrightarrow> cache_except {} S (case c of Some c \<Rightarrow> c | None \<Rightarrow> default_next_checkpoints)"
  by (auto simp: cache_ok_def cache_except_def schedules_ok_def default_next_checkpoints_def
      btree_map_def pend_def fin_supp_def sum_supp_def min_next_def split: option.splits)

lemma cache_except_add:
  assumes c: "cache_except {} S c" and i: "S i = None"
    and sc: "sorted (pending sc)" "distinct (pending sc)" "pending sc \<noteq> []"
    and fits: "total_pending c + length (pending sc) \<le> u64_max"
  shows "cache_except {} (S(i \<mapsto> sc)) (inc_total_pending (length (pending sc))
    (add_schedule_next i (hd (pending sc)) c))"
proof -
  have S: "schedules_ok S" "pend S i = []" using c i by (auto simp: cache_except_def pend_def)
  then have key: "i \<notin> fst ` set (schedules c)"
    using c by (auto simp: cache_except_def dest!: weak_map_of_SomeI)
  have "schedules_ok (S(i \<mapsto> sc))" using schedules_ok_upd [OF S(1) sc(1,2), of i] sc(3) by simp
  moreover have "sum_supp (\<lambda>j. length (pend (S(i \<mapsto> sc)) j)) UNIV = total_pending c + length (pending sc)"
    using pending_total_upd [OF S(1), of i "Some sc"] c by (simp add: S pend_upd cache_except_def)
  ultimately show ?thesis
    using c key sc(3) fits
    by (auto simp: cache_except_def inc_total_pending_def add_schedule_next_fields min_next_insert
        saturating_add_exact pend_upd)
qed

lemma cache_remove_fields:
  "schedules (cache_remove_schedule i c) = btree_remove i (schedules c)"
  "total_pending (cache_remove_schedule i c) = total_pending c"
  "btree_map (schedules c) \<Longrightarrow> next_at c = min_next (schedules c) \<Longrightarrow>
    next_at (cache_remove_schedule i c) = min_next (btree_remove i (schedules c))"
  using min_next_remove [of "schedules c" i]
  by (auto simp: cache_remove_schedule_def recal_next_def Let_def)

lemma cache_except_remove:
  assumes c: "cache_except {} S c" and i: "S i = Some sc"
  shows "cache_except {} (S(i := None))
    (dec_total_pending (length (pending sc)) (cache_remove_schedule i c))"
proof -
  have S: "schedules_ok S" "pend S i = pending sc" using c i by (auto simp: cache_except_def pend_def)
  have "schedules_ok (S(i := None))"
    using schedules_ok_upd [OF S(1), of "sc\<lparr>pending := []\<rparr>" i] by simp
  moreover have "sum_supp (\<lambda>j. length (pend (S(i := None)) j)) UNIV = total_pending c - length (pending sc)"
    using pending_total_upd [OF S(1), of i None] c by (simp add: S pend_upd cache_except_def)
  moreover have "btree_map (btree_remove i (schedules c))"
    using c by (simp add: cache_except_def btree_remove_def)
  ultimately show ?thesis
    using c by (auto simp: cache_except_def dec_total_pending_def cache_remove_fields pend_upd)
qed

lemma base_create_schedule_inv:
  assumes st: "base_create_schedule cfg t (new_checkpoints ps) rc s = Inr (r, s')"
    and inv: "schedule_inv s" and mx: "SchedulesMaxComplexity s < u64_max"
  shows "schedule_inv s'" "forget_schedules s' = (forget_schedules s)\<lparr>
      FreeBalance := FreeBalance s', Subsidies := Subsidies s',
      ScheduleIdSequence := ScheduleIdSequence s', ScheduleRefCount := ScheduleRefCount s'\<rparr>"
    "CheckpointIdSequence s' = CheckpointIdSequence s" "SchedulesMaxComplexity s' = SchedulesMaxComplexity s"
proof -
  let ?sc = "new_checkpoints ps" and ?i = "ScheduleIdSequence s t + 1"
  define c where "c = (case CachedNextCheckpoints s t of Some c \<Rightarrow> c | None \<Rightarrow> default_next_checkpoints)"
  obtain s1 where "charge_fee cfg CheckpointCreateSchedule s = Inr s1"
    and ne: "pending ?sc \<noteq> []"
    and fits: "saturating_add u64_max (total_pending c) (length (pending ?sc)) \<le> SchedulesMaxComplexity s"
    and s': "s' = (put_ref_count t ?i rc (put_schedule t ?i (Some ?sc) (put_cached t
        (Some (inc_total_pending (length (pending ?sc)) (add_schedule_next ?i (hd (pending ?sc)) c))) s1)))
        \<lparr>ScheduleIdSequence := (ScheduleIdSequence s1)(t := ?i)\<rparr>"
    using st by (auto simp: base_create_schedule_def res_simps schedule_next_hd Let_def c_def
        cp_put_defs split: if_splits)
  then obtain ledger subs where s1: "s1 = s\<lparr>Subsidies := subs, FreeBalance := ledger\<rparr>"
    using charge_fees_frame unfolding charge_fee_def by blast
  have "cache_except {} (ScheduledCheckpoints s t) c"
    unfolding c_def using inv by (intro cache_ok_default) (simp add: schedule_inv_def)
  then have "cache_except {} ((ScheduledCheckpoints s t)(?i \<mapsto> ?sc))
      (inc_total_pending (length (pending ?sc)) (add_schedule_next ?i (hd (pending ?sc)) c))"
    using inv ne fits mx
    by (intro cache_except_add)
      (auto simp: schedule_inv_def new_checkpoints_def saturating_add_def)
  then show "schedule_inv s'"
    using inv by (auto simp: schedule_inv_def s' s1 cp_put_defs cache_ok_def)
  show "forget_schedules s' = (forget_schedules s)\<lparr>
      FreeBalance := FreeBalance s', Subsidies := Subsidies s',
      ScheduleIdSequence := ScheduleIdSequence s', ScheduleRefCount := ScheduleRefCount s'\<rparr>"
    "CheckpointIdSequence s' = CheckpointIdSequence s" "SchedulesMaxComplexity s' = SchedulesMaxComplexity s"
    by (simp_all add: s' s1 cp_put_defs forget_schedules_def)
qed

lemma base_remove_schedule_inv:
  assumes st: "base_remove_schedule t i s = Inr s'" and inv: "schedule_inv s"
  shows "schedule_inv s'"
proof -
  obtain sc where sc: "ScheduledCheckpoints s t i = Some sc"
    using st by (auto simp: base_remove_schedule_def res_simps)
  moreover have "cache_ok (ScheduledCheckpoints s t) (CachedNextCheckpoints s t)"
    using inv by (simp add: schedule_inv_def)
  then obtain c where "CachedNextCheckpoints s t = Some c" "cache_except {} (ScheduledCheckpoints s t) c"
    using sc by (cases "CachedNextCheckpoints s t") (auto simp: cache_ok_def)
  moreover from this sc have "cache_ok ((ScheduledCheckpoints s t)(i := None))
      (Some (dec_total_pending (length (pending sc)) (cache_remove_schedule i c)))"
    by (simp add: cache_ok_def cache_except_remove)
  ultimately show ?thesis
    using st inv by (auto simp: base_remove_schedule_def res_simps Let_def cp_put_defs schedule_inv_def)
qed

section \<open>The pallet as a transition system\<close>

text \<open>
  A step is an extrinsic of the pallet, a change of balances, or anything that leaves the storage of
  the pallet and the balances alone, such as the passing of time. Moments stay below the largest one,
  which the cache uses for \<open>no checkpoint\<close>, and so does the maximal complexity.
\<close>

inductive checkpoint_step ::
  "'c fee_config_scheme \<Rightarrow> 'a checkpoint_store_scheme \<Rightarrow> 'a checkpoint_store_scheme \<Rightarrow> bool"
  for cfg where
  create: "create_checkpoint origin t s = Inr s' \<Longrightarrow> checkpoint_step cfg s s'"
| schedule: "create_schedule cfg origin t ps s = Inr s' \<Longrightarrow> checkpoint_step cfg s s'"
| unschedule: "remove_schedule origin t i s = Inr s' \<Longrightarrow> checkpoint_step cfg s s'"
| complexity: "n < u64_max \<Longrightarrow> set_schedules_max_complexity origin n s = Inr s' \<Longrightarrow>
    checkpoint_step cfg s s'"
| change: "balance_change t ds s s' \<Longrightarrow> timestamp s' = timestamp s \<Longrightarrow>
    SchedulesMaxComplexity s' = SchedulesMaxComplexity s \<Longrightarrow> checkpoint_step cfg s s'"
| elsewhere: "checkpoint_view s' = checkpoint_view s \<Longrightarrow> BalanceOf s' = BalanceOf s \<Longrightarrow>
    SchedulesMaxComplexity s' = SchedulesMaxComplexity s \<Longrightarrow> timestamp s' < u64_max \<Longrightarrow>
    checkpoint_step cfg s s'"

definition checkpoint_good :: "'a checkpoint_store_scheme \<Rightarrow> bool" where
  "checkpoint_good s \<longleftrightarrow> checkpoint_inv s \<and> schedule_inv s \<and> timestamp s < u64_max \<and>
     SchedulesMaxComplexity s < u64_max"

text \<open>What a step may do to the balances that checkpoints report.\<close>

definition history_kept :: "'a checkpoint_store_scheme \<Rightarrow> 'a checkpoint_store_scheme \<Rightarrow> bool" where
  "history_kept s s' \<longleftrightarrow> (\<forall>t d c.
     CheckpointIdSequence s t \<le> CheckpointIdSequence s' t \<and>
     (checkpoint_exists s t c \<longrightarrow> get_balance_at s' t d c = get_balance_at s t d c) \<and>
     (CheckpointIdSequence s t < c \<and> c \<le> CheckpointIdSequence s' t \<longrightarrow>
        get_balance_at s' t d c = BalanceOf s t d))"

lemma grow_step:
  assumes "checkpoint_inv s" "CheckpointBalance s' = CheckpointBalance s"
    "BalanceUpdates s' = BalanceUpdates s" "BalanceOf s' = BalanceOf s"
    "\<And>u. CheckpointIdSequence s u \<le> CheckpointIdSequence s' u"
  shows "checkpoint_inv s' \<and> history_kept s s'"
  using checkpoint_inv_grow [OF assms(1,2,3,5)] get_balance_at_grow [OF assms]
  by (simp add: history_kept_def assms(5))

lemma create_checkpoint_Inr:
  "create_checkpoint origin t s = Inr s' \<Longrightarrow> CheckpointIdSequence s t + 1 \<le> u64_max \<and>
    s' = create_at t (CheckpointIdSequence s t + 1) (timestamp s)
      (put_checkpoint_sequence t (CheckpointIdSequence s t + 1) s)"
  by (auto simp: create_checkpoint_def create_at_by_def res_simps)

lemma checkpoint_step_good:
  assumes st: "checkpoint_step cfg s s'" and good: "checkpoint_good s"
  shows "checkpoint_good s' \<and> history_kept s s'"
  using st
proof cases
  case (create origin t)
  note s' = create_checkpoint_Inr [OF create]
  have "schedule_inv s' = schedule_inv s"
    using s' by (simp add: schedule_inv_def create_at_def put_checkpoint_sequence_def Let_def)
  moreover have "checkpoint_inv s' \<and> history_kept s s'"
    using good s' by (intro grow_step)
      (auto simp: checkpoint_good_def create_at_def put_checkpoint_sequence_def Let_def)
  ultimately show ?thesis
    using good s' by (simp add: checkpoint_good_def create_at_def put_checkpoint_sequence_def Let_def)
next
  case (schedule origin t ps)
  then obtain r where st: "base_create_schedule cfg t (new_checkpoints ps) 0 s = Inr (r, s')"
    by (auto simp: create_schedule_def attempt_Inr_iff)
  note e = base_create_schedule_inv [OF st]
  have f: "forget_schedules s' = (forget_schedules s)\<lparr>
      FreeBalance := FreeBalance s', Subsidies := Subsidies s',
      ScheduleIdSequence := ScheduleIdSequence s', ScheduleRefCount := ScheduleRefCount s'\<rparr>"
    and sq: "CheckpointIdSequence s' = CheckpointIdSequence s"
    using e good by (simp_all add: checkpoint_good_def)
  have "checkpoint_inv s' \<and> history_kept s s'"
    using good arg_cong [OF f, of CheckpointBalance] arg_cong [OF f, of BalanceUpdates]
      arg_cong [OF f, of BalanceOf]
    by (intro grow_step) (simp_all add: checkpoint_good_def forget_schedules_def sq)
  moreover have "timestamp s' = timestamp s"
    using arg_cong [OF f, of timestamp] by (simp add: forget_schedules_def)
  ultimately show ?thesis using e(1,4) good by (simp add: checkpoint_good_def)
next
  case (unschedule origin t i)
  then have st: "base_remove_schedule t i s = Inr s'" by (auto simp: remove_schedule_def attempt_Inr_iff)
  have keep: "CheckpointBalance s' = CheckpointBalance s" "BalanceUpdates s' = BalanceUpdates s"
    "BalanceOf s' = BalanceOf s" "CheckpointIdSequence s' = CheckpointIdSequence s"
    "timestamp s' = timestamp s" "SchedulesMaxComplexity s' = SchedulesMaxComplexity s"
    using st by (auto simp: base_remove_schedule_def res_simps Let_def cp_put_defs split: option.splits)
  then have "checkpoint_inv s' \<and> history_kept s s'"
    using good by (intro grow_step) (simp_all add: checkpoint_good_def)
  then show ?thesis using base_remove_schedule_inv [OF st] good keep by (simp add: checkpoint_good_def)
next
  case (complexity n origin)
  then have s': "s' = s\<lparr>SchedulesMaxComplexity := n\<rparr>"
    by (auto simp: set_schedules_max_complexity_def attempt_Inr_iff)
  then have "checkpoint_view s' = checkpoint_view s" by (simp add: checkpoint_view_def)
  note v = checkpoint_view_inv [OF this]
  have "checkpoint_inv s' \<and> history_kept s s'"
    using good by (intro grow_step) (simp_all add: checkpoint_good_def s')
  then show ?thesis using v good complexity(1) by (simp add: checkpoint_good_def s')
next
  case (change t ds)
  then show ?thesis
    using balance_change_effect [OF change(1)] good by (simp add: checkpoint_good_def history_kept_def)
next
  case elsewhere
  note v = checkpoint_view_inv [OF elsewhere(1)]
  have "checkpoint_inv s' \<and> history_kept s s'"
    using good elsewhere(1,2) by (intro grow_step) (simp_all add: checkpoint_good_def checkpoint_view_def)
  then show ?thesis using v good elsewhere by (simp add: checkpoint_good_def)
qed

interpretation checkpoint_system: invariant_system "checkpoint_step cfg" checkpoint_good
  by unfold_locales (blast dest: checkpoint_step_good)

section \<open>Advancing cannot fail before the counter is exhausted\<close>

lemma create_scheduled_ok:
  "cp + length ats \<le> u64_max \<Longrightarrow> is_ok (fold_res (create_scheduled t i) ats (cp, s))"
proof (induction ats arbitrary: cp s)
  case (Cons a ats)
  then have "create_scheduled t i a (cp, s) =
      Inr (cp + 1, append_schedule_point t i (cp + 1) (create_at t (cp + 1) a s))"
    by (simp add: create_scheduled_step)
  then show ?case using Cons by simp
qed simp

lemma advance_schedule_ok:
  assumes "cp + length (filter (\<lambda>n. now \<ge> n) (pend (ScheduledCheckpoints s t) i)) \<le> u64_max"
  shows "is_ok (advance_schedule t now i (c, cp, s))"
proof (cases "ScheduledCheckpoints s t i")
  case (Some sc)
  let ?ats = "filter (\<lambda>n. now \<ge> n) (pending sc)"
  have "is_ok (fold_res (create_scheduled t i) ?ats (cp, s0))" for s0
    using assms Some by (intro create_scheduled_ok) (simp add: pend_def)
  then show ?thesis
    by (auto simp: advance_schedule_def Some remove_expired_def is_ok_iff attempt_Inr_iff
        split: option.splits)
qed (simp add: advance_schedule_def)

lemma advance_loop_ok:
  assumes "cp + (\<Sum>i\<leftarrow>ids. length (filter (\<lambda>n. now \<ge> n) (pend (ScheduledCheckpoints s t) i))) \<le> u64_max"
    and "cache_except (set ids) (ScheduledCheckpoints s t) c" and "distinct ids"
    and "\<forall>i \<in> set ids. ScheduledCheckpoints s t i \<noteq> None"
  shows "is_ok (fold_res (advance_schedule t now) ids (c, cp, s))"
  using assms
proof (induction ids arbitrary: c cp s)
  case (Cons i ids)
  let ?S = "ScheduledCheckpoints s t"
  have "is_ok (advance_schedule t now i (c, cp, s))" using Cons.prems(1) by (intro advance_schedule_ok) simp
  then obtain c1 cp1 s1 where st: "advance_schedule t now i (c, cp, s) = Inr (c1, cp1, s1)"
    by (auto simp: is_ok_iff)
  have i: "i \<notin> set ids" "?S i \<noteq> None" "cache_except (insert i (set ids)) ?S c" using Cons.prems by auto
  note e = advance_schedule_effect [OF st i(3,1,2)]
  have same: "pend (ScheduledCheckpoints s1 t) j = pend ?S j" if "j \<in> set ids" for j
    using e(2) that i(1) by auto
  have "ScheduledCheckpoints s1 t j \<noteq> None" if "j \<in> set ids" for j
  proof -
    have "pend ?S j \<noteq> []" using Cons.prems(4) that i(3) by (auto simp: cache_except_def schedules_ok_def)
    then show ?thesis using same [OF that] by (cases "ScheduledCheckpoints s1 t j") (simp_all add: pend_def)
  qed
  moreover have "map (\<lambda>j. length (filter (\<lambda>n. now \<ge> n) (pend (ScheduledCheckpoints s1 t) j))) ids =
      map (\<lambda>j. length (filter (\<lambda>n. now \<ge> n) (pend ?S j))) ids"
    using same by auto
  ultimately have "is_ok (fold_res (advance_schedule t now) ids (c1, cp1, s1))"
    using Cons.prems(1,3) e(1,3) by (intro Cons.IH) (simp_all del: map_eq_conv)
  then show ?case by (simp add: st)
qed simp

lemma advance_schedules_ok:
  assumes inv: "schedule_inv s" and fits: "CheckpointIdSequence s t + due s t \<le> u64_max"
  shows "is_ok (advance_schedules t s)"
proof (cases "CachedNextCheckpoints s t")
  case (Some c)
  then have c: "cache_except {} (ScheduledCheckpoints s t) c"
    using inv unfolding schedule_inv_def cache_ok_def by (metis option.simps(5))
  obtain ids c1 where ids: "expired_schedules (timestamp s) c = (ids, c1)" by fastforce
  note x = expired_schedules_except [OF c ids]
  have "is_ok (fold_res (advance_schedule t (timestamp s)) ids (c1, CheckpointIdSequence s t, s))"
    using fits sum_list_due [OF x(2), of "\<lambda>i. filter (\<lambda>n. timestamp s \<ge> n) (pend (ScheduledCheckpoints s t) i)"]
      x(4) by (intro advance_loop_ok x(1-3)) (simp add: due_def)
  then show ?thesis
    using Some ids by (auto simp: advance_schedules_def is_ok_iff attempt_Inr_iff Let_def)
qed (simp add: advance_schedules_def)

section \<open>Properties\<close>

text \<open>
  Identity 1 holds 50 units of ticker 7, no fees are charged, no checkpoint is taken yet, and one
  schedule of the ticker has a checkpoint that is due at time 90 and one at time 200.
\<close>

definition ex_fee_config :: fee_config where
  "ex_fee_config = config.extend ex_config (fee_config.fields (\<lambda>n d b. n * b div d)
     (\<lambda>k a l. if a \<le> l k then Some (l(k := l k - a)) else None) (\<lambda>a l. l(0 := l 0 + a)))"

definition ex_fees :: fee_store where
  "ex_fees = (agents_store.extend ex_agents
     (fee_store.fields (Some 1) (\<lambda>_. 1000) (\<lambda>_. None) (\<lambda>_. 0) (PosRatio 1 1)))
     \<lparr>BalanceOf := (\<lambda>_ _. 0)(7 := (\<lambda>_. 0)(1 := 50000000))\<rparr>"

definition ex_checkpoint :: checkpoint_store where
  "ex_checkpoint = fee_store.extend ex_fees
     (checkpoint_store.fields (\<lambda>_ _. 0) (\<lambda>_ _. None) (\<lambda>_. 0) (\<lambda>_ _. []) (\<lambda>_ _. 0) 10
        ((\<lambda>_. 0)(7 := 3))
        [7 \<mapsto> \<lparr>next_at = 90, total_pending = 2, schedules = [(3, 90)]\<rparr>]
        ((\<lambda>_ _. None)(7 := [3 \<mapsto> \<lparr>pending = [90, 200]\<rparr>]))
        (\<lambda>_ _. 0) (\<lambda>_ _. []))"

lemmas ex_checkpoint_defs = ex_checkpoint_def ex_fees_def ex_fee_config_def ex_agents_defs ex_defs
  fee_store.defs checkpoint_store.defs config.defs fee_config.defs set_portfolio_balance_eq put_defs

lemma ex_checkpoint_sel [simp]:
  "timestamp ex_checkpoint = 100" "CheckpointIdSequence ex_checkpoint t = 0"
  "SchedulesMaxComplexity ex_checkpoint = 10" "BalanceUpdates ex_checkpoint t d = []"
  "CheckpointBalance ex_checkpoint k d = None"
  "CachedNextCheckpoints ex_checkpoint =
     [7 \<mapsto> \<lparr>next_at = 90, total_pending = 2, schedules = [(3, 90)]\<rparr>]"
  "ScheduledCheckpoints ex_checkpoint = (\<lambda>_ _. None)(7 := [3 \<mapsto> \<lparr>pending = [90, 200]\<rparr>])"
  "ScheduleIdSequence ex_checkpoint = (\<lambda>_. 0)(7 := 3)"
  "BalanceOf ex_checkpoint = (\<lambda>_ _. 0)(7 := (\<lambda>_. 0)(1 := 50000000))"
  by (simp_all add: ex_checkpoint_defs)

lemma ex_pend: "pend [3 \<mapsto> \<lparr>pending = [90, 200]\<rparr>] = (\<lambda>_. [])(3 := [90, 200])"
  by (auto simp: pend_def)

lemma ex_checkpoint_good: "checkpoint_good ex_checkpoint"
proof -
  have f: "fin_supp (\<lambda>i :: nat. length (if i = 3 then [90, 200 :: nat] else []))"
    by (simp add: fin_supp_def)
  have "cache_except {} [3 \<mapsto> \<lparr>pending = [90, 200]\<rparr>]
      \<lparr>next_at = 90, total_pending = 2, schedules = [(3, 90)]\<rparr>"
    by (simp add: cache_except_def schedules_ok_def ex_pend f btree_map_def min_next_def u64_max_def)
      (simp add: sum_supp_def)
  then show ?thesis
    by (auto simp: checkpoint_good_def checkpoint_inv_def schedule_inv_def cache_ok_def u64_max_def)
qed

lemma ex_create_checkpoint: "is_ok (create_checkpoint (Signed 1) 7 ex_checkpoint)"
  by (simp add: create_checkpoint_def create_at_by_def ea_ensure_perms_def
      ensure_agent_asset_perms_def ensure_asset_perms_def ensure_origin_call_permissions_def
      ensure_signed_def ensure_call_permissions_def check_account_call_permissions_def
      ensure_agent_permissioned_def agent_permissions_def sufficient_for_def try_next_pre_def
      checked_inc_def checked_add_def u64_max_def ex_checkpoint_defs)

text \<open>
  (C20) The balance a checkpoint reports never changes: let a step of the system create checkpoint
  \<open>c\<close> of a ticker, and let any steps follow, among them any changes of balances and any number of
  later checkpoints. The balance reported for an identity at \<open>c\<close> is the balance it had when the
  checkpoint was created.
\<close>

theorem checkpoint_snapshot:
  assumes "checkpoint_good s" and "checkpoint_step cfg s s1"
    and "CheckpointIdSequence s t < c" "c \<le> CheckpointIdSequence s1 t"
    and "(checkpoint_step cfg)\<^sup>*\<^sup>* s1 s2"
  shows "get_balance_at s2 t d c = BalanceOf s t d"
  using assms(5)
proof (induction rule: rtranclp_induct)
  case base
  then show ?case
    using checkpoint_step_good [OF assms(2,1)] assms(3,4) by (simp add: history_kept_def)
next
  case (step u v)
  have "(checkpoint_step cfg)\<^sup>*\<^sup>* s u" using assms(2) step(1) by (rule converse_rtranclp_into_rtranclp)
  then have good: "checkpoint_good u" by (rule checkpoint_system.reach_good [OF _ assms(1)])
  have "CheckpointIdSequence s1 t \<le> CheckpointIdSequence u t"
    using step(1)
  proof (induction rule: rtranclp_induct)
    case (step x y)
    have "(checkpoint_step cfg)\<^sup>*\<^sup>* s x"
      using assms(2) step(1) by (rule converse_rtranclp_into_rtranclp)
    then have "checkpoint_good x" by (rule checkpoint_system.reach_good [OF _ assms(1)])
    then show ?case
      using checkpoint_step_good [OF step(2)] step(3) order.trans unfolding history_kept_def by blast
  qed simp
  then have "checkpoint_exists u t c" using assms(3,4) by (simp add: checkpoint_exists_def)
  then show ?case
    using checkpoint_step_good [OF step(2) good] step(3) by (simp add: history_kept_def)
qed

theorem checkpoint_snapshot_witness:
  "\<exists>s1 s2. create_checkpoint (Signed 1) 7 ex_checkpoint = Inr s1 \<and>
    balance_change 7 [1, 2] s1 s2 \<and> BalanceOf s2 7 1 = 20000000 \<and> BalanceOf s2 7 2 = 30000000 \<and>
    get_balance_at s2 7 1 1 = 50000000"
proof -
  obtain s1 where s1: "create_checkpoint (Signed 1) 7 ex_checkpoint = Inr s1"
    using ex_create_checkpoint by (auto simp: is_ok_iff)
  note st = checkpoint_step.create [OF s1, of ex_fee_config] and eff = create_checkpoint_Inr [OF s1]
  have good: "checkpoint_good s1" using checkpoint_step_good [OF st ex_checkpoint_good] by simp
  have sel: "timestamp s1 = 100" "CheckpointIdSequence s1 7 = 1"
    "pend (ScheduledCheckpoints s1 7) = (\<lambda>_. [])(3 := [90, 200])"
    using eff by (simp_all add: create_at_def put_checkpoint_sequence_def Let_def ex_pend)
  have "(\<lambda>i :: nat. length (filter (\<lambda>n. n \<le> 100) (((\<lambda>_. [])(3 := [90, 200 :: nat])) i))) =
      (\<lambda>_. 0)(3 := 1)" by auto
  then have "due s1 7 = sum_supp ((\<lambda>_. 0)(3 := 1)) (UNIV :: nat set)" by (simp add: due_def sel)
  also have "\<dots> = 1" by (simp add: sum_supp_def)
  finally have "is_ok (advance_schedules 7 s1)"
    using good by (intro advance_schedules_ok) (simp_all add: checkpoint_good_def sel u64_max_def)
  then obtain s0 where s0: "advance_schedules 7 s1 = Inr s0" by (auto simp: is_ok_iff)
  define s2 where "s2 = (update_balances 7 (map (\<lambda>d. (d, BalanceOf s1 7 d)) [1, 2]) s0)
    \<lparr>BalanceOf := (BalanceOf s1)(7 := (BalanceOf s1 7)(1 := 20000000, 2 := 30000000)),
     timestamp := timestamp s1, SchedulesMaxComplexity := SchedulesMaxComplexity s1\<rparr>"
  have bc: "balance_change 7 [1, 2] s1 s2"
    using s0 by (auto simp: balance_change_def advance_update_balances_def s2_def checkpoint_view_def)
  have "(checkpoint_step ex_fee_config)\<^sup>*\<^sup>* s1 s2"
    by (rule r_into_rtranclp, rule checkpoint_step.change [OF bc]) (simp_all add: s2_def)
  from checkpoint_snapshot [OF ex_checkpoint_good st _ _ this, of 7 1 1] have
    "get_balance_at s2 7 1 1 = 50000000" by (simp add: sel)
  then show ?thesis using s1 bc by (intro exI [of _ s1] exI [of _ s2]) (simp add: s2_def)
qed

text \<open>
  (C21) No due checkpoint is missed and none is created early: in a state whose cache of next
  checkpoints is exact, advancing a ticker succeeds as long as the counter of checkpoints has room;
  afterwards every schedule is left with exactly its future checkpoints, as many checkpoints were
  created as were due, each with a time that has been reached and with the current total supply,
  and the cache is exact again.
\<close>

theorem advance_schedules_exact:
  assumes "schedule_inv s" and "timestamp s < u64_max"
    and "CheckpointIdSequence s t + due s t \<le> u64_max"
  shows "\<exists>s'. advance_schedules t s = Inr s' \<and> schedule_inv s' \<and>
    (\<forall>i. pend (ScheduledCheckpoints s' t) i =
       filter (\<lambda>n. timestamp s < n) (pend (ScheduledCheckpoints s t) i)) \<and>
    CheckpointIdSequence s' t = CheckpointIdSequence s t + due s t \<and>
    (\<forall>c. CheckpointIdSequence s t < c \<and> c \<le> CheckpointIdSequence s' t \<longrightarrow>
       Timestamps s' t c \<le> timestamp s \<and>
       CheckpointSupply s' t c = (case Tokens s t of Some x \<Rightarrow> total_supply x | None \<Rightarrow> 0))"
proof -
  obtain s' where s': "advance_schedules t s = Inr s'"
    using advance_schedules_ok [OF assms(1,3)] by (auto simp: is_ok_iff)
  note e = advance_schedules_inv [OF s' assms(1,2)]
  show ?thesis
  proof (intro exI [of _ s'] conjI s' e(1))
    show "\<forall>i. pend (ScheduledCheckpoints s' t) i =
        filter (\<lambda>n. timestamp s < n) (pend (ScheduledCheckpoints s t) i)"
      and "CheckpointIdSequence s' t = CheckpointIdSequence s t + due s t"
      using e(2) by (simp_all add: advanced_def not_le)
    show "\<forall>c. CheckpointIdSequence s t < c \<and> c \<le> CheckpointIdSequence s' t \<longrightarrow>
        Timestamps s' t c \<le> timestamp s \<and>
        CheckpointSupply s' t c = (case Tokens s t of Some x \<Rightarrow> total_supply x | None \<Rightarrow> 0)"
      using e(2) unfolding advanced_def new_points_def by simp
  qed
qed

theorem advance_schedules_exact_witness:
  "\<exists>s'. advance_schedules 7 ex_checkpoint = Inr s' \<and> pend (ScheduledCheckpoints s' 7) 3 = [200] \<and>
    CheckpointIdSequence s' 7 = 1"
proof -
  have "(\<lambda>i :: nat. length (filter (\<lambda>n. n \<le> 100) (((\<lambda>_. [])(3 := [90, 200 :: nat])) i))) =
      (\<lambda>_. 0)(3 := 1)" by auto
  then have "due ex_checkpoint 7 = sum_supp ((\<lambda>_. 0)(3 := 1)) (UNIV :: nat set)"
    by (simp add: due_def ex_pend)
  also have "\<dots> = 1" by (simp add: sum_supp_def)
  finally have d: "due ex_checkpoint 7 = 1" .
  have inv: "schedule_inv ex_checkpoint" "timestamp ex_checkpoint < u64_max"
    using ex_checkpoint_good by (simp_all add: checkpoint_good_def)
  have "CheckpointIdSequence ex_checkpoint 7 + due ex_checkpoint 7 \<le> u64_max"
    by (simp add: d u64_max_def)
  from advance_schedules_exact [OF inv this] obtain s' where
    s': "advance_schedules 7 ex_checkpoint = Inr s'"
    "CheckpointIdSequence s' 7 = CheckpointIdSequence ex_checkpoint 7 + due ex_checkpoint 7"
    "\<forall>i. pend (ScheduledCheckpoints s' 7) i = filter (\<lambda>n. timestamp ex_checkpoint < n)
      (pend (ScheduledCheckpoints ex_checkpoint 7) i)"
    by blast
  then show ?thesis by (intro exI [of _ s']) (simp add: d ex_pend)
qed

text \<open>
  The binary search behind \<open>balance_at\<close>: on a non-empty sorted slice whose last element is not
  below the key, \<open>find_ceiling\<close> returns the least element that is not below the key.
\<close>

theorem find_ceiling_least:
  fixes arr :: "'e::linorder list"
  assumes "sorted arr" and "arr \<noteq> []" and "key \<le> last arr"
  shows "find_ceiling arr key \<in> set arr \<and> key \<le> find_ceiling arr key \<and>
    (\<forall>x. x \<in> set arr \<and> key \<le> x \<longrightarrow> find_ceiling arr key \<le> x)"
  using find_ceiling_spec [OF assms] by blast

theorem find_ceiling_least_witness:
  "find_ceiling [2, 5, 9 :: nat] 4 = 5"
proof -
  have f: "find_ceiling [2, 5, 9 :: nat] 4 \<in> set [2, 5, 9] \<and> 4 \<le> find_ceiling [2, 5, 9 :: nat] 4 \<and>
      (\<forall>x. x \<in> set [2, 5, 9] \<and> 4 \<le> x \<longrightarrow> find_ceiling [2, 5, 9 :: nat] 4 \<le> x)"
    by (rule find_ceiling_least) simp_all
  then have "find_ceiling [2, 5, 9 :: nat] 4 \<le> 5" by simp
  moreover have "find_ceiling [2, 5, 9 :: nat] 4 \<in> set [2, 5, 9]" "4 \<le> find_ceiling [2, 5, 9 :: nat] 4"
    using f by blast+
  ultimately show ?thesis by auto
qed

text \<open>
  In every state the system of checkpoints, schedules and balance changes reaches, the recorded
  balances are indexed exactly and in order, and the cache of next checkpoints of a ticker lists the
  next checkpoint of exactly its unfinished schedules, the earliest of them and their total number.
\<close>

theorem checkpoint_reachable_good:
  assumes "(checkpoint_step cfg)\<^sup>*\<^sup>* s s'" and "checkpoint_good s"
  shows "checkpoint_inv s' \<and> schedule_inv s'"
  using checkpoint_system.reach_good [OF assms] by (simp add: checkpoint_good_def)

theorem checkpoint_reachable_good_witness:
  "\<exists>s'. create_checkpoint (Signed 1) 7 ex_checkpoint = Inr s' \<and> checkpoint_inv s' \<and> schedule_inv s'"
proof -
  obtain s1 where s1: "create_checkpoint (Signed 1) 7 ex_checkpoint = Inr s1"
    using ex_create_checkpoint by (auto simp: is_ok_iff)
  from checkpoint_reachable_good [OF r_into_rtranclp [of "checkpoint_step ex_fee_config",
      OF checkpoint_step.create [OF s1]] ex_checkpoint_good] show ?thesis using s1 by blast
qed

end
