(* ===== verification/Group.thy ===== *)
theory Group
  imports Checkpoint_Theorems "HOL-Library.Multiset"
begin

text \<open>
  The group pallet (\<open>pallets/group/src/lib.rs\<close>): the members of a committee or of the group of
  customer due diligence providers, each instance of the pallet with a \<open>group_store\<close> of its own.
  Active members are an ordered vector. A disabled member moves to the vector of inactive
  members, ordered by identity, with the moment of the deactivation and an optional expiry. An
  operation returns the new store and what it signals to \<open>MembershipChanged\<close>: the incoming and
  the outgoing members.
\<close>

record InactiveMember =
  inactive_id :: IdentityId
  deactivated_at :: Moment
  member_expiry :: "Moment option"

record group_store =
  ActiveMembers :: "IdentityId list"
  InactiveMembers :: "InactiveMember list"
  ActiveMembersLimit :: nat

record MembershipChange =
  incoming :: "IdentityId list"
  outgoing :: "IdentityId list"

abbreviation COMMITTEE_MEMBERS_MAX :: nat where
  "COMMITTEE_MEMBERS_MAX \<equiv> 500"

section \<open>Vectors\<close>

definition vec_insert :: "nat \<Rightarrow> 'e \<Rightarrow> 'e list \<Rightarrow> 'e list" where
  "vec_insert i x xs = take i xs @ x # drop i xs"

definition vec_remove :: "nat \<Rightarrow> 'e list \<Rightarrow> 'e list" where
  "vec_remove i xs = take i xs @ drop (Suc i) xs"

definition vec_swap_remove :: "nat \<Rightarrow> 'e list \<Rightarrow> 'e list" where
  "vec_swap_remove i xs = butlast (xs[i := last xs])"

section \<open>Queries\<close>

definition is_member_expired :: "InactiveMember \<Rightarrow> Moment \<Rightarrow> bool" where
  "is_member_expired m now = (case member_expiry m of Some e \<Rightarrow> e \<le> now | None \<Rightarrow> False)"

definition get_members :: "group_store \<Rightarrow> IdentityId list" where
  "get_members g = ActiveMembers g"

definition get_inactive_members :: "Moment \<Rightarrow> group_store \<Rightarrow> InactiveMember list" where
  "get_inactive_members now g = filter (\<lambda>m. \<not> is_member_expired m now) (InactiveMembers g)"

definition get_valid_members_at :: "Moment \<Rightarrow> group_store \<Rightarrow> Moment \<Rightarrow> IdentityId list" where
  "get_valid_members_at now g moment =
     get_members g @ map inactive_id (filter (\<lambda>m. \<not> is_member_expired m moment) (get_inactive_members now g))"

definition get_valid_members :: "Moment \<Rightarrow> group_store \<Rightarrow> IdentityId list" where
  "get_valid_members now g = get_valid_members_at now g now"

section \<open>Operations\<close>

definition ensure_within_active_members_limit :: "group_store \<Rightarrow> IdentityId list \<Rightarrow> unit result" where
  "ensure_within_active_members_limit g members =
     ensure (length members mod (u32_max + 1) \<le> ActiveMembersLimit g)
       (GroupError ActiveMembersLimitExceeded) (Inr ())"

definition base_set_active_members_limit :: "nat \<Rightarrow> group_store \<Rightarrow> group_store result" where
  "base_set_active_members_limit limit g =
     ensure (limit \<le> COMMITTEE_MEMBERS_MAX) (GroupError ActiveMembersLimitOverflow)
       (Inr (g\<lparr>ActiveMembersLimit := limit\<rparr>))"

definition base_remove_active_member ::
  "IdentityId \<Rightarrow> group_store \<Rightarrow> (group_store \<times> MembershipChange) result" where
  "base_remove_active_member who g =
     (case binary_search (ActiveMembers g) who of
        Inl _ \<Rightarrow> Inl (GroupError NoSuchMember)
      | Inr location \<Rightarrow>
          Inr (g\<lparr>ActiveMembers := vec_remove location (ActiveMembers g)\<rparr>,
               \<lparr>incoming = [], outgoing = [who]\<rparr>))"

definition base_remove_inactive_member ::
  "IdentityId option \<Rightarrow> IdentityId \<Rightarrow> group_store \<Rightarrow> group_store result" where
  "base_remove_inactive_member current_did who g =
     (case binary_search (map inactive_id (InactiveMembers g)) who of
        Inl _ \<Rightarrow> Inl (GroupError NoSuchMember)
      | Inr position \<Rightarrow>
          let g1 = g\<lparr>InactiveMembers := vec_swap_remove position (InactiveMembers g)\<rparr> in
          attempt (ok_or current_did (GroupError group_error.MissingCurrentIdentity)) (\<lambda>_. Inr g1))"

definition base_remove_member ::
  "IdentityId option \<Rightarrow> IdentityId \<Rightarrow> group_store \<Rightarrow> (group_store \<times> MembershipChange option) result" where
  "base_remove_member current_did who g =
     (case base_remove_active_member who g of
        Inr (g1, change) \<Rightarrow> Inr (g1, Some change)
      | Inl _ \<Rightarrow> attempt (base_remove_inactive_member current_did who g) (\<lambda>g1. Inr (g1, None)))"

definition group_disable_member ::
  "Moment \<Rightarrow> IdentityId \<Rightarrow> Moment option \<Rightarrow> Moment option \<Rightarrow> group_store
    \<Rightarrow> (group_store \<times> MembershipChange) result" where
  "group_disable_member now who expiry at g =
     attempt (base_remove_active_member who g) (\<lambda>(g1, change).
     let deactivated = (case at of Some m \<Rightarrow> m | None \<Rightarrow> now);
         im = \<lparr>inactive_id = who, deactivated_at = deactivated, member_expiry = expiry\<rparr>;
         members = filter (\<lambda>m. \<not> is_member_expired m now) (InactiveMembers g1);
         members' = (case binary_search (map inactive_id members) who of
                       Inr idx \<Rightarrow> members[idx := im]
                     | Inl _ \<Rightarrow> sort_key inactive_id (members @ [im]))
     in Inr (g1\<lparr>InactiveMembers := members'\<rparr>, change))"

definition group_add_member ::
  "IdentityId \<Rightarrow> group_store \<Rightarrow> (group_store \<times> MembershipChange) result" where
  "group_add_member who g =
     (case binary_search (ActiveMembers g) who of
        Inr _ \<Rightarrow> Inl (GroupError DuplicateMember)
      | Inl location \<Rightarrow>
          let members = vec_insert location who (ActiveMembers g) in
          attempt (ensure_within_active_members_limit g members) (\<lambda>_.
          Inr (g\<lparr>ActiveMembers := members\<rparr>, \<lparr>incoming = [who], outgoing = []\<rparr>)))"

definition group_swap_member ::
  "IdentityId \<Rightarrow> IdentityId \<Rightarrow> group_store \<Rightarrow> (group_store \<times> MembershipChange option) result" where
  "group_swap_member remove add g =
     (if remove = add then Inr (g, None)
      else case binary_search (ActiveMembers g) remove of
             Inl _ \<Rightarrow> Inl (GroupError NoSuchMember)
           | Inr remove_location \<Rightarrow>
               (case binary_search (ActiveMembers g) add of
                  Inr _ \<Rightarrow> Inl (GroupError DuplicateMember)
                | Inl _ \<Rightarrow>
                    Inr (g\<lparr>ActiveMembers := sort ((ActiveMembers g)[remove_location := add])\<rparr>,
                         Some \<lparr>incoming = [add], outgoing = [remove]\<rparr>)))"

text \<open>The difference of the two memberships is computed by the support library.\<close>

definition group_reset_members ::
  "(IdentityId list \<Rightarrow> IdentityId list \<Rightarrow> IdentityId list \<times> IdentityId list)
    \<Rightarrow> IdentityId list \<Rightarrow> group_store \<Rightarrow> (group_store \<times> MembershipChange) result" where
  "group_reset_members compute_members_diff_sorted members g =
     attempt (ensure_within_active_members_limit g members) (\<lambda>_.
     let new_members = sort members;
         (inc, out) = compute_members_diff_sorted new_members (ActiveMembers g)
     in Inr (g\<lparr>ActiveMembers := new_members\<rparr>, \<lparr>incoming = inc, outgoing = out\<rparr>))"

definition ensure_did :: "'a identity_store_scheme \<Rightarrow> Origin \<Rightarrow> (AccountId \<times> IdentityId) result" where
  "ensure_did s origin =
     attempt (ensure_signed origin) (\<lambda>sender.
     attempt (current_identity_or s sender) (\<lambda>did. Inr (sender, did)))"

definition group_abdicate_membership ::
  "'a identity_store_scheme \<Rightarrow> Origin \<Rightarrow> group_store \<Rightarrow> (group_store \<times> MembershipChange) result" where
  "group_abdicate_membership s origin g =
     attempt (ensure_did s origin) (\<lambda>(who, remove_id).
     ensure (is_primary_key s remove_id who) (GroupError OnlyPrimaryKeyAllowed) (
     ensure (length (get_members g) > 1) (GroupError LastMemberCannotQuit) (
     ensure (is_ok (binary_search (get_members g) remove_id)) (GroupError NoSuchMember) (
     Inr (g\<lparr>ActiveMembers := filter (\<lambda>i. i \<noteq> remove_id) (get_members g)\<rparr>,
          \<lparr>incoming = [], outgoing = [remove_id]\<rparr>)))))"

section \<open>Searching and changing ordered vectors\<close>

lemma binary_search_sorted:
  assumes "sorted xs"
  shows "case binary_search xs x of
      Inr i \<Rightarrow> i < length xs \<and> xs ! i = x
    | Inl i \<Rightarrow> i \<le> length xs \<and> x \<notin> set xs \<and> (\<forall>j < i. xs ! j < x) \<and> (\<forall>j. i \<le> j \<and> j < length xs \<longrightarrow> x < xs ! j)"
proof -
  note bs = binary_search_from_correct [of xs 0 "length xs" x, folded binary_search_def]
  show ?thesis
  proof (cases "binary_search xs x")
    case (Inl i)
    then have *: "i \<le> length xs \<and> (\<forall>j < i. xs ! j < x) \<and> (\<forall>j. i \<le> j \<and> j < length xs \<longrightarrow> x < xs ! j)"
      using bs assms by simp
    have "x \<notin> set xs"
    proof
      assume "x \<in> set xs"
      then obtain j where "j < length xs" "xs ! j = x" by (auto simp: in_set_conv_nth)
      then show False using * by (metis less_irrefl not_le)
    qed
    then show ?thesis using * Inl by simp
  next
    case (Inr i)
    then show ?thesis using bs assms by simp
  qed
qed

lemma binary_search_found:
  assumes "sorted xs" "binary_search xs x = Inr i"
  shows "i < length xs" "xs ! i = x" "x \<in> set xs"
  using binary_search_sorted [OF assms(1), of x] assms(2) by auto

lemma binary_search_absent:
  assumes "sorted xs" "binary_search xs x = Inl i"
  shows "i \<le> length xs" "x \<notin> set xs" "\<forall>j < i. xs ! j < x" "\<forall>j. i \<le> j \<and> j < length xs \<longrightarrow> x < xs ! j"
  using binary_search_sorted [OF assms(1), of x] assms(2) by auto

lemma binary_search_mem: "sorted xs \<Longrightarrow> x \<in> set xs \<Longrightarrow> \<exists>i. binary_search xs x = Inr i"
  using binary_search_sorted [of xs x] by (auto split: sum.splits)

lemma binary_search_not_mem: "sorted xs \<Longrightarrow> x \<notin> set xs \<Longrightarrow> \<exists>i. binary_search xs x = Inl i"
  using binary_search_sorted [of xs x] by (auto split: sum.splits)

lemma vec_remove_distinct:
  assumes "i < length xs" "distinct xs"
  shows "set (vec_remove i xs) = set xs - {xs ! i}" "distinct (vec_remove i xs)"
proof -
  have eq: "xs = take i xs @ xs ! i # drop (Suc i) xs" using id_take_nth_drop [OF assms(1)] .
  have "distinct (take i xs @ xs ! i # drop (Suc i) xs)" using assms(2) eq by simp
  moreover have "set xs = set (take i xs @ xs ! i # drop (Suc i) xs)" using eq by simp
  ultimately show "set (vec_remove i xs) = set xs - {xs ! i}" "distinct (vec_remove i xs)"
    by (auto simp: vec_remove_def)
qed

lemma sorted_vec_remove:
  assumes "sorted xs"
  shows "sorted (vec_remove i xs)"
proof -
  have "sorted (take i xs @ drop i xs)" using assms by simp
  moreover have "set (drop (Suc i) xs) \<subseteq> set (drop i xs)" by (simp add: set_drop_subset_set_drop)
  ultimately show ?thesis
    unfolding vec_remove_def sorted_append using assms by (auto simp: sorted_wrt_drop)
qed

lemma mset_vec_insert: "mset (vec_insert i x xs) = add_mset x (mset xs)"
  unfolding vec_insert_def by (metis append_take_drop_id mset_append mset.simps(2) union_mset_add_mset_right)

lemma sorted_vec_insert:
  assumes "sorted xs" "i \<le> length xs" "\<forall>j < i. xs ! j < x" "\<forall>j. i \<le> j \<and> j < length xs \<longrightarrow> x < xs ! j"
  shows "sorted (vec_insert i x xs)"
proof -
  have a: "y \<le> x" if "y \<in> set (take i xs)" for y
    using that assms(2,3) by (auto simp: in_set_conv_nth less_imp_le)
  have b: "x \<le> y" if "y \<in> set (drop i xs)" for y
    using that assms(4) by (auto simp: in_set_conv_nth less_imp_le)
  show ?thesis
    using assms(1) a b order_trans by (fastforce simp: vec_insert_def sorted_append sorted_wrt_take sorted_wrt_drop)
qed

lemma set_vec_swap_remove:
  assumes "i < length xs" "distinct xs"
  shows "set (vec_swap_remove i xs) = set xs - {xs ! i}" "distinct (vec_swap_remove i xs)"
proof -
  have ne: "xs \<noteq> []" using assms by auto
  then obtain ys z where xs: "xs = ys @ [z]" by (metis append_butlast_last_id)
  show "set (vec_swap_remove i xs) = set xs - {xs ! i}" "distinct (vec_swap_remove i xs)"
  proof (atomize (full), cases "i = length ys")
    case True
    then show "set (vec_swap_remove i xs) = set xs - {xs ! i} \<and> distinct (vec_swap_remove i xs)"
      using assms by (auto simp: vec_swap_remove_def xs)
  next
    case False
    then have i: "i < length ys" using assms by (simp add: xs)
    then have eq: "vec_swap_remove i xs = ys[i := z]" by (simp add: vec_swap_remove_def xs list_update_append)
    then show "set (vec_swap_remove i xs) = set xs - {xs ! i} \<and> distinct (vec_swap_remove i xs)"
      using assms i by (auto simp: xs nth_append set_update_distinct distinct_list_update)
  qed
qed

lemma map_vec_swap_remove: "xs \<noteq> [] \<Longrightarrow> map f (vec_swap_remove i xs) = vec_swap_remove i (map f xs)"
  by (simp add: vec_swap_remove_def map_butlast map_update last_map)

lemma sorted_vec_swap_remove:
  fixes xs :: "nat list"
  assumes "sorted xs" "distinct xs" "i < length xs"
  shows "sorted (vec_swap_remove i xs) \<longleftrightarrow> length xs - 2 \<le> i"
proof -
  have "xs \<noteq> []" using assms by auto
  then obtain ys z where xs: "xs = ys @ [z]" by (metis append_butlast_last_id)
  have eq: "vec_swap_remove i xs = (if i = length ys then ys else ys[i := z])"
    using assms(3) by (simp add: vec_swap_remove_def xs list_update_append)
  show ?thesis
  proof (cases "Suc i < length ys")
    case True
    then have "ys ! Suc i < z" using assms(1,2) by (auto simp: xs sorted_append le_less)
    moreover have "ys[i := z] ! i \<le> ys[i := z] ! Suc i" if "sorted (ys[i := z])"
      using that True by (intro sorted_nth_mono) auto
    ultimately have "\<not> sorted (vec_swap_remove i xs)" using True by (auto simp: eq)
    then show ?thesis using True by (simp add: xs)
  next
    case False
    have "sorted (ys[i := z])" if len: "Suc i = length ys"
    proof -
      obtain us u where "ys = us @ [u]" using len by (cases ys rule: rev_cases) auto
      then show ?thesis using len assms(1) by (auto simp: xs sorted_append list_update_append)
    qed
    then have "sorted (vec_swap_remove i xs)"
      using False assms(1,3) unfolding eq by (auto simp: xs sorted_append not_less le_Suc_eq)
    then show ?thesis using False by (simp add: xs)
  qed
qed

lemma nth_in_drop: "distinct xs \<Longrightarrow> i < length xs \<Longrightarrow> xs ! i \<in> set (drop n xs) \<longleftrightarrow> n \<le> i"
proof -
  assume a: "distinct xs" "i < length xs"
  have "xs ! i \<in> set (drop n xs) \<longleftrightarrow> (\<exists>j. n + j < length xs \<and> xs ! (n + j) = xs ! i)"
    by (auto simp: in_set_conv_nth less_diff_conv add.commute)
  also have "\<dots> \<longleftrightarrow> n \<le> i" using a by (auto simp: nth_eq_iff_index_eq le_iff_add)
  finally show ?thesis .
qed

section \<open>Membership\<close>

text \<open>
  The active members are in order, and neither their number nor their limit is above the maximum.
\<close>

definition group_good :: "group_store \<Rightarrow> bool" where
  "group_good g \<longleftrightarrow> sorted (ActiveMembers g) \<and> distinct (ActiveMembers g) \<and>
     length (ActiveMembers g) \<le> COMMITTEE_MEMBERS_MAX \<and> ActiveMembersLimit g \<le> COMMITTEE_MEMBERS_MAX"

text \<open>What a change that is signalled means for the set of active members.\<close>

definition change_exact :: "group_store \<Rightarrow> MembershipChange \<Rightarrow> group_store \<Rightarrow> bool" where
  "change_exact g c g' \<longleftrightarrow>
     set (ActiveMembers g') = set (ActiveMembers g) - set (outgoing c) \<union> set (incoming c) \<and>
     set (outgoing c) \<subseteq> set (ActiveMembers g) \<and> set (incoming c) \<inter> set (ActiveMembers g) = {}"

definition no_change :: MembershipChange where
  "no_change = \<lparr>incoming = [], outgoing = []\<rparr>"

definition diff_exact :: "(IdentityId list \<Rightarrow> IdentityId list \<Rightarrow> IdentityId list \<times> IdentityId list) \<Rightarrow> bool" where
  "diff_exact diff \<longleftrightarrow> (\<forall>new old inc out. sorted new \<longrightarrow> sorted old \<longrightarrow> diff new old = (inc, out) \<longrightarrow>
     set inc = set new - set old \<and> set out = set old - set new)"

text \<open>
  The operations of the pallet. A list that arrives with a call has a length of 32 bits at most, which is
  how its length is encoded.
\<close>

inductive group_step ::
  "(IdentityId list \<Rightarrow> IdentityId list \<Rightarrow> IdentityId list \<times> IdentityId list)
    \<Rightarrow> group_store \<Rightarrow> MembershipChange \<Rightarrow> group_store \<Rightarrow> bool"
  for diff where
  set_limit: "base_set_active_members_limit limit g = Inr g' \<Longrightarrow> group_step diff g no_change g'"
| disable: "group_disable_member now who expiry at g = Inr (g', c) \<Longrightarrow> group_step diff g c g'"
| add: "group_add_member who g = Inr (g', c) \<Longrightarrow> group_step diff g c g'"
| remove: "base_remove_member did who g = Inr (g', c) \<Longrightarrow>
    group_step diff g (case c of Some c \<Rightarrow> c | None \<Rightarrow> no_change) g'"
| swap: "group_swap_member out inc g = Inr (g', c) \<Longrightarrow>
    group_step diff g (case c of Some c \<Rightarrow> c | None \<Rightarrow> no_change) g'"
| reset: "group_reset_members diff members g = Inr (g', c) \<Longrightarrow> length members \<le> u32_max \<Longrightarrow> group_step diff g c g'"
| abdicate: "group_abdicate_membership (s :: identity_store) origin g = Inr (g', c) \<Longrightarrow> group_step diff g c g'"

lemma remove_active_good:
  assumes "base_remove_active_member who g = Inr (g', c)" "group_good g"
  shows "group_good g'" "change_exact g c g'" "set (ActiveMembers g') = set (ActiveMembers g) - {who}"
    "who \<in> set (ActiveMembers g)" "InactiveMembers g' = InactiveMembers g"
proof -
  obtain i where i: "binary_search (ActiveMembers g) who = Inr i"
    and g': "g' = g\<lparr>ActiveMembers := vec_remove i (ActiveMembers g)\<rparr>" and c: "c = \<lparr>incoming = [], outgoing = [who]\<rparr>"
    using assms(1) by (auto simp: base_remove_active_member_def split: sum.splits)
  have s: "sorted (ActiveMembers g)" and d: "distinct (ActiveMembers g)"
    using assms(2) by (simp_all add: group_good_def)
  note f = binary_search_found [OF s i]
  note v = vec_remove_distinct [OF f(1) d, unfolded f(2)]
  have "length (vec_remove i (ActiveMembers g)) \<le> length (ActiveMembers g)" by (simp add: vec_remove_def)
  then show "group_good g'" using assms(2) v(2) sorted_vec_remove [OF s] by (simp add: group_good_def g')
  show "set (ActiveMembers g') = set (ActiveMembers g) - {who}" "who \<in> set (ActiveMembers g)"
    "InactiveMembers g' = InactiveMembers g"
    using v(1) f(3) by (simp_all add: g')
  then show "change_exact g c g'" by (simp add: change_exact_def c)
qed

lemma disable_good:
  assumes "group_disable_member now who expiry at g = Inr (g', c)" "group_good g"
  shows "group_good g'" "change_exact g c g'"
proof -
  obtain g1 where r: "base_remove_active_member who g = Inr (g1, c)"
    and g': "\<exists>ms. g' = g1\<lparr>InactiveMembers := ms\<rparr>"
    using assms(1) by (auto simp: group_disable_member_def attempt_Inr_iff Let_def)
  note a = remove_active_good [OF r assms(2)]
  show "group_good g'" "change_exact g c g'"
    using a(1,2) g' by (auto simp: group_good_def change_exact_def)
qed

lemma add_good:
  assumes "group_add_member who g = Inr (g', c)" "group_good g"
  shows "group_good g'" "change_exact g c g'"
proof -
  let ?ms = "ActiveMembers g"
  obtain i where i: "binary_search ?ms who = Inl i" and g': "g' = g\<lparr>ActiveMembers := vec_insert i who ?ms\<rparr>"
    and c: "c = \<lparr>incoming = [who], outgoing = []\<rparr>"
    and l: "length (vec_insert i who ?ms) mod (u32_max + 1) \<le> ActiveMembersLimit g"
    using assms(1)
    by (auto simp: group_add_member_def Let_def attempt_Inr_iff ensure_within_active_members_limit_def
        ensure_Inr_iff split: sum.splits)
  have s: "sorted ?ms" and d: "distinct ?ms" and b: "length ?ms \<le> 500" "ActiveMembersLimit g \<le> 500"
    using assms(2) by (simp_all add: group_good_def)
  note f = binary_search_absent [OF s i]
  note m = mset_vec_insert [of i who ?ms]
  have st: "set (vec_insert i who ?ms) = insert who (set ?ms)" using m by (metis set_mset_add_mset_insert set_mset_mset)
  have len: "length (vec_insert i who ?ms) = Suc (length ?ms)" using m by (metis size_add_mset size_mset)
  have "distinct (vec_insert i who ?ms)"
    using st len d f(2) by (intro card_distinct) (simp add: distinct_card)
  moreover have "length (vec_insert i who ?ms) \<le> 500" using l len b by (simp add: u32_max_def)
  ultimately show "group_good g'"
    using sorted_vec_insert [OF s f(1,3,4)] b by (simp add: group_good_def g')
  show "change_exact g c g'" using st f(2) by (auto simp: change_exact_def g' c)
qed

lemma remove_good:
  assumes "base_remove_member did who g = Inr (g', c)" "group_good g"
  shows "group_good g'" "change_exact g (case c of Some c \<Rightarrow> c | None \<Rightarrow> no_change) g'"
proof -
  have "(\<exists>c'. base_remove_active_member who g = Inr (g', c') \<and> c = Some c') \<or>
      (\<exists>ms. g' = g\<lparr>InactiveMembers := ms\<rparr> \<and> c = None)"
    using assms(1)
    by (auto simp: base_remove_member_def base_remove_inactive_member_def Let_def attempt_Inr_iff
        split: sum.splits)
  then have "group_good g' \<and> change_exact g (case c of Some c \<Rightarrow> c | None \<Rightarrow> no_change) g'"
  proof (elim disjE exE conjE)
    fix c' assume "base_remove_active_member who g = Inr (g', c')" "c = Some c'"
    then show ?thesis using remove_active_good(1,2) [OF _ assms(2)] by simp
  next
    fix ms assume "g' = g\<lparr>InactiveMembers := ms\<rparr>" "c = None"
    then show ?thesis using assms(2) by (simp add: group_good_def change_exact_def no_change_def)
  qed
  then show "group_good g'" "change_exact g (case c of Some c \<Rightarrow> c | None \<Rightarrow> no_change) g'" by simp_all
qed

lemma swap_good:
  assumes "group_swap_member out inc g = Inr (g', c)" "group_good g"
  shows "group_good g'" "change_exact g (case c of Some c \<Rightarrow> c | None \<Rightarrow> no_change) g'"
proof -
  let ?ms = "ActiveMembers g"
  have "group_good g' \<and> change_exact g (case c of Some c \<Rightarrow> c | None \<Rightarrow> no_change) g'"
  proof (cases "out = inc")
    case True
    then show ?thesis using assms by (auto simp: group_swap_member_def change_exact_def no_change_def)
  next
    case False
    obtain i j where i: "binary_search ?ms out = Inr i" and j: "binary_search ?ms inc = Inl j"
      and g': "g' = g\<lparr>ActiveMembers := sort (?ms[i := inc])\<rparr>" and c: "c = Some \<lparr>incoming = [inc], outgoing = [out]\<rparr>"
      using assms(1) False by (auto simp: group_swap_member_def split: sum.splits)
    have s: "sorted ?ms" and d: "distinct ?ms" using assms(2) by (simp_all add: group_good_def)
    note f = binary_search_found [OF s i] and a = binary_search_absent [OF s j]
    have "set (?ms[i := inc]) = insert inc (set ?ms - {out})"
      using set_update_distinct [OF d f(1)] f(2) by simp
    moreover have "distinct (?ms[i := inc])" using d a(2) by (simp add: distinct_list_update)
    ultimately show ?thesis
      using assms(2) f(3) a(2) by (auto simp: group_good_def change_exact_def g' c)
  qed
  then show "group_good g'" "change_exact g (case c of Some c \<Rightarrow> c | None \<Rightarrow> no_change) g'" by simp_all
qed

lemma reset_good:
  assumes "group_reset_members diff members g = Inr (g', c)" "group_good g" "diff_exact diff"
    and "length members \<le> u32_max"
  shows "distinct (ActiveMembers g') \<Longrightarrow> group_good g'" "change_exact g c g'"
proof -
  obtain inc out where d: "diff (sort members) (ActiveMembers g) = (inc, out)"
    and g': "g' = g\<lparr>ActiveMembers := sort members\<rparr>" "c = \<lparr>incoming = inc, outgoing = out\<rparr>"
    and l: "length members mod (u32_max + 1) \<le> ActiveMembersLimit g"
    using assms(1)
    by (auto simp: group_reset_members_def Let_def attempt_Inr_iff ensure_within_active_members_limit_def
        ensure_Inr_iff split: prod.splits)
  have "set inc = set members - set (ActiveMembers g)" "set out = set (ActiveMembers g) - set members"
    using assms(2,3) d unfolding diff_exact_def group_good_def by (metis sorted_sort set_sort)+
  then show "distinct (ActiveMembers g') \<Longrightarrow> group_good g'" "change_exact g c g'"
    using assms(2,4) l by (auto simp: group_good_def change_exact_def g')
qed

lemma abdicate_good:
  assumes "group_abdicate_membership s origin g = Inr (g', c)" "group_good g"
  shows "group_good g'" "change_exact g c g'"
proof -
  obtain who i where g': "g' = g\<lparr>ActiveMembers := filter (\<lambda>i. i \<noteq> who) (ActiveMembers g)\<rparr>"
    and c: "c = \<lparr>incoming = [], outgoing = [who]\<rparr>" and i: "binary_search (ActiveMembers g) who = Inr i"
    using assms(1)
    by (auto simp: group_abdicate_membership_def attempt_Inr_iff ensure_Inr_iff get_members_def is_ok_iff)
  have "who \<in> set (ActiveMembers g)" using binary_search_found(3) [OF _ i] assms(2) by (simp add: group_good_def)
  moreover have "length (filter (\<lambda>i. i \<noteq> who) (ActiveMembers g)) \<le> 500"
    using length_filter_le [of "\<lambda>i. i \<noteq> who" "ActiveMembers g"] assms(2) unfolding group_good_def by linarith
  ultimately show "group_good g'" "change_exact g c g'"
    using assms(2) by (auto simp: group_good_def change_exact_def g' c sorted_filter [of id, simplified])
qed

lemma group_step_exact:
  assumes "group_step diff g c g'" "diff_exact diff" "group_good g"
  shows "distinct (ActiveMembers g') \<Longrightarrow> group_good g'" "change_exact g c g'"
proof -
  have "(distinct (ActiveMembers g') \<longrightarrow> group_good g') \<and> change_exact g c g'"
    using assms
  proof (induction rule: group_step.induct)
    case (set_limit limit g g')
    then show ?case
      by (auto simp: base_set_active_members_limit_def ensure_Inr_iff group_good_def change_exact_def no_change_def)
  qed (simp_all add: disable_good add_good remove_good swap_good reset_good abdicate_good)
  then show "distinct (ActiveMembers g') \<Longrightarrow> group_good g'" "change_exact g c g'" by simp_all
qed

interpretation group_system: invariant_system
  "\<lambda>g g'. (\<exists>c. group_step diff g c g') \<and> distinct (ActiveMembers g') \<and> diff_exact diff" group_good
  by unfold_locales (use group_step_exact(1) in blast)

section \<open>Properties\<close>

definition ex_group :: group_store where
  "ex_group = \<lparr>ActiveMembers = [2, 5, 9],
     InactiveMembers = [\<lparr>inactive_id = 3, deactivated_at = 40, member_expiry = None\<rparr>,
       \<lparr>inactive_id = 6, deactivated_at = 50, member_expiry = None\<rparr>,
       \<lparr>inactive_id = 8, deactivated_at = 60, member_expiry = None\<rparr>], ActiveMembersLimit = 10\<rparr>"

definition ex_diff :: "IdentityId list \<Rightarrow> IdentityId list \<Rightarrow> IdentityId list \<times> IdentityId list" where
  "ex_diff new old = (filter (\<lambda>i. i \<notin> set old) new, filter (\<lambda>i. i \<notin> set new) old)"

lemma ex_diff_exact: "diff_exact ex_diff"
  by (auto simp: diff_exact_def ex_diff_def)

text \<open>
  Whatever sequence of operations a group goes through, its active members stay ordered and at most
  500, and each operation signals the change of the membership exactly: the new members are the old ones
  without the outgoing and with the incoming ones, the outgoing were members and the incoming were not.
  A run in which the group is reset to a list that names an identity twice is left out.
\<close>

theorem group_changes_exact:
  assumes "(\<lambda>g g'. (\<exists>c. group_step diff g c g') \<and> distinct (ActiveMembers g') \<and> diff_exact diff)\<^sup>*\<^sup>* g0 g" "group_good g0"
    and "group_step diff g c g'" "distinct (ActiveMembers g')" "diff_exact diff"
  shows "group_good g' \<and> change_exact g c g'"
proof -
  have "group_good g" by (rule group_system.reach_good [OF assms(1,2)])
  then show ?thesis using group_step_exact [OF assms(3,5)] assms(4) by simp
qed

lemma ex_group_search:
  "binary_search [2, 5, 9] (5 :: nat) = Inr 1" "binary_search [2, 5, 9] (7 :: nat) = Inl 2"
  "binary_search [3, 6, 8] (3 :: nat) = Inr 0" "binary_search [8, 6] (8 :: nat) = Inl 2"
  by code_simp+

theorem group_changes_exact_witness:
  "\<exists>g' c. group_swap_member 5 7 ex_group = Inr (g', Some c) \<and> change_exact ex_group c g' \<and>
    ActiveMembers g' = [2, 7, 9]"
proof -
  let ?c = "\<lparr>incoming = [7], outgoing = [5]\<rparr>" and ?g = "ex_group\<lparr>ActiveMembers := [2, 7, 9]\<rparr>"
  have s: "group_swap_member 5 7 ex_group = Inr (?g, Some ?c)"
    by (simp add: group_swap_member_def ex_group_def ex_group_search)
  have "group_step ex_diff ex_group ?c ?g" using group_step.swap [OF s, of ex_diff] by simp
  moreover have "group_good ex_group" by (simp add: group_good_def ex_group_def)
  ultimately have "change_exact ex_group ?c ?g"
    using group_changes_exact [OF rtranclp.rtrancl_refl _ _ _ ex_diff_exact] by simp
  then show ?thesis using s by simp
qed

text \<open>
  (C23) Removing an inactive member removes exactly that member from the ordered vector of inactive ones, but
  the last member takes its place: the vector is in order afterwards only if the removed member was
  one of the last two.
\<close>

theorem remove_inactive_order:
  assumes "base_remove_inactive_member did who g = Inr g'"
    and "sorted (map inactive_id (InactiveMembers g))" and "distinct (map inactive_id (InactiveMembers g))"
  shows "inactive_id ` set (InactiveMembers g') = inactive_id ` set (InactiveMembers g) - {who} \<and>
    (sorted (map inactive_id (InactiveMembers g')) \<longleftrightarrow>
       who \<in> set (drop (length (InactiveMembers g) - 2) (map inactive_id (InactiveMembers g))))"
proof -
  let ?ids = "map inactive_id (InactiveMembers g)"
  obtain i where i: "binary_search ?ids who = Inr i"
    and g': "InactiveMembers g' = vec_swap_remove i (InactiveMembers g)"
    using assms(1) by (auto simp: base_remove_inactive_member_def Let_def attempt_Inr_iff split: sum.splits)
  note f = binary_search_found [OF assms(2) i]
  have ids: "map inactive_id (InactiveMembers g') = vec_swap_remove i ?ids"
    using f(1) by (cases "InactiveMembers g = []") (simp_all add: g' map_vec_swap_remove)
  have "who \<in> set (drop (length (InactiveMembers g) - 2) ?ids) \<longleftrightarrow> length ?ids - 2 \<le> i"
    using nth_in_drop [OF assms(3) f(1)] f(2) by simp
  moreover have "set (map inactive_id (InactiveMembers g')) = set ?ids - {who}"
    unfolding ids using set_vec_swap_remove(1) [OF f(1) assms(3)] f(2) by simp
  then have "inactive_id ` set (InactiveMembers g') = inactive_id ` set (InactiveMembers g) - {who}" by simp
  ultimately show ?thesis
    using sorted_vec_swap_remove [OF assms(2,3) f(1)] by (simp add: ids)
qed

theorem remove_inactive_order_witness:
  "\<exists>g'. base_remove_inactive_member (Some 1) 3 ex_group = Inr g' \<and>
     map inactive_id (InactiveMembers g') = [8, 6] \<and>
     \<not> sorted (map inactive_id (InactiveMembers g')) \<and>
     base_remove_inactive_member (Some 1) 8 g' = Inl (GroupError NoSuchMember)"
proof -
  let ?g = "ex_group\<lparr>InactiveMembers := [\<lparr>inactive_id = 8, deactivated_at = 60, member_expiry = None\<rparr>,
       \<lparr>inactive_id = 6, deactivated_at = 50, member_expiry = None\<rparr>]\<rparr>"
  have r: "base_remove_inactive_member (Some 1) 3 ex_group = Inr ?g"
    by (simp add: base_remove_inactive_member_def ex_group_def ex_group_search vec_swap_remove_def)
  have "base_remove_inactive_member (Some 1) 8 ?g = Inl (GroupError NoSuchMember)"
    by (simp add: base_remove_inactive_member_def ex_group_search)
  moreover have "\<not> sorted (map inactive_id (InactiveMembers ?g))"
    using remove_inactive_order [OF r] by (simp add: ex_group_def)
  ultimately show ?thesis using r by simp
qed

end
