(* ===== verification/Identity_Claims.thy ===== *)
theory Identity_Claims
  imports Group "HOL-Library.List_Lexorder" "HOL-Library.AList"
begin

text \<open>
  Claims about identities (\<open>primitives/src/identity_claim.rs\<close>, \<open>pallets/identity/src/claims.rs\<close>):
  what an issuer states of a target, in a scope, until an optional expiry. The claims of a target
  and a type are an association list over issuer and scope. The members of the group of customer due
  diligence providers are the instance \<open>CddServiceProviders\<close> of the group pallet. The store also has
  the rest of the storage of the identity pallet. The derived order of an enumeration is the
  lexicographic order of a list of numbers, given by a rank function.
\<close>

type_synonym CustomClaimTypeId = nat
type_synonym CddId = nat
type_synonym CountryCode = nat

datatype Scope = Identity IdentityId | Ticker Ticker | Custom string

datatype Claim =
    Accredited Scope
  | Affiliate Scope
  | BuyLockup Scope
  | SellLockup Scope
  | CustomerDueDiligence CddId
  | KnowYourCustomer Scope
  | Jurisdiction CountryCode Scope
  | Exempted Scope
  | Blocked Scope
  | Custom CustomClaimTypeId "Scope option"

datatype ClaimType =
    Accredited | Affiliate | BuyLockup | SellLockup | CustomerDueDiligence | KnowYourCustomer
  | Jurisdiction | Exempted | Blocked | Custom CustomClaimTypeId

definition claim_type :: "Claim \<Rightarrow> ClaimType" where
  "claim_type c =
     (case c of
        Claim.Accredited _ \<Rightarrow> ClaimType.Accredited
      | Claim.Affiliate _ \<Rightarrow> ClaimType.Affiliate
      | Claim.BuyLockup _ \<Rightarrow> ClaimType.BuyLockup
      | Claim.SellLockup _ \<Rightarrow> ClaimType.SellLockup
      | Claim.CustomerDueDiligence _ \<Rightarrow> ClaimType.CustomerDueDiligence
      | Claim.KnowYourCustomer _ \<Rightarrow> ClaimType.KnowYourCustomer
      | Claim.Jurisdiction _ _ \<Rightarrow> ClaimType.Jurisdiction
      | Claim.Exempted _ \<Rightarrow> ClaimType.Exempted
      | Claim.Blocked _ \<Rightarrow> ClaimType.Blocked
      | Claim.Custom i _ \<Rightarrow> ClaimType.Custom i)"

definition as_scope :: "Claim \<Rightarrow> Scope option" where
  "as_scope c =
     (case c of
        Claim.Accredited sc \<Rightarrow> Some sc
      | Claim.Affiliate sc \<Rightarrow> Some sc
      | Claim.BuyLockup sc \<Rightarrow> Some sc
      | Claim.SellLockup sc \<Rightarrow> Some sc
      | Claim.KnowYourCustomer sc \<Rightarrow> Some sc
      | Claim.Jurisdiction _ sc \<Rightarrow> Some sc
      | Claim.Exempted sc \<Rightarrow> Some sc
      | Claim.Blocked sc \<Rightarrow> Some sc
      | Claim.Custom _ sc \<Rightarrow> sc
      | Claim.CustomerDueDiligence _ \<Rightarrow> None)"

definition claim_type_rank :: "ClaimType \<Rightarrow> nat list" where
  "claim_type_rank c =
     (case c of
        ClaimType.Accredited \<Rightarrow> [0] | ClaimType.Affiliate \<Rightarrow> [1] | ClaimType.BuyLockup \<Rightarrow> [2]
      | ClaimType.SellLockup \<Rightarrow> [3] | ClaimType.CustomerDueDiligence \<Rightarrow> [4]
      | ClaimType.KnowYourCustomer \<Rightarrow> [5] | ClaimType.Jurisdiction \<Rightarrow> [6] | ClaimType.Exempted \<Rightarrow> [7]
      | ClaimType.Blocked \<Rightarrow> [8] | ClaimType.Custom i \<Rightarrow> [9, i])"

definition option_rank :: "('a \<Rightarrow> nat list) \<Rightarrow> 'a option \<Rightarrow> nat list" where
  "option_rank f x = (case x of None \<Rightarrow> [0] | Some y \<Rightarrow> 1 # f y)"

text \<open>An ordered set of values that are ranked, as the list of its elements in order.\<close>

definition ranked_set :: "('a \<Rightarrow> nat list) \<Rightarrow> 'a list \<Rightarrow> 'a list" where
  "ranked_set rank xs = sort_key rank (remdups xs)"

lemma ranked_set_simps [simp]: "set (ranked_set rank xs) = set xs" "distinct (ranked_set rank xs)"
  by (simp_all add: ranked_set_def)

section \<open>Storage\<close>

record IdentityClaim =
  claim_issuer :: IdentityId
  issuance_date :: Moment
  last_update_date :: Moment
  claim_expiry :: "Moment option"
  claim :: Claim

record Claim1stKey =
  claim_target :: IdentityId
  key_claim_type :: ClaimType

record Claim2ndKey =
  key_issuer :: IdentityId
  key_scope :: "Scope option"

record claims_store = checkpoint_store +
  Claims :: "Claim1stKey \<Rightarrow> (Claim2ndKey \<times> IdentityClaim) list"
  CustomClaims :: "CustomClaimTypeId \<Rightarrow> string option"
  CustomClaimsInverse :: "string \<Rightarrow> CustomClaimTypeId option"
  CustomClaimIdSequence :: CustomClaimTypeId
  CddServiceProviders :: group_store
  OffChainAuthorizationNonce :: "IdentityId \<Rightarrow> nat"
  CddAuthForPrimaryKeyRotation :: bool
  AccountKeyRefCount :: "AccountId \<Rightarrow> nat"
  ParentDid :: "IdentityId \<Rightarrow> IdentityId option"
  ChildDid :: "IdentityId \<Rightarrow> IdentityId \<Rightarrow> bool"

section \<open>Reading claims\<close>

definition is_identity_claim_not_expired_at :: "IdentityClaim \<Rightarrow> Moment \<Rightarrow> bool" where
  "is_identity_claim_not_expired_at c moment =
     (case claim_expiry c of Some expiry \<Rightarrow> expiry > moment | None \<Rightarrow> True)"

definition fetch_base_claim_with_issuer ::
  "'a claims_store_scheme \<Rightarrow> IdentityId \<Rightarrow> ClaimType \<Rightarrow> IdentityId \<Rightarrow> Scope option
    \<Rightarrow> IdentityClaim option" where
  "fetch_base_claim_with_issuer s target ct issuer scope =
     map_of (Claims s \<lparr>claim_target = target, key_claim_type = ct\<rparr>)
       \<lparr>key_issuer = issuer, key_scope = scope\<rparr>"

definition fetch_claim ::
  "'a claims_store_scheme \<Rightarrow> IdentityId \<Rightarrow> ClaimType \<Rightarrow> IdentityId \<Rightarrow> Scope option
    \<Rightarrow> IdentityClaim option" where
  "fetch_claim s i ct issuer scope =
     (case fetch_base_claim_with_issuer s i ct issuer scope of
        Some c \<Rightarrow> if is_identity_claim_not_expired_at c (timestamp s) then Some c else None
      | None \<Rightarrow> None)"

section \<open>Adding and revoking claims\<close>

definition ensure_custom_scopes_limited :: "Claim \<Rightarrow> unit result" where
  "ensure_custom_scopes_limited c =
     (case as_scope c of
        Some (Scope.Custom data) \<Rightarrow> ensure (length data \<le> 32) (IdentityError CustomScopeTooLong) (Inr ())
      | _ \<Rightarrow> Inr ())"

definition unverified_add_claim_with_scope ::
  "IdentityId \<Rightarrow> Claim \<Rightarrow> Scope option \<Rightarrow> IdentityId \<Rightarrow> Moment option \<Rightarrow> 'a claims_store_scheme
    \<Rightarrow> 'a claims_store_scheme" where
  "unverified_add_claim_with_scope target c scope issuer expiry s =
     (let ct = claim_type c; now = timestamp s;
          issued = (case fetch_claim s target ct issuer scope of
                      Some i \<Rightarrow> issuance_date i | None \<Rightarrow> now);
          pk = \<lparr>claim_target = target, key_claim_type = ct\<rparr>;
          sk = \<lparr>key_issuer = issuer, key_scope = scope\<rparr>;
          id_claim = \<lparr>claim_issuer = issuer, issuance_date = issued, last_update_date = now,
                      claim_expiry = expiry, claim = c\<rparr>
      in s\<lparr>Claims := (Claims s)(pk := AList.update sk id_claim (Claims s pk))\<rparr>)"

definition base_add_claim ::
  "IdentityId \<Rightarrow> Claim \<Rightarrow> IdentityId \<Rightarrow> Moment option \<Rightarrow> 'a claims_store_scheme
    \<Rightarrow> ('a claims_store_scheme) result" where
  "base_add_claim target c issuer expiry s =
     ensure (case claim_type c of ClaimType.Custom i \<Rightarrow> CustomClaims s i \<noteq> None | _ \<Rightarrow> True)
       (IdentityError CustomClaimTypeDoesNotExist)
       (Inr (unverified_add_claim_with_scope target c (as_scope c) issuer expiry s))"

definition ensure_authorized_cdd_provider :: "'a claims_store_scheme \<Rightarrow> IdentityId \<Rightarrow> unit result" where
  "ensure_authorized_cdd_provider s did =
     ensure (List.member (get_members (CddServiceProviders s)) did) (IdentityError UnAuthorizedCddProvider) (Inr ())"

definition base_add_cdd_claim ::
  "IdentityId \<Rightarrow> Claim \<Rightarrow> IdentityId \<Rightarrow> Moment option \<Rightarrow> 'a claims_store_scheme
    \<Rightarrow> ('a claims_store_scheme) result" where
  "base_add_cdd_claim target c issuer expiry s =
     attempt (ensure_authorized_cdd_provider s issuer) (\<lambda>_. base_add_claim target c issuer expiry s)"

definition ensure_signed_and_validate_claim_target ::
  "'a claims_store_scheme \<Rightarrow> Origin \<Rightarrow> IdentityId \<Rightarrow> IdentityId result" where
  "ensure_signed_and_validate_claim_target s origin target =
     attempt (ensure_perms s origin) (\<lambda>did.
     ensure (DidRecords s target \<noteq> None) (IdentityError DidMustAlreadyExist) (Inr did))"

definition add_claim ::
  "'c fee_config_scheme \<Rightarrow> Origin \<Rightarrow> IdentityId \<Rightarrow> Claim \<Rightarrow> Moment option \<Rightarrow> 'a claims_store_scheme
    \<Rightarrow> ('a claims_store_scheme) result" where
  "add_claim cfg origin target c expiry s =
     attempt (ensure_signed_and_validate_claim_target s origin target) (\<lambda>issuer.
     case c of
       Claim.CustomerDueDiligence _ \<Rightarrow> base_add_cdd_claim target c issuer expiry s
     | _ \<Rightarrow>
         attempt (ensure_custom_scopes_limited c) (\<lambda>_.
         attempt (charge_fee cfg IdentityAddClaim s) (\<lambda>s1.
         base_add_claim target c issuer expiry s1)))"

definition base_revoke_claim ::
  "IdentityId \<Rightarrow> ClaimType \<Rightarrow> IdentityId \<Rightarrow> Scope option \<Rightarrow> 'a claims_store_scheme
    \<Rightarrow> ('a claims_store_scheme) result" where
  "base_revoke_claim target ct issuer scope s =
     (let pk = \<lparr>claim_target = target, key_claim_type = ct\<rparr>;
          sk = \<lparr>key_issuer = issuer, key_scope = scope\<rparr>
      in attempt (ok_or (map_of (Claims s pk) sk) (IdentityError ClaimDoesNotExist)) (\<lambda>_.
         Inr (s\<lparr>Claims := (Claims s)(pk := AList.delete sk (Claims s pk))\<rparr>)))"

definition revoke_claim ::
  "Origin \<Rightarrow> IdentityId \<Rightarrow> Claim \<Rightarrow> 'a claims_store_scheme \<Rightarrow> ('a claims_store_scheme) result" where
  "revoke_claim origin target c s =
     attempt (ensure_perms s origin) (\<lambda>issuer.
     base_revoke_claim target (claim_type c) issuer (as_scope c) s)"

definition revoke_claim_by_index ::
  "Origin \<Rightarrow> IdentityId \<Rightarrow> ClaimType \<Rightarrow> Scope option \<Rightarrow> 'a claims_store_scheme
    \<Rightarrow> ('a claims_store_scheme) result" where
  "revoke_claim_by_index origin target ct scope s =
     attempt (ensure_perms s origin) (\<lambda>issuer. base_revoke_claim target ct issuer scope s)"

definition unsafe_register_custom_claim_type ::
  "'c config_scheme \<Rightarrow> string \<Rightarrow> 'a claims_store_scheme
    \<Rightarrow> (CustomClaimTypeId \<times> 'a claims_store_scheme) result" where
  "unsafe_register_custom_claim_type cfg ty s =
     attempt (ensure_string_limited cfg ty) (\<lambda>_.
     ensure (CustomClaimsInverse s ty = None) (IdentityError CustomClaimTypeAlreadyExists) (
     attempt (try_next_pre u32_max (CustomClaimIdSequence s)) (\<lambda>(i, sq).
     Inr (i, s\<lparr>CustomClaimIdSequence := sq,
               CustomClaimsInverse := (CustomClaimsInverse s)(ty \<mapsto> i),
               CustomClaims := (CustomClaims s)(i \<mapsto> ty)\<rparr>))))"

definition base_register_custom_claim_type ::
  "'c config_scheme \<Rightarrow> Origin \<Rightarrow> string \<Rightarrow> 'a claims_store_scheme
    \<Rightarrow> ('a claims_store_scheme) result" where
  "base_register_custom_claim_type cfg origin ty s =
     attempt (ensure_perms s origin) (\<lambda>_.
     attempt (unsafe_register_custom_claim_type cfg ty s) (\<lambda>(_, s1). Inr s1))"

section \<open>Round trips\<close>

text \<open>A claim is read back until it expires or is revoked, and no other claim is touched.\<close>

lemma fetch_after_add:
  assumes "base_add_claim target c issuer expiry s = Inr s'"
  shows "fetch_base_claim_with_issuer s' i ct issuer' scope' =
    (if i = target \<and> ct = claim_type c \<and> issuer' = issuer \<and> scope' = as_scope c
     then Some \<lparr>claim_issuer = issuer,
       issuance_date = (case fetch_claim s target ct issuer (as_scope c) of
         Some i \<Rightarrow> issuance_date i | None \<Rightarrow> timestamp s),
       last_update_date = timestamp s, claim_expiry = expiry, claim = c\<rparr>
     else fetch_base_claim_with_issuer s i ct issuer' scope')"
  using assms
  by (auto simp: base_add_claim_def res_simps unverified_add_claim_with_scope_def Let_def
      fetch_base_claim_with_issuer_def update_conv')

lemma fetch_after_revoke:
  assumes "base_revoke_claim target ct issuer scope s = Inr s'"
  shows "fetch_base_claim_with_issuer s' i ct' issuer' scope' =
    (if i = target \<and> ct' = ct \<and> issuer' = issuer \<and> scope' = scope then None
     else fetch_base_claim_with_issuer s i ct' issuer' scope')"
  using assms
  by (auto simp: base_revoke_claim_def res_simps Let_def fetch_base_claim_with_issuer_def delete_conv')

lemma charge_fee_claims:
  assumes "charge_fee cfg op s = Inr s'"
  shows "Claims s' = Claims s" "timestamp s' = timestamp s" "CddServiceProviders s' = CddServiceProviders s"
proof -
  obtain subs ledger where "s' = s\<lparr>Subsidies := subs, FreeBalance := ledger\<rparr>"
    using assms charge_fees_frame unfolding charge_fee_def by blast
  then show "Claims s' = Claims s" "timestamp s' = timestamp s" "CddServiceProviders s' = CddServiceProviders s"
    by simp_all
qed

lemma add_claim_paid:
  assumes "add_claim cfg origin target c expiry s = Inr s'"
  shows "\<exists>issuer s1. ensure_perms s origin = Inr issuer \<and> base_add_claim target c issuer expiry s1 = Inr s' \<and>
    (s1 = s \<or> charge_fee cfg IdentityAddClaim s = Inr s1)"
proof -
  obtain issuer where i: "ensure_perms s origin = Inr issuer"
    using assms by (auto simp: add_claim_def ensure_signed_and_validate_claim_target_def res_simps)
  have "base_add_claim target c issuer expiry s = Inr s' \<or>
      (\<exists>s1. charge_fee cfg IdentityAddClaim s = Inr s1 \<and> base_add_claim target c issuer expiry s1 = Inr s')"
    using assms i unfolding add_claim_def ensure_signed_and_validate_claim_target_def base_add_cdd_claim_def
    by (cases c) (auto simp: res_simps)
  then show ?thesis using i by blast
qed

lemma base_add_claim_time: "base_add_claim target c issuer expiry s = Inr s' \<Longrightarrow> timestamp s' = timestamp s"
  by (auto simp: base_add_claim_def res_simps unverified_add_claim_with_scope_def Let_def)

lemma fetch_claim_at:
  "fetch_claim (s\<lparr>timestamp := now\<rparr>) i ct issuer scope =
     (case fetch_base_claim_with_issuer s i ct issuer scope of
        Some c \<Rightarrow> if is_identity_claim_not_expired_at c now then Some c else None
      | None \<Rightarrow> None)"
  by (simp add: fetch_claim_def fetch_base_claim_with_issuer_def split: option.split)

section \<open>Properties\<close>

definition ex_claims :: claims_store where
  "ex_claims = checkpoint_store.extend ex_checkpoint
     (claims_store.fields (\<lambda>_. []) (\<lambda>_. None) (\<lambda>_. None) 0
        \<lparr>ActiveMembers = [1], InactiveMembers = [], ActiveMembersLimit = 10\<rparr>
        (\<lambda>_. 0) False (\<lambda>_. 0) (\<lambda>_. None) (\<lambda>_ _. False))"

lemmas ex_claims_defs = ex_claims_def claims_store.defs ex_checkpoint_defs

text \<open>
  (C22) A claim is readable until it expires: after \<open>add_claim\<close>, at any time \<open>now\<close>, \<open>fetch_claim\<close>
  for the target, the type, the issuer and the scope of the claim gives that claim, unless it has
  expired by then, and what it gives for any other key has not changed. Once the issuer revokes
  the claim, \<open>fetch_claim\<close> gives nothing for the key, again leaving every other key alone.
\<close>

theorem claim_round_trip:
  assumes "add_claim cfg origin target c expiry s = Inr s'"
  shows "\<exists>issuer. ensure_perms s origin = Inr issuer \<and>
    (\<forall>now i ct issuer' scope.
       (if i = target \<and> ct = claim_type c \<and> issuer' = issuer \<and> scope = as_scope c
        then map_option claim (fetch_claim (s'\<lparr>timestamp := now\<rparr>) i ct issuer' scope) =
               (if \<exists>e. expiry = Some e \<and> e \<le> now then None else Some c)
        else fetch_claim (s'\<lparr>timestamp := now\<rparr>) i ct issuer' scope =
               fetch_claim (s\<lparr>timestamp := now\<rparr>) i ct issuer' scope)) \<and>
    (\<forall>s'' now i ct issuer' scope. base_revoke_claim target (claim_type c) issuer (as_scope c) s' = Inr s'' \<longrightarrow>
       fetch_claim (s''\<lparr>timestamp := now\<rparr>) i ct issuer' scope =
         (if i = target \<and> ct = claim_type c \<and> issuer' = issuer \<and> scope = as_scope c then None
          else fetch_claim (s\<lparr>timestamp := now\<rparr>) i ct issuer' scope))"
proof -
  obtain issuer s1 where i: "ensure_perms s origin = Inr issuer" and s1: "Claims s1 = Claims s"
    and a: "base_add_claim target c issuer expiry s1 = Inr s'"
    using add_claim_paid [OF assms] charge_fee_claims(1) by metis
  have eq: "fetch_base_claim_with_issuer s1 i ct issuer' scope = fetch_base_claim_with_issuer s i ct issuer' scope"
    for i ct issuer' scope by (simp add: fetch_base_claim_with_issuer_def s1)
  show ?thesis
    using i
    by (auto simp: fetch_claim_at fetch_after_add [OF a] fetch_after_revoke eq
        is_identity_claim_not_expired_at_def not_le split: option.splits)
qed

theorem claim_round_trip_witness:
  "\<exists>s'. add_claim ex_fee_config (Signed 1) 1 (Claim.CustomerDueDiligence 4) (Some 500) ex_claims = Inr s' \<and>
     map_option claim (fetch_claim (s'\<lparr>timestamp := 499\<rparr>) 1 ClaimType.CustomerDueDiligence 1 None) =
       Some (Claim.CustomerDueDiligence 4) \<and>
     fetch_claim (s'\<lparr>timestamp := 500\<rparr>) 1 ClaimType.CustomerDueDiligence 1 None = None"
proof -
  have p: "ensure_perms ex_claims (Signed 1) = Inr 1" "DidRecords ex_claims 1 \<noteq> None" "get_members (CddServiceProviders ex_claims) = [1]"
    by (simp_all add: ensure_perms_def ensure_origin_call_permissions_def ensure_signed_def
        ensure_call_permissions_def check_account_call_permissions_def get_members_def ex_claims_defs)
  then have "is_ok (add_claim ex_fee_config (Signed 1) 1 (Claim.CustomerDueDiligence 4) (Some 500) ex_claims)"
    by (simp add: add_claim_def ensure_signed_and_validate_claim_target_def base_add_cdd_claim_def
        ensure_authorized_cdd_provider_def base_add_claim_def claim_type_def)
  then obtain s' where s': "add_claim ex_fee_config (Signed 1) 1 (Claim.CustomerDueDiligence 4) (Some 500)
      ex_claims = Inr s'"
    by (auto simp: is_ok_iff)
  from claim_round_trip [OF s'] p(1)
  have *: "\<forall>now i ct issuer' scope.
       (if i = 1 \<and> ct = ClaimType.CustomerDueDiligence \<and> issuer' = 1 \<and> scope = None
        then map_option claim (fetch_claim (s'\<lparr>timestamp := now\<rparr>) i ct issuer' scope) =
               (if \<exists>e. Some 500 = Some e \<and> e \<le> now then None else Some (Claim.CustomerDueDiligence 4))
        else fetch_claim (s'\<lparr>timestamp := now\<rparr>) i ct issuer' scope =
               fetch_claim (ex_claims\<lparr>timestamp := now\<rparr>) i ct issuer' scope)"
    by (simp add: claim_type_def as_scope_def)
  have "map_option claim (fetch_claim (s'\<lparr>timestamp := now\<rparr>) 1 ClaimType.CustomerDueDiligence 1 None) =
      (if 500 \<le> now then None else Some (Claim.CustomerDueDiligence 4))" for now
    using * [rule_format, of 1 ClaimType.CustomerDueDiligence 1 None now] by simp
  from this [of 499] this [of 500] show ?thesis using s' by simp
qed

end
