(* ===== verification/Statistics.thy ===== *)
theory Statistics
  imports Identity_Claims
begin

text \<open>
  The statistics pallet (\<open>pallets/statistics/src/lib.rs\<close>, \<open>primitives/src/statistics.rs\<close>,
  \<open>primitives/src/transfer_compliance.rs\<close>): counters of investors and of balances per ticker and
  claim, and the transfer conditions that are checked against them. The weights of the pallet, the
  bounds on its sets and \<open>Permill::from_rational\<close> are parameters of the configuration; a weight
  meter is threaded through the functions that take one, and dropped when they fail.
\<close>

type_synonym Percentage = nat

datatype AssetScope = Ticker Ticker

definition asset_claim_scope :: "AssetScope \<Rightarrow> Scope" where
  "asset_claim_scope a = (case a of AssetScope.Ticker t \<Rightarrow> Scope.Ticker t)"

datatype StatOpType = Count | Balance

record StatType =
  stat_op :: StatOpType
  stat_claim_issuer :: "(ClaimType \<times> IdentityId) option"

record Stat1stKey =
  stat_asset :: AssetScope
  stat_type :: StatType

datatype StatClaim = Accredited bool | Affiliate bool | Jurisdiction "CountryCode option"

datatype Stat2ndKey = NoClaimStat | Claim StatClaim

definition stat_claim_type :: "StatClaim \<Rightarrow> ClaimType" where
  "stat_claim_type c =
     (case c of
        StatClaim.Accredited _ \<Rightarrow> ClaimType.Accredited
      | StatClaim.Affiliate _ \<Rightarrow> ClaimType.Affiliate
      | StatClaim.Jurisdiction _ \<Rightarrow> ClaimType.Jurisdiction)"

fun new_from :: "ClaimType \<Rightarrow> Claim option \<Rightarrow> Stat2ndKey" where
  "new_from ClaimType.Accredited None = Claim (StatClaim.Accredited False)"
| "new_from ClaimType.Affiliate None = Claim (StatClaim.Affiliate False)"
| "new_from ClaimType.Accredited (Some (Claim.Accredited _)) = Claim (StatClaim.Accredited True)"
| "new_from ClaimType.Affiliate (Some (Claim.Affiliate _)) = Claim (StatClaim.Affiliate True)"
| "new_from ClaimType.Jurisdiction (Some (Claim.Jurisdiction cc _)) =
     Claim (StatClaim.Jurisdiction (Some cc))"
| "new_from ClaimType.Jurisdiction None = Claim (StatClaim.Jurisdiction None)"
| "new_from _ _ = NoClaimStat"

datatype TransferCondition =
    MaxInvestorCount nat
  | MaxInvestorOwnership Percentage
  | ClaimCount StatClaim IdentityId nat "nat option"
  | ClaimOwnership StatClaim IdentityId Percentage Percentage

record TransferConditionExemptKey =
  exempt_asset :: AssetScope
  exempt_op :: StatOpType
  exempt_claim_type :: "ClaimType option"

record AssetTransferCompliance =
  tc_paused :: bool
  tc_requirements :: "TransferCondition list"

record StatUpdate =
  update_key2 :: Stat2ndKey
  update_value :: "nat option"

definition get_stat_type :: "TransferCondition \<Rightarrow> StatType" where
  "get_stat_type c =
     (case c of
        MaxInvestorCount _ \<Rightarrow> \<lparr>stat_op = Count, stat_claim_issuer = None\<rparr>
      | MaxInvestorOwnership _ \<Rightarrow> \<lparr>stat_op = Balance, stat_claim_issuer = None\<rparr>
      | ClaimCount cl issuer _ _ \<Rightarrow>
          \<lparr>stat_op = Count, stat_claim_issuer = Some (stat_claim_type cl, issuer)\<rparr>
      | ClaimOwnership cl issuer _ _ \<Rightarrow>
          \<lparr>stat_op = Balance, stat_claim_issuer = Some (stat_claim_type cl, issuer)\<rparr>)"

definition get_exempt_key :: "TransferCondition \<Rightarrow> AssetScope \<Rightarrow> TransferConditionExemptKey" where
  "get_exempt_key c asset =
     (case c of
        MaxInvestorCount _ \<Rightarrow>
          \<lparr>exempt_asset = asset, exempt_op = Count, exempt_claim_type = None\<rparr>
      | MaxInvestorOwnership _ \<Rightarrow>
          \<lparr>exempt_asset = asset, exempt_op = Balance, exempt_claim_type = None\<rparr>
      | ClaimCount cl _ _ _ \<Rightarrow>
          \<lparr>exempt_asset = asset, exempt_op = Count, exempt_claim_type = Some (stat_claim_type cl)\<rparr>
      | ClaimOwnership cl _ _ _ \<Rightarrow>
          \<lparr>exempt_asset = asset, exempt_op = Balance, exempt_claim_type = Some (stat_claim_type cl)\<rparr>)"

section \<open>The order of the sets the pallet iterates over\<close>

definition op_rank :: "StatOpType \<Rightarrow> nat" where
  "op_rank op = (case op of Count \<Rightarrow> 0 | Balance \<Rightarrow> 1)"

definition stat_type_rank :: "StatType \<Rightarrow> nat list" where
  "stat_type_rank st = op_rank (stat_op st) #
     option_rank (\<lambda>(ct, issuer). claim_type_rank ct @ [issuer]) (stat_claim_issuer st)"

definition stat_claim_rank :: "StatClaim \<Rightarrow> nat list" where
  "stat_claim_rank c =
     (case c of
        StatClaim.Accredited b \<Rightarrow> [0, of_bool b]
      | StatClaim.Affiliate b \<Rightarrow> [1, of_bool b]
      | StatClaim.Jurisdiction cc \<Rightarrow> 2 # option_rank (\<lambda>c. [c]) cc)"

definition key2_rank :: "Stat2ndKey \<Rightarrow> nat list" where
  "key2_rank k = (case k of NoClaimStat \<Rightarrow> [0] | Claim c \<Rightarrow> 1 # stat_claim_rank c)"

definition condition_rank :: "TransferCondition \<Rightarrow> nat list" where
  "condition_rank c =
     (case c of
        MaxInvestorCount n \<Rightarrow> [0, n]
      | MaxInvestorOwnership p \<Rightarrow> [1, p]
      | ClaimCount cl issuer mn mx \<Rightarrow>
          2 # stat_claim_rank cl @ [issuer, mn] @ option_rank (\<lambda>m. [m]) mx
      | ClaimOwnership cl issuer mn mx \<Rightarrow> 3 # stat_claim_rank cl @ [issuer, mn, mx])"

definition stat_update_rank :: "StatUpdate \<Rightarrow> nat list" where
  "stat_update_rank u = key2_rank (update_key2 u) @ option_rank (\<lambda>v. [v]) (update_value u)"

section \<open>Storage and configuration\<close>

record statistics_store = claims_store +
  ActiveAssetStats :: "AssetScope \<Rightarrow> StatType list"
  AssetStats :: "Stat1stKey \<Rightarrow> Stat2ndKey \<Rightarrow> nat"
  AssetTransferCompliances :: "AssetScope \<Rightarrow> AssetTransferCompliance"
  TransferConditionExemptEntities :: "TransferConditionExemptKey \<Rightarrow> IdentityId \<Rightarrow> bool"

record statistics_config = fee_config +
  MaxStatsPerAsset :: nat
  MaxTransferConditionsPerAsset :: nat
  permill_from_rational :: "nat \<Rightarrow> nat \<Rightarrow> Percentage"
  w_update_asset_balance_stats :: "nat \<Rightarrow> Weight"
  w_update_asset_count_stats :: "nat \<Rightarrow> Weight"
  w_active_asset_statistics_load :: "nat \<Rightarrow> Weight"
  w_max_investor_count_restriction :: "nat \<Rightarrow> Weight"
  w_claim_count_restriction_no_stats :: "nat \<Rightarrow> Weight"
  w_claim_count_restriction_with_stats :: Weight
  w_max_investor_ownership_restriction :: Weight
  w_claim_ownership_restriction :: "nat \<Rightarrow> Weight"
  w_is_exempt :: Weight

definition put_stat ::
  "Stat1stKey \<Rightarrow> Stat2ndKey \<Rightarrow> nat \<Rightarrow> 'a statistics_store_scheme \<Rightarrow> 'a statistics_store_scheme" where
  "put_stat key1 key2 v s = s\<lparr>AssetStats := (AssetStats s)(key1 := (AssetStats s key1)(key2 := v))\<rparr>"

definition default_transfer_compliance :: AssetTransferCompliance where
  "default_transfer_compliance = \<lparr>tc_paused = False, tc_requirements = []\<rparr>"

section \<open>Extrinsics\<close>

definition stats_ensure_asset_perms ::
  "'a statistics_store_scheme \<Rightarrow> Origin \<Rightarrow> AssetScope \<Rightarrow> IdentityId result" where
  "stats_ensure_asset_perms s origin asset =
     (case asset of AssetScope.Ticker ticker \<Rightarrow> ea_ensure_perms s origin ticker)"

definition is_asset_stat_active :: "'a statistics_store_scheme \<Rightarrow> AssetScope \<Rightarrow> StatType \<Rightarrow> bool" where
  "is_asset_stat_active s asset st = List.member (ActiveAssetStats s asset) st"

definition base_set_active_asset_stats ::
  "'c statistics_config_scheme \<Rightarrow> Origin \<Rightarrow> AssetScope \<Rightarrow> StatType list
    \<Rightarrow> 'a statistics_store_scheme \<Rightarrow> ('a statistics_store_scheme) result" where
  "base_set_active_asset_stats cfg origin asset types s =
     attempt (stats_ensure_asset_perms s origin asset) (\<lambda>_.
     let stat_types = ranked_set stat_type_rank types in
     ensure (length stat_types \<le> MaxStatsPerAsset cfg) (StatisticsError StatTypeLimitReached) (
     let required_types = map get_stat_type (tc_requirements (AssetTransferCompliances s asset));
         remove_types = filter (\<lambda>st. \<not> List.member stat_types st) (ActiveAssetStats s asset)
     in ensure (list_all (\<lambda>st. \<not> List.member required_types st) remove_types)
          (StatisticsError CannotRemoveStatTypeInUse)
          (let s1 = fold (\<lambda>st s. s\<lparr>AssetStats := (AssetStats s)(
                        \<lparr>stat_asset = asset, stat_type = st\<rparr> := (\<lambda>_. 0))\<rparr>) remove_types s
           in Inr (s1\<lparr>ActiveAssetStats := (ActiveAssetStats s1)(asset := stat_types)\<rparr>))))"

definition base_batch_update_asset_stats ::
  "Origin \<Rightarrow> AssetScope \<Rightarrow> StatType \<Rightarrow> StatUpdate list \<Rightarrow> 'a statistics_store_scheme
    \<Rightarrow> ('a statistics_store_scheme) result" where
  "base_batch_update_asset_stats origin asset st values s =
     attempt (stats_ensure_asset_perms s origin asset) (\<lambda>_.
     ensure (is_asset_stat_active s asset st) (StatisticsError StatTypeMissing) (
     let key1 = \<lparr>stat_asset = asset, stat_type = st\<rparr> in
     Inr (fold (\<lambda>u. put_stat key1 (update_key2 u)
                   (case update_value u of Some v \<Rightarrow> v | None \<Rightarrow> 0))
            (ranked_set stat_update_rank values) s)))"

definition base_set_asset_transfer_compliance ::
  "'c statistics_config_scheme \<Rightarrow> Origin \<Rightarrow> AssetScope \<Rightarrow> TransferCondition list
    \<Rightarrow> 'a statistics_store_scheme \<Rightarrow> ('a statistics_store_scheme) result" where
  "base_set_asset_transfer_compliance cfg origin asset conditions s =
     attempt (stats_ensure_asset_perms s origin asset) (\<lambda>_.
     let conditions = ranked_set condition_rank conditions in
     ensure (length conditions \<le> MaxTransferConditionsPerAsset cfg)
       (StatisticsError TransferConditionLimitReached)
       (if conditions \<noteq> [] then
          attempt (each_res (\<lambda>c. ensure (is_asset_stat_active s asset (get_stat_type c))
                                   (StatisticsError StatTypeMissing) (Inr ())) conditions) (\<lambda>_.
          Inr (s\<lparr>AssetTransferCompliances := (AssetTransferCompliances s)(asset :=
                 (AssetTransferCompliances s asset)\<lparr>tc_requirements := conditions\<rparr>)\<rparr>))
        else Inr (s\<lparr>AssetTransferCompliances := (AssetTransferCompliances s)(asset :=
                 default_transfer_compliance)\<rparr>)))"

definition base_set_entities_exempt ::
  "Origin \<Rightarrow> bool \<Rightarrow> TransferConditionExemptKey \<Rightarrow> IdentityId list \<Rightarrow> 'a statistics_store_scheme
    \<Rightarrow> ('a statistics_store_scheme) result" where
  "base_set_entities_exempt origin is_exempt exempt_key entities s =
     attempt (stats_ensure_asset_perms s origin (exempt_asset exempt_key)) (\<lambda>_.
     Inr (fold (\<lambda>e s. s\<lparr>TransferConditionExemptEntities := (TransferConditionExemptEntities s)(
                  exempt_key := (TransferConditionExemptEntities s exempt_key)(e := is_exempt))\<rparr>)
            (btree entities) s))"

section \<open>Updating the counters\<close>

definition stats_consume_weight ::
  "'c statistics_config_scheme \<Rightarrow> Weight \<Rightarrow> WeightMeter \<Rightarrow> WeightMeter result" where
  "stats_consume_weight cfg w m =
     (case consume_weight_until_limit cfg w m of
        (True, m) \<Rightarrow> Inr m
      | (False, _) \<Rightarrow> Inl (StatisticsError statistics_error.WeightLimitExceeded))"

definition update_asset_balance_stats ::
  "'c statistics_config_scheme \<Rightarrow> Stat1stKey \<Rightarrow> Stat2ndKey \<Rightarrow> Stat2ndKey \<Rightarrow> nat option
    \<Rightarrow> nat option \<Rightarrow> nat \<Rightarrow> WeightMeter \<times> 'a statistics_store_scheme
    \<Rightarrow> (WeightMeter \<times> 'a statistics_store_scheme) result" where
  "update_asset_balance_stats cfg key1 from_key2 to_key2 from_balance to_balance amount ms =
     (case ms of (m, s) \<Rightarrow>
        if from_key2 = to_key2 \<and> from_balance \<noteq> None \<and> to_balance \<noteq> None then
          attempt (stats_consume_weight cfg (w_update_asset_balance_stats cfg 0) m) (\<lambda>m. Inr (m, s))
        else
          attempt (stats_consume_weight cfg (w_update_asset_balance_stats cfg
                     (of_bool (from_balance \<noteq> None) + of_bool (to_balance \<noteq> None))) m) (\<lambda>m.
          let s1 = (if from_balance \<noteq> None
                    then put_stat key1 from_key2 (saturating_sub (AssetStats s key1 from_key2) amount) s
                    else s);
              s2 = (if to_balance \<noteq> None
                    then put_stat key1 to_key2 (saturating_add u128_max (AssetStats s1 key1 to_key2) amount) s1
                    else s1)
          in Inr (m, s2)))"

definition update_asset_count_stats ::
  "'c statistics_config_scheme \<Rightarrow> Stat1stKey \<Rightarrow> Stat2ndKey \<Rightarrow> Stat2ndKey \<Rightarrow> bool \<times> bool
    \<Rightarrow> WeightMeter \<times> 'a statistics_store_scheme
    \<Rightarrow> (WeightMeter \<times> 'a statistics_store_scheme) result" where
  "update_asset_count_stats cfg key1 from_key2 to_key2 changes ms =
     (case (ms, changes) of ((m, s), (from_change, to_change)) \<Rightarrow>
        if from_change \<and> to_change \<and> from_key2 = to_key2 \<or> \<not> from_change \<and> \<not> to_change then
          attempt (stats_consume_weight cfg (w_update_asset_count_stats cfg 0) m) (\<lambda>m. Inr (m, s))
        else
          attempt (stats_consume_weight cfg (w_update_asset_count_stats cfg
                     (of_bool from_change + of_bool to_change)) m) (\<lambda>m.
          let s1 = (if from_change
                    then put_stat key1 from_key2 (saturating_sub (AssetStats s key1 from_key2) 1) s
                    else s);
              s2 = (if to_change
                    then put_stat key1 to_key2 (saturating_add u128_max (AssetStats s1 key1 to_key2) 1) s1
                    else s1)
          in Inr (m, s2)))"

definition fetch_claim_as_key ::
  "'a claims_store_scheme \<Rightarrow> IdentityId option \<Rightarrow> Stat1stKey \<Rightarrow> Stat2ndKey" where
  "fetch_claim_as_key s did key1 =
     (case stat_claim_issuer (stat_type key1) of
        Some (ct, issuer) \<Rightarrow>
          new_from ct (case did of
            Some d \<Rightarrow> map_option claim
                        (fetch_claim s d ct issuer (Some (asset_claim_scope (stat_asset key1))))
          | None \<Rightarrow> None)
      | None \<Rightarrow> NoClaimStat)"

definition has_matching_claim ::
  "'a claims_store_scheme \<Rightarrow> IdentityId \<Rightarrow> Stat1stKey \<Rightarrow> Stat2ndKey \<Rightarrow> bool" where
  "has_matching_claim s did key1 key2 \<longleftrightarrow> fetch_claim_as_key s (Some did) key1 = key2"

definition investor_count_changes :: "nat option \<Rightarrow> nat option \<Rightarrow> nat \<Rightarrow> (bool \<times> bool) option" where
  "investor_count_changes from_balance to_balance amount =
     (case (from_balance = Some 0, to_balance = Some amount) of
        (False, False) \<Rightarrow> None
      | changes \<Rightarrow> Some changes)"

definition update_asset_stat ::
  "'c statistics_config_scheme \<Rightarrow> Ticker \<Rightarrow> IdentityId option \<Rightarrow> IdentityId option \<Rightarrow> nat option
    \<Rightarrow> nat option \<Rightarrow> nat \<Rightarrow> StatType \<Rightarrow> WeightMeter \<times> 'a statistics_store_scheme
    \<Rightarrow> (WeightMeter \<times> 'a statistics_store_scheme) result" where
  "update_asset_stat cfg ticker from_did to_did from_balance to_balance amount st ms =
     (let key1 = \<lparr>stat_asset = AssetScope.Ticker ticker, stat_type = st\<rparr>;
          from_key2 = fetch_claim_as_key (snd ms) from_did key1;
          to_key2 = fetch_claim_as_key (snd ms) to_did key1
      in case stat_op st of
           Count \<Rightarrow>
             (case investor_count_changes from_balance to_balance amount of
                Some changes \<Rightarrow> update_asset_count_stats cfg key1 from_key2 to_key2 changes ms
              | None \<Rightarrow> Inr ms)
         | Balance \<Rightarrow>
             update_asset_balance_stats cfg key1 from_key2 to_key2 from_balance to_balance amount ms)"

definition update_asset_stats ::
  "'c statistics_config_scheme \<Rightarrow> Ticker \<Rightarrow> IdentityId option \<Rightarrow> IdentityId option \<Rightarrow> nat option
    \<Rightarrow> nat option \<Rightarrow> nat \<Rightarrow> WeightMeter \<times> 'a statistics_store_scheme
    \<Rightarrow> (WeightMeter \<times> 'a statistics_store_scheme) result" where
  "update_asset_stats cfg ticker from_did to_did from_balance to_balance amount ms =
     (case ms of (m, s) \<Rightarrow>
        if amount = 0 then Inr (m, s)
        else
          attempt (stats_consume_weight cfg (w_active_asset_statistics_load cfg (MaxStatsPerAsset cfg)) m)
            (\<lambda>m. fold_res (update_asset_stat cfg ticker from_did to_did from_balance to_balance amount)
                   (ActiveAssetStats s (AssetScope.Ticker ticker)) (m, s)))"

section \<open>Checking transfer conditions\<close>

definition verify_asset_count_restriction ::
  "'c statistics_config_scheme \<Rightarrow> 'a statistics_store_scheme \<Rightarrow> Stat1stKey \<Rightarrow> (bool \<times> bool) option
    \<Rightarrow> nat \<Rightarrow> WeightMeter \<Rightarrow> (bool \<times> WeightMeter) result" where
  "verify_asset_count_restriction cfg s key1 changes max_count m =
     (case changes of
        Some (False, True) \<Rightarrow>
          attempt (stats_consume_weight cfg (w_max_investor_count_restriction cfg 1) m) (\<lambda>m.
          Inr (AssetStats s key1 NoClaimStat < max_count, m))
      | _ \<Rightarrow>
          attempt (stats_consume_weight cfg (w_max_investor_count_restriction cfg 0) m) (\<lambda>m.
          Inr (True, m)))"

definition verify_claim_count_restriction ::
  "'c statistics_config_scheme \<Rightarrow> 'a statistics_store_scheme \<Rightarrow> Stat1stKey \<Rightarrow> Stat2ndKey
    \<Rightarrow> IdentityId \<Rightarrow> IdentityId \<Rightarrow> (bool \<times> bool) option \<Rightarrow> nat \<Rightarrow> nat option \<Rightarrow> WeightMeter
    \<Rightarrow> (bool \<times> WeightMeter) result" where
  "verify_claim_count_restriction cfg s key1 key2 from_did to_did changes mn mx m =
     (case changes of
        None \<Rightarrow>
          attempt (stats_consume_weight cfg (w_claim_count_restriction_no_stats cfg 0) m) (\<lambda>m.
          Inr (True, m))
      | Some (from_change, to_change) \<Rightarrow>
          (let from_matches = has_matching_claim s from_did key1 key2;
               to_matches = has_matching_claim s to_did key1 key2
           in if from_change \<and> to_change \<and> from_matches = to_matches \<or> \<not> from_change \<and> \<not> to_change then
                attempt (stats_consume_weight cfg (w_claim_count_restriction_no_stats cfg 1) m) (\<lambda>m.
                Inr (True, m))
              else
                attempt (stats_consume_weight cfg (w_claim_count_restriction_with_stats cfg) m) (\<lambda>m.
                let count = AssetStats s key1 key2 in
                if mn > 0 \<and> from_change \<and> from_matches \<and> count \<le> mn then Inr (False, m)
                else if to_change \<and> to_matches \<and> (case mx of Some x \<Rightarrow> count \<ge> x | None \<Rightarrow> False)
                then Inr (False, m)
                else Inr (True, m))))"

definition verify_ownership_restriction ::
  "'c statistics_config_scheme \<Rightarrow> nat \<Rightarrow> nat \<Rightarrow> nat \<Rightarrow> Percentage \<Rightarrow> WeightMeter
    \<Rightarrow> (bool \<times> WeightMeter) result" where
  "verify_ownership_restriction cfg v receiver_balance supply max_percentage m =
     attempt (stats_consume_weight cfg (w_max_investor_ownership_restriction cfg) m) (\<lambda>m.
     Inr (permill_from_rational cfg (wrapping_add u128_max receiver_balance v) supply \<le> max_percentage, m))"

definition verify_claim_ownership_restriction ::
  "'c statistics_config_scheme \<Rightarrow> 'a statistics_store_scheme \<Rightarrow> Stat1stKey \<Rightarrow> Stat2ndKey
    \<Rightarrow> IdentityId \<Rightarrow> IdentityId \<Rightarrow> nat \<Rightarrow> nat \<Rightarrow> Percentage \<Rightarrow> Percentage \<Rightarrow> WeightMeter
    \<Rightarrow> (bool \<times> WeightMeter) result" where
  "verify_claim_ownership_restriction cfg s key1 key2 from_did to_did v supply mn mx m =
     (case (has_matching_claim s from_did key1 key2, has_matching_claim s to_did key1 key2) of
        (False, True) \<Rightarrow>
          attempt (stats_consume_weight cfg (w_claim_ownership_restriction cfg 1) m) (\<lambda>m.
          Inr (permill_from_rational cfg (saturating_add u128_max (AssetStats s key1 key2) v) supply \<le> mx, m))
      | (True, False) \<Rightarrow>
          attempt (stats_consume_weight cfg (w_claim_ownership_restriction cfg 1) m) (\<lambda>m.
          Inr (permill_from_rational cfg (saturating_sub (AssetStats s key1 key2) v) supply \<ge> mn, m))
      | _ \<Rightarrow>
          attempt (stats_consume_weight cfg (w_claim_ownership_restriction cfg 0) m) (\<lambda>m.
          Inr (True, m)))"

definition is_exempt ::
  "'a statistics_store_scheme \<Rightarrow> AssetScope \<Rightarrow> TransferCondition \<Rightarrow> IdentityId \<Rightarrow> IdentityId \<Rightarrow> bool" where
  "is_exempt s asset c sender_did receiver_did =
     (let key = get_exempt_key c asset in
      case exempt_op key of
        Count \<Rightarrow> TransferConditionExemptEntities s key sender_did
      | Balance \<Rightarrow> TransferConditionExemptEntities s key receiver_did)"

definition check_transfer_condition ::
  "'c statistics_config_scheme \<Rightarrow> 'a statistics_store_scheme \<Rightarrow> TransferCondition \<Rightarrow> AssetScope
    \<Rightarrow> IdentityId \<Rightarrow> IdentityId \<Rightarrow> nat \<Rightarrow> nat \<Rightarrow> nat \<Rightarrow> (bool \<times> bool) option \<Rightarrow> WeightMeter
    \<Rightarrow> (bool \<times> WeightMeter) result" where
  "check_transfer_condition cfg s c asset from_did to_did to_balance amount supply changes m =
     (let key1 = \<lparr>stat_asset = asset, stat_type = get_stat_type c\<rparr> in
      attempt (case c of
          MaxInvestorCount max_count \<Rightarrow> verify_asset_count_restriction cfg s key1 changes max_count m
        | MaxInvestorOwnership p \<Rightarrow> verify_ownership_restriction cfg amount to_balance supply p m
        | ClaimCount cl _ mn mx \<Rightarrow>
            verify_claim_count_restriction cfg s key1 (Claim cl) from_did to_did changes mn mx m
        | ClaimOwnership cl _ mn mx \<Rightarrow>
            verify_claim_ownership_restriction cfg s key1 (Claim cl) from_did to_did amount supply mn mx m)
        (\<lambda>(passed, m).
          if passed then Inr (True, m)
          else attempt (stats_consume_weight cfg (w_is_exempt cfg) m) (\<lambda>m.
               Inr (is_exempt s asset c from_did to_did, m))))"

definition verify_requirements ::
  "'c statistics_config_scheme \<Rightarrow> 'a statistics_store_scheme \<Rightarrow> TransferCondition list \<Rightarrow> AssetScope
    \<Rightarrow> IdentityId \<Rightarrow> IdentityId \<Rightarrow> nat \<Rightarrow> nat \<Rightarrow> nat \<Rightarrow> nat \<Rightarrow> WeightMeter \<Rightarrow> WeightMeter result" where
  "verify_requirements cfg s conditions asset sender_did receiver_did sender_balance
       receiver_balance amount supply m =
     (let changes = investor_count_changes (Some (saturating_sub sender_balance amount))
                      (Some (saturating_add u128_max receiver_balance amount)) amount
      in fold_res (\<lambda>c m.
           attempt (check_transfer_condition cfg s c asset sender_did receiver_did receiver_balance
                      amount supply changes m) (\<lambda>(holds, m).
           if \<not> holds then Inl (StatisticsError statistics_error.InvalidTransfer) else Inr m))
           conditions m)"

definition verify_transfer_restrictions ::
  "'c statistics_config_scheme \<Rightarrow> 'a statistics_store_scheme \<Rightarrow> Ticker \<Rightarrow> IdentityId \<Rightarrow> IdentityId
    \<Rightarrow> nat \<Rightarrow> nat \<Rightarrow> nat \<Rightarrow> nat \<Rightarrow> WeightMeter \<Rightarrow> WeightMeter result" where
  "verify_transfer_restrictions cfg s ticker sender_did receiver_did sender_balance
       receiver_balance amount supply m =
     (let asset = AssetScope.Ticker ticker; reqs = AssetTransferCompliances s asset in
      if tc_paused reqs then Inr m
      else verify_requirements cfg s (tc_requirements reqs) asset sender_did receiver_did
             sender_balance receiver_balance amount supply m)"

record TransferConditionResult =
  transfer_condition :: TransferCondition
  transfer_condition_result :: bool

fun transfer_condition_results ::
  "'c statistics_config_scheme \<Rightarrow> 'a statistics_store_scheme \<Rightarrow> AssetScope \<Rightarrow> IdentityId \<Rightarrow> IdentityId
    \<Rightarrow> nat \<Rightarrow> nat \<Rightarrow> nat \<Rightarrow> (bool \<times> bool) option \<Rightarrow> TransferCondition list \<Rightarrow> WeightMeter
    \<Rightarrow> (TransferConditionResult list \<times> WeightMeter) result" where
  "transfer_condition_results cfg s asset from_did to_did to_balance amount supply changes [] m = Inr ([], m)"
| "transfer_condition_results cfg s asset from_did to_did to_balance amount supply changes (c # cs) m =
     attempt (check_transfer_condition cfg s c asset from_did to_did to_balance amount supply changes m)
       (\<lambda>(condition_holds, m).
     attempt (transfer_condition_results cfg s asset from_did to_did to_balance amount supply changes cs m)
       (\<lambda>(rs, m).
     Inr (\<lparr>transfer_condition = c, transfer_condition_result = condition_holds\<rparr> # rs, m)))"

definition get_transfer_restrictions_results ::
  "'c statistics_config_scheme \<Rightarrow> 'a statistics_store_scheme \<Rightarrow> Ticker \<Rightarrow> IdentityId \<Rightarrow> IdentityId
    \<Rightarrow> nat \<Rightarrow> nat \<Rightarrow> nat \<Rightarrow> nat \<Rightarrow> WeightMeter \<Rightarrow> (TransferConditionResult list \<times> WeightMeter) result" where
  "get_transfer_restrictions_results cfg s ticker from_did to_did from_balance to_balance amount supply m =
     (let asset = AssetScope.Ticker ticker; tm = AssetTransferCompliances s asset;
          count_changes = investor_count_changes (Some (saturating_sub from_balance amount))
            (Some (saturating_add u128_max to_balance amount)) amount
      in transfer_condition_results cfg s asset from_did to_did to_balance amount supply count_changes
           (tc_requirements tm) m)"

definition investor_count :: "'a statistics_store_scheme \<Rightarrow> Ticker \<Rightarrow> nat" where
  "investor_count s ticker =
     AssetStats s \<lparr>stat_asset = AssetScope.Ticker ticker,
                   stat_type = \<lparr>stat_op = Count, stat_claim_issuer = None\<rparr>\<rparr> NoClaimStat"

end
