(* ===== verification/Statistics_Theorems.thy ===== *)
theory Statistics_Theorems
  imports Statistics
begin

text \<open>
  What the statistics pallet promises: its counters stay equal to the number of investors and to the
  sum of balances they stand for, and a transfer that passes the transfer conditions of a ticker
  keeps the limits they state.
\<close>

section \<open>What a counter stands for\<close>

definition stat_value ::
  "StatOpType \<Rightarrow> (IdentityId \<Rightarrow> Stat2ndKey) \<Rightarrow> (IdentityId \<Rightarrow> Balance) \<Rightarrow> Stat2ndKey \<Rightarrow> nat" where
  "stat_value op key B k =
     (case op of
        Count \<Rightarrow> supp_card (\<lambda>d. if key d = k then B d else 0)
      | Balance \<Rightarrow> sum_supp B {d. key d = k})"

definition claim_key :: "'a claims_store_scheme \<Rightarrow> Ticker \<Rightarrow> StatType \<Rightarrow> IdentityId \<Rightarrow> Stat2ndKey" where
  "claim_key s t st d =
     fetch_claim_as_key s (Some d) \<lparr>stat_asset = AssetScope.Ticker t, stat_type = st\<rparr>"

definition stats_exact :: "'a statistics_store_scheme \<Rightarrow> Ticker \<Rightarrow> (IdentityId \<Rightarrow> Balance) \<Rightarrow> bool" where
  "stats_exact s t B \<longleftrightarrow> distinct (ActiveAssetStats s (AssetScope.Ticker t)) \<and>
     (\<forall>st \<in> set (ActiveAssetStats s (AssetScope.Ticker t)). \<forall>k.
        AssetStats s \<lparr>stat_asset = AssetScope.Ticker t, stat_type = st\<rparr> k =
          stat_value (stat_op st) (claim_key s t st) B k)"

lemma stat_value_other: "key d \<noteq> k \<Longrightarrow> stat_value op key (B(d := v)) k = stat_value op key B k"
proof -
  assume k: "key d \<noteq> k"
  then have "(\<lambda>x. if key x = k then (B(d := v)) x else 0) = (\<lambda>x. if key x = k then B x else 0)" by auto
  then show ?thesis using k by (cases op) (simp_all add: stat_value_def sum_supp_upd_notin)
qed

lemma stat_value_count:
  assumes "fin_supp B" "key d = k"
  shows "stat_value Count key (B(d := v)) k =
    (if B d = 0 \<and> v \<noteq> 0 then stat_value Count key B k + 1
     else if B d \<noteq> 0 \<and> v = 0 then stat_value Count key B k - 1 else stat_value Count key B k)"
proof -
  let ?f = "\<lambda>x. if key x = k then B x else 0"
  have "fin_supp ?f"
    using assms(1) unfolding fin_supp_def by (rule finite_subset [rotated]) auto
  moreover have "(\<lambda>x. if key x = k then (B(d := v)) x else 0) = ?f(d := v)" using assms(2) by auto
  ultimately show ?thesis
    using supp_card_upd [of ?f d v] assms(2) by (simp add: stat_value_def)
qed

lemma stat_value_balance:
  assumes "fin_supp B" "key d = k"
  shows "stat_value Balance key (B(d := v)) k + B d = stat_value Balance key B k + v"
  using sum_supp_upd_in [OF assms(1), of d "{x. key x = k}" v] assms(2) by (simp add: stat_value_def)

lemma stat_value_member:
  assumes "fin_supp B"
  shows "B d \<noteq> 0 \<Longrightarrow> stat_value Count key B (key d) \<noteq> 0"
    and "B d \<le> stat_value Balance key B (key d)"
proof -
  show "B d \<le> stat_value Balance key B (key d)"
    using sum_supp_member_le [OF assms, of d "{x. key x = key d}"] by (simp add: stat_value_def)
  assume "B d \<noteq> 0"
  moreover have "finite {x. (if key x = key d then B x else 0) \<noteq> 0}"
    using assms unfolding fin_supp_def by (rule finite_subset [rotated]) auto
  ultimately show "stat_value Count key B (key d) \<noteq> 0"
    by (auto simp: stat_value_def supp_card_def)
qed

lemma stat_value_le_total:
  assumes "fin_supp B"
  shows "stat_value op key B k \<le> sum_supp B UNIV"
proof (cases op)
  case Count
  let ?A = "{x. (if key x = k then B x else 0) \<noteq> 0}"
  have "card ?A = sum (\<lambda>_. 1) ?A" by simp
  also have "\<dots> \<le> sum B ?A" by (rule sum_mono) (auto split: if_splits)
  also have "\<dots> \<le> sum B {x. B x \<noteq> 0}"
    using assms by (intro sum_mono2) (auto simp: fin_supp_def split: if_splits)
  finally show ?thesis by (simp add: Count stat_value_def supp_card_def sum_supp_def)
next
  case Balance
  have "sum B {x \<in> {d. key d = k}. B x \<noteq> 0} \<le> sum B {x. B x \<noteq> 0}"
    using assms by (intro sum_mono2) (auto simp: fin_supp_def)
  then show ?thesis by (simp add: Balance stat_value_def sum_supp_def)
qed

section \<open>One counter through one transfer\<close>

text \<open>The balances after a transfer, a mint (no sender) or a burn (no receiver).\<close>

definition balances_after ::
  "IdentityId option \<Rightarrow> IdentityId option \<Rightarrow> nat \<Rightarrow> (IdentityId \<Rightarrow> Balance) \<Rightarrow> IdentityId \<Rightarrow> Balance" where
  "balances_after from to amount B =
     (let B1 = (case from of Some f \<Rightarrow> B(f := B f - amount) | None \<Rightarrow> B)
      in case to of Some r \<Rightarrow> B1(r := B1 r + amount) | None \<Rightarrow> B1)"

definition stat_step ::
  "StatOpType \<Rightarrow> Stat2ndKey \<Rightarrow> Stat2ndKey \<Rightarrow> nat option \<Rightarrow> nat option \<Rightarrow> nat
    \<Rightarrow> (Stat2ndKey \<Rightarrow> nat) \<Rightarrow> Stat2ndKey \<Rightarrow> nat" where
  "stat_step op fk tk fb tb amount g =
     (case op of
        Count \<Rightarrow>
          if fb = Some 0 \<and> tb = Some amount \<and> fk = tk then g
          else let g1 = (if fb = Some 0 then g(fk := g fk - 1) else g)
               in if tb = Some amount then g1(tk := saturating_add u128_max (g1 tk) 1) else g1
      | Balance \<Rightarrow>
          if fk = tk \<and> fb \<noteq> None \<and> tb \<noteq> None then g
          else let g1 = (if fb \<noteq> None then g(fk := g fk - amount) else g)
               in if tb \<noteq> None then g1(tk := saturating_add u128_max (g1 tk) amount) else g1)"

lemma investor_count_changes_eq:
  "investor_count_changes fb tb amount =
     (if fb = Some 0 \<or> tb = Some amount then Some (fb = Some 0, tb = Some amount) else None)"
  by (cases "fb = Some 0"; cases "tb = Some amount") (simp_all add: investor_count_changes_def)

lemma update_asset_stat_Inr:
  assumes "update_asset_stat cfg t fd td fb tb amount st (m, s) = Inr (m', s')"
  defines "key1 \<equiv> \<lparr>stat_asset = AssetScope.Ticker t, stat_type = st\<rparr>"
  shows "s' = s\<lparr>AssetStats := (AssetStats s)(key1 := stat_step (stat_op st)
    (fetch_claim_as_key s fd key1) (fetch_claim_as_key s td key1) fb tb amount (AssetStats s key1))\<rparr>"
proof (cases "stat_op st")
  case Count
  then show ?thesis
    using assms(1) unfolding key1_def
    by (cases "fb = Some 0"; cases "tb = Some amount")
      (auto simp: update_asset_stat_def Let_def investor_count_changes_eq update_asset_count_stats_def
        attempt_Inr_iff stat_step_def put_stat_def split: if_splits)
next
  case Balance
  then show ?thesis
    using assms(1) unfolding key1_def
    by (cases fb; cases tb)
      (auto simp: update_asset_stat_def Let_def update_asset_balance_stats_def
        attempt_Inr_iff stat_step_def put_stat_def split: if_splits)
qed

lemma stat_value_sender:
  assumes "fin_supp B" "0 < amount" "amount \<le> B f"
  shows "stat_value Count key (B(f := B f - amount)) k =
      stat_value Count key B k - (if key f = k \<and> B f = amount then 1 else 0)"
    and "stat_value Balance key (B(f := B f - amount)) k =
      stat_value Balance key B k - (if key f = k then amount else 0)"
proof -
  show "stat_value Count key (B(f := B f - amount)) k =
      stat_value Count key B k - (if key f = k \<and> B f = amount then 1 else 0)"
    using assms stat_value_count [OF assms(1), of key f k] stat_value_other [of key f k]
    by (cases "key f = k") auto
  show "stat_value Balance key (B(f := B f - amount)) k =
      stat_value Balance key B k - (if key f = k then amount else 0)"
    using assms stat_value_balance [OF assms(1), of key f k "B f - amount"] stat_value_other [of key f k]
    by (cases "key f = k") auto
qed

lemma stat_value_receiver:
  assumes "fin_supp B" "0 < amount"
  shows "stat_value Count key (B(r := B r + amount)) k =
      stat_value Count key B k + (if key r = k \<and> B r = 0 then 1 else 0)"
    and "stat_value Balance key (B(r := B r + amount)) k =
      stat_value Balance key B k + (if key r = k then amount else 0)"
  using assms stat_value_count [OF assms(1), of key r k] stat_value_other [of key r k]
    stat_value_balance [OF assms(1), of key r k "B r + amount"]
  by (cases "key r = k"; simp)+

lemma stat_value_after:
  assumes fin: "fin_supp B" and pos: "0 < amount"
    and enough: "\<And>f. from = Some f \<Longrightarrow> amount \<le> B f" and diff: "from \<noteq> to \<or> from = None"
  defines "B' \<equiv> balances_after from to amount B"
  shows "stat_value Count key B' k =
      stat_value Count key B k
        - (case from of Some f \<Rightarrow> if key f = k \<and> B' f = 0 then 1 else 0 | None \<Rightarrow> 0)
        + (case to of Some r \<Rightarrow> if key r = k \<and> B' r = amount then 1 else 0 | None \<Rightarrow> 0)"
    and "stat_value Balance key B' k =
      stat_value Balance key B k
        - (case from of Some f \<Rightarrow> if key f = k then amount else 0 | None \<Rightarrow> 0)
        + (case to of Some r \<Rightarrow> if key r = k then amount else 0 | None \<Rightarrow> 0)"
proof -
  define B1 where "B1 = (case from of Some f \<Rightarrow> B(f := B f - amount) | None \<Rightarrow> B)"
  have fin1: "fin_supp B1" using fin by (cases "from") (simp_all add: B1_def)
  have B': "B' = (case to of Some r \<Rightarrow> B1(r := B1 r + amount) | None \<Rightarrow> B1)"
    unfolding B'_def B1_def balances_after_def Let_def ..
  have f: "B' f = 0 \<longleftrightarrow> B f = amount" if "from = Some f" for f
    using that enough [OF that] diff by (cases to) (auto simp: B' B1_def)
  have r: "B' r = amount \<longleftrightarrow> B1 r = 0" if "to = Some r" for r using that by (simp add: B')
  have c1: "stat_value Count key B1 k = stat_value Count key B k
      - (case from of Some f \<Rightarrow> if key f = k \<and> B' f = 0 then 1 else 0 | None \<Rightarrow> 0)"
    using stat_value_sender(1) [OF fin pos enough, of _ key k] f by (cases "from") (simp_all add: B1_def)
  have b1: "stat_value Balance key B1 k = stat_value Balance key B k
      - (case from of Some f \<Rightarrow> if key f = k then amount else 0 | None \<Rightarrow> 0)"
    using stat_value_sender(2) [OF fin pos enough, of _ key k] by (cases "from") (simp_all add: B1_def)
  show "stat_value Count key B' k = stat_value Count key B k
        - (case from of Some f \<Rightarrow> if key f = k \<and> B' f = 0 then 1 else 0 | None \<Rightarrow> 0)
        + (case to of Some r \<Rightarrow> if key r = k \<and> B' r = amount then 1 else 0 | None \<Rightarrow> 0)"
    using stat_value_receiver(1) [OF fin1 pos, of key _ k] c1 r by (cases to) (simp_all add: B')
  show "stat_value Balance key B' k = stat_value Balance key B k
        - (case from of Some f \<Rightarrow> if key f = k then amount else 0 | None \<Rightarrow> 0)
        + (case to of Some r \<Rightarrow> if key r = k then amount else 0 | None \<Rightarrow> 0)"
    using stat_value_receiver(2) [OF fin1 pos, of key _ k] b1 by (cases to) (simp_all add: B')
qed

text \<open>A counter that is exact before a change is exact after it.\<close>

lemma stat_step_exact:
  assumes fin: "fin_supp B" and pos: "0 < amount"
    and enough: "\<And>f. from = Some f \<Longrightarrow> amount \<le> B f" and diff: "from \<noteq> to \<or> from = None"
    and bound: "sum_supp (balances_after from to amount B) UNIV \<le> u128_max"
    and g: "\<And>k. g k = stat_value op key B k"
    and fk: "\<And>f. from = Some f \<Longrightarrow> fk = key f" and tk: "\<And>r. to = Some r \<Longrightarrow> tk = key r"
  defines "B' \<equiv> balances_after from to amount B"
  shows "stat_step op fk tk (map_option B' from) (map_option B' to) amount g k = stat_value op key B' k"
proof -
  have fin': "fin_supp B'" using fin by (cases "from"; cases to) (simp_all add: B'_def balances_after_def)
  note after = stat_value_after [OF fin pos enough diff, folded B'_def]
  have le: "stat_value op key B' j \<le> u128_max" for j
    using stat_value_le_total [OF fin', of op key j] bound by (simp add: B'_def)
  have mem: "1 \<le> g (key f)" "op = Balance \<Longrightarrow> amount \<le> g (key f)" if "from = Some f" for f
    using stat_value_member [OF fin, of f key] enough [OF that] pos
    by (cases op; auto simp: g)+
  show ?thesis
  proof (cases op)
    case Count
    show ?thesis
      using after(1) [of key k] after(1) [of key tk] le [of tk] mem(1) fk tk pos
      by (cases "from"; cases to)
        (auto simp: stat_step_def Count g [unfolded Count] saturating_add_def Let_def)
  next
    case Balance
    show ?thesis
      using after(2) [of key k] after(2) [of key tk] le [of tk] mem(2) [OF _ Balance] fk tk pos
      by (cases "from"; cases to)
        (auto simp: stat_step_def Balance g [unfolded Balance] saturating_add_def Let_def)
  qed
qed

lemma fetch_claim_as_key_cong:
  assumes "Claims s' = Claims s" "timestamp s' = timestamp s"
  shows "fetch_claim_as_key s' = fetch_claim_as_key s"
proof -
  have f: "fetch_claim s' = fetch_claim s"
    unfolding fetch_claim_def fetch_base_claim_with_issuer_def assms ..
  show ?thesis unfolding fetch_claim_as_key_def f ..
qed

lemma update_asset_stat_frame:
  "update_asset_stat cfg t fd td fb tb amount st (m, s) = Inr (m', s') \<Longrightarrow>
    ActiveAssetStats s' = ActiveAssetStats s \<and> fetch_claim_as_key s' = fetch_claim_as_key s \<and>
    (\<forall>key1. stat_type key1 \<noteq> st \<longrightarrow> AssetStats s' key1 = AssetStats s key1)"
  by (drule update_asset_stat_Inr) (auto intro: fetch_claim_as_key_cong)

lemma update_asset_stat_loop:
  assumes "fold_res (update_asset_stat cfg t fd td fb tb amount) sts (m, s) = Inr (m', s')" "distinct sts"
  shows "ActiveAssetStats s' = ActiveAssetStats s \<and> fetch_claim_as_key s' = fetch_claim_as_key s \<and>
    (\<forall>st. let key1 = \<lparr>stat_asset = AssetScope.Ticker t, stat_type = st\<rparr> in
       AssetStats s' key1 = (if st \<in> set sts then stat_step (stat_op st)
         (fetch_claim_as_key s fd key1) (fetch_claim_as_key s td key1) fb tb amount (AssetStats s key1)
         else AssetStats s key1))"
  using assms
proof (induction sts arbitrary: m s)
  case (Cons st sts)
  obtain m1 s1 where st: "update_asset_stat cfg t fd td fb tb amount st (m, s) = Inr (m1, s1)"
    and rest: "fold_res (update_asset_stat cfg t fd td fb tb amount) sts (m1, s1) = Inr (m', s')"
    using Cons.prems(1) by (auto simp: attempt_Inr_iff)
  note fr = update_asset_stat_frame [OF st]
  have own: "AssetStats s1 \<lparr>stat_asset = AssetScope.Ticker t, stat_type = st\<rparr> =
      stat_step (stat_op st) (fetch_claim_as_key s fd \<lparr>stat_asset = AssetScope.Ticker t, stat_type = st\<rparr>)
        (fetch_claim_as_key s td \<lparr>stat_asset = AssetScope.Ticker t, stat_type = st\<rparr>) fb tb amount
        (AssetStats s \<lparr>stat_asset = AssetScope.Ticker t, stat_type = st\<rparr>)"
    using update_asset_stat_Inr [OF st] by simp
  have "distinct sts" using Cons.prems(2) by simp
  note IH = Cons.IH [OF rest this]
  show ?case
  proof (intro conjI allI)
    show "ActiveAssetStats s' = ActiveAssetStats s" "fetch_claim_as_key s' = fetch_claim_as_key s"
      using IH fr by simp_all
    fix st'
    show "let key1 = \<lparr>stat_asset = AssetScope.Ticker t, stat_type = st'\<rparr> in
       AssetStats s' key1 = (if st' \<in> set (st # sts) then stat_step (stat_op st')
         (fetch_claim_as_key s fd key1) (fetch_claim_as_key s td key1) fb tb amount (AssetStats s key1)
         else AssetStats s key1)"
      using IH fr own Cons.prems(2) by (cases "st' = st") (simp_all add: Let_def)
  qed
qed (simp add: Let_def)

lemma update_asset_stats_exact:
  assumes up: "update_asset_stats cfg t from to (map_option B' from) (map_option B' to) amount (m, s) = Inr (m', s')"
    and ex: "stats_exact s t B" and fin: "fin_supp B"
    and enough: "\<And>f. from = Some f \<Longrightarrow> amount \<le> B f" and diff: "from \<noteq> to \<or> from = None"
    and B': "B' = balances_after from to amount B" and bound: "sum_supp B' UNIV \<le> u128_max"
  shows "stats_exact s' t B'"
proof (cases "amount = 0")
  case True
  have "B(f := B f) = B" for f by simp
  then have "B' = B" using True by (cases "from"; cases to) (simp_all add: B' balances_after_def)
  then show ?thesis using up ex True by (simp add: update_asset_stats_def)
next
  case False
  let ?act = "ActiveAssetStats s (AssetScope.Ticker t)"
  obtain m1 where "fold_res (update_asset_stat cfg t from to (map_option B' from) (map_option B' to) amount)
      ?act (m1, s) = Inr (m', s')"
    using up False by (auto simp: update_asset_stats_def attempt_Inr_iff)
  note loop = update_asset_stat_loop [OF this]
  have d: "distinct ?act" using ex by (simp add: stats_exact_def)
  have key: "claim_key s' t = claim_key s t" using loop d by (simp add: claim_key_def fun_eq_iff)
  have "AssetStats s' \<lparr>stat_asset = AssetScope.Ticker t, stat_type = st\<rparr> k =
      stat_value (stat_op st) (claim_key s t st) B' k" if st: "st \<in> set ?act" for st k
  proof -
    let ?key1 = "\<lparr>stat_asset = AssetScope.Ticker t, stat_type = st\<rparr>"
    have "AssetStats s' ?key1 k = stat_step (stat_op st) (fetch_claim_as_key s from ?key1)
        (fetch_claim_as_key s to ?key1) (map_option B' from) (map_option B' to) amount (AssetStats s ?key1) k"
      using loop [OF d] st by (simp add: Let_def)
    also have "\<dots> = stat_value (stat_op st) (claim_key s t st) B' k"
      unfolding B'
      by (rule stat_step_exact [OF fin _ enough diff])
        (use False ex st bound in \<open>simp_all add: stats_exact_def claim_key_def B'\<close>)
    finally show ?thesis .
  qed
  then show ?thesis using loop [OF d] d by (simp add: stats_exact_def key)
qed

section \<open>Transfer conditions\<close>

text \<open>What a transfer condition asks of the counters before and after a transfer.\<close>

definition condition_respected ::
  "'c statistics_config_scheme \<Rightarrow> TransferCondition \<Rightarrow> (IdentityId \<Rightarrow> Stat2ndKey) \<Rightarrow> (IdentityId \<Rightarrow> Balance)
    \<Rightarrow> (IdentityId \<Rightarrow> Balance) \<Rightarrow> IdentityId \<Rightarrow> Balance \<Rightarrow> bool" where
  "condition_respected cfg c key B B' receiver supply =
     (case c of
        MaxInvestorCount n \<Rightarrow>
          stat_value Count key B NoClaimStat < stat_value Count key B' NoClaimStat \<longrightarrow>
          stat_value Count key B' NoClaimStat \<le> n
      | MaxInvestorOwnership p \<Rightarrow> permill_from_rational cfg (B' receiver) supply \<le> p
      | ClaimCount cl _ mn mx \<Rightarrow>
          (stat_value Count key B' (Claim cl) < stat_value Count key B (Claim cl) \<longrightarrow>
             mn \<le> stat_value Count key B' (Claim cl)) \<and>
          (stat_value Count key B (Claim cl) < stat_value Count key B' (Claim cl) \<longrightarrow>
             (case mx of Some x \<Rightarrow> stat_value Count key B' (Claim cl) \<le> x | None \<Rightarrow> True))
      | ClaimOwnership cl _ mn mx \<Rightarrow>
          (stat_value Balance key B' (Claim cl) < stat_value Balance key B (Claim cl) \<longrightarrow>
             mn \<le> permill_from_rational cfg (stat_value Balance key B' (Claim cl)) supply) \<and>
          (stat_value Balance key B (Claim cl) < stat_value Balance key B' (Claim cl) \<longrightarrow>
             permill_from_rational cfg (stat_value Balance key B' (Claim cl)) supply \<le> mx))"

lemma verify_requirements_all:
  assumes "verify_requirements cfg s cs asset f r fb rb amount supply m = Inr m'" "c \<in> set cs"
  shows "\<exists>m1 m2. check_transfer_condition cfg s c asset f r rb amount supply
    (investor_count_changes (Some (fb - amount)) (Some (saturating_add u128_max rb amount)) amount) m1 = Inr (True, m2)"
  using assms unfolding verify_requirements_def Let_def saturating_sub_eq
  by (induction cs arbitrary: m) (auto simp: attempt_Inr_iff split: if_splits)

lemma stat_value_transfer:
  assumes "fin_supp B" "0 < amount" "amount \<le> B f" "f \<noteq> r"
  defines "B' \<equiv> balances_after (Some f) (Some r) amount B"
  shows "stat_value Count key B' k = stat_value Count key B k
      - (if key f = k \<and> B' f = 0 then 1 else 0) + (if key r = k \<and> B' r = amount then 1 else 0)"
    and "stat_value Balance key B' k = stat_value Balance key B k
      - (if key f = k then amount else 0) + (if key r = k then amount else 0)"
  using stat_value_after [of B amount "Some f" "Some r" key k] assms by auto

lemma asset_count_passed:
  assumes "verify_asset_count_restriction cfg s key1
      (investor_count_changes (Some fb) (Some rb) amount) n m = Inr (True, m')"
    and "rb = amount" "fb \<noteq> 0"
  shows "AssetStats s key1 NoClaimStat < n"
  using assms by (auto simp: verify_asset_count_restriction_def investor_count_changes_eq attempt_Inr_iff)

lemma claim_count_passed:
  assumes "verify_claim_count_restriction cfg s key1 k f r
      (investor_count_changes (Some fb) (Some rb) amount) mn mx m = Inr (True, m')"
  defines "fm \<equiv> has_matching_claim s f key1 k" and "rm \<equiv> has_matching_claim s r key1 k"
  shows "fb = 0 \<and> fm \<and> \<not> (rb = amount \<and> rm) \<Longrightarrow> mn = 0 \<or> mn < AssetStats s key1 k"
    and "rb = amount \<and> rm \<and> \<not> (fb = 0 \<and> fm) \<Longrightarrow> mx = Some x \<Longrightarrow> AssetStats s key1 k < x"
  using assms
  by (auto simp: verify_claim_count_restriction_def investor_count_changes_eq Let_def attempt_Inr_iff
      split: if_splits)

lemma claim_ownership_passed:
  assumes "verify_claim_ownership_restriction cfg s key1 k f r v supply mn mx m = Inr (True, m')"
  defines "fm \<equiv> has_matching_claim s f key1 k" and "rm \<equiv> has_matching_claim s r key1 k"
  shows "fm \<and> \<not> rm \<Longrightarrow> mn \<le> permill_from_rational cfg (AssetStats s key1 k - v) supply"
    and "rm \<and> \<not> fm \<Longrightarrow>
      permill_from_rational cfg (saturating_add u128_max (AssetStats s key1 k) v) supply \<le> mx"
  using assms by (auto simp: verify_claim_ownership_restriction_def attempt_Inr_iff split: bool.splits)

lemma ownership_passed:
  assumes "verify_ownership_restriction cfg v rb supply p m = Inr (True, m')" "rb + v \<le> u128_max"
  shows "permill_from_rational cfg (rb + v) supply \<le> p"
  using assms by (auto simp: verify_ownership_restriction_def attempt_Inr_iff wrapping_add_exact)

text \<open>The checks pass only for transfers that keep the condition or have an exempt party.\<close>

lemma check_transfer_condition_sound:
  fixes B amount f r
  defines "B' \<equiv> balances_after (Some f) (Some r) amount B"
  assumes chk: "check_transfer_condition cfg s c (AssetScope.Ticker t) f r (B r) amount supply
      (investor_count_changes (Some (B f - amount)) (Some (saturating_add u128_max (B r) amount)) amount) m1 =
      Inr (True, m2)"
    and ex: "\<And>k. AssetStats s \<lparr>stat_asset = AssetScope.Ticker t, stat_type = get_stat_type c\<rparr> k =
      stat_value (stat_op (get_stat_type c)) (claim_key s t (get_stat_type c)) B k"
    and notex: "\<not> is_exempt s (AssetScope.Ticker t) c f r"
    and fin: "fin_supp B" and amt: "0 < amount" "amount \<le> B f" and ne: "f \<noteq> r"
    and bound: "sum_supp B' UNIV \<le> u128_max"
  shows "condition_respected cfg c (claim_key s t (get_stat_type c)) B B' r supply"
proof -
  let ?key = "claim_key s t (get_stat_type c)"
  let ?key1 = "\<lparr>stat_asset = AssetScope.Ticker t, stat_type = get_stat_type c\<rparr>"
  have eq: "B' r = B r + amount" "B' f = B f - amount" using ne by (simp_all add: B'_def balances_after_def)
  have fin': "fin_supp B'" using fin by (simp add: B'_def balances_after_def)
  have rb: "B r + amount \<le> u128_max"
    using sum_supp_member_le [OF fin', of r UNIV] bound eq by simp
  note after = stat_value_transfer [OF fin amt ne, of ?key, folded B'_def]
  have le: "stat_value Balance ?key B' k \<le> u128_max" for k
    using stat_value_le_total [OF fin', of Balance ?key k] bound by simp
  have match: "has_matching_claim s d ?key1 k = (?key d = k)" for d k
    by (simp add: has_matching_claim_def claim_key_def)
  note chk' = chk [unfolded check_transfer_condition_def Let_def saturating_add_exact [OF rb], folded eq]
  show ?thesis
  proof (cases c)
    case (MaxInvestorCount n)
    have "?key d = NoClaimStat" for d
      by (simp add: claim_key_def fetch_claim_as_key_def MaxInvestorCount get_stat_type_def)
    moreover obtain m3 where "verify_asset_count_restriction cfg s ?key1
        (investor_count_changes (Some (B' f)) (Some (B' r)) amount) n m1 = Inr (True, m3)"
      using chk' notex MaxInvestorCount by (auto simp: attempt_Inr_iff split: if_splits)
    note asset_count_passed [OF this]
    ultimately show ?thesis
      using after(1) [of NoClaimStat] ex [of NoClaimStat] stat_value_member(1) [OF fin, of f ?key] amt
      by (auto simp: condition_respected_def MaxInvestorCount get_stat_type_def split: if_splits)
  next
    case (MaxInvestorOwnership p)
    then obtain m3 where "verify_ownership_restriction cfg amount (B r) supply p m1 = Inr (True, m3)"
      using chk' notex by (auto simp: attempt_Inr_iff split: if_splits)
    then show ?thesis
      using ownership_passed [OF _ rb] by (simp add: condition_respected_def MaxInvestorOwnership eq)
  next
    case (ClaimCount cl issuer mn mx)
    then obtain m3 where "verify_claim_count_restriction cfg s ?key1 (Claim cl) f r
        (investor_count_changes (Some (B' f)) (Some (B' r)) amount) mn mx m1 = Inr (True, m3)"
      using chk' notex by (auto simp: attempt_Inr_iff split: if_splits)
    note p = claim_count_passed [OF this, unfolded match]
    define a where "a = stat_value Count ?key B (Claim cl)"
    define b where "b = stat_value Count ?key B' (Claim cl)"
    define P where "P \<longleftrightarrow> ?key f = Claim cl \<and> B' f = 0"
    define Q where "Q \<longleftrightarrow> ?key r = Claim cl \<and> B' r = amount"
    have "AssetStats s ?key1 (Claim cl) = a" using ex by (simp add: ClaimCount get_stat_type_def a_def)
    then have "P \<and> \<not> Q \<longrightarrow> mn = 0 \<or> mn < a" "Q \<and> \<not> P \<longrightarrow> (\<forall>x. mx = Some x \<longrightarrow> a < x)"
      using p unfolding P_def Q_def by auto
    moreover have "b = a - (if P then 1 else 0) + (if Q then 1 else 0)"
      using after(1) [of "Claim cl"] by (simp add: a_def b_def P_def Q_def)
    moreover have "P \<Longrightarrow> a \<noteq> 0"
      using stat_value_member(1) [OF fin, of f ?key] amt by (auto simp: P_def a_def)
    ultimately have "(b < a \<longrightarrow> mn \<le> b) \<and> (a < b \<longrightarrow> (\<forall>x. mx = Some x \<longrightarrow> b \<le> x))"
      by (cases P; cases Q) auto
    then show ?thesis
      by (simp add: condition_respected_def ClaimCount a_def b_def split: option.splits)
  next
    case (ClaimOwnership cl issuer mn mx)
    then obtain m3 where "verify_claim_ownership_restriction cfg s ?key1 (Claim cl) f r amount supply
        mn mx m1 = Inr (True, m3)"
      using chk' notex by (auto simp: attempt_Inr_iff split: if_splits)
    note p = claim_ownership_passed [OF this, unfolded match]
    define a where "a = stat_value Balance ?key B (Claim cl)"
    define b where "b = stat_value Balance ?key B' (Claim cl)"
    have "AssetStats s ?key1 (Claim cl) = a" using ex by (simp add: ClaimOwnership get_stat_type_def a_def)
    then have p': "?key f = Claim cl \<and> ?key r \<noteq> Claim cl \<longrightarrow> mn \<le> permill_from_rational cfg (a - amount) supply"
      "?key r = Claim cl \<and> ?key f \<noteq> Claim cl \<longrightarrow>
        permill_from_rational cfg (saturating_add u128_max a amount) supply \<le> mx"
      using p by auto
    have ab: "b = a - (if ?key f = Claim cl then amount else 0) + (if ?key r = Claim cl then amount else 0)"
      using after(2) [of "Claim cl"] by (simp add: a_def b_def)
    have "?key f = Claim cl \<longrightarrow> amount \<le> a"
      using stat_value_member(2) [OF fin, of f ?key] amt by (auto simp: a_def)
    then have "(b < a \<longrightarrow> mn \<le> permill_from_rational cfg b supply) \<and>
        (a < b \<longrightarrow> permill_from_rational cfg b supply \<le> mx)"
      using p' ab le [of "Claim cl", folded b_def]
      by (cases "?key f = Claim cl"; cases "?key r = Claim cl") (auto simp: saturating_add_exact)
    then show ?thesis by (simp add: condition_respected_def ClaimOwnership a_def b_def)
  qed
qed

section \<open>The configuration of statistics\<close>

text \<open>
  The types of counters a ticker has active are a set without duplicates, its transfer conditions
  only refer to active ones, and a counter of a type that is not active is zero.
\<close>

definition stats_inv :: "'a statistics_store_scheme \<Rightarrow> bool" where
  "stats_inv s \<longleftrightarrow> (\<forall>a. distinct (ActiveAssetStats s a) \<and>
     (\<forall>c \<in> set (tc_requirements (AssetTransferCompliances s a)).
        get_stat_type c \<in> set (ActiveAssetStats s a)) \<and>
     (\<forall>st k. st \<notin> set (ActiveAssetStats s a) \<longrightarrow>
        AssetStats s \<lparr>stat_asset = a, stat_type = st\<rparr> k = 0))"

inductive stats_step ::
  "'c statistics_config_scheme \<Rightarrow> 'a statistics_store_scheme \<Rightarrow> 'a statistics_store_scheme \<Rightarrow> bool"
  for cfg where
  set_active: "base_set_active_asset_stats cfg origin a types s = Inr s' \<Longrightarrow> stats_step cfg s s'"
| batch_update: "base_batch_update_asset_stats origin a st vs s = Inr s' \<Longrightarrow> stats_step cfg s s'"
| set_compliance: "base_set_asset_transfer_compliance cfg origin a cs s = Inr s' \<Longrightarrow> stats_step cfg s s'"
| set_exempt: "base_set_entities_exempt origin b key es s = Inr s' \<Longrightarrow> stats_step cfg s s'"
| update: "update_asset_stats cfg t fd td fb tb amount (m, s) = Inr (m', s') \<Longrightarrow> stats_step cfg s s'"

lemma clear_stats:
  "fold (\<lambda>st s. s\<lparr>AssetStats := (AssetStats s)(\<lparr>stat_asset = a, stat_type = st\<rparr> := (\<lambda>_. 0))\<rparr>) sts s =
     s\<lparr>AssetStats := (\<lambda>k. if stat_asset k = a \<and> stat_type k \<in> set sts then (\<lambda>_. 0) else AssetStats s k)\<rparr>"
proof (induction sts arbitrary: s)
  case (Cons st sts)
  have "(\<lambda>k. if stat_asset k = a \<and> stat_type k \<in> set sts then (\<lambda>_. 0)
        else ((AssetStats s)(\<lparr>stat_asset = a, stat_type = st\<rparr> := (\<lambda>_. 0))) k) =
      (\<lambda>k. if stat_asset k = a \<and> stat_type k \<in> set (st # sts) then (\<lambda>_. 0) else AssetStats s k)"
    by (auto simp: fun_eq_iff)
  then show ?case
    using Cons.IH [of "s\<lparr>AssetStats := (AssetStats s)(\<lparr>stat_asset = a, stat_type = st\<rparr> := (\<lambda>_. 0))\<rparr>"]
    by (simp del: fun_upd_apply cong: if_cong)
qed (simp cong: if_cong)

lemma put_stats_frame:
  "ActiveAssetStats (fold (\<lambda>u. put_stat key1 (f u) (g u)) us s) = ActiveAssetStats s"
  "AssetTransferCompliances (fold (\<lambda>u. put_stat key1 (f u) (g u)) us s) = AssetTransferCompliances s"
  "k \<noteq> key1 \<Longrightarrow> AssetStats (fold (\<lambda>u. put_stat key1 (f u) (g u)) us s) k = AssetStats s k"
  by (induction us arbitrary: s) (simp_all add: put_stat_def)

lemma exempt_frame:
  "AssetStats (fold (\<lambda>e s. s\<lparr>TransferConditionExemptEntities := (TransferConditionExemptEntities s)(
      key := (TransferConditionExemptEntities s key)(e := b))\<rparr>) es s) = AssetStats s"
  "ActiveAssetStats (fold (\<lambda>e s. s\<lparr>TransferConditionExemptEntities := (TransferConditionExemptEntities s)(
      key := (TransferConditionExemptEntities s key)(e := b))\<rparr>) es s) = ActiveAssetStats s"
  "AssetTransferCompliances (fold (\<lambda>e s. s\<lparr>TransferConditionExemptEntities := (TransferConditionExemptEntities s)(
      key := (TransferConditionExemptEntities s key)(e := b))\<rparr>) es s) = AssetTransferCompliances s"
  by (induction es arbitrary: s) simp_all

lemma update_loop_frame:
  "fold_res (update_asset_stat cfg t fd td fb tb amount) sts (m, s) = Inr (m', s') \<Longrightarrow>
    AssetTransferCompliances s' = AssetTransferCompliances s \<and> ActiveAssetStats s' = ActiveAssetStats s \<and>
    (\<forall>k. stat_asset k \<noteq> AssetScope.Ticker t \<or> stat_type k \<notin> set sts \<longrightarrow> AssetStats s' k = AssetStats s k)"
proof (induction sts arbitrary: m s)
  case (Cons st sts)
  then obtain m1 s1 where st: "update_asset_stat cfg t fd td fb tb amount st (m, s) = Inr (m1, s1)"
    and rest: "fold_res (update_asset_stat cfg t fd td fb tb amount) sts (m1, s1) = Inr (m', s')"
    by (auto simp: attempt_Inr_iff)
  show ?case using Cons.IH [OF rest] update_asset_stat_Inr [OF st] by auto
qed simp

lemma stats_step_inv:
  assumes st: "stats_step cfg s s'" and inv: "stats_inv s"
  shows "stats_inv s'"
  using st
proof cases
  case (set_active origin a types)
  let ?new = "ranked_set stat_type_rank types"
  let ?gone = "filter (\<lambda>st. \<not> List.member ?new st) (ActiveAssetStats s a)"
  have ok: "\<forall>st \<in> set ?gone. st \<notin> get_stat_type ` set (tc_requirements (AssetTransferCompliances s a))"
    and s': "s' = s\<lparr>AssetStats := (\<lambda>k. if stat_asset k = a \<and> stat_type k \<in> set ?gone then (\<lambda>_. 0)
        else AssetStats s k), ActiveAssetStats := (ActiveAssetStats s)(a := ?new)\<rparr>"
    using set_active
    by (auto simp: base_set_active_asset_stats_def clear_stats Let_def attempt_Inr_iff ensure_Inr_iff
        list_all_iff)
  have "get_stat_type c \<in> set types" if "c \<in> set (tc_requirements (AssetTransferCompliances s a))" for c
  proof -
    have "get_stat_type c \<in> set (ActiveAssetStats s a)" using inv that by (simp add: stats_inv_def)
    then show ?thesis using ok that by auto
  qed
  then show ?thesis using inv unfolding stats_inv_def s' by auto
next
  case (batch_update origin a st vs)
  let ?key1 = "\<lparr>stat_asset = a, stat_type = st\<rparr>"
  have act: "st \<in> set (ActiveAssetStats s a)"
    and s': "s' = fold (\<lambda>u. put_stat ?key1 (update_key2 u) (case update_value u of Some v \<Rightarrow> v | None \<Rightarrow> 0))
        (ranked_set stat_update_rank vs) s"
    using batch_update
    by (auto simp: base_batch_update_asset_stats_def attempt_Inr_iff ensure_Inr_iff Let_def
        is_asset_stat_active_def)
  have "AssetStats s' \<lparr>stat_asset = b, stat_type = st'\<rparr> = AssetStats s \<lparr>stat_asset = b, stat_type = st'\<rparr>"
    if "b \<noteq> a \<or> st' \<noteq> st" for b st'
    unfolding s' using that by (intro put_stats_frame(3)) auto
  moreover have "ActiveAssetStats s' = ActiveAssetStats s"
    "AssetTransferCompliances s' = AssetTransferCompliances s"
    by (simp_all add: s' put_stats_frame)
  ultimately show ?thesis using inv act unfolding stats_inv_def by metis
next
  case (set_compliance origin a cs)
  then show ?thesis
    using inv
    by (auto simp: base_set_asset_transfer_compliance_def attempt_Inr_iff ensure_Inr_iff Let_def stats_inv_def
        each_res_Inr_iff is_asset_stat_active_def
        default_transfer_compliance_def split: if_splits)
next
  case (set_exempt origin b key es)
  then show ?thesis
    using inv by (auto simp: base_set_entities_exempt_def attempt_Inr_iff stats_inv_def exempt_frame)
next
  case (update t fd td fb tb amount m m')
  have "AssetTransferCompliances s' = AssetTransferCompliances s \<and> ActiveAssetStats s' = ActiveAssetStats s \<and>
      (\<forall>a st. st \<notin> set (ActiveAssetStats s a) \<longrightarrow>
         AssetStats s' \<lparr>stat_asset = a, stat_type = st\<rparr> = AssetStats s \<lparr>stat_asset = a, stat_type = st\<rparr>)"
  proof (cases "amount = 0")
    case True
    then show ?thesis using update by (simp add: update_asset_stats_def)
  next
    case False
    then obtain m1 where "fold_res (update_asset_stat cfg t fd td fb tb amount)
        (ActiveAssetStats s (AssetScope.Ticker t)) (m1, s) = Inr (m', s')"
      using update by (auto simp: update_asset_stats_def attempt_Inr_iff)
    note fr = update_loop_frame [OF this]
    have "AssetStats s' \<lparr>stat_asset = a, stat_type = st\<rparr> = AssetStats s \<lparr>stat_asset = a, stat_type = st\<rparr>"
      if "st \<notin> set (ActiveAssetStats s a)" for a st
      using fr that by (cases "a = AssetScope.Ticker t") simp_all
    then show ?thesis using fr by blast
  qed
  then show ?thesis using inv unfolding stats_inv_def by metis
qed

interpretation stats_system: invariant_system "stats_step cfg" stats_inv
  by unfold_locales (rule stats_step_inv)

section \<open>Properties\<close>

text \<open>
  Ticker 7 counts its investors and allows two of them. Identity 1 holds all of it.
\<close>

definition ex_stats_config :: statistics_config where
  "ex_stats_config = fee_config.extend ex_fee_config (statistics_config.fields 10 10
     (\<lambda>n d. n * 1000000 div d) (\<lambda>_. Weight 2 0) (\<lambda>_. Weight 2 0) (\<lambda>_. Weight 2 0) (\<lambda>_. Weight 2 0)
     (\<lambda>_. Weight 2 0) (Weight 2 0) (Weight 2 0) (\<lambda>_. Weight 2 0) (Weight 2 0))"

definition ex_count :: StatType where
  "ex_count = \<lparr>stat_op = Count, stat_claim_issuer = None\<rparr>"

definition ex_stats :: statistics_store where
  "ex_stats = claims_store.extend ex_claims
     (statistics_store.fields
        ((\<lambda>_. [])(AssetScope.Ticker 7 := [ex_count]))
        ((\<lambda>_ _. 0)(\<lparr>stat_asset = AssetScope.Ticker 7, stat_type = ex_count\<rparr> := (\<lambda>_. 0)(NoClaimStat := 1)))
        ((\<lambda>_. default_transfer_compliance)(AssetScope.Ticker 7 :=
           \<lparr>tc_paused = False, tc_requirements = [MaxInvestorCount 2]\<rparr>))
        (\<lambda>_ _. False))"

definition ex_meter :: WeightMeter where
  "ex_meter = \<lparr>minimum_charge = Weight 0 0, meter_consumed = Weight 0 0, meter_limit = Weight 1000 1000\<rparr>"

lemmas ex_stats_defs = ex_stats_def ex_stats_config_def ex_claims_defs
  statistics_store.defs statistics_config.defs

lemma ex_stats_sel [simp]:
  "ActiveAssetStats ex_stats a = (if a = AssetScope.Ticker 7 then [ex_count] else [])"
  "AssetStats ex_stats k = (if k = \<lparr>stat_asset = AssetScope.Ticker 7, stat_type = ex_count\<rparr>
     then (\<lambda>_. 0)(NoClaimStat := 1) else (\<lambda>_. 0))"
  "AssetTransferCompliances ex_stats a = (if a = AssetScope.Ticker 7
     then \<lparr>tc_paused = False, tc_requirements = [MaxInvestorCount 2]\<rparr> else default_transfer_compliance)"
  "TransferConditionExemptEntities ex_stats key d = False"
  "BalanceOf ex_stats = (\<lambda>_ _. 0)(7 := (\<lambda>_. 0)(1 := 50000000))"
  by (simp_all add: ex_stats_defs)

lemma ex_stats_weights:
  "w_active_asset_statistics_load ex_stats_config n = Weight 2 0"
  "w_update_asset_count_stats ex_stats_config n = Weight 2 0"
  "w_max_investor_count_restriction ex_stats_config n = Weight 2 0"
  "w_is_exempt ex_stats_config = Weight 2 0"
  by (simp_all add: ex_stats_config_def statistics_config.defs fee_config.defs)

lemma ex_asset_perms: "ea_ensure_perms ex_stats (Signed 1) 7 = Inr 1"
  by (simp add: ea_ensure_perms_def ensure_agent_asset_perms_def ensure_asset_perms_def
      ensure_origin_call_permissions_def ensure_signed_def ensure_call_permissions_def
      check_account_call_permissions_def ensure_agent_permissioned_def agent_permissions_def
      sufficient_for_def ex_stats_defs)

abbreviation ex_before :: "IdentityId \<Rightarrow> Balance" where
  "ex_before \<equiv> (\<lambda>_. 0)(1 := 50000000)"

abbreviation ex_after :: "IdentityId \<Rightarrow> Balance" where
  "ex_after \<equiv> (\<lambda>_. 0)(1 := 20000000, 2 := 30000000)"

lemma ex_after:
  "ex_after = balances_after (Some 1) (Some 2) 30000000 ex_before" "sum_supp ex_after UNIV \<le> u128_max"
proof -
  show "ex_after = balances_after (Some 1) (Some 2) 30000000 ex_before" by (auto simp: balances_after_def)
  have "{x. ex_after x \<noteq> 0} = {1, 2}" by auto
  then show "sum_supp ex_after UNIV \<le> u128_max" by (simp add: sum_supp_def u128_max_def)
qed

lemma ex_stats_inv: "stats_inv ex_stats"
  by (auto simp: stats_inv_def get_stat_type_def ex_count_def default_transfer_compliance_def)

lemma ex_stats_consume: "stats_consume_weight ex_stats_config (Weight 2 0)
    (ex_meter\<lparr>meter_consumed := Weight n 0\<rparr>) = (if n + 2 \<le> 1000 then Inr (ex_meter\<lparr>meter_consumed := Weight (n + 2) 0\<rparr>)
      else Inl (StatisticsError statistics_error.WeightLimitExceeded))"
  by (simp add: stats_consume_weight_def consume_weight_until_limit_def ex_meter_def ex_stats_defs)

lemma ex_stats_exact: "stats_exact ex_stats 7 ex_before"
proof -
  have "stat_value Count (claim_key ex_stats 7 ex_count) ex_before k =
      ((\<lambda>_. 0)(NoClaimStat := 1)) k" for k
    by (cases k) (simp_all add: stat_value_def claim_key_def fetch_claim_as_key_def ex_count_def
        supp_card_def)
  then show ?thesis by (simp add: stats_exact_def ex_count_def)
qed

text \<open>
  (C26) The counters of a ticker stay exact: let every active counter of a ticker hold the number of
  its investors, or the sum of the balances, of the identities with the claim the counter is for.
  After \<open>update_asset_stats\<close> for a transfer, a mint (no sender) or a burn (no receiver) every active
  counter holds that value for the new balances.
\<close>

theorem statistics_stay_exact:
  assumes "update_asset_stats cfg t from to (map_option B' from) (map_option B' to) amount (m, s) = Inr (m', s')"
    and "stats_exact s t B" and "fin_supp B" and "B' = balances_after from to amount B"
    and "\<forall>f. from = Some f \<longrightarrow> amount \<le> B f" and "from \<noteq> to \<or> from = None"
    and "sum_supp B' UNIV \<le> u128_max"
  shows "stats_exact s' t B'"
  using update_asset_stats_exact [OF assms(1-3)] assms by blast

theorem statistics_stay_exact_witness:
  "\<exists>m' s'. update_asset_stats ex_stats_config 7 (Some 1) (Some 2) (Some 20000000) (Some 30000000)
      30000000 (ex_meter, ex_stats) = Inr (m', s') \<and>
    stats_exact s' 7 ex_after"
proof -
  have m: "ex_meter = ex_meter\<lparr>meter_consumed := Weight 0 0\<rparr>" by (simp add: ex_meter_def)
  have "is_ok (update_asset_stats ex_stats_config 7 (Some 1) (Some 2) (Some 20000000) (Some 30000000)
      30000000 (ex_meter, ex_stats))"
    by (subst m)
      (simp add: update_asset_stats_def ex_stats_weights ex_stats_consume update_asset_stat_def Let_def
        investor_count_changes_eq update_asset_count_stats_def ex_count_def)
  then obtain m' s' where u: "update_asset_stats ex_stats_config 7 (Some 1) (Some 2) (Some 20000000)
      (Some 30000000) 30000000 (ex_meter, ex_stats) = Inr (m', s')"
    by (auto simp: is_ok_iff)
  have "update_asset_stats ex_stats_config 7 (Some 1) (Some 2) (map_option ex_after (Some 1))
      (map_option ex_after (Some 2)) 30000000 (ex_meter, ex_stats) = Inr (m', s')"
    using u by simp
  from statistics_stay_exact [OF this ex_stats_exact _ ex_after(1) _ _ ex_after(2)] show ?thesis using u by auto
qed

text \<open>
  (C27) What the restrictions enforce: let the counters of a ticker be exact. A transfer that passes
  \<open>verify_transfer_restrictions\<close> with neither party exempt keeps every active condition of the ticker:
  the number of investors stays at or below a maximum it is not already above, a receiver
  holds at most the maximal percentage of the supply, and the same holds for the numbers and the
  percentages among the holders of a claim.
\<close>

theorem transfer_restrictions_enforced:
  assumes "verify_transfer_restrictions cfg s t f r (B f) (B r) amount supply m = Inr m'"
    and "stats_inv s" and "stats_exact s t B"
    and "\<not> tc_paused (AssetTransferCompliances s (AssetScope.Ticker t))"
    and "c \<in> set (tc_requirements (AssetTransferCompliances s (AssetScope.Ticker t)))"
    and "\<not> is_exempt s (AssetScope.Ticker t) c f r"
    and "fin_supp B" and "0 < amount" "amount \<le> B f" and "f \<noteq> r"
    and "B' = balances_after (Some f) (Some r) amount B" and "sum_supp B' UNIV \<le> u128_max"
  shows "condition_respected cfg c (claim_key s t (get_stat_type c)) B B' r supply"
proof -
  have "get_stat_type c \<in> set (ActiveAssetStats s (AssetScope.Ticker t))"
    using assms(2,5) by (simp add: stats_inv_def)
  then have ex: "AssetStats s \<lparr>stat_asset = AssetScope.Ticker t, stat_type = get_stat_type c\<rparr> k =
      stat_value (stat_op (get_stat_type c)) (claim_key s t (get_stat_type c)) B k" for k
    using assms(3) by (simp add: stats_exact_def)
  obtain m1 m2 where "check_transfer_condition cfg s c (AssetScope.Ticker t) f r (B r) amount supply
      (investor_count_changes (Some (B f - amount)) (Some (saturating_add u128_max (B r) amount)) amount) m1 =
      Inr (True, m2)"
    using assms(1,4) verify_requirements_all [OF _ assms(5)]
    by (simp add: verify_transfer_restrictions_def Let_def) blast
  from check_transfer_condition_sound [OF this ex assms(6-10)] show ?thesis using assms(11,12) by simp
qed

theorem transfer_restrictions_enforced_witness:
  "is_ok (verify_transfer_restrictions ex_stats_config ex_stats 7 1 2 50000000 0 30000000 50000000 ex_meter) \<and>
   condition_respected ex_stats_config (MaxInvestorCount 2) (claim_key ex_stats 7 ex_count)
     ex_before ex_after 2 50000000"
proof -
  have st: "get_stat_type (MaxInvestorCount 2) = ex_count" by (simp add: get_stat_type_def ex_count_def)
  have m: "ex_meter = ex_meter\<lparr>meter_consumed := Weight 0 0\<rparr>" by (simp add: ex_meter_def)
  have ok: "is_ok (verify_transfer_restrictions ex_stats_config ex_stats 7 1 2 50000000 0 30000000 50000000 ex_meter)"
    by (subst m) (simp add: verify_transfer_restrictions_def verify_requirements_def Let_def
        check_transfer_condition_def investor_count_changes_eq is_exempt_def st
        verify_asset_count_restriction_def ex_stats_weights ex_stats_consume)
  then obtain m' where v: "verify_transfer_restrictions ex_stats_config ex_stats 7 1 2 (ex_before 1) (ex_before 2)
      30000000 50000000 ex_meter = Inr m'"
    by (auto simp: is_ok_iff)
  from transfer_restrictions_enforced [OF v ex_stats_inv ex_stats_exact _ _ _ _ _ _ _ ex_after]
  show ?thesis using ok by (simp add: is_exempt_def Let_def split: StatOpType.splits flip: st)
qed

text \<open>
  Whatever sequence of statistics operations runs, on any tickers: the active counters of a ticker
  are distinct, every transfer condition of a ticker refers to an active counter, and the
  counters that are not active are zero, so that activating one later starts from zero.
\<close>

theorem stats_reachable_inv:
  assumes "stats_inv s" and "(stats_step cfg)\<^sup>*\<^sup>* s s'"
  shows "stats_inv s'"
  by (rule stats_system.reach_good [OF assms(2,1)])

theorem stats_reachable_inv_witness:
  "\<exists>s'. base_batch_update_asset_stats (Signed 1) (AssetScope.Ticker 7) ex_count
      [\<lparr>update_key2 = NoClaimStat, update_value = Some 4\<rparr>] ex_stats = Inr s' \<and> stats_inv s'"
proof -
  have "is_ok (base_batch_update_asset_stats (Signed 1) (AssetScope.Ticker 7) ex_count
      [\<lparr>update_key2 = NoClaimStat, update_value = Some 4\<rparr>] ex_stats)"
    by (simp add: base_batch_update_asset_stats_def stats_ensure_asset_perms_def
        ex_asset_perms [unfolded One_nat_def]
        is_asset_stat_active_def Let_def)
  then obtain s' where s': "base_batch_update_asset_stats (Signed 1) (AssetScope.Ticker 7) ex_count
      [\<lparr>update_key2 = NoClaimStat, update_value = Some 4\<rparr>] ex_stats = Inr s'"
    by (auto simp: is_ok_iff)
  have "(stats_step ex_stats_config)\<^sup>*\<^sup>* ex_stats s'"
    by (rule r_into_rtranclp) (rule stats_step.batch_update [OF s'])
  from stats_reachable_inv [OF ex_stats_inv this]
  show ?thesis using s' by blast
qed

end
