(* ===== verification/Compliance.thy ===== *)
theory Compliance
  imports Statistics_Theorems
begin

text \<open>
  The compliance manager (\<open>pallets/compliance-manager/src/lib.rs\<close>, with \<open>condition.rs\<close>,
  \<open>compliance_manager.rs\<close> and \<open>proposition/\<close> of the primitives): the requirements a transfer of an
  asset must meet, each a list of conditions on the sender and one on the receiver that
  are decided by the claims of trusted issuers.
\<close>

datatype TargetIdentity = ExternalAgent | Specific IdentityId

datatype ConditionType =
    IsPresent Claim
  | IsAbsent Claim
  | IsAnyOf "Claim list"
  | IsNoneOf "Claim list"
  | IsIdentity TargetIdentity

datatype TrustedFor = Any | Specific "ClaimType list"

record TrustedIssuer =
  issuer :: IdentityId
  trusted_for :: TrustedFor

record Condition =
  condition_type :: ConditionType
  issuers :: "TrustedIssuer list"

record ComplianceRequirement =
  sender_conditions :: "Condition list"
  receiver_conditions :: "Condition list"
  req_id :: nat

record AssetCompliance =
  paused :: bool
  requirements :: "ComplianceRequirement list"

record ConditionResult =
  condition :: Condition
  condition_result :: bool

record ComplianceRequirementResult =
  sender_results :: "ConditionResult list"
  receiver_results :: "ConditionResult list"
  result_id :: nat
  requirement_result :: bool

record AssetComplianceResult =
  result_paused :: bool
  requirement_results :: "ComplianceRequirementResult list"
  compliance_result :: bool

record compliance_store = statistics_store +
  AssetCompliances :: "Ticker \<Rightarrow> AssetCompliance"
  TrustedClaimIssuer :: "Ticker \<Rightarrow> TrustedIssuer list"

record compliance_config = statistics_config +
  MaxConditionComplexity :: nat
  w_is_condition_satisfied :: "nat \<Rightarrow> nat \<Rightarrow> Weight"
  w_is_identity_condition :: "nat \<Rightarrow> Weight"

definition default_compliance :: AssetCompliance where
  "default_compliance = \<lparr>paused = False, requirements = []\<rparr>"

definition put_compliance ::
  "Ticker \<Rightarrow> AssetCompliance \<Rightarrow> 'a compliance_store_scheme \<Rightarrow> 'a compliance_store_scheme" where
  "put_compliance ticker c s = s\<lparr>AssetCompliances := (AssetCompliances s)(ticker := c)\<rparr>"

definition put_trusted_issuers ::
  "Ticker \<Rightarrow> TrustedIssuer list \<Rightarrow> 'a compliance_store_scheme \<Rightarrow> 'a compliance_store_scheme" where
  "put_trusted_issuers ticker is s = s\<lparr>TrustedClaimIssuer := (TrustedClaimIssuer s)(ticker := is)\<rparr>"

section \<open>Conditions\<close>

definition claim_count :: "ConditionType \<Rightarrow> nat" where
  "claim_count ct =
     (case ct of
        IsIdentity _ \<Rightarrow> 1 | IsPresent _ \<Rightarrow> 1 | IsAbsent _ \<Rightarrow> 1
      | IsNoneOf claims \<Rightarrow> length claims | IsAnyOf claims \<Rightarrow> length claims)"

definition issuer_dedup :: "TrustedIssuer \<Rightarrow> TrustedIssuer" where
  "issuer_dedup i =
     (case trusted_for i of
        Any \<Rightarrow> i
      | TrustedFor.Specific types \<Rightarrow> i\<lparr>trusted_for := TrustedFor.Specific (ranked_set claim_type_rank types)\<rparr>)"

definition is_trusted_for :: "TrustedIssuer \<Rightarrow> ClaimType \<Rightarrow> bool" where
  "is_trusted_for i ty =
     (case trusted_for i of Any \<Rightarrow> True | TrustedFor.Specific ok_types \<Rightarrow> List.member ok_types ty)"

definition condition_complexity :: "Condition \<Rightarrow> nat \<Rightarrow> nat" where
  "condition_complexity c default_issuer_count =
     (let n = (case length (issuers c) of 0 \<Rightarrow> default_issuer_count | Suc k \<Rightarrow> Suc k);
          m = saturating_mul u64_max (claim_count (condition_type c)) (max n 1)
      in if m \<le> u32_max then m else u32_max)"

definition condition_claims :: "Condition \<Rightarrow> Claim list" where
  "condition_claims c =
     (case condition_type c of
        IsPresent cl \<Rightarrow> [cl] | IsAbsent cl \<Rightarrow> [cl]
      | IsAnyOf cs \<Rightarrow> cs | IsNoneOf cs \<Rightarrow> cs
      | IsIdentity _ \<Rightarrow> [])"

definition requirement_dedup :: "ComplianceRequirement \<Rightarrow> ComplianceRequirement" where
  "requirement_dedup r =
     (let dedup = map (\<lambda>c. c\<lparr>issuers := map issuer_dedup (issuers c)\<rparr>) in
      r\<lparr>sender_conditions := dedup (sender_conditions r),
        receiver_conditions := dedup (receiver_conditions r)\<rparr>)"

definition requirement_conditions :: "ComplianceRequirement \<Rightarrow> Condition list" where
  "requirement_conditions r = sender_conditions r @ receiver_conditions r"

section \<open>Propositions\<close>

definition exists_claim :: "Claim \<Rightarrow> Claim list \<Rightarrow> bool" where
  "exists_claim cl context_claims =
     (case cl of
        Claim.CustomerDueDiligence cdd_id \<Rightarrow>
          if cdd_id = 0
          then list_ex (\<lambda>c. case c of Claim.CustomerDueDiligence _ \<Rightarrow> True | _ \<Rightarrow> False) context_claims
          else list_ex (\<lambda>c. c = cl) context_claims
      | _ \<Rightarrow> list_ex (\<lambda>c. c = cl) context_claims)"

definition any_claim :: "Claim list \<Rightarrow> Claim list \<Rightarrow> bool" where
  "any_claim claims context_claims = list_ex (\<lambda>c. list_ex (\<lambda>valid. c = valid) claims) context_claims"

definition run_condition :: "Condition \<Rightarrow> Claim list \<Rightarrow> IdentityId \<Rightarrow> (IdentityId \<Rightarrow> bool) \<Rightarrow> bool" where
  "run_condition c context_claims context_id ea_prop =
     (case condition_type c of
        IsPresent cl \<Rightarrow> exists_claim cl context_claims
      | IsAbsent cl \<Rightarrow> \<not> exists_claim cl context_claims
      | IsAnyOf cs \<Rightarrow> any_claim cs context_claims
      | IsNoneOf cs \<Rightarrow> \<not> any_claim cs context_claims
      | IsIdentity (TargetIdentity.Specific i) \<Rightarrow> context_id = i
      | IsIdentity ExternalAgent \<Rightarrow> ea_prop context_id)"

section \<open>Limits\<close>

definition compliance_custom_scopes_limited :: "Condition list \<Rightarrow> unit result" where
  "compliance_custom_scopes_limited conditions =
     each_res ensure_custom_scopes_limited (concat (map condition_claims conditions))"

definition ensure_issuer_limited :: "'c config_scheme \<Rightarrow> TrustedIssuer \<Rightarrow> unit result" where
  "ensure_issuer_limited cfg i =
     (case trusted_for i of
        Any \<Rightarrow> Inr () | TrustedFor.Specific cts \<Rightarrow> ensure_length_ok cfg (length cts))"

definition ensure_issuers_in_req_limited :: "'c config_scheme \<Rightarrow> ComplianceRequirement \<Rightarrow> unit result" where
  "ensure_issuers_in_req_limited cfg r =
     each_res (\<lambda>cond.
        attempt (ensure_length_ok cfg (length (issuers cond))) (\<lambda>_.
        each_res (ensure_issuer_limited cfg) (issuers cond))) (requirement_conditions r)"

definition dedup_and_ensure_requirement_limited ::
  "'c config_scheme \<Rightarrow> ComplianceRequirement \<Rightarrow> ComplianceRequirement result" where
  "dedup_and_ensure_requirement_limited cfg r =
     (let r1 = requirement_dedup r in
      attempt (ensure_issuers_in_req_limited cfg r1) (\<lambda>_. Inr r1))"

definition base_verify_compliance_complexity ::
  "'c compliance_config_scheme \<Rightarrow> ComplianceRequirement list \<Rightarrow> nat \<Rightarrow> unit result" where
  "base_verify_compliance_complexity cfg reqs default_issuer_count =
     (let total = fold (\<lambda>c total. saturating_add u32_max total (condition_complexity c default_issuer_count))
            (concat (map requirement_conditions reqs)) 0;
          complexity = max total (length reqs mod (u32_max + 1))
      in if complexity \<le> MaxConditionComplexity cfg then Inr ()
         else Inl (ComplianceError ComplianceRequirementTooComplex))"

definition verify_compliance_complexity ::
  "'c compliance_config_scheme \<Rightarrow> 'a compliance_store_scheme \<Rightarrow> ComplianceRequirement list
    \<Rightarrow> Ticker \<Rightarrow> nat \<Rightarrow> unit result" where
  "verify_compliance_complexity cfg s reqs ticker add =
     base_verify_compliance_complexity cfg reqs
       (saturating_add u64_max (length (TrustedClaimIssuer s ticker)) add)"

section \<open>Configuration\<close>

definition get_latest_requirement_id :: "'a compliance_store_scheme \<Rightarrow> Ticker \<Rightarrow> nat" where
  "get_latest_requirement_id s ticker =
     (case requirements (AssetCompliances s ticker) of [] \<Rightarrow> 0 | r # rs \<Rightarrow> req_id (last (r # rs)))"

definition base_add_compliance_requirement ::
  "'c compliance_config_scheme \<Rightarrow> Ticker \<Rightarrow> Condition list \<Rightarrow> Condition list
    \<Rightarrow> 'a compliance_store_scheme \<Rightarrow> ('a compliance_store_scheme) result" where
  "base_add_compliance_requirement cfg ticker senders receivers s =
     attempt (compliance_custom_scopes_limited senders) (\<lambda>_.
     attempt (compliance_custom_scopes_limited receivers) (\<lambda>_.
     let i = wrapping_add u32_max (get_latest_requirement_id s ticker) 1 in
     attempt (dedup_and_ensure_requirement_limited cfg
                \<lparr>sender_conditions = senders, receiver_conditions = receivers, req_id = i\<rparr>) (\<lambda>new_req.
     let c = AssetCompliances s ticker;
         c1 = c\<lparr>requirements := requirements c @ [new_req]\<rparr>
     in attempt (verify_compliance_complexity cfg s (requirements c1) ticker 0) (\<lambda>_.
        attempt (charge_fee cfg ComplianceManagerAddComplianceRequirement s) (\<lambda>s1.
        Inr (put_compliance ticker c1 s1))))))"

definition add_compliance_requirement ::
  "'c compliance_config_scheme \<Rightarrow> Origin \<Rightarrow> Ticker \<Rightarrow> Condition list \<Rightarrow> Condition list
    \<Rightarrow> 'a compliance_store_scheme \<Rightarrow> ('a compliance_store_scheme) result" where
  "add_compliance_requirement cfg origin ticker senders receivers s =
     attempt (ea_ensure_perms s origin ticker) (\<lambda>_.
     base_add_compliance_requirement cfg ticker senders receivers s)"

definition remove_compliance_requirement ::
  "Origin \<Rightarrow> Ticker \<Rightarrow> nat \<Rightarrow> 'a compliance_store_scheme \<Rightarrow> ('a compliance_store_scheme) result" where
  "remove_compliance_requirement origin ticker i s =
     attempt (ea_ensure_perms s origin ticker) (\<lambda>_.
     let c = AssetCompliances s ticker;
         kept = filter (\<lambda>r. req_id r \<noteq> i) (requirements c)
     in ensure (length (requirements c) \<noteq> length kept) (ComplianceError InvalidComplianceRequirementId)
          (Inr (put_compliance ticker (c\<lparr>requirements := kept\<rparr>) s)))"

fun dedup_by_key :: "('e \<Rightarrow> 'k) \<Rightarrow> 'e list \<Rightarrow> 'e list" where
  "dedup_by_key f (x # y # zs) =
     (if f x = f y then dedup_by_key f (x # zs) else x # dedup_by_key f (y # zs))"
| "dedup_by_key f xs = xs"

definition replace_asset_compliance ::
  "'c compliance_config_scheme \<Rightarrow> Origin \<Rightarrow> Ticker \<Rightarrow> ComplianceRequirement list
    \<Rightarrow> 'a compliance_store_scheme \<Rightarrow> ('a compliance_store_scheme) result" where
  "replace_asset_compliance cfg origin ticker reqs s =
     attempt (ea_ensure_perms s origin ticker) (\<lambda>_.
     attempt (compliance_custom_scopes_limited (concat (map requirement_conditions reqs))) (\<lambda>_.
     let reqs1 = dedup_by_key req_id (sort_key req_id reqs) in
     ensure (length reqs = length reqs1) (ComplianceError DuplicateComplianceRequirements) (
     attempt (each_res (\<lambda>r. ensure_issuers_in_req_limited cfg (requirement_dedup r)) reqs1) (\<lambda>_.
     let reqs2 = map requirement_dedup reqs1 in
     attempt (verify_compliance_complexity cfg s reqs2 ticker 0) (\<lambda>_.
     Inr (put_compliance ticker ((AssetCompliances s ticker)\<lparr>requirements := reqs2\<rparr>) s))))))"

definition reset_asset_compliance ::
  "Origin \<Rightarrow> Ticker \<Rightarrow> 'a compliance_store_scheme \<Rightarrow> ('a compliance_store_scheme) result" where
  "reset_asset_compliance origin ticker s =
     attempt (ea_ensure_perms s origin ticker) (\<lambda>_. Inr (put_compliance ticker default_compliance s))"

definition pause_resume_asset_compliance ::
  "Origin \<Rightarrow> Ticker \<Rightarrow> bool \<Rightarrow> 'a compliance_store_scheme \<Rightarrow> ('a compliance_store_scheme) result" where
  "pause_resume_asset_compliance origin ticker pause s =
     attempt (ea_ensure_perms s origin ticker) (\<lambda>_.
     Inr (put_compliance ticker ((AssetCompliances s ticker)\<lparr>paused := pause\<rparr>) s))"

definition pause_asset_compliance ::
  "Origin \<Rightarrow> Ticker \<Rightarrow> 'a compliance_store_scheme \<Rightarrow> ('a compliance_store_scheme) result" where
  "pause_asset_compliance origin ticker = pause_resume_asset_compliance origin ticker True"

definition resume_asset_compliance ::
  "Origin \<Rightarrow> Ticker \<Rightarrow> 'a compliance_store_scheme \<Rightarrow> ('a compliance_store_scheme) result" where
  "resume_asset_compliance origin ticker = pause_resume_asset_compliance origin ticker False"

definition base_add_default_trusted_claim_issuer ::
  "'c compliance_config_scheme \<Rightarrow> Ticker \<Rightarrow> TrustedIssuer \<Rightarrow> 'a compliance_store_scheme
    \<Rightarrow> ('a compliance_store_scheme) result" where
  "base_add_default_trusted_claim_issuer cfg ticker i s =
     ensure (DidRecords s (issuer i) \<noteq> None) (ComplianceError DidNotExist) (
     attempt (ensure_issuer_limited cfg i) (\<lambda>_.
     let is = TrustedClaimIssuer s ticker;
         new_count = saturating_add u64_max (length is) 1
     in attempt (ensure_length_ok cfg new_count) (\<lambda>_.
        ensure (\<not> List.member is i) (ComplianceError IncorrectOperationOnTrustedIssuer) (
        attempt (base_verify_compliance_complexity cfg (requirements (AssetCompliances s ticker)) new_count) (\<lambda>_.
        Inr (put_trusted_issuers ticker (is @ [i]) s))))))"

definition add_default_trusted_claim_issuer ::
  "'c compliance_config_scheme \<Rightarrow> Origin \<Rightarrow> Ticker \<Rightarrow> TrustedIssuer \<Rightarrow> 'a compliance_store_scheme
    \<Rightarrow> ('a compliance_store_scheme) result" where
  "add_default_trusted_claim_issuer cfg origin ticker i s =
     attempt (ea_ensure_perms s origin ticker) (\<lambda>_. base_add_default_trusted_claim_issuer cfg ticker i s)"

definition remove_default_trusted_claim_issuer ::
  "Origin \<Rightarrow> Ticker \<Rightarrow> IdentityId \<Rightarrow> 'a compliance_store_scheme \<Rightarrow> ('a compliance_store_scheme) result" where
  "remove_default_trusted_claim_issuer origin ticker i s =
     attempt (ea_ensure_perms s origin ticker) (\<lambda>_.
     let is = TrustedClaimIssuer s ticker;
         kept = filter (\<lambda>ti. issuer ti \<noteq> i) is
     in ensure (length is \<noteq> length kept) (ComplianceError IncorrectOperationOnTrustedIssuer)
          (Inr (put_trusted_issuers ticker kept s)))"

definition change_compliance_requirement ::
  "'c compliance_config_scheme \<Rightarrow> Origin \<Rightarrow> Ticker \<Rightarrow> ComplianceRequirement
    \<Rightarrow> 'a compliance_store_scheme \<Rightarrow> ('a compliance_store_scheme) result" where
  "change_compliance_requirement cfg origin ticker new_req s =
     attempt (ea_ensure_perms s origin ticker) (\<lambda>_.
     attempt (compliance_custom_scopes_limited (requirement_conditions new_req)) (\<lambda>_.
     let c = AssetCompliances s ticker; reqs = requirements c in
     case binary_search (map req_id reqs) (req_id new_req) of
       Inl _ \<Rightarrow> Inl (ComplianceError InvalidComplianceRequirementId)
     | Inr pos \<Rightarrow>
         attempt (dedup_and_ensure_requirement_limited cfg new_req) (\<lambda>new_req1.
         let reqs1 = reqs[pos := new_req1] in
         attempt (verify_compliance_complexity cfg s reqs1 ticker 0) (\<lambda>_.
         Inr (put_compliance ticker (c\<lparr>requirements := reqs1\<rparr>) s)))))"

section \<open>Evaluation\<close>

definition compliance_consume_weight ::
  "'c config_scheme \<Rightarrow> Weight \<Rightarrow> WeightMeter \<Rightarrow> WeightMeter result" where
  "compliance_consume_weight cfg w m =
     (case consume_weight_until_limit cfg w m of
        (ok, m1) \<Rightarrow> ensure ok (ComplianceError compliance_error.WeightLimitExceeded) (Inr m1))"

definition fetch_claims ::
  "'a claims_store_scheme \<Rightarrow> IdentityId \<Rightarrow> Claim \<Rightarrow> TrustedIssuer list \<Rightarrow> Claim list" where
  "fetch_claims s target cl is =
     List.map_filter (\<lambda>i. map_option claim (fetch_claim s target (claim_type cl) (issuer i) (as_scope cl)))
       (filter (\<lambda>i. is_trusted_for i (claim_type cl)) is)"

text \<open>The cache of the default issuers is left out: it holds what the storage holds.\<close>

definition issuers_for :: "'a compliance_store_scheme \<Rightarrow> Ticker \<Rightarrow> Condition \<Rightarrow> TrustedIssuer list" where
  "issuers_for s ticker c = (if issuers c = [] then TrustedClaimIssuer s ticker else issuers c)"

definition fetch_context ::
  "'c compliance_config_scheme \<Rightarrow> 'a compliance_store_scheme \<Rightarrow> IdentityId \<Rightarrow> Ticker \<Rightarrow> Condition
    \<Rightarrow> WeightMeter \<Rightarrow> (Claim list \<times> WeightMeter) result" where
  "fetch_context cfg s did ticker c m =
     (let trusted = issuers_for s ticker c;
          from_default = of_bool (issuers c = [])
      in case condition_type c of
           IsPresent cl \<Rightarrow>
             attempt (compliance_consume_weight cfg (w_is_condition_satisfied cfg
               (length trusted mod (u32_max + 1)) from_default) m) (\<lambda>m.
             Inr (fetch_claims s did cl trusted, m))
         | IsAbsent cl \<Rightarrow>
             attempt (compliance_consume_weight cfg (w_is_condition_satisfied cfg
               (length trusted mod (u32_max + 1)) from_default) m) (\<lambda>m.
             Inr (fetch_claims s did cl trusted, m))
         | IsAnyOf cs \<Rightarrow>
             attempt (compliance_consume_weight cfg (w_is_condition_satisfied cfg
               (length trusted * length cs mod (u32_max + 1)) from_default) m) (\<lambda>m.
             Inr (concat (map (\<lambda>cl. fetch_claims s did cl trusted) cs), m))
         | IsNoneOf cs \<Rightarrow>
             attempt (compliance_consume_weight cfg (w_is_condition_satisfied cfg
               (length trusted * length cs mod (u32_max + 1)) from_default) m) (\<lambda>m.
             Inr (concat (map (\<lambda>cl. fetch_claims s did cl trusted) cs), m))
         | IsIdentity ExternalAgent \<Rightarrow>
             attempt (compliance_consume_weight cfg (w_is_identity_condition cfg 1) m) (\<lambda>m. Inr ([], m))
         | IsIdentity (TargetIdentity.Specific _) \<Rightarrow>
             attempt (compliance_consume_weight cfg (w_is_identity_condition cfg 0) m) (\<lambda>m. Inr ([], m)))"

definition is_condition_satisfied ::
  "'c compliance_config_scheme \<Rightarrow> 'a compliance_store_scheme \<Rightarrow> Ticker \<Rightarrow> IdentityId \<Rightarrow> Condition
    \<Rightarrow> WeightMeter \<Rightarrow> (bool \<times> WeightMeter) result" where
  "is_condition_satisfied cfg s ticker did c m =
     attempt (fetch_context cfg s did ticker c m) (\<lambda>(claims, m).
     Inr (run_condition c claims did (\<lambda>i. GroupOfAgent s ticker i \<noteq> None), m))"

fun are_all_conditions_satisfied ::
  "'c compliance_config_scheme \<Rightarrow> 'a compliance_store_scheme \<Rightarrow> Ticker \<Rightarrow> IdentityId \<Rightarrow> Condition list
    \<Rightarrow> WeightMeter \<Rightarrow> (bool \<times> WeightMeter) result" where
  "are_all_conditions_satisfied cfg s ticker did [] m = Inr (True, m)"
| "are_all_conditions_satisfied cfg s ticker did (c # cs) m =
     attempt (is_condition_satisfied cfg s ticker did c m) (\<lambda>(ok, m).
     if \<not> ok then Inr (False, m) else are_all_conditions_satisfied cfg s ticker did cs m)"

fun evaluate_conditions ::
  "'c compliance_config_scheme \<Rightarrow> 'a compliance_store_scheme \<Rightarrow> Ticker \<Rightarrow> IdentityId
    \<Rightarrow> ConditionResult list \<Rightarrow> WeightMeter \<Rightarrow> (bool \<times> ConditionResult list \<times> WeightMeter) result" where
  "evaluate_conditions cfg s ticker did [] m = Inr (True, [], m)"
| "evaluate_conditions cfg s ticker did (c # cs) m =
     attempt (is_condition_satisfied cfg s ticker did (condition c) m) (\<lambda>(holds, m).
     attempt (evaluate_conditions cfg s ticker did cs m) (\<lambda>(all_hold, cs', m).
     Inr (holds \<and> all_hold, c\<lparr>condition_result := holds\<rparr> # cs', m)))"

fun is_any_requirement_compliant ::
  "'c compliance_config_scheme \<Rightarrow> 'a compliance_store_scheme \<Rightarrow> Ticker \<Rightarrow> ComplianceRequirement list
    \<Rightarrow> IdentityId \<Rightarrow> IdentityId \<Rightarrow> WeightMeter \<Rightarrow> (bool \<times> WeightMeter) result" where
  "is_any_requirement_compliant cfg s ticker [] sender_did receiver_did m = Inr (False, m)"
| "is_any_requirement_compliant cfg s ticker (r # rs) sender_did receiver_did m =
     attempt (are_all_conditions_satisfied cfg s ticker sender_did (sender_conditions r) m) (\<lambda>(ok, m).
     if ok then
       attempt (are_all_conditions_satisfied cfg s ticker receiver_did (receiver_conditions r) m) (\<lambda>(ok, m).
       if ok then Inr (True, m) else is_any_requirement_compliant cfg s ticker rs sender_did receiver_did m)
     else is_any_requirement_compliant cfg s ticker rs sender_did receiver_did m)"

definition is_compliant ::
  "'c compliance_config_scheme \<Rightarrow> 'a compliance_store_scheme \<Rightarrow> Ticker \<Rightarrow> IdentityId \<Rightarrow> IdentityId
    \<Rightarrow> WeightMeter \<Rightarrow> (bool \<times> WeightMeter) result" where
  "is_compliant cfg s ticker sender_did receiver_did m =
     (let c = AssetCompliances s ticker in
      if paused c then Inr (True, m)
      else is_any_requirement_compliant cfg s ticker (requirements c) sender_did receiver_did m)"

definition requirement_to_result :: "ComplianceRequirement \<Rightarrow> ComplianceRequirementResult" where
  "requirement_to_result r =
     (let from_conds = map (\<lambda>c. \<lparr>condition = c, condition_result = True\<rparr>) in
      \<lparr>sender_results = from_conds (sender_conditions r), receiver_results = from_conds (receiver_conditions r),
       result_id = req_id r, requirement_result = True\<rparr>)"

definition compliance_to_result :: "AssetCompliance \<Rightarrow> AssetComplianceResult" where
  "compliance_to_result c =
     \<lparr>result_paused = paused c, requirement_results = map requirement_to_result (requirements c),
      compliance_result = paused c\<rparr>"

definition all_conditions_hold ::
  "'c compliance_config_scheme \<Rightarrow> 'a compliance_store_scheme \<Rightarrow> Ticker \<Rightarrow> IdentityId option
    \<Rightarrow> ConditionResult list \<Rightarrow> WeightMeter \<Rightarrow> (bool \<times> ConditionResult list \<times> WeightMeter) result" where
  "all_conditions_hold cfg s ticker did conditions m =
     (case did of
        Some d \<Rightarrow> evaluate_conditions cfg s ticker d conditions m
      | None \<Rightarrow> Inr (False, conditions, m))"

fun granular_requirements ::
  "'c compliance_config_scheme \<Rightarrow> 'a compliance_store_scheme \<Rightarrow> Ticker \<Rightarrow> IdentityId option
    \<Rightarrow> IdentityId option \<Rightarrow> ComplianceRequirementResult list \<Rightarrow> bool \<Rightarrow> WeightMeter
    \<Rightarrow> (ComplianceRequirementResult list \<times> bool \<times> WeightMeter) result" where
  "granular_requirements cfg s ticker from to [] acc m = Inr ([], acc, m)"
| "granular_requirements cfg s ticker from to (r # rs) acc m =
     attempt (all_conditions_hold cfg s ticker from (sender_results r) m) (\<lambda>(ok1, scs, m).
     let r1 = r\<lparr>sender_results := scs, requirement_result := (if \<not> ok1 then False else requirement_result r)\<rparr> in
     attempt (all_conditions_hold cfg s ticker to (receiver_results r1) m) (\<lambda>(ok2, rcs, m).
     let r2 = r1\<lparr>receiver_results := rcs, requirement_result := (if \<not> ok2 then False else requirement_result r1)\<rparr> in
     attempt (granular_requirements cfg s ticker from to rs (acc \<or> requirement_result r2) m) (\<lambda>(rs', acc', m).
     Inr (r2 # rs', acc', m))))"

definition verify_restriction_granular ::
  "'c compliance_config_scheme \<Rightarrow> 'a compliance_store_scheme \<Rightarrow> Ticker \<Rightarrow> IdentityId option
    \<Rightarrow> IdentityId option \<Rightarrow> WeightMeter \<Rightarrow> (AssetComplianceResult \<times> WeightMeter) result" where
  "verify_restriction_granular cfg s ticker from to m =
     (let c = compliance_to_result (AssetCompliances s ticker) in
      attempt (granular_requirements cfg s ticker from to (requirement_results c) (compliance_result c) m)
        (\<lambda>(rs, res, m). Inr (c\<lparr>requirement_results := rs, compliance_result := res\<rparr>, m)))"

end
