(* ===== verification/Compliance_Theorems.thy ===== *)
theory Compliance_Theorems
  imports Compliance
begin

text \<open>
  The compliance manager decides what it is meant to decide: a transfer is compliant if and only if
  compliance is paused or one requirement has all its conditions met, where a condition is met by the
  unexpired claims of trusted issuers. The detailed report agrees with the decision, and the
  limits on the requirements hold in every reachable state.
\<close>

section \<open>What conditions mean\<close>

definition has_claim :: "'a claims_store_scheme \<Rightarrow> IdentityId \<Rightarrow> TrustedIssuer list \<Rightarrow> Claim \<Rightarrow> bool" where
  "has_claim s did is cl \<longleftrightarrow> (\<exists>i \<in> set is. is_trusted_for i (claim_type cl) \<and>
     map_option claim (fetch_claim s did (claim_type cl) (issuer i) (as_scope cl)) = Some cl)"

definition has_any_cdd :: "'a claims_store_scheme \<Rightarrow> IdentityId \<Rightarrow> TrustedIssuer list \<Rightarrow> bool" where
  "has_any_cdd s did is \<longleftrightarrow> (\<exists>i \<in> set is. is_trusted_for i ClaimType.CustomerDueDiligence \<and>
     fetch_claim s did ClaimType.CustomerDueDiligence (issuer i) None \<noteq> None)"

definition present :: "'a claims_store_scheme \<Rightarrow> IdentityId \<Rightarrow> TrustedIssuer list \<Rightarrow> Claim \<Rightarrow> bool" where
  "present s did is cl \<longleftrightarrow>
     (if cl = Claim.CustomerDueDiligence 0 then has_any_cdd s did is else has_claim s did is cl)"

definition condition_holds ::
  "'a compliance_store_scheme \<Rightarrow> Ticker \<Rightarrow> IdentityId \<Rightarrow> Condition \<Rightarrow> bool" where
  "condition_holds s ticker did c =
     (let is = issuers_for s ticker c in
      case condition_type c of
        IsPresent cl \<Rightarrow> present s did is cl
      | IsAbsent cl \<Rightarrow> \<not> present s did is cl
      | IsAnyOf cs \<Rightarrow> (\<exists>cl \<in> set cs. has_claim s did is cl)
      | IsNoneOf cs \<Rightarrow> \<not> (\<exists>cl \<in> set cs. has_claim s did is cl)
      | IsIdentity ExternalAgent \<Rightarrow> GroupOfAgent s ticker did \<noteq> None
      | IsIdentity (TargetIdentity.Specific i) \<Rightarrow> did = i)"

definition requirement_holds ::
  "'a compliance_store_scheme \<Rightarrow> Ticker \<Rightarrow> IdentityId \<Rightarrow> IdentityId \<Rightarrow> ComplianceRequirement \<Rightarrow> bool" where
  "requirement_holds s ticker f r req \<longleftrightarrow>
     (\<forall>c \<in> set (sender_conditions req). condition_holds s ticker f c) \<and>
     (\<forall>c \<in> set (receiver_conditions req). condition_holds s ticker r c)"

definition compliant :: "'a compliance_store_scheme \<Rightarrow> Ticker \<Rightarrow> IdentityId \<Rightarrow> IdentityId \<Rightarrow> bool" where
  "compliant s ticker f r \<longleftrightarrow> paused (AssetCompliances s ticker) \<or>
     (\<exists>req \<in> set (requirements (AssetCompliances s ticker)). requirement_holds s ticker f r req)"

text \<open>A claim is stored under its own type and scope.\<close>

definition claims_keyed :: "'a claims_store_scheme \<Rightarrow> bool" where
  "claims_keyed s \<longleftrightarrow> (\<forall>t ct i sc ic. fetch_base_claim_with_issuer s t ct i sc = Some ic \<longrightarrow>
     claim_type (claim ic) = ct \<and> as_scope (claim ic) = sc)"

lemma claims_keyed_add:
  "base_add_claim t c i e s = Inr s' \<Longrightarrow> claims_keyed s \<Longrightarrow> claims_keyed s'"
  by (auto simp: claims_keyed_def fetch_after_add)

lemma claims_keyed_revoke:
  "base_revoke_claim t ct i sc s = Inr s' \<Longrightarrow> claims_keyed s \<Longrightarrow> claims_keyed s'"
  by (auto simp: claims_keyed_def fetch_after_revoke split: if_splits)

lemma claims_keyed_fetch:
  "claims_keyed s \<Longrightarrow> fetch_claim s t ct i sc = Some ic \<Longrightarrow> claim_type (claim ic) = ct \<and> as_scope (claim ic) = sc"
  by (auto simp: claims_keyed_def fetch_claim_def split: option.splits if_splits)

section \<open>Conditions are evaluated to what they mean\<close>

lemma set_map_filter': "set (List.map_filter f xs) = {y. \<exists>x \<in> set xs. f x = Some y}"
  by (induction xs) (auto simp: List.map_filter_simps split: option.splits)

lemma set_fetch_claims:
  "cl' \<in> set (fetch_claims s did cl is) \<longleftrightarrow> (\<exists>i \<in> set is. is_trusted_for i (claim_type cl) \<and>
     map_option claim (fetch_claim s did (claim_type cl) (issuer i) (as_scope cl)) = Some cl')"
  unfolding fetch_claims_def set_map_filter' by auto

lemma cdd_type:
  "(case cl of Claim.CustomerDueDiligence _ \<Rightarrow> True | _ \<Rightarrow> False) \<longleftrightarrow> claim_type cl = ClaimType.CustomerDueDiligence"
  by (cases cl) (simp_all add: claim_type_def)

lemma exists_claim_present:
  assumes "claims_keyed s"
  shows "exists_claim cl (fetch_claims s did cl is) \<longleftrightarrow> present s did is cl"
proof (cases "cl = Claim.CustomerDueDiligence 0")
  case True
  have key: "claim_type cl = ClaimType.CustomerDueDiligence" "as_scope cl = None"
    by (simp_all add: True claim_type_def as_scope_def)
  have "exists_claim cl (fetch_claims s did cl is) \<longleftrightarrow>
      (\<exists>c \<in> set (fetch_claims s did cl is). claim_type c = ClaimType.CustomerDueDiligence)"
    by (simp add: exists_claim_def True list_ex_iff cdd_type)
  also have "\<dots> \<longleftrightarrow> has_any_cdd s did is"
    unfolding has_any_cdd_def Bex_def set_fetch_claims key using claims_keyed_fetch [OF assms] by fastforce
  finally show ?thesis by (simp add: present_def True)
next
  case False
  then have "exists_claim cl (fetch_claims s did cl is) \<longleftrightarrow> cl \<in> set (fetch_claims s did cl is)"
    by (cases cl) (auto simp: exists_claim_def list_ex_iff)
  then show ?thesis using False by (simp add: set_fetch_claims present_def has_claim_def)
qed

lemma any_claim_has:
  assumes "claims_keyed s"
  shows "any_claim cs (concat (map (\<lambda>cl. fetch_claims s did cl is) cs)) \<longleftrightarrow> (\<exists>cl \<in> set cs. has_claim s did is cl)"
proof -
  have same: "cl' \<in> set (fetch_claims s did cl' is)" if mem: "cl' \<in> set (fetch_claims s did cl is)" for cl cl'
  proof -
    obtain i ic where i: "i \<in> set is" "is_trusted_for i (claim_type cl)"
      "fetch_claim s did (claim_type cl) (issuer i) (as_scope cl) = Some ic" "claim ic = cl'"
      using mem by (auto simp: set_fetch_claims)
    then have "claim_type cl' = claim_type cl \<and> as_scope cl' = as_scope cl"
      using claims_keyed_fetch [OF assms i(3)] by simp
    then show ?thesis using i by (auto simp: set_fetch_claims)
  qed
  have "any_claim cs (concat (map (\<lambda>cl. fetch_claims s did cl is) cs)) \<longleftrightarrow>
      (\<exists>cl \<in> set cs. cl \<in> set (fetch_claims s did cl is))"
    using same by (auto simp: any_claim_def list_ex_iff)
  then show ?thesis by (simp add: set_fetch_claims has_claim_def)
qed

lemma is_condition_satisfied_exact:
  assumes "is_condition_satisfied cfg s ticker did c m = Inr (b, m')" "claims_keyed s"
  shows "b \<longleftrightarrow> condition_holds s ticker did c"
proof (cases "condition_type c")
  case (IsIdentity t)
  then show ?thesis
    using assms(1)
    by (cases t) (auto simp: is_condition_satisfied_def fetch_context_def Let_def attempt_Inr_iff run_condition_def
        condition_holds_def)
qed (use assms(1) in \<open>auto simp: is_condition_satisfied_def fetch_context_def Let_def attempt_Inr_iff run_condition_def
    condition_holds_def exists_claim_present [OF assms(2)] any_claim_has [OF assms(2)]\<close>)

lemma conditions_exact:
  assumes "claims_keyed s"
  shows "are_all_conditions_satisfied cfg s ticker did cs m = Inr (b, m') \<Longrightarrow>
    b \<longleftrightarrow> (\<forall>c \<in> set cs. condition_holds s ticker did c)"
  by (induction cs arbitrary: m)
    (auto simp: attempt_Inr_iff dest!: is_condition_satisfied_exact [OF _ assms] split: if_splits)

lemma requirements_exact:
  assumes "claims_keyed s"
  shows "is_any_requirement_compliant cfg s ticker rs f r m = Inr (b, m') \<Longrightarrow>
    b \<longleftrightarrow> (\<exists>req \<in> set rs. requirement_holds s ticker f r req)"
  by (induction rs arbitrary: m)
    (auto simp: attempt_Inr_iff requirement_holds_def dest!: conditions_exact [OF assms] split: if_splits)

lemma evaluate_exact:
  assumes "claims_keyed s"
  shows "evaluate_conditions cfg s ticker did cs m = Inr (b, cs', m') \<Longrightarrow>
    (b \<longleftrightarrow> (\<forall>c \<in> set cs. condition_holds s ticker did (condition c))) \<and>
    map condition cs' = map condition cs \<and>
    map condition_result cs' = map (\<lambda>c. condition_holds s ticker did (condition c)) cs"
  by (induction cs arbitrary: m b cs')
    (fastforce simp: attempt_Inr_iff dest!: is_condition_satisfied_exact [OF _ assms])+

lemma compliance_weight_error:
  "compliance_consume_weight cfg w m = Inl e \<Longrightarrow> e = ComplianceError compliance_error.WeightLimitExceeded"
  by (auto simp: compliance_consume_weight_def ensure_def split: prod.splits if_splits)

lemma condition_error:
  assumes "is_condition_satisfied cfg s ticker did c m = Inl e"
  shows "e = ComplianceError compliance_error.WeightLimitExceeded"
  using assms compliance_weight_error
  by (auto simp: is_condition_satisfied_def fetch_context_def Let_def attempt_Inl_iff
      split: ConditionType.splits TargetIdentity.splits)

lemma conditions_error:
  "are_all_conditions_satisfied cfg s ticker did cs m = Inl e \<Longrightarrow> e = ComplianceError compliance_error.WeightLimitExceeded"
  by (induction cs arbitrary: m) (auto simp: attempt_Inl_iff dest: condition_error split: if_splits)

lemma requirements_error:
  "is_any_requirement_compliant cfg s ticker rs f r m = Inl e \<Longrightarrow> e = ComplianceError compliance_error.WeightLimitExceeded"
  by (induction rs arbitrary: m) (auto simp: attempt_Inl_iff dest: conditions_error split: if_splits)

section \<open>The detailed report\<close>

definition all_hold ::
  "'a compliance_store_scheme \<Rightarrow> Ticker \<Rightarrow> IdentityId option \<Rightarrow> Condition list \<Rightarrow> bool" where
  "all_hold s ticker did cs =
     (case did of Some d \<Rightarrow> list_all (condition_holds s ticker d) cs | None \<Rightarrow> False)"

lemma all_conditions_hold_exact:
  assumes "claims_keyed s" "all_conditions_hold cfg s ticker did cs m = Inr (b, cs', m')"
  shows "b = all_hold s ticker did (map condition cs)"
  using assms(2)
  by (auto simp: all_conditions_hold_def all_hold_def list_all_iff dest!: evaluate_exact [OF assms(1)]
      split: option.splits)

lemma granular_exact:
  assumes "claims_keyed s"
  shows "granular_requirements cfg s ticker from to rs acc m = Inr (rs', acc', m') \<Longrightarrow>
    list_all requirement_result rs \<Longrightarrow>
    map requirement_result rs' = map (\<lambda>r. all_hold s ticker from (map condition (sender_results r)) \<and>
      all_hold s ticker to (map condition (receiver_results r))) rs \<and>
    (acc' \<longleftrightarrow> acc \<or> list_ex requirement_result rs')"
  by (induction rs arbitrary: acc m rs')
    (fastforce simp: attempt_Inr_iff Let_def dest!: all_conditions_hold_exact [OF assms])+

section \<open>Limits on the requirements\<close>

definition complexity :: "ComplianceRequirement list \<Rightarrow> nat \<Rightarrow> nat" where
  "complexity reqs n = sum_list (map (\<lambda>c. condition_complexity c n) (concat (map requirement_conditions reqs)))"

lemma fold_saturating: "a \<le> mx \<Longrightarrow> fold (\<lambda>c t. saturating_add mx t (f c)) cs a = min mx (a + sum_list (map f cs))"
  by (induction cs arbitrary: a) (auto simp: saturating_add_def min_def)

lemma verify_complexity_iff:
  assumes "MaxConditionComplexity cfg < u32_max" "length reqs \<le> u32_max"
  shows "base_verify_compliance_complexity cfg reqs n = Inr u \<longleftrightarrow>
    complexity reqs n \<le> MaxConditionComplexity cfg \<and> length reqs \<le> MaxConditionComplexity cfg"
  using assms by (auto simp: base_verify_compliance_complexity_def Let_def fold_saturating complexity_def)

lemma condition_complexity_eq:
  "condition_complexity c n = min u32_max (min u64_max (claim_count (condition_type c) *
     max (if issuers c = [] then n else length (issuers c)) 1))"
  by (cases "issuers c") (auto simp: condition_complexity_def Let_def saturating_mul_def)

lemma condition_complexity_mono: "n \<le> k \<Longrightarrow> condition_complexity c n \<le> condition_complexity c k"
  unfolding condition_complexity_eq by (intro min.mono mult_le_mono) auto

lemma complexity_mono: "n \<le> k \<Longrightarrow> complexity reqs n \<le> complexity reqs k"
  unfolding complexity_def by (intro sum_list_mono) (simp add: condition_complexity_mono)

lemma complexity_filter: "complexity (filter P reqs) n \<le> complexity reqs n"
  by (induction reqs) (auto simp: complexity_def)

text \<open>
  The worst case of evaluating the requirements of a ticker with the current default issuers is within the
  limit, and the requirements of a ticker are numbered in order.
\<close>

definition compliance_bounded :: "'c compliance_config_scheme \<Rightarrow> 'a compliance_store_scheme \<Rightarrow> bool" where
  "compliance_bounded cfg s \<longleftrightarrow> (\<forall>t.
     length (requirements (AssetCompliances s t)) \<le> MaxConditionComplexity cfg \<and>
     complexity (requirements (AssetCompliances s t)) (length (TrustedClaimIssuer s t)) \<le> MaxConditionComplexity cfg \<and>
     length (TrustedClaimIssuer s t) \<le> MaxLen cfg)"

definition requirements_ordered :: "'a compliance_store_scheme \<Rightarrow> Ticker \<Rightarrow> bool" where
  "requirements_ordered s t \<longleftrightarrow> sorted (map req_id (requirements (AssetCompliances s t))) \<and>
     distinct (map req_id (requirements (AssetCompliances s t)))"

text \<open>The limits of the runtime are below the largest numbers of their types.\<close>

definition compliance_limits :: "'c compliance_config_scheme \<Rightarrow> bool" where
  "compliance_limits cfg \<longleftrightarrow> MaxConditionComplexity cfg < u32_max \<and> MaxLen cfg < u64_max"

text \<open>The operations of the pallet. A list that arrives with a call has a length of 32 bits at most.\<close>

inductive compliance_step ::
  "'c compliance_config_scheme \<Rightarrow> 'a compliance_store_scheme \<Rightarrow> 'a compliance_store_scheme \<Rightarrow> bool"
  for cfg where
  add: "add_compliance_requirement cfg origin ticker senders receivers s = Inr s' \<Longrightarrow>
    compliance_step cfg s s'"
| remove: "remove_compliance_requirement origin ticker i s = Inr s' \<Longrightarrow> compliance_step cfg s s'"
| replace: "replace_asset_compliance cfg origin ticker reqs s = Inr s' \<Longrightarrow> length reqs \<le> u32_max \<Longrightarrow>
    compliance_step cfg s s'"
| reset: "reset_asset_compliance origin ticker s = Inr s' \<Longrightarrow> compliance_step cfg s s'"
| pause: "pause_asset_compliance origin ticker s = Inr s' \<Longrightarrow> compliance_step cfg s s'"
| resume: "resume_asset_compliance origin ticker s = Inr s' \<Longrightarrow> compliance_step cfg s s'"
| add_issuer: "add_default_trusted_claim_issuer cfg origin ticker i s = Inr s' \<Longrightarrow> compliance_step cfg s s'"
| remove_issuer: "remove_default_trusted_claim_issuer origin ticker d s = Inr s' \<Longrightarrow> compliance_step cfg s s'"
| change: "change_compliance_requirement cfg origin ticker req s = Inr s' \<Longrightarrow> compliance_step cfg s s'"

lemma put_compliance_bounded:
  assumes "compliance_bounded cfg s" "length (requirements c) \<le> MaxConditionComplexity cfg"
    "complexity (requirements c) (length (TrustedClaimIssuer s t)) \<le> MaxConditionComplexity cfg"
  shows "compliance_bounded cfg (put_compliance t c s)"
  using assms by (simp add: compliance_bounded_def put_compliance_def)

lemma put_compliance_ordered:
  assumes "requirements_ordered s u" "t = u \<Longrightarrow> sorted (map req_id (requirements c)) \<and> distinct (map req_id (requirements c))"
  shows "requirements_ordered (put_compliance t c s) u"
  using assms by (simp add: requirements_ordered_def put_compliance_def)

lemma verified_complexity:
  assumes "verify_compliance_complexity cfg s reqs t 0 = Inr u" "compliance_bounded cfg s" "compliance_limits cfg"
    "length reqs \<le> u32_max"
  shows "complexity reqs (length (TrustedClaimIssuer s t)) \<le> MaxConditionComplexity cfg"
    "length reqs \<le> MaxConditionComplexity cfg"
proof -
  have "length (TrustedClaimIssuer s t) \<le> u64_max"
    using assms(2,3) unfolding compliance_bounded_def compliance_limits_def by (meson le_trans less_imp_le)
  then have "saturating_add u64_max (length (TrustedClaimIssuer s t)) 0 = length (TrustedClaimIssuer s t)"
    by (simp add: saturating_add_def)
  then have "base_verify_compliance_complexity cfg reqs (length (TrustedClaimIssuer s t)) = Inr u"
    using assms(1) by (simp add: verify_compliance_complexity_def)
  then show "complexity reqs (length (TrustedClaimIssuer s t)) \<le> MaxConditionComplexity cfg"
    "length reqs \<le> MaxConditionComplexity cfg"
    using assms(3,4) verify_complexity_iff [of cfg reqs] unfolding compliance_limits_def by blast+
qed

lemma length_fits: "compliance_bounded cfg s \<Longrightarrow> compliance_limits cfg \<Longrightarrow>
  length (requirements (AssetCompliances s t)) < u32_max"
  unfolding compliance_bounded_def compliance_limits_def by (meson le_less_trans)

lemma dedup_id [simp]: "req_id (requirement_dedup r) = req_id r"
  by (simp add: requirement_dedup_def Let_def)

lemma dedup_limited_id: "dedup_and_ensure_requirement_limited cfg r = Inr r' \<Longrightarrow> req_id r' = req_id r"
  by (auto simp: dedup_and_ensure_requirement_limited_def Let_def attempt_Inr_iff)

lemma dedup_by_key_le: "length (dedup_by_key f xs) \<le> length xs"
  by (induction f xs rule: dedup_by_key.induct) auto

lemma dedup_by_key_distinct:
  fixes f :: "'e \<Rightarrow> 'k::linorder"
  shows "sorted (map f xs) \<Longrightarrow> length (dedup_by_key f xs) = length xs \<Longrightarrow> dedup_by_key f xs = xs \<and> distinct (map f xs)"
proof (induction f xs rule: dedup_by_key.induct)
  case (1 f x y zs)
  have "f x \<noteq> f y"
  proof
    assume "f x = f y"
    then have "length (dedup_by_key f (x # zs)) = Suc (Suc (length zs))" using "1.prems" by simp
    then show False using dedup_by_key_le [of f "x # zs"] by simp
  qed
  moreover from this have "dedup_by_key f (y # zs) = y # zs \<and> distinct (map f (y # zs))"
    using 1 by auto
  moreover have "f x < f z" if "z \<in> set (y # zs)" for z
    using "1.prems"(1) that \<open>f x \<noteq> f y\<close> by (auto simp: le_less intro: less_le_trans)
  then have "f x \<notin> f ` set (y # zs)" by (metis imageE less_irrefl)
  ultimately show ?case by simp
qed auto

lemma ids_append:
  assumes "sorted (map req_id rs)" "distinct (map req_id rs)" "rs \<noteq> [] \<Longrightarrow> req_id (last rs) < i" "req_id r = i"
  shows "sorted (map req_id (rs @ [r])) \<and> distinct (map req_id (rs @ [r]))"
proof -
  have "req_id x < i" if mem: "x \<in> set rs" for x
  proof -
    have ne: "rs \<noteq> []" using mem by auto
    obtain k where k: "k < length rs" "rs ! k = x" using mem by (auto simp: in_set_conv_nth)
    then have "map req_id rs ! k \<le> map req_id rs ! (length rs - 1)"
      using assms(1) by (intro sorted_nth_mono) auto
    then show ?thesis using k ne assms(3) by (simp add: last_conv_nth)
  qed
  then have "\<forall>x \<in> set rs. req_id x \<le> i" "i \<notin> req_id ` set rs" by (auto simp: less_imp_le dest: less_imp_neq)
  then show ?thesis using assms(1,2,4) by (auto simp: sorted_append)
qed

lemma charge_fee_compliance:
  assumes "charge_fee cfg op s = Inr s'"
  shows "AssetCompliances s' = AssetCompliances s" "TrustedClaimIssuer s' = TrustedClaimIssuer s"
proof -
  obtain subs ledger where "s' = s\<lparr>Subsidies := subs, FreeBalance := ledger\<rparr>"
    using assms charge_fees_frame unfolding charge_fee_def by blast
  then show "AssetCompliances s' = AssetCompliances s" "TrustedClaimIssuer s' = TrustedClaimIssuer s" by simp_all
qed

lemma add_requirement_Inr:
  fixes s s' :: "'a compliance_store_scheme"
  assumes "add_compliance_requirement cfg origin ticker senders receivers s = Inr s'"
  obtains r s1 where "req_id r = wrapping_add u32_max (get_latest_requirement_id s ticker) 1"
    "verify_compliance_complexity cfg s (requirements (AssetCompliances s ticker) @ [r]) ticker 0 = Inr ()"
    "AssetCompliances s1 = AssetCompliances s" "TrustedClaimIssuer s1 = TrustedClaimIssuer s"
    "s' = put_compliance ticker ((AssetCompliances s ticker)\<lparr>requirements := requirements (AssetCompliances s ticker) @ [r]\<rparr>) s1"
proof -
  let ?c = "AssetCompliances s ticker" and ?i = "wrapping_add u32_max (get_latest_requirement_id s ticker) 1"
  obtain r s1 where d: "dedup_and_ensure_requirement_limited cfg
      \<lparr>sender_conditions = senders, receiver_conditions = receivers, req_id = ?i\<rparr> = Inr r"
    and v: "verify_compliance_complexity cfg s (requirements ?c @ [r]) ticker 0 = Inr ()"
    and f: "charge_fee cfg ComplianceManagerAddComplianceRequirement s = Inr s1"
    and s': "s' = put_compliance ticker (?c\<lparr>requirements := requirements ?c @ [r]\<rparr>) s1"
    using assms by (auto simp: add_compliance_requirement_def base_add_compliance_requirement_def Let_def res_simps)
  then show thesis using that [OF _ v charge_fee_compliance [OF f] s'] dedup_limited_id [OF d] by simp
qed

lemma change_requirement_Inr:
  assumes "change_compliance_requirement cfg origin ticker req s = Inr s'"
  obtains pos r where "binary_search (map req_id (requirements (AssetCompliances s ticker))) (req_id req) = Inr pos"
    "req_id r = req_id req"
    "verify_compliance_complexity cfg s ((requirements (AssetCompliances s ticker))[pos := r]) ticker 0 = Inr ()"
    "s' = put_compliance ticker ((AssetCompliances s ticker)\<lparr>requirements := (requirements (AssetCompliances s ticker))[pos := r]\<rparr>) s"
proof -
  let ?rs = "requirements (AssetCompliances s ticker)"
  obtain pos r where p: "binary_search (map req_id ?rs) (req_id req) = Inr pos"
    and d: "dedup_and_ensure_requirement_limited cfg req = Inr r"
    and v: "verify_compliance_complexity cfg s (?rs[pos := r]) ticker 0 = Inr ()"
    and s': "s' = put_compliance ticker ((AssetCompliances s ticker)\<lparr>requirements := ?rs[pos := r]\<rparr>) s"
    using assms by (auto simp: change_compliance_requirement_def Let_def res_simps split: sum.splits)
  show thesis by (rule that [OF p dedup_limited_id [OF d] v s'])
qed

lemma compliance_step_bounded:
  assumes "compliance_step cfg s s'" "compliance_limits cfg" "compliance_bounded cfg s"
  shows "compliance_bounded cfg s'"
  using assms
proof (induction rule: compliance_step.induct)
  case (add origin ticker senders receivers s s')
  let ?c = "AssetCompliances s ticker"
  from add.hyps obtain r s1 where v: "verify_compliance_complexity cfg s (requirements ?c @ [r]) ticker 0 = Inr ()"
    and s1: "AssetCompliances s1 = AssetCompliances s" "TrustedClaimIssuer s1 = TrustedClaimIssuer s"
    and s': "s' = put_compliance ticker (?c\<lparr>requirements := requirements ?c @ [r]\<rparr>) s1"
    by (rule add_requirement_Inr)
  have inv1: "compliance_bounded cfg s1" using add.prems(2) s1 by (simp add: compliance_bounded_def)
  have "length (requirements ?c @ [r]) \<le> u32_max" using length_fits [OF add.prems(2,1), of ticker] by simp
  note vc = verified_complexity [OF v add.prems(2,1) this]
  then show ?case unfolding s' using s1 by (intro put_compliance_bounded [OF inv1]) simp_all
next
  case (remove origin ticker i s s')
  let ?rs = "requirements (AssetCompliances s ticker)" and ?P = "\<lambda>r. req_id r \<noteq> i"
  have "length (filter ?P ?rs) \<le> length ?rs" by simp
  then have "length (filter ?P ?rs) \<le> MaxConditionComplexity cfg"
    using remove.prems(2) unfolding compliance_bounded_def by (meson le_trans)
  moreover have "complexity (filter ?P ?rs) (length (TrustedClaimIssuer s ticker)) \<le> MaxConditionComplexity cfg"
    using remove.prems(2) complexity_filter unfolding compliance_bounded_def by (meson le_trans)
  moreover have "s' = put_compliance ticker ((AssetCompliances s ticker)\<lparr>requirements := filter ?P ?rs\<rparr>) s"
    using remove.hyps by (auto simp: remove_compliance_requirement_def Let_def res_simps)
  ultimately show ?case using put_compliance_bounded [OF remove.prems(2)] by simp
next
  case (replace origin ticker reqs s s')
  let ?rs = "dedup_by_key req_id (sort_key req_id reqs)"
  have l: "length ?rs = length reqs"
    and v: "verify_compliance_complexity cfg s (map requirement_dedup ?rs) ticker 0 = Inr ()"
    and s': "s' = put_compliance ticker ((AssetCompliances s ticker)\<lparr>requirements := map requirement_dedup ?rs\<rparr>) s"
    using replace.hyps(1) by (auto simp: replace_asset_compliance_def Let_def res_simps)
  have "length (map requirement_dedup ?rs) \<le> u32_max" using l replace.hyps(2) by simp
  note vc = verified_complexity [OF v replace.prems(2,1) this]
  then show ?case unfolding s' by (intro put_compliance_bounded [OF replace.prems(2)]) simp_all
next
  case (reset origin ticker s s')
  then show ?case
    by (auto simp: reset_asset_compliance_def res_simps default_compliance_def complexity_def intro!: put_compliance_bounded)
next
  case (pause origin ticker s s')
  then show ?case
    by (auto simp: pause_asset_compliance_def pause_resume_asset_compliance_def res_simps compliance_bounded_def put_compliance_def)
next
  case (resume origin ticker s s')
  then show ?case
    by (auto simp: resume_asset_compliance_def pause_resume_asset_compliance_def res_simps compliance_bounded_def put_compliance_def)
next
  case (add_issuer origin ticker i s s')
  let ?is = "TrustedClaimIssuer s ticker" and ?rs = "requirements (AssetCompliances s ticker)"
  have "length ?is < u64_max"
    using add_issuer.prems unfolding compliance_bounded_def compliance_limits_def by (meson le_less_trans)
  then have n: "saturating_add u64_max (length ?is) 1 = length (?is @ [i])" by (simp add: saturating_add_def)
  then have v: "base_verify_compliance_complexity cfg ?rs (length (?is @ [i])) = Inr ()"
    and l: "length (?is @ [i]) \<le> MaxLen cfg" and s': "s' = put_trusted_issuers ticker (?is @ [i]) s"
    using add_issuer.hyps
    by (auto simp: add_default_trusted_claim_issuer_def base_add_default_trusted_claim_issuer_def Let_def res_simps
        ensure_length_ok_def)
  have "complexity ?rs (length (?is @ [i])) \<le> MaxConditionComplexity cfg"
    using v verify_complexity_iff [of cfg ?rs] length_fits [OF add_issuer.prems(2,1), of ticker] add_issuer.prems(1)
    unfolding compliance_limits_def by (meson less_imp_le)
  then show ?case using add_issuer.prems(2) l by (simp add: s' compliance_bounded_def put_trusted_issuers_def)
next
  case (remove_issuer origin ticker d s s')
  let ?is = "TrustedClaimIssuer s ticker"
  have s': "s' = put_trusted_issuers ticker (filter (\<lambda>ti. issuer ti \<noteq> d) ?is) s"
    using remove_issuer.hyps by (auto simp: remove_default_trusted_claim_issuer_def Let_def res_simps)
  have len: "length (filter (\<lambda>ti. issuer ti \<noteq> d) ?is) \<le> length ?is" by simp
  then have "complexity (requirements (AssetCompliances s ticker)) (length (filter (\<lambda>ti. issuer ti \<noteq> d) ?is)) \<le>
      MaxConditionComplexity cfg" "length (filter (\<lambda>ti. issuer ti \<noteq> d) ?is) \<le> MaxLen cfg"
    using remove_issuer.prems(2) complexity_mono [OF len] unfolding compliance_bounded_def by (meson le_trans)+
  then show ?case using remove_issuer.prems(2) by (simp add: s' compliance_bounded_def put_trusted_issuers_def)
next
  case (change origin ticker req s s')
  from change.hyps obtain pos r where v: "verify_compliance_complexity cfg s ((requirements (AssetCompliances s ticker))[pos := r]) ticker 0 = Inr ()"
    and s': "s' = put_compliance ticker ((AssetCompliances s ticker)\<lparr>requirements := (requirements (AssetCompliances s ticker))[pos := r]\<rparr>) s"
    by (rule change_requirement_Inr)
  have "length ((requirements (AssetCompliances s ticker))[pos := r]) \<le> u32_max"
    using length_fits [OF change.prems(2,1), of ticker] by simp
  note vc = verified_complexity [OF v change.prems(2,1) this]
  then show ?case unfolding s' by (intro put_compliance_bounded [OF change.prems(2)]) simp_all
qed

lemma compliance_step_ordered:
  assumes "compliance_step cfg s s'" "get_latest_requirement_id s t < u32_max" "requirements_ordered s t"
  shows "requirements_ordered s' t"
  using assms
proof (induction rule: compliance_step.induct)
  case (add origin ticker senders receivers s s')
  let ?c = "AssetCompliances s ticker"
  from add.hyps obtain r s1 where i: "req_id r = wrapping_add u32_max (get_latest_requirement_id s ticker) 1"
    and s1: "AssetCompliances s1 = AssetCompliances s" and s': "s' = put_compliance ticker (?c\<lparr>requirements := requirements ?c @ [r]\<rparr>) s1"
    by (rule add_requirement_Inr)
  have "sorted (map req_id (requirements ?c @ [r])) \<and> distinct (map req_id (requirements ?c @ [r]))" if "ticker = t"
  proof (rule ids_append)
    have "req_id r = get_latest_requirement_id s ticker + 1" using i add.prems(1) that by (simp add: wrapping_add_def)
    then show "requirements ?c \<noteq> [] \<Longrightarrow> req_id (last (requirements ?c)) < req_id r"
      by (simp add: get_latest_requirement_id_def split: list.splits)
  qed (use add.prems(2) that in \<open>simp_all add: requirements_ordered_def\<close>)
  then show ?case
    unfolding s' using add.prems(2) s1 by (intro put_compliance_ordered) (simp_all add: requirements_ordered_def)
next
  case (remove origin ticker i s s')
  then show ?case
    by (auto simp: remove_compliance_requirement_def Let_def res_simps requirements_ordered_def put_compliance_def
        sorted_filter distinct_map_filter)
next
  case (replace origin ticker reqs s s')
  let ?rs = "dedup_by_key req_id (sort_key req_id reqs)"
  have l: "length ?rs = length reqs"
    and s': "s' = put_compliance ticker ((AssetCompliances s ticker)\<lparr>requirements := map requirement_dedup ?rs\<rparr>) s"
    using replace.hyps(1) by (auto simp: replace_asset_compliance_def Let_def res_simps)
  have d: "?rs = sort_key req_id reqs \<and> distinct (map req_id (sort_key req_id reqs))"
    using l by (intro dedup_by_key_distinct) simp_all
  then show ?case unfolding s' by (intro put_compliance_ordered [OF replace.prems(2)]) (simp add: comp_def)
next
  case (change origin ticker req s s')
  let ?c = "AssetCompliances s ticker"
  from change.hyps obtain pos r where p: "binary_search (map req_id (requirements ?c)) (req_id req) = Inr pos"
    and r: "req_id r = req_id req" and s': "s' = put_compliance ticker (?c\<lparr>requirements := (requirements ?c)[pos := r]\<rparr>) s"
    by (rule change_requirement_Inr)
  have "map req_id ((requirements ?c)[pos := r]) = map req_id (requirements ?c)" if "ticker = t"
    using binary_search_found(1,2) [OF _ p] change.prems(2) that r
    by (metis list_update_id map_update requirements_ordered_def)
  then show ?case unfolding s' using change.prems(2)
    by (intro put_compliance_ordered) (simp_all add: requirements_ordered_def)
qed (auto simp: reset_asset_compliance_def pause_asset_compliance_def resume_asset_compliance_def pause_resume_asset_compliance_def
    add_default_trusted_claim_issuer_def base_add_default_trusted_claim_issuer_def remove_default_trusted_claim_issuer_def
    default_compliance_def put_trusted_issuers_def put_compliance_def requirements_ordered_def Let_def res_simps)

text \<open>Where the numbers end, so does the order: after the number \<open>2^32 - 1\<close> comes 0.\<close>

lemma numbers_wrap:
  assumes "add_compliance_requirement cfg origin ticker senders receivers s = Inr s'" "get_latest_requirement_id s ticker = u32_max"
  shows "\<not> requirements_ordered s' ticker"
proof -
  let ?rs = "requirements (AssetCompliances s ticker)"
  from assms(1) obtain r s1 where i: "req_id r = wrapping_add u32_max (get_latest_requirement_id s ticker) 1"
    and s': "s' = put_compliance ticker ((AssetCompliances s ticker)\<lparr>requirements := ?rs @ [r]\<rparr>) s1"
    by (rule add_requirement_Inr)
  have r: "req_id r = 0" using i assms(2) by (simp add: wrapping_add_def)
  have ne: "?rs \<noteq> []" "req_id (last ?rs) = u32_max"
    using assms(2) by (auto simp: get_latest_requirement_id_def u32_max_def split: list.splits)
  then have "last ?rs \<in> set ?rs" by simp
  then show ?thesis using r ne(2) by (auto simp: s' requirements_ordered_def put_compliance_def sorted_append u32_max_def)
qed

interpretation compliance_system:
  invariant_system "\<lambda>s s'. compliance_step cfg s s' \<and> compliance_limits cfg" "compliance_bounded cfg"
  by unfold_locales (use compliance_step_bounded in blast)

interpretation requirements_system:
  invariant_system "\<lambda>s s'. compliance_step cfg s s' \<and> get_latest_requirement_id s t < u32_max" "\<lambda>s. requirements_ordered s t"
  by unfold_locales (use compliance_step_ordered in blast)

section \<open>Properties\<close>

text \<open>
  Issuer 3 is trusted for accreditation. Identity 1 may send, and a receiver must have an
  accreditation for ticker 7: identity 2 has one until the moment 500.
\<close>

definition ex_accredited :: Claim where
  "ex_accredited = Claim.Accredited (Scope.Ticker 7)"

definition ex_requirement :: ComplianceRequirement where
  "ex_requirement = \<lparr>
     sender_conditions = [\<lparr>condition_type = IsIdentity (TargetIdentity.Specific 4), issuers = []\<rparr>],
     receiver_conditions = [\<lparr>condition_type = IsPresent ex_accredited, issuers = []\<rparr>], req_id = 3\<rparr>"

definition ex_compliance_config :: compliance_config where
  "ex_compliance_config = statistics_config.extend ex_stats_config
     (compliance_config.fields 50 (\<lambda>_ _. Weight 2 0) (\<lambda>_. Weight 2 0))"

definition ex_compliance :: compliance_store where
  "ex_compliance = (statistics_store.extend ex_stats
     (compliance_store.fields
        ((\<lambda>_. default_compliance)(7 := \<lparr>paused = False, requirements = [ex_requirement]\<rparr>))
        ((\<lambda>_. [])(7 := [\<lparr>issuer = 3, trusted_for = TrustedFor.Specific [ClaimType.Accredited]\<rparr>]))))
     \<lparr>Claims := (\<lambda>_. [])(\<lparr>claim_target = 2, key_claim_type = ClaimType.Accredited\<rparr> :=
        [(\<lparr>key_issuer = 3, key_scope = Some (Scope.Ticker 7)\<rparr>,
          \<lparr>claim_issuer = 3, issuance_date = 9, last_update_date = 9, claim_expiry = Some 500, claim = ex_accredited\<rparr>)])\<rparr>"

lemmas ex_compliance_defs = ex_compliance_def statistics_store.defs compliance_store.defs

lemma ex_compliance_sel [simp]:
  "AssetCompliances ex_compliance t = (if t = 7 then \<lparr>paused = False, requirements = [ex_requirement]\<rparr> else default_compliance)"
  "TrustedClaimIssuer ex_compliance t =
     (if t = 7 then [\<lparr>issuer = 3, trusted_for = TrustedFor.Specific [ClaimType.Accredited]\<rparr>] else [])"
  "timestamp ex_compliance = 100"
  by (simp_all add: ex_compliance_defs ex_stats_defs)

lemma ex_compliance_fetch:
  "fetch_base_claim_with_issuer ex_compliance t ct i sc =
     (if t = 2 \<and> ct = ClaimType.Accredited \<and> i = 3 \<and> sc = Some (Scope.Ticker 7)
      then Some \<lparr>claim_issuer = 3, issuance_date = 9, last_update_date = 9, claim_expiry = Some 500, claim = ex_accredited\<rparr>
      else None)"
  by (simp add: fetch_base_claim_with_issuer_def ex_compliance_def)

lemma ex_claims_keyed: "claims_keyed ex_compliance"
  by (simp add: claims_keyed_def ex_compliance_fetch ex_accredited_def claim_type_def as_scope_def)

lemma ex_compliance_consume: "compliance_consume_weight ex_compliance_config (Weight 2 0)
    (ex_meter\<lparr>meter_consumed := Weight n 0\<rparr>) = (if n + 2 \<le> 1000 then Inr (ex_meter\<lparr>meter_consumed := Weight (n + 2) 0\<rparr>)
      else Inl (ComplianceError compliance_error.WeightLimitExceeded))"
  by (simp add: compliance_consume_weight_def consume_weight_until_limit_def ex_meter_def ex_compliance_config_def
      statistics_config.defs compliance_config.defs ex_stats_defs)

lemma ex_compliance_weights:
  "w_is_condition_satisfied ex_compliance_config i n = Weight 2 0"
  "w_is_identity_condition ex_compliance_config n = Weight 2 0"
  by (simp_all add: ex_compliance_config_def statistics_config.defs compliance_config.defs)

lemma ex_is_compliant: "\<exists>m. is_compliant ex_compliance_config ex_compliance 7 4 2 ex_meter = Inr (True, m)"
proof -
  have m: "ex_meter = ex_meter\<lparr>meter_consumed := Weight 0 0\<rparr>" by (simp add: ex_meter_def)
  show "\<exists>m. is_compliant ex_compliance_config ex_compliance 7 4 2 ex_meter = Inr (True, m)"
    by (subst m)
      (simp add: is_compliant_def ex_requirement_def is_condition_satisfied_def fetch_context_def issuers_for_def
        ex_compliance_weights ex_compliance_consume run_condition_def fetch_claims_def List.map_filter_simps
        ex_accredited_def claim_type_def as_scope_def is_trusted_for_def fetch_claim_def ex_compliance_fetch
        is_identity_claim_not_expired_at_def exists_claim_def)
qed

text \<open>
  (C28) The decision of the compliance manager is the meaning of the requirements: if \<open>is_compliant\<close>
  returns, it returns true if and only if compliance is paused, or some requirement has every sender
  condition met by the sender and every receiver condition met by the receiver. The only error is that
  the weight limit is exceeded.
\<close>

theorem is_compliant_exact:
  assumes "claims_keyed s"
  shows "case is_compliant cfg s ticker f r m of
      Inr (b, _) \<Rightarrow> b \<longleftrightarrow> compliant s ticker f r
    | Inl e \<Rightarrow> e = ComplianceError compliance_error.WeightLimitExceeded"
proof (cases "is_compliant cfg s ticker f r m")
  case (Inl e)
  then show ?thesis by (auto simp: is_compliant_def Let_def split: if_splits dest: requirements_error)
next
  case (Inr bm)
  then show ?thesis
    by (cases bm) (auto simp: is_compliant_def Let_def compliant_def split: if_splits dest!: requirements_exact [OF assms])
qed

theorem is_compliant_exact_witness:
  "\<exists>m. is_compliant ex_compliance_config ex_compliance 7 4 2 ex_meter = Inr (True, m) \<and> compliant ex_compliance 7 4 2"
proof -
  obtain m where "is_compliant ex_compliance_config ex_compliance 7 4 2 ex_meter = Inr (True, m)"
    using ex_is_compliant by blast
  then show ?thesis
    using is_compliant_exact [where cfg = ex_compliance_config and ticker = 7 and f = 4 and r = 2 and m = ex_meter,
        OF ex_claims_keyed]
    by simp
qed

text \<open>
  (C29) The detailed report agrees with the decision: when both return, for the same sender and
  receiver, the result of the report is the result of \<open>is_compliant\<close>, and the result of each
  requirement in the report is whether that requirement holds.
\<close>

theorem granular_agrees:
  assumes "claims_keyed s"
    and "verify_restriction_granular cfg s ticker (Some f) (Some r) m1 = Inr (res, m1')"
    and "is_compliant cfg s ticker f r m2 = Inr (b, m2')"
  shows "compliance_result res = b \<and>
    map requirement_result (requirement_results res) =
      map (requirement_holds s ticker f r) (requirements (AssetCompliances s ticker))"
proof -
  let ?c = "AssetCompliances s ticker"
  obtain rs where g: "granular_requirements cfg s ticker (Some f) (Some r) (map requirement_to_result (requirements ?c))
      (paused ?c) m1 = Inr (rs, compliance_result res, m1')" and rs: "requirement_results res = rs"
    using assms(2) by (auto simp: verify_restriction_granular_def Let_def compliance_to_result_def attempt_Inr_iff)
  have t: "list_all requirement_result (map requirement_to_result (requirements ?c))"
    by (simp add: list_all_iff requirement_to_result_def Let_def)
  note e = granular_exact [OF assms(1) g t]
  have *: "map requirement_result rs = map (requirement_holds s ticker f r) (requirements ?c)"
    using e by (simp add: comp_def requirement_to_result_def Let_def all_hold_def requirement_holds_def list_all_iff)
  have "list_ex requirement_result rs \<longleftrightarrow> (\<exists>req \<in> set (requirements ?c). requirement_holds s ticker f r req)"
    using arg_cong [OF *, of "\<lambda>bs. True \<in> set bs"] by (auto simp: list_ex_iff)
  then have "compliance_result res \<longleftrightarrow> compliant s ticker f r" using e by (simp add: compliant_def)
  moreover have "b \<longleftrightarrow> compliant s ticker f r"
    using assms(3)
    by (auto simp: is_compliant_def Let_def compliant_def split: if_splits dest!: requirements_exact [OF assms(1)])
  ultimately show ?thesis using * rs by simp
qed

theorem granular_agrees_witness:
  "\<exists>res m. verify_restriction_granular ex_compliance_config ex_compliance 7 (Some 4) (Some 2) ex_meter = Inr (res, m) \<and>
     compliance_result res"
proof -
  have m: "ex_meter = ex_meter\<lparr>meter_consumed := Weight 0 0\<rparr>" by (simp add: ex_meter_def)
  have "is_ok (verify_restriction_granular ex_compliance_config ex_compliance 7 (Some 4) (Some 2) ex_meter)"
    by (subst m)
      (simp add: verify_restriction_granular_def ex_requirement_def compliance_to_result_def requirement_to_result_def
        all_conditions_hold_def is_condition_satisfied_def fetch_context_def issuers_for_def
        ex_compliance_weights ex_compliance_consume run_condition_def Let_def cong: if_cong)
  then obtain res m1 where g: "verify_restriction_granular ex_compliance_config ex_compliance 7 (Some 4) (Some 2) ex_meter =
      Inr (res, m1)"
    by (auto simp: is_ok_iff)
  obtain m2 where c: "is_compliant ex_compliance_config ex_compliance 7 4 2 ex_meter = Inr (True, m2)"
    using ex_is_compliant by blast
  show ?thesis using granular_agrees [OF ex_claims_keyed g c] g by simp
qed

text \<open>
  (C30) Whatever sequence of compliance operations runs, the number of requirements of every ticker and the worst
  case complexity of evaluating them with the current default issuers never exceed the maximum. The
  requirements of a ticker stay strictly ordered by their number along every run in which no operation
  finds the last number of that ticker at \<open>2^32 - 1\<close>, where adding a requirement wraps the number around.
\<close>

theorem compliance_reachable_inv:
  assumes "(compliance_step cfg)\<^sup>*\<^sup>* s s'" and "compliance_limits cfg" "compliance_bounded cfg s"
  shows "compliance_bounded cfg s' \<and>
    (requirements_ordered s t \<and> (\<lambda>s s'. compliance_step cfg s s' \<and> get_latest_requirement_id s t < u32_max)\<^sup>*\<^sup>* s s' \<longrightarrow>
      requirements_ordered s' t)"
proof
  have "(\<lambda>s s'. compliance_step cfg s s' \<and> compliance_limits cfg)\<^sup>*\<^sup>* s s'" using assms(1,2) by simp
  then show "compliance_bounded cfg s'" using assms(3) by (rule compliance_system.reach_good)
qed (use requirements_system.reach_good in blast)

theorem compliance_reachable_inv_witness:
  "\<exists>s'. remove_compliance_requirement (Signed 1) 7 3 ex_compliance = Inr s' \<and>
    compliance_bounded ex_compliance_config s' \<and> requirements_ordered s' 7"
proof -
  have "ea_ensure_perms ex_compliance (Signed 1) 7 = Inr 1"
    by (simp add: ea_ensure_perms_def ensure_agent_asset_perms_def ensure_asset_perms_def
        ensure_origin_call_permissions_def ensure_signed_def ensure_call_permissions_def
        check_account_call_permissions_def ensure_agent_permissioned_def agent_permissions_def
        sufficient_for_def ex_compliance_defs ex_stats_defs)
  then have "is_ok (remove_compliance_requirement (Signed 1) 7 3 ex_compliance)"
    by (simp add: remove_compliance_requirement_def ex_requirement_def Let_def)
  then obtain s' where s': "remove_compliance_requirement (Signed 1) 7 3 ex_compliance = Inr s'"
    by (auto simp: is_ok_iff)
  have lim: "compliance_limits ex_compliance_config"
    by (simp add: compliance_limits_def ex_compliance_config_def statistics_config.defs compliance_config.defs ex_stats_defs
        u32_max_def u64_max_def)
  have inv: "compliance_bounded ex_compliance_config ex_compliance"
    by (simp add: compliance_bounded_def ex_compliance_config_def statistics_config.defs compliance_config.defs ex_stats_defs
        default_compliance_def complexity_def ex_requirement_def requirement_conditions_def condition_complexity_eq
        claim_count_def u32_max_def u64_max_def)
  have "requirements_ordered ex_compliance 7" "get_latest_requirement_id ex_compliance 7 < u32_max"
    by (simp_all add: requirements_ordered_def get_latest_requirement_id_def ex_compliance_defs ex_requirement_def u32_max_def)
  moreover have "compliance_step ex_compliance_config ex_compliance s'" by (rule compliance_step.remove [OF s'])
  moreover then have "(compliance_step ex_compliance_config)\<^sup>*\<^sup>* ex_compliance s'" by blast
  ultimately show ?thesis using compliance_reachable_inv [OF _ lim inv, of s' 7] s' by blast
qed

end
