(* ===== verification/Cdd_Claims.thy ===== *)
theory Cdd_Claims
  imports Identity_Claims
begin

text \<open>
  Customer due diligence (\<open>pallets/identity/src/claims.rs\<close>): which of the claims of an identity, or
  of its parent, make it a known customer, and how the group of providers (the second instance
  of the group pallet in the runtimes) keeps the systematic claims of its members.
\<close>

section \<open>Systematic issuers\<close>

datatype SystematicIssuers =
    Committee | CDDProvider | Treasury | BlockRewardReserve | Settlement | ClassicMigration
  | FiatTickersReservation

definition padded :: "string \<Rightarrow> string" where
  "padded name = name @ replicate (32 - length name) (CHR 0x00)"

definition as_bytes :: "SystematicIssuers \<Rightarrow> string" where
  "as_bytes i = padded
     (case i of
        Committee \<Rightarrow> ''system:governance_committee''
      | CDDProvider \<Rightarrow> ''system:customer_due_diligence''
      | Treasury \<Rightarrow> ''system:treasury_module_did''
      | BlockRewardReserve \<Rightarrow> ''system:block_reward_reserve_did''
      | Settlement \<Rightarrow> ''system:settlement_module_did''
      | ClassicMigration \<Rightarrow> ''system:polymath_classic_mig''
      | FiatTickersReservation \<Rightarrow> ''system:fiat_tickers_reservation'')"

text \<open>An identity is the number its bytes write, the first one the most significant.\<close>

definition as_id :: "SystematicIssuers \<Rightarrow> IdentityId" where
  "as_id i = fold (\<lambda>c n. 256 * n + of_char c) (as_bytes i) 0"

abbreviation GC_DID :: IdentityId where
  "GC_DID \<equiv> as_id Committee"

section \<open>Which claims are valid\<close>

text \<open>The list of inactive providers is built when it is first read.\<close>

record CddClaimChecker =
  filter_cdd_id :: "CddId option"
  exp_with_leeway :: Moment
  active_cdds :: "IdentityId list"
  inactive_cdds :: "InactiveMember list"

definition new_checker ::
  "'a claims_store_scheme \<Rightarrow> Moment \<Rightarrow> CddId option \<Rightarrow> CddClaimChecker" where
  "new_checker s leeway filter_id =
     (let exp = (case checked_add u64_max (timestamp s) leeway of Some m \<Rightarrow> m | None \<Rightarrow> 0) in
      \<lparr>filter_cdd_id = filter_id, exp_with_leeway = exp,
       active_cdds = get_members (CddServiceProviders s),
       inactive_cdds = filter (\<lambda>cdd. \<not> is_member_expired cdd exp)
         (get_inactive_members (timestamp s) (CddServiceProviders s))\<rparr>)"

definition is_active :: "CddClaimChecker \<Rightarrow> IdentityClaim \<Rightarrow> bool" where
  "is_active ck c = List.member (active_cdds ck) (claim_issuer c)"

definition is_systematic_cdd_provider :: "IdentityClaim \<Rightarrow> bool" where
  "is_systematic_cdd_provider c \<longleftrightarrow>
     as_id CDDProvider = claim_issuer c \<or> as_id Committee = claim_issuer c"

definition is_inactive :: "CddClaimChecker \<Rightarrow> IdentityClaim \<Rightarrow> bool" where
  "is_inactive ck c =
     list_ex (\<lambda>cdd. last_update_date c < deactivated_at cdd)
       (filter (\<lambda>cdd. inactive_id cdd = claim_issuer c) (inactive_cdds ck))"

definition is_cdd_claim_valid :: "CddClaimChecker \<Rightarrow> IdentityClaim \<Rightarrow> bool" where
  "is_cdd_claim_valid ck c \<longleftrightarrow>
     is_identity_claim_not_expired_at c (exp_with_leeway ck) \<and>
     (is_active ck c \<or> is_systematic_cdd_provider c \<or> is_inactive ck c)"

definition filter_cdd_claims :: "CddClaimChecker \<Rightarrow> IdentityClaim \<Rightarrow> bool" where
  "filter_cdd_claims ck c =
     (case (filter_cdd_id ck, claim c) of
        (Some cdd_id, Claim.CustomerDueDiligence claim_cdd_id) \<Rightarrow>
          if claim_cdd_id \<noteq> cdd_id then False else is_cdd_claim_valid ck c
      | _ \<Rightarrow> is_cdd_claim_valid ck c)"

definition fetch_base_claims ::
  "'a claims_store_scheme \<Rightarrow> IdentityId \<Rightarrow> ClaimType \<Rightarrow> IdentityClaim list" where
  "fetch_base_claims s target ct = map snd (Claims s \<lparr>claim_target = target, key_claim_type = ct\<rparr>)"

definition base_fetch_parent_cdd_claims ::
  "'a claims_store_scheme \<Rightarrow> IdentityId \<Rightarrow> bool \<Rightarrow> IdentityClaim list" where
  "base_fetch_parent_cdd_claims s did include_parent =
     (if include_parent then
        case ParentDid s did of
          Some parent_did \<Rightarrow> fetch_base_claims s parent_did ClaimType.CustomerDueDiligence
        | None \<Rightarrow> []
      else [])"

definition base_fetch_valid_cdd_claims ::
  "'a claims_store_scheme \<Rightarrow> IdentityId \<Rightarrow> Moment \<Rightarrow> CddId option \<Rightarrow> bool \<Rightarrow> IdentityClaim list" where
  "base_fetch_valid_cdd_claims s claim_for leeway filter_id include_parent =
     filter (filter_cdd_claims (new_checker s leeway filter_id))
       (fetch_base_claims s claim_for ClaimType.CustomerDueDiligence @
        base_fetch_parent_cdd_claims s claim_for include_parent)"

definition base_fetch_cdd ::
  "'a claims_store_scheme \<Rightarrow> IdentityId \<Rightarrow> Moment \<Rightarrow> CddId option \<Rightarrow> bool \<Rightarrow> IdentityId option" where
  "base_fetch_cdd s claim_for leeway filter_id include_parent =
     (case base_fetch_valid_cdd_claims s claim_for leeway filter_id include_parent of
        [] \<Rightarrow> None | c # _ \<Rightarrow> Some (claim_issuer c))"

definition fetch_cdd :: "'a claims_store_scheme \<Rightarrow> IdentityId \<Rightarrow> Moment \<Rightarrow> IdentityId option" where
  "fetch_cdd s claim_for leeway = base_fetch_cdd s claim_for leeway None True"

definition has_valid_cdd :: "'a claims_store_scheme \<Rightarrow> IdentityId \<Rightarrow> bool" where
  "has_valid_cdd s claim_for \<longleftrightarrow> base_fetch_cdd s claim_for 0 None True \<noteq> None"

definition is_identity_has_valid_cdd ::
  "'a claims_store_scheme \<Rightarrow> IdentityId \<Rightarrow> Moment option \<Rightarrow> IdentityId option" where
  "is_identity_has_valid_cdd s target leeway =
     fetch_cdd s target (case leeway of Some l \<Rightarrow> l | None \<Rightarrow> 0)"

definition valid_cdd_claims ::
  "'a claims_store_scheme \<Rightarrow> IdentityId \<Rightarrow> Moment option \<Rightarrow> IdentityClaim list" where
  "valid_cdd_claims s target leeway =
     base_fetch_valid_cdd_claims s target (case leeway of Some l \<Rightarrow> l | None \<Rightarrow> 0) None True"

section \<open>The group of providers\<close>

definition add_systematic_cdd_claims ::
  "IdentityId list \<Rightarrow> SystematicIssuers \<Rightarrow> 'a claims_store_scheme \<Rightarrow> 'a claims_store_scheme" where
  "add_systematic_cdd_claims targets issuer s =
     fold (\<lambda>new_member s.
        case base_add_claim new_member (Claim.CustomerDueDiligence 0) (as_id issuer) None s of
          Inr s1 \<Rightarrow> s1 | Inl _ \<Rightarrow> s) targets s"

definition revoke_systematic_cdd_claims ::
  "IdentityId list \<Rightarrow> SystematicIssuers \<Rightarrow> 'a claims_store_scheme \<Rightarrow> 'a claims_store_scheme" where
  "revoke_systematic_cdd_claims targets issuer s =
     fold (\<lambda>removed_member s.
        case base_revoke_claim removed_member ClaimType.CustomerDueDiligence (as_id issuer) None s of
          Inr s1 \<Rightarrow> s1 | Inl _ \<Rightarrow> s) targets s"

definition change_members_sorted ::
  "MembershipChange \<Rightarrow> 'a claims_store_scheme \<Rightarrow> 'a claims_store_scheme" where
  "change_members_sorted c s =
     revoke_systematic_cdd_claims (outgoing c) CDDProvider
       (add_systematic_cdd_claims (incoming c) CDDProvider s)"

definition cdd_put ::
  "group_store \<times> MembershipChange option \<Rightarrow> 'a claims_store_scheme \<Rightarrow> 'a claims_store_scheme" where
  "cdd_put gc s =
     (let s1 = s\<lparr>CddServiceProviders := fst gc\<rparr> in
      case snd gc of Some c \<Rightarrow> change_members_sorted c s1 | None \<Rightarrow> s1)"

definition cdd_set_active_members_limit ::
  "Origin \<Rightarrow> nat \<Rightarrow> 'a claims_store_scheme \<Rightarrow> ('a claims_store_scheme) result" where
  "cdd_set_active_members_limit origin limit s =
     attempt (ensure_root origin) (\<lambda>_.
     attempt (base_set_active_members_limit limit (CddServiceProviders s)) (\<lambda>g. Inr (cdd_put (g, None) s)))"

definition cdd_disable_member ::
  "Origin \<Rightarrow> IdentityId \<Rightarrow> Moment option \<Rightarrow> Moment option \<Rightarrow> 'a claims_store_scheme
    \<Rightarrow> ('a claims_store_scheme) result" where
  "cdd_disable_member origin who expiry at s =
     attempt (ensure_root origin) (\<lambda>_.
     attempt (group_disable_member (timestamp s) who expiry at (CddServiceProviders s)) (\<lambda>(g, c).
     Inr (cdd_put (g, Some c) s)))"

definition cdd_add_member ::
  "Origin \<Rightarrow> IdentityId \<Rightarrow> 'a claims_store_scheme \<Rightarrow> ('a claims_store_scheme) result" where
  "cdd_add_member origin who s =
     attempt (ensure_root origin) (\<lambda>_.
     attempt (group_add_member who (CddServiceProviders s)) (\<lambda>(g, c). Inr (cdd_put (g, Some c) s)))"

definition cdd_remove_member ::
  "Origin \<Rightarrow> IdentityId \<Rightarrow> 'a claims_store_scheme \<Rightarrow> ('a claims_store_scheme) result" where
  "cdd_remove_member origin who s =
     attempt (ensure_root origin) (\<lambda>_.
     attempt (base_remove_member (CurrentDid s) who (CddServiceProviders s)) (\<lambda>gc. Inr (cdd_put gc s)))"

definition cdd_swap_member ::
  "Origin \<Rightarrow> IdentityId \<Rightarrow> IdentityId \<Rightarrow> 'a claims_store_scheme \<Rightarrow> ('a claims_store_scheme) result" where
  "cdd_swap_member origin remove add s =
     attempt (ensure_root origin) (\<lambda>_.
     attempt (group_swap_member remove add (CddServiceProviders s)) (\<lambda>gc. Inr (cdd_put gc s)))"

definition cdd_reset_members ::
  "(IdentityId list \<Rightarrow> IdentityId list \<Rightarrow> IdentityId list \<times> IdentityId list) \<Rightarrow> Origin
    \<Rightarrow> IdentityId list \<Rightarrow> 'a claims_store_scheme \<Rightarrow> ('a claims_store_scheme) result" where
  "cdd_reset_members diff origin members s =
     attempt (ensure_root origin) (\<lambda>_.
     attempt (group_reset_members diff members (CddServiceProviders s)) (\<lambda>(g, c).
     Inr (cdd_put (g, Some c) s)))"

definition cdd_abdicate_membership ::
  "Origin \<Rightarrow> 'a claims_store_scheme \<Rightarrow> ('a claims_store_scheme) result" where
  "cdd_abdicate_membership origin s =
     attempt (group_abdicate_membership s origin (CddServiceProviders s)) (\<lambda>(g, c).
     Inr (cdd_put (g, Some c) s))"

definition base_invalidate_cdd_claims ::
  "Origin \<Rightarrow> IdentityId \<Rightarrow> Moment \<Rightarrow> Moment option \<Rightarrow> 'a claims_store_scheme
    \<Rightarrow> ('a claims_store_scheme) result" where
  "base_invalidate_cdd_claims origin cdd disable_from expiry s =
     attempt (ensure_root origin) (\<lambda>_.
     ensure (List.member (get_valid_members_at (timestamp s) (CddServiceProviders s) (timestamp s)) cdd)
       (IdentityError UnAuthorizedCddProvider) (
     attempt (group_disable_member (timestamp s) cdd expiry (Some disable_from) (CddServiceProviders s))
       (\<lambda>(g, c). Inr (cdd_put (g, Some c) s))))"

section \<open>Systematic claims\<close>

definition forget_claims :: "'a claims_store_scheme \<Rightarrow> 'a claims_store_scheme" where
  "forget_claims s = s\<lparr>Claims := (\<lambda>_. [])\<rparr>"

lemma forget_claims_sel:
  assumes "forget_claims s' = forget_claims s"
  shows "CddServiceProviders s' = CddServiceProviders s" "timestamp s' = timestamp s" "ParentDid s' = ParentDid s"
    "KeyRecords s' = KeyRecords s" "CustomClaims s' = CustomClaims s"
  using arg_cong [OF assms, of CddServiceProviders] arg_cong [OF assms, of timestamp]
    arg_cong [OF assms, of ParentDid] arg_cong [OF assms, of KeyRecords] arg_cong [OF assms, of CustomClaims]
  by (simp_all add: forget_claims_def)

definition systematic_key :: "IdentityId \<Rightarrow> ClaimType \<Rightarrow> IdentityId \<Rightarrow> Scope option \<Rightarrow> bool" where
  "systematic_key issuer ct issuer' scope \<longleftrightarrow>
     ct = ClaimType.CustomerDueDiligence \<and> issuer' = issuer \<and> scope = None"

text \<open>A claim with no expiry of the provider group itself.\<close>

definition systematic :: "'a claims_store_scheme \<Rightarrow> IdentityId \<Rightarrow> bool" where
  "systematic s d \<longleftrightarrow> (\<exists>c. fetch_base_claim_with_issuer s d ClaimType.CustomerDueDiligence
       (as_id CDDProvider) None = Some c \<and> claim_expiry c = None \<and> claim_issuer c = as_id CDDProvider)"

lemma base_add_claim_frame: "base_add_claim target c issuer expiry s = Inr s' \<Longrightarrow> forget_claims s' = forget_claims s"
  by (auto simp: base_add_claim_def res_simps unverified_add_claim_with_scope_def Let_def forget_claims_def)

lemma base_revoke_claim_frame: "base_revoke_claim target ct issuer scope s = Inr s' \<Longrightarrow> forget_claims s' = forget_claims s"
  by (auto simp: base_revoke_claim_def res_simps Let_def forget_claims_def)

lemma add_cdd_ok: "\<exists>s'. base_add_claim d (Claim.CustomerDueDiligence n) issuer expiry s = Inr s'"
  by (simp add: base_add_claim_def claim_type_def)

lemma add_systematic_effect:
  "forget_claims (add_systematic_cdd_claims ds i s) = forget_claims s \<and>
   (\<forall>d \<in> set ds. \<exists>c. fetch_base_claim_with_issuer (add_systematic_cdd_claims ds i s) d
      ClaimType.CustomerDueDiligence (as_id i) None = Some c \<and> claim_expiry c = None \<and> claim_issuer c = as_id i) \<and>
   (\<forall>d ct issuer scope. d \<notin> set ds \<or> \<not> systematic_key (as_id i) ct issuer scope \<longrightarrow>
      fetch_base_claim_with_issuer (add_systematic_cdd_claims ds i s) d ct issuer scope =
      fetch_base_claim_with_issuer s d ct issuer scope)"
proof (induction ds arbitrary: s)
  case Nil
  then show ?case by (simp add: add_systematic_cdd_claims_def)
next
  case (Cons x ds)
  obtain s1 where a: "base_add_claim x (Claim.CustomerDueDiligence 0) (as_id i) None s = Inr s1"
    using add_cdd_ok by blast
  have eq: "add_systematic_cdd_claims (x # ds) i s = add_systematic_cdd_claims ds i s1"
    by (simp add: add_systematic_cdd_claims_def a)
  note f = fetch_after_add [OF a, unfolded claim_type_def as_scope_def Claim.case]
  note IH = Cons.IH [of s1]
  have "\<exists>c. fetch_base_claim_with_issuer (add_systematic_cdd_claims ds i s1) x
      ClaimType.CustomerDueDiligence (as_id i) None = Some c \<and> claim_expiry c = None \<and> claim_issuer c = as_id i"
    using IH f by (cases "x \<in> set ds") auto
  moreover have "fetch_base_claim_with_issuer s1 d ct issuer scope = fetch_base_claim_with_issuer s d ct issuer scope"
    if "d \<noteq> x \<or> \<not> systematic_key (as_id i) ct issuer scope" for d ct issuer scope
    using that f by (auto simp: systematic_key_def)
  moreover have "forget_claims s1 = forget_claims s" using a by (rule base_add_claim_frame)
  ultimately show ?case using IH unfolding eq by (auto simp del: forget_claims_def)
qed

lemma revoke_systematic_effect:
  "forget_claims (revoke_systematic_cdd_claims ds i s) = forget_claims s \<and>
   (\<forall>d ct issuer scope. fetch_base_claim_with_issuer (revoke_systematic_cdd_claims ds i s) d ct issuer scope =
      (if d \<in> set ds \<and> systematic_key (as_id i) ct issuer scope then None
       else fetch_base_claim_with_issuer s d ct issuer scope))"
proof (induction ds arbitrary: s)
  case Nil
  then show ?case by (simp add: revoke_systematic_cdd_claims_def)
next
  case (Cons x ds)
  define s1 where "s1 = (case base_revoke_claim x ClaimType.CustomerDueDiligence (as_id i) None s of
      Inr s1 \<Rightarrow> s1 | Inl _ \<Rightarrow> s)"
  have eq: "revoke_systematic_cdd_claims (x # ds) i s = revoke_systematic_cdd_claims ds i s1"
    by (simp add: revoke_systematic_cdd_claims_def s1_def)
  have "forget_claims s1 = forget_claims s"
    using base_revoke_claim_frame by (fastforce simp: s1_def split: sum.split)
  moreover have "fetch_base_claim_with_issuer s1 d ct issuer scope =
      (if d = x \<and> systematic_key (as_id i) ct issuer scope then None
       else fetch_base_claim_with_issuer s d ct issuer scope)" for d ct issuer scope
  proof (cases "base_revoke_claim x ClaimType.CustomerDueDiligence (as_id i) None s")
    case (Inl e)
    then show ?thesis
      by (auto simp: s1_def base_revoke_claim_def Let_def fetch_base_claim_with_issuer_def systematic_key_def
          ok_or_def split: option.splits)
  next
    case (Inr s2)
    then show ?thesis using fetch_after_revoke [OF Inr] by (auto simp: s1_def systematic_key_def)
  qed
  ultimately show ?case using Cons.IH [of s1] unfolding eq by auto
qed

lemma change_members_effect:
  "forget_claims (change_members_sorted c s) = forget_claims s"
  "d \<notin> set (outgoing c) \<Longrightarrow> d \<in> set (incoming c) \<or> systematic s d \<Longrightarrow> systematic (change_members_sorted c s) d"
  "d \<in> set (outgoing c) \<Longrightarrow> \<not> systematic (change_members_sorted c s) d"
proof -
  let ?s1 = "add_systematic_cdd_claims (incoming c) CDDProvider s"
  note a = add_systematic_effect [of "incoming c" CDDProvider s]
  note r = revoke_systematic_effect [of "outgoing c" CDDProvider ?s1]
  show "forget_claims (change_members_sorted c s) = forget_claims s"
    using a r by (simp add: change_members_sorted_def)
  show "systematic (change_members_sorted c s) d"
    if "d \<notin> set (outgoing c)" "d \<in> set (incoming c) \<or> systematic s d"
  proof -
    have "systematic ?s1 d" using a that(2) by (cases "d \<in> set (incoming c)") (auto simp: systematic_def)
    then show ?thesis using r that(1) by (simp add: systematic_def change_members_sorted_def)
  qed
  show "\<not> systematic (change_members_sorted c s) d" if "d \<in> set (outgoing c)"
    using r that by (simp add: systematic_def change_members_sorted_def systematic_key_def)
qed

section \<open>Providers keep their systematic claim\<close>

definition cdd_good :: "'a claims_store_scheme \<Rightarrow> bool" where
  "cdd_good s \<longleftrightarrow> group_good (CddServiceProviders s) \<and>
     (\<forall>d \<in> set (ActiveMembers (CddServiceProviders s)). systematic s d)"

text \<open>
  The operations on the group of providers, claims that any identity but the systematic one adds or
  revokes, and the passing of time. The systematic identity has no keys. A list that arrives with a call
  has a length of 32 bits at most.
\<close>

inductive cdd_step ::
  "(IdentityId list \<Rightarrow> IdentityId list \<Rightarrow> IdentityId list \<times> IdentityId list) \<Rightarrow> 'c fee_config_scheme
    \<Rightarrow> 'a claims_store_scheme \<Rightarrow> 'a claims_store_scheme \<Rightarrow> bool"
  for diff cfg where
  set_limit: "cdd_set_active_members_limit origin limit s = Inr s' \<Longrightarrow> cdd_step diff cfg s s'"
| disable: "cdd_disable_member origin who expiry at s = Inr s' \<Longrightarrow> cdd_step diff cfg s s'"
| add: "cdd_add_member origin who s = Inr s' \<Longrightarrow> cdd_step diff cfg s s'"
| remove: "cdd_remove_member origin who s = Inr s' \<Longrightarrow> cdd_step diff cfg s s'"
| swap: "cdd_swap_member origin out inc s = Inr s' \<Longrightarrow> cdd_step diff cfg s s'"
| reset: "cdd_reset_members diff origin members s = Inr s' \<Longrightarrow> length members \<le> u32_max \<Longrightarrow> cdd_step diff cfg s s'"
| abdicate: "cdd_abdicate_membership origin s = Inr s' \<Longrightarrow> cdd_step diff cfg s s'"
| invalidate: "base_invalidate_cdd_claims origin cdd from expiry s = Inr s' \<Longrightarrow> cdd_step diff cfg s s'"
| add_claim: "add_claim cfg origin target c expiry s = Inr s' \<Longrightarrow>
    ensure_perms s origin \<noteq> Inr (as_id CDDProvider) \<Longrightarrow> cdd_step diff cfg s s'"
| revoke_claim: "revoke_claim origin target c s = Inr s' \<Longrightarrow>
    ensure_perms s origin \<noteq> Inr (as_id CDDProvider) \<Longrightarrow> cdd_step diff cfg s s'"
| revoke_by_index: "revoke_claim_by_index origin target ct scope s = Inr s' \<Longrightarrow>
    ensure_perms s origin \<noteq> Inr (as_id CDDProvider) \<Longrightarrow> cdd_step diff cfg s s'"
| time: "cdd_step diff cfg s (s\<lparr>timestamp := now\<rparr>)"

lemma put_group: "CddServiceProviders (cdd_put (g, c) s) = g"
  by (cases c) (simp_all add: cdd_put_def forget_claims_sel(1) [OF change_members_effect(1)])

lemma cdd_put_good:
  assumes "cdd_good s" "group_good g" "change_exact (CddServiceProviders s) (case c of Some c \<Rightarrow> c | None \<Rightarrow> no_change) g"
  shows "cdd_good (cdd_put (g, c) s)"
proof (cases c)
  case None
  then show ?thesis
    using assms
    by (auto simp: cdd_good_def cdd_put_def change_exact_def no_change_def systematic_def
        fetch_base_claim_with_issuer_def)
next
  case (Some ch)
  let ?s1 = "s\<lparr>CddServiceProviders := g\<rparr>"
  have sys: "systematic ?s1 d = systematic s d" for d
    by (simp add: systematic_def fetch_base_claim_with_issuer_def)
  have g': "CddServiceProviders (cdd_put (g, c) s) = g"
    using forget_claims_sel(1) [OF change_members_effect(1) [of ch ?s1]] by (simp add: cdd_put_def Some)
  have "systematic (cdd_put (g, c) s) d" if "d \<in> set (ActiveMembers g)" for d
  proof (cases "d \<in> set (incoming ch)")
    case True
    then have "d \<notin> set (outgoing ch)" using assms(3) by (auto simp: change_exact_def Some)
    then show ?thesis using change_members_effect(2) [of d ch ?s1] True by (simp add: cdd_put_def Some)
  next
    case False
    then have "d \<in> set (ActiveMembers (CddServiceProviders s))" "d \<notin> set (outgoing ch)"
      using that assms(3) by (auto simp: change_exact_def Some)
    then show ?thesis
      using change_members_effect(2) [of d ch ?s1] assms(1) by (simp add: cdd_put_def Some cdd_good_def sys)
  qed
  then show ?thesis using assms(2) g' by (simp add: cdd_good_def)
qed

lemma systematic_other:
  assumes "forget_claims s' = forget_claims s" "cdd_good s"
    and "\<And>d. fetch_base_claim_with_issuer s' d ClaimType.CustomerDueDiligence (as_id CDDProvider) None =
      fetch_base_claim_with_issuer s d ClaimType.CustomerDueDiligence (as_id CDDProvider) None"
  shows "cdd_good s'"
  using assms(2,3) forget_claims_sel(1) [OF assms(1)] by (simp add: cdd_good_def systematic_def)

lemma add_claim_good:
  assumes "add_claim cfg origin target c expiry s = Inr s'" "ensure_perms s origin \<noteq> Inr (as_id CDDProvider)" "cdd_good s"
  shows "cdd_good s'"
proof -
  obtain issuer s1 where i: "ensure_perms s origin = Inr issuer"
    and a: "base_add_claim target c issuer expiry s1 = Inr s'" and s1: "s1 = s \<or> charge_fee cfg IdentityAddClaim s = Inr s1"
    using add_claim_paid [OF assms(1)] by blast
  have good1: "cdd_good s1"
    using s1 assms(3) charge_fee_claims [of cfg IdentityAddClaim s s1]
    by (auto simp: cdd_good_def systematic_def fetch_base_claim_with_issuer_def)
  show ?thesis
    using fetch_after_add [OF a] i assms(2)
    by (intro systematic_other [OF base_add_claim_frame [OF a] good1]) auto
qed

lemma revoke_claim_good:
  assumes "revoke_claim_by_index origin target ct scope s = Inr s' \<or> revoke_claim origin target c s = Inr s'"
    "ensure_perms s origin \<noteq> Inr (as_id CDDProvider)" "cdd_good s"
  shows "cdd_good s'"
proof -
  obtain issuer ct scope where i: "ensure_perms s origin = Inr issuer" and r: "base_revoke_claim target ct issuer scope s = Inr s'"
    using assms(1) by (auto simp: revoke_claim_by_index_def revoke_claim_def res_simps)
  show ?thesis
    using fetch_after_revoke [OF r] i assms(2)
    by (intro systematic_other [OF base_revoke_claim_frame [OF r] assms(3)]) auto
qed

lemma cdd_step_good:
  assumes "cdd_step diff cfg s s'" "distinct (ActiveMembers (CddServiceProviders s'))" "diff_exact diff" "cdd_good s"
  shows "cdd_good s'"
  using assms
proof (induction rule: cdd_step.induct)
  case (set_limit origin limit s s')
  then show ?case
    by (auto simp: cdd_set_active_members_limit_def res_simps base_set_active_members_limit_def cdd_good_def
        cdd_put_def group_good_def systematic_def fetch_base_claim_with_issuer_def)
next
  case (disable origin who expiry at s s')
  then obtain g c where "group_disable_member (timestamp s) who expiry at (CddServiceProviders s) = Inr (g, c)"
    "s' = cdd_put (g, Some c) s"
    by (auto simp: cdd_disable_member_def res_simps)
  then show ?case using disable_good cdd_put_good [of s g "Some c"] disable.prems by (simp add: cdd_good_def)
next
  case (add origin who s s')
  then obtain g c where "group_add_member who (CddServiceProviders s) = Inr (g, c)" "s' = cdd_put (g, Some c) s"
    by (auto simp: cdd_add_member_def res_simps)
  then show ?case using add_good cdd_put_good [of s g "Some c"] add.prems by (simp add: cdd_good_def)
next
  case (remove origin who s s')
  then obtain g c where "base_remove_member (CurrentDid s) who (CddServiceProviders s) = Inr (g, c)"
    "s' = cdd_put (g, c) s"
    by (auto simp: cdd_remove_member_def res_simps)
  then show ?case using remove_good cdd_put_good [of s g c] remove.prems by (simp add: cdd_good_def)
next
  case (swap origin out inc s s')
  then obtain g c where "group_swap_member out inc (CddServiceProviders s) = Inr (g, c)" "s' = cdd_put (g, c) s"
    by (auto simp: cdd_swap_member_def res_simps)
  then show ?case using swap_good cdd_put_good [of s g c] swap.prems by (simp add: cdd_good_def)
next
  case (reset origin members s s')
  then obtain g c where "group_reset_members diff members (CddServiceProviders s) = Inr (g, c)"
    "s' = cdd_put (g, Some c) s"
    by (auto simp: cdd_reset_members_def res_simps)
  then show ?case using reset_good cdd_put_good [of s g "Some c"] reset by (simp add: cdd_good_def put_group)
next
  case (abdicate origin s s')
  then obtain g c where a: "group_abdicate_membership s origin (CddServiceProviders s) = Inr (g, c)"
    and "s' = cdd_put (g, Some c) s"
    by (auto simp: cdd_abdicate_membership_def res_simps)
  then show ?case using abdicate_good [OF a] cdd_put_good [of s g "Some c"] abdicate.prems by (simp add: cdd_good_def)
next
  case (invalidate origin cdd "from" expiry s s')
  then obtain g c where "group_disable_member (timestamp s) cdd expiry (Some from) (CddServiceProviders s) = Inr (g, c)"
    "s' = cdd_put (g, Some c) s"
    by (auto simp: base_invalidate_cdd_claims_def res_simps)
  then show ?case using disable_good cdd_put_good [of s g "Some c"] invalidate.prems by (simp add: cdd_good_def)
next
  case (add_claim origin target c expiry s s')
  then show ?case by (blast intro: add_claim_good)
next
  case (revoke_claim origin target c s s')
  then show ?case by (blast intro: revoke_claim_good)
next
  case (revoke_by_index origin target ct scope s s')
  then show ?case by (blast intro: revoke_claim_good)
next
  case (time s now)
  then show ?case by (simp add: cdd_good_def systematic_def fetch_base_claim_with_issuer_def)
qed

lemma systematic_valid:
  assumes "systematic s d"
  shows "has_valid_cdd s d"
proof -
  obtain c where c: "fetch_base_claim_with_issuer s d ClaimType.CustomerDueDiligence (as_id CDDProvider) None = Some c"
    "claim_expiry c = None" "claim_issuer c = as_id CDDProvider"
    using assms by (auto simp: systematic_def)
  have "c \<in> set (fetch_base_claims s d ClaimType.CustomerDueDiligence)"
    using map_of_SomeD [OF c(1) [unfolded fetch_base_claim_with_issuer_def]] by (force simp: fetch_base_claims_def)
  moreover have "filter_cdd_claims (new_checker s 0 None) c"
    using c(2,3)
    by (simp add: filter_cdd_claims_def new_checker_def Let_def is_cdd_claim_valid_def
        is_identity_claim_not_expired_at_def is_systematic_cdd_provider_def)
  ultimately have "c \<in> set (base_fetch_valid_cdd_claims s d 0 None True)"
    by (simp add: base_fetch_valid_cdd_claims_def)
  then show ?thesis by (auto simp: has_valid_cdd_def base_fetch_cdd_def split: list.split)
qed

interpretation cdd_system: invariant_system
  "\<lambda>s s'. cdd_step diff cfg s s' \<and> distinct (ActiveMembers (CddServiceProviders s')) \<and> diff_exact diff" cdd_good
  by unfold_locales (use cdd_step_good in blast)

section \<open>Claims of providers that have left\<close>

definition inactive_ordered :: "group_store \<Rightarrow> bool" where
  "inactive_ordered g \<longleftrightarrow> sorted (map inactive_id (InactiveMembers g)) \<and> distinct (map inactive_id (InactiveMembers g))"

lemma disable_inactive_set:
  assumes "group_disable_member now who expiry at g = Inr (g', c)" "inactive_ordered g"
  shows "set (InactiveMembers g') =
    insert \<lparr>inactive_id = who, deactivated_at = (case at of Some m \<Rightarrow> m | None \<Rightarrow> now), member_expiry = expiry\<rparr>
      {m \<in> set (InactiveMembers g). \<not> is_member_expired m now \<and> inactive_id m \<noteq> who}"
proof -
  define im where "im = \<lparr>inactive_id = who, deactivated_at = (case at of Some m \<Rightarrow> m | None \<Rightarrow> now), member_expiry = expiry\<rparr>"
  define ms where "ms = filter (\<lambda>m. \<not> is_member_expired m now) (InactiveMembers g)"
  obtain g1 where r: "base_remove_active_member who g = Inr (g1, c)"
    and g': "g' = g1\<lparr>InactiveMembers := (let members = filter (\<lambda>m. \<not> is_member_expired m now) (InactiveMembers g1) in
      case binary_search (map inactive_id members) who of
        Inr idx \<Rightarrow> members[idx := im] | Inl _ \<Rightarrow> sort_key inactive_id (members @ [im]))\<rparr>"
    using assms(1) unfolding group_disable_member_def Let_def im_def [symmetric]
    by (auto simp: attempt_Inr_iff)
  have "InactiveMembers g1 = InactiveMembers g"
    using r by (auto simp: base_remove_active_member_def split: sum.splits)
  then have i: "InactiveMembers g' = (case binary_search (map inactive_id ms) who of
      Inr idx \<Rightarrow> ms[idx := im] | Inl _ \<Rightarrow> sort_key inactive_id (ms @ [im]))"
    by (simp add: g' Let_def flip: ms_def)
  have s: "sorted (map inactive_id ms)" and d: "distinct (map inactive_id ms)"
    using assms(2) by (simp_all add: inactive_ordered_def ms_def sorted_filter distinct_map_filter)
  have "set (InactiveMembers g') = insert im {m \<in> set ms. inactive_id m \<noteq> who}"
  proof (cases "binary_search (map inactive_id ms) who")
    case (Inl j)
    have "who \<notin> inactive_id ` set ms" using binary_search_absent(2) [OF s Inl] by simp
    then show ?thesis by (auto simp: i Inl)
  next
    case (Inr j)
    note f = binary_search_found [OF s Inr]
    have "m \<in> set ms \<and> inactive_id m = who \<longleftrightarrow> m = ms ! j" for m
      using f(1,2) d inj_onD [of inactive_id "set ms" m "ms ! j"] by (auto simp: distinct_map)
    then have "{m \<in> set ms. inactive_id m \<noteq> who} = set ms - {ms ! j}" by auto
    moreover have "set (ms[j := im]) = insert im (set ms - {ms ! j})"
      using f(1) d by (intro set_update_distinct) (simp_all add: distinct_map)
    ultimately show ?thesis by (simp add: i Inr)
  qed
  then show ?thesis by (auto simp: im_def ms_def)
qed

lemma checker_valid:
  assumes "now \<le> u64_max"
  shows "is_cdd_claim_valid (new_checker (s\<lparr>timestamp := now\<rparr>) 0 None) c \<longleftrightarrow>
    is_identity_claim_not_expired_at c now \<and>
    (claim_issuer c \<in> set (ActiveMembers (CddServiceProviders s)) \<or> is_systematic_cdd_provider c \<or>
     (\<exists>m \<in> set (InactiveMembers (CddServiceProviders s)). \<not> is_member_expired m now \<and>
        inactive_id m = claim_issuer c \<and> last_update_date c < deactivated_at m))"
  using assms
  by (auto simp: is_cdd_claim_valid_def new_checker_def Let_def is_active_def is_inactive_def get_members_def
      get_inactive_members_def checked_add_def list_ex_iff)

lemma ex_replaced:
  assumes "inactive_id im = who" and "\<And>m. \<not> Q m \<Longrightarrow> \<not> E m"
  shows "(\<exists>m \<in> insert im {m \<in> S. \<not> E m \<and> inactive_id m \<noteq> who}. \<not> Q m \<and> inactive_id m = i \<and> L m) \<longleftrightarrow>
    (if i = who then \<not> Q im \<and> L im else \<exists>m \<in> S. \<not> Q m \<and> inactive_id m = i \<and> L m)"
  using assms by (cases "i = who") auto

section \<open>Properties\<close>

text \<open>Identity 2 is a provider. It had been disabled as of the moment 40 before.\<close>

definition ex_cdd :: claims_store where
  "ex_cdd = ex_claims\<lparr>
     CddServiceProviders := \<lparr>ActiveMembers = [2],
       InactiveMembers = [\<lparr>inactive_id = 2, deactivated_at = 40, member_expiry = None\<rparr>], ActiveMembersLimit = 10\<rparr>,
     Claims := (\<lambda>_. [])(\<lparr>claim_target = 2, key_claim_type = ClaimType.CustomerDueDiligence\<rparr> :=
       [(\<lparr>key_issuer = as_id CDDProvider, key_scope = None\<rparr>,
         \<lparr>claim_issuer = as_id CDDProvider, issuance_date = 9, last_update_date = 9, claim_expiry = None,
          claim = Claim.CustomerDueDiligence 0\<rparr>)])\<rparr>"

definition ex_cdd_claim :: "Moment \<Rightarrow> IdentityClaim" where
  "ex_cdd_claim updated = \<lparr>claim_issuer = 2, issuance_date = 9, last_update_date = updated,
     claim_expiry = Some 500, claim = Claim.CustomerDueDiligence 4\<rparr>"

lemma ex_cdd_good: "cdd_good ex_cdd"
  by (simp add: cdd_good_def group_good_def ex_cdd_def systematic_def fetch_base_claim_with_issuer_def)

lemma ex_cdd_facts:
  "group_good (CddServiceProviders ex_cdd)" "inactive_ordered (CddServiceProviders ex_cdd)"
  "timestamp ex_cdd = 100" "\<not> is_systematic_cdd_provider (ex_cdd_claim n)"
proof -
  show "group_good (CddServiceProviders ex_cdd)" "inactive_ordered (CddServiceProviders ex_cdd)"
    using ex_cdd_good by (simp_all add: cdd_good_def inactive_ordered_def ex_cdd_def)
  show "timestamp ex_cdd = 100" by (simp add: ex_cdd_def ex_claims_def checkpoint_store.defs)
  have pad: "replicate (numeral k) z = z # replicate (pred_numeral k) z" for k and z :: char
    by (simp add: numeral_eq_Suc)
  have "as_id CDDProvider \<noteq> 2 \<and> as_id Committee \<noteq> 2" by (simp add: as_id_def as_bytes_def padded_def pad)
  then show "\<not> is_systematic_cdd_provider (ex_cdd_claim n)"
    by (simp add: is_systematic_cdd_provider_def ex_cdd_claim_def)
qed

lemma ex_cdd_search: "binary_search [2] (2 :: nat) = Inr 0" "binary_search [2] (5 :: nat) = Inl 1"
  by code_simp+

text \<open>
  What a repeated member does: the group is reset to a list with provider 2 twice, then the provider is
  removed. One entry of it stays active, without a valid claim.
\<close>

lemma repeated_provider_loses_cdd:
  "\<exists>s1 s2. cdd_reset_members ex_diff Root [2, 2] ex_cdd = Inr s1 \<and> cdd_remove_member Root 2 s1 = Inr s2 \<and>
    get_members (CddServiceProviders s2) = [2] \<and> \<not> has_valid_cdd s2 2"
proof -
  have "binary_search [2, 2] (2 :: nat) = Inr 1" by code_simp
  moreover have "ParentDid ex_claims 2 = None" by (simp add: ex_claims_def checkpoint_store.defs claims_store.defs)
  ultimately show ?thesis
    by (simp add: cdd_reset_members_def cdd_remove_member_def group_reset_members_def base_remove_member_def
        base_remove_active_member_def ensure_within_active_members_limit_def ensure_root_def ex_cdd_def ex_diff_def
        u32_max_def cdd_put_def change_members_sorted_def add_systematic_cdd_claims_def revoke_systematic_cdd_claims_def
        vec_remove_def get_members_def base_revoke_claim_def has_valid_cdd_def base_fetch_cdd_def
        base_fetch_valid_cdd_claims_def fetch_base_claims_def base_fetch_parent_cdd_claims_def Let_def)
qed

text \<open>
  (C24) The root of trust holds as long as the group of providers names nobody twice: along every run of
  operations on the group and of claims that identities other than the systematic provider add or revoke, in
  which no state lists an active member twice, every active provider has a valid customer due diligence
  claim at all times. The condition is needed: \<open>reset_members\<close> accepts a list with repeated members, and
  removing such a member then takes its claim away while a second entry stays active.
\<close>

theorem providers_have_valid_cdd:
  assumes "(\<lambda>s s'. cdd_step diff cfg s s' \<and> distinct (get_members (CddServiceProviders s')))\<^sup>*\<^sup>* s0 s"
    and "diff_exact diff" "cdd_good s0"
    and "List.member (get_members (CddServiceProviders s)) d"
  shows "has_valid_cdd s d"
proof -
  have "(\<lambda>s s'. cdd_step diff cfg s s' \<and> distinct (ActiveMembers (CddServiceProviders s')) \<and> diff_exact diff)\<^sup>*\<^sup>* s0 s"
    using assms(1,2) by (simp add: get_members_def)
  then have "cdd_good s" using assms(3) by (rule cdd_system.reach_good)
  then have "systematic s d" using assms(4) by (simp add: cdd_good_def get_members_def)
  then show ?thesis by (rule systematic_valid)
qed

theorem providers_have_valid_cdd_witness:
  "\<exists>s'. cdd_add_member Root 5 ex_cdd = Inr s' \<and> has_valid_cdd s' 5"
proof -
  let ?g = "\<lparr>ActiveMembers = [2, 5],
     InactiveMembers = [\<lparr>inactive_id = 2, deactivated_at = 40, member_expiry = None\<rparr>], ActiveMembersLimit = 10\<rparr>"
  let ?s = "cdd_put (?g, Some \<lparr>incoming = [5], outgoing = []\<rparr>) ex_cdd"
  have a: "cdd_add_member Root 5 ex_cdd = Inr ?s"
    by (simp add: cdd_add_member_def ensure_root_def group_add_member_def ex_cdd_def ex_cdd_search
        vec_insert_def ensure_within_active_members_limit_def u32_max_def)
  have "(\<lambda>s s'. cdd_step ex_diff ex_fee_config s s' \<and> distinct (get_members (CddServiceProviders s')))\<^sup>*\<^sup>* ex_cdd ?s"
    by (rule r_into_rtranclp) (simp add: cdd_step.add [OF a] put_group get_members_def)
  from providers_have_valid_cdd [OF this ex_diff_exact ex_cdd_good, of 5]
  show ?thesis using a by (simp add: put_group get_members_def)
qed

text \<open>
  After a provider is disabled as of a moment, a claim it issued counts at a later time if and
  only if the claim has not expired, it was last updated before that moment, and the
  expiry of the membership has not been reached. For claims of every other issuer nothing changes.
\<close>

theorem disabled_provider_claims:
  assumes "cdd_disable_member origin who expiry at s = Inr s'"
    and "group_good (CddServiceProviders s)" "inactive_ordered (CddServiceProviders s)"
    and "\<not> is_systematic_cdd_provider c" and "timestamp s \<le> now" "now \<le> u64_max"
  shows "is_cdd_claim_valid (new_checker (s'\<lparr>timestamp := now\<rparr>) 0 None) c \<longleftrightarrow>
    (if claim_issuer c = who
     then is_identity_claim_not_expired_at c now \<and>
       last_update_date c < (case at of Some m \<Rightarrow> m | None \<Rightarrow> timestamp s) \<and>
       (case expiry of Some e \<Rightarrow> now < e | None \<Rightarrow> True)
     else is_cdd_claim_valid (new_checker (s\<lparr>timestamp := now\<rparr>) 0 None) c)"
proof -
  let ?g = "CddServiceProviders s"
  obtain g1 ch where d: "group_disable_member (timestamp s) who expiry at ?g = Inr (g1, ch)"
    and s': "s' = cdd_put (g1, Some ch) s"
    using assms(1) by (auto simp: cdd_disable_member_def res_simps)
  have g': "CddServiceProviders s' = g1" by (simp add: s' put_group)
  obtain g2 where r: "base_remove_active_member who ?g = Inr (g2, ch)" and "ActiveMembers g1 = ActiveMembers g2"
    using d by (auto simp: group_disable_member_def attempt_Inr_iff Let_def)
  then have act: "set (ActiveMembers g1) = set (ActiveMembers ?g) - {who}"
    using remove_active_good(3) [OF r assms(2)] by simp
  have late: "\<not> is_member_expired m (timestamp s)" if "\<not> is_member_expired m now" for m
    using that assms(5) by (auto simp: is_member_expired_def split: option.splits)
  define im where "im = \<lparr>inactive_id = who, deactivated_at = (case at of Some m \<Rightarrow> m | None \<Rightarrow> timestamp s),
    member_expiry = expiry\<rparr>"
  define Old where "Old = set (InactiveMembers ?g)"
  have new: "set (InactiveMembers g1) = insert im {m \<in> Old. \<not> is_member_expired m (timestamp s) \<and> inactive_id m \<noteq> who}"
    unfolding im_def Old_def by (rule disable_inactive_set [OF d assms(3)])
  have ex: "(\<exists>m \<in> set (InactiveMembers g1). \<not> is_member_expired m now \<and> inactive_id m = claim_issuer c \<and>
        last_update_date c < deactivated_at m) \<longleftrightarrow>
      (if claim_issuer c = who then \<not> is_member_expired im now \<and> last_update_date c < deactivated_at im
       else \<exists>m \<in> Old. \<not> is_member_expired m now \<and> inactive_id m = claim_issuer c \<and>
         last_update_date c < deactivated_at m)"
    unfolding new by (rule ex_replaced) (simp_all add: late im_def)
  have im: "is_member_expired im now = (case expiry of Some e \<Rightarrow> e \<le> now | None \<Rightarrow> False)"
    "deactivated_at im = (case at of Some m \<Rightarrow> m | None \<Rightarrow> timestamp s)"
    by (simp_all add: im_def is_member_expired_def)
  show ?thesis
  proof (cases "claim_issuer c = who")
    case True
    then show ?thesis
      using assms(4) unfolding checker_valid [OF assms(6)] g' act ex im by (cases expiry) auto
  next
    case False
    then show ?thesis
      using assms(4) unfolding checker_valid [OF assms(6)] g' act ex Old_def by simp
  qed
qed

theorem disabled_provider_claims_witness:
  "\<exists>s'. cdd_disable_member Root 2 (Some 300) (Some 80) ex_cdd = Inr s' \<and>
     is_cdd_claim_valid (new_checker (s'\<lparr>timestamp := 200\<rparr>) 0 None) (ex_cdd_claim 70) \<and>
     \<not> is_cdd_claim_valid (new_checker (s'\<lparr>timestamp := 200\<rparr>) 0 None) (ex_cdd_claim 80) \<and>
     \<not> is_cdd_claim_valid (new_checker (s'\<lparr>timestamp := 300\<rparr>) 0 None) (ex_cdd_claim 70)"
proof -
  have "is_ok (cdd_disable_member Root 2 (Some 300) (Some 80) ex_cdd)"
    by (simp add: cdd_disable_member_def ensure_root_def group_disable_member_def base_remove_active_member_def
        ex_cdd_def ex_cdd_search Let_def)
  then obtain s' where s': "cdd_disable_member Root 2 (Some 300) (Some 80) ex_cdd = Inr s'"
    by (auto simp: is_ok_iff)
  note d = disabled_provider_claims [OF s' ex_cdd_facts(1,2,4), unfolded ex_cdd_facts(3)]
  show ?thesis
    using s' d [of 200 70] d [of 200 80] d [of 300 70]
    by (simp add: u64_max_def ex_cdd_claim_def is_identity_claim_not_expired_at_def)
qed

text \<open>
  (C25) After an active provider is removed, no claim it issued counts, unless the provider had been disabled
  before it became active again: then the claims last updated before that deactivation still do.
\<close>

theorem removed_provider_claims:
  assumes "cdd_remove_member origin who s = Inr s'"
    and "group_good (CddServiceProviders s)" "who \<in> set (ActiveMembers (CddServiceProviders s))"
    and "\<not> is_systematic_cdd_provider c" "claim_issuer c = who" "now \<le> u64_max"
  shows "is_cdd_claim_valid (new_checker (s'\<lparr>timestamp := now\<rparr>) 0 None) c \<longleftrightarrow>
    is_identity_claim_not_expired_at c now \<and>
    (\<exists>m \<in> set (InactiveMembers (CddServiceProviders s)). inactive_id m = who \<and> \<not> is_member_expired m now \<and>
       last_update_date c < deactivated_at m)"
proof -
  let ?g = "CddServiceProviders s"
  obtain g1 ch where b: "base_remove_member (CurrentDid s) who ?g = Inr (g1, ch)" and s': "s' = cdd_put (g1, ch) s"
    using assms(1) by (auto simp: cdd_remove_member_def res_simps)
  obtain i where "binary_search (ActiveMembers ?g) who = Inr i"
    using binary_search_mem assms(2,3) by (auto simp: group_good_def)
  then obtain c' where r: "base_remove_active_member who ?g = Inr (g1, c')"
    using b by (auto simp: base_remove_member_def base_remove_active_member_def)
  have g': "CddServiceProviders s' = g1" by (simp add: s' put_group)
  show ?thesis
    unfolding checker_valid [OF assms(6)] g' remove_active_good(3,5) [OF r assms(2)]
    using assms(4,5) by auto
qed


theorem removed_provider_claims_witness:
  "\<exists>s'. cdd_remove_member Root 2 ex_cdd = Inr s' \<and>
     is_cdd_claim_valid (new_checker (s'\<lparr>timestamp := 200\<rparr>) 0 None) (ex_cdd_claim 30) \<and>
     \<not> is_cdd_claim_valid (new_checker (s'\<lparr>timestamp := 200\<rparr>) 0 None) (ex_cdd_claim 70)"
proof -
  have "is_ok (cdd_remove_member Root 2 ex_cdd)"
    by (simp add: cdd_remove_member_def ensure_root_def base_remove_member_def base_remove_active_member_def
        ex_cdd_def ex_cdd_search)
  then obtain s' where s': "cdd_remove_member Root 2 ex_cdd = Inr s'" by (auto simp: is_ok_iff)
  have m: "2 \<in> set (ActiveMembers (CddServiceProviders ex_cdd))" by (simp add: ex_cdd_def)
  note r = removed_provider_claims [OF s' ex_cdd_facts(1) m ex_cdd_facts(4), of _ 200]
  show ?thesis
    using s' r [of 30] r [of 70]
    by (simp add: u64_max_def ex_cdd_claim_def is_identity_claim_not_expired_at_def ex_cdd_def is_member_expired_def)
qed

end
