(* ===== verification/Asset_Identifier.thy ===== *)
theory Asset_Identifier
  imports Prelude
begin

text \<open>
  The identifiers of assets (\<open>primitives/src/asset_identifier.rs\<close>) and the validation of their check
  digits. Bytes are numbers below 256; a fixed-size array is a list of its length.
\<close>

datatype AssetIdentifier =
    CUSIP "nat list" | CINS "nat list" | ISIN "nat list" | LEI "nat list" | FIGI "nat list"

section \<open>Characters\<close>

definition is_ascii_digit :: "nat \<Rightarrow> bool" where
  "is_ascii_digit b \<longleftrightarrow> 48 \<le> b \<and> b \<le> 57"

definition is_ascii_alphabetic :: "nat \<Rightarrow> bool" where
  "is_ascii_alphabetic b \<longleftrightarrow> 65 \<le> b \<and> b \<le> 90 \<or> 97 \<le> b \<and> b \<le> 122"

definition is_ascii_alphanumeric :: "nat \<Rightarrow> bool" where
  "is_ascii_alphanumeric b \<longleftrightarrow> is_ascii_alphabetic b \<or> is_ascii_digit b"

definition byte_value :: "nat \<Rightarrow> nat option" where
  "byte_value b =
     (if b = 42 then Some 36
      else if b = 64 then Some 37
      else if b = 35 then Some 38
      else if 48 \<le> b \<and> b \<le> 57 then Some (b - 48)
      else if 65 \<le> b \<and> b \<le> 90 then Some (b - 65 + 1 + 9)
      else if 97 \<le> b \<and> b \<le> 122 then Some (b - 32 - 65 + 1 + 9)
      else None)"

section \<open>Check digits\<close>

fun cusip_sum :: "nat \<Rightarrow> nat list \<Rightarrow> nat \<Rightarrow> nat option" where
  "cusip_sum index [] acc = Some acc"
| "cusip_sum index (byte # bytes) acc =
     (case byte_value byte of
        None \<Rightarrow> None
      | Some v \<Rightarrow>
          let v = (if index mod 2 \<noteq> 0 then v * 2 else v) in
          cusip_sum (index + 1) bytes (acc + (v div 10 + v mod 10)))"

definition cusip_check_digit :: "nat list \<Rightarrow> nat option" where
  "cusip_check_digit bytes = map_option (\<lambda>acc. (10 - acc mod 10) mod 10) (cusip_sum 0 bytes 0)"

definition validate_cusip :: "nat list \<Rightarrow> bool" where
  "validate_cusip bytes =
     (if \<not> is_ascii_digit (bytes ! 8) then False
      else case cusip_check_digit (take 8 bytes) of
             Some check_digit \<Rightarrow> check_digit = bytes ! 8 - 48
           | None \<Rightarrow> False)"

fun isin_digits :: "nat list \<Rightarrow> nat list option" where
  "isin_digits [] = Some []"
| "isin_digits (byte # bytes) =
     (case byte_value byte of
        Some v \<Rightarrow> map_option (\<lambda>ds. (if v \<ge> 10 then [v div 10, v mod 10] else [v]) @ ds) (isin_digits bytes)
      | None \<Rightarrow> None)"

fun isin_luhn :: "nat \<Rightarrow> nat list \<Rightarrow> nat \<Rightarrow> nat \<Rightarrow> nat" where
  "isin_luhn index [] s1 s2 = s1 + s2"
| "isin_luhn index (digit # digits) s1 s2 =
     (if index mod 2 = 0 then isin_luhn (index + 1) digits (s1 + digit) s2
      else let s2 = s2 + 2 * digit in
           isin_luhn (index + 1) digits s1 (if digit \<ge> 5 then s2 - 9 else s2))"

definition validate_isin :: "nat list \<Rightarrow> bool" where
  "validate_isin bytes =
     (if \<not> is_ascii_alphabetic (bytes ! 0) \<or> \<not> is_ascii_alphabetic (bytes ! 1) \<or> \<not> is_ascii_digit (bytes ! 11)
      then False
      else if \<not> list_all (\<lambda>i. is_ascii_alphanumeric (bytes ! i)) [2..<11] then False
      else case isin_digits bytes of
             Some digits \<Rightarrow> isin_luhn 0 (rev digits) 0 0 mod 10 = 0
           | None \<Rightarrow> False)"

definition wrap_u128 :: "nat \<Rightarrow> nat" where
  "wrap_u128 n = n mod (u128_max + 1)"

fun lei_sum :: "nat list \<Rightarrow> nat \<Rightarrow> nat \<Rightarrow> nat option" where
  "lei_sum [] i acc = Some acc"
| "lei_sum (byte # bytes) i acc =
     (case byte_value byte of
        None \<Rightarrow> None
      | Some v \<Rightarrow> lei_sum bytes (i + (if v > 9 then 2 else 1))
                   (wrap_u128 (acc + wrap_u128 (v * wrap_u128 (10 ^ i)))))"

definition lei_checksum :: "nat list \<Rightarrow> nat option" where
  "lei_checksum bytes = map_option (\<lambda>acc. 98 - wrap_u128 (acc * 100) mod 97) (lei_sum (rev bytes) 0 0)"

definition validate_lei :: "nat list \<Rightarrow> bool" where
  "validate_lei bytes =
     (if \<not> list_all (\<lambda>i. is_ascii_alphanumeric (bytes ! i)) [0..<18] then False
      else if \<not> is_ascii_digit (bytes ! 18) \<or> \<not> is_ascii_digit (bytes ! 19) then False
      else let first_check_digit = bytes ! 18 - 48;
               second_check_digit = bytes ! 19 - 48;
               input_check = first_check_digit * 10 + second_check_digit
           in Some input_check = lei_checksum (take 18 bytes))"

definition validate_figi :: "nat list \<Rightarrow> bool" where
  "validate_figi bytes =
     (if bytes ! 2 \<noteq> 71 then False
      else if \<not> list_all (\<lambda>i. is_ascii_alphanumeric (bytes ! i)) [3..<11] then False
      else if \<not> is_ascii_digit (bytes ! 11) then False
      else if List.member (map (map of_char) [''BS'', ''BM'', ''GG'', ''GB'', ''GH'', ''KY'', ''VG'']) (take 2 bytes)
      then False
      else cusip_check_digit (take 11 bytes) = Some (bytes ! 11 - 48))"

definition identifier_is_valid :: "AssetIdentifier \<Rightarrow> bool" where
  "identifier_is_valid i =
     (case i of
        CUSIP bs \<Rightarrow> validate_cusip bs | CINS bs \<Rightarrow> validate_cusip bs
      | ISIN bs \<Rightarrow> validate_isin bs
      | LEI bs \<Rightarrow> validate_lei bs
      | FIGI bs \<Rightarrow> validate_figi bs)"

section \<open>The number a legal entity identifier writes\<close>

text \<open>Letters stand for two digits, from 10 to 35.\<close>

definition char_digits :: "nat \<Rightarrow> nat" where
  "char_digits b = (if the (byte_value b) > 9 then 2 else 1)"

fun lei_number :: "nat list \<Rightarrow> nat" where
  "lei_number [] = 0"
| "lei_number (b # bs) = the (byte_value b) * 10 ^ sum_list (map char_digits bs) + lei_number bs"

lemma alnum_value:
  assumes "is_ascii_alphanumeric b"
  shows "\<exists>v. byte_value b = Some v \<and> v < 36"
  using assms by (auto simp: is_ascii_alphanumeric_def is_ascii_alphabetic_def is_ascii_digit_def byte_value_def)

lemma value_lt: "is_ascii_alphanumeric b \<Longrightarrow> the (byte_value b) < 10 ^ char_digits b"
  using alnum_value [of b] by (auto simp: char_digits_def)

lemma lei_number_lt:
  "list_all is_ascii_alphanumeric bs \<Longrightarrow> lei_number bs < 10 ^ sum_list (map char_digits bs)"
proof (induction bs)
  case (Cons b bs)
  let ?n = "sum_list (map char_digits bs)" and ?v = "the (byte_value b)"
  have "?v + 1 \<le> 10 ^ char_digits b" using value_lt [of b] Cons.prems by simp
  then have "(?v + 1) * 10 ^ ?n \<le> 10 ^ char_digits b * 10 ^ ?n" by (rule mult_le_mono1)
  then show ?case using Cons by (simp add: power_add algebra_simps)
qed simp

lemma lei_number_append:
  "lei_number (xs @ ys) = lei_number xs * 10 ^ sum_list (map char_digits ys) + lei_number ys"
  by (induction xs) (simp_all add: power_add algebra_simps)

lemma digits_le: "sum_list (map char_digits bs) \<le> 2 * length bs"
  by (induction bs) (auto simp: char_digits_def)

lemma lei_sum_exact:
  assumes "list_all is_ascii_alphanumeric (bs @ cs)" "2 * length (bs @ cs) \<le> 36"
  shows "lei_sum (rev bs) (sum_list (map char_digits cs)) (lei_number cs) = Some (lei_number (bs @ cs))"
  using assms
proof (induction bs arbitrary: cs rule: rev_induct)
  case (snoc b bs)
  let ?n = "sum_list (map char_digits cs)"
  obtain v where v: "byte_value b = Some v" "v < 36" using snoc.prems(1) alnum_value [of b] by auto
  have "lei_number (b # cs) < 10 ^ sum_list (map char_digits (b # cs))"
    using snoc.prems(1) by (intro lei_number_lt) simp
  also have "\<dots> \<le> 10 ^ 36" using digits_le [of "b # cs"] snoc.prems(2) by (intro power_increasing) auto
  finally have lt: "v * 10 ^ ?n + lei_number cs < 10 ^ 36" using v by simp
  have "(10 :: nat) ^ ?n \<le> 10 ^ 36" using digits_le [of cs] snoc.prems(2) by (intro power_increasing) auto
  then have "wrap_u128 (10 ^ ?n) = 10 ^ ?n" by (simp add: wrap_u128_def u128_max_def)
  moreover have "wrap_u128 (v * 10 ^ ?n) = v * 10 ^ ?n"
    "wrap_u128 (lei_number cs + v * 10 ^ ?n) = lei_number cs + v * 10 ^ ?n"
    using lt by (simp_all add: wrap_u128_def u128_max_def)
  ultimately have "lei_sum (rev (bs @ [b])) ?n (lei_number cs) =
      lei_sum (rev bs) (sum_list (map char_digits (b # cs))) (lei_number (b # cs))"
    using v by (simp add: char_digits_def algebra_simps)
  then show ?case using snoc.IH [of "b # cs"] snoc.prems by simp
qed simp

lemma lei_checksum_exact:
  assumes "list_all is_ascii_alphanumeric bs" "length bs = 18"
  shows "lei_checksum bs = Some (98 - lei_number bs * 100 mod 97)"
proof -
  have "lei_number bs < 10 ^ sum_list (map char_digits bs)" using assms(1) by (rule lei_number_lt)
  also have "\<dots> \<le> 10 ^ 36" using digits_le [of bs] assms(2) by (intro power_increasing) auto
  finally have "wrap_u128 (lei_number bs * 100) = lei_number bs * 100" by (simp add: wrap_u128_def u128_max_def)
  then show ?thesis using lei_sum_exact [of bs "[]"] assms by (simp add: lei_checksum_def)
qed

lemma digit_value: "is_ascii_digit b \<Longrightarrow> byte_value b = Some (b - 48) \<and> char_digits b = 1 \<and> b - 48 \<le> 9"
  by (auto simp: is_ascii_digit_def byte_value_def char_digits_def)

lemma one_mod_97: "(2::nat) \<le> x \<Longrightarrow> x \<le> 194 \<Longrightarrow> x mod 97 = 1 \<longleftrightarrow> x = 98"
proof (cases "x < 97")
  case False
  assume x: "2 \<le> x" "x \<le> 194"
  define k where "k = x - 97"
  have k: "x = 97 + k" "k \<le> 97" using False x by (simp_all add: k_def)
  show ?thesis by (cases "k = 97") (use k in simp_all)
qed simp

lemma complement_mod_97:
  fixes n cd :: nat
  shows "cd = 98 - n mod 97 \<longleftrightarrow> 2 \<le> cd \<and> cd \<le> 98 \<and> (n + cd) mod 97 = 1"
proof -
  define r where "r = n mod 97"
  have r: "r \<le> 96" unfolding r_def using mod_less_divisor [of 97 n] by linarith
  have "(n + cd) mod 97 = (r + cd) mod 97" unfolding r_def by (rule mod_add_left_eq [symmetric])
  moreover have "(r + cd) mod 97 = 1 \<longleftrightarrow> r + cd = 98" if "2 \<le> cd" "cd \<le> 98"
    using that r by (intro one_mod_97) linarith+
  ultimately show ?thesis using r unfolding r_def [symmetric] by linarith
qed

section \<open>The sum of a security number\<close>

definition cusip_term :: "nat \<Rightarrow> nat \<Rightarrow> nat" where
  "cusip_term index v = (let v = (if index mod 2 \<noteq> 0 then v * 2 else v) in v div 10 + v mod 10)"

definition cusip_total :: "nat \<Rightarrow> nat list \<Rightarrow> nat" where
  "cusip_total index bs = (\<Sum>i < length bs. cusip_term (index + i) (the (byte_value (bs ! i))))"

lemma cusip_sum_exact:
  "cusip_sum index bs acc = (if \<exists>b \<in> set bs. byte_value b = None then None else Some (acc + cusip_total index bs))"
proof (induction bs arbitrary: index acc)
  case (Cons b bs)
  have "cusip_total index (b # bs) = cusip_term index (the (byte_value b)) + cusip_total (Suc index) bs"
    unfolding cusip_total_def by (simp add: sum.lessThan_Suc_shift del: sum.lessThan_Suc)
  then show ?case
    using Cons.IH by (cases "byte_value b") (auto simp: cusip_term_def Let_def add.assoc)
qed (simp add: cusip_total_def)

lemma cusip_total_update:
  assumes "i < length bs"
  shows "cusip_total 0 (bs[i := b]) + cusip_term i (the (byte_value (bs ! i))) =
    cusip_total 0 bs + cusip_term i (the (byte_value b))"
proof -
  let ?f = "\<lambda>bs j. cusip_term j (the (byte_value (bs ! j)))"
  have "(\<Sum>j < length bs. ?f xs j) = ?f xs i + (\<Sum>j \<in> {..<length bs} - {i}. ?f xs j)" for xs
    using assms by (intro sum.remove) auto
  note r = this [of "bs[i := b]"] this [of bs]
  have "(\<Sum>j \<in> {..<length bs} - {i}. ?f (bs[i := b]) j) = (\<Sum>j \<in> {..<length bs} - {i}. ?f bs j)"
    by (intro sum.cong) auto
  then show ?thesis using r assms by (simp add: cusip_total_def)
qed

lemma cusip_term_digit:
  assumes "v \<le> 9"
  shows "cusip_term i v = (if i mod 2 = 0 then v else if v < 5 then 2 * v else 2 * v - 9)"
proof (cases "v < 5")
  case False
  have "v * 2 = 10 + (v * 2 - 10)" "v * 2 - 10 < 10" using False assms by simp_all
  then have "v * 2 div 10 = 1" "v * 2 mod 10 = v * 2 - 10" using mod_add_self1 [of 10 "v * 2 - 10"] by simp_all
  moreover have "1 + (v * 2 - 10) = 2 * v - 9" using False by simp
  ultimately show ?thesis using False assms by (simp add: cusip_term_def Let_def del: plus_1_eq_Suc)
qed (use assms in \<open>simp add: cusip_term_def Let_def\<close>)

lemma cusip_term_inj:
  assumes "v \<le> 9" "w \<le> 9" "cusip_term i v mod 10 = cusip_term i w mod 10"
  shows "v = w"
proof -
  have "cusip_term i v < 10" "cusip_term i w < 10" using assms(1,2) by (auto simp: cusip_term_digit)
  then have "cusip_term i v = cusip_term i w" using assms(3) by simp
  then show ?thesis
    using assms(1,2) by (simp add: cusip_term_digit split: if_splits) presburger+
qed

lemma complement_mod_10: "(10 - a mod 10) mod 10 = (10 - b mod 10) mod 10 \<Longrightarrow> a mod 10 = b mod (10 :: nat)"
proof -
  assume *: "(10 - a mod 10) mod 10 = (10 - b mod 10) mod 10"
  have "x = y" if "(10 - x) mod 10 = (10 - y) mod 10" "x < 10" "y < 10" for x y :: nat
    using that by (cases "x = 0"; cases "y = 0") auto
  from this [OF *] show ?thesis by simp
qed

lemma add_mod_10_cancel: "(a + w) mod 10 = (a + v) mod (10 :: nat) \<Longrightarrow> w mod 10 = v mod 10"
proof -
  assume a: "(a + w) mod 10 = (a + v) mod (10 :: nat)"
  have e: "x mod 10 = ((a + x) + 9 * a) mod 10" for x :: nat 
  proof -
   have "((a + x) + 9 * a) = x + 10 * a" by simp
   then show ?thesis by simp
  qed
  show ?thesis unfolding e [of w] e [of v] by (rule mod_add_cong [OF a refl])
qed

section \<open>Properties\<close>

text \<open>
  (C31) A legal entity identifier is accepted if and only if it has the right characters, its last two
  digits are between 2 and 98, and the number it writes leaves the remainder 1 modulo 97, as
  ISO 7064 has it. In particular the 128-bit sums of the code do not overflow.
\<close>

theorem validate_lei_iso7064:
  assumes "length bs = 20"
  shows "validate_lei bs \<longleftrightarrow>
    list_all is_ascii_alphanumeric (take 18 bs) \<and> is_ascii_digit (bs ! 18) \<and> is_ascii_digit (bs ! 19) \<and>
    lei_number bs mod 97 = 1 \<and> lei_number bs mod 100 \<in> {2..98}"
proof -
  have bs: "bs = take 18 bs @ [bs ! 18, bs ! 19]"
    by (rule nth_equalityI) (use assms in \<open>auto simp: nth_append nth_Cons' intro: arg_cong [of _ _ "(!) bs"]\<close>)
  have all: "list_all (\<lambda>i. is_ascii_alphanumeric (bs ! i)) [0..<18] \<longleftrightarrow> list_all is_ascii_alphanumeric (take 18 bs)"
    using assms by (simp add: list_all_length)
  show ?thesis
  proof (cases "list_all is_ascii_alphanumeric (take 18 bs) \<and> is_ascii_digit (bs ! 18) \<and> is_ascii_digit (bs ! 19)")
    case True
    define N where "N = lei_number (take 18 bs)"
    define cd where "cd = (bs ! 18 - 48) * 10 + (bs ! 19 - 48)"
    have d: "byte_value (bs ! 18) = Some (bs ! 18 - 48)" "byte_value (bs ! 19) = Some (bs ! 19 - 48)"
      "char_digits (bs ! 18) = 1" "char_digits (bs ! 19) = 1" "bs ! 18 - 48 \<le> 9" "bs ! 19 - 48 \<le> 9"
      using True digit_value by auto
    have num: "lei_number bs = N * 100 + cd"
      by (subst bs) (simp only: lei_number_append, simp add: d N_def cd_def)
    have "cd < 100" using d(5,6) by (simp add: cd_def)
    then have "lei_number bs mod 100 = cd" by (simp add: num)
    moreover have "validate_lei bs \<longleftrightarrow> cd = 98 - N * 100 mod 97"
      using True lei_checksum_exact [of "take 18 bs"] assms
      by (simp add: validate_lei_def all Let_def N_def cd_def)
    ultimately show ?thesis using True complement_mod_97 [of cd "N * 100"] by (auto simp: num)
  qed (auto simp: validate_lei_def all)
qed

definition ex_lei :: "nat list" where
  "ex_lei = [89, 90, 56, 51, 71, 68, 56, 76, 55, 71, 71, 56, 52, 57, 55, 57, 74, 53, 49, 54]"

theorem validate_lei_iso7064_witness:
  "validate_lei ex_lei \<and> lei_number ex_lei mod 97 = 1"
proof -
  have "lei_number ex_lei = 3435831613821716168497919516"
    by (simp add: ex_lei_def char_digits_def byte_value_def)
  then have m: "lei_number ex_lei mod 97 = 1" "lei_number ex_lei mod 100 \<in> {2..98}" by simp_all
  have "list_all is_ascii_alphanumeric (take 18 ex_lei) \<and> is_ascii_digit (ex_lei ! 18) \<and>
    is_ascii_digit (ex_lei ! 19)" by code_simp
  moreover have "length ex_lei = 20" by code_simp
  ultimately have "validate_lei ex_lei" by (subst validate_lei_iso7064) (simp_all only: m)
  then show ?thesis using m(1) by (rule conjI)
qed

text \<open>
  A security number with one wrong digit is never accepted: if \<open>validate_cusip\<close> accepts nine
  characters, it rejects them once any one digit, the check digit included, is replaced by another.
\<close>

theorem validate_cusip_single_error:
  assumes "validate_cusip bs" "length bs = 9" and "i < 9"
    and "is_ascii_digit (bs ! i)" "is_ascii_digit b" "b \<noteq> bs ! i"
  shows "\<not> validate_cusip (bs[i := b])"
proof
  assume v: "validate_cusip (bs[i := b])"
  have ok: "(10 - cusip_total 0 (take 8 xs) mod 10) mod 10 = xs ! 8 - 48 \<and> is_ascii_digit (xs ! 8)"
    if "validate_cusip xs" for xs
    using that by (auto simp: validate_cusip_def cusip_check_digit_def cusip_sum_exact split: if_splits)
  show False
  proof (cases "i = 8")
    case True
    have "take 8 (bs[i := b]) = take 8 bs" "bs[i := b] ! 8 = b" using True assms(2) by simp_all
    then have "b - 48 = bs ! 8 - 48" using ok [OF v] ok [OF assms(1)] by (simp only:)
    moreover have "48 \<le> b" "48 \<le> bs ! 8" using assms(4,5) True by (simp_all add: is_ascii_digit_def)
    ultimately show False using assms(6) True by (simp add: eq_diff_iff)
  next
    case False
    then have i: "i < length (take 8 bs)" using assms(2,3) by simp
    let ?v = "the (byte_value (bs ! i))" and ?w = "the (byte_value b)"
    have t: "take 8 (bs[i := b]) = (take 8 bs)[i := b]" using False assms(2,3) by (simp add: take_update_swap)
    have "bs[i := b] ! 8 = bs ! 8" using False by simp
    then have "cusip_total 0 ((take 8 bs)[i := b]) mod 10 = cusip_total 0 (take 8 bs) mod 10"
      using ok [OF v] ok [OF assms(1)] unfolding t by (metis complement_mod_10)
    then have "(cusip_total 0 ((take 8 bs)[i := b]) + cusip_term i ?v) mod 10 =
        (cusip_total 0 (take 8 bs) + cusip_term i ?v) mod 10"
      by (rule mod_add_cong) simp
    moreover have "take 8 bs ! i = bs ! i" using i by simp
    ultimately have "(cusip_total 0 (take 8 bs) + cusip_term i ?w) mod 10 = (cusip_total 0 (take 8 bs) + cusip_term i ?v) mod 10"
      using cusip_total_update [OF i, of b] by (simp only:)
    then have "cusip_term i ?w mod 10 = cusip_term i ?v mod 10"
      by (rule add_mod_10_cancel)
    moreover have "?v = bs ! i - 48" "?v \<le> 9" "?w = b - 48" "?w \<le> 9"
      using digit_value [OF assms(4)] digit_value [OF assms(5)] by simp_all
    ultimately have "b - 48 = bs ! i - 48" using cusip_term_inj [of ?w ?v i] by simp
    then show False using assms(4-6) by (simp add: is_ascii_digit_def eq_diff_iff)
  qed
qed

theorem validate_cusip_single_error_witness:
  "validate_cusip [48, 51, 55, 56, 51, 51, 49, 48, 48] \<and> \<not> validate_cusip [48, 51, 55, 57, 51, 51, 49, 48, 48]"
proof -
  have "validate_cusip [48, 51, 55, 56, 51, 51, 49, 48, 48]"
    by (simp add: validate_cusip_def cusip_check_digit_def is_ascii_digit_def byte_value_def)
  from validate_cusip_single_error [OF this, of 3 57] show ?thesis
    using \<open>validate_cusip [48, 51, 55, 56, 51, 51, 49, 48, 48]\<close> by (simp add: is_ascii_digit_def)
qed

end
