(* ===== verification/Asset.thy ===== *)
theory Asset
  imports Compliance_Theorems Cdd_Claims Asset_Identifier
begin

text \<open>
  The asset pallet (\<open>pallets/asset/src/lib.rs\<close>): registration of tickers, creation of assets, issuing,
  redeeming and transferring tokens, and the documents, identifiers, metadata and mediators of an
  asset. It calls the portfolio, checkpoint, statistics, compliance, agents and fee pallets. The
  storage the other pallets read is in \<open>Asset_Storage\<close>; this theory adds the rest of it. The hash
  function of the runtime is a parameter of the configuration. A sum or difference that the code
  writes without a check wraps around.
\<close>

type_synonym DocumentId = nat

section \<open>Storage and configuration\<close>

record Document =
  doc_uri :: string
  doc_content_hash :: nat
  doc_name :: string
  doc_type :: "string option"
  doc_filing_date :: "Moment option"

datatype AssetMetadataLockStatus = Unlocked | Locked | LockedUntil Moment

record AssetMetadataValueDetail =
  value_expire :: "Moment option"
  lock_status :: AssetMetadataLockStatus

record AssetMetadataSpec =
  spec_url :: "string option"
  spec_description :: "string option"
  spec_type_def :: "string option"

record assets_store = compliance_store +
  Identifiers :: "Ticker \<Rightarrow> AssetIdentifier list"
  AssetDocuments :: "Ticker \<Rightarrow> DocumentId \<Rightarrow> Document option"
  AssetDocumentsIdSequence :: "Ticker \<Rightarrow> DocumentId"
  AssetMetadataValues :: "Ticker \<Rightarrow> AssetMetadataKey \<Rightarrow> string option"
  AssetMetadataValueDetails :: "Ticker \<Rightarrow> AssetMetadataKey \<Rightarrow> AssetMetadataValueDetail option"
  AssetMetadataLocalNameToKey :: "Ticker \<Rightarrow> string \<Rightarrow> nat option"
  AssetMetadataGlobalNameToKey :: "string \<Rightarrow> nat option"
  AssetMetadataLocalSpecs :: "Ticker \<Rightarrow> nat \<Rightarrow> AssetMetadataSpec option"
  AssetMetadataGlobalSpecs :: "nat \<Rightarrow> AssetMetadataSpec option"
  AssetMetadataNextLocalKey :: "Ticker \<Rightarrow> nat"
  AssetMetadataNextGlobalKey :: nat

record assets_config = compliance_config +
  AssetNameMaxLength :: nat
  FundingRoundNameMaxLength :: nat
  AssetMetadataNameMaxLength :: nat
  AssetMetadataValueMaxLength :: nat
  AssetMetadataTypeDefMaxLength :: nat
  MaxAssetMediators :: nat
  Hashing :: "nat list \<Rightarrow> IdentityId"

definition put_token ::
  "Ticker \<Rightarrow> SecurityToken \<Rightarrow> 'a asset_store_scheme \<Rightarrow> 'a asset_store_scheme" where
  "put_token t v s = s\<lparr>Tokens := (Tokens s)(t \<mapsto> v)\<rparr>"

definition put_balance_of ::
  "Ticker \<Rightarrow> IdentityId \<Rightarrow> Balance \<Rightarrow> 'a asset_store_scheme \<Rightarrow> 'a asset_store_scheme" where
  "put_balance_of t d v s = s\<lparr>BalanceOf := (BalanceOf s)(t := (BalanceOf s t)(d := v))\<rparr>"

definition put_relation ::
  "IdentityId \<Rightarrow> Ticker \<Rightarrow> AssetOwnershipRelation \<Rightarrow> 'a asset_store_scheme \<Rightarrow> 'a asset_store_scheme" where
  "put_relation d t v s = s\<lparr>AssetOwnershipRelations :=
     (AssetOwnershipRelations s)(d := (AssetOwnershipRelations s d)(t := v))\<rparr>"

definition put_ticker ::
  "Ticker \<Rightarrow> TickerRegistration \<Rightarrow> 'a asset_store_scheme \<Rightarrow> 'a asset_store_scheme" where
  "put_ticker t v s = s\<lparr>Tickers := (Tickers s)(t \<mapsto> v)\<rparr>"

definition put_issued ::
  "Ticker \<Rightarrow> FundingRoundName \<Rightarrow> Balance \<Rightarrow> 'a asset_store_scheme \<Rightarrow> 'a asset_store_scheme" where
  "put_issued t r v s = s\<lparr>IssuedInFundingRound :=
     (IssuedInFundingRound s)(t := (IssuedInFundingRound s t)(r := v))\<rparr>"

definition put_metadata_value ::
  "Ticker \<Rightarrow> AssetMetadataKey \<Rightarrow> string option \<Rightarrow> 'a assets_store_scheme \<Rightarrow> 'a assets_store_scheme" where
  "put_metadata_value t k v s = s\<lparr>AssetMetadataValues :=
     (AssetMetadataValues s)(t := (AssetMetadataValues s t)(k := v))\<rparr>"

definition put_metadata_detail ::
  "Ticker \<Rightarrow> AssetMetadataKey \<Rightarrow> AssetMetadataValueDetail option \<Rightarrow> 'a assets_store_scheme
    \<Rightarrow> 'a assets_store_scheme" where
  "put_metadata_detail t k v s = s\<lparr>AssetMetadataValueDetails :=
     (AssetMetadataValueDetails s)(t := (AssetMetadataValueDetails s t)(k := v))\<rparr>"

lemmas asset_put_defs = put_token_def put_balance_of_def put_relation_def put_ticker_def put_issued_def
  put_metadata_value_def put_metadata_detail_def

section \<open>Tickers\<close>

datatype TickerRegistrationStatus = RegisteredByOther | Available | RegisteredByDid

text \<open>The twelve bytes of a ticker, the first one the most significant.\<close>

definition ticker_bytes :: "Ticker \<Rightarrow> nat list" where
  "ticker_bytes ticker = map (\<lambda>i. ticker div 256 ^ (11 - i) mod 256) [0..<12]"

fun ticker_len_from :: "nat list \<Rightarrow> nat \<Rightarrow> nat" where
  "ticker_len_from bytes 0 = 0"
| "ticker_len_from bytes (Suc i) = (if bytes ! i \<noteq> 0 then i + 1 else ticker_len_from bytes i)"

definition ticker_len :: "Ticker \<Rightarrow> nat" where
  "ticker_len ticker = ticker_len_from (ticker_bytes ticker) 12"

definition is_ascii_uppercase :: "nat \<Rightarrow> bool" where
  "is_ascii_uppercase b \<longleftrightarrow> 65 \<le> b \<and> b \<le> 90"

fun verify_ticker_bytes :: "nat list \<Rightarrow> unit result" where
  "verify_ticker_bytes [] = Inr ()"
| "verify_ticker_bytes (b # bs) =
     (if \<not> is_ascii_uppercase b \<and> \<not> is_ascii_digit b \<and>
         \<not> List.member (map of_char [CHR ''_'', CHR ''-'', CHR ''.'', CHR ''/'']) b
      then if list_all (\<lambda>byte. byte = 0) (b # bs) then Inr ()
           else Inl (AssetError InvalidTickerCharacter)
      else verify_ticker_bytes bs)"

definition verify_ticker_characters :: "Ticker \<Rightarrow> unit result" where
  "verify_ticker_characters ticker =
     (let bytes = ticker_bytes ticker in
      if (case bytes of [] \<Rightarrow> 0 | b # _ \<Rightarrow> b) = 0 then Inl (AssetError TickerFirstByteNotValid)
      else verify_ticker_bytes bytes)"

definition is_owner :: "'a asset_store_scheme \<Rightarrow> Ticker \<Rightarrow> IdentityId \<Rightarrow> bool" where
  "is_owner s ticker did =
     (case AssetOwnershipRelations s did ticker of AssetOwned \<Rightarrow> True | TickerOwned \<Rightarrow> True | NotOwned \<Rightarrow> False)"

definition ensure_owner :: "'a asset_store_scheme \<Rightarrow> Ticker \<Rightarrow> IdentityId \<Rightarrow> unit result" where
  "ensure_owner s ticker did = ensure (is_owner s ticker did) (AssetError asset_error.Unauthorized) (Inr ())"

definition ensure_asset_exists :: "'a asset_store_scheme \<Rightarrow> Ticker \<Rightarrow> unit result" where
  "ensure_asset_exists s ticker = ensure (Tokens s ticker \<noteq> None) (AssetError NoSuchAsset) (Inr ())"

definition ensure_asset_fresh :: "'a asset_store_scheme \<Rightarrow> Ticker \<Rightarrow> unit result" where
  "ensure_asset_fresh s ticker = ensure (Tokens s ticker = None) (AssetError AssetAlreadyCreated) (Inr ())"

definition is_ticker_available :: "'a asset_store_scheme \<Rightarrow> Ticker \<Rightarrow> bool" where
  "is_ticker_available s ticker =
     (case Tickers s ticker of
        Some reg \<Rightarrow> (case ticker_expiry reg of Some e \<Rightarrow> timestamp s > e | None \<Rightarrow> False)
      | None \<Rightarrow> True)"

definition is_ticker_registry_valid :: "'a asset_store_scheme \<Rightarrow> Ticker \<Rightarrow> IdentityId \<Rightarrow> bool" where
  "is_ticker_registry_valid s ticker did =
     (case Tickers s ticker of
        Some reg \<Rightarrow> ticker_owner reg = did \<and>
          \<not> (case ticker_expiry reg of Some e \<Rightarrow> timestamp s > e | None \<Rightarrow> False)
      | None \<Rightarrow> False)"

definition is_ticker_available_or_registered_to ::
  "'a asset_store_scheme \<Rightarrow> Ticker \<Rightarrow> IdentityId \<Rightarrow> TickerRegistrationStatus" where
  "is_ticker_available_or_registered_to s ticker did =
     (case Tickers s ticker of
        Some reg \<Rightarrow>
          if (case ticker_expiry reg of Some expiry \<Rightarrow> timestamp s > expiry | None \<Rightarrow> False) then Available
          else if ticker_owner reg = did then RegisteredByDid
          else RegisteredByOther
      | None \<Rightarrow> Available)"

definition ensure_ticker_length :: "Ticker \<Rightarrow> TickerRegistrationConfig \<Rightarrow> unit result" where
  "ensure_ticker_length ticker tc =
     ensure (ticker_len ticker \<le> max_ticker_length tc) (AssetError TickerTooLong) (Inr ())"

definition ticker_registration_checks ::
  "'a asset_store_scheme \<Rightarrow> Ticker \<Rightarrow> IdentityId \<Rightarrow> bool \<Rightarrow> TickerRegistrationConfig
    \<Rightarrow> (Moment option) result" where
  "ticker_registration_checks s ticker to_did no_re_register tc =
     attempt (verify_ticker_characters ticker) (\<lambda>_.
     attempt (ensure_asset_fresh s ticker) (\<lambda>_.
     attempt (ensure_ticker_length ticker tc) (\<lambda>_.
     if (case is_ticker_available_or_registered_to s ticker to_did of
           RegisteredByOther \<Rightarrow> True
         | RegisteredByDid \<Rightarrow> no_re_register
         | Available \<Rightarrow> False)
     then Inl (AssetError TickerAlreadyRegistered)
     else Inr (map_option (\<lambda>exp. wrapping_add u64_max (timestamp s) exp) (registration_length tc)))))"

definition unverified_register_ticker ::
  "Ticker \<Rightarrow> IdentityId \<Rightarrow> Moment option \<Rightarrow> 'a asset_store_scheme \<Rightarrow> 'a asset_store_scheme" where
  "unverified_register_ticker ticker owner expiry s =
     (let s1 = (case Tickers s ticker of
                  Some details \<Rightarrow> put_relation (ticker_owner details) ticker NotOwned s
                | None \<Rightarrow> s);
          s2 = put_ticker ticker \<lparr>ticker_owner = owner, ticker_expiry = expiry\<rparr> s1
      in put_relation owner ticker TickerOwned s2)"

definition base_register_ticker ::
  "'c fee_config_scheme \<Rightarrow> Origin \<Rightarrow> Ticker \<Rightarrow> 'a fee_store_scheme \<Rightarrow> ('a fee_store_scheme) result" where
  "base_register_ticker cfg origin ticker s =
     attempt (ensure_perms s origin) (\<lambda>to_did.
     attempt (ticker_registration_checks s ticker to_did False (TickerConfig s)) (\<lambda>expiry.
     attempt (charge_fee cfg AssetRegisterTicker s) (\<lambda>s1.
     Inr (unverified_register_ticker ticker to_did expiry s1))))"

definition reserve_currency_tickers :: "Ticker list \<Rightarrow> 'a asset_store_scheme \<Rightarrow> 'a asset_store_scheme" where
  "reserve_currency_tickers codes s =
     fold (\<lambda>t. unverified_register_ticker t (as_id FiatTickersReservation) None) codes s"

definition transfer_ticker ::
  "TickerRegistration \<Rightarrow> Ticker \<Rightarrow> IdentityId \<Rightarrow> 'a asset_store_scheme \<Rightarrow> 'a asset_store_scheme" where
  "transfer_ticker reg ticker to s =
     put_ticker ticker (reg\<lparr>ticker_owner := to\<rparr>)
       (put_relation to ticker TickerOwned (put_relation (ticker_owner reg) ticker NotOwned s))"

definition accept_ticker_with_auth ::
  "IdentityId \<Rightarrow> AuthorizationData \<Rightarrow> IdentityId \<Rightarrow> 'a asset_store_scheme \<Rightarrow> ('a asset_store_scheme) result" where
  "accept_ticker_with_auth to dat auth_by s =
     (case dat of
        TransferTicker ticker \<Rightarrow>
          attempt (ensure_asset_fresh s ticker) (\<lambda>_.
          attempt (ok_or (Tickers s ticker) (AssetError TickerRegistrationExpired)) (\<lambda>reg.
          attempt (ensure_auth_by auth_by (ticker_owner reg)) (\<lambda>_.
          Inr (transfer_ticker reg ticker to s))))
      | _ \<Rightarrow> Inl (dispatch_error_of_auth BadType))"

definition base_accept_ticker_transfer ::
  "Origin \<Rightarrow> nat \<Rightarrow> 'a asset_store_scheme \<Rightarrow> ('a asset_store_scheme) result" where
  "base_accept_ticker_transfer origin i s =
     attempt (ensure_perms s origin) (\<lambda>to.
     storage_layer (accept_auth_with (Signatory.Identity to) i (accept_ticker_with_auth to) s))"

definition accept_ownership_with_auth ::
  "IdentityId \<Rightarrow> AuthorizationData \<Rightarrow> IdentityId \<Rightarrow> 'a agents_store_scheme
    \<Rightarrow> ('a agents_store_scheme) result" where
  "accept_ownership_with_auth to dat auth_by s =
     (case dat of
        TransferAssetOwnership ticker \<Rightarrow>
          attempt (token_details s ticker) (\<lambda>token.
          attempt (ensure_agent_permissioned s ticker auth_by) (\<lambda>_.
          attempt (ok_or (Tickers s ticker) (AssetError NoSuchAsset)) (\<lambda>reg.
          let s1 = put_relation (ticker_owner reg) ticker NotOwned s;
              s2 = put_relation to ticker AssetOwned s1;
              s3 = put_ticker ticker (reg\<lparr>ticker_owner := to\<rparr>) s2
          in Inr (put_token ticker (token\<lparr>owner_did := to\<rparr>) s3))))
      | _ \<Rightarrow> Inl (dispatch_error_of_auth BadType))"

definition base_accept_token_ownership_transfer ::
  "Origin \<Rightarrow> nat \<Rightarrow> 'a agents_store_scheme \<Rightarrow> ('a agents_store_scheme) result" where
  "base_accept_token_ownership_transfer origin i s =
     attempt (ensure_perms s origin) (\<lambda>to.
     storage_layer (accept_auth_with (Signatory.Identity to) i (accept_ownership_with_auth to) s))"

section \<open>Creating assets\<close>

definition SECURITY_TOKEN :: "nat list" where
  "SECURITY_TOKEN = map of_char ''SECURITY_TOKEN:''"

definition get_token_did :: "'c assets_config_scheme \<Rightarrow> Ticker \<Rightarrow> IdentityId" where
  "get_token_did cfg ticker = Hashing cfg (SECURITY_TOKEN @ ticker_bytes ticker)"

definition ensure_no_id_record :: "'a identity_store_scheme \<Rightarrow> IdentityId \<Rightarrow> unit result" where
  "ensure_no_id_record s i = ensure (\<not> is_identity_exists s i) (IdentityError DidAlreadyExists) (Inr ())"

definition commit_token_did ::
  "IdentityId \<Rightarrow> 'a identity_store_scheme \<Rightarrow> 'a identity_store_scheme" where
  "commit_token_did did s = s\<lparr>DidRecords := (DidRecords s)(did \<mapsto> \<lparr>primary_key = None\<rparr>)\<rparr>"

definition ensure_asset_name_bounded :: "'c assets_config_scheme \<Rightarrow> AssetName \<Rightarrow> unit result" where
  "ensure_asset_name_bounded cfg name =
     ensure (length name mod (u32_max + 1) \<le> AssetNameMaxLength cfg)
       (AssetError MaxLengthOfAssetNameExceeded) (Inr ())"

definition ensure_funding_round_name_bounded ::
  "'c assets_config_scheme \<Rightarrow> FundingRoundName \<Rightarrow> unit result" where
  "ensure_funding_round_name_bounded cfg name =
     ensure (length name mod (u32_max + 1) \<le> FundingRoundNameMaxLength cfg)
       (AssetError FundingRoundNameMaxLengthExceeded) (Inr ())"

definition ensure_asset_idents_valid :: "AssetIdentifier list \<Rightarrow> unit result" where
  "ensure_asset_idents_valid idents =
     ensure (list_all identifier_is_valid idents) (AssetError InvalidAssetIdentifier) (Inr ())"

definition ensure_asset_type_valid :: "'a asset_store_scheme \<Rightarrow> AssetType \<Rightarrow> unit result" where
  "ensure_asset_type_valid s ty =
     (case ty of
        CustomAsset i \<Rightarrow> ensure (CustomTypes s i \<noteq> None) (AssetError InvalidCustomAssetTypeId) (Inr ())
      | _ \<Rightarrow> Inr ())"

definition ensure_create_asset_parameters :: "'a asset_store_scheme \<Rightarrow> Ticker \<Rightarrow> unit result" where
  "ensure_create_asset_parameters s ticker =
     attempt (ensure_asset_fresh s ticker) (\<lambda>_. ensure_ticker_length ticker (TickerConfig s))"

definition unverified_update_idents ::
  "Ticker \<Rightarrow> AssetIdentifier list \<Rightarrow> 'a assets_store_scheme \<Rightarrow> 'a assets_store_scheme" where
  "unverified_update_idents ticker idents s = s\<lparr>Identifiers := (Identifiers s)(ticker := idents)\<rparr>"

definition finish_registration :: "Ticker \<Rightarrow> 'a asset_store_scheme \<Rightarrow> 'a asset_store_scheme" where
  "finish_registration ticker s =
     (case Tickers s ticker of
        Some tr \<Rightarrow> put_ticker ticker (tr\<lparr>ticker_expiry := None\<rparr>) s
      | None \<Rightarrow> s)"

text \<open>The panic of \<open>unwrap\<close> at the end of the creation of an asset is an error of its own.\<close>

definition commit_asset ::
  "IdentityId \<Rightarrow> AssetName \<Rightarrow> Ticker \<Rightarrow> bool \<Rightarrow> AssetType \<Rightarrow> AssetIdentifier list
    \<Rightarrow> FundingRoundName option \<Rightarrow> bool \<Rightarrow> IdentityId \<Rightarrow> 'a assets_store_scheme
    \<Rightarrow> ('a assets_store_scheme) result" where
  "commit_asset did name ticker divis ty idents fround available token_did s =
     (let s1 = commit_token_did token_did s;
          s2 = (if available then unverified_register_ticker ticker did None s1
                else finish_registration ticker s1);
          s3 = put_token ticker \<lparr>total_supply = 0, owner_did = did, divisible = divis, asset_type = ty\<rparr> s2;
          s4 = s3\<lparr>AssetNames := (AssetNames s3)(ticker \<mapsto> name)\<rparr>;
          s5 = put_relation did ticker AssetOwned s4;
          s6 = (case fround of
                  Some fr \<Rightarrow> s5\<lparr>FundingRound := (FundingRound s5)(ticker := fr)\<rparr>
                | None \<Rightarrow> s5);
          s7 = unverified_update_idents ticker idents s6
      in case unchecked_add_agent ticker did Full s7 of
           Inr s8 \<Rightarrow> Inr s8
         | Inl _ \<Rightarrow> Inl (Other ''called `Result::unwrap()` on an `Err` value''))"

definition unsafe_create_asset ::
  "'c assets_config_scheme \<Rightarrow> IdentityId \<Rightarrow> SecondaryKey option \<Rightarrow> AssetName \<Rightarrow> Ticker \<Rightarrow> bool \<Rightarrow> AssetType
    \<Rightarrow> AssetIdentifier list \<Rightarrow> FundingRoundName option \<Rightarrow> 'a assets_store_scheme
    \<Rightarrow> ('a assets_store_scheme) result" where
  "unsafe_create_asset cfg did sk name ticker divis ty idents fround s =
     attempt (ensure_asset_name_bounded cfg name) (\<lambda>_.
     attempt (case fround of Some fr \<Rightarrow> ensure_funding_round_name_bounded cfg fr | None \<Rightarrow> Inr ()) (\<lambda>_.
     attempt (ensure_asset_idents_valid idents) (\<lambda>_.
     attempt (ensure_asset_type_valid s ty) (\<lambda>_.
     attempt (ensure_create_asset_parameters s ticker) (\<lambda>_.
     attempt (case is_ticker_available_or_registered_to s ticker did of
                RegisteredByOther \<Rightarrow> Inl (AssetError TickerAlreadyRegistered)
              | RegisteredByDid \<Rightarrow> Inr False
              | Available \<Rightarrow> Inr True) (\<lambda>available.
     attempt (if available then verify_ticker_characters ticker else Inr ()) (\<lambda>_.
     let token_did = get_token_did cfg ticker in
     attempt (ensure_no_id_record s token_did) (\<lambda>_.
     attempt (ensure_portfolio_custody_and_permission s (default_portfolio did) did sk) (\<lambda>_.
     attempt (charge_fees cfg (if available then [AssetRegisterTicker, AssetCreateAsset] else []) s) (\<lambda>s1.
     commit_asset did name ticker divis ty idents fround available token_did s1))))))))))"

definition base_create_asset ::
  "'c assets_config_scheme \<Rightarrow> Origin \<Rightarrow> AssetName \<Rightarrow> Ticker \<Rightarrow> bool \<Rightarrow> AssetType \<Rightarrow> AssetIdentifier list
    \<Rightarrow> FundingRoundName option \<Rightarrow> 'a assets_store_scheme \<Rightarrow> ('a assets_store_scheme) result" where
  "base_create_asset cfg origin name ticker divis ty idents fround s =
     attempt (ensure_origin_call_permissions s origin) (\<lambda>d.
     unsafe_create_asset cfg (primary_did d) (secondary_key d) name ticker divis ty idents fround s)"

definition unsafe_register_custom_asset_type ::
  "'c config_scheme \<Rightarrow> string \<Rightarrow> 'a asset_store_scheme \<Rightarrow> (CustomAssetTypeId \<times> 'a asset_store_scheme) result" where
  "unsafe_register_custom_asset_type cfg ty s =
     attempt (ensure_string_limited cfg ty) (\<lambda>_.
     case CustomTypesInverse s ty of
       Some i \<Rightarrow> Inr (i, s)
     | None \<Rightarrow>
         attempt (try_next_pre u32_max (CustomTypeIdSequence s)) (\<lambda>(i, sq).
         let s1 = s\<lparr>CustomTypeIdSequence := sq\<rparr>;
             s2 = s1\<lparr>CustomTypesInverse := (CustomTypesInverse s1)(ty \<mapsto> i)\<rparr>
         in Inr (i, s2\<lparr>CustomTypes := (CustomTypes s2)(i \<mapsto> ty)\<rparr>)))"

definition base_register_custom_asset_type ::
  "'c config_scheme \<Rightarrow> Origin \<Rightarrow> string \<Rightarrow> 'a asset_store_scheme
    \<Rightarrow> (CustomAssetTypeId \<times> 'a asset_store_scheme) result" where
  "base_register_custom_asset_type cfg origin ty s =
     attempt (ensure_perms s origin) (\<lambda>_. unsafe_register_custom_asset_type cfg ty s)"

definition create_asset_with_custom_type ::
  "'c assets_config_scheme \<Rightarrow> Origin \<Rightarrow> AssetName \<Rightarrow> Ticker \<Rightarrow> bool \<Rightarrow> string \<Rightarrow> AssetIdentifier list
    \<Rightarrow> FundingRoundName option \<Rightarrow> 'a assets_store_scheme \<Rightarrow> ('a assets_store_scheme) result" where
  "create_asset_with_custom_type cfg origin name ticker divis custom idents fround s =
     attempt (ensure_origin_call_permissions s origin) (\<lambda>d.
     attempt (unsafe_register_custom_asset_type cfg custom s) (\<lambda>(i, s1).
     unsafe_create_asset cfg (primary_did d) (secondary_key d) name ticker divis (CustomAsset i) idents fround s1))"

section \<open>Issuing, redeeming and transferring\<close>

definition ensure_origin_ticker_and_portfolio_permissions ::
  "'a agents_store_scheme \<Rightarrow> Origin \<Rightarrow> Ticker \<Rightarrow> PortfolioKind \<Rightarrow> bool \<Rightarrow> PortfolioId result" where
  "ensure_origin_ticker_and_portfolio_permissions s origin ticker kind ensure_custody =
     attempt (ensure_agent_asset_perms s origin ticker) (\<lambda>d.
     let pid = PortfolioId (primary_did d) kind in
     attempt (ensure_portfolio_validity s pid) (\<lambda>_.
     attempt (if ensure_custody then ensure_portfolio_custody s pid (primary_did d) else Inr ()) (\<lambda>_.
     attempt (ensure_user_portfolio_permission (secondary_key d) pid) (\<lambda>_.
     Inr pid))))"

definition asset_supply :: "'a asset_store_scheme \<Rightarrow> Ticker \<Rightarrow> Balance" where
  "asset_supply s ticker = (case token_details s ticker of Inr t \<Rightarrow> total_supply t | Inl _ \<Rightarrow> 0)"

definition ensure_within_max_supply :: "Balance \<Rightarrow> unit result" where
  "ensure_within_max_supply supply = ensure (supply \<le> MAX_SUPPLY) (AssetError TotalSupplyAboveLimit) (Inr ())"

definition mint ::
  "'c statistics_config_scheme \<Rightarrow> Ticker \<Rightarrow> PortfolioId \<Rightarrow> Balance \<Rightarrow> ProtocolOp option
    \<Rightarrow> WeightMeter \<times> 'a statistics_store_scheme \<Rightarrow> (WeightMeter \<times> 'a statistics_store_scheme) result" where
  "mint cfg ticker issuer_portfolio v fee_data ms =
     (case ms of (m, s) \<Rightarrow>
        attempt (ensure_granular s ticker v) (\<lambda>_.
        attempt (token_details s ticker) (\<lambda>token.
        ensure (is_fungible (asset_type token)) (AssetError UnexpectedNonFungibleToken) (
        attempt (ok_or (checked_add u128_max (total_supply token) v) (AssetError TotalSupplyOverflow)) (\<lambda>new_supply.
        attempt (ensure_within_max_supply new_supply) (\<lambda>_.
        let old_balance = BalanceOf s ticker (pid_did issuer_portfolio);
            new_balance = wrapping_add u128_max old_balance v;
            new_portfolio = wrapping_add u128_max (PortfolioAssetBalances s issuer_portfolio ticker) v
        in attempt (case fee_data of Some op \<Rightarrow> charge_fee cfg op s | None \<Rightarrow> Inr s) (\<lambda>s1.
        attempt (advance_update_balances ticker [(pid_did issuer_portfolio, old_balance)] s1) (\<lambda>s2.
        let s3 = put_balance_of ticker (pid_did issuer_portfolio) new_balance s2;
            s4 = set_portfolio_balance issuer_portfolio ticker new_portfolio s3;
            s5 = put_token ticker (token\<lparr>total_supply := new_supply\<rparr>) s4
        in attempt (update_asset_stats cfg ticker None (Some (pid_did issuer_portfolio)) None (Some new_balance) v (m, s5))
             (\<lambda>(m, s6).
        let fround = FundingRound s6 ticker;
            issued = wrapping_add u128_max (IssuedInFundingRound s6 ticker fround) v
        in Inr (m, put_issued ticker fround issued s6))))))))))"

definition base_issue ::
  "'c statistics_config_scheme \<Rightarrow> Origin \<Rightarrow> Ticker \<Rightarrow> Balance \<Rightarrow> PortfolioKind
    \<Rightarrow> 'a statistics_store_scheme \<Rightarrow> ('a statistics_store_scheme) result" where
  "base_issue cfg origin ticker amount kind s =
     attempt (ensure_origin_ticker_and_portfolio_permissions s origin ticker kind False) (\<lambda>pid.
     attempt (mint cfg ticker pid amount (Some AssetIssue) (max_limit_no_minimum, s)) (\<lambda>(_, s1). Inr s1))"

definition base_redeem ::
  "'c statistics_config_scheme \<Rightarrow> Origin \<Rightarrow> Ticker \<Rightarrow> Balance \<Rightarrow> PortfolioKind
    \<Rightarrow> WeightMeter \<times> 'a statistics_store_scheme \<Rightarrow> (WeightMeter \<times> 'a statistics_store_scheme) result" where
  "base_redeem cfg origin ticker v kind ms =
     (case ms of (m, s) \<Rightarrow>
        attempt (ensure_origin_ticker_and_portfolio_permissions s origin ticker kind True) (\<lambda>pid.
        attempt (ensure_granular s ticker v) (\<lambda>_.
        attempt (token_details s ticker) (\<lambda>token.
        ensure (is_fungible (asset_type token)) (AssetError UnexpectedNonFungibleToken) (
        attempt (reduce_portfolio_balance pid ticker v s) (\<lambda>s1.
        attempt (ok_or (checked_sub (total_supply token) v) (AssetError TotalSupplyOverflow)) (\<lambda>new_supply.
        attempt (advance_update_balances ticker [(pid_did pid, BalanceOf s1 ticker (pid_did pid))] s1) (\<lambda>s2.
        let new_balance = wrapping_sub u128_max (BalanceOf s2 ticker (pid_did pid)) v;
            s3 = put_balance_of ticker (pid_did pid) new_balance s2;
            s4 = put_token ticker (token\<lparr>total_supply := new_supply\<rparr>) s3
        in update_asset_stats cfg ticker (Some (pid_did pid)) None (Some new_balance) None v (m, s4)))))))))"

definition redeem ::
  "'c statistics_config_scheme \<Rightarrow> Origin \<Rightarrow> Ticker \<Rightarrow> Balance \<Rightarrow> 'a statistics_store_scheme
    \<Rightarrow> ('a statistics_store_scheme) result" where
  "redeem cfg origin ticker v s =
     attempt (base_redeem cfg origin ticker v Default (max_limit_no_minimum, s)) (\<lambda>(_, s1). Inr s1)"

definition redeem_from_portfolio ::
  "'c statistics_config_scheme \<Rightarrow> Origin \<Rightarrow> Ticker \<Rightarrow> Balance \<Rightarrow> PortfolioKind
    \<Rightarrow> 'a statistics_store_scheme \<Rightarrow> ('a statistics_store_scheme) result" where
  "redeem_from_portfolio cfg origin ticker v kind s =
     attempt (base_redeem cfg origin ticker v kind (max_limit_no_minimum, s)) (\<lambda>(_, s1). Inr s1)"

text \<open>
  A transfer check returns a status code. The meter it returns with a failure of the statistics is
  not tracked: every caller fails on that code.
\<close>

definition ERC1400_TRANSFER_FAILURE :: nat where "ERC1400_TRANSFER_FAILURE = 0x50"
definition ERC1400_TRANSFER_SUCCESS :: nat where "ERC1400_TRANSFER_SUCCESS = 0x51"
definition ERC1400_INSUFFICIENT_BALANCE :: nat where "ERC1400_INSUFFICIENT_BALANCE = 0x52"
definition ERC1400_TRANSFERS_HALTED :: nat where "ERC1400_TRANSFERS_HALTED = 0x54"
definition INVALID_SENDER_DID :: nat where "INVALID_SENDER_DID = 0xa0"
definition INVALID_RECEIVER_DID :: nat where "INVALID_RECEIVER_DID = 0xa1"
definition COMPLIANCE_MANAGER_FAILURE :: nat where "COMPLIANCE_MANAGER_FAILURE = 0xa2"
definition INVALID_GRANULARITY :: nat where "INVALID_GRANULARITY = 0xa4"
definition PORTFOLIO_FAILURE :: nat where "PORTFOLIO_FAILURE = 0xa9"
definition CUSTODIAN_ERROR :: nat where "CUSTODIAN_ERROR = 0xaa"
definition TRANSFER_MANAGER_FAILURE :: nat where "TRANSFER_MANAGER_FAILURE = 0xac"

lemmas status_codes = ERC1400_TRANSFER_FAILURE_def ERC1400_TRANSFER_SUCCESS_def
  ERC1400_INSUFFICIENT_BALANCE_def ERC1400_TRANSFERS_HALTED_def INVALID_SENDER_DID_def
  INVALID_RECEIVER_DID_def COMPLIANCE_MANAGER_FAILURE_def INVALID_GRANULARITY_def
  PORTFOLIO_FAILURE_def CUSTODIAN_ERROR_def TRANSFER_MANAGER_FAILURE_def

definition portfolio_failure ::
  "'a portfolio_store_scheme \<Rightarrow> PortfolioId \<Rightarrow> PortfolioId \<Rightarrow> Ticker \<Rightarrow> Balance \<Rightarrow> bool" where
  "portfolio_failure s from to ticker v = (\<not> is_ok (ensure_portfolio_transfer_validity s from to ticker v))"

definition statistics_check ::
  "'c statistics_config_scheme \<Rightarrow> 'a statistics_store_scheme \<Rightarrow> IdentityId \<Rightarrow> IdentityId \<Rightarrow> Ticker \<Rightarrow> Balance
    \<Rightarrow> WeightMeter \<Rightarrow> WeightMeter result" where
  "statistics_check cfg s from_did to_did ticker v m =
     verify_transfer_restrictions cfg s ticker from_did to_did (BalanceOf s ticker from_did)
       (BalanceOf s ticker to_did) v (asset_supply s ticker) m"

definition is_valid_transfer ::
  "'c compliance_config_scheme \<Rightarrow> 'a compliance_store_scheme \<Rightarrow> Ticker \<Rightarrow> PortfolioId \<Rightarrow> PortfolioId \<Rightarrow> Balance
    \<Rightarrow> WeightMeter \<Rightarrow> (nat \<times> WeightMeter option) result" where
  "is_valid_transfer cfg s ticker from to v m =
     (if Frozen s ticker then Inr (ERC1400_TRANSFERS_HALTED, Some m)
      else if portfolio_failure s from to ticker v then Inr (PORTFOLIO_FAILURE, Some m)
      else case statistics_check cfg s (pid_did from) (pid_did to) ticker v m of
             Inl _ \<Rightarrow> Inr (TRANSFER_MANAGER_FAILURE, None)
           | Inr m \<Rightarrow>
               attempt (is_compliant cfg s ticker (pid_did from) (pid_did to) m) (\<lambda>(compliant, m).
               if \<not> compliant then Inr (COMPLIANCE_MANAGER_FAILURE, Some m)
               else Inr (ERC1400_TRANSFER_SUCCESS, Some m)))"

definition unsafe_transfer ::
  "'c statistics_config_scheme \<Rightarrow> PortfolioId \<Rightarrow> PortfolioId \<Rightarrow> Ticker \<Rightarrow> Balance
    \<Rightarrow> WeightMeter \<times> 'a statistics_store_scheme \<Rightarrow> (WeightMeter \<times> 'a statistics_store_scheme) result" where
  "unsafe_transfer cfg from to ticker v ms =
     (case ms of (m, s) \<Rightarrow>
        attempt (ensure_granular s ticker v) (\<lambda>_.
        attempt (token_details s ticker) (\<lambda>token.
        ensure (is_fungible (asset_type token)) (AssetError UnexpectedNonFungibleToken) (
        ensure (pid_did from \<noteq> pid_did to) (AssetError SenderSameAsReceiver) (
        let from_total = BalanceOf s ticker (pid_did from) in
        ensure (from_total \<ge> v) (AssetError InsufficientBalance) (
        let new_from = from_total - v;
            to_total = BalanceOf s ticker (pid_did to)
        in attempt (ok_or (checked_add u128_max to_total v) (AssetError asset_error.BalanceOverflow)) (\<lambda>new_to.
        attempt (ensure_sufficient_balance s from ticker v) (\<lambda>_.
        attempt (advance_update_balances ticker [(pid_did from, from_total), (pid_did to, to_total)] s) (\<lambda>s1.
        let s2 = put_balance_of ticker (pid_did from) new_from s1;
            s3 = put_balance_of ticker (pid_did to) new_to s2;
            s4 = unchecked_transfer_portfolio_balance from to ticker v s3
        in update_asset_stats cfg ticker (Some (pid_did from)) (Some (pid_did to)) (Some new_from)
             (Some new_to) v (m, s4))))))))))"

definition base_transfer ::
  "'c compliance_config_scheme \<Rightarrow> PortfolioId \<Rightarrow> PortfolioId \<Rightarrow> Ticker \<Rightarrow> Balance
    \<Rightarrow> WeightMeter \<times> 'a compliance_store_scheme \<Rightarrow> (WeightMeter \<times> 'a compliance_store_scheme) result" where
  "base_transfer cfg from to ticker v ms =
     (case ms of (m, s) \<Rightarrow>
        attempt (is_valid_transfer cfg s ticker from to v m) (\<lambda>(code, m').
        ensure (code = ERC1400_TRANSFER_SUCCESS) (AssetError asset_error.InvalidTransfer) (
        unsafe_transfer cfg from to ticker v (the m', s))))"

definition base_controller_transfer ::
  "'c statistics_config_scheme \<Rightarrow> Origin \<Rightarrow> Ticker \<Rightarrow> Balance \<Rightarrow> PortfolioId
    \<Rightarrow> WeightMeter \<times> 'a statistics_store_scheme \<Rightarrow> (WeightMeter \<times> 'a statistics_store_scheme) result" where
  "base_controller_transfer cfg origin ticker v from ms =
     (case ms of (m, s) \<Rightarrow>
        attempt (ensure_origin_ticker_and_portfolio_permissions s origin ticker Default False) (\<lambda>to.
        unsafe_transfer cfg from to ticker v (m, s)))"

definition controller_transfer ::
  "'c statistics_config_scheme \<Rightarrow> Origin \<Rightarrow> Ticker \<Rightarrow> Balance \<Rightarrow> PortfolioId \<Rightarrow> 'a statistics_store_scheme
    \<Rightarrow> ('a statistics_store_scheme) result" where
  "controller_transfer cfg origin ticker v from s =
     attempt (base_controller_transfer cfg origin ticker v from (max_limit_no_minimum, s)) (\<lambda>(_, s1). Inr s1)"

section \<open>Reports on a transfer\<close>

definition invalid_granularity :: "'a asset_store_scheme \<Rightarrow> Ticker \<Rightarrow> Balance \<Rightarrow> bool" where
  "invalid_granularity s ticker v = (\<not> check_granularity s ticker v)"

definition self_transfer :: "PortfolioId \<Rightarrow> PortfolioId \<Rightarrow> bool" where
  "self_transfer from to \<longleftrightarrow> pid_did from = pid_did to"

definition invalid_cdd :: "'a claims_store_scheme \<Rightarrow> IdentityId \<Rightarrow> bool" where
  "invalid_cdd s did = (\<not> has_valid_cdd s did)"

definition custodian_error :: "'a portfolio_store_scheme \<Rightarrow> PortfolioId \<Rightarrow> IdentityId \<Rightarrow> bool" where
  "custodian_error s from c = (\<not> is_ok (ensure_portfolio_custody s from c))"

definition insufficient_balance :: "'a asset_store_scheme \<Rightarrow> Ticker \<Rightarrow> IdentityId \<Rightarrow> Balance \<Rightarrow> bool" where
  "insufficient_balance s ticker did v \<longleftrightarrow> BalanceOf s ticker did < v"

definition unsafe_can_transfer ::
  "'c compliance_config_scheme \<Rightarrow> 'a compliance_store_scheme \<Rightarrow> IdentityId option \<Rightarrow> PortfolioId
    \<Rightarrow> IdentityId option \<Rightarrow> PortfolioId \<Rightarrow> Ticker \<Rightarrow> Balance \<Rightarrow> WeightMeter \<Rightarrow> nat" where
  "unsafe_can_transfer cfg s from_custodian from to_custodian to ticker v m =
     (if invalid_granularity s ticker v then INVALID_GRANULARITY
      else if self_transfer from to then INVALID_RECEIVER_DID
      else if invalid_cdd s (pid_did from) then INVALID_SENDER_DID
      else if custodian_error s from (case from_custodian of Some c \<Rightarrow> c | None \<Rightarrow> pid_did from)
      then CUSTODIAN_ERROR
      else if invalid_cdd s (pid_did to) then INVALID_RECEIVER_DID
      else if custodian_error s to (case to_custodian of Some c \<Rightarrow> c | None \<Rightarrow> pid_did to)
      then CUSTODIAN_ERROR
      else if insufficient_balance s ticker (pid_did from) v then ERC1400_INSUFFICIENT_BALANCE
      else if portfolio_failure s from to ticker v then PORTFOLIO_FAILURE
      else case is_valid_transfer cfg s ticker from to v m of
             Inr (code, _) \<Rightarrow> code
           | Inl _ \<Rightarrow> ERC1400_TRANSFER_FAILURE)"

record GranularCanTransferResult =
  g_invalid_granularity :: bool
  g_self_transfer :: bool
  g_invalid_receiver_cdd :: bool
  g_invalid_sender_cdd :: bool
  g_receiver_custodian_error :: bool
  g_sender_custodian_error :: bool
  g_sender_insufficient_balance :: bool
  g_portfolio_validity_result :: PortfolioValidityResult
  g_asset_frozen :: bool
  g_transfer_condition_result :: "TransferConditionResult list"
  g_compliance_result :: AssetComplianceResult
  g_result :: bool
  g_consumed_weight :: "Weight option"

definition transfer_condition_failures_granular ::
  "'c statistics_config_scheme \<Rightarrow> 'a statistics_store_scheme \<Rightarrow> IdentityId \<Rightarrow> IdentityId \<Rightarrow> Ticker \<Rightarrow> Balance
    \<Rightarrow> WeightMeter \<Rightarrow> (TransferConditionResult list \<times> WeightMeter) result" where
  "transfer_condition_failures_granular cfg s from_did to_did ticker v m =
     get_transfer_restrictions_results cfg s ticker from_did to_did (BalanceOf s ticker from_did)
       (BalanceOf s ticker to_did) v (asset_supply s ticker) m"

definition unsafe_can_transfer_granular ::
  "'c compliance_config_scheme \<Rightarrow> 'a compliance_store_scheme \<Rightarrow> IdentityId option \<Rightarrow> PortfolioId
    \<Rightarrow> IdentityId option \<Rightarrow> PortfolioId \<Rightarrow> Ticker \<Rightarrow> Balance \<Rightarrow> WeightMeter
    \<Rightarrow> (GranularCanTransferResult \<times> WeightMeter) result" where
  "unsafe_can_transfer_granular cfg s from_custodian from to_custodian to ticker v m =
     (let granularity = invalid_granularity s ticker v;
          self = self_transfer from to;
          receiver_cdd = invalid_cdd s (pid_did to);
          sender_cdd = invalid_cdd s (pid_did from);
          receiver_custodian = custodian_error s to (case to_custodian of Some c \<Rightarrow> c | None \<Rightarrow> pid_did to);
          sender_custodian = custodian_error s from (case from_custodian of Some c \<Rightarrow> c | None \<Rightarrow> pid_did from);
          low = insufficient_balance s ticker (pid_did from) v;
          validity = ensure_portfolio_transfer_validity_granular s from to ticker v;
          froz = Frozen s ticker
      in attempt (transfer_condition_failures_granular cfg s (pid_did from) (pid_did to) ticker v m) (\<lambda>(tcs, m).
         attempt (verify_restriction_granular cfg s ticker (Some (pid_did from)) (Some (pid_did to)) m)
           (\<lambda>(compliance, m).
         Inr (\<lparr>g_invalid_granularity = granularity, g_self_transfer = self,
               g_invalid_receiver_cdd = receiver_cdd, g_invalid_sender_cdd = sender_cdd,
               g_receiver_custodian_error = receiver_custodian,
               g_sender_custodian_error = sender_custodian,
               g_sender_insufficient_balance = low, g_portfolio_validity_result = validity,
               g_asset_frozen = froz, g_transfer_condition_result = tcs, g_compliance_result = compliance,
               g_result = (\<not> granularity \<and> \<not> self \<and> \<not> receiver_cdd \<and> \<not> sender_cdd \<and>
                 \<not> receiver_custodian \<and> \<not> sender_custodian \<and> \<not> low \<and> validity_result validity \<and>
                 \<not> froz \<and> list_all transfer_condition_result tcs \<and> compliance_result compliance),
               g_consumed_weight = Some (consumed m)\<rparr>, m))))"

section \<open>Managing an asset\<close>

definition set_freeze ::
  "Origin \<Rightarrow> Ticker \<Rightarrow> bool \<Rightarrow> 'a agents_store_scheme \<Rightarrow> ('a agents_store_scheme) result" where
  "set_freeze origin ticker frz s =
     attempt (ea_ensure_perms s origin ticker) (\<lambda>_.
     attempt (ensure_asset_exists s ticker) (\<lambda>_.
     ensure (Frozen s ticker \<noteq> frz) (AssetError (if frz then AlreadyFrozen else NotFrozen))
       (Inr (s\<lparr>Frozen := (Frozen s)(ticker := frz)\<rparr>))))"

definition base_rename_asset ::
  "'c assets_config_scheme \<Rightarrow> Origin \<Rightarrow> Ticker \<Rightarrow> AssetName \<Rightarrow> 'a agents_store_scheme
    \<Rightarrow> ('a agents_store_scheme) result" where
  "base_rename_asset cfg origin ticker name s =
     attempt (ensure_asset_name_bounded cfg name) (\<lambda>_.
     attempt (ensure_asset_exists s ticker) (\<lambda>_.
     attempt (ea_ensure_perms s origin ticker) (\<lambda>_.
     Inr (s\<lparr>AssetNames := (AssetNames s)(ticker \<mapsto> name)\<rparr>))))"

definition base_make_divisible ::
  "Origin \<Rightarrow> Ticker \<Rightarrow> 'a agents_store_scheme \<Rightarrow> ('a agents_store_scheme) result" where
  "base_make_divisible origin ticker s =
     attempt (ea_ensure_perms s origin ticker) (\<lambda>_.
     attempt (ok_or (Tokens s ticker) (AssetError NoSuchAsset)) (\<lambda>token.
     ensure (is_fungible (asset_type token)) (AssetError UnexpectedNonFungibleToken) (
     ensure (\<not> divisible token) (AssetError AssetAlreadyDivisible) (
     Inr (put_token ticker (token\<lparr>divisible := True\<rparr>) s)))))"

definition ensure_opt_string_limited :: "'c config_scheme \<Rightarrow> string option \<Rightarrow> unit result" where
  "ensure_opt_string_limited cfg str = (case str of None \<Rightarrow> Inr () | Some v \<Rightarrow> ensure_string_limited cfg v)"

definition base_add_documents ::
  "'c fee_config_scheme \<Rightarrow> Origin \<Rightarrow> Document list \<Rightarrow> Ticker \<Rightarrow> 'a assets_store_scheme
    \<Rightarrow> ('a assets_store_scheme) result" where
  "base_add_documents cfg origin docs ticker s =
     attempt (ea_ensure_perms s origin ticker) (\<lambda>_.
     attempt (each_res (\<lambda>doc.
        attempt (ensure_string_limited cfg (doc_uri doc)) (\<lambda>_.
        attempt (ensure_string_limited cfg (doc_name doc)) (\<lambda>_.
        ensure_opt_string_limited cfg (doc_type doc)))) docs) (\<lambda>_.
     let pre = AssetDocumentsIdSequence s ticker in
     attempt (ok_or (checked_add u32_max pre (length docs mod (u32_max + 1))) (BaseError CounterOverflow)) (\<lambda>new.
     let s1 = s\<lparr>AssetDocumentsIdSequence := (AssetDocumentsIdSequence s)(ticker := new)\<rparr> in
     attempt (batch_charge_fee cfg AssetAddDocuments (length docs) s1) (\<lambda>s2.
     Inr (fold (\<lambda>(i, doc) s. s\<lparr>AssetDocuments := (AssetDocuments s)(ticker :=
             (AssetDocuments s ticker)(i \<mapsto> doc))\<rparr>)
           (zip [pre..<pre + length docs] docs) s2)))))"

definition base_remove_documents ::
  "Origin \<Rightarrow> DocumentId list \<Rightarrow> Ticker \<Rightarrow> 'a assets_store_scheme \<Rightarrow> ('a assets_store_scheme) result" where
  "base_remove_documents origin ids ticker s =
     attempt (ea_ensure_perms s origin ticker) (\<lambda>_.
     Inr (fold (\<lambda>i s. s\<lparr>AssetDocuments := (AssetDocuments s)(ticker :=
             (AssetDocuments s ticker)(i := None))\<rparr>) ids s))"

definition ensure_doc_exists :: "'a assets_store_scheme \<Rightarrow> Ticker \<Rightarrow> DocumentId \<Rightarrow> unit result" where
  "ensure_doc_exists s ticker doc = ensure (AssetDocuments s ticker doc \<noteq> None) (AssetError NoSuchDoc) (Inr ())"

definition base_set_funding_round ::
  "'c assets_config_scheme \<Rightarrow> Origin \<Rightarrow> Ticker \<Rightarrow> FundingRoundName \<Rightarrow> 'a agents_store_scheme
    \<Rightarrow> ('a agents_store_scheme) result" where
  "base_set_funding_round cfg origin ticker name s =
     attempt (ensure_funding_round_name_bounded cfg name) (\<lambda>_.
     attempt (ea_ensure_perms s origin ticker) (\<lambda>_.
     Inr (s\<lparr>FundingRound := (FundingRound s)(ticker := name)\<rparr>)))"

definition base_update_identifiers ::
  "Origin \<Rightarrow> Ticker \<Rightarrow> AssetIdentifier list \<Rightarrow> 'a assets_store_scheme \<Rightarrow> ('a assets_store_scheme) result" where
  "base_update_identifiers origin ticker idents s =
     attempt (ea_ensure_perms s origin ticker) (\<lambda>_.
     attempt (ensure_asset_idents_valid idents) (\<lambda>_.
     Inr (unverified_update_idents ticker idents s)))"

definition base_update_asset_type ::
  "Origin \<Rightarrow> Ticker \<Rightarrow> AssetType \<Rightarrow> 'a agents_store_scheme \<Rightarrow> ('a agents_store_scheme) result" where
  "base_update_asset_type origin ticker ty s =
     attempt (ensure_asset_exists s ticker) (\<lambda>_.
     attempt (ensure_asset_type_valid s ty) (\<lambda>_.
     attempt (ea_ensure_perms s origin ticker) (\<lambda>_.
     attempt (ok_or (Tokens s ticker) (AssetError NoSuchAsset)) (\<lambda>token.
     ensure (is_fungible (asset_type token) = is_fungible ty) (AssetError IncompatibleAssetTypeUpdate)
       (Inr (put_token ticker (token\<lparr>asset_type := ty\<rparr>) s))))))"

definition nft_asset :: "'a asset_store_scheme \<Rightarrow> Ticker \<Rightarrow> bool option" where
  "nft_asset s ticker = map_option (\<lambda>token. is_non_fungible (asset_type token)) (Tokens s ticker)"

section \<open>Metadata\<close>

definition is_locked :: "AssetMetadataValueDetail \<Rightarrow> Moment \<Rightarrow> bool" where
  "is_locked detail now =
     (case lock_status detail of Unlocked \<Rightarrow> False | Locked \<Rightarrow> True | LockedUntil until \<Rightarrow> now < until)"

definition is_asset_metadata_locked :: "'a assets_store_scheme \<Rightarrow> Ticker \<Rightarrow> AssetMetadataKey \<Rightarrow> bool" where
  "is_asset_metadata_locked s ticker key =
     (case AssetMetadataValueDetails s ticker key of
        Some details \<Rightarrow> is_locked details (timestamp s) | None \<Rightarrow> False)"

definition check_asset_metadata_key_exists ::
  "'a asset_store_scheme \<Rightarrow> Ticker \<Rightarrow> AssetMetadataKey \<Rightarrow> bool" where
  "check_asset_metadata_key_exists s ticker key =
     (case key of
        Global k \<Rightarrow> AssetMetadataGlobalKeyToName s k \<noteq> None
      | Local k \<Rightarrow> AssetMetadataLocalKeyToName s ticker k \<noteq> None)"

definition ensure_asset_metadata_value_limited :: "'c assets_config_scheme \<Rightarrow> string \<Rightarrow> unit result" where
  "ensure_asset_metadata_value_limited cfg v =
     ensure (length v \<le> AssetMetadataValueMaxLength cfg)
       (AssetError AssetMetadataValueMaxLengthExceeded) (Inr ())"

definition ensure_asset_metadata_name_limited :: "'c assets_config_scheme \<Rightarrow> string \<Rightarrow> unit result" where
  "ensure_asset_metadata_name_limited cfg name =
     ensure (length name \<le> AssetMetadataNameMaxLength cfg)
       (AssetError AssetMetadataNameMaxLengthExceeded) (Inr ())"

definition ensure_asset_metadata_spec_limited ::
  "'c assets_config_scheme \<Rightarrow> AssetMetadataSpec \<Rightarrow> unit result" where
  "ensure_asset_metadata_spec_limited cfg spec =
     attempt (ensure_opt_string_limited cfg (spec_url spec)) (\<lambda>_.
     attempt (ensure_opt_string_limited cfg (spec_description spec)) (\<lambda>_.
     case spec_type_def spec of
       Some type_def \<Rightarrow> ensure (length type_def \<le> AssetMetadataTypeDefMaxLength cfg)
                         (AssetError AssetMetadataTypeDefMaxLengthExceeded) (Inr ())
     | None \<Rightarrow> Inr ()))"

definition unverified_set_asset_metadata ::
  "'c assets_config_scheme \<Rightarrow> Ticker \<Rightarrow> AssetMetadataKey \<Rightarrow> string \<Rightarrow> AssetMetadataValueDetail option
    \<Rightarrow> 'a assets_store_scheme \<Rightarrow> ('a assets_store_scheme) result" where
  "unverified_set_asset_metadata cfg ticker key v detail s =
     attempt (ensure_asset_metadata_value_limited cfg v) (\<lambda>_.
     ensure (check_asset_metadata_key_exists s ticker key) (AssetError AssetMetadataKeyIsMissing) (
     ensure (\<not> is_asset_metadata_locked s ticker key) (AssetError AssetMetadataValueIsLocked) (
     let s1 = put_metadata_value ticker key (Some v) s in
     Inr (case detail of Some d \<Rightarrow> put_metadata_detail ticker key (Some d) s1 | None \<Rightarrow> s1))))"

definition base_set_asset_metadata ::
  "'c assets_config_scheme \<Rightarrow> Origin \<Rightarrow> Ticker \<Rightarrow> AssetMetadataKey \<Rightarrow> string
    \<Rightarrow> AssetMetadataValueDetail option \<Rightarrow> 'a assets_store_scheme \<Rightarrow> ('a assets_store_scheme) result" where
  "base_set_asset_metadata cfg origin ticker key v detail s =
     attempt (ea_ensure_perms s origin ticker) (\<lambda>_. unverified_set_asset_metadata cfg ticker key v detail s)"

definition base_set_asset_metadata_details ::
  "Origin \<Rightarrow> Ticker \<Rightarrow> AssetMetadataKey \<Rightarrow> AssetMetadataValueDetail \<Rightarrow> 'a assets_store_scheme
    \<Rightarrow> ('a assets_store_scheme) result" where
  "base_set_asset_metadata_details origin ticker key detail s =
     attempt (ea_ensure_perms s origin ticker) (\<lambda>_.
     ensure (check_asset_metadata_key_exists s ticker key) (AssetError AssetMetadataKeyIsMissing) (
     ensure (\<not> is_asset_metadata_locked s ticker key) (AssetError AssetMetadataValueIsLocked) (
     attempt (if is_locked detail (timestamp s)
              then ensure (AssetMetadataValues s ticker key \<noteq> None) (AssetError AssetMetadataValueIsEmpty) (Inr ())
              else Inr ()) (\<lambda>_.
     Inr (put_metadata_detail ticker key (Some detail) s)))))"

definition unverified_register_asset_metadata_local_type ::
  "'c assets_config_scheme \<Rightarrow> Ticker \<Rightarrow> string \<Rightarrow> AssetMetadataSpec \<Rightarrow> 'a assets_store_scheme
    \<Rightarrow> (AssetMetadataKey \<times> 'a assets_store_scheme) result" where
  "unverified_register_asset_metadata_local_type cfg ticker name spec s =
     attempt (ensure_asset_metadata_name_limited cfg name) (\<lambda>_.
     attempt (ensure_asset_metadata_spec_limited cfg spec) (\<lambda>_.
     ensure (AssetMetadataLocalNameToKey s ticker name = None) (AssetError AssetMetadataLocalKeyAlreadyExists) (
     attempt (try_next_pre u64_max (AssetMetadataNextLocalKey s ticker)) (\<lambda>(key, sq).
     Inr (Local key,
       s\<lparr>AssetMetadataNextLocalKey := (AssetMetadataNextLocalKey s)(ticker := sq),
         AssetMetadataLocalNameToKey := (AssetMetadataLocalNameToKey s)(ticker :=
           (AssetMetadataLocalNameToKey s ticker)(name \<mapsto> key)),
         AssetMetadataLocalKeyToName := (AssetMetadataLocalKeyToName s)(ticker :=
           (AssetMetadataLocalKeyToName s ticker)(key \<mapsto> name)),
         AssetMetadataLocalSpecs := (AssetMetadataLocalSpecs s)(ticker :=
           (AssetMetadataLocalSpecs s ticker)(key \<mapsto> spec))\<rparr>)))))"

definition base_register_and_set_local_asset_metadata ::
  "'c assets_config_scheme \<Rightarrow> Origin \<Rightarrow> Ticker \<Rightarrow> string \<Rightarrow> AssetMetadataSpec \<Rightarrow> string
    \<Rightarrow> AssetMetadataValueDetail option \<Rightarrow> 'a assets_store_scheme \<Rightarrow> ('a assets_store_scheme) result" where
  "base_register_and_set_local_asset_metadata cfg origin ticker name spec v detail s =
     attempt (ea_ensure_perms s origin ticker) (\<lambda>_.
     attempt (unverified_register_asset_metadata_local_type cfg ticker name spec s) (\<lambda>(key, s1).
     unverified_set_asset_metadata cfg ticker key v detail s1))"

definition base_register_asset_metadata_local_type ::
  "'c assets_config_scheme \<Rightarrow> Origin \<Rightarrow> Ticker \<Rightarrow> string \<Rightarrow> AssetMetadataSpec \<Rightarrow> 'a assets_store_scheme
    \<Rightarrow> ('a assets_store_scheme) result" where
  "base_register_asset_metadata_local_type cfg origin ticker name spec s =
     attempt (ea_ensure_perms s origin ticker) (\<lambda>_.
     attempt (unverified_register_asset_metadata_local_type cfg ticker name spec s) (\<lambda>(_, s1). Inr s1))"

definition base_register_asset_metadata_global_type ::
  "'c assets_config_scheme \<Rightarrow> Origin \<Rightarrow> string \<Rightarrow> AssetMetadataSpec \<Rightarrow> 'a assets_store_scheme
    \<Rightarrow> ('a assets_store_scheme) result" where
  "base_register_asset_metadata_global_type cfg origin name spec s =
     attempt (ensure_asset_metadata_name_limited cfg name) (\<lambda>_.
     attempt (ensure_asset_metadata_spec_limited cfg spec) (\<lambda>_.
     attempt (ensure_root origin) (\<lambda>_.
     ensure (AssetMetadataGlobalNameToKey s name = None) (AssetError AssetMetadataGlobalKeyAlreadyExists) (
     attempt (try_next_pre u64_max (AssetMetadataNextGlobalKey s)) (\<lambda>(key, sq).
     Inr (s\<lparr>AssetMetadataNextGlobalKey := sq,
            AssetMetadataGlobalNameToKey := (AssetMetadataGlobalNameToKey s)(name \<mapsto> key),
            AssetMetadataGlobalKeyToName := (AssetMetadataGlobalKeyToName s)(key \<mapsto> name),
            AssetMetadataGlobalSpecs := (AssetMetadataGlobalSpecs s)(key \<mapsto> spec)\<rparr>))))))"

definition base_remove_local_metadata_key ::
  "Origin \<Rightarrow> Ticker \<Rightarrow> nat \<Rightarrow> 'a assets_store_scheme \<Rightarrow> ('a assets_store_scheme) result" where
  "base_remove_local_metadata_key origin ticker local_key s =
     attempt (ea_ensure_perms s origin ticker) (\<lambda>_.
     attempt (ok_or (AssetMetadataLocalKeyToName s ticker local_key) (AssetError AssetMetadataKeyIsMissing)) (\<lambda>name.
     let metadata_key = Local local_key in
     ensure (\<not> is_asset_metadata_locked s ticker metadata_key) (AssetError AssetMetadataValueIsLocked) (
     ensure (\<not> is_collection_key s ticker metadata_key) (AssetError AssetMetadataKeyBelongsToNFTCollection) (
     let s1 = put_metadata_detail ticker metadata_key None (put_metadata_value ticker metadata_key None s) in
     Inr (s1\<lparr>AssetMetadataLocalNameToKey := (AssetMetadataLocalNameToKey s1)(ticker :=
              (AssetMetadataLocalNameToKey s1 ticker)(name := None)),
            AssetMetadataLocalKeyToName := (AssetMetadataLocalKeyToName s1)(ticker :=
              (AssetMetadataLocalKeyToName s1 ticker)(local_key := None)),
            AssetMetadataLocalSpecs := (AssetMetadataLocalSpecs s1)(ticker :=
              (AssetMetadataLocalSpecs s1 ticker)(local_key := None))\<rparr>)))))"

definition base_remove_metadata_value ::
  "Origin \<Rightarrow> Ticker \<Rightarrow> AssetMetadataKey \<Rightarrow> 'a assets_store_scheme \<Rightarrow> ('a assets_store_scheme) result" where
  "base_remove_metadata_value origin ticker key s =
     attempt (ea_ensure_perms s origin ticker) (\<lambda>_.
     ensure (check_asset_metadata_key_exists s ticker key) (AssetError AssetMetadataKeyIsMissing) (
     ensure (\<not> is_asset_metadata_locked s ticker key) (AssetError AssetMetadataValueIsLocked) (
     Inr (put_metadata_detail ticker key None (put_metadata_value ticker key None s)))))"

section \<open>Affirmation and mediators\<close>

definition set_exemption :: "Ticker \<Rightarrow> bool \<Rightarrow> 'a asset_store_scheme \<Rightarrow> 'a asset_store_scheme" where
  "set_exemption ticker v s =
     s\<lparr>TickersExemptFromAffirmation := (TickersExemptFromAffirmation s)(ticker := v)\<rparr>"

definition set_ticker_pre_approval ::
  "IdentityId \<Rightarrow> Ticker \<Rightarrow> bool \<Rightarrow> 'a asset_store_scheme \<Rightarrow> 'a asset_store_scheme" where
  "set_ticker_pre_approval did ticker v s =
     s\<lparr>PreApprovedTicker := (PreApprovedTicker s)(did := (PreApprovedTicker s did)(ticker := v))\<rparr>"

definition base_exempt_ticker_affirmation ::
  "Origin \<Rightarrow> Ticker \<Rightarrow> 'a asset_store_scheme \<Rightarrow> ('a asset_store_scheme) result" where
  "base_exempt_ticker_affirmation origin ticker s =
     attempt (ensure_root origin) (\<lambda>_. Inr (set_exemption ticker True s))"

definition base_remove_ticker_affirmation_exemption ::
  "Origin \<Rightarrow> Ticker \<Rightarrow> 'a asset_store_scheme \<Rightarrow> ('a asset_store_scheme) result" where
  "base_remove_ticker_affirmation_exemption origin ticker s =
     attempt (ensure_root origin) (\<lambda>_. Inr (set_exemption ticker False s))"

definition base_pre_approve_ticker ::
  "Origin \<Rightarrow> Ticker \<Rightarrow> 'a asset_store_scheme \<Rightarrow> ('a asset_store_scheme) result" where
  "base_pre_approve_ticker origin ticker s =
     attempt (ensure_perms s origin) (\<lambda>did. Inr (set_ticker_pre_approval did ticker True s))"

definition base_remove_ticker_pre_approval ::
  "Origin \<Rightarrow> Ticker \<Rightarrow> 'a asset_store_scheme \<Rightarrow> ('a asset_store_scheme) result" where
  "base_remove_ticker_pre_approval origin ticker s =
     attempt (ensure_perms s origin) (\<lambda>did. Inr (set_ticker_pre_approval did ticker False s))"

text \<open>A bounded set takes a new element only below its bound.\<close>

definition bounded_insert :: "nat \<Rightarrow> 'a::linorder \<Rightarrow> 'a list \<Rightarrow> 'a list option" where
  "bounded_insert bound x xs =
     (if length xs < bound \<or> List.member xs x then Some (btree (x # xs)) else None)"

definition put_mediators :: "Ticker \<Rightarrow> IdentityId list \<Rightarrow> 'a asset_store_scheme \<Rightarrow> 'a asset_store_scheme" where
  "put_mediators ticker ms s = s\<lparr>MandatoryMediators := (MandatoryMediators s)(ticker := ms)\<rparr>"

definition base_add_mandatory_mediators ::
  "'c assets_config_scheme \<Rightarrow> Origin \<Rightarrow> Ticker \<Rightarrow> IdentityId list \<Rightarrow> 'a agents_store_scheme
    \<Rightarrow> ('a agents_store_scheme) result" where
  "base_add_mandatory_mediators cfg origin ticker new_mediators s =
     attempt (ea_ensure_perms s origin ticker) (\<lambda>_.
     attempt (fold_res (\<lambda>d ms. ok_or (bounded_insert (MaxAssetMediators cfg) d ms)
                (AssetError NumberOfAssetMediatorsExceeded)) (btree new_mediators) (MandatoryMediators s ticker)) (\<lambda>ms.
     Inr (put_mediators ticker ms s)))"

definition base_remove_mandatory_mediators ::
  "Origin \<Rightarrow> Ticker \<Rightarrow> IdentityId list \<Rightarrow> 'a agents_store_scheme \<Rightarrow> ('a agents_store_scheme) result" where
  "base_remove_mandatory_mediators origin ticker mediators s =
     attempt (ea_ensure_perms s origin ticker) (\<lambda>_.
     Inr (put_mediators ticker (fold removeAll (btree mediators) (MandatoryMediators s ticker)) s))"

end
