(* ===== verification/Asset_Theorems.thy ===== *)
theory Asset_Theorems
  imports Asset
begin

text \<open>
  What the operations of the asset pallet keep: the supply of an asset, the balances of identities and
  the balances of their portfolios agree, assets have owners and agents, and transfers obey the rules
  of the asset. The bookkeeping of checkpoints, statistics and fees that an operation does on the
  way is separated from its effect on the ledger.
\<close>

section \<open>Bookkeeping\<close>

text \<open>The state without the checkpoints, counters and free balances an operation updates on the way.\<close>

definition forget_books :: "'a statistics_store_scheme \<Rightarrow> 'a statistics_store_scheme" where
  "forget_books s = (forget_schedules s)\<lparr>CheckpointBalance := (\<lambda>_ _. None), BalanceUpdates := (\<lambda>_ _. []),
     FreeBalance := (\<lambda>_. 0), Subsidies := (\<lambda>_. None), AssetStats := (\<lambda>_ _. 0)\<rparr>"

lemma fold_res_keep:
  assumes "fold_res f xs s = Inr s'" "\<And>x t t'. f x t = Inr t' \<Longrightarrow> g t' = g t"
  shows "g s' = g s"
  using fold_res_inv [of f xs s s' "\<lambda>t. g t = g s"] assms by metis

lemma advance_schedule_keep:
  assumes "advance_schedule t now i (c, cp, s) = Inr r"
  shows "forget_schedules (snd (snd r)) = forget_schedules s"
proof -
  have loop: "forget_schedules (snd r') = forget_schedules s0"
    if "fold_res (create_scheduled t i) ats (k, s0) = Inr r'" for ats k s0 r'
  proof -
    have "forget_schedules (snd y) = forget_schedules (snd x)" if "create_scheduled t i at x = Inr y" for at x y
      using that by (cases x) (auto simp: create_scheduled_step)
    from fold_res_keep [where g = "\<lambda>x. forget_schedules (snd x)", OF that this] show ?thesis by simp
  qed
  show ?thesis
    using assms
    by (auto simp: advance_schedule_def remove_expired_def attempt_Inr_iff Let_def
        split: option.splits prod.splits dest!: loop)
qed

lemma advance_schedules_keep:
  assumes "advance_schedules t s = Inr s'"
  shows "forget_schedules s' = forget_schedules s"
proof -
  have loop: "forget_schedules (snd (snd r)) = forget_schedules s"
    if "fold_res (advance_schedule t now) ids (c, cp, s) = Inr r" for now ids c cp r
  proof -
    have "forget_schedules (snd (snd y)) = forget_schedules (snd (snd x))" if "advance_schedule t now i x = Inr y"
      for i x y using that by (cases x) (auto dest!: advance_schedule_keep)
    from fold_res_keep [where g = "\<lambda>x. forget_schedules (snd (snd x))", OF that this] show ?thesis by simp
  qed
  show ?thesis
    using assms
    by (auto simp: advance_schedules_def attempt_Inr_iff Let_def split: option.splits prod.splits if_splits
        dest!: loop)
qed

lemma forget_books_schedules: "forget_schedules s' = forget_schedules s \<Longrightarrow> forget_books s' = forget_books s"
  by (simp add: forget_books_def)

lemma record_balance_books: "forget_books (record_balance t l u s) = forget_books s"
  by (cases u) (simp add: record_balance_def forget_books_def forget_schedules_def)

lemma update_balances_books: "forget_books (update_balances t us s) = forget_books s"
proof -
  have "forget_books (fold (record_balance t l) us s) = forget_books s" for l
    by (induction us arbitrary: s) (simp_all add: record_balance_books)
  then show ?thesis by (simp add: update_balances_def Let_def)
qed

lemma advance_update_balances_books:
  "advance_update_balances t us s = Inr s' \<Longrightarrow> forget_books s' = forget_books s"
  by (auto simp: advance_update_balances_def attempt_Inr_iff update_balances_books
      dest!: advance_schedules_keep forget_books_schedules)

lemma charge_fees_books: "charge_fees cfg ops s = Inr s' \<Longrightarrow> forget_books s' = forget_books s"
  by (erule charge_fees_frame) (simp add: forget_books_def forget_schedules_def)

lemma update_asset_stats_books:
  assumes "update_asset_stats cfg t fd td fb tb v (m, s) = Inr (m', s')"
  shows "forget_books s' = forget_books s"
proof -
  have step: "forget_books (snd y) = forget_books (snd x)"
    if "update_asset_stat cfg t fd td fb tb v st x = Inr y" for st x y
    using that by (cases x; cases y) (auto dest!: update_asset_stat_Inr simp: forget_books_def forget_schedules_def)
  show ?thesis
  proof (cases "v = 0")
    case False
    then obtain m1 where "fold_res (update_asset_stat cfg t fd td fb tb v)
        (ActiveAssetStats s (AssetScope.Ticker t)) (m1, s) = Inr (m', s')"
      using assms by (auto simp: update_asset_stats_def attempt_Inr_iff)
    from fold_res_keep [where g = "\<lambda>x. forget_books (snd x)", OF this step] show ?thesis by simp
  qed (use assms in \<open>simp add: update_asset_stats_def\<close>)
qed

lemma forget_books_sel [simp]:
  "BalanceOf (forget_books s) = BalanceOf s" "Tokens (forget_books s) = Tokens s"
  "Tickers (forget_books s) = Tickers s" "AssetOwnershipRelations (forget_books s) = AssetOwnershipRelations s"
  "FundingRound (forget_books s) = FundingRound s" "IssuedInFundingRound (forget_books s) = IssuedInFundingRound s"
  "PortfolioAssetBalances (forget_books s) = PortfolioAssetBalances s"
  "PortfolioLockedAssets (forget_books s) = PortfolioLockedAssets s"
  "PortfolioAssetCount (forget_books s) = PortfolioAssetCount s"
  "portfolio_view (forget_books s) = portfolio_view s" "Frozen (forget_books s) = Frozen s"
  "GroupOfAgent (forget_books s) = GroupOfAgent s" "NumFullAgents (forget_books s) = NumFullAgents s"
  "AgentOf (forget_books s) = AgentOf s" "AGIdSequence (forget_books s) = AGIdSequence s"
  "GroupPermissions (forget_books s) = GroupPermissions s" "timestamp (forget_books s) = timestamp s"
  by (simp_all add: forget_books_def forget_schedules_def view_defs)

lemma same_books:
  assumes "forget_books x = forget_books y"
  shows "BalanceOf x = BalanceOf y" "Tokens x = Tokens y" "PortfolioAssetBalances x = PortfolioAssetBalances y"
    "portfolio_view x = portfolio_view y" "IssuedInFundingRound x = IssuedInFundingRound y"
    "Tickers x = Tickers y" "AssetOwnershipRelations x = AssetOwnershipRelations y"
    "agents_view x = agents_view y" "timestamp x = timestamp y"
  unfolding agents_view_def using assms by (metis forget_books_sel)+

lemma forget_books_put [simp]:
  "forget_books (put_token t v s) = put_token t v (forget_books s)"
  "forget_books (put_balance_of t d b s) = put_balance_of t d b (forget_books s)"
  "forget_books (put_issued t r b s) = put_issued t r b (forget_books s)"
  "forget_books (set_portfolio_balance p t b s) = set_portfolio_balance p t b (forget_books s)"
  "forget_books (unchecked_transfer_portfolio_balance p q t b s) =
     unchecked_transfer_portfolio_balance p q t b (forget_books s)"
  by (simp_all add: forget_books_def forget_schedules_def asset_put_defs set_portfolio_balance_eq put_defs
      unchecked_transfer_portfolio_balance_def transition_asset_count_eq Let_def)

lemma mint_effect:
  assumes "mint cfg t p v fee (m, s) = Inr (m', s')"
  obtains token where "Tokens s t = Some token" "is_fungible (asset_type token)" "check_granularity s t v"
    "total_supply token + v \<le> MAX_SUPPLY"
    "forget_books s' = forget_books (
       put_issued t (FundingRound s t) (wrapping_add u128_max (IssuedInFundingRound s t (FundingRound s t)) v) (
       put_token t (token\<lparr>total_supply := total_supply token + v\<rparr>) (
       set_portfolio_balance p t (wrapping_add u128_max (PortfolioAssetBalances s p t) v) (
       put_balance_of t (pid_did p) (wrapping_add u128_max (BalanceOf s t (pid_did p)) v) s))))"
proof -
  obtain token s1 s2 s6 m6 where tok: "Tokens s t = Some token" "is_fungible (asset_type token)" "check_granularity s t v"
      "total_supply token + v \<le> MAX_SUPPLY"
    and fee: "(case fee of Some op \<Rightarrow> charge_fee cfg op s | None \<Rightarrow> Inr s) = Inr s1"
    and adv: "advance_update_balances t [(pid_did p, BalanceOf s t (pid_did p))] s1 = Inr s2"
    and up: "update_asset_stats cfg t None (Some (pid_did p)) None
        (Some (wrapping_add u128_max (BalanceOf s t (pid_did p)) v)) v
        (m, put_token t (token\<lparr>total_supply := total_supply token + v\<rparr>)
          (set_portfolio_balance p t (wrapping_add u128_max (PortfolioAssetBalances s p t) v)
            (put_balance_of t (pid_did p) (wrapping_add u128_max (BalanceOf s t (pid_did p)) v) s2))) = Inr (m6, s6)"
    and s': "s' = put_issued t (FundingRound s6 t)
        (wrapping_add u128_max (IssuedInFundingRound s6 t (FundingRound s6 t)) v) s6"
    using assms
    by (auto simp: mint_def ensure_granular_def token_details_def ensure_within_max_supply_def
        attempt_Inr_iff ensure_Inr_iff ok_or_Inr_iff checked_add_Some Let_def)
  have "forget_books s1 = forget_books s"
    using fee by (auto simp: charge_fee_def charge_fees_books split: option.splits)
  then have b2: "forget_books s2 = forget_books s" using advance_update_balances_books [OF adv] by simp
  have b6: "forget_books s6 = forget_books (put_token t (token\<lparr>total_supply := total_supply token + v\<rparr>)
          (set_portfolio_balance p t (wrapping_add u128_max (PortfolioAssetBalances s p t) v)
            (put_balance_of t (pid_did p) (wrapping_add u128_max (BalanceOf s t (pid_did p)) v) s)))"
    using update_asset_stats_books [OF up] b2 by simp
  have "FundingRound s6 = FundingRound s" "IssuedInFundingRound s6 = IssuedInFundingRound s"
    using arg_cong [OF b6, of FundingRound] arg_cong [OF b6, of IssuedInFundingRound]
    by (simp_all add: asset_put_defs set_portfolio_balance_eq put_defs)
  then show thesis using that [OF tok] b6 by (simp add: s')
qed

lemma reduce_portfolio_balance_Inr:
  assumes "portfolio_inv s"
  shows "reduce_portfolio_balance p t v s = Inr s' \<longleftrightarrow>
    v \<le> PortfolioAssetBalances s p t - PortfolioLockedAssets s p t \<and>
    s' = set_portfolio_balance p t (PortfolioAssetBalances s p t - v) s"
proof -
  have "PortfolioLockedAssets s p t \<le> PortfolioAssetBalances s p t" using assms by (simp add: portfolio_inv_defs)
  then show ?thesis
    by (auto simp: reduce_portfolio_balance_def Let_def attempt_Inr_iff ok_or_Inr_iff checked_sub_def
        set_portfolio_balance_def transition_asset_count_eq put_balance_def split: if_splits)
qed

lemma redeem_effect:
  assumes "base_redeem cfg origin t v kind (m, s) = Inr (m', s')" and inv: "portfolio_inv s"
  obtains p token where "ensure_origin_ticker_and_portfolio_permissions s origin t kind True = Inr p"
    "Tokens s t = Some token" "is_fungible (asset_type token)" "check_granularity s t v"
    "v \<le> PortfolioAssetBalances s p t - PortfolioLockedAssets s p t" "v \<le> total_supply token"
    "forget_books s' = forget_books (
       put_token t (token\<lparr>total_supply := total_supply token - v\<rparr>) (
       put_balance_of t (pid_did p) (wrapping_sub u128_max (BalanceOf s t (pid_did p)) v) (
       set_portfolio_balance p t (PortfolioAssetBalances s p t - v) s)))"
proof -
  obtain p token s1 s2 where ok: "ensure_origin_ticker_and_portfolio_permissions s origin t kind True = Inr p"
    "Tokens s t = Some token" "is_fungible (asset_type token)" "check_granularity s t v"
    and red: "reduce_portfolio_balance p t v s = Inr s1" and le: "v \<le> total_supply token"
    and adv: "advance_update_balances t [(pid_did p, BalanceOf s1 t (pid_did p))] s1 = Inr s2"
    and up: "update_asset_stats cfg t (Some (pid_did p)) None
        (Some (wrapping_sub u128_max (BalanceOf s2 t (pid_did p)) v)) None v
        (m, put_token t (token\<lparr>total_supply := total_supply token - v\<rparr>)
          (put_balance_of t (pid_did p) (wrapping_sub u128_max (BalanceOf s2 t (pid_did p)) v) s2)) = Inr (m', s')"
    using assms(1)
    by (auto simp: base_redeem_def ensure_granular_def token_details_def
        attempt_Inr_iff ensure_Inr_iff ok_or_Inr_iff checked_sub_Some Let_def)
  have r: "v \<le> PortfolioAssetBalances s p t - PortfolioLockedAssets s p t"
    "s1 = set_portfolio_balance p t (PortfolioAssetBalances s p t - v) s"
    using red by (simp_all add: reduce_portfolio_balance_Inr [OF inv])
  note b2 = advance_update_balances_books [OF adv]
  have "BalanceOf s2 = BalanceOf s"
    using arg_cong [OF b2, of BalanceOf] by (simp add: r(2) set_portfolio_balance_eq put_defs)
  then show thesis
    using that [OF ok r(1) le] update_asset_stats_books [OF up] b2 by (simp add: r(2))
qed

lemma unsafe_transfer_effect:
  assumes "unsafe_transfer cfg from to t v (m, s) = Inr (m', s')"
  obtains token where "Tokens s t = Some token" "is_fungible (asset_type token)" "check_granularity s t v"
    "pid_did from \<noteq> pid_did to" "v \<le> BalanceOf s t (pid_did from)"
    "BalanceOf s t (pid_did to) + v \<le> u128_max"
    "v \<le> PortfolioAssetBalances s from t - PortfolioLockedAssets s from t"
    "forget_books s' = forget_books (
       unchecked_transfer_portfolio_balance from to t v (
       put_balance_of t (pid_did to) (BalanceOf s t (pid_did to) + v) (
       put_balance_of t (pid_did from) (BalanceOf s t (pid_did from) - v) s)))"
proof -
  obtain token s1 where ok: "Tokens s t = Some token" "is_fungible (asset_type token)" "check_granularity s t v"
    "pid_did from \<noteq> pid_did to" "v \<le> BalanceOf s t (pid_did from)"
    "BalanceOf s t (pid_did to) + v \<le> u128_max"
    "v \<le> PortfolioAssetBalances s from t - PortfolioLockedAssets s from t"
    and adv: "advance_update_balances t [(pid_did from, BalanceOf s t (pid_did from)),
        (pid_did to, BalanceOf s t (pid_did to))] s = Inr s1"
    and up: "update_asset_stats cfg t (Some (pid_did from)) (Some (pid_did to))
        (Some (BalanceOf s t (pid_did from) - v)) (Some (BalanceOf s t (pid_did to) + v)) v
        (m, unchecked_transfer_portfolio_balance from to t v (
          put_balance_of t (pid_did to) (BalanceOf s t (pid_did to) + v) (
          put_balance_of t (pid_did from) (BalanceOf s t (pid_did from) - v) s1))) = Inr (m', s')"
    using assms
    by (auto simp: unsafe_transfer_def ensure_granular_def token_details_def ensure_sufficient_balance_Inr
        attempt_Inr_iff ensure_Inr_iff ok_or_Inr_iff checked_add_Some Let_def)
  show thesis
    using that [OF ok] update_asset_stats_books [OF up] advance_update_balances_books [OF adv] by simp
qed


section \<open>Supply, balances and portfolios agree\<close>

definition ledger_inv :: "'a portfolio_store_scheme \<Rightarrow> bool" where
  "ledger_inv s \<longleftrightarrow> portfolio_inv s \<and> (\<forall>t d. BalanceOf s t d = did_total s d t) \<and>
     (\<forall>t. asset_supply s t = portfolio_total s t \<and> asset_supply s t \<le> MAX_SUPPLY)"

definition ledger_view where
  "ledger_view s = (portfolio_view s, BalanceOf s, Tokens s)"

lemma ledger_inv_cong:
  assumes "ledger_view s' = ledger_view s"
  shows "ledger_inv s' = ledger_inv s"
proof -
  have "portfolio_view s' = portfolio_view s" "BalanceOf s' = BalanceOf s" "Tokens s' = Tokens s"
    using assms by (simp_all add: ledger_view_def)
  moreover then have "PortfolioAssetBalances s' = PortfolioAssetBalances s" by (simp add: view_defs)
  ultimately show ?thesis
    by (simp add: ledger_inv_def portfolio_inv_cong [of s' s] did_total_def portfolio_total_def
        asset_supply_def token_details_def)
qed

lemma ledger_books:
  assumes "forget_books s' = forget_books s"
  shows "ledger_inv s' = ledger_inv s"
proof -
  have "ledger_view (forget_books x) = ledger_view x" for x :: "'a statistics_store_scheme"
    by (simp add: ledger_view_def)
  then show ?thesis using ledger_inv_cong [of s' s] assms by metis
qed

lemma did_total_le: "portfolio_inv s \<Longrightarrow> did_total s d t \<le> portfolio_total s t"
  unfolding did_total_def portfolio_total_def portfolio_inv_def balances_bounded_def sum_supp_def fin_supp_def
  by (intro sum_mono2) auto

lemma balance_le_total: "portfolio_inv s \<Longrightarrow> PortfolioAssetBalances s p t \<le> did_total s (pid_did p) t"
  unfolding did_total_def portfolio_inv_def balances_bounded_def by (intro sum_supp_member_le) auto

lemma max_supply_fits: "MAX_SUPPLY \<le> u128_max"
  by (simp add: MAX_SUPPLY_def ONE_UNIT_def u128_max_def)

lemma ledger_bounds:
  assumes "ledger_inv s"
  shows "PortfolioAssetBalances s p t \<le> BalanceOf s t (pid_did p)"
    and "BalanceOf s t d \<le> asset_supply s t" and "asset_supply s t \<le> MAX_SUPPLY"
  using assms did_total_le [of s d t] balance_le_total [of s p t] unfolding ledger_inv_def by metis+

text \<open>The number of assets stays below the largest 64-bit number.\<close>

definition assets_left :: "'a asset_store_scheme \<Rightarrow> bool" where
  "assets_left s \<longleftrightarrow> finite (dom (Tokens s)) \<and> card (dom (Tokens s)) < u64_max"

lemma circulating_assets:
  assumes "ledger_inv s"
  shows "circulating s \<subseteq> dom (Tokens s)"
proof
  fix t
  assume "t \<in> circulating s"
  then have "asset_supply s t \<noteq> 0" using assms by (simp add: circulating_def ledger_inv_def)
  then show "t \<in> dom (Tokens s)" by (cases "Tokens s t") (auto simp: asset_supply_def token_details_def)
qed

text \<open>A change of one portfolio balance that the balance of its owner and the supply follow.\<close>

lemma set_balance_ledger:
  assumes inv: "ledger_inv s" and q: "portfolio_inv (set_portfolio_balance p t b s)"
    and view: "portfolio_view s' = portfolio_view (set_portfolio_balance p t b s)"
    and bal: "BalanceOf s' = (BalanceOf s)(t := (BalanceOf s t)(pid_did p := B))"
      "B + PortfolioAssetBalances s p t = BalanceOf s t (pid_did p) + b"
    and sup: "\<And>u. u \<noteq> t \<Longrightarrow> asset_supply s' u = asset_supply s u"
      "asset_supply s' t + PortfolioAssetBalances s p t = asset_supply s t + b" "asset_supply s' t \<le> MAX_SUPPLY"
  shows "ledger_inv s'"
proof -
  let ?q = "set_portfolio_balance p t b s"
  have fs: "fin_supp (\<lambda>q. PortfolioAssetBalances s q t)"
    using inv by (simp add: ledger_inv_def portfolio_inv_defs)
  have pab: "PortfolioAssetBalances s' = PortfolioAssetBalances ?q" using view by (simp add: view_defs)
  have tot: "portfolio_total s' u = portfolio_total ?q u" and did: "did_total s' d u = did_total ?q d u" for d u
    by (simp_all add: portfolio_total_def did_total_def pab)
  show ?thesis
    unfolding ledger_inv_def
  proof (intro conjI allI)
    show "portfolio_inv s'" using q portfolio_inv_cong [OF view] by simp
    show "BalanceOf s' u d = did_total s' d u" for u d
      using inv bal set_portfolio_balance_did_total [OF fs, of p b]
        set_portfolio_balance_did_total_other [of u t d p b s]
      unfolding did ledger_inv_def by (cases "u = t \<and> d = pid_did p") auto
    show "asset_supply s' u = portfolio_total s' u" for u
      using inv sup set_portfolio_balance_total [OF fs, of p b] set_portfolio_balance_total_other [of u t p b s]
      unfolding tot ledger_inv_def by (cases "u = t") auto
    show "asset_supply s' u \<le> MAX_SUPPLY" for u
      using ledger_bounds(3) [OF inv, of u] sup by (cases "u = t") simp_all
  qed
qed

lemma asset_supply_token: "Tokens s t = Some token \<Longrightarrow> asset_supply s t = total_supply token"
  by (simp add: asset_supply_def token_details_def)

lemma asset_supply_other: "Tokens s' t = Tokens s t \<Longrightarrow> asset_supply s' t = asset_supply s t"
  by (simp add: asset_supply_def token_details_def)

lemma mint_ledger:
  assumes "mint cfg t p v fee (m, s) = Inr (m', s')" and inv: "ledger_inv s" and left: "assets_left s"
  shows "ledger_inv s'" and "asset_supply s' t = asset_supply s t + v"
    and "BalanceOf s' = (BalanceOf s)(t := (BalanceOf s t)(pid_did p := BalanceOf s t (pid_did p) + v))"
    and "PortfolioAssetBalances s' = (PortfolioAssetBalances s)(p :=
      (PortfolioAssetBalances s p)(t := PortfolioAssetBalances s p t + v))"
proof -
  obtain token where tok: "Tokens s t = Some token" and max: "total_supply token + v \<le> MAX_SUPPLY"
    and b: "forget_books s' = forget_books (
       put_issued t (FundingRound s t) (wrapping_add u128_max (IssuedInFundingRound s t (FundingRound s t)) v) (
       put_token t (token\<lparr>total_supply := total_supply token + v\<rparr>) (
       set_portfolio_balance p t (wrapping_add u128_max (PortfolioAssetBalances s p t) v) (
       put_balance_of t (pid_did p) (wrapping_add u128_max (BalanceOf s t (pid_did p)) v) s))))" (is "_ = forget_books ?s5")
    using assms(1) by (rule mint_effect)
  have pinv: "portfolio_inv s" using inv by (simp add: ledger_inv_def)
  note sup = asset_supply_token [OF tok]
  have w: "wrapping_add u128_max (PortfolioAssetBalances s p t) v = PortfolioAssetBalances s p t + v"
    "wrapping_add u128_max (BalanceOf s t (pid_did p)) v = BalanceOf s t (pid_did p) + v"
    using ledger_bounds(1) [OF inv, of p t] ledger_bounds(2) [OF inv, of t "pid_did p"] max sup max_supply_fits
    by (auto intro!: wrapping_add_exact)
  let ?q = "set_portfolio_balance p t (PortfolioAssetBalances s p t + v) s"
  have view: "portfolio_view s' = portfolio_view ?q"
    unfolding same_books(4) [OF b] w by (simp add: view_defs asset_put_defs set_portfolio_balance_eq put_defs)
  show bal: "BalanceOf s' = (BalanceOf s)(t := (BalanceOf s t)(pid_did p := BalanceOf s t (pid_did p) + v))"
    unfolding same_books(1) [OF b] w by (simp add: asset_put_defs set_portfolio_balance_eq put_defs)
  show "PortfolioAssetBalances s' = (PortfolioAssetBalances s)(p :=
      (PortfolioAssetBalances s p)(t := PortfolioAssetBalances s p t + v))"
    using view by (simp add: view_defs)
  have toks: "Tokens s' = (Tokens s)(t \<mapsto> token\<lparr>total_supply := total_supply token + v\<rparr>)"
    unfolding same_books(2) [OF b] by (simp add: asset_put_defs set_portfolio_balance_eq put_defs)
  then show sup': "asset_supply s' t = asset_supply s t + v" using asset_supply_token [of s' t] sup by simp
  have "portfolio_inv ?q"
  proof (rule set_portfolio_balance_inv [OF pinv])
    have "insert t (circulating s) \<subseteq> dom (Tokens s)" using circulating_assets [OF inv] tok by auto
    then show "card (insert t (circulating s)) < u64_max"
      using left unfolding assets_left_def by (meson card_mono le_less_trans)
    show "PortfolioLockedAssets s p t \<le> PortfolioAssetBalances s p t + v"
      using pinv by (simp add: portfolio_inv_defs trans_le_add1)
    show "portfolio_total s t + (PortfolioAssetBalances s p t + v) \<le> u128_max + PortfolioAssetBalances s p t"
      using inv max sup max_supply_fits by (simp add: ledger_inv_def)
  qed
  moreover have "asset_supply s' u = asset_supply s u" if "u \<noteq> t" for u
    using that by (intro asset_supply_other) (simp add: toks)
  ultimately show "ledger_inv s'"
    using sup sup' max by (intro set_balance_ledger [OF inv _ view bal]) simp_all
qed

lemma redeem_ledger:
  assumes "base_redeem cfg origin t v kind (m, s) = Inr (m', s')" and inv: "ledger_inv s"
  obtains p where "ensure_origin_ticker_and_portfolio_permissions s origin t kind True = Inr p"
    "ledger_inv s'" "v \<le> PortfolioAssetBalances s p t - PortfolioLockedAssets s p t"
    "asset_supply s t = asset_supply s' t + v"
    "BalanceOf s' = (BalanceOf s)(t := (BalanceOf s t)(pid_did p := BalanceOf s t (pid_did p) - v))"
    "PortfolioAssetBalances s' = (PortfolioAssetBalances s)(p :=
      (PortfolioAssetBalances s p)(t := PortfolioAssetBalances s p t - v))"
    "IssuedInFundingRound s' = IssuedInFundingRound s"
proof -
  have pinv: "portfolio_inv s" using inv by (simp add: ledger_inv_def)
  obtain p token where perm: "ensure_origin_ticker_and_portfolio_permissions s origin t kind True = Inr p"
    and tok: "Tokens s t = Some token" and le: "v \<le> PortfolioAssetBalances s p t - PortfolioLockedAssets s p t"
      "v \<le> total_supply token"
    and b: "forget_books s' = forget_books (
       put_token t (token\<lparr>total_supply := total_supply token - v\<rparr>) (
       put_balance_of t (pid_did p) (wrapping_sub u128_max (BalanceOf s t (pid_did p)) v) (
       set_portfolio_balance p t (PortfolioAssetBalances s p t - v) s)))"
    using redeem_effect [OF assms(1) pinv] by blast
  note sup = asset_supply_token [OF tok]
  note bounds = ledger_bounds(1) [OF inv, of p t] ledger_bounds(2) [OF inv, of t "pid_did p"]
  have w: "wrapping_sub u128_max (BalanceOf s t (pid_did p)) v = BalanceOf s t (pid_did p) - v"
    using bounds le max_supply_fits ledger_bounds(3) [OF inv, of t] by (intro wrapping_sub_exact) linarith+
  let ?q = "set_portfolio_balance p t (PortfolioAssetBalances s p t - v) s"
  have view: "portfolio_view s' = portfolio_view ?q"
    unfolding same_books(4) [OF b] w by (simp add: view_defs asset_put_defs)
  have bal: "BalanceOf s' = (BalanceOf s)(t := (BalanceOf s t)(pid_did p := BalanceOf s t (pid_did p) - v))"
    and pab: "PortfolioAssetBalances s' = (PortfolioAssetBalances s)(p :=
      (PortfolioAssetBalances s p)(t := PortfolioAssetBalances s p t - v))"
    and iss: "IssuedInFundingRound s' = IssuedInFundingRound s"
    unfolding same_books(1,3,5) [OF b] w by (simp_all add: asset_put_defs set_portfolio_balance_eq put_defs)
  have toks: "Tokens s' = (Tokens s)(t \<mapsto> token\<lparr>total_supply := total_supply token - v\<rparr>)"
    unfolding same_books(2) [OF b] by (simp add: asset_put_defs set_portfolio_balance_eq put_defs)
  then have sup': "asset_supply s t = asset_supply s' t + v" using asset_supply_token [of s' t] sup le by simp
  have lock: "PortfolioLockedAssets s p t \<le> PortfolioAssetBalances s p t" using pinv by (simp add: portfolio_inv_defs)
  have "portfolio_inv ?q"
  proof (rule set_portfolio_balance_inv [OF pinv])
    have fs: "fin_supp (\<lambda>q. PortfolioAssetBalances s q t)" and tot: "portfolio_total s t \<le> u128_max"
      using pinv by (simp_all add: portfolio_inv_defs)
    show "card (insert t (circulating s)) < u64_max" if "PortfolioAssetBalances s p t - v \<noteq> 0"
    proof -
      have "t \<in> circulating s" unfolding circulating_iff [OF fs] using that by (metis diff_0_eq_0)
      then show ?thesis using pinv by (simp add: portfolio_inv_def tickers_bounded_def insert_absorb)
    qed
    show "PortfolioLockedAssets s p t \<le> PortfolioAssetBalances s p t - v" using le(1) lock by linarith
    show "portfolio_total s t + (PortfolioAssetBalances s p t - v) \<le> u128_max + PortfolioAssetBalances s p t"
      using tot by linarith
  qed
  then have "ledger_inv s'"
  proof (rule set_balance_ledger [OF inv _ view bal])
    show "BalanceOf s t (pid_did p) - v + PortfolioAssetBalances s p t =
        BalanceOf s t (pid_did p) + (PortfolioAssetBalances s p t - v)"
      "asset_supply s' t + PortfolioAssetBalances s p t = asset_supply s t + (PortfolioAssetBalances s p t - v)"
      "asset_supply s' t \<le> MAX_SUPPLY"
      using le lock bounds sup' ledger_bounds(3) [OF inv, of t] by linarith+
    show "asset_supply s' u = asset_supply s u" if "u \<noteq> t" for u
      using that by (intro asset_supply_other) (simp add: toks)
  qed
  then show thesis using that [OF perm _ le(1) sup' bal pab iss] by blast
qed

lemma transfer_ledger:
  assumes "unsafe_transfer cfg from to t v (m, s) = Inr (m', s')" and inv: "ledger_inv s"
  shows "ledger_inv s'" and "asset_supply s' = asset_supply s"
    and "BalanceOf s' = (BalanceOf s)(t := balances_after (Some (pid_did from)) (Some (pid_did to)) v (BalanceOf s t))"
    and "PortfolioAssetBalances s' p u = (if u = t \<and> p = from then PortfolioAssetBalances s from t - v
      else if u = t \<and> p = to then PortfolioAssetBalances s to t + v else PortfolioAssetBalances s p u)"
proof -
  have pinv: "portfolio_inv s" using inv by (simp add: ledger_inv_def)
  obtain token where ne: "pid_did from \<noteq> pid_did to" and le: "v \<le> BalanceOf s t (pid_did from)"
    and un: "v \<le> PortfolioAssetBalances s from t - PortfolioLockedAssets s from t"
    and b: "forget_books s' = forget_books (
       unchecked_transfer_portfolio_balance from to t v (
       put_balance_of t (pid_did to) (BalanceOf s t (pid_did to) + v) (
       put_balance_of t (pid_did from) (BalanceOf s t (pid_did from) - v) s)))" (is "_ = forget_books ?s5")
    using assms(1) by (rule unsafe_transfer_effect)
  let ?q = "unchecked_transfer_portfolio_balance from to t v s"
  have ne': "from \<noteq> to" and un': "v \<le> PortfolioAssetBalances s from t" using ne un by auto
  have view: "portfolio_view s' = portfolio_view ?q"
    unfolding same_books(4) [OF b]
    by (simp add: view_defs asset_put_defs unchecked_transfer_portfolio_balance_def transition_asset_count_eq put_defs Let_def)
  then have pab: "PortfolioAssetBalances s' = PortfolioAssetBalances ?q" by (simp add: view_defs)
  show "PortfolioAssetBalances s' p u = (if u = t \<and> p = from then PortfolioAssetBalances s from t - v
      else if u = t \<and> p = to then PortfolioAssetBalances s to t + v else PortfolioAssetBalances s p u)"
    unfolding pab by (rule transfer_sel [OF pinv ne' un'])
  show bal: "BalanceOf s' = (BalanceOf s)(t := balances_after (Some (pid_did from)) (Some (pid_did to)) v (BalanceOf s t))"
    unfolding same_books(1) [OF b] using ne
    by (simp add: asset_put_defs unchecked_transfer_portfolio_balance_def transition_asset_count_eq put_defs
        Let_def balances_after_def fun_upd_twist)
  have "Tokens s' = Tokens s"
    unfolding same_books(2) [OF b]
    by (simp add: asset_put_defs unchecked_transfer_portfolio_balance_def transition_asset_count_eq put_defs Let_def)
  then show sup: "asset_supply s' = asset_supply s" by (auto simp: asset_supply_def token_details_def)
  have tot: "portfolio_total s' u = portfolio_total s u" for u
    using transfer_portfolio_total [OF pinv ne' un', of u] by (simp add: portfolio_total_def pab)
  have did: "did_total s' d u + (if u = t \<and> d = pid_did from then v else 0) =
      did_total s d u + (if u = t \<and> d = pid_did to then v else 0)" for d u
    using transfer_did_total [OF pinv ne' un', of d u] by (simp add: did_total_def pab)
  have "BalanceOf s' u d = did_total s' d u" for u d
    using did [of d u] inv ne le by (auto simp: bal balances_after_def ledger_inv_def)
  moreover have "portfolio_inv s'" using portfolio_inv_cong [OF view] transfer_inv [OF pinv ne' un] by simp
  ultimately show "ledger_inv s'" using inv unfolding ledger_inv_def sup tot by blast
qed

end
