(* ===== verification/Asset_System.thy ===== *)
theory Asset_System
  imports Asset_Theorems
begin

text \<open>
  The asset pallet as a transition system together with the portfolio and agents pallets it shares
  its storage with: which identity owns a ticker and an asset, and which agents an asset has.
\<close>

section \<open>Owners and agents\<close>

definition relation_of :: "TickerRegistration option \<Rightarrow> bool \<Rightarrow> IdentityId \<Rightarrow> AssetOwnershipRelation" where
  "relation_of reg created d =
     (case reg of
        None \<Rightarrow> NotOwned
      | Some r \<Rightarrow> if ticker_owner r \<noteq> d then NotOwned else if created then AssetOwned else TickerOwned)"

definition owners :: "'a asset_store_scheme \<Rightarrow> Ticker \<Rightarrow> IdentityId option" where
  "owners s t = map_option owner_did (Tokens s t)"

definition registry_inv :: "'a agents_store_scheme \<Rightarrow> bool" where
  "registry_inv s \<longleftrightarrow> agents_inv s \<and>
     (\<forall>d t. AssetOwnershipRelations s d t = relation_of (Tickers s t) (owners s t \<noteq> None) d) \<and>
     (\<forall>t d. owners s t = Some d \<longrightarrow> Tickers s t = Some \<lparr>ticker_owner = d, ticker_expiry = None\<rparr>) \<and>
     (\<forall>t. if owners s t = None then \<forall>d. GroupOfAgent s t d = None else full_agents s t \<noteq> {})"

definition registry_view where
  "registry_view s = (Tickers s, owners s, AssetOwnershipRelations s, agents_view s)"

lemma registry_inv_cong:
  assumes "registry_view s' = registry_view s"
  shows "registry_inv s' = registry_inv s"
proof -
  have "Tickers s' = Tickers s" "owners s' = owners s" "AssetOwnershipRelations s' = AssetOwnershipRelations s"
    "agents_view s' = agents_view s" "GroupOfAgent s' = GroupOfAgent s"
    using assms by (simp_all add: registry_view_def agents_view_def)
  then show ?thesis by (simp add: registry_inv_def agents_inv_cong [of s' s] full_agents_def)
qed

lemma owners_None [simp]: "owners s t = None \<longleftrightarrow> Tokens s t = None"
  by (simp add: owners_def)

lemma owners_put_token [simp]: "owners (put_token t v s) = (owners s)(t \<mapsto> owner_did v)"
  by (auto simp: owners_def put_token_def)

lemma registry_books:
  assumes "forget_books s' = forget_books s"
  shows "registry_view s' = registry_view s"
  using same_books [OF assms] by (auto simp: registry_view_def owners_def)

lemma registry_put [simp]:
  "registry_view (put_balance_of t d b s) = registry_view s"
  "registry_view (put_issued t r b s) = registry_view s"
  "registry_view (set_portfolio_balance p t b s) = registry_view s"
  "registry_view (unchecked_transfer_portfolio_balance p q t b s) = registry_view s"
  by (auto simp: registry_view_def agents_view_def owners_def asset_put_defs set_portfolio_balance_eq put_defs
      unchecked_transfer_portfolio_balance_def transition_asset_count_eq Let_def)

lemma registry_put_token:
  assumes "Tokens s t = Some token" "owner_did token' = owner_did token"
  shows "registry_view (put_token t token' s) = registry_view s"
proof -
  have "owners (put_token t token' s) = owners s" using assms by (auto simp: owners_def put_token_def)
  then show ?thesis by (simp add: registry_view_def agents_view_def put_token_def)
qed

lemma Tokens_put [simp]:
  "Tokens (put_balance_of t d b s) = Tokens s" "Tokens (set_portfolio_balance p t b s) = Tokens s"
  by (simp_all add: asset_put_defs set_portfolio_balance_eq put_defs)

lemma mint_registry:
  assumes "mint cfg t p v fee (m, s) = Inr (m', s')"
  shows "registry_view s' = registry_view s"
proof -
  obtain token where tok: "Tokens s t = Some token"
    and b: "forget_books s' = forget_books (
       put_issued t (FundingRound s t) (wrapping_add u128_max (IssuedInFundingRound s t (FundingRound s t)) v) (
       put_token t (token\<lparr>total_supply := total_supply token + v\<rparr>) (
       set_portfolio_balance p t (wrapping_add u128_max (PortfolioAssetBalances s p t) v) (
       put_balance_of t (pid_did p) (wrapping_add u128_max (BalanceOf s t (pid_did p)) v) s))))"
    using assms by (rule mint_effect)
  show ?thesis using registry_books [OF b] tok by (simp add: registry_put_token [of _ t token])
qed

lemma redeem_registry:
  assumes "base_redeem cfg origin t v kind (m, s) = Inr (m', s')" "portfolio_inv s"
  shows "registry_view s' = registry_view s"
proof -
  obtain p token where tok: "Tokens s t = Some token"
    and b: "forget_books s' = forget_books (
       put_token t (token\<lparr>total_supply := total_supply token - v\<rparr>) (
       put_balance_of t (pid_did p) (wrapping_sub u128_max (BalanceOf s t (pid_did p)) v) (
       set_portfolio_balance p t (PortfolioAssetBalances s p t - v) s)))"
    using redeem_effect [OF assms] by blast
  show ?thesis using registry_books [OF b] tok by (simp add: registry_put_token [of _ t token])
qed

lemma transfer_registry:
  "unsafe_transfer cfg from to t v (m, s) = Inr (m', s') \<Longrightarrow> registry_view s' = registry_view s"
  by (erule unsafe_transfer_effect, drule registry_books) simp

text \<open>A change of one ticker: its registration, its owner and its relations.\<close>

definition moved_to :: "IdentityId \<Rightarrow> AssetOwnershipRelation \<Rightarrow> Ticker
    \<Rightarrow> 'a asset_store_scheme \<Rightarrow> IdentityId \<Rightarrow> Ticker \<Rightarrow> AssetOwnershipRelation" where
  "moved_to d v t s e u = (if u = t then if e = d then v else NotOwned else AssetOwnershipRelations s e u)"

lemma registry_change:
  assumes inv: "registry_inv s" and ag: "agents_inv s'"
    and tick: "Tickers s' = (Tickers s)(t \<mapsto> r)" and own: "owners s' = (owners s)(t := o')"
    and rel: "AssetOwnershipRelations s' = moved_to (ticker_owner r) (if o' = None then TickerOwned else AssetOwned) t s"
    and ok: "\<And>d. o' = Some d \<Longrightarrow> r = \<lparr>ticker_owner = d, ticker_expiry = None\<rparr>"
    and grp: "\<And>u. u \<noteq> t \<Longrightarrow> GroupOfAgent s' u = GroupOfAgent s u"
      "if o' = None then \<forall>d. GroupOfAgent s' t d = None else full_agents s' t \<noteq> {}"
  shows "registry_inv s'"
  unfolding registry_inv_def
proof (intro conjI allI impI)
  show "agents_inv s'" by (rule ag)
  show "AssetOwnershipRelations s' d u = relation_of (Tickers s' u) (owners s' u \<noteq> None) d" for d u
  proof (cases "u = t")
    case False
    then show ?thesis using inv unfolding rel tick own by (simp add: moved_to_def registry_inv_def)
  qed (auto simp: rel tick own moved_to_def relation_of_def)
  show "Tickers s' u = Some \<lparr>ticker_owner = d, ticker_expiry = None\<rparr>" if "owners s' u = Some d" for u d
    using that inv ok unfolding tick own registry_inv_def by (cases "u = t") auto
  show "if owners s' u = None then \<forall>d. GroupOfAgent s' u d = None else full_agents s' u \<noteq> {}" for u
  proof (cases "u = t")
    case False
    have "full_agents s' u = full_agents s u" using grp(1) [OF False] by (simp add: full_agents_def)
    moreover have "if owners s u = None then \<forall>d. GroupOfAgent s u d = None else full_agents s u \<noteq> {}"
      using inv unfolding registry_inv_def by blast
    ultimately show ?thesis using grp(1) [OF False] False unfolding own by simp
  qed (use grp(2) in \<open>simp add: own\<close>)
qed

lemma moved_registered:
  assumes "registry_inv s" "Tickers s t = Some r"
  shows "AssetOwnershipRelations (put_relation d t v (put_relation (ticker_owner r) t NotOwned s)) = moved_to d v t s"
  using assms by (auto simp: put_relation_def moved_to_def fun_eq_iff registry_inv_def relation_of_def)

lemma moved_unregistered:
  assumes "registry_inv s" "Tickers s t = None"
  shows "AssetOwnershipRelations (put_relation d t v s) = moved_to d v t s"
  using assms by (auto simp: put_relation_def moved_to_def fun_eq_iff registry_inv_def relation_of_def)

lemma unverified_register_ticker_sel:
  assumes "registry_inv s"
  shows "Tickers (unverified_register_ticker t d e s) = (Tickers s)(t \<mapsto> \<lparr>ticker_owner = d, ticker_expiry = e\<rparr>)"
    and "AssetOwnershipRelations (unverified_register_ticker t d e s) = moved_to d TickerOwned t s"
    and "Tokens (unverified_register_ticker t d e s) = Tokens s"
    and "agents_view (unverified_register_ticker t d e s) = agents_view s"
proof -
  show "AssetOwnershipRelations (unverified_register_ticker t d e s) = moved_to d TickerOwned t s"
    using moved_registered [OF assms] moved_unregistered [OF assms]
    by (cases "Tickers s t") (simp_all add: unverified_register_ticker_def put_relation_def put_ticker_def)
qed (auto simp: unverified_register_ticker_def put_relation_def put_ticker_def agents_view_def Let_def
    split: option.splits)

lemma register_registry:
  assumes inv: "registry_inv s" and "Tokens s t = None"
  shows "registry_inv (unverified_register_ticker t d e s)" (is "registry_inv ?s")
proof (rule registry_change [OF inv])
  note sel = unverified_register_ticker_sel [OF inv, of t d e]
  show "agents_inv ?s" using agents_inv_cong [OF sel(4)] inv by (simp add: registry_inv_def)
  show "Tickers ?s = (Tickers s)(t \<mapsto> \<lparr>ticker_owner = d, ticker_expiry = e\<rparr>)" by (rule sel(1))
  show "owners ?s = (owners s)(t := None)" using assms(2) by (auto simp: owners_def sel(3))
  show "AssetOwnershipRelations ?s = moved_to (ticker_owner \<lparr>ticker_owner = d, ticker_expiry = e\<rparr>)
      (if None = (None :: IdentityId option) then TickerOwned else AssetOwned) t s" by (simp add: sel(2))
  have g: "GroupOfAgent ?s = GroupOfAgent s" using sel(4) by (simp add: agents_view_def)
  then show "GroupOfAgent ?s u = GroupOfAgent s u" for u by simp
  have "owners s t = None" using assms(2) by simp
  then show "if None = (None :: IdentityId option) then \<forall>d. GroupOfAgent ?s t d = None else full_agents ?s t \<noteq> {}"
    using inv unfolding g registry_inv_def by (metis)
qed simp

lemma finish_registration_sel:
  assumes "Tickers s t = Some r"
  shows "Tickers (finish_registration t s) = (Tickers s)(t \<mapsto> r\<lparr>ticker_expiry := None\<rparr>)"
    "AssetOwnershipRelations (finish_registration t s) = AssetOwnershipRelations s"
    "Tokens (finish_registration t s) = Tokens s" "agents_view (finish_registration t s) = agents_view s"
  using assms by (simp_all add: finish_registration_def put_ticker_def agents_view_def)

text \<open>The ticker is the caller's, or free for anyone.\<close>

definition may_create :: "'a asset_store_scheme \<Rightarrow> Ticker \<Rightarrow> IdentityId \<Rightarrow> bool \<Rightarrow> bool" where
  "may_create s t did available \<longleftrightarrow> (available \<or> (\<exists>r. Tickers s t = Some r \<and> ticker_owner r = did))"

definition register_or_finish :: "IdentityId \<Rightarrow> Ticker \<Rightarrow> bool \<Rightarrow> 'a asset_store_scheme \<Rightarrow> 'a asset_store_scheme" where
  "register_or_finish did t available s =
     (if available then unverified_register_ticker t did None s else finish_registration t s)"

lemma register_or_finish_sel:
  assumes inv: "registry_inv s" and may: "may_create s t did available"
  shows "Tickers (register_or_finish did t available s) = (Tickers s)(t \<mapsto> \<lparr>ticker_owner = did, ticker_expiry = None\<rparr>)"
    "AssetOwnershipRelations (put_relation did t AssetOwned (register_or_finish did t available s)) =
      moved_to did AssetOwned t s"
    "Tokens (register_or_finish did t available s) = Tokens s"
    "agents_view (register_or_finish did t available s) = agents_view s"
    "portfolio_view (register_or_finish did t available s) = portfolio_view s"
    "BalanceOf (register_or_finish did t available s) = BalanceOf s"
proof -
  show "AssetOwnershipRelations (put_relation did t AssetOwned (register_or_finish did t available s)) =
      moved_to did AssetOwned t s"
  proof (cases available)
    case True
    then show ?thesis
      using unverified_register_ticker_sel(2) [OF inv, of t did None]
      by (auto simp: register_or_finish_def put_relation_def moved_to_def fun_eq_iff)
  next
    case False
    then obtain r where r: "Tickers s t = Some r" "ticker_owner r = did" using may by (auto simp: may_create_def)
    have "AssetOwnershipRelations s e t = NotOwned" if "e \<noteq> did" for e
      using inv r that by (simp add: registry_inv_def relation_of_def)
    then show ?thesis
      using False finish_registration_sel(2) [OF r(1)]
      by (auto simp: register_or_finish_def put_relation_def moved_to_def fun_eq_iff)
  qed
  have "r\<lparr>ticker_expiry := None\<rparr> = \<lparr>ticker_owner = ticker_owner r, ticker_expiry = None\<rparr>" for r by simp
  then show "Tickers (register_or_finish did t available s) = (Tickers s)(t \<mapsto> \<lparr>ticker_owner = did, ticker_expiry = None\<rparr>)"
    using may unverified_register_ticker_sel(1) [OF inv, of t did None]
    by (auto simp: register_or_finish_def may_create_def finish_registration_sel(1))
  show "Tokens (register_or_finish did t available s) = Tokens s"
    "agents_view (register_or_finish did t available s) = agents_view s"
    using may unverified_register_ticker_sel(3,4) [OF inv, of t did None] finish_registration_sel(3,4)
    by (auto simp: register_or_finish_def may_create_def)
  show "portfolio_view (register_or_finish did t available s) = portfolio_view s"
    "BalanceOf (register_or_finish did t available s) = BalanceOf s"
    by (auto simp: register_or_finish_def unverified_register_ticker_def finish_registration_def view_defs
        asset_put_defs Let_def split: option.splits)
qed

lemma commit_asset_effect:
  assumes inv: "registry_inv s" and may: "may_create s t did available" and new: "Tokens s t = None"
  obtains s' where "commit_asset did name t divis ty idents fround available token_did s = Inr s'"
    "registry_inv s'" "portfolio_view s' = portfolio_view s" "BalanceOf s' = BalanceOf s"
    "Tokens s' = (Tokens s)(t \<mapsto> \<lparr>total_supply = 0, owner_did = did, divisible = divis, asset_type = ty\<rparr>)"
proof -
  let ?tok = "\<lparr>total_supply = 0, owner_did = did, divisible = divis, asset_type = ty\<rparr>"
  let ?s1 = "commit_token_did token_did s"
  define s2 where "s2 = register_or_finish did t available ?s1"
  let ?s3 = "put_token t ?tok s2"
  let ?s5 = "put_relation did t AssetOwned (?s3\<lparr>AssetNames := (AssetNames ?s3)(t \<mapsto> name)\<rparr>)"
  define s7 where "s7 = unverified_update_idents t idents
    (case fround of Some fr \<Rightarrow> ?s5\<lparr>FundingRound := (FundingRound ?s5)(t := fr)\<rparr> | None \<Rightarrow> ?s5)"
  have v1: "registry_view ?s1 = registry_view s"
    by (auto simp: registry_view_def agents_view_def commit_token_did_def owners_def)
  have inv1: "registry_inv ?s1" using registry_inv_cong [OF v1] inv by simp
  have may1: "may_create ?s1 t did available" using may by (simp add: may_create_def commit_token_did_def)
  have keep: "Tickers ?s1 = Tickers s" "Tokens ?s1 = Tokens s" "agents_view ?s1 = agents_view s"
    "portfolio_view ?s1 = portfolio_view s" "BalanceOf ?s1 = BalanceOf s" "moved_to did v t ?s1 = moved_to did v t s" for v
    by (simp_all add: commit_token_did_def agents_view_def view_defs moved_to_def fun_eq_iff)
  note sel = register_or_finish_sel [OF inv1 may1, folded s2_def, unfolded keep]
  have s7: "Tickers s7 = (Tickers s)(t \<mapsto> \<lparr>ticker_owner = did, ticker_expiry = None\<rparr>)"
    "AssetOwnershipRelations s7 = moved_to did AssetOwned t s" "Tokens s7 = (Tokens s)(t \<mapsto> ?tok)"
    "agents_view s7 = agents_view s" "portfolio_view s7 = portfolio_view s" "BalanceOf s7 = BalanceOf s"
    using sel by (simp_all add: s7_def unverified_update_idents_def put_relation_def put_token_def agents_view_def
        view_defs split: option.splits)
  have none: "GroupOfAgent s t d = None" for d
  proof -
    have "owners s t = None" using new by simp
    then show ?thesis using inv unfolding registry_inv_def by metis
  qed
  have ag7: "agents_inv s7" "GroupOfAgent s7 = GroupOfAgent s" "NumFullAgents s7 t = 0"
    using agents_inv_cong [OF s7(4)] inv s7(4) none
    by (auto simp: registry_inv_def agents_view_def agents_inv_def full_count_exact_def full_agents_def)
  then obtain s' where add: "unchecked_add_agent t did Full s7 = Inr s'"
    by (auto simp: unchecked_add_agent_Inr u32_max_def)
  have "commit_asset did name t divis ty idents fround available token_did s = Inr s'"
    unfolding commit_asset_def Let_def register_or_finish_def [symmetric] s2_def [symmetric] s7_def [symmetric] add
    by simp
  moreover have "registry_inv s'"
  proof (rule registry_change [OF inv, where t = t and r = "\<lparr>ticker_owner = did, ticker_expiry = None\<rparr>" and o' = "Some did"])
    show "agents_inv s'" using add_agent_inv [OF ag7(1) _ add] none ag7(2) by simp
  qed (use add s7 ag7(2) in \<open>auto simp: unchecked_add_agent_Inr owners_def full_agents_def\<close>)
  moreover have "portfolio_view s' = portfolio_view s" "BalanceOf s' = BalanceOf s" "Tokens s' = (Tokens s)(t \<mapsto> ?tok)"
    using add s7 by (auto simp: unchecked_add_agent_Inr view_defs)
  ultimately show thesis using that by blast
qed

section \<open>Frames of the operations\<close>

text \<open>What the two invariants read: everything else about an asset may change freely.\<close>

definition asset_view where
  "asset_view s = (portfolio_view s, BalanceOf s, asset_supply s, registry_view s)"

definition asset_inv :: "'a agents_store_scheme \<Rightarrow> bool" where
  "asset_inv s \<longleftrightarrow> ledger_inv s \<and> registry_inv s"

lemma ledger_inv_supply:
  assumes "portfolio_view s' = portfolio_view s" "BalanceOf s' = BalanceOf s" "asset_supply s' = asset_supply s"
  shows "ledger_inv s' = ledger_inv s"
proof -
  have "PortfolioAssetBalances s' = PortfolioAssetBalances s" using assms(1) by (simp add: view_defs)
  then show ?thesis
    using assms by (simp add: ledger_inv_def portfolio_inv_cong [of s' s] did_total_def portfolio_total_def)
qed

lemma asset_inv_cong: "asset_view s' = asset_view s \<Longrightarrow> asset_inv s' = asset_inv s"
  by (simp add: asset_view_def asset_inv_def ledger_inv_supply [of s' s] registry_inv_cong [of s' s])

lemma asset_view_books:
  assumes "forget_books s' = forget_books s"
  shows "asset_view s' = asset_view s"
  using same_books(1,2,4) [OF assms] registry_books [OF assms]
  by (simp add: asset_view_def asset_supply_def token_details_def fun_eq_iff)

lemma asset_view_put_token:
  assumes "Tokens s t = Some token" "owner_did token' = owner_did token" "total_supply token' = total_supply token"
  shows "asset_view (put_token t token' s) = asset_view s"
proof -
  have "asset_supply (put_token t token' s) = asset_supply s"
    using assms by (auto simp: fun_eq_iff asset_supply_def token_details_def put_token_def)
  then show ?thesis
    using registry_put_token [OF assms(1,2)] by (simp add: asset_view_def view_defs put_token_def)
qed

lemmas asset_view_defs = asset_view_def view_defs registry_view_def agents_view_def owners_def
  asset_supply_def token_details_def fun_eq_iff

lemma asset_view_put [simp]:
  "asset_view (set_exemption t b s) = asset_view s"
  "asset_view (set_ticker_pre_approval d t b s) = asset_view s"
  "asset_view (put_mediators t ms s) = asset_view s"
  "asset_view (unsafe_remove_auth sg i by s) = asset_view s"
  "asset_view (s\<lparr>Frozen := fz\<rparr>) = asset_view s"
  "asset_view (s\<lparr>AssetNames := ns\<rparr>) = asset_view s"
  "asset_view (s\<lparr>FundingRound := fr\<rparr>) = asset_view s"
  "asset_view (s\<lparr>CustomTypeIdSequence := x1\<rparr>) = asset_view s"
  "asset_view (s\<lparr>CustomTypesInverse := x2\<rparr>) = asset_view s"
  "asset_view (s\<lparr>CustomTypes := x3\<rparr>) = asset_view s"
  "asset_view (s\<lparr>AssetMetadataLocalKeyToName := x4\<rparr>) = asset_view s"
  "asset_view (s\<lparr>AssetMetadataGlobalKeyToName := x5\<rparr>) = asset_view s"
  by (simp_all add: asset_view_defs set_exemption_def set_ticker_pre_approval_def put_mediators_def
      unsafe_remove_auth_def set_authorization_def set_authorization_given_def)

lemma asset_view_put_metadata [simp]:
  "asset_view (put_metadata_value t k v s) = asset_view s"
  "asset_view (put_metadata_detail t k w s) = asset_view s"
  "asset_view (unverified_update_idents t idents s) = asset_view s"
  "asset_view (s\<lparr>AssetDocuments := docs\<rparr>) = asset_view s"
  "asset_view (s\<lparr>AssetDocumentsIdSequence := sq\<rparr>) = asset_view s"
  "asset_view (s\<lparr>AssetMetadataNextLocalKey := x1\<rparr>) = asset_view s"
  "asset_view (s\<lparr>AssetMetadataLocalNameToKey := x2\<rparr>) = asset_view s"
  "asset_view (s\<lparr>AssetMetadataLocalSpecs := x3\<rparr>) = asset_view s"
  "asset_view (s\<lparr>AssetMetadataNextGlobalKey := x4\<rparr>) = asset_view s"
  "asset_view (s\<lparr>AssetMetadataGlobalNameToKey := x5\<rparr>) = asset_view s"
  "asset_view (s\<lparr>AssetMetadataGlobalSpecs := x6\<rparr>) = asset_view s"
  by (simp_all add: asset_view_defs asset_put_defs unverified_update_idents_def)

lemma management_frame:
  "set_freeze origin t b s = Inr s' \<Longrightarrow> asset_view s' = asset_view s"
  "base_rename_asset acfg origin t name s = Inr s' \<Longrightarrow> asset_view s' = asset_view s"
  "base_make_divisible origin t s = Inr s' \<Longrightarrow> asset_view s' = asset_view s"
  "base_set_funding_round acfg origin t name s = Inr s' \<Longrightarrow> asset_view s' = asset_view s"
  "base_update_asset_type origin t ty s = Inr s' \<Longrightarrow> asset_view s' = asset_view s"
  "base_exempt_ticker_affirmation origin t s = Inr s' \<Longrightarrow> asset_view s' = asset_view s"
  "base_remove_ticker_affirmation_exemption origin t s = Inr s' \<Longrightarrow> asset_view s' = asset_view s"
  "base_pre_approve_ticker origin t s = Inr s' \<Longrightarrow> asset_view s' = asset_view s"
  "base_remove_ticker_pre_approval origin t s = Inr s' \<Longrightarrow> asset_view s' = asset_view s"
  "base_add_mandatory_mediators acfg origin t ms s = Inr s' \<Longrightarrow> asset_view s' = asset_view s"
  "base_remove_mandatory_mediators origin t ms s = Inr s' \<Longrightarrow> asset_view s' = asset_view s"
  by (auto simp: set_freeze_def base_rename_asset_def base_make_divisible_def base_set_funding_round_def
      base_update_asset_type_def base_exempt_ticker_affirmation_def base_remove_ticker_affirmation_exemption_def
      base_pre_approve_ticker_def base_remove_ticker_pre_approval_def base_add_mandatory_mediators_def
      base_remove_mandatory_mediators_def attempt_Inr_iff ensure_Inr_iff ok_or_Inr_iff asset_view_put_token)

lemma unsafe_register_custom_asset_type_frame:
  "unsafe_register_custom_asset_type bcfg ty s = Inr (i, s') \<Longrightarrow>
    asset_view s' = asset_view s \<and> Tokens s' = Tokens s \<and> Tickers s' = Tickers s"
  by (auto simp: unsafe_register_custom_asset_type_def attempt_Inr_iff Let_def split: option.splits)

lemma set_metadata_frame:
  "unverified_set_asset_metadata cfg t k v d s = Inr s' \<Longrightarrow> asset_view s' = asset_view s"
  by (auto simp: unverified_set_asset_metadata_def attempt_Inr_iff ensure_Inr_iff Let_def split: option.splits)

lemma register_local_frame:
  "unverified_register_asset_metadata_local_type cfg t name spec s = Inr (k, s') \<Longrightarrow> asset_view s' = asset_view s"
  by (auto simp: unverified_register_asset_metadata_local_type_def attempt_Inr_iff ensure_Inr_iff)

lemma metadata_frame:
  "base_set_asset_metadata cfg origin t k v d s = Inr s' \<Longrightarrow> asset_view s' = asset_view s"
  "base_set_asset_metadata_details origin t k dt s = Inr s' \<Longrightarrow> asset_view s' = asset_view s"
  "base_register_and_set_local_asset_metadata cfg origin t name spec v d s = Inr s' \<Longrightarrow> asset_view s' = asset_view s"
  "base_register_asset_metadata_local_type cfg origin t name spec s = Inr s' \<Longrightarrow> asset_view s' = asset_view s"
  "base_register_asset_metadata_global_type cfg origin name spec s = Inr s' \<Longrightarrow> asset_view s' = asset_view s"
  "base_remove_local_metadata_key origin t lk s = Inr s' \<Longrightarrow> asset_view s' = asset_view s"
  "base_remove_metadata_value origin t k s = Inr s' \<Longrightarrow> asset_view s' = asset_view s"
  by (auto simp: base_set_asset_metadata_def base_set_asset_metadata_details_def
      base_register_and_set_local_asset_metadata_def base_register_asset_metadata_local_type_def
      base_register_asset_metadata_global_type_def base_remove_local_metadata_key_def
      base_remove_metadata_value_def attempt_Inr_iff ensure_Inr_iff Let_def
      dest!: set_metadata_frame register_local_frame)

lemma fold_keep: "(\<And>x t. g (f x t) = g t) \<Longrightarrow> g (fold f xs s) = g s"
  by (induction xs arbitrary: s) simp_all

lemma batch_charge_fee_books:
  assumes "batch_charge_fee cfg op n s = Inr s'"
  shows "forget_books s' = forget_books s"
proof -
  consider "s' = s" | payer fee s1 where "withdraw_fee cfg payer fee s = Inr s1"
      "s' = s1\<lparr>FreeBalance := on_protocol_fee_payment cfg fee (FreeBalance s1)\<rparr>"
    using assms by (auto simp: batch_charge_fee_def withdraw_from_payer_def Let_def res_simps
        split: if_splits option.splits)
  then show ?thesis
    by cases (auto dest!: withdraw_fee_Inr simp: forget_books_def forget_schedules_def)
qed

lemma documents_frame:
  "base_add_documents bcfg origin docs t s = Inr s' \<Longrightarrow> asset_view s' = asset_view s"
  "base_remove_documents origin ids t s = Inr s' \<Longrightarrow> asset_view s' = asset_view s"
  "base_update_identifiers origin t idents s = Inr s' \<Longrightarrow> asset_view s' = asset_view s"
  "base_register_custom_asset_type bcfg origin ty s = Inr (i, s') \<Longrightarrow> asset_view s' = asset_view s"
  by (auto simp: base_add_documents_def base_remove_documents_def base_update_identifiers_def
      base_register_custom_asset_type_def attempt_Inr_iff Let_def fold_keep [where g = asset_view] split_beta
      dest!: unsafe_register_custom_asset_type_frame batch_charge_fee_books asset_view_books)

section \<open>The pallets that share the storage\<close>

text \<open>The agents pallet touches its own storage and the authorizations.\<close>

definition forget_agents :: "'a agents_store_scheme \<Rightarrow> 'a agents_store_scheme" where
  "forget_agents s = s\<lparr>AGIdSequence := (\<lambda>_. 0), AgentOf := (\<lambda>_ _. False), GroupOfAgent := (\<lambda>_ _. None),
     NumFullAgents := (\<lambda>_. 0), GroupPermissions := (\<lambda>_ _. None), Authorizations := (\<lambda>_ _. None),
     AuthorizationsGiven := (\<lambda>_ _. None), MultiPurposeNonce := 0\<rparr>"

lemma forget_agents_auth [simp]:
  "forget_agents (unsafe_remove_auth sg i by s) = forget_agents s"
  "forget_agents (snd (add_auth d sg dat e s)) = forget_agents s"
  by (simp_all add: forget_agents_def unsafe_remove_auth_def add_auth_def set_authorization_def
      set_authorization_given_def Let_def)

lemma change_group_frame: "try_mutate_agents_group t a g s = Inr s' \<Longrightarrow> forget_agents s' = forget_agents s"
  by (auto simp: try_mutate_agents_group_Inr forget_agents_def)

lemma create_group_frame: "base_create_group origin t perms s = Inr (r, s') \<Longrightarrow> forget_agents s' = forget_agents s"
  by (drule base_create_group_Inr) (auto simp: forget_agents_def)

lemma agents_step_frame: "agents_step s s' \<Longrightarrow> forget_agents s' = forget_agents s"
proof (induction rule: agents_step.induct)
  case (accept origin i s s')
  then show ?case
    by (elim accept_become_agent_Inr) (simp add: unchecked_add_agent_Inr, simp add: forget_agents_def)
next
  case (set_permissions origin t i perms s s')
  then show ?case
    by (auto simp: base_set_group_permissions_def put_group_permissions_def attempt_Inr_iff forget_agents_def)
qed (auto simp: base_remove_agent_def base_abdicate_def base_change_group_def unsafe_change_group_def
    base_create_and_change_custom_group_def base_create_group_and_add_auth_def attempt_Inr_iff
    dest!: change_group_frame create_group_frame)

text \<open>Where nobody is an agent, nobody becomes one.\<close>

definition no_agents :: "'a agents_store_scheme \<Rightarrow> Ticker \<Rightarrow> bool" where
  "no_agents s t \<longleftrightarrow> (\<forall>d. GroupOfAgent s t d = None)"

lemma no_agents_not_permitted: "no_agents s t \<Longrightarrow> ensure_agent_permissioned s t d \<noteq> Inr ()"
  by (simp add: no_agents_def ensure_agent_permissioned_def agent_permissions_def sufficient_for_def)

lemma no_agents_change: "try_mutate_agents_group t a g s = Inr s' \<Longrightarrow> no_agents s u \<Longrightarrow> no_agents s' u"
  by (auto simp: try_mutate_agents_group_Inr no_agents_def)

lemma no_agents_create: "base_create_group origin t perms s = Inr (r, s') \<Longrightarrow> no_agents s u \<Longrightarrow> no_agents s' u"
  by (drule base_create_group_Inr) (auto simp: no_agents_def)

lemma no_agents_step:
  assumes "agents_step s s'" "no_agents s u"
  shows "no_agents s' u"
  using assms
proof (induction rule: agents_step.induct)
  case (accept origin i s s')
  then obtain to t g who d s1 where "ensure_agent_permissioned s t who = Inr ()"
      "unchecked_add_agent t to g s = Inr s1" "s' = unsafe_remove_auth (Signatory.Identity to) i d s1"
    by (auto simp: base_accept_become_agent_def attempt_Inr_iff accept_auth_with_Inr become_agent_with_auth_Inr)
  moreover have "GroupOfAgent (unsafe_remove_auth (Signatory.Identity to) i d s1) = GroupOfAgent s1"
    using agents_view_auth(1) [of _ _ _ s1] by (simp add: agents_view_def)
  ultimately show ?case
    using accept.prems no_agents_not_permitted [of s u who] by (auto simp: unchecked_add_agent_Inr no_agents_def)
next
  case (create_and_auth origin t perms d expiry s s')
  then obtain r s1 where s1: "base_create_group origin t perms s = Inr (r, s1)"
    and v: "agents_view s' = agents_view s1"
    by (auto simp: base_create_group_and_add_auth_def attempt_Inr_iff)
  then show ?case using no_agents_create [OF s1] create_and_auth.prems by (simp add: no_agents_def agents_view_def)
next
  case (set_permissions origin t i perms s s')
  then show ?case
    by (auto simp: base_set_group_permissions_def put_group_permissions_def attempt_Inr_iff no_agents_def)
qed (auto simp: base_remove_agent_def base_abdicate_def base_change_group_def unsafe_change_group_def
    base_create_and_change_custom_group_def attempt_Inr_iff dest!: no_agents_change intro: no_agents_create)

text \<open>The portfolio pallet touches its own storage, the owners of non-fungible tokens and the authorizations.\<close>

definition forget_portfolio :: "'a portfolio_store_scheme \<Rightarrow> 'a portfolio_store_scheme" where
  "forget_portfolio s = s\<lparr>NextPortfolioNumber := (\<lambda>_. 0), Portfolios := (\<lambda>_ _. None), NameToNumber := (\<lambda>_ _. None),
     PortfolioAssetCount := (\<lambda>_. 0), PortfolioAssetBalances := (\<lambda>_ _. 0), PortfolioLockedAssets := (\<lambda>_ _. 0),
     PortfolioCustodian := (\<lambda>_. None), PortfoliosInCustody := (\<lambda>_ _. False), PortfolioNFT := (\<lambda>_. {||}),
     PortfolioLockedNFT := (\<lambda>_. {||}), PreApprovedPortfolios := (\<lambda>_ _. False), AllowedCustodians := (\<lambda>_ _. False),
     NFTOwner := (\<lambda>_ _. None), Authorizations := (\<lambda>_ _. None), AuthorizationsGiven := (\<lambda>_ _. None)\<rparr>"

lemma forget_portfolio_put [simp]:
  "forget_portfolio (put_balance p t v s) = forget_portfolio s"
  "forget_portfolio (put_locked p t v s) = forget_portfolio s"
  "forget_portfolio (put_portfolio_name d n nm s) = forget_portfolio s"
  "forget_portfolio (put_name_number d name num s) = forget_portfolio s"
  "forget_portfolio (put_in_custody d p b s) = forget_portfolio s"
  "forget_portfolio (put_custodian p c s) = forget_portfolio s"
  "forget_portfolio (add_nft p k s) = forget_portfolio s"
  "forget_portfolio (remove_nft p k s) = forget_portfolio s"
  "forget_portfolio (transition_asset_count p v w s) = forget_portfolio s"
  "forget_portfolio (move_portfolio_owner t i p s) = forget_portfolio s"
  "forget_portfolio (unsafe_remove_auth sg j by s) = forget_portfolio s"
  "forget_portfolio (set_pre_approval p t b s) = forget_portfolio s"
  "forget_portfolio (set_allowed_custodian d e b s) = forget_portfolio s"
  by (simp_all add: forget_portfolio_def put_defs transition_asset_count_eq move_portfolio_owner_def
      unsafe_remove_auth_def set_authorization_def set_authorization_given_def set_pre_approval_def
      set_allowed_custodian_def)

lemma forget_portfolio_move [simp]: "forget_portfolio (move_fund from to f s) = forget_portfolio s"
proof -
  have "forget_portfolio (fold (move_nft from to t) ids s) = forget_portfolio s" for t ids
    by (rule fold_keep) (simp add: move_nft_def)
  then show ?thesis
    by (simp add: move_fund_def unchecked_transfer_portfolio_balance_def Let_def split: FundDescription.splits)
qed

lemma base_create_portfolio_frame:
  "base_create_portfolio cfg d name s = Inr s' \<Longrightarrow> forget_portfolio s' = forget_portfolio s"
  by (auto simp: base_create_portfolio_Inr forget_portfolio_def)

lemma portfolio_step_frame: "portfolio_step cfg s s' \<Longrightarrow> forget_portfolio s' = forget_portfolio s"
proof (induction rule: portfolio_step.induct)
  case (delete origin num s s')
  then show ?case
    by (auto simp: delete_portfolio_def attempt_Inr_iff ensure_Inr_iff Let_def) (simp add: forget_portfolio_def put_defs)
next
  case (create origin name s s')
  then show ?case using create_portfolio_base base_create_portfolio_frame by blast
next
  case (create_custody origin owner name s s')
  then show ?case
    by (auto simp: create_custody_portfolio_Inr unverified_take_portfolio_custody_def
        dest!: base_create_portfolio_frame)
next
  case (lock_nft pid t n s s')
  then show ?case by (auto simp: lock_nft_def ensure_Inr_iff forget_portfolio_def)
next
  case (unlock_nft pid t n s s')
  then show ?case by (auto simp: unlock_nft_def ensure_Inr_iff forget_portfolio_def)
qed (auto simp: rename_portfolio_def quit_portfolio_custody_Inr accept_portfolio_custody_Inr custody_taken_def
    unverified_take_portfolio_custody_def move_portfolio_funds_def unchecked_move_funds_def
    fold_keep [where g = forget_portfolio] base_pre_approve_portfolio_def base_remove_portfolio_pre_approval_def
    base_allow_identity_to_create_portfolios_def base_revoke_create_portfolios_permission_def
    lock_tokens_def unlock_tokens_def unchecked_lock_tokens_def attempt_Inr_iff ensure_Inr_iff Let_def)

lemma moves_portfolio_total:
  assumes mv: "moves s s' from to g" and inv: "portfolio_inv s" and ne: "from \<noteq> to"
  shows "portfolio_total s' t = portfolio_total s t"
proof -
  let ?f = "\<lambda>p. PortfolioAssetBalances s p t"
  let ?h = "?f(from := ?f from - g t)"
  have fs: "fin_supp ?f" using inv by (simp add: portfolio_inv_defs)
  have eq: "(\<lambda>p. PortfolioAssetBalances s' p t) = ?h(to := ?f to + g t)"
    using mv ne by (auto simp: moves_def)
  have g: "g t \<le> ?f from" using mv by (auto simp: moves_def dest: spec [of _ t])
  have "sum_supp (?h(to := ?f to + g t)) UNIV + ?f to = sum_supp ?h UNIV + (?f to + g t)"
    using sum_supp_upd_in [of ?h to UNIV "?f to + g t"] fs ne by simp
  moreover have "sum_supp ?h UNIV + ?f from = sum_supp ?f UNIV + (?f from - g t)"
    using sum_supp_upd_in [of ?f "from" UNIV "?f from - g t"] fs by simp
  ultimately show ?thesis unfolding portfolio_total_def eq using g by simp
qed

lemma portfolio_step_totals:
  assumes "portfolio_step cfg s s'" "portfolio_inv s"
  shows "portfolio_total s' t = portfolio_total s t" "did_total s' d t = did_total s d t"
proof -
  consider "PortfolioAssetBalances s' = PortfolioAssetBalances s"
    | p q g where "p \<noteq> q" "pid_did p = pid_did q" "moves s s' p q g"
    using portfolio_step_balances [OF assms] by blast
  then have "portfolio_total s' t = portfolio_total s t \<and> did_total s' d t = did_total s d t"
  proof cases
    case 1
    then show ?thesis using total_cong(1,2) [of s' s] by simp
  next
    case 2
    then show ?thesis
      using moves_portfolio_total [of s s' p q g t] moves_did_total [of s s' p q g d t] assms(2) by simp
  qed
  then show "portfolio_total s' t = portfolio_total s t" "did_total s' d t = did_total s d t" by simp_all
qed

lemma portfolio_step_asset_inv:
  assumes step: "portfolio_step cfg s s'" and left: "numbers_left s" and inv: "asset_inv s"
  shows "asset_inv s'"
proof -
  have pinv: "portfolio_inv s" using inv by (simp add: asset_inv_def ledger_inv_def)
  note f = portfolio_step_frame [OF step]
  have keep: "BalanceOf s' = BalanceOf s" "Tokens s' = Tokens s" "Tickers s' = Tickers s"
    "AssetOwnershipRelations s' = AssetOwnershipRelations s" "agents_view s' = agents_view s"
    using arg_cong [OF f, of BalanceOf] arg_cong [OF f, of Tokens] arg_cong [OF f, of Tickers]
      arg_cong [OF f, of AssetOwnershipRelations] arg_cong [OF f, of agents_view]
    by (simp_all add: forget_portfolio_def agents_view_def)
  have "registry_view s' = registry_view s"
    by (simp add: registry_view_def owners_def keep fun_eq_iff)
  moreover have "asset_supply s' = asset_supply s" by (simp add: asset_supply_def token_details_def keep fun_eq_iff)
  moreover have "asset_supply s t = portfolio_total s t" "asset_supply s t \<le> MAX_SUPPLY"
    "BalanceOf s t d = did_total s d t" for t d
    using inv unfolding asset_inv_def ledger_inv_def by blast+
  ultimately show ?thesis
    using inv portfolio_step_inv [OF step pinv left] portfolio_step_totals [OF step pinv]
    unfolding asset_inv_def ledger_inv_def keep by (metis registry_inv_cong)
qed

lemma agents_step_asset_inv:
  assumes step: "agents_step s s'" and inv: "asset_inv s"
  shows "asset_inv s'"
proof -
  note f = agents_step_frame [OF step]
  have keep: "BalanceOf s' = BalanceOf s" "Tokens s' = Tokens s" "Tickers s' = Tickers s"
    "AssetOwnershipRelations s' = AssetOwnershipRelations s" "portfolio_view s' = portfolio_view s"
    using arg_cong [OF f, of BalanceOf] arg_cong [OF f, of Tokens] arg_cong [OF f, of Tickers]
      arg_cong [OF f, of AssetOwnershipRelations] arg_cong [OF f, of portfolio_view]
    by (simp_all add: forget_agents_def view_defs)
  have own: "owners s' = owners s" by (simp add: owners_def keep fun_eq_iff)
  have ag: "agents_inv s" using inv by (simp add: asset_inv_def registry_inv_def)
  have "if owners s' t = None then \<forall>d. GroupOfAgent s' t d = None else full_agents s' t \<noteq> {}" for t
  proof -
    have "if owners s t = None then \<forall>d. GroupOfAgent s t d = None else full_agents s t \<noteq> {}"
      using inv unfolding asset_inv_def registry_inv_def by blast
    then show ?thesis
      using no_agents_step [OF step, of t] agents_step_keeps_full [OF step ag, of t]
      unfolding own no_agents_def by (cases "owners s t = None") simp_all
  qed
  then have "registry_inv s'"
    using inv agents_step_inv [OF step ag] unfolding asset_inv_def registry_inv_def own keep by blast
  moreover have "asset_supply s' = asset_supply s" by (simp add: asset_supply_def token_details_def keep fun_eq_iff)
  ultimately show ?thesis using inv ledger_inv_supply [of s' s] keep by (simp add: asset_inv_def)
qed

section \<open>Registering, creating and handing over\<close>

lemma asset_inv_registered:
  assumes "asset_inv s" "registry_inv s'" "portfolio_view s' = portfolio_view s" "BalanceOf s' = BalanceOf s"
    "asset_supply s' = asset_supply s"
  shows "asset_inv s'"
  using assms ledger_inv_supply [of s' s] by (simp add: asset_inv_def)

lemma register_asset_inv:
  assumes "asset_inv s" "Tokens s t = None"
  shows "asset_inv (unverified_register_ticker t d e s)"
proof (rule asset_inv_registered [OF assms(1)])
  show "registry_inv (unverified_register_ticker t d e s)"
    using assms by (intro register_registry) (simp_all add: asset_inv_def)
qed (auto simp: unverified_register_ticker_def view_defs asset_put_defs Let_def asset_supply_def token_details_def
    fun_eq_iff split: option.splits)

lemma base_register_ticker_inv:
  fixes s :: "'a statistics_store_scheme"
  assumes "base_register_ticker cfg origin t s = Inr s'" and inv: "asset_inv s"
  shows "asset_inv s'"
proof -
  obtain s1 d e where fee: "charge_fee cfg AssetRegisterTicker s = Inr s1" and new: "Tokens s t = None"
    and s': "s' = unverified_register_ticker t d e s1"
    using assms(1)
    by (auto simp: base_register_ticker_def ticker_registration_checks_def ensure_asset_fresh_def attempt_Inr_iff
        ensure_Inr_iff)
  have b: "forget_books s1 = forget_books s" using fee by (simp add: charge_fee_def charge_fees_books)
  have "asset_inv s1" using asset_inv_cong [OF asset_view_books [OF b]] inv by simp
  then show ?thesis unfolding s' using new same_books(2) [OF b] by (intro register_asset_inv) simp_all
qed

lemma transfer_ticker_inv:
  assumes inv: "asset_inv s" and reg: "Tickers s t = Some r" and new: "Tokens s t = None"
  shows "asset_inv (transfer_ticker r t to s)" (is "asset_inv ?s")
proof -
  have r: "registry_inv s" using inv by (simp add: asset_inv_def)
  have rel: "AssetOwnershipRelations ?s = moved_to to TickerOwned t s"
    using moved_registered [OF r reg, of to TickerOwned] by (simp add: transfer_ticker_def put_ticker_def)
  have ag: "agents_view ?s = agents_view s"
    by (simp add: transfer_ticker_def agents_view_def put_ticker_def put_relation_def)
  have none: "\<forall>d. GroupOfAgent s t d = None"
  proof -
    have "owners s t = None" using new by simp
    then show ?thesis using r unfolding registry_inv_def by metis
  qed
  have "registry_inv ?s"
  proof (rule registry_change [OF r, where t = t and r = "r\<lparr>ticker_owner := to\<rparr>" and o' = None])
    show "agents_inv ?s" using agents_inv_cong [OF ag] r by (simp add: registry_inv_def)
  qed (use new none rel ag in \<open>auto simp: transfer_ticker_def put_ticker_def put_relation_def owners_def agents_view_def\<close>)
  then show ?thesis
    using inv by (elim asset_inv_registered [rotated])
      (simp_all add: transfer_ticker_def view_defs put_ticker_def put_relation_def asset_supply_def token_details_def
        fun_eq_iff)
qed

lemma accept_ticker_with_auth_Inr:
  "accept_ticker_with_auth to dat d s = Inr s' \<longleftrightarrow>
     (\<exists>t r. dat = TransferTicker t \<and> Tokens s t = None \<and> Tickers s t = Some r \<and>
        ensure_auth_by d (ticker_owner r) = Inr () \<and> s' = transfer_ticker r t to s)"
  by (cases dat) (auto simp: accept_ticker_with_auth_def ensure_asset_fresh_def attempt_Inr_iff ensure_Inr_iff
      ok_or_Inr_iff)

lemma accept_ownership_with_auth_Inr:
  "accept_ownership_with_auth to dat d s = Inr s' \<longleftrightarrow>
     (\<exists>t r token. dat = TransferAssetOwnership t \<and> Tokens s t = Some token \<and> Tickers s t = Some r \<and>
        ensure_agent_permissioned s t d = Inr () \<and>
        s' = put_token t (token\<lparr>owner_did := to\<rparr>) (put_ticker t (r\<lparr>ticker_owner := to\<rparr>)
          (put_relation to t AssetOwned (put_relation (ticker_owner r) t NotOwned s))))"
  by (cases dat) (auto simp: accept_ownership_with_auth_def token_details_def attempt_Inr_iff ok_or_Inr_iff Let_def)

lemma accept_ticker_inv:
  assumes "base_accept_ticker_transfer origin i s = Inr s'" and inv: "asset_inv s"
  shows "asset_inv s'"
proof -
  obtain to sg d r t where "Tokens s t = None" "Tickers s t = Some r"
      "s' = unsafe_remove_auth sg i d (transfer_ticker r t to s)"
    using assms(1)
    by (auto simp: base_accept_ticker_transfer_def attempt_Inr_iff accept_auth_with_Inr accept_ticker_with_auth_Inr)
  then show ?thesis
    using transfer_ticker_inv [OF inv, of t r to] asset_inv_cong [of s' "transfer_ticker r t to s"] by simp
qed

lemma accept_ownership_inv:
  assumes "base_accept_token_ownership_transfer origin i s = Inr s'" and inv: "asset_inv s"
  shows "asset_inv s'"
proof -
  obtain to sg d r t token where tok: "Tokens s t = Some token" and reg: "Tickers s t = Some r"
    and s': "s' = unsafe_remove_auth sg i d (put_token t (token\<lparr>owner_did := to\<rparr>) (put_ticker t (r\<lparr>ticker_owner := to\<rparr>)
      (put_relation to t AssetOwned (put_relation (ticker_owner r) t NotOwned s))))" (is "_ = unsafe_remove_auth _ _ _ ?s")
    using assms(1)
    by (auto simp: base_accept_token_ownership_transfer_def attempt_Inr_iff accept_auth_with_Inr
        accept_ownership_with_auth_Inr)
  have ri: "registry_inv s" using inv by (simp add: asset_inv_def)
  have own: "owners s t = Some (owner_did token)" using tok by (simp add: owners_def)
  have exp: "r = \<lparr>ticker_owner = owner_did token, ticker_expiry = None\<rparr>"
    using ri own reg unfolding registry_inv_def by fastforce
  have full: "full_agents s t \<noteq> {}" using ri own unfolding registry_inv_def by (metis option.distinct(1))
  have rel: "AssetOwnershipRelations ?s = moved_to to AssetOwned t s"
    using moved_registered [OF ri reg, of to AssetOwned] by (simp add: put_ticker_def put_token_def)
  have ag: "agents_view ?s = agents_view s"
    by (simp add: agents_view_def put_ticker_def put_relation_def put_token_def)
  have "registry_inv ?s"
  proof (rule registry_change [OF ri, where t = t and r = "r\<lparr>ticker_owner := to\<rparr>" and o' = "Some to"])
    show "agents_inv ?s" using agents_inv_cong [OF ag] ri by (simp add: registry_inv_def)
  qed (use full rel ag exp in \<open>auto simp: put_ticker_def put_relation_def put_token_def owners_def agents_view_def
      full_agents_def\<close>)
  then have "asset_inv ?s"
    using inv tok by (elim asset_inv_registered [rotated])
      (auto simp: view_defs put_ticker_def put_relation_def put_token_def asset_supply_def token_details_def fun_eq_iff)
  then show ?thesis using asset_inv_cong [of s' ?s] by (simp add: s')
qed

lemma unsafe_create_asset_effect:
  assumes "unsafe_create_asset cfg did sk name t divis ty idents fround s = Inr s'" and inv: "asset_inv s"
  shows "asset_inv s'" and "Tokens s t = None"
    and "Tokens s' = (Tokens s)(t \<mapsto> \<lparr>total_supply = 0, owner_did = did, divisible = divis, asset_type = ty\<rparr>)"
proof -
  obtain available s1 where av: "(case is_ticker_available_or_registered_to s t did of
        RegisteredByOther \<Rightarrow> Inl (AssetError TickerAlreadyRegistered)
      | RegisteredByDid \<Rightarrow> Inr False | Available \<Rightarrow> Inr True) = Inr available"
    and fee: "charge_fees cfg (if available then [AssetRegisterTicker, AssetCreateAsset] else []) s = Inr s1"
    and new: "Tokens s t = None"
    and com: "commit_asset did name t divis ty idents fround available (get_token_did cfg t) s1 = Inr s'"
    using assms(1)
    by (auto simp: unsafe_create_asset_def ensure_create_asset_parameters_def ensure_asset_fresh_def attempt_Inr_iff
        ensure_Inr_iff Let_def)
  have b: "forget_books s1 = forget_books s" using fee by (rule charge_fees_books)
  have inv1: "asset_inv s1" using asset_inv_cong [OF asset_view_books [OF b]] inv by simp
  have may: "may_create s1 t did available"
    using av same_books(6) [OF b]
    by (auto simp: may_create_def is_ticker_available_or_registered_to_def split: option.splits if_splits)
  have new1: "Tokens s1 t = None" using new same_books(2) [OF b] by simp
  have "registry_inv s1" using inv1 by (simp add: asset_inv_def)
  then obtain s2 where s2: "commit_asset did name t divis ty idents fround available (get_token_did cfg t) s1 = Inr s2"
    "registry_inv s2" "portfolio_view s2 = portfolio_view s1" "BalanceOf s2 = BalanceOf s1"
    "Tokens s2 = (Tokens s1)(t \<mapsto> \<lparr>total_supply = 0, owner_did = did, divisible = divis, asset_type = ty\<rparr>)"
    by (rule commit_asset_effect [OF _ may new1])
  have "asset_supply s2 = asset_supply s1" using s2(5) new1 by (auto simp: asset_supply_def token_details_def)
  then show "asset_inv s'" using asset_inv_registered [OF inv1 s2(2-4)] s2(1) com by simp
  show "Tokens s t = None" by (rule new)
  show "Tokens s' = (Tokens s)(t \<mapsto> \<lparr>total_supply = 0, owner_did = did, divisible = divis, asset_type = ty\<rparr>)"
    using s2(1,5) com same_books(2) [OF b] by simp
qed

lemma create_asset_inv:
  "base_create_asset cfg origin name t divis ty idents fround s = Inr s' \<Longrightarrow> asset_inv s \<Longrightarrow> asset_inv s'"
  by (auto simp: base_create_asset_def attempt_Inr_iff intro: unsafe_create_asset_effect(1))

lemma create_asset_with_custom_type_inv:
  assumes "create_asset_with_custom_type cfg origin name t divis ty idents fround s = Inr s'" "asset_inv s"
  shows "asset_inv s'"
proof -
  obtain i s1 and d :: PermissionedCallOriginData where "unsafe_register_custom_asset_type cfg ty s = Inr (i, s1)"
    "unsafe_create_asset cfg (primary_did d) (secondary_key d) name t divis (CustomAsset i) idents fround s1 = Inr s'"
    using assms(1) by (auto simp: create_asset_with_custom_type_def attempt_Inr_iff)
  then show ?thesis
    using unsafe_create_asset_effect(1) [of cfg "primary_did d" _ name t divis _ idents fround s1 s']
      unsafe_register_custom_asset_type_frame [of cfg ty s i s1] asset_inv_cong [of s1 s] assms(2) by blast
qed

section \<open>The pallets as a transition system\<close>

text \<open>
  A step is an extrinsic of the asset pallet, a transfer another pallet asks for, an operation of
  the portfolio or the agents pallet, or anything else that leaves alone what the invariant reads.
\<close>

inductive asset_step ::
  "'c assets_config_scheme \<Rightarrow> 'a assets_store_scheme \<Rightarrow> 'a assets_store_scheme \<Rightarrow> bool" for cfg where
  register_ticker: "base_register_ticker cfg origin t s = Inr s' \<Longrightarrow> asset_step cfg s s'"
| accept_ticker: "base_accept_ticker_transfer origin i s = Inr s' \<Longrightarrow> asset_step cfg s s'"
| accept_ownership: "base_accept_token_ownership_transfer origin i s = Inr s' \<Longrightarrow> asset_step cfg s s'"
| create_asset:
    "base_create_asset cfg origin name t divis ty idents fround s = Inr s' \<Longrightarrow> asset_step cfg s s'"
| create_custom:
    "create_asset_with_custom_type cfg origin name t divis custom idents fround s = Inr s' \<Longrightarrow> asset_step cfg s s'"
| custom_type: "base_register_custom_asset_type cfg origin custom s = Inr (i, s') \<Longrightarrow> asset_step cfg s s'"
| issue: "base_issue cfg origin t v kind s = Inr s' \<Longrightarrow> asset_step cfg s s'"
| redeem: "redeem cfg origin t v s = Inr s' \<Longrightarrow> asset_step cfg s s'"
| redeem_from: "redeem_from_portfolio cfg origin t v kind s = Inr s' \<Longrightarrow> asset_step cfg s s'"
| transfer: "base_transfer cfg from to t v (m, s) = Inr (m', s') \<Longrightarrow> asset_step cfg s s'"
| controller: "controller_transfer cfg origin t v from s = Inr s' \<Longrightarrow> asset_step cfg s s'"
| freeze: "set_freeze origin t b s = Inr s' \<Longrightarrow> asset_step cfg s s'"
| rename: "base_rename_asset cfg origin t name s = Inr s' \<Longrightarrow> asset_step cfg s s'"
| divisible: "base_make_divisible origin t s = Inr s' \<Longrightarrow> asset_step cfg s s'"
| add_documents: "base_add_documents cfg origin docs t s = Inr s' \<Longrightarrow> asset_step cfg s s'"
| remove_documents: "base_remove_documents origin ids t s = Inr s' \<Longrightarrow> asset_step cfg s s'"
| funding_round: "base_set_funding_round cfg origin t fr s = Inr s' \<Longrightarrow> asset_step cfg s s'"
| identifiers: "base_update_identifiers origin t idents s = Inr s' \<Longrightarrow> asset_step cfg s s'"
| asset_type: "base_update_asset_type origin t ty s = Inr s' \<Longrightarrow> asset_step cfg s s'"
| set_metadata: "base_set_asset_metadata cfg origin t key val detail s = Inr s' \<Longrightarrow> asset_step cfg s s'"
| metadata_details: "base_set_asset_metadata_details origin t key det s = Inr s' \<Longrightarrow> asset_step cfg s s'"
| register_metadata: "base_register_and_set_local_asset_metadata cfg origin t name spec val detail s = Inr s'
    \<Longrightarrow> asset_step cfg s s'"
| local_type: "base_register_asset_metadata_local_type cfg origin t name spec s = Inr s' \<Longrightarrow> asset_step cfg s s'"
| global_type: "base_register_asset_metadata_global_type cfg origin name spec s = Inr s' \<Longrightarrow> asset_step cfg s s'"
| remove_key: "base_remove_local_metadata_key origin t lk s = Inr s' \<Longrightarrow> asset_step cfg s s'"
| remove_value: "base_remove_metadata_value origin t key s = Inr s' \<Longrightarrow> asset_step cfg s s'"
| exempt: "base_exempt_ticker_affirmation origin t s = Inr s' \<Longrightarrow> asset_step cfg s s'"
| remove_exemption: "base_remove_ticker_affirmation_exemption origin t s = Inr s' \<Longrightarrow> asset_step cfg s s'"
| pre_approve: "base_pre_approve_ticker origin t s = Inr s' \<Longrightarrow> asset_step cfg s s'"
| remove_pre_approval: "base_remove_ticker_pre_approval origin t s = Inr s' \<Longrightarrow> asset_step cfg s s'"
| add_mediators: "base_add_mandatory_mediators cfg origin t ms s = Inr s' \<Longrightarrow> asset_step cfg s s'"
| remove_mediators: "base_remove_mandatory_mediators origin t ms s = Inr s' \<Longrightarrow> asset_step cfg s s'"
| portfolio: "portfolio_step cfg s s' \<Longrightarrow> asset_step cfg s s'"
| agents: "agents_step s s' \<Longrightarrow> asset_step cfg s s'"
| elsewhere: "asset_view s' = asset_view s \<Longrightarrow> asset_step cfg s s'"

lemma base_transfer_unsafe:
  assumes "base_transfer cfg from to t v (m, s) = Inr (m', s')"
  obtains m1 where "is_valid_transfer cfg s t from to v m = Inr (ERC1400_TRANSFER_SUCCESS, m1)"
    "unsafe_transfer cfg from to t v (the m1, s) = Inr (m', s')"
  using assms by (auto simp: base_transfer_def attempt_Inr_iff ensure_Inr_iff)

lemma ledger_step_inv:
  assumes inv: "asset_inv s" and left: "assets_left s"
  shows "mint cfg t p v fee (m, s) = Inr (m', s') \<Longrightarrow> asset_inv s'"
    and "base_redeem cfg origin t v kind (m, s) = Inr (m', s') \<Longrightarrow> asset_inv s'"
    and "unsafe_transfer cfg from to t v (m, s) = Inr (m', s') \<Longrightarrow> asset_inv s'"
proof -
  have l: "ledger_inv s" "portfolio_inv s" and r: "registry_inv s"
    using inv unfolding asset_inv_def ledger_inv_def by blast+
  show "asset_inv s'" if "mint cfg t p v fee (m, s) = Inr (m', s')"
    using mint_ledger(1) [OF that l(1) left] registry_inv_cong [OF mint_registry [OF that]] r by (simp add: asset_inv_def)
  show "asset_inv s'" if red: "base_redeem cfg origin t v kind (m, s) = Inr (m', s')"
    by (rule redeem_ledger [OF red l(1)])
      (use registry_inv_cong [OF redeem_registry [OF red l(2)]] r in \<open>simp add: asset_inv_def\<close>)
  show "asset_inv s'" if "unsafe_transfer cfg from to t v (m, s) = Inr (m', s')"
    using transfer_ledger(1) [OF that l(1)] registry_inv_cong [OF transfer_registry [OF that]] r
    by (simp add: asset_inv_def)
qed

lemma asset_step_inv:
  assumes "asset_step cfg s s'" and inv: "asset_inv s" and left: "numbers_left s" "assets_left s"
  shows "asset_inv s'"
  using assms(1)
proof cases
  case (register_ticker origin t)
  then show ?thesis using base_register_ticker_inv inv by blast
next
  case (issue origin t v kind)
  then show ?thesis
    using ledger_step_inv(1) [OF inv left(2)] by (auto simp: base_issue_def attempt_Inr_iff)
next
  case (redeem origin t v)
  then show ?thesis
    using ledger_step_inv(2) [OF inv left(2)] by (auto simp: redeem_def attempt_Inr_iff)
next
  case (redeem_from origin t v kind)
  then show ?thesis
    using ledger_step_inv(2) [OF inv left(2)] by (auto simp: redeem_from_portfolio_def attempt_Inr_iff)
next
  case (transfer "from" to t v m m')
  then show ?thesis using ledger_step_inv(3) [OF inv left(2)] by (elim base_transfer_unsafe)
next
  case (controller origin t v "from")
  then show ?thesis
    using ledger_step_inv(3) [OF inv left(2)]
    by (auto simp: controller_transfer_def base_controller_transfer_def attempt_Inr_iff)
next
  case portfolio
  then show ?thesis using portfolio_step_asset_inv [OF _ left(1) inv] by blast
next
  case agents
  then show ?thesis using agents_step_asset_inv [OF _ inv] by blast
next
  case (accept_ticker origin i)
  then show ?thesis by (rule accept_ticker_inv [OF _ inv])
next
  case (accept_ownership origin i)
  then show ?thesis by (rule accept_ownership_inv [OF _ inv])
next
  case (create_asset origin name t divis ty idents fround)
  then show ?thesis by (rule create_asset_inv [OF _ inv])
next
  case (create_custom origin name t divis custom idents fround)
  then show ?thesis by (rule create_asset_with_custom_type_inv [OF _ inv])
next
  case elsewhere
  then show ?thesis using asset_inv_cong inv by blast
qed (drule management_frame metadata_frame documents_frame, simp add: asset_inv_cong [of s' s] inv)+

interpretation asset_system: invariant_system
  "\<lambda>s s'. numbers_left s \<and> assets_left s \<and> asset_step cfg s s'" asset_inv
  by unfold_locales (auto intro: asset_step_inv)

end
