(* ===== verification/NFT.thy ===== *)
theory NFT
  imports Asset_System
begin

text \<open>
  The NFT pallet (\<open>pallets/nft/src/lib.rs\<close>): collections of non-fungible tokens, issuing, redeeming
  and transferring them. Tokens are held in portfolios: \<open>PortfolioNFT\<close> and \<open>PortfolioLockedNFT\<close> belong
  to the portfolio pallet. The limits the runtime configures are fields of \<open>nft_config\<close>.
\<close>

record nft_config = assets_config +
  MaxNumberOfCollectionKeys :: nat
  MaxNumberOfNFTsCount :: nat

record NFTMetadataAttribute =
  attribute_key :: AssetMetadataKey
  attribute_value :: string

definition nfts_len :: "NFTs \<Rightarrow> nat" where
  "nfts_len nfts = length (nfts_ids nfts)"

definition new_nfts :: "Ticker \<Rightarrow> NFTId list \<Rightarrow> string + NFTs" where
  "new_nfts ticker ids =
     (if length (btree ids) \<noteq> length ids then Inl ''No duplicate NFTIds are allowed''
      else Inr \<lparr>nfts_ticker = ticker, nfts_ids = ids\<rparr>)"

section \<open>Collections\<close>

definition collection_caller ::
  "'a agents_store_scheme \<Rightarrow> Origin \<Rightarrow> Ticker \<Rightarrow> (bool \<times> IdentityId) result" where
  "collection_caller s origin ticker =
     (case nft_asset s ticker of
        Some is_nft_asset \<Rightarrow>
          ensure is_nft_asset (NftError InvalidAssetType) (
          attempt (ensure_agent_asset_perms s origin ticker) (\<lambda>d. Inr (False, primary_did d)))
      | None \<Rightarrow> attempt (ensure_perms s origin) (\<lambda>did. Inr (True, did)))"

definition ensure_collection_keys ::
  "'c nft_config_scheme \<Rightarrow> 'a nft_store_scheme \<Rightarrow> Ticker \<Rightarrow> AssetMetadataKey list \<Rightarrow> unit result" where
  "ensure_collection_keys cfg s ticker keys =
     ensure (length keys \<le> MaxNumberOfCollectionKeys cfg) (NftError MaxNumberOfKeysExceeded) (
     ensure (length keys = length (btree keys)) (NftError DuplicateMetadataKey) (
     each_res (\<lambda>key. ensure (check_asset_metadata_key_exists s ticker key)
       (NftError UnregisteredMetadataKey) (Inr ())) (btree keys)))"

definition put_collection ::
  "NFTCollectionId \<Rightarrow> Ticker \<Rightarrow> AssetMetadataKey list \<Rightarrow> 'a nft_store_scheme \<Rightarrow> 'a nft_store_scheme" where
  "put_collection c ticker keys s =
     s\<lparr>Collection := (Collection s)(c \<mapsto> \<lparr>collection_id = c, collection_ticker = ticker\<rparr>),
       CollectionKeys := (CollectionKeys s)(c := keys),
       CollectionTicker := (CollectionTicker s)(ticker \<mapsto> c)\<rparr>"

definition base_create_nft_collection ::
  "'c nft_config_scheme \<Rightarrow> Origin \<Rightarrow> Ticker \<Rightarrow> NonFungibleType option \<Rightarrow> AssetMetadataKey list
    \<Rightarrow> 'a assets_store_scheme \<Rightarrow> ('a assets_store_scheme) result" where
  "base_create_nft_collection cfg origin ticker nft_type keys s =
     attempt (collection_caller s origin ticker) (\<lambda>(create, _).
     ensure (CollectionTicker s ticker = None) (NftError CollectionAlredyRegistered) (
     attempt (ensure_collection_keys cfg s ticker keys) (\<lambda>_.
     attempt (if create then
                attempt (ok_or nft_type (NftError InvalidAssetType)) (\<lambda>ty.
                base_create_asset cfg origin (map char_of (ticker_bytes ticker)) ticker False (NonFungible ty) [] None s)
              else Inr s) (\<lambda>s1.
     attempt (try_next_pre u64_max (NextCollectionId s1)) (\<lambda>(c, sq).
     Inr (put_collection c ticker (btree keys) (s1\<lparr>NextCollectionId := sq\<rparr>)))))))"

section \<open>Issuing and redeeming\<close>

definition ensure_mandatory_attributes ::
  "AssetMetadataKey list \<Rightarrow> NFTMetadataAttribute list \<Rightarrow> unit result" where
  "ensure_mandatory_attributes mandatory attributes =
     ensure (length mandatory = length attributes) (NftError InvalidMetadataAttribute) (
     let keys = btree (map attribute_key attributes) in
     ensure (length attributes = length keys) (NftError DuplicateMetadataKey) (
     each_res (\<lambda>key. ensure (List.member mandatory key) (NftError InvalidMetadataAttribute) (Inr ())) keys))"

definition put_nft_count ::
  "Ticker \<Rightarrow> NFTCount \<Rightarrow> 'a nft_store_scheme \<Rightarrow> 'a nft_store_scheme" where
  "put_nft_count ticker n s = s\<lparr>NFTsInCollection := (NFTsInCollection s)(ticker := n)\<rparr>"

definition put_number_of_nfts ::
  "Ticker \<Rightarrow> IdentityId \<Rightarrow> NFTCount \<Rightarrow> 'a nft_store_scheme \<Rightarrow> 'a nft_store_scheme" where
  "put_number_of_nfts ticker did n s =
     s\<lparr>NumberOfNFTs := (NumberOfNFTs s)(ticker := (NumberOfNFTs s ticker)(did := n))\<rparr>"

definition put_attribute ::
  "NFTCollectionId \<times> NFTId \<Rightarrow> NFTMetadataAttribute \<Rightarrow> 'a nft_store_scheme \<Rightarrow> 'a nft_store_scheme" where
  "put_attribute key a s =
     s\<lparr>MetadataValue := (MetadataValue s)(key := (MetadataValue s key)(attribute_key a \<mapsto> attribute_value a))\<rparr>"

definition remove_attributes ::
  "NFTCollectionId \<times> NFTId \<Rightarrow> 'a nft_store_scheme \<Rightarrow> 'a nft_store_scheme" where
  "remove_attributes key s = s\<lparr>MetadataValue := (MetadataValue s)(key := Map.empty)\<rparr>"

definition remove_nft_owner :: "Ticker \<Rightarrow> NFTId \<Rightarrow> 'a nft_store_scheme \<Rightarrow> 'a nft_store_scheme" where
  "remove_nft_owner ticker nft_id s =
     s\<lparr>NFTOwner := (NFTOwner s)(ticker := (NFTOwner s ticker)(nft_id := None))\<rparr>"

lemmas nft_put_defs = put_collection_def put_nft_count_def put_number_of_nfts_def put_attribute_def
  remove_attributes_def remove_nft_owner_def move_portfolio_owner_def

definition base_issue_nft ::
  "Origin \<Rightarrow> Ticker \<Rightarrow> NFTMetadataAttribute list \<Rightarrow> PortfolioKind \<Rightarrow> 'a agents_store_scheme
    \<Rightarrow> ('a agents_store_scheme) result" where
  "base_issue_nft origin ticker attributes kind s =
     attempt (ok_or (CollectionTicker s ticker) (NftError CollectionNotFound)) (\<lambda>c.
     attempt (ensure_origin_ticker_and_portfolio_permissions s origin ticker kind False) (\<lambda>pid.
     attempt (ensure_portfolio_validity s pid) (\<lambda>_.
     attempt (ensure_mandatory_attributes (CollectionKeys s c) attributes) (\<lambda>_.
     attempt (ok_or (checked_add u64_max (NFTsInCollection s ticker) 1) (NftError SupplyOverflow)) (\<lambda>new_supply.
     attempt (ok_or (checked_add u64_max (NumberOfNFTs s ticker (pid_did pid)) 1) (NftError BalanceOverflow))
       (\<lambda>new_balance.
     attempt (try_next_pre u64_max (NextNFTId s c)) (\<lambda>(nft_id, sq).
     let s1 = s\<lparr>NextNFTId := (NextNFTId s)(c := sq)\<rparr>;
         s2 = put_nft_count ticker new_supply s1;
         s3 = put_number_of_nfts ticker (pid_did pid) new_balance s2;
         s4 = fold (put_attribute (c, nft_id)) attributes s3;
         s5 = add_nft pid (ticker, nft_id) s4
     in Inr (move_portfolio_owner ticker nft_id pid s5))))))))"

definition base_redeem_nft ::
  "Origin \<Rightarrow> Ticker \<Rightarrow> NFTId \<Rightarrow> PortfolioKind \<Rightarrow> 'a agents_store_scheme
    \<Rightarrow> ('a agents_store_scheme) result" where
  "base_redeem_nft origin ticker nft_id kind s =
     attempt (ok_or (CollectionTicker s ticker) (NftError CollectionNotFound)) (\<lambda>c.
     attempt (ensure_origin_ticker_and_portfolio_permissions s origin ticker kind True) (\<lambda>pid.
     ensure ((ticker, nft_id) |\<in>| PortfolioNFT s pid) (NftError NFTNotFound) (
     attempt (ok_or (checked_sub (NFTsInCollection s ticker) 1) (NftError SupplyUnderflow)) (\<lambda>new_supply.
     attempt (ok_or (checked_sub (NumberOfNFTs s ticker (pid_did pid)) 1) (NftError BalanceUnderflow)) (\<lambda>new_balance.
     let s1 = put_nft_count ticker new_supply s;
         s2 = put_number_of_nfts ticker (pid_did pid) new_balance s1;
         s3 = remove_nft pid (ticker, nft_id) s2;
         s4 = remove_attributes (c, nft_id) s3
     in Inr (remove_nft_owner ticker nft_id s4))))))"

section \<open>Transfers\<close>

definition ensure_within_nfts_transfer_limits :: "'c nft_config_scheme \<Rightarrow> NFTs \<Rightarrow> unit result" where
  "ensure_within_nfts_transfer_limits cfg nfts =
     ensure (nfts_len nfts > 0) (NftError ZeroCount) (
     ensure (nfts_len nfts \<le> MaxNumberOfNFTsCount cfg) (NftError MaxNumberOfNFTsPerLegExceeded) (Inr ()))"

definition ensure_no_duplicate_nfts :: "NFTs \<Rightarrow> unit result" where
  "ensure_no_duplicate_nfts nfts =
     ensure (length (btree (nfts_ids nfts)) = nfts_len nfts) (NftError DuplicatedNFTId) (Inr ())"

definition validate_nft_ownership ::
  "'c nft_config_scheme \<Rightarrow> 'a portfolio_store_scheme \<Rightarrow> PortfolioId \<Rightarrow> PortfolioId \<Rightarrow> NFTs \<Rightarrow> unit result" where
  "validate_nft_ownership cfg s from to nfts =
     (let ticker = nfts_ticker nfts; n = nfts_len nfts in
     attempt (ok_or (CollectionTicker s ticker) (NftError InvalidNFTTransferCollectionNotFound)) (\<lambda>_.
     ensure (from \<noteq> to) (NftError InvalidNFTTransferSamePortfolio) (
     ensure (NumberOfNFTs s ticker (pid_did from) \<ge> n) (NftError InvalidNFTTransferInsufficientCount) (
     attempt (ensure_within_nfts_transfer_limits cfg nfts) (\<lambda>_.
     attempt (ensure_no_duplicate_nfts nfts) (\<lambda>_.
     attempt (each_res (\<lambda>nft_id.
       ensure ((ticker, nft_id) |\<in>| PortfolioNFT s from) (NftError InvalidNFTTransferNFTNotOwned) (
       ensure ((ticker, nft_id) |\<notin>| PortfolioLockedNFT s from) (NftError InvalidNFTTransferNFTIsLocked) (
       Inr ()))) (nfts_ids nfts)) (\<lambda>_.
     attempt (ok_or (checked_add u64_max (NumberOfNFTs s ticker (pid_did to)) n)
       (NftError InvalidNFTTransferCountOverflow)) (\<lambda>_. Inr ()))))))))"

definition validate_nft_transfer ::
  "'c nft_config_scheme \<Rightarrow> 'a compliance_store_scheme \<Rightarrow> PortfolioId \<Rightarrow> PortfolioId \<Rightarrow> NFTs \<Rightarrow> WeightMeter
    \<Rightarrow> WeightMeter result" where
  "validate_nft_transfer cfg s from to nfts m =
     ensure (\<not> Frozen s (nfts_ticker nfts)) (NftError InvalidNFTTransferFrozenAsset) (
     attempt (validate_nft_ownership cfg s from to nfts) (\<lambda>_.
     attempt (is_compliant cfg s (nfts_ticker nfts) (pid_did from) (pid_did to) m) (\<lambda>(ok, m1).
     ensure ok (NftError InvalidNFTTransferComplianceFailure) (Inr m1))))"

text \<open>The counters are unsigned 64-bit integers updated by \<open>-=\<close> and \<open>+=\<close>.\<close>

definition unverified_nfts_transfer ::
  "PortfolioId \<Rightarrow> PortfolioId \<Rightarrow> NFTs \<Rightarrow> 'a portfolio_store_scheme \<Rightarrow> 'a portfolio_store_scheme" where
  "unverified_nfts_transfer from to nfts s =
     (let ticker = nfts_ticker nfts; n = nfts_len nfts;
          s1 = put_number_of_nfts ticker (pid_did from)
                 (wrapping_sub u64_max (NumberOfNFTs s ticker (pid_did from)) n) s;
          s2 = put_number_of_nfts ticker (pid_did to)
                 (wrapping_add u64_max (NumberOfNFTs s1 ticker (pid_did to)) n) s1
      in fold (move_nft from to ticker) (nfts_ids nfts) s2)"

definition base_nft_transfer ::
  "'c nft_config_scheme \<Rightarrow> PortfolioId \<Rightarrow> PortfolioId \<Rightarrow> NFTs \<Rightarrow> WeightMeter \<times> 'a compliance_store_scheme
    \<Rightarrow> (WeightMeter \<times> 'a compliance_store_scheme) result" where
  "base_nft_transfer cfg from to nfts ms =
     (case ms of (m, s) \<Rightarrow>
        attempt (validate_nft_transfer cfg s from to nfts m) (\<lambda>m1.
        Inr (m1, unverified_nfts_transfer from to nfts s)))"

definition nft_controller_transfer ::
  "'c nft_config_scheme \<Rightarrow> Origin \<Rightarrow> Ticker \<Rightarrow> NFTs \<Rightarrow> PortfolioId \<Rightarrow> PortfolioKind \<Rightarrow> 'a agents_store_scheme
    \<Rightarrow> ('a agents_store_scheme) result" where
  "nft_controller_transfer cfg origin ticker nfts source kind s =
     attempt (ensure_origin_ticker_and_portfolio_permissions s origin ticker kind True) (\<lambda>pid.
     attempt (validate_nft_ownership cfg s source pid nfts) (\<lambda>_.
     Inr (unverified_nfts_transfer source pid nfts s)))"

section \<open>Migration\<close>

text \<open>Version 2 of the storage records the owner of every token that a portfolio holds.\<close>

definition initialize_nft_owner ::
  "(PortfolioId \<times> Ticker \<times> NFTId) list \<Rightarrow> 'a nft_store_scheme \<Rightarrow> 'a nft_store_scheme" where
  "initialize_nft_owner held s = fold (\<lambda>(pid, ticker, nft_id). move_portfolio_owner ticker nft_id pid) held s"

end
