(* ===== verification/Settlement.thy ===== *)
theory Settlement
  imports NFT
begin

text \<open>
  The settlement pallet (\<open>pallets/settlement/src/lib.rs\<close>, \<open>primitives/src/settlement.rs\<close>): venues,
  instructions made of legs, affirmations that lock what the sending portfolios deliver, receipts for
  transfers outside the chain, mediators, and the execution of an instruction as one transaction.

  Three things the pallet calls are not part of the repository and are fields of \<open>settlement_config\<close>:
  the scheduler (\<open>schedule_named\<close>, \<open>cancel_named\<close> on its agenda, where nothing stands for an error), the
  check of the signature of a receipt, and the order \<open>leg_order\<close> in which the storage iterates over the
  hashed numbers of legs. Events and the weights returned after a call are left out.
\<close>

section \<open>Data\<close>

type_synonym VenueId = nat
type_synonym InstructionId = nat
type_synonym LegId = nat
type_synonym Memo = string
type_synonym agenda = "(InstructionId \<times> BlockNumber \<times> Weight) list"

datatype InstructionStatus =
    Unknown | Pending | Failed | Success BlockNumber | Rejected BlockNumber

datatype VenueType = OtherVenue | Distribution | Sto | Exchange

datatype LegStatus = PendingTokenLock | ExecutionPending | ExecutionToBeSkipped AccountId nat

datatype AffirmationStatus = Unknown | Pending | Affirmed

datatype SettlementType = SettleOnAffirmation | SettleOnBlock BlockNumber | SettleManual BlockNumber

datatype MediatorAffirmationStatus = Unknown | Pending | Affirmed "Moment option"

record Instruction =
  instruction_id :: InstructionId
  venue_id :: VenueId
  settlement_type :: SettlementType
  created_at :: "Moment option"
  trade_date :: "Moment option"
  value_date :: "Moment option"

definition default_instruction :: Instruction where
  "default_instruction = \<lparr>instruction_id = 0, venue_id = 0, settlement_type = SettleOnAffirmation,
     created_at = None, trade_date = None, value_date = None\<rparr>"

datatype Leg =
    FungibleLeg PortfolioId PortfolioId Ticker Balance
  | NonFungibleLeg PortfolioId PortfolioId NFTs
  | OffChainLeg IdentityId IdentityId Ticker Balance

definition is_off_chain :: "Leg \<Rightarrow> bool" where
  "is_off_chain leg = (case leg of OffChainLeg _ _ _ _ \<Rightarrow> True | _ \<Rightarrow> False)"

definition leg_ticker :: "Leg \<Rightarrow> Ticker" where
  "leg_ticker leg =
     (case leg of
        FungibleLeg _ _ ticker _ \<Rightarrow> ticker
      | NonFungibleLeg _ _ nfts \<Rightarrow> nfts_ticker nfts
      | OffChainLeg _ _ ticker _ \<Rightarrow> ticker)"

record Venue =
  creator :: IdentityId
  venue_type :: VenueType

record Receipt =
  receipt_uid :: nat
  receipt_instruction :: InstructionId
  receipt_leg :: LegId
  sender_identity :: IdentityId
  receiver_identity :: IdentityId
  receipt_ticker :: Ticker
  receipt_amount :: Balance

text \<open>A signature is an opaque number; only \<open>verify_receipt\<close> of the configuration looks at it.\<close>

record ReceiptDetails =
  uid :: nat
  details_instruction :: InstructionId
  leg_id :: LegId
  signer :: AccountId
  signature :: nat
  receipt_metadata :: "string option"

record AssetCount =
  fungible :: nat
  non_fungible :: nat
  off_chain :: nat

definition default_count :: AssetCount where
  "default_count = \<lparr>fungible = 0, non_fungible = 0, off_chain = 0\<rparr>"

definition as_u32 :: "nat \<Rightarrow> nat" where
  "as_u32 n = n mod (u32_max + 1)"

definition add_fungible :: "AssetCount \<Rightarrow> AssetCount" where
  "add_fungible c = c\<lparr>fungible := wrapping_add u32_max (fungible c) 1\<rparr>"

definition add_non_fungible :: "NFTs \<Rightarrow> AssetCount \<Rightarrow> AssetCount" where
  "add_non_fungible nfts c = c\<lparr>non_fungible := wrapping_add u32_max (non_fungible c) (as_u32 (nfts_len nfts))\<rparr>"

definition add_off_chain :: "AssetCount \<Rightarrow> AssetCount" where
  "add_off_chain c = c\<lparr>off_chain := wrapping_add u32_max (off_chain c) 1\<rparr>"

definition try_add_fungible :: "AssetCount \<Rightarrow> string + AssetCount" where
  "try_add_fungible c =
     ensure (\<not> fungible c + 1 > 1024) ''Number of fungible assets is greater than allowed''
       (Inr (c\<lparr>fungible := fungible c + 1\<rparr>))"

definition try_add_non_fungible :: "NFTs \<Rightarrow> AssetCount \<Rightarrow> string + AssetCount" where
  "try_add_non_fungible nfts c =
     (case checked_add u64_max (nfts_len nfts) (non_fungible c) of
        Some new_value \<Rightarrow>
          ensure (\<not> new_value > 1024) ''Number of NFTs is greater than allowed''
            (Inr (c\<lparr>non_fungible := non_fungible c + as_u32 (nfts_len nfts)\<rparr>))
      | None \<Rightarrow> Inl ''Number of NFTs is greater than allowed'')"

definition try_add_off_chain :: "AssetCount \<Rightarrow> string + AssetCount" where
  "try_add_off_chain c =
     ensure (\<not> off_chain c + 1 > 1024) ''Number of off-chain assets is greater than allowed''
       (Inr (c\<lparr>off_chain := off_chain c + 1\<rparr>))"

definition try_from_legs :: "Leg list \<Rightarrow> string + AssetCount" where
  "try_from_legs legs =
     fold_res (\<lambda>leg c. case leg of
        FungibleLeg _ _ _ _ \<Rightarrow> try_add_fungible c
      | NonFungibleLeg _ _ nfts \<Rightarrow> try_add_non_fungible nfts c
      | OffChainLeg _ _ _ _ \<Rightarrow> try_add_off_chain c) legs default_count"

definition from_legs :: "(LegId \<times> Leg) list \<Rightarrow> AssetCount" where
  "from_legs legs =
     fold (\<lambda>(_, leg) c. case leg of
        FungibleLeg _ _ _ _ \<Rightarrow> add_fungible c
      | NonFungibleLeg _ _ nfts \<Rightarrow> add_non_fungible nfts c
      | OffChainLeg _ _ _ _ \<Rightarrow> add_off_chain c) legs default_count"

record InstructionInfo =
  instruction_asset_count :: AssetCount
  portfolios_pending_approval :: "PortfolioId list"
  portfolios_pre_approved :: "PortfolioId list"
  mediators :: "IdentityId list"

definition portfolios_pre_approved_difference :: "InstructionInfo \<Rightarrow> PortfolioId list" where
  "portfolios_pre_approved_difference info =
     filter (\<lambda>p. p \<notin> set (portfolios_pending_approval info)) (portfolios_pre_approved info)"

definition number_of_pending_affirmations :: "InstructionInfo \<Rightarrow> nat" where
  "number_of_pending_affirmations info =
     length (portfolios_pending_approval info) + off_chain (instruction_asset_count info) + length (mediators info)"

definition extend_mediators :: "IdentityId list \<Rightarrow> InstructionInfo \<Rightarrow> InstructionInfo" where
  "extend_mediators new_mediators info = info\<lparr>mediators := btree (mediators info @ new_mediators)\<rparr>"

record FilteredLegs =
  sender_subset :: "(LegId \<times> Leg) list"
  sender_asset_count :: AssetCount
  receiver_asset_count :: AssetCount
  unfiltered_asset_count :: AssetCount

fun filter_leg :: "PortfolioId list \<Rightarrow> LegId \<times> Leg \<Rightarrow> FilteredLegs \<Rightarrow> FilteredLegs" where
  "filter_leg portfolios (l, FungibleLeg from to ticker amount) f =
     (if from \<in> set portfolios then
        f\<lparr>sender_subset := sender_subset f @ [(l, FungibleLeg from to ticker amount)],
          sender_asset_count := add_fungible (sender_asset_count f)\<rparr>
      else if to \<in> set portfolios then f\<lparr>receiver_asset_count := add_fungible (receiver_asset_count f)\<rparr>
      else f)"
| "filter_leg portfolios (l, NonFungibleLeg from to nfts) f =
     (if from \<in> set portfolios then
        f\<lparr>sender_subset := sender_subset f @ [(l, NonFungibleLeg from to nfts)],
          sender_asset_count := add_non_fungible nfts (sender_asset_count f)\<rparr>
      else if to \<in> set portfolios then f\<lparr>receiver_asset_count := add_non_fungible nfts (receiver_asset_count f)\<rparr>
      else f)"
| "filter_leg portfolios (l, OffChainLeg _ _ _ _) f = f"

definition filter_sender :: "(LegId \<times> Leg) list \<Rightarrow> PortfolioId list \<Rightarrow> FilteredLegs" where
  "filter_sender original portfolios =
     fold (filter_leg portfolios) original
       \<lparr>sender_subset = [], sender_asset_count = default_count, receiver_asset_count = default_count,
        unfiltered_asset_count = from_legs original\<rparr>"

record AffirmationCount =
  affirmation_sender :: AssetCount
  affirmation_receiver :: AssetCount
  offchain_count :: nat

section \<open>Storage and configuration\<close>

record settlement_store = assets_store +
  VenueInfo :: "VenueId \<Rightarrow> Venue option"
  Details :: "VenueId \<Rightarrow> string"
  VenueInstructions :: "VenueId \<Rightarrow> InstructionId \<Rightarrow> bool"
  VenueSigners :: "VenueId \<Rightarrow> AccountId \<Rightarrow> bool"
  UserVenues :: "IdentityId \<Rightarrow> VenueId \<Rightarrow> bool"
  InstructionDetails :: "InstructionId \<Rightarrow> Instruction"
  InstructionLegStatus :: "InstructionId \<Rightarrow> LegId \<Rightarrow> LegStatus"
  InstructionAffirmsPending :: "InstructionId \<Rightarrow> nat"
  AffirmsReceived :: "InstructionId \<Rightarrow> PortfolioId \<Rightarrow> AffirmationStatus"
  UserAffirmations :: "PortfolioId \<Rightarrow> InstructionId \<Rightarrow> AffirmationStatus"
  ReceiptsUsed :: "AccountId \<Rightarrow> nat \<Rightarrow> bool"
  VenueFiltering :: "Ticker \<Rightarrow> bool"
  VenueAllowList :: "Ticker \<Rightarrow> VenueId \<Rightarrow> bool"
  VenueCounter :: VenueId
  InstructionCounter :: InstructionId
  InstructionMemos :: "InstructionId \<Rightarrow> Memo option"
  InstructionStatuses :: "InstructionId \<Rightarrow> InstructionStatus"
  InstructionLegs :: "InstructionId \<Rightarrow> (LegId \<times> Leg) list"
  OffChainAffirmations :: "InstructionId \<Rightarrow> LegId \<Rightarrow> AffirmationStatus"
  NumberOfVenueSigners :: "VenueId \<Rightarrow> nat"
  InstructionMediatorsAffirmations :: "InstructionId \<Rightarrow> (IdentityId \<times> MediatorAffirmationStatus) list"
  Agenda :: agenda

text \<open>
  The legs of an instruction are kept in the order of iteration over the storage, the affirmations of
  mediators in the order of identities, whose hasher is the identity.
\<close>

record settlement_config = nft_config +
  MaxNumberOfFungibleAssets :: nat
  MaxNumberOfNFTs :: nat
  MaxNumberOfOffChainAssets :: nat
  MaxNumberOfVenueSigners :: nat
  leg_order :: "LegId \<Rightarrow> nat"
  verify_receipt :: "nat \<Rightarrow> Receipt \<Rightarrow> AccountId \<Rightarrow> bool"
  schedule_named :: "InstructionId \<Rightarrow> BlockNumber \<Rightarrow> Weight \<Rightarrow> agenda \<Rightarrow> agenda option"
  cancel_named :: "InstructionId \<Rightarrow> agenda \<Rightarrow> agenda option"
  execute_scheduled_weight :: "nat \<Rightarrow> nat \<Rightarrow> nat \<Rightarrow> Weight"
  execute_manual_weight :: "nat \<Rightarrow> nat \<Rightarrow> nat \<Rightarrow> Weight"
  execute_paused_weight :: "nat \<Rightarrow> nat \<Rightarrow> nat \<Rightarrow> Weight"

definition put_leg ::
  "'c settlement_config_scheme \<Rightarrow> InstructionId \<Rightarrow> LegId \<Rightarrow> Leg \<Rightarrow> 'a settlement_store_scheme
    \<Rightarrow> 'a settlement_store_scheme" where
  "put_leg cfg i l leg s = s\<lparr>InstructionLegs := (InstructionLegs s)(i :=
     insort_key (\<lambda>x. leg_order cfg (fst x)) (l, leg) (filter (\<lambda>x. fst x \<noteq> l) (InstructionLegs s i)))\<rparr>"

definition put_leg_status ::
  "InstructionId \<Rightarrow> LegId \<Rightarrow> LegStatus \<Rightarrow> 'a settlement_store_scheme \<Rightarrow> 'a settlement_store_scheme" where
  "put_leg_status i l v s = s\<lparr>InstructionLegStatus := (InstructionLegStatus s)(i := (InstructionLegStatus s i)(l := v))\<rparr>"

definition put_pending :: "InstructionId \<Rightarrow> nat \<Rightarrow> 'a settlement_store_scheme \<Rightarrow> 'a settlement_store_scheme" where
  "put_pending i n s = s\<lparr>InstructionAffirmsPending := (InstructionAffirmsPending s)(i := n)\<rparr>"

definition put_affirms_received ::
  "InstructionId \<Rightarrow> PortfolioId \<Rightarrow> AffirmationStatus \<Rightarrow> 'a settlement_store_scheme \<Rightarrow> 'a settlement_store_scheme" where
  "put_affirms_received i p v s = s\<lparr>AffirmsReceived := (AffirmsReceived s)(i := (AffirmsReceived s i)(p := v))\<rparr>"

definition put_user_affirmation ::
  "PortfolioId \<Rightarrow> InstructionId \<Rightarrow> AffirmationStatus \<Rightarrow> 'a settlement_store_scheme \<Rightarrow> 'a settlement_store_scheme" where
  "put_user_affirmation p i v s = s\<lparr>UserAffirmations := (UserAffirmations s)(p := (UserAffirmations s p)(i := v))\<rparr>"

definition put_offchain ::
  "InstructionId \<Rightarrow> LegId \<Rightarrow> AffirmationStatus \<Rightarrow> 'a settlement_store_scheme \<Rightarrow> 'a settlement_store_scheme" where
  "put_offchain i l v s = s\<lparr>OffChainAffirmations := (OffChainAffirmations s)(i := (OffChainAffirmations s i)(l := v))\<rparr>"

definition put_status ::
  "InstructionId \<Rightarrow> InstructionStatus \<Rightarrow> 'a settlement_store_scheme \<Rightarrow> 'a settlement_store_scheme" where
  "put_status i v s = s\<lparr>InstructionStatuses := (InstructionStatuses s)(i := v)\<rparr>"

definition put_mediator ::
  "InstructionId \<Rightarrow> IdentityId \<Rightarrow> MediatorAffirmationStatus \<Rightarrow> 'a settlement_store_scheme
    \<Rightarrow> 'a settlement_store_scheme" where
  "put_mediator i d v s = s\<lparr>InstructionMediatorsAffirmations := (InstructionMediatorsAffirmations s)(i :=
     insort_key fst (d, v) (filter (\<lambda>x. fst x \<noteq> d) (InstructionMediatorsAffirmations s i)))\<rparr>"

definition mediator_status ::
  "'a settlement_store_scheme \<Rightarrow> InstructionId \<Rightarrow> IdentityId \<Rightarrow> MediatorAffirmationStatus" where
  "mediator_status s i d =
     (case map_of (InstructionMediatorsAffirmations s i) d of Some v \<Rightarrow> v | None \<Rightarrow> MediatorAffirmationStatus.Unknown)"

lemmas settlement_put_defs = put_leg_def put_leg_status_def put_pending_def put_affirms_received_def
  put_user_affirmation_def put_offchain_def put_status_def put_mediator_def

section \<open>Venues\<close>

definition venue_for_management :: "'a settlement_store_scheme \<Rightarrow> VenueId \<Rightarrow> IdentityId \<Rightarrow> Venue result" where
  "venue_for_management s v did =
     attempt (ok_or (VenueInfo s v) (SettlementError InvalidVenue)) (\<lambda>venue.
     ensure (creator venue = did) (SettlementError settlement_error.Unauthorized) (Inr venue))"

definition put_venue ::
  "VenueId \<Rightarrow> Venue \<Rightarrow> 'a settlement_store_scheme \<Rightarrow> 'a settlement_store_scheme" where
  "put_venue v venue s = s\<lparr>VenueInfo := (VenueInfo s)(v \<mapsto> venue)\<rparr>"

definition put_signer ::
  "VenueId \<Rightarrow> bool \<Rightarrow> AccountId \<Rightarrow> 'a settlement_store_scheme \<Rightarrow> 'a settlement_store_scheme" where
  "put_signer v b k s = s\<lparr>VenueSigners := (VenueSigners s)(v := (VenueSigners s v)(k := b))\<rparr>"

definition put_signer_count :: "VenueId \<Rightarrow> nat \<Rightarrow> 'a settlement_store_scheme \<Rightarrow> 'a settlement_store_scheme" where
  "put_signer_count v n s = s\<lparr>NumberOfVenueSigners := (NumberOfVenueSigners s)(v := n)\<rparr>"

definition put_allowed ::
  "Ticker \<Rightarrow> bool \<Rightarrow> VenueId \<Rightarrow> 'a settlement_store_scheme \<Rightarrow> 'a settlement_store_scheme" where
  "put_allowed t b v s = s\<lparr>VenueAllowList := (VenueAllowList s)(t := (VenueAllowList s t)(v := b))\<rparr>"

definition create_venue ::
  "'c settlement_config_scheme \<Rightarrow> Origin \<Rightarrow> string \<Rightarrow> AccountId list \<Rightarrow> VenueType \<Rightarrow> 'a settlement_store_scheme
    \<Rightarrow> ('a settlement_store_scheme) result" where
  "create_venue cfg origin details signers typ s =
     attempt (ensure_perms s origin) (\<lambda>did.
     attempt (ensure_string_limited cfg details) (\<lambda>_.
     ensure (length signers \<le> MaxNumberOfVenueSigners cfg) (SettlementError NumberOfVenueSignersExceeded) (
     attempt (try_next_post u64_max (VenueCounter s)) (\<lambda>(v, sq).
     let s1 = put_venue v \<lparr>creator = did, venue_type = typ\<rparr> (s\<lparr>VenueCounter := sq\<rparr>);
         s2 = s1\<lparr>Details := (Details s1)(v := details)\<rparr>;
         s3 = put_signer_count v (as_u32 (length signers)) s2;
         s4 = fold (put_signer v True) signers s3
     in Inr (s4\<lparr>UserVenues := (UserVenues s4)(did := (UserVenues s4 did)(v := True))\<rparr>)))))"

definition update_venue_details ::
  "'c settlement_config_scheme \<Rightarrow> Origin \<Rightarrow> VenueId \<Rightarrow> string \<Rightarrow> 'a settlement_store_scheme
    \<Rightarrow> ('a settlement_store_scheme) result" where
  "update_venue_details cfg origin v details s =
     attempt (ensure_string_limited cfg details) (\<lambda>_.
     attempt (ensure_perms s origin) (\<lambda>did.
     attempt (venue_for_management s v did) (\<lambda>_.
     Inr (s\<lparr>Details := (Details s)(v := details)\<rparr>))))"

definition update_venue_type ::
  "Origin \<Rightarrow> VenueId \<Rightarrow> VenueType \<Rightarrow> 'a settlement_store_scheme \<Rightarrow> ('a settlement_store_scheme) result" where
  "update_venue_type origin v typ s =
     attempt (ensure_perms s origin) (\<lambda>did.
     attempt (venue_for_management s v did) (\<lambda>venue.
     Inr (put_venue v (venue\<lparr>venue_type := typ\<rparr>) s)))"

definition set_venue_filtering ::
  "Origin \<Rightarrow> Ticker \<Rightarrow> bool \<Rightarrow> 'a settlement_store_scheme \<Rightarrow> ('a settlement_store_scheme) result" where
  "set_venue_filtering origin ticker enabled s =
     attempt (ea_ensure_perms s origin ticker) (\<lambda>_.
     Inr (s\<lparr>VenueFiltering := (VenueFiltering s)(ticker := enabled)\<rparr>))"

definition allow_venues ::
  "Origin \<Rightarrow> Ticker \<Rightarrow> VenueId list \<Rightarrow> 'a settlement_store_scheme \<Rightarrow> ('a settlement_store_scheme) result" where
  "allow_venues origin ticker venues s =
     attempt (ea_ensure_perms s origin ticker) (\<lambda>_. Inr (fold (put_allowed ticker True) venues s))"

definition disallow_venues ::
  "Origin \<Rightarrow> Ticker \<Rightarrow> VenueId list \<Rightarrow> 'a settlement_store_scheme \<Rightarrow> ('a settlement_store_scheme) result" where
  "disallow_venues origin ticker venues s =
     attempt (ea_ensure_perms s origin ticker) (\<lambda>_. Inr (fold (put_allowed ticker False) venues s))"

definition base_update_venue_signers ::
  "'c settlement_config_scheme \<Rightarrow> IdentityId \<Rightarrow> VenueId \<Rightarrow> AccountId list \<Rightarrow> bool \<Rightarrow> 'a settlement_store_scheme
    \<Rightarrow> ('a settlement_store_scheme) result" where
  "base_update_venue_signers cfg did v signers add_signers s =
     attempt (venue_for_management s v did) (\<lambda>_.
     let n = NumberOfVenueSigners s v in
     if add_signers then
       ensure (saturating_add u64_max n (length signers) \<le> MaxNumberOfVenueSigners cfg)
         (SettlementError NumberOfVenueSignersExceeded) (
       attempt (each_res (\<lambda>k. ensure (\<not> VenueSigners s v k) (SettlementError SignerAlreadyExists) (Inr ())) signers) (\<lambda>_.
       Inr (fold (put_signer v True) signers
         (put_signer_count v (wrapping_add u32_max n (as_u32 (length signers))) s))))
     else
       attempt (each_res (\<lambda>k. ensure (VenueSigners s v k) (SettlementError SignerDoesNotExist) (Inr ())) signers) (\<lambda>_.
       Inr (fold (put_signer v False) signers (put_signer_count v (saturating_sub n (as_u32 (length signers))) s))))"

definition update_venue_signers ::
  "'c settlement_config_scheme \<Rightarrow> Origin \<Rightarrow> VenueId \<Rightarrow> AccountId list \<Rightarrow> bool \<Rightarrow> 'a settlement_store_scheme
    \<Rightarrow> ('a settlement_store_scheme) result" where
  "update_venue_signers cfg origin v signers add_signers s =
     attempt (ensure_perms s origin) (\<lambda>did. base_update_venue_signers cfg did v signers add_signers s)"

section \<open>Valid legs\<close>

definition is_on_chain_asset :: "'a asset_store_scheme \<Rightarrow> Ticker \<Rightarrow> bool" where
  "is_on_chain_asset s ticker \<longleftrightarrow> Tokens s ticker \<noteq> None"

definition ensure_venue_filtering ::
  "'a settlement_store_scheme \<Rightarrow> Ticker list \<Rightarrow> Ticker \<Rightarrow> VenueId \<Rightarrow> (Ticker list) result" where
  "ensure_venue_filtering s tickers ticker v =
     (if ticker \<notin> set tickers \<and> VenueFiltering s ticker then
        ensure (VenueAllowList s ticker v) (SettlementError UnauthorizedVenue) (Inr (ticker # tickers))
      else Inr (if ticker \<in> set tickers then tickers else ticker # tickers))"

definition ensure_valid_fungible_leg ::
  "'a settlement_store_scheme \<Rightarrow> Ticker list \<Rightarrow> Ticker \<Rightarrow> Balance \<Rightarrow> VenueId \<Rightarrow> (Ticker list) result" where
  "ensure_valid_fungible_leg s tickers ticker amount v =
     ensure (amount > 0) (SettlementError ZeroAmount) (
     ensure (is_on_chain_asset s ticker) (SettlementError UnexpectedOFFChainAsset) (
     ensure_venue_filtering s tickers ticker v))"

definition ensure_valid_nft_leg ::
  "'c settlement_config_scheme \<Rightarrow> 'a settlement_store_scheme \<Rightarrow> Ticker list \<Rightarrow> NFTs \<Rightarrow> VenueId
    \<Rightarrow> (Ticker list) result" where
  "ensure_valid_nft_leg cfg s tickers nfts v =
     ensure (is_on_chain_asset s (nfts_ticker nfts)) (SettlementError UnexpectedOFFChainAsset) (
     attempt (ensure_within_nfts_transfer_limits cfg nfts) (\<lambda>_.
     attempt (ensure_no_duplicate_nfts nfts) (\<lambda>_.
     ensure_venue_filtering s tickers (nfts_ticker nfts) v)))"

definition ensure_valid_off_chain_leg :: "IdentityId \<Rightarrow> IdentityId \<Rightarrow> Balance \<Rightarrow> unit result" where
  "ensure_valid_off_chain_leg from_id to_id amount =
     ensure (amount > 0) (SettlementError ZeroAmount) (
     ensure (from_id \<noteq> to_id) (SettlementError SameSenderReceiver) (Inr ()))"

definition map_err :: "'e \<Rightarrow> 'd + 'a \<Rightarrow> 'e + 'a" where
  "map_err e r = (case r of Inl _ \<Rightarrow> Inl e | Inr x \<Rightarrow> Inr x)"

definition ensure_valid_leg ::
  "'c settlement_config_scheme \<Rightarrow> 'a settlement_store_scheme \<Rightarrow> Leg \<Rightarrow> VenueId \<Rightarrow> Ticker list \<Rightarrow> AssetCount
    \<Rightarrow> (Ticker \<times> Ticker list \<times> AssetCount) result" where
  "ensure_valid_leg cfg s leg v tickers c =
     (case leg of
        FungibleLeg from to ticker amount \<Rightarrow>
          ensure (pid_did from \<noteq> pid_did to) (SettlementError SameSenderReceiver) (
          attempt (ensure_valid_fungible_leg s tickers ticker amount v) (\<lambda>tickers1.
          attempt (map_err (SettlementError MaxNumberOfFungibleAssetsExceeded) (try_add_fungible c)) (\<lambda>c1.
          Inr (ticker, tickers1, c1))))
      | NonFungibleLeg from to nfts \<Rightarrow>
          ensure (pid_did from \<noteq> pid_did to) (SettlementError SameSenderReceiver) (
          attempt (ensure_valid_nft_leg cfg s tickers nfts v) (\<lambda>tickers1.
          attempt (map_err (SettlementError MaxNumberOfNFTsExceeded) (try_add_non_fungible nfts c)) (\<lambda>c1.
          Inr (nfts_ticker nfts, tickers1, c1))))
      | OffChainLeg from_id to_id ticker amount \<Rightarrow>
          attempt (ensure_valid_off_chain_leg from_id to_id amount) (\<lambda>_.
          attempt (map_err (SettlementError MaxNumberOfOffChainAssetsExceeded) (try_add_off_chain c)) (\<lambda>c1.
          Inr (ticker, tickers, c1))))"

definition ensure_within_instruction_max :: "'c settlement_config_scheme \<Rightarrow> AssetCount \<Rightarrow> unit result" where
  "ensure_within_instruction_max cfg c =
     ensure (non_fungible c \<le> MaxNumberOfNFTs cfg) (SettlementError MaxNumberOfNFTsExceeded) (
     ensure (fungible c \<le> MaxNumberOfFungibleAssets cfg) (SettlementError MaxNumberOfFungibleAssetsExceeded) (
     ensure (off_chain c \<le> MaxNumberOfOffChainAssets cfg) (SettlementError MaxNumberOfOffChainAssetsExceeded) (
     Inr ())))"

text \<open>The portfolios of a leg on the chain enter the sets, and with them the mediators of its asset.\<close>

definition collect_leg ::
  "'a settlement_store_scheme \<Rightarrow> Ticker \<Rightarrow> Leg \<Rightarrow> InstructionInfo \<Rightarrow> InstructionInfo" where
  "collect_leg s ticker leg info =
     (let on_chain = (\<lambda>from to.
        let info1 = info\<lparr>portfolios_pending_approval := btree (from # portfolios_pending_approval info)\<rparr>;
            info2 = (if skip_portfolio_affirmation s to ticker
                     then info1\<lparr>portfolios_pre_approved := btree (to # portfolios_pre_approved info1)\<rparr>
                     else info1\<lparr>portfolios_pending_approval := btree (to # portfolios_pending_approval info1)\<rparr>)
        in extend_mediators (MandatoryMediators s ticker) info2)
      in case leg of
           FungibleLeg from to _ _ \<Rightarrow> on_chain from to
         | NonFungibleLeg from to _ \<Rightarrow> on_chain from to
         | OffChainLeg _ _ _ _ \<Rightarrow> info)"

definition validate_leg ::
  "'c settlement_config_scheme \<Rightarrow> 'a settlement_store_scheme \<Rightarrow> VenueId \<Rightarrow> Leg \<Rightarrow> Ticker list \<times> InstructionInfo
    \<Rightarrow> (Ticker list \<times> InstructionInfo) result" where
  "validate_leg cfg s v leg acc =
     (case acc of (tickers, info) \<Rightarrow>
        attempt (ensure_valid_leg cfg s leg v tickers (instruction_asset_count info)) (\<lambda>(ticker, tickers1, c).
        Inr (tickers1, collect_leg s ticker leg (info\<lparr>instruction_asset_count := c\<rparr>))))"

definition empty_info :: InstructionInfo where
  "empty_info = \<lparr>instruction_asset_count = default_count, portfolios_pending_approval = [],
     portfolios_pre_approved = [], mediators = []\<rparr>"

definition ensure_valid_legs ::
  "'c settlement_config_scheme \<Rightarrow> 'a settlement_store_scheme \<Rightarrow> Leg list \<Rightarrow> VenueId \<Rightarrow> InstructionInfo result" where
  "ensure_valid_legs cfg s legs v =
     attempt (fold_res (validate_leg cfg s v) legs ([], empty_info)) (\<lambda>(_, info).
     attempt (ensure_within_instruction_max cfg (instruction_asset_count info)) (\<lambda>_. Inr info))"

section \<open>Scheduling\<close>

definition schedule_instruction ::
  "'c settlement_config_scheme \<Rightarrow> InstructionId \<Rightarrow> BlockNumber \<Rightarrow> Weight \<Rightarrow> 'a settlement_store_scheme
    \<Rightarrow> 'a settlement_store_scheme" where
  "schedule_instruction cfg i execution_at weight_limit s =
     (case schedule_named cfg i execution_at weight_limit (Agenda s) of
        Some a \<Rightarrow> s\<lparr>Agenda := a\<rparr>
      | None \<Rightarrow> s)"

definition cancel_instruction ::
  "'c settlement_config_scheme \<Rightarrow> InstructionId \<Rightarrow> 'a settlement_store_scheme \<Rightarrow> 'a settlement_store_scheme" where
  "cancel_instruction cfg i s = (case cancel_named cfg i (Agenda s) of Some a \<Rightarrow> s\<lparr>Agenda := a\<rparr> | None \<Rightarrow> s)"

definition scheduled_weight :: "'c settlement_config_scheme \<Rightarrow> AssetCount \<Rightarrow> Weight" where
  "scheduled_weight cfg c = execute_scheduled_weight cfg (fungible c) (non_fungible c) (off_chain c)"

definition maybe_schedule_instruction ::
  "'c settlement_config_scheme \<Rightarrow> nat \<Rightarrow> InstructionId \<Rightarrow> Weight \<Rightarrow> 'a settlement_store_scheme
    \<Rightarrow> 'a settlement_store_scheme" where
  "maybe_schedule_instruction cfg affirms_pending i weight_limit s =
     (if affirms_pending = 0 \<and> settlement_type (InstructionDetails s i) = SettleOnAffirmation
      then schedule_instruction cfg i (block_number s + 1) weight_limit s else s)"

section \<open>Adding instructions\<close>

definition add_leg ::
  "'c settlement_config_scheme \<Rightarrow> InstructionId \<Rightarrow> nat \<times> Leg \<Rightarrow> 'a settlement_store_scheme
    \<Rightarrow> 'a settlement_store_scheme" where
  "add_leg cfg i l_leg s =
     (case l_leg of (l, leg) \<Rightarrow>
        let s1 = put_leg cfg i l leg s
        in if is_off_chain leg then put_offchain i l AffirmationStatus.Pending s1 else s1)"

definition commit_instruction ::
  "'c settlement_config_scheme \<Rightarrow> InstructionId \<Rightarrow> Instruction \<Rightarrow> Leg list \<Rightarrow> Memo option \<Rightarrow> InstructionInfo
    \<Rightarrow> 'a settlement_store_scheme \<Rightarrow> 'a settlement_store_scheme" where
  "commit_instruction cfg i details legs memo info s =
     (let s1 = put_status i InstructionStatus.Pending s;
          s2 = fold (\<lambda>p. put_user_affirmation p i AffirmationStatus.Pending) (portfolios_pending_approval info) s1;
          s3 = fold (\<lambda>p s. put_affirms_received i p AffirmationStatus.Affirmed
                 (put_user_affirmation p i AffirmationStatus.Affirmed s)) (portfolios_pre_approved_difference info) s2;
          s4 = fold (\<lambda>d. put_mediator i d MediatorAffirmationStatus.Pending) (mediators info) s3;
          s5 = put_pending i (number_of_pending_affirmations info) s4;
          s6 = fold (add_leg cfg i) (enumerate 0 legs) s5;
          s7 = s6\<lparr>InstructionDetails := (InstructionDetails s6)(i := details)\<rparr>;
          s8 = (case memo of
                  Some m \<Rightarrow> s7\<lparr>InstructionMemos := (InstructionMemos s7)(i \<mapsto> m)\<rparr>
                | None \<Rightarrow> s7)
      in s8\<lparr>VenueInstructions := (VenueInstructions s8)(venue_id details :=
              (VenueInstructions s8 (venue_id details))(i := True))\<rparr>)"

definition base_add_instruction ::
  "'c settlement_config_scheme \<Rightarrow> IdentityId \<Rightarrow> VenueId \<Rightarrow> SettlementType \<Rightarrow> Moment option \<Rightarrow> Moment option
    \<Rightarrow> Leg list \<Rightarrow> Memo option \<Rightarrow> (IdentityId list) option \<Rightarrow> 'a settlement_store_scheme
    \<Rightarrow> (InstructionId \<times> 'a settlement_store_scheme) result" where
  "base_add_instruction cfg did v typ trade val legs memo meds s =
     attempt (case typ of
                SettleOnBlock b \<Rightarrow> ensure (b > block_number s) (SettlementError SettleOnPastBlock) (Inr ())
              | _ \<Rightarrow> Inr ()) (\<lambda>_.
     attempt (case (trade, val) of
                (Some td, Some vd) \<Rightarrow> ensure (vd \<ge> td) (SettlementError InstructionDatesInvalid) (Inr ())
              | _ \<Rightarrow> Inr ()) (\<lambda>_.
     attempt (venue_for_management s v did) (\<lambda>_.
     attempt (ensure_valid_legs cfg s legs v) (\<lambda>info0.
     let info = (case meds of Some ms \<Rightarrow> extend_mediators ms info0 | None \<Rightarrow> info0) in
     attempt (try_next_post u64_max (InstructionCounter s)) (\<lambda>(i, sq).
     let s1 = commit_instruction cfg i
           \<lparr>instruction_id = i, venue_id = v, settlement_type = typ, created_at = Some (timestamp s),
            trade_date = trade, value_date = val\<rparr> legs memo info (s\<lparr>InstructionCounter := sq\<rparr>)
     in case typ of
          SettleOnBlock b \<Rightarrow>
            Inr (i, schedule_instruction cfg i b (scheduled_weight cfg (instruction_asset_count info)) s1)
        | _ \<Rightarrow> Inr (i, s1))))))"

section \<open>Locks\<close>

definition lock_via_leg :: "Leg \<Rightarrow> 'a portfolio_store_scheme \<Rightarrow> ('a portfolio_store_scheme) result" where
  "lock_via_leg leg s =
     (case leg of
        FungibleLeg from _ ticker amount \<Rightarrow> lock_tokens from ticker amount s
      | NonFungibleLeg from _ nfts \<Rightarrow> fold_res (lock_nft from (nfts_ticker nfts)) (nfts_ids nfts) s
      | OffChainLeg _ _ _ _ \<Rightarrow> Inl (SettlementError OffChainAssetCantBeLocked))"

definition unlock_via_leg :: "Leg \<Rightarrow> 'a portfolio_store_scheme \<Rightarrow> ('a portfolio_store_scheme) result" where
  "unlock_via_leg leg s =
     (case leg of
        FungibleLeg from _ ticker amount \<Rightarrow> unlock_tokens from ticker amount s
      | NonFungibleLeg from _ nfts \<Rightarrow> fold_res (unlock_nft from (nfts_ticker nfts)) (nfts_ids nfts) s
      | OffChainLeg _ _ _ _ \<Rightarrow> Inl (SettlementError OffChainAssetCantBeLocked))"

text \<open>The result of the unlocking is dropped; a failed one changes nothing.\<close>

definition release_lock ::
  "InstructionId \<Rightarrow> LegId \<times> Leg \<Rightarrow> 'a settlement_store_scheme \<Rightarrow> 'a settlement_store_scheme" where
  "release_lock i l_leg s =
     (case l_leg of (l, leg) \<Rightarrow>
        case InstructionLegStatus s i l of
          ExecutionPending \<Rightarrow> (case unlock_via_leg leg s of Inr s1 \<Rightarrow> s1 | Inl _ \<Rightarrow> s)
        | _ \<Rightarrow> s)"

definition unchecked_release_locks ::
  "InstructionId \<Rightarrow> (LegId \<times> Leg) list \<Rightarrow> 'a settlement_store_scheme \<Rightarrow> 'a settlement_store_scheme" where
  "unchecked_release_locks i legs s = fold (release_lock i) legs s"

section \<open>Guards\<close>

definition ensure_instruction_validity ::
  "'a settlement_store_scheme \<Rightarrow> InstructionId \<Rightarrow> bool \<Rightarrow> Instruction result" where
  "ensure_instruction_validity s i is_execute =
     (let details = InstructionDetails s i in
      ensure (InstructionStatuses s i \<noteq> InstructionStatus.Unknown) (SettlementError UnknownInstruction) (
      attempt (case (settlement_type details, is_execute) of
                 (SettleOnBlock b, True) \<Rightarrow>
                   ensure (b \<le> block_number s) (SettlementError InstructionSettleBlockNotReached) (Inr ())
               | (SettleOnBlock b, False) \<Rightarrow>
                   ensure (b > block_number s) (SettlementError InstructionSettleBlockPassed) (Inr ())
               | (SettleManual b, True) \<Rightarrow>
                   ensure (b \<le> block_number s) (SettlementError InstructionSettleBlockNotReached) (Inr ())
               | _ \<Rightarrow> Inr ()) (\<lambda>_.
      Inr details)))"

definition ensure_origin_perm_and_instruction_validity ::
  "'a settlement_store_scheme \<Rightarrow> Origin \<Rightarrow> InstructionId \<Rightarrow> bool
    \<Rightarrow> (IdentityId \<times> SecondaryKey option \<times> Instruction) result" where
  "ensure_origin_perm_and_instruction_validity s origin i is_execute =
     attempt (ensure_origin_call_permissions s origin) (\<lambda>d.
     attempt (ensure_instruction_validity s i is_execute) (\<lambda>details.
     Inr (primary_did d, secondary_key d, details)))"

definition ensure_portfolios_and_affirmation_status ::
  "'a settlement_store_scheme \<Rightarrow> InstructionId \<Rightarrow> PortfolioId list \<Rightarrow> IdentityId \<Rightarrow> SecondaryKey option
    \<Rightarrow> AffirmationStatus list \<Rightarrow> unit result" where
  "ensure_portfolios_and_affirmation_status s i portfolios cust sk expected =
     each_res (\<lambda>p.
       attempt (ensure_portfolio_custody_and_permission s p cust sk) (\<lambda>_.
       ensure (UserAffirmations s p i \<in> set expected) (SettlementError UnexpectedAffirmationStatus) (Inr ()))) portfolios"

definition filtered_legs :: "'a settlement_store_scheme \<Rightarrow> InstructionId \<Rightarrow> PortfolioId list \<Rightarrow> FilteredLegs" where
  "filtered_legs s i portfolios = filter_sender (InstructionLegs s i) portfolios"

definition get_instruction_asset_count :: "'a settlement_store_scheme \<Rightarrow> InstructionId \<Rightarrow> AssetCount" where
  "get_instruction_asset_count s i = from_legs (InstructionLegs s i)"

definition ensure_valid_cost :: "AssetCount \<Rightarrow> AssetCount \<Rightarrow> unit result" where
  "ensure_valid_cost real input =
     ensure (non_fungible real \<le> non_fungible input) (SettlementError NumberOfTransferredNFTsUnderestimated) (
     ensure (fungible real \<le> fungible input) (SettlementError NumberOfFungibleTransfersUnderestimated) (
     ensure (off_chain real \<le> off_chain input) (SettlementError NumberOfOffChainTransfersUnderestimated) (
     Inr ())))"

definition ensure_valid_affirmation_count :: "FilteredLegs \<Rightarrow> AffirmationCount \<Rightarrow> unit result" where
  "ensure_valid_affirmation_count f c =
     attempt (ensure_valid_cost (sender_asset_count f) (affirmation_sender c)) (\<lambda>_.
     attempt (ensure_valid_cost (receiver_asset_count f) (affirmation_receiver c)) (\<lambda>_.
     ensure (off_chain (unfiltered_asset_count f) \<le> offchain_count c)
       (SettlementError NumberOfOffChainTransfersUnderestimated) (Inr ())))"

definition affirmation_count ::
  "'a settlement_store_scheme \<Rightarrow> InstructionId \<Rightarrow> PortfolioId list \<Rightarrow> AffirmationCount" where
  "affirmation_count s i portfolios =
     (let f = filtered_legs s i (btree portfolios)
      in \<lparr>affirmation_sender = sender_asset_count f, affirmation_receiver = receiver_asset_count f,
          offchain_count = off_chain (unfiltered_asset_count f)\<rparr>)"

definition is_portfolio_present :: "(LegId \<times> Leg) list \<Rightarrow> PortfolioId \<Rightarrow> bool" where
  "is_portfolio_present legs p =
     list_ex (\<lambda>(_, leg). case leg of
        FungibleLeg from to _ _ \<Rightarrow> from = p \<or> to = p
      | NonFungibleLeg from to _ \<Rightarrow> from = p \<or> to = p
      | OffChainLeg _ _ _ _ \<Rightarrow> False) legs"

definition is_offchain_party :: "(LegId \<times> Leg) list \<Rightarrow> IdentityId \<Rightarrow> bool" where
  "is_offchain_party legs did =
     list_ex (\<lambda>(_, leg). case leg of
        OffChainLeg from_id to_id _ _ \<Rightarrow> from_id = did \<or> to_id = did
      | _ \<Rightarrow> False) legs"

section \<open>Affirming and withdrawing\<close>

definition lock_leg ::
  "InstructionId \<Rightarrow> LegId \<times> Leg \<Rightarrow> 'a settlement_store_scheme \<Rightarrow> ('a settlement_store_scheme) result" where
  "lock_leg i l_leg s =
     (case l_leg of (l, leg) \<Rightarrow>
        attempt (lock_via_leg leg s) (\<lambda>s1. Inr (put_leg_status i l ExecutionPending s1)))"

definition mark_affirmed ::
  "InstructionId \<Rightarrow> PortfolioId \<Rightarrow> 'a settlement_store_scheme \<Rightarrow> 'a settlement_store_scheme" where
  "mark_affirmed i p s =
     put_affirms_received i p AffirmationStatus.Affirmed (put_user_affirmation p i AffirmationStatus.Affirmed s)"

definition ensure_affirmation_estimate :: "FilteredLegs \<Rightarrow> AffirmationCount option \<Rightarrow> unit result" where
  "ensure_affirmation_estimate f c = (case c of Some n \<Rightarrow> ensure_valid_affirmation_count f n | None \<Rightarrow> Inr ())"

definition unsafe_affirm_instruction ::
  "IdentityId \<Rightarrow> InstructionId \<Rightarrow> PortfolioId list \<Rightarrow> SecondaryKey option \<Rightarrow> AffirmationCount option
    \<Rightarrow> 'a settlement_store_scheme \<Rightarrow> (FilteredLegs \<times> 'a settlement_store_scheme) result" where
  "unsafe_affirm_instruction did i portfolios sk c s =
     attempt (ensure_portfolios_and_affirmation_status s i portfolios did sk [AffirmationStatus.Pending]) (\<lambda>_.
     let f = filtered_legs s i portfolios in
     attempt (ensure_affirmation_estimate f c) (\<lambda>_.
     attempt (fold_res (lock_leg i) (sender_subset f) s) (\<lambda>s1.
     let n = InstructionAffirmsPending s1 i;
         s2 = fold (mark_affirmed i) portfolios s1
     in Inr (f, put_pending i (saturating_sub n (length portfolios)) s2))))"

definition base_affirm_instruction ::
  "Origin \<Rightarrow> InstructionId \<Rightarrow> PortfolioId list \<Rightarrow> AffirmationCount option \<Rightarrow> 'a settlement_store_scheme
    \<Rightarrow> (FilteredLegs \<times> 'a settlement_store_scheme) result" where
  "base_affirm_instruction origin i portfolios c s =
     attempt (ensure_origin_perm_and_instruction_validity s origin i False) (\<lambda>(did, sk, _).
     unsafe_affirm_instruction did i (btree portfolios) sk c s)"

definition affirm_and_maybe_schedule_instruction ::
  "'c settlement_config_scheme \<Rightarrow> Origin \<Rightarrow> InstructionId \<Rightarrow> PortfolioId list \<Rightarrow> AffirmationCount option
    \<Rightarrow> 'a settlement_store_scheme \<Rightarrow> ('a settlement_store_scheme) result" where
  "affirm_and_maybe_schedule_instruction cfg origin i portfolios c s =
     attempt (base_affirm_instruction origin i portfolios c s) (\<lambda>(f, s1).
     Inr (maybe_schedule_instruction cfg (InstructionAffirmsPending s1 i) i
            (scheduled_weight cfg (unfiltered_asset_count f)) s1))"

fun ensure_valid_receipts_from ::
  "'c settlement_config_scheme \<Rightarrow> 'a settlement_store_scheme \<Rightarrow> VenueId \<Rightarrow> InstructionId \<Rightarrow> (AccountId \<times> nat) list
    \<Rightarrow> LegId list \<Rightarrow> ReceiptDetails list \<Rightarrow> unit result" where
  "ensure_valid_receipts_from cfg s v i uids legs [] = Inr ()"
| "ensure_valid_receipts_from cfg s v i uids legs (r # rs) =
     ensure (details_instruction r = i) (SettlementError ReceiptInstructionIdMissmatch) (
     ensure ((signer r, uid r) \<notin> set uids) (SettlementError DuplicateReceiptUid) (
     ensure (leg_id r \<notin> set legs) (SettlementError MultipleReceiptsForOneLeg) (
     ensure (VenueSigners s v (signer r)) (SettlementError UnauthorizedSigner) (
     ensure (\<not> ReceiptsUsed s (signer r) (uid r)) (SettlementError ReceiptAlreadyClaimed) (
     attempt (ok_or (map_of (InstructionLegs s i) (leg_id r)) (SettlementError LegNotFound)) (\<lambda>leg.
     attempt (case leg of
                OffChainLeg from_id to_id ticker amount \<Rightarrow>
                  ensure (OffChainAffirmations s i (leg_id r) = AffirmationStatus.Pending)
                    (SettlementError UnexpectedAffirmationStatus) (
                  ensure (verify_receipt cfg (signature r)
                            \<lparr>receipt_uid = uid r, receipt_instruction = i, receipt_leg = leg_id r,
                             sender_identity = from_id, receiver_identity = to_id, receipt_ticker = ticker,
                             receipt_amount = amount\<rparr> (signer r))
                    (SettlementError InvalidSignature) (Inr ()))
              | _ \<Rightarrow> Inl (SettlementError ReceiptForInvalidLegType)) (\<lambda>_.
     ensure_valid_receipts_from cfg s v i ((signer r, uid r) # uids) (leg_id r # legs) rs)))))))"

definition ensure_valid_receipts_details ::
  "'c settlement_config_scheme \<Rightarrow> 'a settlement_store_scheme \<Rightarrow> VenueId \<Rightarrow> InstructionId \<Rightarrow> ReceiptDetails list
    \<Rightarrow> unit result" where
  "ensure_valid_receipts_details cfg s v i rs = ensure_valid_receipts_from cfg s v i [] [] rs"

definition claim_receipt ::
  "InstructionId \<Rightarrow> ReceiptDetails \<Rightarrow> 'a settlement_store_scheme \<Rightarrow> 'a settlement_store_scheme" where
  "claim_receipt i r s =
     (let s1 = put_leg_status i (leg_id r) (ExecutionToBeSkipped (signer r) (uid r)) s;
          s2 = put_offchain i (leg_id r) AffirmationStatus.Affirmed s1
      in s2\<lparr>ReceiptsUsed := (ReceiptsUsed s2)(signer r := (ReceiptsUsed s2 (signer r))(uid r := True))\<rparr>)"

definition base_affirm_with_receipts ::
  "'c settlement_config_scheme \<Rightarrow> Origin \<Rightarrow> InstructionId \<Rightarrow> ReceiptDetails list \<Rightarrow> PortfolioId list
    \<Rightarrow> AffirmationCount option \<Rightarrow> 'a settlement_store_scheme \<Rightarrow> (FilteredLegs \<times> 'a settlement_store_scheme) result" where
  "base_affirm_with_receipts cfg origin i receipts portfolios c s =
     ensure (length receipts \<le> MaxNumberOfOffChainAssets cfg) (SettlementError MaxNumberOfReceiptsExceeded) (
     attempt (ensure_origin_perm_and_instruction_validity s origin i False) (\<lambda>(did, sk, details).
     let ps = btree portfolios in
     attempt (ensure_portfolios_and_affirmation_status s i ps did sk [AffirmationStatus.Pending]) (\<lambda>_.
     attempt (ensure_valid_receipts_details cfg s (venue_id details) i receipts) (\<lambda>_.
     let f = filtered_legs s i ps in
     attempt (ensure_affirmation_estimate f c) (\<lambda>_.
     attempt (fold_res (lock_leg i) (sender_subset f) s) (\<lambda>s1.
     let n = saturating_sub (saturating_sub (InstructionAffirmsPending s1 i) (length ps)) (length receipts);
         s2 = put_pending i n s1;
         s3 = fold (claim_receipt i) receipts s2
     in Inr (f, fold (mark_affirmed i) ps s3)))))))"

definition affirm_with_receipts_and_maybe_schedule_instruction ::
  "'c settlement_config_scheme \<Rightarrow> Origin \<Rightarrow> InstructionId \<Rightarrow> ReceiptDetails list \<Rightarrow> PortfolioId list
    \<Rightarrow> AffirmationCount option \<Rightarrow> 'a settlement_store_scheme \<Rightarrow> ('a settlement_store_scheme) result" where
  "affirm_with_receipts_and_maybe_schedule_instruction cfg origin i receipts portfolios c s =
     attempt (base_affirm_with_receipts cfg origin i receipts portfolios c s) (\<lambda>(f, s1).
     Inr (maybe_schedule_instruction cfg (InstructionAffirmsPending s1 i) i
            (scheduled_weight cfg (unfiltered_asset_count f)) s1))"

definition withdraw_leg ::
  "InstructionId \<Rightarrow> LegId \<times> Leg \<Rightarrow> 'a settlement_store_scheme \<Rightarrow> ('a settlement_store_scheme) result" where
  "withdraw_leg i l_leg s =
     (case l_leg of (l, leg) \<Rightarrow>
        attempt (case InstructionLegStatus s i l of
                   ExecutionToBeSkipped _ _ \<Rightarrow> Inl (SettlementError UnexpectedLegStatus)
                 | ExecutionPending \<Rightarrow> unlock_via_leg leg s
                 | PendingTokenLock \<Rightarrow> Inl (SettlementError InstructionNotAffirmed)) (\<lambda>s1.
        Inr (put_leg_status i l PendingTokenLock s1)))"

definition mark_withdrawn ::
  "InstructionId \<Rightarrow> PortfolioId \<Rightarrow> 'a settlement_store_scheme \<Rightarrow> 'a settlement_store_scheme" where
  "mark_withdrawn i p s =
     put_affirms_received i p AffirmationStatus.Unknown (put_user_affirmation p i AffirmationStatus.Pending s)"

definition unsafe_withdraw_instruction_affirmation ::
  "IdentityId \<Rightarrow> InstructionId \<Rightarrow> PortfolioId list \<Rightarrow> SecondaryKey option \<Rightarrow> AffirmationCount option
    \<Rightarrow> 'a settlement_store_scheme \<Rightarrow> (FilteredLegs \<times> 'a settlement_store_scheme) result" where
  "unsafe_withdraw_instruction_affirmation did i portfolios sk c s =
     (let ps = btree portfolios in
      attempt (ensure_portfolios_and_affirmation_status s i ps did sk [AffirmationStatus.Affirmed]) (\<lambda>_.
      let f = filtered_legs s i ps in
      attempt (ensure_affirmation_estimate f c) (\<lambda>_.
      attempt (fold_res (withdraw_leg i) (sender_subset f) s) (\<lambda>s1.
      let s2 = fold (mark_withdrawn i) ps s1
      in Inr (f, put_pending i (wrapping_add u64_max (InstructionAffirmsPending s2 i) (length ps)) s2)))))"

definition base_withdraw_affirmation ::
  "'c settlement_config_scheme \<Rightarrow> Origin \<Rightarrow> InstructionId \<Rightarrow> PortfolioId list \<Rightarrow> AffirmationCount option
    \<Rightarrow> 'a settlement_store_scheme \<Rightarrow> ('a settlement_store_scheme) result" where
  "base_withdraw_affirmation cfg origin i portfolios c s =
     attempt (ensure_origin_perm_and_instruction_validity s origin i False) (\<lambda>(did, sk, details).
     attempt (unsafe_withdraw_instruction_affirmation did i portfolios sk c s) (\<lambda>(_, s1).
     Inr (if settlement_type details = SettleOnAffirmation then cancel_instruction cfg i s1 else s1)))"

section \<open>Execution\<close>

fun ensure_non_expired :: "Moment \<Rightarrow> MediatorAffirmationStatus list \<Rightarrow> unit result" where
  "ensure_non_expired now [] = Inr ()"
| "ensure_non_expired now (MediatorAffirmationStatus.Affirmed expiry # rest) =
     attempt (case expiry of
                Some e \<Rightarrow> ensure (e < now) (SettlementError MediatorAffirmationExpired) (Inr ())
              | None \<Rightarrow> Inr ()) (\<lambda>_. ensure_non_expired now rest)"
| "ensure_non_expired now (MediatorAffirmationStatus.Unknown # rest) =
     Inl (SettlementError NotAllAffirmationsHaveBeenReceived)"
| "ensure_non_expired now (MediatorAffirmationStatus.Pending # rest) =
     Inl (SettlementError NotAllAffirmationsHaveBeenReceived)"

definition ensure_non_expired_affirmations :: "'a settlement_store_scheme \<Rightarrow> InstructionId \<Rightarrow> unit result" where
  "ensure_non_expired_affirmations s i =
     ensure_non_expired (timestamp s) (map snd (InstructionMediatorsAffirmations s i))"

fun ensure_allowed_from ::
  "'a settlement_store_scheme \<Rightarrow> VenueId \<Rightarrow> Ticker list \<Rightarrow> (LegId \<times> Leg) list \<Rightarrow> unit result" where
  "ensure_allowed_from s v tickers [] = Inr ()"
| "ensure_allowed_from s v tickers ((l, leg) # legs) =
     attempt (ensure_venue_filtering s tickers (leg_ticker leg) v) (\<lambda>tickers1.
     ensure_allowed_from s v tickers1 legs)"

definition ensure_allowed_venue ::
  "'a settlement_store_scheme \<Rightarrow> (LegId \<times> Leg) list \<Rightarrow> VenueId \<Rightarrow> unit result" where
  "ensure_allowed_venue s legs v = ensure_allowed_from s v [] legs"

definition transfer_leg ::
  "'c settlement_config_scheme \<Rightarrow> InstructionId \<Rightarrow> LegId \<times> Leg \<Rightarrow> WeightMeter \<times> 'a settlement_store_scheme
    \<Rightarrow> LegId + WeightMeter \<times> 'a settlement_store_scheme" where
  "transfer_leg cfg i l_leg ms =
     (case l_leg of (l, leg) \<Rightarrow>
        if InstructionLegStatus (snd ms) i l = ExecutionPending then
          (case leg of
             FungibleLeg from to ticker amount \<Rightarrow> map_err l (base_transfer cfg from to ticker amount ms)
           | NonFungibleLeg from to nfts \<Rightarrow> map_err l (base_nft_transfer cfg from to nfts ms)
           | OffChainLeg _ _ _ _ \<Rightarrow> Inr ms)
        else Inr ms)"

definition release_asset_locks_and_transfer_pending_legs ::
  "'c settlement_config_scheme \<Rightarrow> InstructionId \<Rightarrow> (LegId \<times> Leg) list \<Rightarrow> WeightMeter \<times> 'a settlement_store_scheme
    \<Rightarrow> LegId + WeightMeter \<times> 'a settlement_store_scheme" where
  "release_asset_locks_and_transfer_pending_legs cfg i legs ms =
     (case ms of (m, s) \<Rightarrow> fold_res (transfer_leg cfg i) legs (m, unchecked_release_locks i legs s))"

definition execute_instruction ::
  "'c settlement_config_scheme \<Rightarrow> InstructionId \<Rightarrow> WeightMeter \<times> 'a settlement_store_scheme
    \<Rightarrow> (WeightMeter \<times> 'a settlement_store_scheme) result" where
  "execute_instruction cfg i ms =
     (case ms of (m, s) \<Rightarrow>
        ensure (InstructionAffirmsPending s i = 0) (SettlementError NotAllAffirmationsHaveBeenReceived) (
        attempt (ensure_non_expired_affirmations s i) (\<lambda>_.
        ensure (InstructionStatuses s i \<in> {InstructionStatus.Pending, InstructionStatus.Failed})
          (SettlementError InvalidInstructionStatusForExecution) (
        let v = venue_id (InstructionDetails s i);
            legs = sort_key fst (InstructionLegs s i);
            c = from_legs legs in
        attempt (ok_or (check_accrue cfg (execute_paused_weight cfg (fungible c) (non_fungible c) (off_chain c)) m)
                  (SettlementError WeightLimitExceeded)) (\<lambda>m1.
        attempt (ensure_allowed_venue s legs v) (\<lambda>_.
        map_err (SettlementError FailedToReleaseLockOrTransferAssets)
          (release_asset_locks_and_transfer_pending_legs cfg i legs (m1, s))))))))"

definition forget_affirmations ::
  "InstructionId \<Rightarrow> LegId \<times> Leg \<Rightarrow> 'a settlement_store_scheme \<Rightarrow> 'a settlement_store_scheme" where
  "forget_affirmations i l_leg s =
     (let forget = (\<lambda>from to. put_user_affirmation to i AffirmationStatus.Unknown
                      (put_user_affirmation from i AffirmationStatus.Unknown s))
      in case snd l_leg of
           FungibleLeg from to _ _ \<Rightarrow> forget from to
         | NonFungibleLeg from to _ \<Rightarrow> forget from to
         | OffChainLeg _ _ _ _ \<Rightarrow> s)"

definition prune_instruction ::
  "InstructionId \<Rightarrow> bool \<Rightarrow> 'a settlement_store_scheme \<Rightarrow> 'a settlement_store_scheme" where
  "prune_instruction i executed s =
     (let legs = InstructionLegs s i;
          v = venue_id (InstructionDetails s i);
          s1 = s\<lparr>InstructionLegs := (InstructionLegs s)(i := []),
                 InstructionDetails := (InstructionDetails s)(i := default_instruction),
                 VenueInstructions := (VenueInstructions s)(v := (VenueInstructions s v)(i := False)),
                 InstructionAffirmsPending := (InstructionAffirmsPending s)(i := 0),
                 InstructionLegStatus := (InstructionLegStatus s)(i := (\<lambda>_. PendingTokenLock)),
                 OffChainAffirmations := (OffChainAffirmations s)(i := (\<lambda>_. AffirmationStatus.Unknown)),
                 AffirmsReceived := (AffirmsReceived s)(i := (\<lambda>_. AffirmationStatus.Unknown)),
                 InstructionMediatorsAffirmations := (InstructionMediatorsAffirmations s)(i := [])\<rparr>;
          s2 = put_status i (if executed then Success (block_number s) else Rejected (block_number s)) s1
      in fold (forget_affirmations i) legs s2)"

text \<open>The first component is the result; the state is kept in both cases.\<close>

definition execute_instruction_retryable ::
  "'c settlement_config_scheme \<Rightarrow> InstructionId \<Rightarrow> WeightMeter \<times> 'a settlement_store_scheme
    \<Rightarrow> WeightMeter result \<times> 'a settlement_store_scheme" where
  "execute_instruction_retryable cfg i ms =
     (case execute_instruction cfg i ms of
        Inl e \<Rightarrow> (Inl e, put_status i Failed (snd ms))
      | Inr (m, s) \<Rightarrow> (Inr m, prune_instruction i True s))"

definition ensure_valid_weight_meter :: "Weight \<Rightarrow> Weight \<Rightarrow> WeightMeter result" where
  "ensure_valid_weight_meter minimum limit =
     ok_or (from_limit minimum limit) (SettlementError InputWeightIsLessThanMinimum)"

definition base_execute_scheduled_instruction ::
  "'c settlement_config_scheme \<Rightarrow> InstructionId \<Rightarrow> WeightMeter \<times> 'a settlement_store_scheme
    \<Rightarrow> 'a settlement_store_scheme" where
  "base_execute_scheduled_instruction cfg i ms = snd (execute_instruction_retryable cfg i ms)"

definition execute_scheduled_instruction ::
  "'c settlement_config_scheme \<Rightarrow> Origin \<Rightarrow> InstructionId \<Rightarrow> Weight \<Rightarrow> 'a settlement_store_scheme
    \<Rightarrow> ('a settlement_store_scheme) result" where
  "execute_scheduled_instruction cfg origin i weight_limit s =
     attempt (ensure_root origin) (\<lambda>_.
     attempt (ensure_valid_weight_meter (execute_scheduled_weight cfg 0 0 0) weight_limit) (\<lambda>m.
     Inr (base_execute_scheduled_instruction cfg i (m, s))))"

definition base_execute_manual_instruction ::
  "'c settlement_config_scheme \<Rightarrow> Origin \<Rightarrow> InstructionId \<Rightarrow> PortfolioId option \<Rightarrow> AssetCount
    \<Rightarrow> WeightMeter \<times> 'a settlement_store_scheme \<Rightarrow> (WeightMeter \<times> 'a settlement_store_scheme) result" where
  "base_execute_manual_instruction cfg origin i portfolio input ms =
     (case ms of (m, s) \<Rightarrow>
        attempt (ensure_origin_perm_and_instruction_validity s origin i True) (\<lambda>(did, sk, details).
        let legs = InstructionLegs s i in
        attempt (case portfolio of
                   Some p \<Rightarrow>
                     attempt (ensure_portfolio_custody_and_permission s p did sk) (\<lambda>_.
                     ensure (is_portfolio_present legs p) (SettlementError CallerIsNotAParty) (Inr ()))
                 | None \<Rightarrow>
                     if \<not> is_ok (venue_for_management s (venue_id details) did)
                     then ensure (is_offchain_party legs did) (SettlementError settlement_error.Unauthorized) (Inr ())
                     else Inr ()) (\<lambda>_.
        attempt (ensure_valid_cost (from_legs legs) input) (\<lambda>_.
        case execute_instruction_retryable cfg i (m, s) of
          (Inl e, _) \<Rightarrow> Inl e
        | (Inr m1, s1) \<Rightarrow> Inr (m1, s1)))))"

definition execute_manual_instruction ::
  "'c settlement_config_scheme \<Rightarrow> Origin \<Rightarrow> InstructionId \<Rightarrow> PortfolioId option \<Rightarrow> nat \<Rightarrow> nat \<Rightarrow> nat
    \<Rightarrow> Weight option \<Rightarrow> 'a settlement_store_scheme \<Rightarrow> ('a settlement_store_scheme) result" where
  "execute_manual_instruction cfg origin i portfolio f n o' weight_limit s =
     attempt (ensure_valid_weight_meter (execute_manual_weight cfg 0 0 0)
               (case weight_limit of Some w \<Rightarrow> w | None \<Rightarrow> execute_manual_weight cfg f n o')) (\<lambda>m.
     attempt (base_execute_manual_instruction cfg origin i portfolio
               \<lparr>fungible = f, non_fungible = n, off_chain = o'\<rparr> (m, s)) (\<lambda>(_, s1).
     Inr s1))"

definition execute_settle_on_affirmation_instruction ::
  "'c settlement_config_scheme \<Rightarrow> InstructionId \<Rightarrow> nat \<Rightarrow> SettlementType \<Rightarrow> WeightMeter \<times> 'a settlement_store_scheme
    \<Rightarrow> (WeightMeter \<times> 'a settlement_store_scheme) result" where
  "execute_settle_on_affirmation_instruction cfg i affirms_pending typ ms =
     (if typ = SettleOnAffirmation \<and> affirms_pending = 0 then execute_instruction cfg i ms else Inr ms)"

definition affirm_and_execute_instruction ::
  "'c settlement_config_scheme \<Rightarrow> Origin \<Rightarrow> InstructionId \<Rightarrow> ReceiptDetails option \<Rightarrow> PortfolioId list
    \<Rightarrow> WeightMeter \<times> 'a settlement_store_scheme \<Rightarrow> (WeightMeter \<times> 'a settlement_store_scheme) result" where
  "affirm_and_execute_instruction cfg origin i receipt portfolios ms =
     (case ms of (m, s) \<Rightarrow>
        attempt (case receipt of
                   Some r \<Rightarrow> base_affirm_with_receipts cfg origin i [r] portfolios None s
                 | None \<Rightarrow> base_affirm_instruction origin i portfolios None s) (\<lambda>(_, s1).
        attempt (execute_settle_on_affirmation_instruction cfg i (InstructionAffirmsPending s1 i)
                  (settlement_type (InstructionDetails s1 i)) (m, s1)) (\<lambda>(m1, s2).
        Inr (m1, prune_instruction i True s2))))"

section \<open>Rejecting\<close>

definition base_reject_instruction ::
  "'c settlement_config_scheme \<Rightarrow> Origin \<Rightarrow> InstructionId \<Rightarrow> PortfolioId option \<Rightarrow> AssetCount option
    \<Rightarrow> 'a settlement_store_scheme \<Rightarrow> ('a settlement_store_scheme) result" where
  "base_reject_instruction cfg origin i portfolio c s =
     ensure (InstructionStatuses s i \<noteq> InstructionStatus.Unknown) (SettlementError UnknownInstruction) (
     let legs = InstructionLegs s i in
     attempt (case c of Some input \<Rightarrow> ensure_valid_cost (from_legs legs) input | None \<Rightarrow> Inr ()) (\<lambda>_.
     attempt (ensure_origin_call_permissions s origin) (\<lambda>d.
     attempt (case portfolio of
                Some p \<Rightarrow>
                  ensure (is_portfolio_present legs p) (SettlementError CallerIsNotAParty) (
                  ensure_portfolio_custody_and_permission s p (primary_did d) (secondary_key d))
              | None \<Rightarrow>
                  ensure (mediator_status s i (primary_did d) \<noteq> MediatorAffirmationStatus.Unknown)
                    (SettlementError CallerIsNotAMediator) (Inr ())) (\<lambda>_.
     Inr (prune_instruction i False (cancel_instruction cfg i (unchecked_release_locks i legs s)))))))"

section \<open>Mediators\<close>

definition base_affirm_instruction_as_mediator ::
  "'c settlement_config_scheme \<Rightarrow> Origin \<Rightarrow> InstructionId \<Rightarrow> Moment option \<Rightarrow> 'a settlement_store_scheme
    \<Rightarrow> ('a settlement_store_scheme) result" where
  "base_affirm_instruction_as_mediator cfg origin i expiry s =
     attempt (ensure_origin_perm_and_instruction_validity s origin i False) (\<lambda>(did, _, details).
     let status = mediator_status s i did in
     ensure (status \<noteq> MediatorAffirmationStatus.Unknown) (SettlementError CallerIsNotAMediator) (
     attempt (case expiry of
                Some e \<Rightarrow> ensure (e > timestamp s) (SettlementError InvalidExpiryDate) (Inr ())
              | None \<Rightarrow> Inr ()) (\<lambda>_.
     let s1 = put_mediator i did (MediatorAffirmationStatus.Affirmed expiry) s;
         s2 = (if status = MediatorAffirmationStatus.Pending
               then put_pending i (saturating_sub (InstructionAffirmsPending s1 i) 1) s1 else s1);
         n = InstructionAffirmsPending s2 i
     in Inr (if n = 0 \<and> settlement_type details = SettleOnAffirmation
             then maybe_schedule_instruction cfg n i (scheduled_weight cfg (get_instruction_asset_count s2 i)) s2
             else s2))))"

definition base_withdraw_affirmation_as_mediator ::
  "'c settlement_config_scheme \<Rightarrow> Origin \<Rightarrow> InstructionId \<Rightarrow> 'a settlement_store_scheme
    \<Rightarrow> ('a settlement_store_scheme) result" where
  "base_withdraw_affirmation_as_mediator cfg origin i s =
     attempt (ensure_origin_perm_and_instruction_validity s origin i False) (\<lambda>(did, _, details).
     case mediator_status s i did of
       MediatorAffirmationStatus.Unknown \<Rightarrow> Inl (SettlementError CallerIsNotAMediator)
     | MediatorAffirmationStatus.Pending \<Rightarrow> Inl (SettlementError UnexpectedAffirmationStatus)
     | MediatorAffirmationStatus.Affirmed _ \<Rightarrow>
         let s1 = put_mediator i did MediatorAffirmationStatus.Pending s;
             before = InstructionAffirmsPending s1 i;
             s2 = put_pending i (saturating_add u64_max before 1) s1
         in Inr (if before = 0 \<and> settlement_type details = SettleOnAffirmation
                 then cancel_instruction cfg i s2 else s2))"

section \<open>Extrinsics\<close>

definition add_instruction ::
  "'c settlement_config_scheme \<Rightarrow> Origin \<Rightarrow> VenueId \<Rightarrow> SettlementType \<Rightarrow> Moment option \<Rightarrow> Moment option
    \<Rightarrow> Leg list \<Rightarrow> Memo option \<Rightarrow> 'a settlement_store_scheme \<Rightarrow> ('a settlement_store_scheme) result" where
  "add_instruction cfg origin v typ trade val legs memo s =
     attempt (ensure_perms s origin) (\<lambda>did.
     attempt (base_add_instruction cfg did v typ trade val legs memo None s) (\<lambda>(_, s1). Inr s1))"

definition add_and_affirm_instruction ::
  "'c settlement_config_scheme \<Rightarrow> Origin \<Rightarrow> VenueId \<Rightarrow> SettlementType \<Rightarrow> Moment option \<Rightarrow> Moment option
    \<Rightarrow> Leg list \<Rightarrow> PortfolioId list \<Rightarrow> Memo option \<Rightarrow> 'a settlement_store_scheme
    \<Rightarrow> ('a settlement_store_scheme) result" where
  "add_and_affirm_instruction cfg origin v typ trade val legs portfolios memo s =
     attempt (ensure_perms s origin) (\<lambda>did.
     attempt (base_add_instruction cfg did v typ trade val legs memo None s) (\<lambda>(i, s1).
     affirm_and_maybe_schedule_instruction cfg origin i (btree portfolios) None s1))"

text \<open>The mediators are a bounded set: a longer list is not a value of the argument's type.\<close>

definition add_instruction_with_mediators ::
  "'c settlement_config_scheme \<Rightarrow> Origin \<Rightarrow> VenueId \<Rightarrow> SettlementType \<Rightarrow> Moment option \<Rightarrow> Moment option
    \<Rightarrow> Leg list \<Rightarrow> Memo option \<Rightarrow> IdentityId list \<Rightarrow> 'a settlement_store_scheme
    \<Rightarrow> ('a settlement_store_scheme) result" where
  "add_instruction_with_mediators cfg origin v typ trade val legs memo meds s =
     attempt (ensure_perms s origin) (\<lambda>did.
     attempt (base_add_instruction cfg did v typ trade val legs memo (Some meds) s) (\<lambda>(_, s1). Inr s1))"

definition add_and_affirm_with_mediators ::
  "'c settlement_config_scheme \<Rightarrow> Origin \<Rightarrow> VenueId \<Rightarrow> SettlementType \<Rightarrow> Moment option \<Rightarrow> Moment option
    \<Rightarrow> Leg list \<Rightarrow> PortfolioId list \<Rightarrow> Memo option \<Rightarrow> IdentityId list \<Rightarrow> 'a settlement_store_scheme
    \<Rightarrow> ('a settlement_store_scheme) result" where
  "add_and_affirm_with_mediators cfg origin v typ trade val legs portfolios memo meds s =
     attempt (ensure_perms s origin) (\<lambda>did.
     attempt (base_add_instruction cfg did v typ trade val legs memo (Some meds) s) (\<lambda>(i, s1).
     affirm_and_maybe_schedule_instruction cfg origin i (btree portfolios) None s1))"

definition affirm_instruction ::
  "'c settlement_config_scheme \<Rightarrow> Origin \<Rightarrow> InstructionId \<Rightarrow> PortfolioId list \<Rightarrow> 'a settlement_store_scheme
    \<Rightarrow> ('a settlement_store_scheme) result" where
  "affirm_instruction cfg origin i portfolios s =
     affirm_and_maybe_schedule_instruction cfg origin i portfolios None s"

definition affirm_with_receipts ::
  "'c settlement_config_scheme \<Rightarrow> Origin \<Rightarrow> InstructionId \<Rightarrow> ReceiptDetails list \<Rightarrow> PortfolioId list
    \<Rightarrow> 'a settlement_store_scheme \<Rightarrow> ('a settlement_store_scheme) result" where
  "affirm_with_receipts cfg origin i receipts portfolios s =
     affirm_with_receipts_and_maybe_schedule_instruction cfg origin i receipts portfolios None s"

definition withdraw_affirmation ::
  "'c settlement_config_scheme \<Rightarrow> Origin \<Rightarrow> InstructionId \<Rightarrow> PortfolioId list \<Rightarrow> 'a settlement_store_scheme
    \<Rightarrow> ('a settlement_store_scheme) result" where
  "withdraw_affirmation cfg origin i portfolios s = base_withdraw_affirmation cfg origin i portfolios None s"

definition reject_instruction ::
  "'c settlement_config_scheme \<Rightarrow> Origin \<Rightarrow> InstructionId \<Rightarrow> PortfolioId \<Rightarrow> 'a settlement_store_scheme
    \<Rightarrow> ('a settlement_store_scheme) result" where
  "reject_instruction cfg origin i portfolio s = base_reject_instruction cfg origin i (Some portfolio) None s"

end
