(* ===== verification/NFT_Theorems.thy ===== *)
theory NFT_Theorems
  imports NFT
begin

text \<open>
  What the NFT pallet guarantees: the records of who owns which token, how many tokens an identity and
  a collection have and which metadata a token carries stay consistent under the operations of the
  NFT, portfolio and asset pallets, and a transfer moves exactly the tokens it names.
\<close>

section \<open>Invariant\<close>

definition owned_by :: "'a nft_store_scheme \<Rightarrow> Ticker \<Rightarrow> IdentityId \<Rightarrow> NFTId set" where
  "owned_by s t d = {i. map_option pid_did (NFTOwner s t i) = Some d}"

definition nft_counts_exact :: "'a nft_store_scheme \<Rightarrow> bool" where
  "nft_counts_exact s \<longleftrightarrow>
     (\<forall>t. finite (dom (NFTOwner s t)) \<and> NFTsInCollection s t = card (dom (NFTOwner s t)) \<and>
        card (dom (NFTOwner s t)) \<le> u64_max \<and> (\<forall>d. NumberOfNFTs s t d = card (owned_by s t d)))"

definition collections_exact :: "'a nft_store_scheme \<Rightarrow> bool" where
  "collections_exact s \<longleftrightarrow>
     (\<forall>t c. CollectionTicker s t = Some c \<longleftrightarrow> Collection s c = Some \<lparr>collection_id = c, collection_ticker = t\<rparr>) \<and>
     (\<forall>c. Collection s c \<noteq> None \<longrightarrow> c \<le> NextCollectionId s)"

definition tokens_in_collection :: "'a nft_store_scheme \<Rightarrow> bool" where
  "tokens_in_collection s \<longleftrightarrow>
     (\<forall>t i. NFTOwner s t i \<noteq> None \<longrightarrow> (\<exists>c. CollectionTicker s t = Some c \<and> i \<le> NextNFTId s c))"

definition metadata_exact :: "'a nft_store_scheme \<Rightarrow> bool" where
  "metadata_exact s \<longleftrightarrow>
     (\<forall>c i k. MetadataValue s (c, i) k \<noteq> None \<longleftrightarrow>
        (\<exists>t. CollectionTicker s t = Some c \<and> NFTOwner s t i \<noteq> None \<and> k \<in> set (CollectionKeys s c)))"

definition collection_keys_ok :: "'a nft_store_scheme \<Rightarrow> bool" where
  "collection_keys_ok s \<longleftrightarrow>
     (\<forall>t c. CollectionTicker s t = Some c \<longrightarrow> distinct (CollectionKeys s c) \<and> nft_asset s t = Some True \<and>
        list_all (check_asset_metadata_key_exists s t) (CollectionKeys s c))"

definition nft_good :: "'a portfolio_store_scheme \<Rightarrow> bool" where
  "nft_good s \<longleftrightarrow> nft_owner_exact s \<and> nft_counts_exact s \<and> collections_exact s \<and> tokens_in_collection s \<and>
     metadata_exact s \<and> collection_keys_ok s"

lemmas nft_good_defs = nft_good_def nft_counts_exact_def collections_exact_def tokens_in_collection_def
  metadata_exact_def

text \<open>What the invariant reads: the tokens, the collections and which keys and types assets have.\<close>

definition token_view where
  "token_view s = (NumberOfNFTs s, CollectionTicker s, Collection s, CollectionKeys s, MetadataValue s,
     NextCollectionId s, NextNFTId s, NFTsInCollection s)"

definition keys_kept where
  "keys_kept s s' \<longleftrightarrow>
     (\<forall>t c. CollectionTicker s t = Some c \<longrightarrow> (nft_asset s t = Some True \<longrightarrow> nft_asset s' t = Some True) \<and>
       (\<forall>k \<in> set (CollectionKeys s c).
          check_asset_metadata_key_exists s t k \<longrightarrow> check_asset_metadata_key_exists s' t k))"

lemma nft_counts_same_holders:
  assumes "nft_counts_exact s" "NumberOfNFTs s' = NumberOfNFTs s" "NFTsInCollection s' = NFTsInCollection s"
    and holders: "\<And>t i. map_option pid_did (NFTOwner s' t i) = map_option pid_did (NFTOwner s t i)"
  shows "nft_counts_exact s'"
proof -
  have "NFTOwner s' t i = None \<longleftrightarrow> NFTOwner s t i = None" for t i using holders [of t i] by auto
  then have "dom (NFTOwner s' t) = dom (NFTOwner s t)" for t by (auto simp: dom_def)
  then show ?thesis using assms by (simp add: nft_counts_exact_def owned_by_def)
qed

lemma nft_good_same_holders:
  assumes good: "nft_good s" and own: "nft_owner_exact s'" and view: "token_view s' = token_view s"
    and holders: "\<And>t i. map_option pid_did (NFTOwner s' t i) = map_option pid_did (NFTOwner s t i)"
    and keys: "keys_kept s s'"
  shows "nft_good s'"
proof -
  have none: "NFTOwner s' t i = None \<longleftrightarrow> NFTOwner s t i = None" for t i using holders [of t i] by auto
  have same: "NumberOfNFTs s' = NumberOfNFTs s" "CollectionTicker s' = CollectionTicker s"
    "Collection s' = Collection s" "CollectionKeys s' = CollectionKeys s" "MetadataValue s' = MetadataValue s"
    "NextCollectionId s' = NextCollectionId s" "NextNFTId s' = NextNFTId s" "NFTsInCollection s' = NFTsInCollection s"
    using view by (simp_all add: token_view_def)
  have "nft_counts_exact s'"
    by (rule nft_counts_same_holders [OF _ same(1,8) holders]) (use good in \<open>simp add: nft_good_def\<close>)
  moreover have "collection_keys_ok s'"
    using good keys unfolding nft_good_def collection_keys_ok_def keys_kept_def same list_all_iff by blast
  ultimately show ?thesis
    using good own unfolding nft_good_def collections_exact_def tokens_in_collection_def metadata_exact_def same none
    by blast
qed

lemma collection_keys_ok_cong:
  assumes "CollectionTicker s' = CollectionTicker s" "CollectionKeys s' = CollectionKeys s" "Tokens s' = Tokens s"
    "AssetMetadataGlobalKeyToName s' = AssetMetadataGlobalKeyToName s"
    "AssetMetadataLocalKeyToName s' = AssetMetadataLocalKeyToName s"
  shows "collection_keys_ok s' = collection_keys_ok s"
proof -
  have "check_asset_metadata_key_exists s' = check_asset_metadata_key_exists s" "nft_asset s' = nft_asset s"
    using assms by (auto simp: fun_eq_iff check_asset_metadata_key_exists_def nft_asset_def split: AssetMetadataKey.splits)
  then show ?thesis using assms by (simp add: collection_keys_ok_def)
qed

section \<open>Moving tokens between portfolios\<close>

text \<open>\<open>rehold s s' from to\<close>: tokens that changed hands went from the one portfolio to the other.\<close>

definition rehold where
  "rehold s s' from to \<longleftrightarrow> nft_owner_exact s' \<and>
     (\<forall>t i. NFTOwner s' t i = NFTOwner s t i \<or> NFTOwner s t i = Some from \<and> NFTOwner s' t i = Some to)"

lemma rehold_trans: "rehold s s1 from to \<Longrightarrow> rehold s1 s2 from to \<Longrightarrow> rehold s s2 from to"
  unfolding rehold_def by metis

lemma fold_move_nft_owner:
  assumes "nft_owner_exact s" and "\<forall>i \<in> set ids. NFTOwner s t i \<in> {Some from, Some to}"
  shows "nft_owner_exact (fold (move_nft from to t) ids s) \<and>
    NFTOwner (fold (move_nft from to t) ids s) =
      (NFTOwner s)(t := (\<lambda>i. if i \<in> set ids then Some to else NFTOwner s t i))"
  using assms
proof (induction ids arbitrary: s)
  case (Cons n ids)
  let ?s = "move_nft from to t n s"
  have own: "NFTOwner ?s = (NFTOwner s)(t := (NFTOwner s t)(n \<mapsto> to))"
    by (simp add: move_nft_def put_defs move_portfolio_owner_def)
  have "nft_owner_exact ?s"
    using Cons.prems unfolding nft_owner_exact_def
    by (auto simp: move_nft_def put_defs move_portfolio_owner_def split: if_splits)
  moreover have "\<forall>i \<in> set ids. NFTOwner ?s t i \<in> {Some from, Some to}"
    using Cons.prems(2) unfolding own by simp
  ultimately have "nft_owner_exact (fold (move_nft from to t) ids ?s) \<and>
      NFTOwner (fold (move_nft from to t) ids ?s) =
        (NFTOwner ?s)(t := (\<lambda>i. if i \<in> set ids then Some to else NFTOwner ?s t i))"
    by (rule Cons.IH)
  then show ?case unfolding own by (auto simp: fun_eq_iff)
qed simp

lemma fold_move_nft_rehold:
  assumes "nft_owner_exact s" and "\<forall>i \<in> set ids. NFTOwner s t i \<in> {Some from, Some to}"
  shows "rehold s (fold (move_nft from to t) ids s) from to"
  using fold_move_nft_owner [OF assms] assms(2) by (auto simp: rehold_def)

definition nfts_held where
  "nfts_held s from to f = (case description f of FungibleFund _ _ \<Rightarrow> True
     | NonFungibleFund nfts \<Rightarrow> \<forall>i \<in> set (nfts_ids nfts). NFTOwner s (nfts_ticker nfts) i \<in> {Some from, Some to})"

lemma nfts_held_rehold: "nfts_held s from to f \<Longrightarrow> rehold s s' from to \<Longrightarrow> nfts_held s' from to f"
  unfolding nfts_held_def rehold_def by (auto split: FundDescription.splits) metis+

lemma move_fund_rehold:
  assumes "nft_owner_exact s" "nfts_held s from to f"
  shows "rehold s (move_fund from to f s) from to"
proof (cases "description f")
  case (FungibleFund t v)
  have "nft_owner_exact (unchecked_transfer_portfolio_balance from to t v s) = nft_owner_exact s"
    "NFTOwner (unchecked_transfer_portfolio_balance from to t v s) = NFTOwner s"
    by (simp_all add: unchecked_transfer_portfolio_balance_def transition_asset_count_eq put_defs Let_def
        nft_owner_exact_def)
  then show ?thesis using assms(1) FungibleFund by (simp add: move_fund_def rehold_def)
next
  case (NonFungibleFund nfts)
  then show ?thesis
    using fold_move_nft_rehold [OF assms(1)] assms(2) by (simp add: move_fund_def nfts_held_def)
qed

lemma move_funds_rehold:
  assumes "nft_owner_exact s" "\<forall>f \<in> set funds. nfts_held s from to f"
  shows "rehold s (unchecked_move_funds from to funds s) from to"
  using assms
proof (induction funds arbitrary: s)
  case (Cons f funds)
  let ?s = "move_fund from to f s"
  have r: "rehold s ?s from to" using Cons.prems by (simp add: move_fund_rehold)
  then have "rehold ?s (unchecked_move_funds from to funds ?s) from to"
    using Cons.prems by (intro Cons.IH) (auto simp: rehold_def intro: nfts_held_rehold [OF _ r])
  with r show ?case unfolding unchecked_move_funds_def fold_simps by (rule rehold_trans)
qed (simp add: unchecked_move_funds_def rehold_def)

lemma valid_funds_held:
  "ensure_valid_funds_from s p seen funds = Inr () \<Longrightarrow> nft_owner_exact s \<Longrightarrow> \<forall>f \<in> set funds. nfts_held s p q f"
  by (induction s p seen funds rule: ensure_valid_funds_from.induct)
    (auto simp: res_simps nfts_held_def ensure_valid_nfts_def nft_owner_exact_def split: FundDescription.splits)

lemma rehold_holders:
  "rehold s s' p q \<Longrightarrow> pid_did p = pid_did q \<Longrightarrow> map_option pid_did (NFTOwner s' t i) = map_option pid_did (NFTOwner s t i)"
  unfolding rehold_def by (metis option.simps(9))

lemma token_view_portfolio:
  assumes "forget_portfolio s' = forget_portfolio s"
  shows "token_view s' = token_view s" "keys_kept s s'"
proof -
  show "token_view s' = token_view s"
    using arg_cong [OF assms, of token_view] by (simp add: token_view_def forget_portfolio_def)
  have "Tokens s' = Tokens s" "AssetMetadataGlobalKeyToName s' = AssetMetadataGlobalKeyToName s"
    "AssetMetadataLocalKeyToName s' = AssetMetadataLocalKeyToName s"
    using arg_cong [OF assms, of Tokens] arg_cong [OF assms, of AssetMetadataGlobalKeyToName]
      arg_cong [OF assms, of AssetMetadataLocalKeyToName] by (simp_all add: forget_portfolio_def)
  then show "keys_kept s s'"
    by (simp add: keys_kept_def nft_asset_def check_asset_metadata_key_exists_def split: AssetMetadataKey.splits)
qed

lemma portfolio_step_owners:
  assumes "portfolio_step cfg s s'" and own: "nft_owner_exact s"
  shows "nft_owner_exact s' \<and> (\<forall>t i. map_option pid_did (NFTOwner s' t i) = map_option pid_did (NFTOwner s t i))"
proof -
  have keep: "?thesis" if "PortfolioNFT s' = PortfolioNFT s" "NFTOwner s' = NFTOwner s"
    using that own by (simp add: nft_owner_exact_def)
  have view: "?thesis" if "portfolio_view s' = portfolio_view s"
    using that by (intro keep) (simp_all add: view_defs)
  show ?thesis
    using assms(1)
  proof cases
    case (move origin "from" to funds)
    then have "pid_did from = pid_did to" "ensure_valid_funds_from s from [] funds = Inr ()"
      "s' = unchecked_move_funds from to funds s"
      by (auto simp: move_portfolio_funds_def ensure_portfolios_validity_and_permissions_def
          ensure_valid_funds_def attempt_Inr_iff ensure_Inr_iff)
    moreover from this have "rehold s s' from to" using own valid_funds_held move_funds_rehold by blast
    ultimately show ?thesis using rehold_holders [of s s' "from" to] by (simp add: rehold_def)
  next
    case (create origin name)
    then show ?thesis
      by (intro keep) (auto dest!: create_portfolio_base simp: base_create_portfolio_Inr)
  next
    case (create_custody origin owner name)
    then show ?thesis
      by (intro keep)
        (auto simp: create_custody_portfolio_Inr base_create_portfolio_Inr unverified_take_portfolio_custody_def put_defs)
  next
    case (delete origin num)
    then show ?thesis
      by (intro keep) (auto simp: delete_portfolio_def attempt_Inr_iff ensure_Inr_iff Let_def put_defs)
  next
    case (rename origin num name)
    then show ?thesis
      by (intro keep) (auto simp: rename_portfolio_def put_defs attempt_Inr_iff ensure_Inr_iff Let_def)
  next
    case (lock pid t a)
    then show ?thesis
      by (intro keep) (auto simp: lock_tokens_def unchecked_lock_tokens_def put_defs attempt_Inr_iff)
  next
    case (unlock pid t a)
    then show ?thesis by (intro keep) (auto simp: unlock_tokens_def put_defs ensure_Inr_iff Let_def)
  next
    case (lock_nft pid t n)
    then show ?thesis by (intro keep) (auto simp: lock_nft_def ensure_Inr_iff)
  next
    case (unlock_nft pid t n)
    then show ?thesis by (intro keep) (auto simp: unlock_nft_def ensure_Inr_iff)
  qed (rule view, drule pre_approval_view, assumption)+
qed

lemma portfolio_step_nft_good:
  assumes "portfolio_step cfg s s'" "nft_good s"
  shows "nft_good s'"
proof (rule nft_good_same_holders [OF assms(2)])
  have "nft_owner_exact s" using assms(2) by (simp add: nft_good_def)
  then show "nft_owner_exact s'" "map_option pid_did (NFTOwner s' t i) = map_option pid_did (NFTOwner s t i)" for t i
    using portfolio_step_owners [OF assms(1)] by simp_all
qed (rule token_view_portfolio [OF portfolio_step_frame [OF assms(1)]])+

section \<open>Issuing and redeeming\<close>

lemma fold_put_attribute:
  "fold (put_attribute k) as s = s\<lparr>MetadataValue := (MetadataValue s)(k :=
     fold (\<lambda>a m. m(attribute_key a \<mapsto> attribute_value a)) as (MetadataValue s k))\<rparr>"
  by (induction as arbitrary: s) (simp_all add: put_attribute_def)

lemma dom_attributes:
  "dom (fold (\<lambda>a m. m(attribute_key a \<mapsto> attribute_value a)) as m) = attribute_key ` set as \<union> dom m"
  by (induction as arbitrary: m) auto

lemma mandatory_attributes:
  assumes "ensure_mandatory_attributes keys as = Inr ()" "distinct keys"
  shows "attribute_key ` set as = set keys"
proof -
  have len: "length keys = length as" "length as = card (attribute_key ` set as)" "attribute_key ` set as \<subseteq> set keys"
    using assms(1)
    by (auto simp: ensure_mandatory_attributes_def res_simps Let_def length_btree List.member_iff)
  then show ?thesis using assms(2) by (intro card_subset_eq) (simp_all add: distinct_card)
qed

lemma base_issue_nft_effect:
  assumes "base_issue_nft origin t as kind s = Inr s'"
  obtains c i pid where "CollectionTicker s t = Some c" "i = NextNFTId s c + 1"
    "ensure_origin_ticker_and_portfolio_permissions s origin t kind False = Inr pid"
    "ensure_mandatory_attributes (CollectionKeys s c) as = Inr ()"
    "NFTsInCollection s t + 1 \<le> u64_max"
    "s' = s\<lparr>NextNFTId := (NextNFTId s)(c := i),
       NFTsInCollection := (NFTsInCollection s)(t := NFTsInCollection s t + 1),
       NumberOfNFTs := (NumberOfNFTs s)(t := (NumberOfNFTs s t)(pid_did pid := NumberOfNFTs s t (pid_did pid) + 1)),
       MetadataValue := (MetadataValue s)((c, i) :=
         fold (\<lambda>a m. m(attribute_key a \<mapsto> attribute_value a)) as (MetadataValue s (c, i))),
       PortfolioNFT := (PortfolioNFT s)(pid := finsert (t, i) (PortfolioNFT s pid)),
       NFTOwner := (NFTOwner s)(t := (NFTOwner s t)(i \<mapsto> pid))\<rparr>"
proof -
  obtain c pid where c: "CollectionTicker s t = Some c"
    and pid: "ensure_origin_ticker_and_portfolio_permissions s origin t kind False = Inr pid"
    and at: "ensure_mandatory_attributes (CollectionKeys s c) as = Inr ()"
    and n: "NFTsInCollection s t + 1 \<le> u64_max"
    and s': "s' = move_portfolio_owner t (NextNFTId s c + 1) pid (add_nft pid (t, NextNFTId s c + 1)
       (fold (put_attribute (c, NextNFTId s c + 1)) as (put_number_of_nfts t (pid_did pid)
         (NumberOfNFTs s t (pid_did pid) + 1) (put_nft_count t (NFTsInCollection s t + 1)
           (s\<lparr>NextNFTId := (NextNFTId s)(c := NextNFTId s c + 1)\<rparr>)))))"
    using assms by (auto simp: base_issue_nft_def attempt_Inr_iff ok_or_Inr_iff try_next_pre_Inr Let_def uint_simps)
  show thesis
    by (rule that [OF c refl pid at n]) (simp add: s' fold_put_attribute nft_put_defs put_defs)
qed

lemma nft_counts_add:
  assumes ex: "nft_counts_exact s" and new: "NFTOwner s t i = None" and le: "NFTsInCollection s t + 1 \<le> u64_max"
    and own: "NFTOwner s' = (NFTOwner s)(t := (NFTOwner s t)(i \<mapsto> pid))"
    and n: "NFTsInCollection s' = (NFTsInCollection s)(t := NFTsInCollection s t + 1)"
    and nd: "NumberOfNFTs s' = (NumberOfNFTs s)(t := (NumberOfNFTs s t)(pid_did pid := NumberOfNFTs s t (pid_did pid) + 1))"
  shows "nft_counts_exact s'"
proof -
  have fin: "finite (dom (NFTOwner s u))" "finite (owned_by s u d)" for u d
  proof -
    show f: "finite (dom (NFTOwner s u))" using ex by (simp add: nft_counts_exact_def)
    show "finite (owned_by s u d)" by (rule finite_subset [OF _ f]) (auto simp: owned_by_def)
  qed
  have "owned_by s' u d = (if u = t \<and> d = pid_did pid then insert i (owned_by s t d) else owned_by s u d)" for u d
    using new by (auto simp: owned_by_def own)
  moreover have "i \<notin> owned_by s t d" for d using new by (simp add: owned_by_def)
  moreover have "i \<notin> dom (NFTOwner s t)" using new by auto
  ultimately show ?thesis using ex fin le by (simp add: nft_counts_exact_def own n nd)
qed

lemma collection_inj:
  assumes "nft_good s" "CollectionTicker s t = Some c" "CollectionTicker s u = Some c"
  shows "u = t"
proof -
  have ex: "CollectionTicker s t = Some c \<longleftrightarrow> Collection s c = Some \<lparr>collection_id = c, collection_ticker = t\<rparr>" for t c
    using assms(1) unfolding nft_good_def collections_exact_def by blast
  show ?thesis using ex [of t c] ex [of u c] assms(2,3) by simp
qed

lemma token_number:
  assumes "nft_good s" "CollectionTicker s t = Some c" "NFTOwner s t i \<noteq> None"
  shows "i \<le> NextNFTId s c"
  using assms unfolding nft_good_def tokens_in_collection_def by (metis option.inject)

lemma token_metadata:
  assumes "nft_good s" "CollectionTicker s t = Some c"
  shows "MetadataValue s (c, i) k \<noteq> None \<longleftrightarrow> NFTOwner s t i \<noteq> None \<and> k \<in> set (CollectionKeys s c)"
proof -
  have "MetadataValue s (c, i) k \<noteq> None \<longleftrightarrow>
      (\<exists>t. CollectionTicker s t = Some c \<and> NFTOwner s t i \<noteq> None \<and> k \<in> set (CollectionKeys s c))"
    using assms(1) unfolding nft_good_def metadata_exact_def by blast
  then show ?thesis using assms(2) collection_inj [OF assms] by blast
qed

lemma base_issue_nft_good:
  assumes "base_issue_nft origin t as kind s = Inr s'" and good: "nft_good s"
  shows "nft_good s'"
proof -
  obtain c i pid where c: "CollectionTicker s t = Some c" and i: "i = NextNFTId s c + 1"
    and at: "ensure_mandatory_attributes (CollectionKeys s c) as = Inr ()" and le: "NFTsInCollection s t + 1 \<le> u64_max"
    and s': "s' = s\<lparr>NextNFTId := (NextNFTId s)(c := i),
       NFTsInCollection := (NFTsInCollection s)(t := NFTsInCollection s t + 1),
       NumberOfNFTs := (NumberOfNFTs s)(t := (NumberOfNFTs s t)(pid_did pid := NumberOfNFTs s t (pid_did pid) + 1)),
       MetadataValue := (MetadataValue s)((c, i) :=
         fold (\<lambda>a m. m(attribute_key a \<mapsto> attribute_value a)) as (MetadataValue s (c, i))),
       PortfolioNFT := (PortfolioNFT s)(pid := finsert (t, i) (PortfolioNFT s pid)),
       NFTOwner := (NFTOwner s)(t := (NFTOwner s t)(i \<mapsto> pid))\<rparr>"
    using assms(1) by (rule base_issue_nft_effect)
  have new: "NFTOwner s t i = None"
    using token_number [OF good c, of i] i by (cases "NFTOwner s t i = None") auto
  note inj = collection_inj [OF good c]
  have keys: "attribute_key ` set as = set (CollectionKeys s c)"
    using good c by (intro mandatory_attributes [OF at]) (simp add: nft_good_def collection_keys_ok_def)
  have "MetadataValue s (c, i) = Map.empty"
    using token_metadata [OF good c, of i] new by (simp add: fun_eq_iff)
  then have dom: "dom (MetadataValue s' (c, i)) = set (CollectionKeys s c)"
    by (simp add: s' dom_attributes keys)
  have own: "NFTOwner s' = (NFTOwner s)(t := (NFTOwner s t)(i \<mapsto> pid))"
    and n: "NFTsInCollection s' = (NFTsInCollection s)(t := NFTsInCollection s t + 1)"
      "NumberOfNFTs s' = (NumberOfNFTs s)(t := (NumberOfNFTs s t)(pid_did pid := NumberOfNFTs s t (pid_did pid) + 1))"
    and keep: "CollectionTicker s' = CollectionTicker s" "CollectionKeys s' = CollectionKeys s" "Tokens s' = Tokens s"
      "AssetMetadataGlobalKeyToName s' = AssetMetadataGlobalKeyToName s"
      "AssetMetadataLocalKeyToName s' = AssetMetadataLocalKeyToName s"
    and nxt: "NextNFTId s' = (NextNFTId s)(c := i)"
    and meta: "(c', i') \<noteq> (c, i) \<Longrightarrow> MetadataValue s' (c', i') = MetadataValue s (c', i')" for c' i'
    by (auto simp: s')
  have "nft_counts_exact s'"
    by (rule nft_counts_add [OF _ new le own n]) (use good in \<open>simp add: nft_good_def\<close>)
  moreover have "nft_owner_exact s'"
    using good new by (auto simp: nft_good_def nft_owner_exact_def s')
  moreover have "collections_exact s'" using good by (simp add: nft_good_def collections_exact_def s')
  moreover have "tokens_in_collection s'"
    unfolding tokens_in_collection_def keep
  proof (intro allI impI)
    fix u j
    assume "NFTOwner s' u j \<noteq> None"
    then consider "u = t" "j = i" | "NFTOwner s u j \<noteq> None" by (auto simp: own split: if_splits)
    then show "\<exists>c. CollectionTicker s u = Some c \<and> j \<le> NextNFTId s' c"
    proof cases
      case 2
      then obtain d where "CollectionTicker s u = Some d" "j \<le> NextNFTId s d"
        using good unfolding nft_good_def tokens_in_collection_def by blast
      then show ?thesis unfolding nxt using i by (intro exI [of _ d]) auto
    qed (simp add: c nxt)
  qed
  moreover have "metadata_exact s'"
    unfolding metadata_exact_def keep
  proof (intro allI)
    fix c' i' k
    show "MetadataValue s' (c', i') k \<noteq> None \<longleftrightarrow>
        (\<exists>u. CollectionTicker s u = Some c' \<and> NFTOwner s' u i' \<noteq> None \<and> k \<in> set (CollectionKeys s c'))"
    proof (cases "(c', i') = (c, i)")
      case True
      have "k \<in> dom (MetadataValue s' (c, i)) \<longleftrightarrow> k \<in> set (CollectionKeys s c)" unfolding dom ..
      then show ?thesis using True c by (auto simp: own dom_def)
    next
      case False
      have "MetadataValue s (c', i') k \<noteq> None \<longleftrightarrow>
        (\<exists>u. CollectionTicker s u = Some c' \<and> NFTOwner s u i' \<noteq> None \<and> k \<in> set (CollectionKeys s c'))"
        using good unfolding nft_good_def metadata_exact_def by blast
      moreover have "CollectionTicker s u = Some c' \<Longrightarrow> NFTOwner s' u i' = NFTOwner s u i'" for u
        using False c by (auto simp: own)
      ultimately show ?thesis unfolding meta [OF False] by metis
    qed
  qed
  moreover have "collection_keys_ok s'"
    using good collection_keys_ok_cong [OF keep] by (simp add: nft_good_def)
  ultimately show ?thesis by (simp add: nft_good_def)
qed

lemma base_redeem_nft_effect:
  assumes "base_redeem_nft origin t i kind s = Inr s'"
  obtains c pid where "CollectionTicker s t = Some c"
    "ensure_origin_ticker_and_portfolio_permissions s origin t kind True = Inr pid"
    "(t, i) |\<in>| PortfolioNFT s pid" "1 \<le> NFTsInCollection s t"
    "s' = s\<lparr>NFTsInCollection := (NFTsInCollection s)(t := NFTsInCollection s t - 1),
       NumberOfNFTs := (NumberOfNFTs s)(t := (NumberOfNFTs s t)(pid_did pid := NumberOfNFTs s t (pid_did pid) - 1)),
       PortfolioNFT := (PortfolioNFT s)(pid := PortfolioNFT s pid |-| {|(t, i)|}),
       MetadataValue := (MetadataValue s)((c, i) := Map.empty),
       NFTOwner := (NFTOwner s)(t := (NFTOwner s t)(i := None))\<rparr>"
proof -
  obtain c pid where c: "CollectionTicker s t = Some c"
    and pid: "ensure_origin_ticker_and_portfolio_permissions s origin t kind True = Inr pid"
    and own: "(t, i) |\<in>| PortfolioNFT s pid" and n: "1 \<le> NFTsInCollection s t"
    and s': "s' = remove_nft_owner t i (remove_attributes (c, i) (remove_nft pid (t, i) (put_number_of_nfts t
      (pid_did pid) (NumberOfNFTs s t (pid_did pid) - 1) (put_nft_count t (NFTsInCollection s t - 1) s))))"
    using assms by (auto simp: base_redeem_nft_def attempt_Inr_iff ok_or_Inr_iff ensure_Inr_iff Let_def uint_simps)
  show thesis by (rule that [OF c pid own n]) (simp add: s' nft_put_defs put_defs)
qed

lemma nft_counts_remove:
  assumes ex: "nft_counts_exact s" and old: "NFTOwner s t i = Some pid"
    and own: "NFTOwner s' = (NFTOwner s)(t := (NFTOwner s t)(i := None))"
    and n: "NFTsInCollection s' = (NFTsInCollection s)(t := NFTsInCollection s t - 1)"
      "NumberOfNFTs s' = (NumberOfNFTs s)(t := (NumberOfNFTs s t)(pid_did pid := NumberOfNFTs s t (pid_did pid) - 1))"
  shows "nft_counts_exact s'"
  unfolding nft_counts_exact_def
proof (intro allI)
  fix u
  have ex: "finite (dom (NFTOwner s u))" "NFTsInCollection s u = card (dom (NFTOwner s u))"
    "card (dom (NFTOwner s u)) \<le> u64_max" "NumberOfNFTs s u d = card (owned_by s u d)" for u d
    using ex unfolding nft_counts_exact_def by blast+
  have dom: "dom (NFTOwner s' u) = (if u = t then dom (NFTOwner s t) - {i} else dom (NFTOwner s u))"
    by (auto simp: own)
  have owd: "owned_by s' u d = (if u = t \<and> d = pid_did pid then owned_by s t d - {i} else owned_by s u d)" for d
    using old by (auto simp: owned_by_def own)
  have in_dom: "i \<in> dom (NFTOwner s t)" "i \<in> owned_by s t (pid_did pid)" using old by (auto simp: owned_by_def)
  have fin: "finite (owned_by s t d)" for d by (rule finite_subset [OF _ ex(1) [of t]]) (auto simp: owned_by_def)
  have le: "card (dom (NFTOwner s t)) - 1 \<le> u64_max" using ex(3) [of t] by linarith
  show "finite (dom (NFTOwner s' u)) \<and> NFTsInCollection s' u = card (dom (NFTOwner s' u)) \<and>
      card (dom (NFTOwner s' u)) \<le> u64_max \<and> (\<forall>d. NumberOfNFTs s' u d = card (owned_by s' u d))"
    using ex in_dom fin le unfolding dom owd n by (auto simp: card_Diff_singleton)
qed

lemma base_redeem_nft_good:
  assumes "base_redeem_nft origin t i kind s = Inr s'" and good: "nft_good s"
  shows "nft_good s'"
proof -
  obtain c pid where c: "CollectionTicker s t = Some c" and held: "(t, i) |\<in>| PortfolioNFT s pid"
    and s': "s' = s\<lparr>NFTsInCollection := (NFTsInCollection s)(t := NFTsInCollection s t - 1),
       NumberOfNFTs := (NumberOfNFTs s)(t := (NumberOfNFTs s t)(pid_did pid := NumberOfNFTs s t (pid_did pid) - 1)),
       PortfolioNFT := (PortfolioNFT s)(pid := PortfolioNFT s pid |-| {|(t, i)|}),
       MetadataValue := (MetadataValue s)((c, i) := Map.empty),
       NFTOwner := (NFTOwner s)(t := (NFTOwner s t)(i := None))\<rparr>"
    using assms(1) by (rule base_redeem_nft_effect)
  have old: "NFTOwner s t i = Some pid" using held good by (simp add: nft_good_def nft_owner_exact_def)
  have own: "NFTOwner s' = (NFTOwner s)(t := (NFTOwner s t)(i := None))"
    and n: "NFTsInCollection s' = (NFTsInCollection s)(t := NFTsInCollection s t - 1)"
      "NumberOfNFTs s' = (NumberOfNFTs s)(t := (NumberOfNFTs s t)(pid_did pid := NumberOfNFTs s t (pid_did pid) - 1))"
    and keep: "CollectionTicker s' = CollectionTicker s" "CollectionKeys s' = CollectionKeys s" "Tokens s' = Tokens s"
      "AssetMetadataGlobalKeyToName s' = AssetMetadataGlobalKeyToName s"
      "AssetMetadataLocalKeyToName s' = AssetMetadataLocalKeyToName s"
    and nxt: "NextNFTId s' = NextNFTId s"
    and meta: "MetadataValue s' = (MetadataValue s)((c, i) := Map.empty)"
    by (auto simp: s')
  have "nft_counts_exact s'"
    by (rule nft_counts_remove [OF _ old own n]) (use good in \<open>simp add: nft_good_def\<close>)
  moreover have "nft_owner_exact s'"
    using good old unfolding nft_good_def nft_owner_exact_def by (auto simp: s')
  moreover have "collections_exact s'" using good by (simp add: nft_good_def collections_exact_def s')
  moreover have "tokens_in_collection s'"
    using good unfolding nft_good_def tokens_in_collection_def keep nxt own by (metis fun_upd_apply)
  moreover have "metadata_exact s'"
    unfolding metadata_exact_def keep
  proof (intro allI)
    fix c' i' k
    show "MetadataValue s' (c', i') k \<noteq> None \<longleftrightarrow>
        (\<exists>u. CollectionTicker s u = Some c' \<and> NFTOwner s' u i' \<noteq> None \<and> k \<in> set (CollectionKeys s c'))"
    proof (cases "(c', i') = (c, i)")
      case True
      then show ?thesis using collection_inj [OF good c] by (auto simp: own meta)
    next
      case False
      have "MetadataValue s (c', i') k \<noteq> None \<longleftrightarrow>
        (\<exists>u. CollectionTicker s u = Some c' \<and> NFTOwner s u i' \<noteq> None \<and> k \<in> set (CollectionKeys s c'))"
        using good unfolding nft_good_def metadata_exact_def by blast
      moreover have "CollectionTicker s u = Some c' \<Longrightarrow> NFTOwner s' u i' = NFTOwner s u i'" for u
        using False c by (auto simp: own)
      moreover have "MetadataValue s' (c', i') = MetadataValue s (c', i')" using False by (auto simp: meta)
      ultimately show ?thesis by metis
    qed
  qed
  moreover have "collection_keys_ok s'"
    using good collection_keys_ok_cong [OF keep] by (simp add: nft_good_def)
  ultimately show ?thesis by (simp add: nft_good_def)
qed

section \<open>Transfers\<close>

lemma ownership_valid:
  assumes "validate_nft_ownership cfg s from to nfts = Inr ()"
  shows "from \<noteq> to" "distinct (nfts_ids nfts)" "nfts_ids nfts \<noteq> []" "nfts_len nfts \<le> MaxNumberOfNFTsCount cfg"
    "\<And>i. i \<in> set (nfts_ids nfts) \<Longrightarrow> (nfts_ticker nfts, i) |\<in>| PortfolioNFT s from"
    "\<And>i. i \<in> set (nfts_ids nfts) \<Longrightarrow> (nfts_ticker nfts, i) |\<notin>| PortfolioLockedNFT s from"
    "nfts_len nfts \<le> NumberOfNFTs s (nfts_ticker nfts) (pid_did from)"
    "NumberOfNFTs s (nfts_ticker nfts) (pid_did to) + nfts_len nfts \<le> u64_max"
  using assms
  by (auto simp: validate_nft_ownership_def ensure_within_nfts_transfer_limits_def ensure_no_duplicate_nfts_def
      nfts_len_def length_btree card_distinct res_simps uint_simps Let_def)

lemma fold_move_nft_keep:
  "NumberOfNFTs (fold (move_nft from to t) ids s) = NumberOfNFTs s"
  "NFTsInCollection (fold (move_nft from to t) ids s) = NFTsInCollection s"
  "PortfolioLockedNFT (fold (move_nft from to t) ids s) = PortfolioLockedNFT s"
  "CollectionTicker (fold (move_nft from to t) ids s) = CollectionTicker s"
  "Collection (fold (move_nft from to t) ids s) = Collection s"
  "CollectionKeys (fold (move_nft from to t) ids s) = CollectionKeys s"
  "MetadataValue (fold (move_nft from to t) ids s) = MetadataValue s"
  "NextCollectionId (fold (move_nft from to t) ids s) = NextCollectionId s"
  "NextNFTId (fold (move_nft from to t) ids s) = NextNFTId s"
  by (rule fold_keep, simp add: move_nft_def move_portfolio_owner_def put_defs)+

lemma nfts_transfer_owner:
  assumes own: "nft_owner_exact s" and val: "validate_nft_ownership cfg s from to nfts = Inr ()"
  defines "t \<equiv> nfts_ticker nfts" and "s' \<equiv> unverified_nfts_transfer from to nfts s"
  shows "nft_owner_exact s'"
    and "NFTOwner s' = (NFTOwner s)(t := (\<lambda>i. if i \<in> set (nfts_ids nfts) then Some to else NFTOwner s t i))"
proof -
  obtain n1 n2 where s': "s' = fold (move_nft from to t) (nfts_ids nfts)
      (put_number_of_nfts t (pid_did to) n2 (put_number_of_nfts t (pid_did from) n1 s))" (is "_ = fold _ _ ?s")
    unfolding s'_def unverified_nfts_transfer_def t_def Let_def by blast
  have o: "nft_owner_exact ?s" "NFTOwner ?s = NFTOwner s"
    using own by (simp_all add: nft_owner_exact_def put_number_of_nfts_def)
  have "\<forall>i \<in> set (nfts_ids nfts). NFTOwner s t i \<in> {Some from, Some to}"
    using ownership_valid(5) [OF val] own unfolding t_def nft_owner_exact_def by blast
  from fold_move_nft_owner [OF o(1), unfolded o(2), OF this] show "nft_owner_exact s'"
    "NFTOwner s' = (NFTOwner s)(t := (\<lambda>i. if i \<in> set (nfts_ids nfts) then Some to else NFTOwner s t i))"
    unfolding s' by blast+
qed

lemma nfts_transfer_counts:
  assumes ex: "nft_counts_exact s" and own: "nft_owner_exact s"
    and val: "validate_nft_ownership cfg s from to nfts = Inr ()"
  shows "nft_counts_exact (unverified_nfts_transfer from to nfts s)"
    and "NumberOfNFTs (unverified_nfts_transfer from to nfts s) = (let t = nfts_ticker nfts; n = nfts_len nfts;
      f = (NumberOfNFTs s t)(pid_did from := NumberOfNFTs s t (pid_did from) - n)
      in (NumberOfNFTs s)(t := f(pid_did to := f (pid_did to) + n)))"
proof -
  let ?s' = "unverified_nfts_transfer from to nfts s"
  let ?t = "nfts_ticker nfts" let ?n = "nfts_len nfts" let ?I = "set (nfts_ids nfts)"
  note v = ownership_valid [OF val]
  note o' = nfts_transfer_owner(2) [OF own val]
  have ex: "finite (dom (NFTOwner s u))" "NFTsInCollection s u = card (dom (NFTOwner s u))"
    "card (dom (NFTOwner s u)) \<le> u64_max" "NumberOfNFTs s u d = card (owned_by s u d)" for u d
    using ex unfolding nft_counts_exact_def by blast+
  have held: "NFTOwner s ?t i = Some from" if "i \<in> ?I" for i
    using v(5) [OF that] own by (simp add: nft_owner_exact_def)
  have fin: "finite (owned_by s ?t d)" for d by (rule finite_subset [OF _ ex(1) [of ?t]]) (auto simp: owned_by_def)
  have n: "?n = card ?I" using v(2) by (simp add: nfts_len_def distinct_card)
  have sub: "?I \<subseteq> owned_by s ?t (pid_did from)" using held by (auto simp: owned_by_def)
  have le: "NumberOfNFTs s ?t d \<le> u64_max" for d
  proof -
    have "card (owned_by s ?t d) \<le> card (dom (NFTOwner s ?t))" by (rule card_mono [OF ex(1)]) (auto simp: owned_by_def)
    then show ?thesis using ex(3) [of ?t] by (simp add: ex(4))
  qed
  have num: "NumberOfNFTs ?s' = (let f = (NumberOfNFTs s ?t)(pid_did from := NumberOfNFTs s ?t (pid_did from) - ?n)
      in (NumberOfNFTs s)(?t := f(pid_did to := f (pid_did to) + ?n)))"
    using v(7,8) le
    by (auto simp: unverified_nfts_transfer_def Let_def fold_move_nft_keep put_number_of_nfts_def
        wrapping_sub_exact wrapping_add_exact fun_eq_iff)
  then show "NumberOfNFTs ?s' = (let t = nfts_ticker nfts; n = nfts_len nfts;
      f = (NumberOfNFTs s t)(pid_did from := NumberOfNFTs s t (pid_did from) - n)
      in (NumberOfNFTs s)(t := f(pid_did to := f (pid_did to) + n)))" by (simp add: Let_def)
  have all: "NFTsInCollection ?s' = NFTsInCollection s"
    by (simp add: unverified_nfts_transfer_def Let_def fold_move_nft_keep put_number_of_nfts_def)
  have dom: "dom (NFTOwner ?s' u) = dom (NFTOwner s u)" for u using held by (auto simp: o' dom_def)
  have other: "owned_by ?s' u d = owned_by s u d" if "u \<noteq> ?t" for u d using that by (simp add: owned_by_def o')
  have here: "owned_by ?s' ?t d = (if d = pid_did to then owned_by s ?t d \<union> ?I
      else if d = pid_did from then owned_by s ?t d - ?I else owned_by s ?t d)" for d
    using held by (auto simp: owned_by_def o')
  have "NumberOfNFTs ?s' ?t d = card (owned_by ?s' ?t d)" for d
  proof (cases "pid_did from = pid_did to")
    case True
    then have "owned_by ?s' ?t d = owned_by s ?t d" using sub by (auto simp: here)
    then show ?thesis using True v(7) by (simp add: num Let_def ex(4))
  next
    case False
    have "owned_by s ?t (pid_did to) \<inter> ?I = {}" using False held by (auto simp: owned_by_def)
    then show ?thesis
      using False sub n by (simp add: num Let_def here ex(4) card_Un_disjoint fin card_Diff_subset)
  qed
  moreover have "NumberOfNFTs ?s' u d = card (owned_by ?s' u d)" if "u \<noteq> ?t" for u d
    using that by (simp add: num Let_def other ex(4))
  ultimately have "NumberOfNFTs ?s' u d = card (owned_by ?s' u d)" for u d by (cases "u = ?t") auto
  then show "nft_counts_exact ?s'" unfolding nft_counts_exact_def all dom using ex(1-3) by blast
qed

lemma nfts_transfer_view:
  "(CollectionTicker (unverified_nfts_transfer from to nfts s), Collection (unverified_nfts_transfer from to nfts s),
    CollectionKeys (unverified_nfts_transfer from to nfts s), MetadataValue (unverified_nfts_transfer from to nfts s),
    NextCollectionId (unverified_nfts_transfer from to nfts s), NextNFTId (unverified_nfts_transfer from to nfts s)) =
   (CollectionTicker s, Collection s, CollectionKeys s, MetadataValue s, NextCollectionId s, NextNFTId s)"
  by (simp add: unverified_nfts_transfer_def Let_def fold_move_nft_keep put_number_of_nfts_def)

lemma nfts_transfer_frame:
  "forget_portfolio (unverified_nfts_transfer from to nfts s) =
     forget_portfolio (s\<lparr>NumberOfNFTs := NumberOfNFTs (unverified_nfts_transfer from to nfts s)\<rparr>)"
proof -
  have f: "forget_portfolio (fold (move_nft from to t) ids u) = forget_portfolio u" for t ids u
    by (rule fold_keep) (simp add: move_nft_def)
  show ?thesis
    by (simp add: unverified_nfts_transfer_def Let_def f fold_move_nft_keep)
      (simp add: put_number_of_nfts_def forget_portfolio_def)
qed

lemma nfts_transfer_good:
  assumes good: "nft_good s" and val: "validate_nft_ownership cfg s from to nfts = Inr ()"
  shows "nft_good (unverified_nfts_transfer from to nfts s)"
proof -
  let ?s' = "unverified_nfts_transfer from to nfts s" let ?t = "nfts_ticker nfts"
  have own: "nft_owner_exact s" using good by (simp add: nft_good_def)
  note o' = nfts_transfer_owner [OF own val]
  have held: "NFTOwner s ?t i = Some from" if "i \<in> set (nfts_ids nfts)" for i
    using ownership_valid(5) [OF val that] own by (simp add: nft_owner_exact_def)
  have none: "NFTOwner ?s' u i = None \<longleftrightarrow> NFTOwner s u i = None" for u i using held by (auto simp: o'(2))
  have keep: "CollectionTicker ?s' = CollectionTicker s" "Collection ?s' = Collection s"
    "CollectionKeys ?s' = CollectionKeys s" "MetadataValue ?s' = MetadataValue s"
    "NextCollectionId ?s' = NextCollectionId s" "NextNFTId ?s' = NextNFTId s"
    using nfts_transfer_view [of "from" to nfts s] by simp_all
  have assets: "Tokens ?s' = Tokens s" "AssetMetadataGlobalKeyToName ?s' = AssetMetadataGlobalKeyToName s"
    "AssetMetadataLocalKeyToName ?s' = AssetMetadataLocalKeyToName s"
    using arg_cong [OF nfts_transfer_frame, of Tokens] arg_cong [OF nfts_transfer_frame, of AssetMetadataGlobalKeyToName]
      arg_cong [OF nfts_transfer_frame, of AssetMetadataLocalKeyToName] by (simp_all add: forget_portfolio_def)
  have "nft_counts_exact ?s'" using nfts_transfer_counts(1) [OF _ own val] good by (simp add: nft_good_def)
  moreover have "collection_keys_ok ?s'"
    using good collection_keys_ok_cong [OF keep(1,3) assets] by (simp add: nft_good_def)
  ultimately show ?thesis
    using good o'(1)
    unfolding nft_good_def collections_exact_def tokens_in_collection_def metadata_exact_def keep none by blast
qed

section \<open>Collections\<close>

lemma create_collection_good:
  assumes good: "nft_good s" and free: "CollectionTicker s t = None" and c: "c = NextCollectionId s + 1"
    and keys: "distinct keys" "list_all (check_asset_metadata_key_exists s t) keys" "nft_asset s t = Some True"
  shows "nft_good (put_collection c t keys (s\<lparr>NextCollectionId := c\<rparr>))" (is "nft_good ?s")
proof -
  have ex: "CollectionTicker s u = Some d \<longleftrightarrow> Collection s d = Some \<lparr>collection_id = d, collection_ticker = u\<rparr>"
    "Collection s d \<noteq> None \<Longrightarrow> d \<le> NextCollectionId s" for u d
    using good unfolding nft_good_def collections_exact_def by blast+
  have new: "Collection s c = None" "CollectionTicker s u \<noteq> Some c" for u
  proof -
    show "Collection s c = None" using ex(2) [of c] c by (cases "Collection s c") auto
    then show "CollectionTicker s u \<noteq> Some c" using ex(1) [of u c] by simp
  qed
  have same: "check_asset_metadata_key_exists ?s = check_asset_metadata_key_exists s" "nft_asset ?s = nft_asset s"
    by (auto simp: fun_eq_iff check_asset_metadata_key_exists_def nft_asset_def put_collection_def
        split: AssetMetadataKey.splits)
  have "collections_exact ?s"
    unfolding collections_exact_def
  proof (intro conjI allI impI)
    show "CollectionTicker ?s u = Some d \<longleftrightarrow> Collection ?s d = Some \<lparr>collection_id = d, collection_ticker = u\<rparr>" for u d
      using ex(1) [of u d] new(2) [of u] new(1) free ex(1) [of t d] by (auto simp: put_collection_def)
    show "d \<le> NextCollectionId ?s" if "Collection ?s d \<noteq> None" for d
      using that ex(2) [of d] c by (auto simp: put_collection_def split: if_splits)
  qed
  moreover have none: "NFTOwner s t i = None" for i
    using good free unfolding nft_good_def tokens_in_collection_def by (metis option.distinct(1))
  moreover have "tokens_in_collection ?s"
    using good none unfolding nft_good_def tokens_in_collection_def by (auto simp: put_collection_def)
  moreover have "metadata_exact ?s"
  proof -
    have meta: "MetadataValue s (d, i) k \<noteq> None \<longleftrightarrow>
        (\<exists>u. CollectionTicker s u = Some d \<and> NFTOwner s u i \<noteq> None \<and> k \<in> set (CollectionKeys s d))" for d i k
      using good unfolding nft_good_def metadata_exact_def by blast
    have "MetadataValue s (d, i) k \<noteq> None \<longleftrightarrow>
        (\<exists>u. CollectionTicker ?s u = Some d \<and> NFTOwner s u i \<noteq> None \<and> k \<in> set (CollectionKeys ?s d))" for d i k
    proof (cases "d = c")
      case True
      then show ?thesis using meta [of d i k] none new(2) by (auto simp: put_collection_def)
    next
      case False
      have "CollectionTicker ?s u = Some d \<longleftrightarrow> CollectionTicker s u = Some d" for u
        using False free by (simp add: put_collection_def)
      then show ?thesis using meta [of d i k] False by (simp add: put_collection_def)
    qed
    then show ?thesis by (simp add: metadata_exact_def put_collection_def)
  qed
  moreover have "collection_keys_ok ?s"
    using good keys new(2) unfolding nft_good_def collection_keys_ok_def same by (auto simp: put_collection_def)
  moreover have "nft_counts_exact ?s" "nft_owner_exact ?s"
    using good by (simp_all add: nft_good_def nft_counts_exact_def owned_by_def nft_owner_exact_def put_collection_def)
  ultimately show ?thesis by (simp add: nft_good_def)
qed


text \<open>Operations of the asset pallet do not touch tokens; what they may change are types and keys.\<close>

definition token_holdings where
  "token_holdings s = (token_view s, PortfolioNFT s, NFTOwner s)"

definition key_names where
  "key_names s = (AssetMetadataGlobalKeyToName s, AssetMetadataLocalKeyToName s)"

lemma key_names_exists:
  "key_names s' = key_names s \<Longrightarrow> check_asset_metadata_key_exists s' = check_asset_metadata_key_exists s"
  by (auto simp: key_names_def fun_eq_iff check_asset_metadata_key_exists_def split: AssetMetadataKey.splits)

lemma nft_good_cong:
  assumes "nft_good s" "token_holdings s' = token_holdings s" "keys_kept s s'"
  shows "nft_good s'"
proof (rule nft_good_same_holders [OF assms(1)])
  have "PortfolioNFT s' = PortfolioNFT s" and own: "NFTOwner s' = NFTOwner s"
    using assms(2) by (simp_all add: token_holdings_def)
  then show "nft_owner_exact s'" using assms(1) by (simp add: nft_good_def nft_owner_exact_def)
  show "map_option pid_did (NFTOwner s' t i) = map_option pid_did (NFTOwner s t i)" for t i by (simp add: own)
qed (use assms(2,3) in \<open>simp_all add: token_holdings_def\<close>)

lemmas holdings_defs = token_holdings_def token_view_def

lemma token_holdings_put [simp]:
  "token_holdings (commit_token_did d s) = token_holdings s"
  "token_holdings (put_token t tok s) = token_holdings s"
  "token_holdings (put_relation d t r s) = token_holdings s"
  "token_holdings (unverified_update_idents t idents s) = token_holdings s"
  "token_holdings (unverified_register_ticker t d e s) = token_holdings s"
  "token_holdings (finish_registration t s) = token_holdings s"
  "key_names (commit_token_did d s) = key_names s"
  "key_names (put_token t tok s) = key_names s"
  "key_names (put_relation d t r s) = key_names s"
  "key_names (unverified_update_idents t idents s) = key_names s"
  "key_names (unverified_register_ticker t d e s) = key_names s"
  "key_names (finish_registration t s) = key_names s"
  by (auto simp: holdings_defs key_names_def commit_token_did_def put_token_def put_relation_def unverified_update_idents_def
      unverified_register_ticker_def finish_registration_def put_ticker_def Let_def split: option.splits)

lemma registration_put [simp]:
  "Tokens (commit_token_did d s) = Tokens s" "Tokens (put_relation d t r s) = Tokens s"
  "Tokens (unverified_update_idents t idents s) = Tokens s" "Tokens (unverified_register_ticker t d e s) = Tokens s"
  "Tokens (finish_registration t s) = Tokens s" "Tokens (put_token t tok s) = (Tokens s)(t \<mapsto> tok)"
  by (auto simp: commit_token_did_def put_relation_def unverified_update_idents_def put_token_def
      unverified_register_ticker_def finish_registration_def put_ticker_def Let_def split: option.splits)

lemma commit_asset_frame:
  assumes "commit_asset did name t divis ty idents fround available token_did s = Inr s'"
  shows "token_holdings s' = token_holdings s" "key_names s' = key_names s"
    "Tokens s' = (Tokens s)(t \<mapsto> \<lparr>total_supply = 0, owner_did = did, divisible = divis, asset_type = ty\<rparr>)"
proof -
  let ?tok = "\<lparr>total_supply = 0, owner_did = did, divisible = divis, asset_type = ty\<rparr>"
  define s2 where "s2 = (if available then unverified_register_ticker t did None (commit_token_did token_did s)
    else finish_registration t (commit_token_did token_did s))"
  define s5 where "s5 = put_relation did t AssetOwned ((put_token t ?tok s2)\<lparr>AssetNames :=
    (AssetNames (put_token t ?tok s2))(t \<mapsto> name)\<rparr>)"
  define s7 where "s7 = unverified_update_idents t idents
    (case fround of Some fr \<Rightarrow> s5\<lparr>FundingRound := (FundingRound s5)(t := fr)\<rparr> | None \<Rightarrow> s5)"
  have add: "unchecked_add_agent t did Full s7 = Inr s'"
    using assms unfolding commit_asset_def Let_def s2_def [symmetric] s5_def [symmetric] s7_def [symmetric]
    by (auto split: sum.splits)
  have "token_holdings s2 = token_holdings s" "key_names s2 = key_names s" "Tokens s2 = Tokens s"
    by (simp_all add: s2_def)
  then have "token_holdings s5 = token_holdings s" "key_names s5 = key_names s" "Tokens s5 = (Tokens s)(t \<mapsto> ?tok)"
    by (simp_all add: s5_def) (simp_all add: holdings_defs key_names_def put_token_def)
  then have "token_holdings s7 = token_holdings s" "key_names s7 = key_names s" "Tokens s7 = (Tokens s)(t \<mapsto> ?tok)"
    by (simp_all add: s7_def split: option.splits) (simp_all add: holdings_defs key_names_def)
  with add show "token_holdings s' = token_holdings s" "key_names s' = key_names s" "Tokens s' = (Tokens s)(t \<mapsto> ?tok)"
    by (simp_all add: unchecked_add_agent_Inr holdings_defs key_names_def)
qed

lemma create_asset_frame:
  assumes "base_create_asset cfg origin name t divis ty idents fround s = Inr s'"
  obtains did where "token_holdings s' = token_holdings s" "key_names s' = key_names s" "Tokens s t = None"
    "Tokens s' = (Tokens s)(t \<mapsto> \<lparr>total_supply = 0, owner_did = did, divisible = divis, asset_type = ty\<rparr>)"
proof -
  obtain did ops s1 available where fee: "charge_fees cfg ops s = Inr s1" and new: "Tokens s t = None"
    and com: "commit_asset did name t divis ty idents fround available (get_token_did cfg t) s1 = Inr s'"
    using assms
    by (auto simp: base_create_asset_def unsafe_create_asset_def ensure_create_asset_parameters_def
        ensure_asset_fresh_def attempt_Inr_iff ensure_Inr_iff Let_def)
  have b: "forget_books s1 = forget_books s" using fee by (rule charge_fees_books)
  have "token_holdings s1 = token_holdings s" "key_names s1 = key_names s" "Tokens s1 = Tokens s"
    using arg_cong [OF b, of token_holdings] arg_cong [OF b, of key_names] arg_cong [OF b, of Tokens]
    by (simp_all add: forget_books_def forget_schedules_def holdings_defs key_names_def)
  then show thesis using that [OF _ _ new] commit_asset_frame [OF com] by simp
qed

lemma keys_kept_create:
  assumes "key_names s' = key_names s" "Tokens s t = None" "Tokens s' = (Tokens s)(t \<mapsto> tok)"
  shows "keys_kept s s'"
  using assms key_names_exists [OF assms(1)] by (simp add: keys_kept_def nft_asset_def)

lemma each_ok_keys:
  "ensure_collection_keys cfg s t keys = Inr () \<Longrightarrow> list_all (check_asset_metadata_key_exists s t) (btree keys)"
  by (auto simp: ensure_collection_keys_def list_all_iff res_simps)

lemma base_create_nft_collection_good:
  assumes "base_create_nft_collection cfg origin t nft_type keys s = Inr s'" and good: "nft_good s"
  shows "nft_good s'"
proof -
  obtain create did s1 where call: "collection_caller s origin t = Inr (create, did)"
    and free: "CollectionTicker s t = None" and keys: "ensure_collection_keys cfg s t keys = Inr ()"
    and mk: "(if create then attempt (ok_or nft_type (NftError InvalidAssetType)) (\<lambda>ty.
        base_create_asset cfg origin (map char_of (ticker_bytes t)) t False (NonFungible ty) [] None s) else Inr s) = Inr s1"
    and s': "s' = put_collection (NextCollectionId s1 + 1) t (btree keys) (s1\<lparr>NextCollectionId := NextCollectionId s1 + 1\<rparr>)"
    using assms(1)
    by (auto simp: base_create_nft_collection_def attempt_Inr_iff ensure_Inr_iff try_next_pre_Inr)
  have "nft_good s1 \<and> CollectionTicker s1 t = None \<and> key_names s1 = key_names s \<and> nft_asset s1 t = Some True"
  proof (cases create)
    case True
    then obtain ty where "base_create_asset cfg origin (map char_of (ticker_bytes t)) t False (NonFungible ty) [] None s
        = Inr s1"
      using mk by (auto simp: attempt_Inr_iff)
    then obtain d where c: "token_holdings s1 = token_holdings s" "key_names s1 = key_names s" "Tokens s t = None"
      "Tokens s1 = (Tokens s)(t \<mapsto> \<lparr>total_supply = 0, owner_did = d, divisible = False, asset_type = NonFungible ty\<rparr>)"
      by (rule create_asset_frame)
    have "CollectionTicker s1 = CollectionTicker s" using c(1) by (simp add: holdings_defs)
    then show ?thesis
      using nft_good_cong [OF good c(1) keys_kept_create [OF c(2-4)]] c free
      by (simp add: nft_asset_def is_non_fungible_def)
  next
    case False
    have "nft_asset s t = Some True"
      using call False by (auto simp: collection_caller_def attempt_Inr_iff ensure_Inr_iff split: option.splits)
    then show ?thesis using mk False good free by simp
  qed
  moreover have "list_all (check_asset_metadata_key_exists s1 t) (btree keys)"
    using each_ok_keys [OF keys] key_names_exists [of s1 s] calculation by simp
  ultimately show ?thesis unfolding s' by (intro create_collection_good) simp_all
qed

section \<open>The pallet as a transition system\<close>

text \<open>
  The steps are the extrinsics of the NFT pallet, the transfers the settlement engine asks for, the
  operations of the portfolio pallet, the operations of the asset pallet that change the type of an
  asset or remove a key, and whatever else leaves tokens, types and keys alone.
\<close>

inductive nft_step ::
  "'c nft_config_scheme \<Rightarrow> 'a assets_store_scheme \<Rightarrow> 'a assets_store_scheme \<Rightarrow> bool" for cfg where
  create: "base_create_nft_collection cfg origin t ty keys s = Inr s' \<Longrightarrow> nft_step cfg s s'"
| issue: "base_issue_nft origin t as kind s = Inr s' \<Longrightarrow> nft_step cfg s s'"
| redeem: "base_redeem_nft origin t i kind s = Inr s' \<Longrightarrow> nft_step cfg s s'"
| transfer: "base_nft_transfer cfg from to nfts (m, s) = Inr (m', s') \<Longrightarrow> nft_step cfg s s'"
| controller: "nft_controller_transfer cfg origin t nfts from kind s = Inr s' \<Longrightarrow> nft_step cfg s s'"
| portfolio: "portfolio_step cfg s s' \<Longrightarrow> nft_step cfg s s'"
| create_asset: "base_create_asset cfg origin name t divis aty idents fround s = Inr s' \<Longrightarrow> nft_step cfg s s'"
| asset_type: "base_update_asset_type origin t aty s = Inr s' \<Longrightarrow> nft_step cfg s s'"
| remove_key: "base_remove_local_metadata_key origin t lk s = Inr s' \<Longrightarrow> nft_step cfg s s'"
| elsewhere: "token_holdings s' = token_holdings s \<Longrightarrow> keys_kept s s' \<Longrightarrow> nft_step cfg s s'"

lemma update_asset_type_kept:
  assumes "base_update_asset_type origin t ty s = Inr s'"
  shows "token_holdings s' = token_holdings s" "keys_kept s s'"
proof -
  obtain token where tok: "Tokens s t = Some token" "is_fungible (asset_type token) = is_fungible ty"
    and s': "s' = put_token t (token\<lparr>asset_type := ty\<rparr>) s"
    using assms by (auto simp: base_update_asset_type_def attempt_Inr_iff ensure_Inr_iff ok_or_Inr_iff)
  show "token_holdings s' = token_holdings s" by (simp add: s' holdings_defs put_token_def)
  have "is_non_fungible ty = is_non_fungible (asset_type token)"
    using tok(2) by (simp add: is_non_fungible_def is_fungible_def split: AssetType.splits)
  then show "keys_kept s s'"
    using key_names_exists [of s' s] tok(1) by (auto simp: s' keys_kept_def nft_asset_def key_names_def put_token_def)
qed

lemma remove_key_kept:
  assumes "base_remove_local_metadata_key origin t lk s = Inr s'"
  shows "token_holdings s' = token_holdings s" "keys_kept s s'"
proof -
  have free: "\<not> is_collection_key s t (Local lk)"
    and s': "token_holdings s' = token_holdings s" "Tokens s' = Tokens s"
      "AssetMetadataGlobalKeyToName s' = AssetMetadataGlobalKeyToName s"
      "AssetMetadataLocalKeyToName s' = (AssetMetadataLocalKeyToName s)(t := (AssetMetadataLocalKeyToName s t)(lk := None))"
    using assms
    by (auto simp: base_remove_local_metadata_key_def attempt_Inr_iff ensure_Inr_iff Let_def holdings_defs
        put_metadata_detail_def put_metadata_value_def)
  show "token_holdings s' = token_holdings s" by (rule s')
  have "check_asset_metadata_key_exists s' u k"
    if "CollectionTicker s u = Some c" "k \<in> set (CollectionKeys s c)" "check_asset_metadata_key_exists s u k" for u c k
  proof (cases k)
    case (Local n)
    then have "\<not> (u = t \<and> n = lk)" using free that(1,2) by (auto simp: is_collection_key_def List.member_iff)
    then show ?thesis using that(3) Local by (auto simp: check_asset_metadata_key_exists_def s'(4))
  qed (use that(3) in \<open>simp add: check_asset_metadata_key_exists_def s'(3)\<close>)
  then show "keys_kept s s'" by (auto simp: keys_kept_def nft_asset_def s'(2))
qed

lemma nft_step_good:
  assumes "nft_step cfg s s'" and good: "nft_good s"
  shows "nft_good s'"
  using assms(1)
proof cases
  case (create origin t ty keys)
  then show ?thesis using good by (rule base_create_nft_collection_good)
next
  case (issue origin t as kind)
  then show ?thesis using good by (rule base_issue_nft_good)
next
  case (redeem origin t i kind)
  then show ?thesis using good by (rule base_redeem_nft_good)
next
  case (transfer "from" to nfts m m')
  then show ?thesis
    using nfts_transfer_good [OF good]
    by (auto simp: base_nft_transfer_def validate_nft_transfer_def attempt_Inr_iff ensure_Inr_iff)
next
  case (controller origin t nfts "from" kind)
  then show ?thesis
    using nfts_transfer_good [OF good] by (auto simp: nft_controller_transfer_def attempt_Inr_iff)
next
  case portfolio
  then show ?thesis using good by (rule portfolio_step_nft_good)
next
  case (create_asset origin name t divis aty idents fround)
  then show ?thesis
    by (rule create_asset_frame) (rule nft_good_cong [OF good], assumption, rule keys_kept_create)
next
  case (asset_type origin t aty)
  then show ?thesis using nft_good_cong [OF good] update_asset_type_kept by blast
next
  case (remove_key origin t lk)
  then show ?thesis using nft_good_cong [OF good] remove_key_kept by blast
next
  case elsewhere
  then show ?thesis using nft_good_cong [OF good] by blast
qed

interpretation nft_system: invariant_system "nft_step cfg" nft_good
  by unfold_locales (rule nft_step_good)

end
