(* ===== verification/Settlement_Locks.thy ===== *)
theory Settlement_Locks
  imports Settlement NFT_Theorems
begin

text \<open>
  How the settlement pallet uses the locks of portfolios. Tokens and non-fungible tokens are treated
  alike, as amounts under a lock key; a leg demands amounts from its sending portfolio, and locking or
  unlocking it changes exactly these amounts.
\<close>

section \<open>Amounts under lock\<close>

datatype lock_key = TokenKey Ticker | NftKey Ticker NFTId

definition locked :: "'a portfolio_store_scheme \<Rightarrow> PortfolioId \<Rightarrow> lock_key \<Rightarrow> nat" where
  "locked s p k =
     (case k of
        TokenKey t \<Rightarrow> PortfolioLockedAssets s p t
      | NftKey t n \<Rightarrow> if (t, n) |\<in>| PortfolioLockedNFT s p then 1 else 0)"

definition nft_demand :: "Ticker \<Rightarrow> NFTId list \<Rightarrow> lock_key \<Rightarrow> nat" where
  "nft_demand t ids k = (case k of NftKey u n \<Rightarrow> if u = t then count_list ids n else 0 | _ \<Rightarrow> 0)"

definition demand :: "Leg \<Rightarrow> PortfolioId \<Rightarrow> lock_key \<Rightarrow> nat" where
  "demand leg p k =
     (case leg of
        FungibleLeg from _ t a \<Rightarrow> if p = from \<and> k = TokenKey t then a else 0
      | NonFungibleLeg from _ nfts \<Rightarrow> if p = from then nft_demand (nfts_ticker nfts) (nfts_ids nfts) k else 0
      | OffChainLeg _ _ _ _ \<Rightarrow> 0)"

definition legs_demand :: "(LegId \<times> Leg) list \<Rightarrow> PortfolioId \<Rightarrow> lock_key \<Rightarrow> nat" where
  "legs_demand legs p k = (\<Sum>l\<leftarrow>legs. demand (snd l) p k)"

lemma legs_demand_simps [simp]:
  "legs_demand [] p k = 0" "legs_demand (l # legs) p k = demand (snd l) p k + legs_demand legs p k"
  by (simp_all add: legs_demand_def)

text \<open>The state but for the locks.\<close>

definition forget_locks :: "'a portfolio_store_scheme \<Rightarrow> 'a portfolio_store_scheme" where
  "forget_locks s = s\<lparr>PortfolioLockedAssets := (\<lambda>_ _. 0), PortfolioLockedNFT := (\<lambda>_. {||})\<rparr>"

lemma forget_locks_put [simp]: "forget_locks (put_locked p t v s) = forget_locks s"
  by (simp add: forget_locks_def put_locked_def)

lemma locked_put [simp]: "locked (put_locked p t v s) = (locked s)(p := (locked s p)(TokenKey t := v))"
  by (auto simp: locked_def put_locked_def fun_eq_iff split: lock_key.splits)

lemma forget_locks_nft:
  "lock_nft p t n s = Inr s' \<Longrightarrow> forget_locks s' = forget_locks s"
  "unlock_nft p t n s = Inr s' \<Longrightarrow> forget_locks s' = forget_locks s"
  by (auto simp: forget_locks_def lock_nft_def unlock_nft_def res_simps)

lemma locked_lock_nft:
  "lock_nft p t n s = Inr s' \<Longrightarrow> locked s' q k = locked s q k + (if q = p then nft_demand t [n] k else 0)"
  by (cases "q = p"; cases k) (auto simp: lock_nft_def res_simps locked_def nft_demand_def)

lemma unlock_nft_iff:
  "is_ok (unlock_nft p t n s) \<longleftrightarrow> 1 \<le> locked s p (NftKey t n)"
  by (simp add: unlock_nft_def ensure_def locked_def is_ok_def)

lemma locked_unlock_nft:
  "unlock_nft p t n s = Inr s' \<Longrightarrow> locked s q k = locked s' q k + (if q = p then nft_demand t [n] k else 0)"
  by (cases "q = p"; cases k) (auto simp: unlock_nft_def res_simps locked_def nft_demand_def)

lemma nft_demand_Cons [simp]: "nft_demand t (n # ids) k = (if k = NftKey t n then 1 else 0) + nft_demand t ids k"
  by (auto simp: nft_demand_def split: lock_key.splits)

lemma nft_demand_Nil [simp]: "nft_demand t [] k = 0"
  by (simp add: nft_demand_def split: lock_key.splits)

lemma fold_lock_nft:
  assumes "fold_res (lock_nft p t) ids s = Inr s'" and "portfolio_inv s"
  shows "forget_locks s' = forget_locks s \<and> portfolio_inv s' \<and>
    (\<forall>q k. locked s' q k = locked s q k + (if q = p then nft_demand t ids k else 0))"
  using assms
proof (induction ids arbitrary: s)
  case (Cons n ids)
  then obtain s1 where s1: "lock_nft p t n s = Inr s1" "fold_res (lock_nft p t) ids s1 = Inr s'"
    by (auto simp: attempt_Inr_iff)
  show ?case
    using Cons.IH [OF s1(2) lock_nft_inv [OF Cons.prems(2) s1(1)]] forget_locks_nft(1) [OF s1(1)]
      locked_lock_nft [OF s1(1)] by auto
qed simp

lemma fold_unlock_nft:
  assumes "fold_res (unlock_nft p t) ids s = Inr s'" and "portfolio_inv s"
  shows "forget_locks s' = forget_locks s \<and> portfolio_inv s' \<and>
    (\<forall>q k. locked s q k = locked s' q k + (if q = p then nft_demand t ids k else 0))"
  using assms
proof (induction ids arbitrary: s)
  case (Cons n ids)
  then obtain s1 where s1: "unlock_nft p t n s = Inr s1" "fold_res (unlock_nft p t) ids s1 = Inr s'"
    by (auto simp: attempt_Inr_iff)
  show ?case
    using Cons.IH [OF s1(2) unlock_nft_inv [OF Cons.prems(2) s1(1)]] forget_locks_nft(2) [OF s1(1)]
      locked_unlock_nft [OF s1(1)] by auto
qed simp

lemma fold_unlock_nft_ok:
  assumes "\<And>n. nft_demand t ids (NftKey t n) \<le> locked s p (NftKey t n)"
  shows "is_ok (fold_res (unlock_nft p t) ids s)"
  using assms
proof (induction ids arbitrary: s)
  case (Cons n ids)
  have "1 \<le> locked s p (NftKey t n)" using Cons.prems [of n] by (simp add: nft_demand_def)
  then obtain s1 where s1: "unlock_nft p t n s = Inr s1" using unlock_nft_iff by (metis is_ok_iff)
  have "nft_demand t ids (NftKey t m) \<le> locked s1 p (NftKey t m)" for m
    using Cons.prems [of m] locked_unlock_nft [OF s1, of p "NftKey t m"] by simp
  then show ?case using Cons.IH s1 by simp
qed simp

section \<open>Locking and unlocking a leg\<close>

lemma lock_via_leg_effect:
  assumes "lock_via_leg leg s = Inr s'" and "portfolio_inv s"
  shows "forget_locks s' = forget_locks s \<and> portfolio_inv s' \<and>
    (\<forall>p k. locked s' p k = locked s p k + demand leg p k)"
proof (cases leg)
  case (FungibleLeg "from" to t a)
  then have l: "lock_tokens from t a s = Inr s'" using assms(1) by (simp add: lock_via_leg_def)
  then show ?thesis
    using lock_tokens_inv [OF assms(2) l] lock_tokens_Inr [OF assms(2)] FungibleLeg
    by (auto simp: demand_def locked_def)
next
  case (NonFungibleLeg "from" to nfts)
  then have l: "fold_res (lock_nft from (nfts_ticker nfts)) (nfts_ids nfts) s = Inr s'"
    using assms(1) by (simp add: lock_via_leg_def)
  show ?thesis using fold_lock_nft [OF l assms(2)] NonFungibleLeg by (simp add: demand_def)
qed (use assms in \<open>simp add: lock_via_leg_def\<close>)

lemma unlock_via_leg_effect:
  assumes "unlock_via_leg leg s = Inr s'" and "portfolio_inv s"
  shows "forget_locks s' = forget_locks s \<and> portfolio_inv s' \<and>
    (\<forall>p k. locked s p k = locked s' p k + demand leg p k)"
proof (cases leg)
  case (FungibleLeg "from" to t a)
  then have l: "unlock_tokens from t a s = Inr s'" using assms(1) by (simp add: unlock_via_leg_def)
  then show ?thesis
    using unlock_tokens_inv [OF assms(2) l] FungibleLeg
    by (auto simp: unlock_tokens_Inr demand_def locked_def)
next
  case (NonFungibleLeg "from" to nfts)
  then have l: "fold_res (unlock_nft from (nfts_ticker nfts)) (nfts_ids nfts) s = Inr s'"
    using assms(1) by (simp add: unlock_via_leg_def)
  show ?thesis using fold_unlock_nft [OF l assms(2)] NonFungibleLeg by (simp add: demand_def)
qed (use assms in \<open>simp add: unlock_via_leg_def\<close>)

lemma unlock_via_leg_ok:
  assumes "\<not> is_off_chain leg" and "\<And>p k. demand leg p k \<le> locked s p k"
  shows "is_ok (unlock_via_leg leg s)"
proof (cases leg)
  case (FungibleLeg "from" to t a)
  then show ?thesis
    using assms(2) [of "from" "TokenKey t"] by (simp add: unlock_via_leg_def unlock_tokens_def demand_def locked_def Let_def)
next
  case (NonFungibleLeg "from" to nfts)
  have "nft_demand (nfts_ticker nfts) (nfts_ids nfts) (NftKey (nfts_ticker nfts) n) \<le>
      locked s from (NftKey (nfts_ticker nfts) n)" for n
    using assms(2) [of "from" "NftKey (nfts_ticker nfts) n"] NonFungibleLeg by (simp add: demand_def)
  then have "is_ok (fold_res (unlock_nft from (nfts_ticker nfts)) (nfts_ids nfts) s)" by (rule fold_unlock_nft_ok)
  then show ?thesis using NonFungibleLeg by (simp add: unlock_via_leg_def)
qed (use assms in \<open>simp add: is_off_chain_def\<close>)

lemma locks_determine:
  assumes "forget_locks s' = forget_locks s" "locked s' = locked s"
  shows "s' = s"
proof -
  have "PortfolioLockedAssets s' p t = PortfolioLockedAssets s p t" for p t
    using fun_cong [OF fun_cong [OF assms(2), of p], of "TokenKey t"] by (simp add: locked_def)
  moreover have "k |\<in>| PortfolioLockedNFT s' p \<longleftrightarrow> k |\<in>| PortfolioLockedNFT s p" for p k
    using fun_cong [OF fun_cong [OF assms(2), of p], of "NftKey (fst k) (snd k)"]
    by (auto simp: locked_def split: if_splits)
  ultimately have "PortfolioLockedAssets s' = PortfolioLockedAssets s" "PortfolioLockedNFT s' = PortfolioLockedNFT s"
    by (auto simp: fun_eq_iff fset_eq_iff)
  moreover have "x = (forget_locks x)\<lparr>PortfolioLockedAssets := PortfolioLockedAssets x,
      PortfolioLockedNFT := PortfolioLockedNFT x\<rparr>" for x :: "'a portfolio_store_scheme"
    by (simp add: forget_locks_def)
  ultimately show ?thesis using assms(1) by metis
qed

lemma ledger_inv_locks:
  assumes "ledger_inv s" "portfolio_inv s'" "PortfolioAssetBalances s' = PortfolioAssetBalances s"
    "BalanceOf s' = BalanceOf s" "Tokens s' = Tokens s"
  shows "ledger_inv s'"
proof -
  have "did_total s' = did_total s" "portfolio_total s' = portfolio_total s" "asset_supply s' = asset_supply s"
    using assms(3,5)
    by (simp_all add: fun_eq_iff did_total_def portfolio_total_def asset_supply_def token_details_def)
  then show ?thesis using assms(1,2,4) unfolding ledger_inv_def by metis
qed

section \<open>The legs of a portfolio\<close>

definition sender_in :: "PortfolioId list \<Rightarrow> LegId \<times> Leg \<Rightarrow> bool" where
  "sender_in ps l =
     (case snd l of
        FungibleLeg from _ _ _ \<Rightarrow> from \<in> set ps
      | NonFungibleLeg from _ _ \<Rightarrow> from \<in> set ps
      | OffChainLeg _ _ _ _ \<Rightarrow> False)"

lemma sender_subset_filter [simp]: "sender_subset (filter_sender legs ps) = filter (sender_in ps) legs"
proof -
  have "sender_subset (fold (filter_leg ps) legs f) = sender_subset f @ filter (sender_in ps) legs" for f
  proof (induction legs arbitrary: f)
    case (Cons x legs)
    obtain l leg where "x = (l, leg)" by (cases x)
    then show ?case using Cons by (cases leg) (simp_all add: sender_in_def)
  qed simp
  then show ?thesis by (simp add: filter_sender_def)
qed

lemma unfiltered_count_filter [simp]: "unfiltered_asset_count (filter_sender legs ps) = from_legs legs"
proof -
  have "unfiltered_asset_count (fold (filter_leg ps) legs f) = unfiltered_asset_count f" for f
  proof (induction legs arbitrary: f)
    case (Cons x legs)
    obtain l leg where "x = (l, leg)" by (cases x)
    then show ?case using Cons by (cases leg) simp_all
  qed simp
  then show ?thesis by (simp add: filter_sender_def)
qed

lemma demand_sender: "demand leg p k \<noteq> 0 \<Longrightarrow> sender_in ps (l, leg) \<longleftrightarrow> p \<in> set ps"
  by (auto simp: demand_def sender_in_def split: Leg.splits if_splits)

lemma legs_demand_filter:
  "legs_demand (filter (sender_in ps) legs) p k = (if p \<in> set ps then legs_demand legs p k else 0)"
proof (induction legs)
  case (Cons x legs)
  then show ?case using demand_sender [of "snd x" p k ps "fst x"] by (cases "demand (snd x) p k = 0") auto
qed simp

lemma legs_demand_perm: "mset legs' = mset legs \<Longrightarrow> legs_demand legs' p k = legs_demand legs p k"
  unfolding legs_demand_def sum_mset_sum_list [symmetric] mset_map by simp

lemma lock_leg_Inr:
  "lock_leg i (l, leg) s = Inr s' \<longleftrightarrow>
     (\<exists>s1. lock_via_leg leg s = Inr s1 \<and> s' = put_leg_status i l ExecutionPending s1)"
  by (auto simp: lock_leg_def attempt_Inr_iff)

lemma fold_lock_leg:
  assumes "fold_res (lock_leg i) legs s = Inr s'" and "portfolio_inv s"
  shows "forget_locks s' = forget_locks (s\<lparr>InstructionLegStatus := (InstructionLegStatus s)(i :=
      (\<lambda>l. if l \<in> fst ` set legs then ExecutionPending else InstructionLegStatus s i l))\<rparr>) \<and>
    portfolio_inv s' \<and> (\<forall>p k. locked s' p k = locked s p k + legs_demand legs p k)"
  using assms
proof (induction legs arbitrary: s)
  case Nil
  then show ?case by (simp add: forget_locks_def)
next
  case (Cons x legs)
  obtain l leg where x: "x = (l, leg)" by (cases x)
  obtain s1 where s1: "lock_via_leg leg s = Inr s1"
    and s2: "fold_res (lock_leg i) legs (put_leg_status i l ExecutionPending s1) = Inr s'"
    using Cons.prems(1) x by (auto simp: lock_leg_Inr attempt_Inr_iff)
  note e = lock_via_leg_effect [OF s1 Cons.prems(2)]
  let ?s1 = "put_leg_status i l ExecutionPending s1"
  have inv: "portfolio_inv ?s1"
    using e portfolio_inv_cong [of ?s1 s1] by (simp add: put_leg_status_def view_defs)
  have same: "InstructionLegStatus s1 = InstructionLegStatus s"
    using arg_cong [OF conjunct1 [OF e], of InstructionLegStatus] by (simp add: forget_locks_def)
  have loc: "locked ?s1 = locked s1" by (simp add: locked_def fun_eq_iff put_leg_status_def split: lock_key.splits)
  have "forget_locks (?s1\<lparr>InstructionLegStatus := f\<rparr>) = (forget_locks s1)\<lparr>InstructionLegStatus := f\<rparr>" for f
    by (simp add: forget_locks_def put_leg_status_def)
  moreover have "forget_locks (s\<lparr>InstructionLegStatus := f\<rparr>) = (forget_locks s)\<lparr>InstructionLegStatus := f\<rparr>" for f
    by (simp add: forget_locks_def)
  moreover have "(InstructionLegStatus ?s1)(i := (\<lambda>m. if m \<in> fst ` set legs then ExecutionPending
      else InstructionLegStatus ?s1 i m)) = (InstructionLegStatus s)(i := (\<lambda>m. if m \<in> fst ` set (x # legs)
      then ExecutionPending else InstructionLegStatus s i m))"
    by (auto simp: put_leg_status_def same x fun_eq_iff)
  ultimately show ?case using Cons.IH [OF s2 inv] e x by (simp add: loc)
qed

end
