(* ===== verification/Settlement_Theorems.thy ===== *)
theory Settlement_Theorems
  imports Settlement_Locks
begin

text \<open>
  The invariant of the settlement pallet and that its operations keep it. For every instruction the
  count of pending affirmations is the number of portfolios, legs outside the chain and mediators that
  have still to affirm, and the status of a leg follows the affirmation of its sender. Over all
  instructions, what the affirmed portfolios deliver is locked in them.
\<close>

section \<open>The invariant\<close>

definition leg_parties :: "Leg \<Rightarrow> PortfolioId set" where
  "leg_parties leg =
     (case leg of
        FungibleLeg from to _ _ \<Rightarrow> {from, to}
      | NonFungibleLeg from to _ \<Rightarrow> {from, to}
      | OffChainLeg _ _ _ _ \<Rightarrow> {})"

definition parties :: "(LegId \<times> Leg) list \<Rightarrow> PortfolioId set" where
  "parties legs = (\<Union>l \<in> set legs. leg_parties (snd l))"

definition lock_status :: "AffirmationStatus \<Rightarrow> LegStatus" where
  "lock_status a = (if a = AffirmationStatus.Affirmed then ExecutionPending else PendingTokenLock)"

definition leg_ok ::
  "(PortfolioId \<Rightarrow> AffirmationStatus) \<Rightarrow> AffirmationStatus \<Rightarrow> LegStatus \<Rightarrow> Leg \<Rightarrow> bool" where
  "leg_ok user off status leg =
     (case leg of
        FungibleLeg from _ _ _ \<Rightarrow> status = lock_status (user from)
      | NonFungibleLeg from _ _ \<Rightarrow> status = lock_status (user from)
      | OffChainLeg _ _ _ _ \<Rightarrow>
          if off = AffirmationStatus.Affirmed then \<exists>k u. status = ExecutionToBeSkipped k u
          else status = PendingTokenLock)"

definition pending_parties :: "'a settlement_store_scheme \<Rightarrow> InstructionId \<Rightarrow> nat" where
  "pending_parties s i =
     card {p. UserAffirmations s p i = AffirmationStatus.Pending} +
     card {l. OffChainAffirmations s i l = AffirmationStatus.Pending} +
     card {d. mediator_status s i d = MediatorAffirmationStatus.Pending}"

definition all_parties :: "'a settlement_store_scheme \<Rightarrow> InstructionId \<Rightarrow> nat" where
  "all_parties s i =
     card (parties (InstructionLegs s i)) + length (InstructionLegs s i) +
     length (InstructionMediatorsAffirmations s i)"

definition legs_ok :: "'a settlement_store_scheme \<Rightarrow> InstructionId \<Rightarrow> bool" where
  "legs_ok s i \<longleftrightarrow> distinct (map fst (InstructionLegs s i)) \<and>
     (\<forall>(l, leg) \<in> set (InstructionLegs s i).
        leg_ok (\<lambda>p. UserAffirmations s p i) (OffChainAffirmations s i l) (InstructionLegStatus s i l) leg)"

definition affirmations_ok :: "'a settlement_store_scheme \<Rightarrow> InstructionId \<Rightarrow> bool" where
  "affirmations_ok s i \<longleftrightarrow>
     (\<forall>p. UserAffirmations s p i \<noteq> AffirmationStatus.Unknown \<longleftrightarrow> p \<in> parties (InstructionLegs s i)) \<and>
     (\<forall>p. AffirmsReceived s i p = (if UserAffirmations s p i = AffirmationStatus.Affirmed
        then AffirmationStatus.Affirmed else AffirmationStatus.Unknown)) \<and>
     (\<forall>l. OffChainAffirmations s i l \<noteq> AffirmationStatus.Unknown \<longleftrightarrow>
        (\<exists>leg. (l, leg) \<in> set (InstructionLegs s i) \<and> is_off_chain leg))"

definition mediators_ok :: "'a settlement_store_scheme \<Rightarrow> InstructionId \<Rightarrow> bool" where
  "mediators_ok s i \<longleftrightarrow> distinct (map fst (InstructionMediatorsAffirmations s i)) \<and>
     (\<forall>x \<in> set (InstructionMediatorsAffirmations s i). snd x \<noteq> MediatorAffirmationStatus.Unknown)"

text \<open>The counter is an unsigned 64-bit number; the parties of an instruction are fewer than it can count.\<close>

definition count_ok :: "'a settlement_store_scheme \<Rightarrow> InstructionId \<Rightarrow> bool" where
  "count_ok s i \<longleftrightarrow> InstructionAffirmsPending s i = pending_parties s i \<and> all_parties s i \<le> u64_max"

text \<open>Nothing is stored for the numbers that have not been given to an instruction.\<close>

definition fresh_ok :: "'a settlement_store_scheme \<Rightarrow> InstructionId \<Rightarrow> bool" where
  "fresh_ok s i \<longleftrightarrow> (InstructionCounter s \<le> i \<longrightarrow> InstructionLegs s i = [] \<and>
     InstructionMediatorsAffirmations s i = [] \<and> InstructionLegStatus s i = (\<lambda>_. PendingTokenLock))"

definition instruction_ok :: "'a settlement_store_scheme \<Rightarrow> InstructionId \<Rightarrow> bool" where
  "instruction_ok s i \<longleftrightarrow> legs_ok s i \<and> affirmations_ok s i \<and> mediators_ok s i \<and> count_ok s i \<and> fresh_ok s i"

definition escrow_of :: "'a settlement_store_scheme \<Rightarrow> InstructionId \<Rightarrow> PortfolioId \<Rightarrow> lock_key \<Rightarrow> nat" where
  "escrow_of s i p k =
     (if UserAffirmations s p i = AffirmationStatus.Affirmed then legs_demand (InstructionLegs s i) p k else 0)"

definition escrow :: "'a settlement_store_scheme \<Rightarrow> PortfolioId \<Rightarrow> lock_key \<Rightarrow> nat" where
  "escrow s p k = (\<Sum>i < InstructionCounter s. escrow_of s i p k)"

text \<open>
  Other pallets lock tokens in the same portfolios. What they hold there is a parameter \<open>R\<close> of the
  invariant: the locks cover it next to what the instructions hold, and no operation of the settlement
  pallet touches it.
\<close>

definition settle_inv :: "(PortfolioId \<Rightarrow> lock_key \<Rightarrow> nat) \<Rightarrow> 'a settlement_store_scheme \<Rightarrow> bool" where
  "settle_inv R s \<longleftrightarrow> (\<forall>i. instruction_ok s i) \<and> (\<forall>p k. escrow s p k + R p k \<le> locked s p k)"

definition settle_good :: "(PortfolioId \<Rightarrow> lock_key \<Rightarrow> nat) \<Rightarrow> 'a settlement_store_scheme \<Rightarrow> bool" where
  "settle_good R s \<longleftrightarrow> ledger_inv s \<and> settle_inv R s"

section \<open>Changing one instruction\<close>

definition instruction_view where
  "instruction_view s i =
     (InstructionLegs s i, (\<lambda>p. UserAffirmations s p i), InstructionLegStatus s i, AffirmsReceived s i,
      OffChainAffirmations s i, InstructionMediatorsAffirmations s i, InstructionAffirmsPending s i)"

lemmas instruction_ok_defs = instruction_ok_def legs_ok_def affirmations_ok_def mediators_ok_def count_ok_def fresh_ok_def

lemma instruction_view_fields:
  assumes "instruction_view s' i = instruction_view s i"
  shows "InstructionLegs s' i = InstructionLegs s i" "UserAffirmations s' p i = UserAffirmations s p i"
    "InstructionLegStatus s' i = InstructionLegStatus s i" "AffirmsReceived s' i = AffirmsReceived s i"
    "OffChainAffirmations s' i = OffChainAffirmations s i"
    "InstructionMediatorsAffirmations s' i = InstructionMediatorsAffirmations s i"
    "InstructionAffirmsPending s' i = InstructionAffirmsPending s i" "mediator_status s' i = mediator_status s i"
  using assms by (auto simp: instruction_view_def mediator_status_def fun_eq_iff)

lemma instruction_ok_cong:
  assumes "instruction_view s' i = instruction_view s i" "InstructionCounter s \<le> InstructionCounter s'"
    and "instruction_ok s i"
  shows "instruction_ok s' i"
  using assms(2,3) instruction_view_fields [OF assms(1)]
  by (simp add: instruction_ok_defs pending_parties_def all_parties_def)

lemma escrow_of_cong: "instruction_view s' i = instruction_view s i \<Longrightarrow> escrow_of s' i = escrow_of s i"
  using instruction_view_fields [of s' i s] by (simp add: escrow_of_def fun_eq_iff)

lemma escrow_of_fresh: "instruction_ok s i \<Longrightarrow> InstructionCounter s \<le> i \<Longrightarrow> escrow_of s i p k = 0"
  by (simp add: instruction_ok_defs escrow_of_def)

lemma escrow_upd:
  fixes s s' :: "'a settlement_store_scheme"
  assumes ok: "\<And>j. instruction_ok s j" "instruction_ok s' i"
    and same: "\<And>j. j \<noteq> i \<Longrightarrow> instruction_view s' j = instruction_view s j"
    and "InstructionCounter s' = InstructionCounter s"
  shows "escrow s' p k + escrow_of s i p k = escrow s p k + escrow_of s' i p k"
proof (cases "i < InstructionCounter s")
  case True
  have "escrow x p k = escrow_of x i p k + (\<Sum>j \<in> {..<InstructionCounter s} - {i}. escrow_of x j p k)"
    if "InstructionCounter x = InstructionCounter s" for x :: "'a settlement_store_scheme"
    unfolding escrow_def that using True by (subst sum.remove [of _ i]) auto
  moreover have "(\<Sum>j \<in> {..<InstructionCounter s} - {i}. escrow_of s' j p k) =
      (\<Sum>j \<in> {..<InstructionCounter s} - {i}. escrow_of s j p k)"
    by (rule sum.cong) (simp_all add: escrow_of_cong [OF same])
  ultimately show ?thesis using assms(4) by simp
next
  case False
  then have "escrow_of s i p k = 0" "escrow_of s' i p k = 0"
    using escrow_of_fresh ok assms(4) by (metis linorder_not_less)+
  moreover have "escrow s' p k = escrow s p k"
    unfolding escrow_def assms(4) using False by (intro sum.cong) (auto simp: escrow_of_cong [OF same])
  ultimately show ?thesis by simp
qed

lemma settle_inv_upd:
  fixes s s' :: "'a settlement_store_scheme"
  assumes inv: "settle_inv R s"
    and same: "\<And>j. j \<noteq> i \<Longrightarrow> instruction_view s' j = instruction_view s j"
    and cnt: "InstructionCounter s' = InstructionCounter s" and ok: "instruction_ok s' i"
    and lock: "\<And>p k. escrow_of s' i p k + locked s p k \<le> locked s' p k + escrow_of s i p k"
  shows "settle_inv R s'"
proof -
  have oks: "instruction_ok s j" for j using inv by (simp add: settle_inv_def)
  have "instruction_ok s' j" for j
    using ok instruction_ok_cong [OF same, of j] oks cnt by (cases "j = i") simp_all
  moreover have "escrow s' p k + R p k \<le> locked s' p k" for p k
  proof -
    have "escrow s p k + R p k \<le> locked s p k" using inv by (simp add: settle_inv_def)
    then show ?thesis using escrow_upd [OF oks ok same cnt, of p k] lock [of p k] by linarith
  qed
  ultimately show ?thesis by (simp add: settle_inv_def)
qed

lemma settle_inv_cong:
  fixes s s' :: "'a settlement_store_scheme"
  assumes "settle_inv R s" "\<And>j. instruction_view s' j = instruction_view s j"
    and "InstructionCounter s' = InstructionCounter s" "\<And>p k. locked s p k \<le> locked s' p k"
  shows "settle_inv R s'"
proof (rule settle_inv_upd [OF assms(1), of 0])
  show "instruction_ok s' 0" using instruction_ok_cong [OF assms(2)] assms(1,3) by (simp add: settle_inv_def)
  show "escrow_of s' 0 p k + locked s p k \<le> locked s' p k + escrow_of s 0 p k" for p k
    using assms(4) [of p k] by (simp add: escrow_of_cong [OF assms(2)])
qed (use assms in auto)

section \<open>Affirming\<close>

lemma forget_locks_sel [simp]:
  fixes s :: "'a settlement_store_scheme"
  shows "InstructionLegs (forget_locks s) = InstructionLegs s" "UserAffirmations (forget_locks s) = UserAffirmations s"
    "InstructionLegStatus (forget_locks s) = InstructionLegStatus s"
    "AffirmsReceived (forget_locks s) = AffirmsReceived s" "OffChainAffirmations (forget_locks s) = OffChainAffirmations s"
    "InstructionMediatorsAffirmations (forget_locks s) = InstructionMediatorsAffirmations s"
    "InstructionAffirmsPending (forget_locks s) = InstructionAffirmsPending s"
    "InstructionCounter (forget_locks s) = InstructionCounter s" "InstructionDetails (forget_locks s) = InstructionDetails s"
    "InstructionStatuses (forget_locks s) = InstructionStatuses s" "ReceiptsUsed (forget_locks s) = ReceiptsUsed s"
    "Agenda (forget_locks s) = Agenda s" "PortfolioAssetBalances (forget_locks s) = PortfolioAssetBalances s"
    "BalanceOf (forget_locks s) = BalanceOf s" "Tokens (forget_locks s) = Tokens s"
    "block_number (forget_locks s) = block_number s" "timestamp (forget_locks s) = timestamp s"
    "settlement_store.more (forget_locks s) = settlement_store.more s"
  by (simp_all add: forget_locks_def)

lemma same_but_locks:
  fixes s s' :: "'a settlement_store_scheme"
  assumes "forget_locks s' = forget_locks s"
  shows "InstructionLegs s' = InstructionLegs s" "UserAffirmations s' = UserAffirmations s"
    "InstructionLegStatus s' = InstructionLegStatus s" "AffirmsReceived s' = AffirmsReceived s"
    "OffChainAffirmations s' = OffChainAffirmations s"
    "InstructionMediatorsAffirmations s' = InstructionMediatorsAffirmations s"
    "InstructionAffirmsPending s' = InstructionAffirmsPending s" "InstructionCounter s' = InstructionCounter s"
    "InstructionDetails s' = InstructionDetails s" "InstructionStatuses s' = InstructionStatuses s"
    "ReceiptsUsed s' = ReceiptsUsed s" "Agenda s' = Agenda s" "PortfolioAssetBalances s' = PortfolioAssetBalances s"
    "BalanceOf s' = BalanceOf s" "Tokens s' = Tokens s" "block_number s' = block_number s" "timestamp s' = timestamp s"
    "settlement_store.more s' = settlement_store.more s"
  using assms by (metis forget_locks_sel)+

text \<open>The affirmations of the portfolios \<open>ps\<close> become \<open>a\<close>, what is recorded as received becomes \<open>r\<close>.\<close>

definition with_affirmations ::
  "InstructionId \<Rightarrow> PortfolioId list \<Rightarrow> AffirmationStatus \<Rightarrow> AffirmationStatus \<Rightarrow> 'a settlement_store_scheme
    \<Rightarrow> 'a settlement_store_scheme" where
  "with_affirmations i ps a r s = s\<lparr>
     UserAffirmations := (\<lambda>p j. if j = i \<and> p \<in> set ps then a else UserAffirmations s p j),
     AffirmsReceived := (\<lambda>j p. if j = i \<and> p \<in> set ps then r else AffirmsReceived s j p)\<rparr>"

lemma with_affirmations_Nil [simp]: "with_affirmations i [] a r s = s"
  by (simp add: with_affirmations_def)

lemma with_affirmations_Cons:
  "with_affirmations i ps a r (put_affirms_received i p r (put_user_affirmation p i a s)) =
     with_affirmations i (p # ps) a r s"
  unfolding with_affirmations_def put_affirms_received_def put_user_affirmation_def
  by (auto simp: fun_eq_iff)

lemma fold_mark:
  "fold (mark_affirmed i) ps s = with_affirmations i ps AffirmationStatus.Affirmed AffirmationStatus.Affirmed s"
  "fold (mark_withdrawn i) ps s = with_affirmations i ps AffirmationStatus.Pending AffirmationStatus.Unknown s"
  by (induction ps arbitrary: s) (simp_all add: mark_affirmed_def mark_withdrawn_def with_affirmations_Cons)

definition with_leg_status ::
  "InstructionId \<Rightarrow> LegId set \<Rightarrow> LegStatus \<Rightarrow> 'a settlement_store_scheme \<Rightarrow> 'a settlement_store_scheme" where
  "with_leg_status i L v s = s\<lparr>InstructionLegStatus := (InstructionLegStatus s)(i :=
      (\<lambda>l. if l \<in> L then v else InstructionLegStatus s i l))\<rparr>"

definition sent_legs :: "'a settlement_store_scheme \<Rightarrow> InstructionId \<Rightarrow> PortfolioId list \<Rightarrow> LegId set" where
  "sent_legs s i ps = fst ` set (filter (sender_in ps) (InstructionLegs s i))"

definition demand_of :: "'a settlement_store_scheme \<Rightarrow> InstructionId \<Rightarrow> PortfolioId list \<Rightarrow> PortfolioId \<Rightarrow> lock_key \<Rightarrow> nat" where
  "demand_of s i ps p k = (if p \<in> set ps then legs_demand (InstructionLegs s i) p k else 0)"

lemma portfolios_affirmation_status:
  "ensure_portfolios_and_affirmation_status s i ps did sk [a] = Inr u \<Longrightarrow> \<forall>p \<in> set ps. UserAffirmations s p i = a"
  by (auto simp: ensure_portfolios_and_affirmation_status_def res_simps)

lemma forget_locks_with [simp]:
  "forget_locks (put_pending i n s) = put_pending i n (forget_locks s)"
  "forget_locks (with_affirmations i ps a r s) = with_affirmations i ps a r (forget_locks s)"
  "forget_locks (with_leg_status i L v s) = with_leg_status i L v (forget_locks s)"
  by (simp_all add: forget_locks_def put_pending_def with_affirmations_def with_leg_status_def cong: if_cong)

lemma locked_with [simp]:
  "locked (put_pending i n s) = locked s" "locked (with_affirmations i ps a r s) = locked s"
  "locked (with_leg_status i L v s) = locked s"
  by (auto simp: locked_def fun_eq_iff put_pending_def with_affirmations_def with_leg_status_def split: lock_key.splits)

lemma portfolio_inv_with [simp]:
  "portfolio_inv (put_pending i n s) = portfolio_inv s" "portfolio_inv (with_affirmations i ps a r s) = portfolio_inv s"
  "portfolio_inv (with_leg_status i L v s) = portfolio_inv s"
  by (rule portfolio_inv_cong, simp add: view_defs put_pending_def with_affirmations_def with_leg_status_def)+

lemma unsafe_affirm_effect:
  assumes "unsafe_affirm_instruction did i ps sk c s = Inr (f, s')" and "portfolio_inv s"
  shows "f = filtered_legs s i ps" "\<forall>p \<in> set ps. UserAffirmations s p i = AffirmationStatus.Pending" "portfolio_inv s'"
    and "locked s' p k = locked s p k + demand_of s i ps p k"
    and "forget_locks s' = forget_locks (put_pending i (InstructionAffirmsPending s i - length ps)
      (with_affirmations i ps AffirmationStatus.Affirmed AffirmationStatus.Affirmed
        (with_leg_status i (sent_legs s i ps) ExecutionPending s)))"
proof -
  obtain s1 where ok: "ensure_portfolios_and_affirmation_status s i ps did sk [AffirmationStatus.Pending] = Inr ()"
    and f: "f = filtered_legs s i ps"
    and lock: "fold_res (lock_leg i) (filter (sender_in ps) (InstructionLegs s i)) s = Inr s1"
    and s': "s' = put_pending i (InstructionAffirmsPending s1 i - length ps)
      (with_affirmations i ps AffirmationStatus.Affirmed AffirmationStatus.Affirmed s1)"
    using assms(1)
    by (auto simp: unsafe_affirm_instruction_def attempt_Inr_iff Let_def filtered_legs_def fold_mark)
  have e: "forget_locks s1 = forget_locks (with_leg_status i (sent_legs s i ps) ExecutionPending s)" "portfolio_inv s1"
    "locked s1 p k = locked s p k + demand_of s i ps p k" for p k
    using fold_lock_leg [OF lock assms(2)]
    by (simp_all add: with_leg_status_def sent_legs_def demand_of_def legs_demand_filter)
  show "f = filtered_legs s i ps" by (rule f)
  show "\<forall>p \<in> set ps. UserAffirmations s p i = AffirmationStatus.Pending" by (rule portfolios_affirmation_status [OF ok])
  show "portfolio_inv s'" using e(2) by (simp add: s')
  show "locked s' p k = locked s p k + demand_of s i ps p k" using e(3) by (simp add: s')
  have "InstructionAffirmsPending s1 = InstructionAffirmsPending s"
    using same_but_locks(7) [OF e(1)] by (simp add: with_leg_status_def)
  then show "forget_locks s' = forget_locks (put_pending i (InstructionAffirmsPending s i - length ps)
      (with_affirmations i ps AffirmationStatus.Affirmed AffirmationStatus.Affirmed
        (with_leg_status i (sent_legs s i ps) ExecutionPending s)))" by (simp add: s' e(1))
qed

lemma finite_parties: "finite (parties legs)"
  by (auto simp: parties_def leg_parties_def split: Leg.splits)

lemma finite_pending:
  assumes "affirmations_ok s i"
  shows "finite {p. UserAffirmations s p i = AffirmationStatus.Pending}"
    and "finite {l. OffChainAffirmations s i l = AffirmationStatus.Pending}"
    and "{p. UserAffirmations s p i = AffirmationStatus.Pending} \<subseteq> parties (InstructionLegs s i)"
    and "{l. OffChainAffirmations s i l = AffirmationStatus.Pending} \<subseteq> fst ` set (InstructionLegs s i)"
proof -
  have u: "UserAffirmations s p i = AffirmationStatus.Pending \<Longrightarrow> p \<in> parties (InstructionLegs s i)" for p
    using assms unfolding affirmations_ok_def by (metis AffirmationStatus.distinct(1))
  have o: "OffChainAffirmations s i l = AffirmationStatus.Pending \<Longrightarrow> l \<in> fst ` set (InstructionLegs s i)" for l
    using assms unfolding affirmations_ok_def by (metis AffirmationStatus.distinct(1) fst_conv image_eqI)
  show "{p. UserAffirmations s p i = AffirmationStatus.Pending} \<subseteq> parties (InstructionLegs s i)"
    "{l. OffChainAffirmations s i l = AffirmationStatus.Pending} \<subseteq> fst ` set (InstructionLegs s i)" using u o by auto
  then show "finite {p. UserAffirmations s p i = AffirmationStatus.Pending}"
    "finite {l. OffChainAffirmations s i l = AffirmationStatus.Pending}"
    using finite_parties finite_subset by blast+
qed

lemma off_chain_leg:
  assumes "legs_ok s i" "affirmations_ok s i" "(l, leg) \<in> set (InstructionLegs s i)"
  shows "OffChainAffirmations s i l \<noteq> AffirmationStatus.Unknown \<longleftrightarrow> is_off_chain leg"
  using assms eq_key_imp_eq_value [of "InstructionLegs s i" l leg]
  unfolding legs_ok_def affirmations_ok_def by metis

lemma in_sent_legs:
  assumes "legs_ok s i" "(l, leg) \<in> set (InstructionLegs s i)"
  shows "l \<in> sent_legs s i ps \<longleftrightarrow> sender_in ps (l, leg)"
proof
  assume "l \<in> sent_legs s i ps"
  then obtain leg' where l: "(l, leg') \<in> set (InstructionLegs s i)" "sender_in ps (l, leg')" by (auto simp: sent_legs_def)
  then have "leg' = leg" using assms eq_key_imp_eq_value unfolding legs_ok_def by metis
  then show "sender_in ps (l, leg)" using l by simp
qed (use assms in \<open>force simp: sent_legs_def\<close>)

lemma affirmations_ok_upd:
  assumes "affirmations_ok s i" "InstructionLegs s' i = InstructionLegs s i"
    and "\<And>p. UserAffirmations s' p i = AffirmationStatus.Unknown \<longleftrightarrow> UserAffirmations s p i = AffirmationStatus.Unknown"
    and "\<And>l. OffChainAffirmations s' i l = AffirmationStatus.Unknown \<longleftrightarrow> OffChainAffirmations s i l = AffirmationStatus.Unknown"
    and "\<And>p. AffirmsReceived s' i p = (if UserAffirmations s' p i = AffirmationStatus.Affirmed
        then AffirmationStatus.Affirmed else AffirmationStatus.Unknown)"
  shows "affirmations_ok s' i"
  using assms(1) unfolding affirmations_ok_def assms(2-5) by blast

lemma affirm_ok:
  fixes s s' :: "'a settlement_store_scheme"
  assumes ok: "instruction_ok s i"
    and same: "InstructionLegs s' i = InstructionLegs s i" "InstructionCounter s' = InstructionCounter s"
      "InstructionMediatorsAffirmations s' i = InstructionMediatorsAffirmations s i"
    and user: "\<And>p. UserAffirmations s' p i = (if p \<in> set ps then AffirmationStatus.Affirmed else UserAffirmations s p i)"
    and recv: "\<And>p. AffirmsReceived s' i p = (if p \<in> set ps then AffirmationStatus.Affirmed else AffirmsReceived s i p)"
    and was: "\<forall>p \<in> set ps. UserAffirmations s p i = AffirmationStatus.Pending" "distinct ps"
    and off: "\<And>l. OffChainAffirmations s' i l = (if l \<in> R then AffirmationStatus.Affirmed else OffChainAffirmations s i l)"
    and waso: "\<forall>l \<in> R. OffChainAffirmations s i l = AffirmationStatus.Pending"
    and skip: "\<And>l. l \<in> R \<Longrightarrow> \<exists>k u. InstructionLegStatus s' i l = ExecutionToBeSkipped k u"
    and status: "\<And>l. l \<notin> R \<Longrightarrow> InstructionLegStatus s' i l =
      (if l \<in> sent_legs s i ps then ExecutionPending else InstructionLegStatus s i l)"
    and pend: "InstructionAffirmsPending s' i = InstructionAffirmsPending s i - length ps - card R"
  shows "instruction_ok s' i"
proof -
  have old: "legs_ok s i" "affirmations_ok s i" "mediators_ok s i" "count_ok s i" "fresh_ok s i"
    using ok by (auto simp: instruction_ok_def)
  have "leg_ok (\<lambda>p. UserAffirmations s' p i) (OffChainAffirmations s' i l) (InstructionLegStatus s' i l) leg"
    if l: "(l, leg) \<in> set (InstructionLegs s i)" for l leg
  proof -
    have ok: "leg_ok (\<lambda>p. UserAffirmations s p i) (OffChainAffirmations s i l) (InstructionLegStatus s i l) leg"
      using old(1) l by (auto simp: legs_ok_def)
    have R: "l \<in> R \<Longrightarrow> is_off_chain leg" using waso off_chain_leg [OF old(1,2) l] by force
    have in_sent: "l \<in> sent_legs s i ps \<longleftrightarrow> sender_in ps (l, leg)" by (rule in_sent_legs [OF old(1) l])
    show ?thesis
    proof (cases "l \<in> R")
      case True
      then show ?thesis using R skip [of l] by (auto simp: leg_ok_def is_off_chain_def off split: Leg.splits)
    next
      case False
      then show ?thesis
        using ok in_sent by (cases leg) (auto simp: leg_ok_def off user status sender_in_def lock_status_def)
    qed
  qed
  then have "legs_ok s' i" using old(1) by (auto simp: legs_ok_def same)
  moreover have "affirmations_ok s' i"
  proof (rule affirmations_ok_upd [OF old(2) same(1)])
    show "AffirmsReceived s' i p = (if UserAffirmations s' p i = AffirmationStatus.Affirmed
        then AffirmationStatus.Affirmed else AffirmationStatus.Unknown)" for p
      using old(2) by (simp add: affirmations_ok_def user recv)
  qed (use was waso in \<open>auto simp: user off\<close>)
  moreover have "count_ok s' i"
  proof -
    let ?A = "{p. UserAffirmations s p i = AffirmationStatus.Pending}"
    let ?B = "{l. OffChainAffirmations s i l = AffirmationStatus.Pending}"
    have sub: "set ps \<subseteq> ?A" "R \<subseteq> ?B" using was waso by auto
    note fin = finite_pending(1,2) [OF old(2)]
    have le: "length ps \<le> card ?A" "card R \<le> card ?B"
      using card_mono [OF fin(1) sub(1)] card_mono [OF fin(2) sub(2)] distinct_card [OF was(2)] by simp_all
    have "{p. UserAffirmations s' p i = AffirmationStatus.Pending} = ?A - set ps"
      "{l. OffChainAffirmations s' i l = AffirmationStatus.Pending} = ?B - R" by (auto simp: user off)
    then have "card {p. UserAffirmations s' p i = AffirmationStatus.Pending} = card ?A - length ps"
      "card {l. OffChainAffirmations s' i l = AffirmationStatus.Pending} = card ?B - card R"
      using sub fin by (simp_all add: card_Diff_subset finite_subset distinct_card was(2))
    moreover have "mediator_status s' i = mediator_status s i" by (simp add: mediator_status_def same fun_eq_iff)
    ultimately show ?thesis using old(4) le by (simp add: count_ok_def pending_parties_def all_parties_def same pend)
  qed
  moreover have "fresh_ok s' i"
    using old(5) waso finite_pending(4) [OF old(2)]
    by (fastforce simp: fresh_ok_def same status sent_legs_def)
  ultimately show ?thesis
    using \<open>legs_ok s' i\<close> \<open>affirmations_ok s' i\<close> old(3) by (simp add: instruction_ok_def mediators_ok_def same)
qed

lemmas with_defs = put_pending_def with_affirmations_def with_leg_status_def

lemma settle_goodD:
  assumes "settle_good R s"
  shows "portfolio_inv s" "ledger_inv s" "settle_inv R s" "instruction_ok s i"
  using assms unfolding settle_good_def ledger_inv_def settle_inv_def by blast+

lemma escrow_of_affirm:
  assumes "InstructionLegs s' i = InstructionLegs s i" "\<forall>p \<in> set ps. UserAffirmations s p i = AffirmationStatus.Pending"
    and "UserAffirmations s' p i = (if p \<in> set ps then AffirmationStatus.Affirmed else UserAffirmations s p i)"
  shows "escrow_of s' i p k = escrow_of s i p k + demand_of s i ps p k"
  using assms by (simp add: escrow_of_def demand_of_def)

lemma unsafe_affirm_good:
  assumes "unsafe_affirm_instruction did i ps sk c s = Inr (f, s')" and "distinct ps" and good: "settle_good R s"
  shows "settle_good R s'"
proof -
  note inv = settle_goodD [OF good]
  note e = unsafe_affirm_effect [OF assms(1) inv(1)]
  note fld = same_but_locks [OF e(5), simplified with_defs, simplified]
  have user: "UserAffirmations s' p i = (if p \<in> set ps then AffirmationStatus.Affirmed else UserAffirmations s p i)" for p
    by (simp add: fld)
  have "instruction_ok s' i"
  proof (rule affirm_ok [where ps = ps and R = "{}" and s = s])
    show "instruction_ok s i" using inv(3) by (simp add: settle_inv_def)
    show "\<forall>p \<in> set ps. UserAffirmations s p i = AffirmationStatus.Pending" by (rule e(2))
  qed (simp_all add: fld assms(2))
  moreover have "escrow_of s' i p k + locked s p k \<le> locked s' p k + escrow_of s i p k" for p k
    using escrow_of_affirm [where s = s and s' = s', OF _ e(2) user] by (simp add: fld e(4))
  ultimately have "settle_inv R s'"
    by (intro settle_inv_upd [OF inv(3), of i]) (simp_all add: instruction_view_def fld fun_eq_iff)
  moreover have "ledger_inv s'" using ledger_inv_locks [OF inv(2) e(3)] by (simp add: fld)
  ultimately show ?thesis by (simp add: settle_good_def)
qed

lemma validity_details:
  "ensure_origin_perm_and_instruction_validity s origin i b = Inr (did, sk, details) \<Longrightarrow>
    details = InstructionDetails s i"
  by (auto simp: ensure_origin_perm_and_instruction_validity_def ensure_instruction_validity_def
      attempt_Inr_iff ensure_Inr_iff Let_def)

section \<open>Receipts\<close>

definition receipt_ok ::
  "'c settlement_config_scheme \<Rightarrow> 'a settlement_store_scheme \<Rightarrow> VenueId \<Rightarrow> InstructionId \<Rightarrow> ReceiptDetails \<Rightarrow> bool" where
  "receipt_ok cfg s v i r \<longleftrightarrow> details_instruction r = i \<and> VenueSigners s v (signer r) \<and>
     \<not> ReceiptsUsed s (signer r) (uid r) \<and>
     (\<exists>from to t a. map_of (InstructionLegs s i) (leg_id r) = Some (OffChainLeg from to t a) \<and>
        OffChainAffirmations s i (leg_id r) = AffirmationStatus.Pending \<and>
        verify_receipt cfg (signature r) \<lparr>receipt_uid = uid r, receipt_instruction = i, receipt_leg = leg_id r,
          sender_identity = from, receiver_identity = to, receipt_ticker = t, receipt_amount = a\<rparr> (signer r))"

definition receipt_key :: "ReceiptDetails \<Rightarrow> AccountId \<times> nat" where
  "receipt_key r = (signer r, uid r)"

lemma valid_receipts_from:
  assumes "ensure_valid_receipts_from cfg s v i uids legs rs = Inr u"
  shows "distinct (map leg_id rs) \<and> set (map leg_id rs) \<inter> set legs = {} \<and>
    distinct (map receipt_key rs) \<and> set (map receipt_key rs) \<inter> set uids = {} \<and> (\<forall>r \<in> set rs. receipt_ok cfg s v i r)"
  using assms
proof (induction rs arbitrary: uids legs)
  case (Cons r rs)
  obtain leg where leg: "map_of (InstructionLegs s i) (leg_id r) = Some leg"
    using Cons.prems by (auto simp: attempt_Inr_iff ensure_Inr_iff ok_or_Inr_iff)
  have ok: "receipt_ok cfg s v i r" "leg_id r \<notin> set legs" "receipt_key r \<notin> set uids"
    and rest: "ensure_valid_receipts_from cfg s v i (receipt_key r # uids) (leg_id r # legs) rs = Inr u"
    using Cons.prems leg by (cases leg; auto simp: receipt_ok_def receipt_key_def res_simps)+
  show ?case using Cons.IH [OF rest] ok by auto
qed simp

lemma valid_receipts:
  assumes "ensure_valid_receipts_details cfg s v i rs = Inr u"
  shows "distinct (map leg_id rs)" "distinct (map receipt_key rs)" "\<And>r. r \<in> set rs \<Longrightarrow> receipt_ok cfg s v i r"
  using valid_receipts_from [of cfg s v i "[]" "[]" rs u] assms by (auto simp: ensure_valid_receipts_details_def)

text \<open>The state but for the three maps that claiming a receipt changes.\<close>

definition forget_receipts :: "'a settlement_store_scheme \<Rightarrow> 'a settlement_store_scheme" where
  "forget_receipts s = s\<lparr>InstructionLegStatus := (\<lambda>_ _. PendingTokenLock),
     OffChainAffirmations := (\<lambda>_ _. AffirmationStatus.Unknown), ReceiptsUsed := (\<lambda>_ _. False)\<rparr>"

lemma fold_claim_receipt:
  defines "R rs \<equiv> leg_id ` set rs"
  shows "forget_receipts (fold (claim_receipt i) rs s) = forget_receipts s \<and>
    (\<forall>j. j \<noteq> i \<longrightarrow> InstructionLegStatus (fold (claim_receipt i) rs s) j = InstructionLegStatus s j \<and>
       OffChainAffirmations (fold (claim_receipt i) rs s) j = OffChainAffirmations s j) \<and>
    (\<forall>l. OffChainAffirmations (fold (claim_receipt i) rs s) i l =
       (if l \<in> R rs then AffirmationStatus.Affirmed else OffChainAffirmations s i l)) \<and>
    (\<forall>l. l \<notin> R rs \<longrightarrow> InstructionLegStatus (fold (claim_receipt i) rs s) i l = InstructionLegStatus s i l) \<and>
    (\<forall>l. l \<in> R rs \<longrightarrow> (\<exists>k u. InstructionLegStatus (fold (claim_receipt i) rs s) i l = ExecutionToBeSkipped k u)) \<and>
    (\<forall>k u. ReceiptsUsed (fold (claim_receipt i) rs s) k u \<longleftrightarrow> ReceiptsUsed s k u \<or> (k, u) \<in> receipt_key ` set rs)"
proof (induction rs arbitrary: s)
  case (Cons r rs)
  let ?s = "claim_receipt i r s"
  have c: "forget_receipts ?s = forget_receipts s"
    "InstructionLegStatus ?s = (InstructionLegStatus s)(i := (InstructionLegStatus s i)(leg_id r := ExecutionToBeSkipped (signer r) (uid r)))"
    "OffChainAffirmations ?s = (OffChainAffirmations s)(i := (OffChainAffirmations s i)(leg_id r := AffirmationStatus.Affirmed))"
    "ReceiptsUsed ?s = (ReceiptsUsed s)(signer r := (ReceiptsUsed s (signer r))(uid r := True))"
    by (simp_all add: claim_receipt_def forget_receipts_def put_leg_status_def put_offchain_def Let_def)
  have "\<exists>k u. InstructionLegStatus (fold (claim_receipt i) rs ?s) i (leg_id r) = ExecutionToBeSkipped k u"
    using Cons.IH [of ?s] by (cases "leg_id r \<in> R rs") (auto simp: c)
  then show ?case using Cons.IH [of ?s] by (auto simp: c R_def receipt_key_def)
qed (simp add: R_def)

lemma forget_receipts_sel [simp]:
  "InstructionLegs (forget_receipts s) = InstructionLegs s" "UserAffirmations (forget_receipts s) = UserAffirmations s"
  "AffirmsReceived (forget_receipts s) = AffirmsReceived s"
  "InstructionMediatorsAffirmations (forget_receipts s) = InstructionMediatorsAffirmations s"
  "InstructionAffirmsPending (forget_receipts s) = InstructionAffirmsPending s"
  "InstructionCounter (forget_receipts s) = InstructionCounter s" "InstructionDetails (forget_receipts s) = InstructionDetails s"
  "InstructionStatuses (forget_receipts s) = InstructionStatuses s" "Agenda (forget_receipts s) = Agenda s"
  "PortfolioAssetBalances (forget_receipts s) = PortfolioAssetBalances s" "BalanceOf (forget_receipts s) = BalanceOf s"
  "Tokens (forget_receipts s) = Tokens s" "block_number (forget_receipts s) = block_number s"
  "locked (forget_receipts s) = locked s" "portfolio_view (forget_receipts s) = portfolio_view s"
  by (simp_all add: forget_receipts_def locked_def view_defs fun_eq_iff split: lock_key.splits)

lemma same_but_receipts:
  assumes "forget_receipts s' = forget_receipts s"
  shows "InstructionLegs s' = InstructionLegs s" "UserAffirmations s' = UserAffirmations s"
    "AffirmsReceived s' = AffirmsReceived s"
    "InstructionMediatorsAffirmations s' = InstructionMediatorsAffirmations s"
    "InstructionAffirmsPending s' = InstructionAffirmsPending s" "InstructionCounter s' = InstructionCounter s"
    "InstructionDetails s' = InstructionDetails s" "InstructionStatuses s' = InstructionStatuses s" "Agenda s' = Agenda s"
    "PortfolioAssetBalances s' = PortfolioAssetBalances s" "BalanceOf s' = BalanceOf s" "Tokens s' = Tokens s"
    "block_number s' = block_number s" "locked s' = locked s" "portfolio_inv s' = portfolio_inv s"
  using assms portfolio_inv_cong [of s' s] by (metis forget_receipts_sel)+

definition affirmed_with_receipts ::
  "PortfolioId list \<Rightarrow> ReceiptDetails list \<Rightarrow> InstructionId \<Rightarrow> 'a settlement_store_scheme \<Rightarrow> 'a settlement_store_scheme \<Rightarrow> bool" where
  "affirmed_with_receipts ps rs i s s' \<longleftrightarrow>
     (\<forall>j. InstructionLegs s' j = InstructionLegs s j \<and>
       InstructionMediatorsAffirmations s' j = InstructionMediatorsAffirmations s j \<and>
       (j \<noteq> i \<longrightarrow> InstructionLegStatus s' j = InstructionLegStatus s j \<and>
          OffChainAffirmations s' j = OffChainAffirmations s j \<and>
          InstructionAffirmsPending s' j = InstructionAffirmsPending s j)) \<and>
     (\<forall>j p. UserAffirmations s' p j = (if j = i \<and> p \<in> set ps then AffirmationStatus.Affirmed else UserAffirmations s p j) \<and>
       AffirmsReceived s' j p = (if j = i \<and> p \<in> set ps then AffirmationStatus.Affirmed else AffirmsReceived s j p)) \<and>
     (\<forall>l. OffChainAffirmations s' i l =
        (if l \<in> leg_id ` set rs then AffirmationStatus.Affirmed else OffChainAffirmations s i l)) \<and>
     (\<forall>l \<in> leg_id ` set rs. \<exists>k u. InstructionLegStatus s' i l = ExecutionToBeSkipped k u) \<and>
     (\<forall>l. l \<notin> leg_id ` set rs \<longrightarrow> InstructionLegStatus s' i l =
        (if l \<in> sent_legs s i ps then ExecutionPending else InstructionLegStatus s i l)) \<and>
     InstructionAffirmsPending s' i = InstructionAffirmsPending s i - length ps - length rs \<and>
     (\<forall>p k. locked s' p k = locked s p k + demand_of s i ps p k) \<and>
     (\<forall>k u. ReceiptsUsed s' k u \<longleftrightarrow> ReceiptsUsed s k u \<or> (k, u) \<in> receipt_key ` set rs)"

definition ledger_fields where
  "ledger_fields s = (PortfolioAssetBalances s, BalanceOf s, Tokens s, InstructionCounter s, InstructionDetails s,
     InstructionStatuses s, Agenda s, block_number s)"

lemma base_affirm_with_receipts_effect:
  fixes s s' :: "'a settlement_store_scheme"
  assumes "base_affirm_with_receipts cfg origin i rs portfolios c s = Inr (f, s')" and "portfolio_inv s"
  defines "ps \<equiv> btree portfolios"
  shows "\<forall>p \<in> set ps. UserAffirmations s p i = AffirmationStatus.Pending"
    and "ensure_valid_receipts_details cfg s (venue_id (InstructionDetails s i)) i rs = Inr ()"
    and "portfolio_inv s'" and "ledger_fields s' = ledger_fields s" and "affirmed_with_receipts ps rs i s s'"
    and "f = filtered_legs s i ps"
proof -
  obtain did sk details s1 where val: "ensure_origin_perm_and_instruction_validity s origin i False = Inr (did, sk, details)"
    and ok: "ensure_portfolios_and_affirmation_status s i ps did sk [AffirmationStatus.Pending] = Inr ()"
    and rec: "ensure_valid_receipts_details cfg s (venue_id details) i rs = Inr ()"
    and f: "f = filtered_legs s i ps"
    and lock: "fold_res (lock_leg i) (filter (sender_in ps) (InstructionLegs s i)) s = Inr s1"
    and s': "s' = with_affirmations i ps AffirmationStatus.Affirmed AffirmationStatus.Affirmed
      (fold (claim_receipt i) rs (put_pending i (InstructionAffirmsPending s1 i - length ps - length rs) s1))"
    using assms(1)
    by (auto simp: base_affirm_with_receipts_def attempt_Inr_iff ensure_Inr_iff Let_def filtered_legs_def fold_mark ps_def)
  let ?s2 = "put_pending i (InstructionAffirmsPending s1 i - length ps - length rs) s1"
  let ?s3 = "fold (claim_receipt i) rs ?s2"
  have e: "forget_locks s1 = forget_locks (with_leg_status i (sent_legs s i ps) ExecutionPending s)" "portfolio_inv s1"
    "\<And>p k. locked s1 p k = locked s p k + demand_of s i ps p k"
    using fold_lock_leg [OF lock assms(2)]
    by (simp_all add: with_leg_status_def sent_legs_def demand_of_def legs_demand_filter)
  note l = same_but_locks [OF e(1), simplified with_defs, simplified]
  note c = fold_claim_receipt [of i rs ?s2]
  note r = same_but_receipts [OF conjunct1 [OF c]]
  show "\<forall>p \<in> set ps. UserAffirmations s p i = AffirmationStatus.Pending" by (rule portfolios_affirmation_status [OF ok])
  have "details = InstructionDetails s i" by (rule validity_details [OF val])
  then show "ensure_valid_receipts_details cfg s (venue_id (InstructionDetails s i)) i rs = Inr ()" using rec by simp
  show "portfolio_inv s'" using e(2) r(15) by (simp add: s')
  show "ledger_fields s' = ledger_fields s" using r l by (simp add: s' ledger_fields_def with_defs)
  show "affirmed_with_receipts ps rs i s s'"
    unfolding affirmed_with_receipts_def
  proof (intro conjI)
    show "\<forall>p k. locked s' p k = locked s p k + demand_of s i ps p k" using e(3) r(14) by (simp add: s')
    show "\<forall>j p. UserAffirmations s' p j = (if j = i \<and> p \<in> set ps then AffirmationStatus.Affirmed else UserAffirmations s p j) \<and>
       AffirmsReceived s' j p = (if j = i \<and> p \<in> set ps then AffirmationStatus.Affirmed else AffirmsReceived s j p)"
      using r(2,3) l(2,4) by (simp add: s' with_defs)
  qed (use c r l in \<open>simp_all add: s' with_defs\<close>)
  show "f = filtered_legs s i ps" by (rule f)
qed

lemma ledger_fieldsD:
  assumes "ledger_fields s' = ledger_fields s"
  shows "PortfolioAssetBalances s' = PortfolioAssetBalances s" "BalanceOf s' = BalanceOf s" "Tokens s' = Tokens s"
    "InstructionCounter s' = InstructionCounter s" "InstructionDetails s' = InstructionDetails s"
    "InstructionStatuses s' = InstructionStatuses s" "Agenda s' = Agenda s" "block_number s' = block_number s"
  using assms by (simp_all add: ledger_fields_def)

lemma base_affirm_with_receipts_good:
  fixes s s' :: "'a settlement_store_scheme"
  assumes "base_affirm_with_receipts cfg origin i rs portfolios c s = Inr (f, s')" and good: "settle_good R s"
  shows "settle_good R s'"
proof -
  note inv = settle_goodD [OF good]
  note e = base_affirm_with_receipts_effect [OF assms(1) inv(1)]
  note lf = ledger_fieldsD [OF e(4)]
  let ?R = "leg_id ` set rs" and ?ps = "btree portfolios"
  have off: "\<forall>l \<in> ?R. OffChainAffirmations s i l = AffirmationStatus.Pending"
    using valid_receipts(3) [OF e(2)] by (auto simp: receipt_ok_def)
  have card: "card ?R = length rs"
    using valid_receipts(1) [OF e(2)] by (metis distinct_card length_map set_map)
  note a = e(5) [unfolded affirmed_with_receipts_def]
  have user: "UserAffirmations s' p i =
      (if p \<in> set ?ps then AffirmationStatus.Affirmed else UserAffirmations s p i)" for p using a by auto
  have "instruction_ok s' i"
  proof (rule affirm_ok [where ps = ?ps and R = ?R and s = s])
    show "\<exists>k u. InstructionLegStatus s' i l = ExecutionToBeSkipped k u" if "l \<in> ?R" for l using a that by blast
  qed (use inv(4) e(1) off user in \<open>simp_all add: a card lf\<close>)
  moreover have "escrow_of s' i p k + locked s p k \<le> locked s' p k + escrow_of s i p k" for p k
    using escrow_of_affirm [where s = s and s' = s' and k = k, OF _ e(1) user] a by simp
  ultimately have "settle_inv R s'"
    using a by (intro settle_inv_upd [OF inv(3), of i]) (auto simp: instruction_view_def lf fun_eq_iff)
  moreover have "ledger_inv s'" using ledger_inv_locks [OF inv(2) e(3)] by (simp add: lf)
  ultimately show ?thesis by (simp add: settle_good_def)
qed

section \<open>Withdrawing\<close>

lemma withdraw_leg_Inr:
  "withdraw_leg i (l, leg) s = Inr s' \<longleftrightarrow> InstructionLegStatus s i l = ExecutionPending \<and>
     (\<exists>s1. unlock_via_leg leg s = Inr s1 \<and> s' = put_leg_status i l PendingTokenLock s1)"
  by (auto simp: withdraw_leg_def attempt_Inr_iff split: LegStatus.splits)

lemma fold_withdraw_leg:
  fixes s s' :: "'a settlement_store_scheme"
  assumes "fold_res (withdraw_leg i) legs s = Inr s'" and "portfolio_inv s"
  shows "forget_locks s' = forget_locks (with_leg_status i (fst ` set legs) PendingTokenLock s) \<and>
    portfolio_inv s' \<and> (\<forall>p k. locked s p k = locked s' p k + legs_demand legs p k)"
  using assms
proof (induction legs arbitrary: s)
  case Nil
  then show ?case by (simp add: with_leg_status_def)
next
  case (Cons x legs)
  obtain l leg where x: "x = (l, leg)" by (cases x)
  obtain s1 where s1: "unlock_via_leg leg s = Inr s1"
    and s2: "fold_res (withdraw_leg i) legs (put_leg_status i l PendingTokenLock s1) = Inr s'"
    using Cons.prems(1) x by (auto simp: withdraw_leg_Inr attempt_Inr_iff)
  note e = unlock_via_leg_effect [OF s1 Cons.prems(2)]
  let ?s1 = "put_leg_status i l PendingTokenLock s1"
  have one: "?s1 = with_leg_status i {l} PendingTokenLock s1"
    by (simp add: put_leg_status_def with_leg_status_def fun_upd_def)
  have two: "with_leg_status i L v (with_leg_status i K v u) = with_leg_status i (K \<union> L) v u"
    for L K v and u :: "'a settlement_store_scheme" by (auto simp: with_leg_status_def fun_eq_iff)
  show ?case using Cons.IH [OF s2] e x by (auto simp: one two)
qed

lemma unsafe_withdraw_effect:
  fixes s s' :: "'a settlement_store_scheme"
  assumes "unsafe_withdraw_instruction_affirmation did i portfolios sk c s = Inr (f, s')" and "portfolio_inv s"
  defines "ps \<equiv> btree portfolios"
  shows "\<forall>p \<in> set ps. UserAffirmations s p i = AffirmationStatus.Affirmed" "portfolio_inv s'"
    and "locked s p k = locked s' p k + demand_of s i ps p k"
    and "forget_locks s' = forget_locks (put_pending i (wrapping_add u64_max (InstructionAffirmsPending s i) (length ps))
      (with_affirmations i ps AffirmationStatus.Pending AffirmationStatus.Unknown
        (with_leg_status i (sent_legs s i ps) PendingTokenLock s)))"
proof -
  obtain s1 where ok: "ensure_portfolios_and_affirmation_status s i ps did sk [AffirmationStatus.Affirmed] = Inr ()"
    and lock: "fold_res (withdraw_leg i) (filter (sender_in ps) (InstructionLegs s i)) s = Inr s1"
    and s': "s' = put_pending i (wrapping_add u64_max (InstructionAffirmsPending s1 i) (length ps))
      (with_affirmations i ps AffirmationStatus.Pending AffirmationStatus.Unknown s1)"
    using assms(1)
    by (auto simp: unsafe_withdraw_instruction_affirmation_def attempt_Inr_iff Let_def filtered_legs_def fold_mark ps_def
        with_affirmations_def)
  have e: "forget_locks s1 = forget_locks (with_leg_status i (sent_legs s i ps) PendingTokenLock s)" "portfolio_inv s1"
    "locked s p k = locked s1 p k + demand_of s i ps p k" for p k
    using fold_withdraw_leg [OF lock assms(2)] by (simp_all add: sent_legs_def demand_of_def legs_demand_filter)
  show "\<forall>p \<in> set ps. UserAffirmations s p i = AffirmationStatus.Affirmed" by (rule portfolios_affirmation_status [OF ok])
  show "portfolio_inv s'" using e(2) by (simp add: s')
  show "locked s p k = locked s' p k + demand_of s i ps p k" using e(3) by (simp add: s')
  have "InstructionAffirmsPending s1 = InstructionAffirmsPending s"
    using same_but_locks(7) [OF e(1)] by (simp add: with_leg_status_def)
  then show "forget_locks s' = forget_locks (put_pending i (wrapping_add u64_max (InstructionAffirmsPending s i) (length ps))
      (with_affirmations i ps AffirmationStatus.Pending AffirmationStatus.Unknown
        (with_leg_status i (sent_legs s i ps) PendingTokenLock s)))" by (simp add: s' e(1))
qed

lemma mediator_status_known: "mediator_status s i d \<noteq> MediatorAffirmationStatus.Unknown \<Longrightarrow>
    d \<in> fst ` set (InstructionMediatorsAffirmations s i)"
  by (force simp: mediator_status_def dest: map_of_SomeD split: option.splits)

lemma finite_mediators:
  "finite {d. mediator_status s i d = MediatorAffirmationStatus.Pending}"
  "card {d. mediator_status s i d = MediatorAffirmationStatus.Pending} \<le> length (InstructionMediatorsAffirmations s i)"
proof -
  have sub: "{d. mediator_status s i d = MediatorAffirmationStatus.Pending} \<subseteq>
      set (map fst (InstructionMediatorsAffirmations s i))"
    using mediator_status_known [of s i] by auto
  show "finite {d. mediator_status s i d = MediatorAffirmationStatus.Pending}" by (rule finite_subset [OF sub]) simp
  show "card {d. mediator_status s i d = MediatorAffirmationStatus.Pending} \<le> length (InstructionMediatorsAffirmations s i)"
    using card_mono [OF _ sub] card_length [of "map fst (InstructionMediatorsAffirmations s i)"] by simp
qed

lemma parties_bound:
  assumes "affirmations_ok s i" "X \<subseteq> parties (InstructionLegs s i)"
  shows "card X + card {l. OffChainAffirmations s i l = AffirmationStatus.Pending} +
    card {d. mediator_status s i d = MediatorAffirmationStatus.Pending} \<le> all_parties s i"
proof -
  have "card {l. OffChainAffirmations s i l = AffirmationStatus.Pending} \<le> card (set (map fst (InstructionLegs s i)))"
    using finite_pending(4) [OF assms(1)] by (intro card_mono) simp_all
  then have "card {l. OffChainAffirmations s i l = AffirmationStatus.Pending} \<le> length (InstructionLegs s i)"
    using card_length [of "map fst (InstructionLegs s i)"] by simp
  then show ?thesis
    using finite_mediators(2) [of s i] card_mono [OF finite_parties assms(2)] by (simp add: all_parties_def)
qed

lemma withdraw_ok:
  fixes s s' :: "'a settlement_store_scheme"
  assumes ok: "instruction_ok s i"
    and same: "InstructionLegs s' i = InstructionLegs s i" "InstructionCounter s' = InstructionCounter s"
      "InstructionMediatorsAffirmations s' i = InstructionMediatorsAffirmations s i"
      "OffChainAffirmations s' i = OffChainAffirmations s i"
    and user: "\<And>p. UserAffirmations s' p i = (if p \<in> set ps then AffirmationStatus.Pending else UserAffirmations s p i)"
    and recv: "\<And>p. AffirmsReceived s' i p = (if p \<in> set ps then AffirmationStatus.Unknown else AffirmsReceived s i p)"
    and was: "\<forall>p \<in> set ps. UserAffirmations s p i = AffirmationStatus.Affirmed" "distinct ps"
    and status: "\<And>l. InstructionLegStatus s' i l =
      (if l \<in> sent_legs s i ps then PendingTokenLock else InstructionLegStatus s i l)"
    and pend: "InstructionAffirmsPending s' i = wrapping_add u64_max (InstructionAffirmsPending s i) (length ps)"
  shows "instruction_ok s' i"
proof -
  have old: "legs_ok s i" "affirmations_ok s i" "mediators_ok s i" "count_ok s i" "fresh_ok s i"
    using ok by (auto simp: instruction_ok_def)
  have "leg_ok (\<lambda>p. UserAffirmations s' p i) (OffChainAffirmations s' i l) (InstructionLegStatus s' i l) leg"
    if l: "(l, leg) \<in> set (InstructionLegs s i)" for l leg
  proof -
    have "leg_ok (\<lambda>p. UserAffirmations s p i) (OffChainAffirmations s i l) (InstructionLegStatus s i l) leg"
      using old(1) l by (auto simp: legs_ok_def)
    then show ?thesis
      using in_sent_legs [OF old(1) l, of ps]
      by (cases leg) (auto simp: leg_ok_def same user status sender_in_def lock_status_def)
  qed
  then have legs: "legs_ok s' i" using old(1) by (auto simp: legs_ok_def same)
  have aff: "affirmations_ok s' i"
  proof (rule affirmations_ok_upd [OF old(2) same(1)])
    show "AffirmsReceived s' i p = (if UserAffirmations s' p i = AffirmationStatus.Affirmed
        then AffirmationStatus.Affirmed else AffirmationStatus.Unknown)" for p
      using old(2) by (simp add: affirmations_ok_def user recv)
  qed (use was in \<open>auto simp: user same\<close>)
  let ?A = "{p. UserAffirmations s p i = AffirmationStatus.Pending}"
  have med: "mediator_status s' i = mediator_status s i" by (simp add: mediator_status_def same fun_eq_iff)
  have now: "{p. UserAffirmations s' p i = AffirmationStatus.Pending} = ?A \<union> set ps" by (auto simp: user)
  have card: "card (?A \<union> set ps) = card ?A + length ps"
    using was finite_pending(1) [OF old(2)] by (subst card_Un_disjoint) (auto simp: distinct_card)
  have "?A \<union> set ps \<subseteq> parties (InstructionLegs s i)"
    using was(1) finite_pending(3) [OF aff] by (simp add: now same)
  then have "InstructionAffirmsPending s i + length ps \<le> u64_max"
    using parties_bound [OF old(2), of "?A \<union> set ps"] old(4) card unfolding count_ok_def pending_parties_def by linarith
  then have "count_ok s' i"
    using old(4) card by (simp add: count_ok_def pending_parties_def all_parties_def same pend med now wrapping_add_exact)
  moreover have "fresh_ok s' i" using old(5) by (auto simp: fresh_ok_def same status sent_legs_def)
  ultimately show ?thesis using legs aff old(3) by (simp add: instruction_ok_def mediators_ok_def same)
qed

lemma unsafe_withdraw_good:
  fixes s s' :: "'a settlement_store_scheme"
  assumes "unsafe_withdraw_instruction_affirmation did i portfolios sk c s = Inr (f, s')" and good: "settle_good R s"
  shows "settle_good R s'"
proof -
  note inv = settle_goodD [OF good]
  note e = unsafe_withdraw_effect [OF assms(1) inv(1)]
  note fld = same_but_locks [OF e(4), simplified with_defs, simplified]
  have "instruction_ok s' i"
    by (rule withdraw_ok [where ps = "btree portfolios" and s = s, OF inv(4)]) (use e(1) in \<open>simp_all add: fld\<close>)
  moreover have "escrow_of s' i p k + locked s p k \<le> locked s' p k + escrow_of s i p k" for p k
    using e(1) e(3) [of p k] by (auto simp: escrow_of_def demand_of_def fld)
  ultimately have "settle_inv R s'"
    by (intro settle_inv_upd [OF inv(3), of i]) (simp_all add: instruction_view_def fld fun_eq_iff)
  moreover have "ledger_inv s'" using ledger_inv_locks [OF inv(2) e(2)] by (simp add: fld)
  ultimately show ?thesis by (simp add: settle_good_def)
qed

section \<open>Mediators and the agenda\<close>

lemma settle_good_cong:
  fixes s s' :: "'a settlement_store_scheme"
  assumes "settle_good R s" "\<And>j. instruction_view s' j = instruction_view s j"
    and "InstructionCounter s' = InstructionCounter s" "\<And>p k. locked s p k \<le> locked s' p k" "ledger_inv s'"
  shows "settle_good R s'"
  using settle_inv_cong [of R s s'] assms by (simp add: settle_good_def)

lemma settle_good_agenda:
  assumes "settle_good R s"
  shows "settle_good R (s\<lparr>Agenda := a\<rparr>)"
proof (rule settle_good_cong [OF assms])
  show "ledger_inv (s\<lparr>Agenda := a\<rparr>)"
    using settle_goodD(2) [OF assms] ledger_inv_cong [of "s\<lparr>Agenda := a\<rparr>" s] by (simp add: ledger_view_def view_defs)
qed (simp_all add: instruction_view_def locked_def split: lock_key.splits)

lemma schedule_good [simp]:
  "settle_good R s \<Longrightarrow> settle_good R (schedule_instruction cfg i b w s)"
  "settle_good R s \<Longrightarrow> settle_good R (cancel_instruction cfg i s)"
  "settle_good R s \<Longrightarrow> settle_good R (maybe_schedule_instruction cfg n i w s)"
  by (simp_all add: schedule_instruction_def cancel_instruction_def maybe_schedule_instruction_def
      settle_good_agenda split: option.splits)

lemma map_of_insort_key:
  assumes "d \<notin> fst ` set xs"
  shows "map_of (insort_key fst (d, v) xs) = (map_of xs)(d \<mapsto> v)"
  using assms by (induction xs) (auto simp: fun_eq_iff)

lemma mediator_status_put:
  "mediator_status (put_mediator i d v s) j e = (if j = i \<and> e = d then v else mediator_status s j e)"
proof -
  have f: "map_of (filter (\<lambda>x. fst x \<noteq> d) xs) e = (if e = d then None else map_of xs e)"
    for xs :: "(IdentityId \<times> MediatorAffirmationStatus) list"
    by (induction xs) auto
  have "d \<notin> fst ` set (filter (\<lambda>x. fst x \<noteq> d) xs)" for xs :: "(IdentityId \<times> MediatorAffirmationStatus) list" by auto
  then show ?thesis by (simp add: mediator_status_def put_mediator_def map_of_insort_key f)
qed

lemma put_mediator_ok:
  assumes "mediators_ok s i" "mediator_status s i d \<noteq> MediatorAffirmationStatus.Unknown"
    and "v \<noteq> MediatorAffirmationStatus.Unknown"
  shows "mediators_ok (put_mediator i d v s) i"
    and "length (InstructionMediatorsAffirmations (put_mediator i d v s) i) = length (InstructionMediatorsAffirmations s i)"
proof -
  let ?m = "InstructionMediatorsAffirmations s i" and ?m' = "InstructionMediatorsAffirmations (put_mediator i d v s) i"
  have d: "distinct (map fst ?m)" using assms(1) by (simp add: mediators_ok_def)
  have s': "set ?m' = insert (d, v) {x \<in> set ?m. fst x \<noteq> d}" by (auto simp: put_mediator_def set_insort_key)
  have "distinct (d # map fst (filter (\<lambda>x. fst x \<noteq> d) ?m))" using d by (auto simp: distinct_map_filter)
  moreover have "mset (map fst ?m') = mset (d # map fst (filter (\<lambda>x. fst x \<noteq> d) ?m))" by (simp add: put_mediator_def)
  ultimately have d': "distinct (map fst ?m')" using mset_eq_imp_distinct_iff by blast
  then show "mediators_ok (put_mediator i d v s) i" using assms(1,3) by (auto simp: mediators_ok_def s')
  have "fst ` set ?m' = fst ` set ?m" using mediator_status_known [OF assms(2)] by (force simp: s')
  then show "length ?m' = length ?m" using distinct_card [OF d] distinct_card [OF d'] by simp
qed

lemma pending_put_mediator:
  "pending_parties (put_mediator i d v s) i + (if mediator_status s i d = MediatorAffirmationStatus.Pending then 1 else 0) =
   pending_parties s i + (if v = MediatorAffirmationStatus.Pending then 1 else 0)"
proof -
  let ?P = "\<lambda>s. {d. mediator_status s i d = MediatorAffirmationStatus.Pending}"
  have "?P (put_mediator i d v s) =
      (if v = MediatorAffirmationStatus.Pending then insert d (?P s) else ?P s - {d})"
    by (auto simp: mediator_status_put)
  moreover have "OffChainAffirmations (put_mediator i d v s) = OffChainAffirmations s"
    "UserAffirmations (put_mediator i d v s) = UserAffirmations s" by (simp_all add: put_mediator_def)
  moreover have "d \<in> ?P s \<Longrightarrow> card (?P s) > 0" using finite_mediators(1) card_gt_0_iff by blast
  ultimately show ?thesis
    using finite_mediators(1) [of s i] by (auto simp: pending_parties_def card_insert_if)
qed

lemma mediator_good:
  fixes s :: "'a settlement_store_scheme"
  assumes good: "settle_good R s" and known: "mediator_status s i d \<noteq> MediatorAffirmationStatus.Unknown"
    and v: "v \<noteq> MediatorAffirmationStatus.Unknown" and n: "n = pending_parties (put_mediator i d v s) i"
  shows "settle_good R (put_pending i n (put_mediator i d v s))" (is "settle_good R ?s'")
proof -
  note inv = settle_goodD [OF good]
  note m = put_mediator_ok [OF _ known v]
  have old: "legs_ok s i" "affirmations_ok s i" "mediators_ok s i" "count_ok s i" "fresh_ok s i"
    using inv(4) [of i] by (auto simp: instruction_ok_def)
  have "mediators_ok ?s' i" using m(1) [OF old(3)] by (simp add: mediators_ok_def put_pending_def)
  moreover have "pending_parties ?s' i = n"
    by (simp add: n pending_parties_def put_pending_def mediator_status_def)
  then have "count_ok ?s' i"
    using old(4) m(2) [OF old(3)] by (simp add: count_ok_def all_parties_def put_pending_def) (simp add: put_mediator_def)
  moreover have "InstructionMediatorsAffirmations s i \<noteq> []" using mediator_status_known [OF known] by auto
  then have "fresh_ok ?s' i" using old(5) by (auto simp: fresh_ok_def put_pending_def put_mediator_def)
  moreover have "legs_ok ?s' i" "affirmations_ok ?s' i"
    using old(1,2) by (simp_all add: legs_ok_def affirmations_ok_def put_pending_def put_mediator_def)
  ultimately have "instruction_ok ?s' i" by (simp add: instruction_ok_def)
  then have "settle_inv R ?s'"
    by (rule settle_inv_upd [OF inv(3), rotated 2])
      (auto simp: instruction_view_def put_pending_def put_mediator_def escrow_of_def locked_def split: lock_key.splits)
  moreover have "ledger_inv ?s'"
    using inv(2) ledger_inv_cong [of ?s' s] by (simp add: ledger_view_def view_defs put_pending_def put_mediator_def)
  ultimately show ?thesis by (simp add: settle_good_def)
qed

lemma mediator_affirm_good:
  fixes s s' :: "'a settlement_store_scheme"
  assumes "base_affirm_instruction_as_mediator cfg origin i expiry s = Inr s'" and good: "settle_good R s"
  shows "settle_good R s'"
proof -
  obtain d where known: "mediator_status s i d \<noteq> MediatorAffirmationStatus.Unknown"
    and s': "s' = (let s1 = put_mediator i d (MediatorAffirmationStatus.Affirmed expiry) s;
         s2 = (if mediator_status s i d = MediatorAffirmationStatus.Pending
               then put_pending i (InstructionAffirmsPending s1 i - 1) s1 else s1)
       in if InstructionAffirmsPending s2 i = 0 \<and> settlement_type (InstructionDetails s i) = SettleOnAffirmation
          then maybe_schedule_instruction cfg (InstructionAffirmsPending s2 i) i
            (scheduled_weight cfg (get_instruction_asset_count s2 i)) s2 else s2)"
    using assms(1)
    by (auto simp: base_affirm_instruction_as_mediator_def ensure_origin_perm_and_instruction_validity_def
        ensure_instruction_validity_def attempt_Inr_iff ensure_Inr_iff Let_def)
  let ?s1 = "put_mediator i d (MediatorAffirmationStatus.Affirmed expiry) s"
  have cnt: "InstructionAffirmsPending ?s1 i = pending_parties s i"
    using settle_goodD(4) [OF good, of i] by (simp add: instruction_ok_def count_ok_def put_mediator_def)
  have "settle_good R (put_pending i (pending_parties ?s1 i) ?s1)" by (rule mediator_good [OF good known]) simp_all
  moreover have "put_pending i (InstructionAffirmsPending ?s1 i) ?s1 = ?s1" by (simp add: put_pending_def)
  moreover have "pending_parties ?s1 i =
      (if mediator_status s i d = MediatorAffirmationStatus.Pending then InstructionAffirmsPending ?s1 i - 1
       else InstructionAffirmsPending ?s1 i)"
    using pending_put_mediator [of i d "MediatorAffirmationStatus.Affirmed expiry" s] cnt by (simp split: if_splits)
  ultimately have "settle_good R (if mediator_status s i d = MediatorAffirmationStatus.Pending
      then put_pending i (InstructionAffirmsPending ?s1 i - 1) ?s1 else ?s1)" by (simp split: if_splits)
  then show ?thesis unfolding s' Let_def
    by (cases "mediator_status s i d = MediatorAffirmationStatus.Pending") simp_all
qed

lemma mediator_withdraw_good:
  fixes s s' :: "'a settlement_store_scheme"
  assumes "base_withdraw_affirmation_as_mediator cfg origin i s = Inr s'" and good: "settle_good R s"
  shows "settle_good R s'"
proof -
  let ?P = "MediatorAffirmationStatus.Pending"
  obtain d sk details where val: "ensure_origin_perm_and_instruction_validity s origin i False = Inr (d, sk, details)"
    using assms(1) by (auto simp: base_withdraw_affirmation_as_mediator_def attempt_Inr_iff)
  note det = validity_details [OF val]
  obtain e where was: "mediator_status s i d = MediatorAffirmationStatus.Affirmed e"
    using assms(1) val
    by (cases "mediator_status s i d") (auto simp: base_withdraw_affirmation_as_mediator_def)
  have s': "s' = (let s1 = put_mediator i d ?P s; before = InstructionAffirmsPending s1 i;
             s2 = put_pending i (saturating_add u64_max before 1) s1
         in if before = 0 \<and> settlement_type (InstructionDetails s i) = SettleOnAffirmation
            then cancel_instruction cfg i s2 else s2)"
    using assms(1) val by (simp add: base_withdraw_affirmation_as_mediator_def was det Let_def)
  let ?s1 = "put_mediator i d ?P s"
  have old: "affirmations_ok s i" "mediators_ok s i" "count_ok s i"
    using settle_goodD(4) [OF good, of i] by (auto simp: instruction_ok_def)
  have known: "mediator_status s i d \<noteq> MediatorAffirmationStatus.Unknown" by (simp add: was)
  have p: "pending_parties ?s1 i = pending_parties s i + 1" using pending_put_mediator [of i d ?P s] by (simp add: was)
  have aff: "affirmations_ok ?s1 i" using old(1) by (simp add: affirmations_ok_def put_mediator_def)
  have "all_parties ?s1 i = all_parties s i"
    using put_mediator_ok(2) [OF old(2) known, of ?P] by (simp add: all_parties_def) (simp add: put_mediator_def)
  then have "pending_parties s i + 1 \<le> u64_max"
    using parties_bound [OF aff finite_pending(3) [OF aff]] old(3) p by (simp add: count_ok_def pending_parties_def)
  moreover have "InstructionAffirmsPending ?s1 i = pending_parties s i"
    using old(3) by (simp add: count_ok_def put_mediator_def)
  ultimately have "saturating_add u64_max (InstructionAffirmsPending ?s1 i) 1 = pending_parties ?s1 i"
    by (simp add: p saturating_add_exact)
  then have g: "settle_good R (put_pending i (saturating_add u64_max (InstructionAffirmsPending ?s1 i) 1) ?s1)"
    using mediator_good [OF good known, of ?P] by simp
  show ?thesis using g schedule_good(2) [OF g, of cfg i] unfolding s' Let_def by presburger
qed

end
