(* ===== verification/Settlement_Execution.thy ===== *)
theory Settlement_Execution
  imports Settlement_Theorems
begin

text \<open>
  Execution, rejection and creation of instructions. What a whole execution does to the holdings is
  stated against an abstract ledger on which the legs are booked one after the other; the pallet is
  then a transition system that keeps the invariant.
\<close>

lemma map_err_Inr [res_simps]: "map_err e r = Inr x \<longleftrightarrow> r = Inr x"
  by (cases r) (simp_all add: map_err_def)

section \<open>Releasing the locks of an instruction\<close>

definition pending_legs :: "'a settlement_store_scheme \<Rightarrow> InstructionId \<Rightarrow> (LegId \<times> Leg) list \<Rightarrow> (LegId \<times> Leg) list" where
  "pending_legs s i legs = filter (\<lambda>x. InstructionLegStatus s i (fst x) = ExecutionPending) legs"

lemma release_effect:
  fixes s :: "'a settlement_store_scheme"
  assumes "portfolio_inv s" and "\<And>x. x \<in> set (pending_legs s i legs) \<Longrightarrow> \<not> is_off_chain (snd x)"
    and "\<And>p k. legs_demand (pending_legs s i legs) p k \<le> locked s p k"
  shows "forget_locks (unchecked_release_locks i legs s) = forget_locks s \<and>
    portfolio_inv (unchecked_release_locks i legs s) \<and>
    (\<forall>p k. locked s p k = locked (unchecked_release_locks i legs s) p k + legs_demand (pending_legs s i legs) p k)"
  using assms
proof (induction legs arbitrary: s)
  case Nil
  then show ?case by (simp add: unchecked_release_locks_def pending_legs_def)
next
  case (Cons x legs)
  obtain l leg where x: "x = (l, leg)" by (cases x)
  show ?case
  proof (cases "InstructionLegStatus s i l = ExecutionPending")
    case True
    have "demand leg p k \<le> locked s p k" for p k using Cons.prems(3) [of p k] True by (simp add: pending_legs_def x)
    then have "is_ok (unlock_via_leg leg s)" using Cons.prems(2) [of x] True x
      by (intro unlock_via_leg_ok) (simp_all add: pending_legs_def)
    then obtain s1 where s1: "unlock_via_leg leg s = Inr s1" by (auto simp: is_ok_iff)
    note e = unlock_via_leg_effect [OF s1 Cons.prems(1)]
    have same: "pending_legs s1 i legs = pending_legs s i legs"
      using same_but_locks(3) [OF conjunct1 [OF e]] by (simp add: pending_legs_def)
    have "unchecked_release_locks i (x # legs) s = unchecked_release_locks i legs s1"
      using True s1 by (simp add: unchecked_release_locks_def release_lock_def x)
    moreover have "legs_demand (pending_legs s1 i legs) p k \<le> locked s1 p k" for p k
      using Cons.prems(3) [of p k] e True by (simp add: same) (simp add: pending_legs_def x)
    moreover have "legs_demand (pending_legs s i (x # legs)) p k = demand leg p k + legs_demand (pending_legs s i legs) p k"
      for p k using True by (simp add: pending_legs_def x)
    ultimately show ?thesis
      using Cons.IH [of s1] e Cons.prems(2) True by (auto simp: same) (auto simp: pending_legs_def x)
  next
    case False
    then have "unchecked_release_locks i (x # legs) s = unchecked_release_locks i legs s"
      "pending_legs s i (x # legs) = pending_legs s i legs"
      by (auto simp: unchecked_release_locks_def release_lock_def x pending_legs_def split: LegStatus.splits)
    then show ?thesis using Cons.IH [of s] Cons.prems by simp
  qed
qed

lemma leg_pending:
  assumes "leg_ok user off st leg"
  shows "st = ExecutionPending \<longleftrightarrow> (case leg of FungibleLeg from _ _ _ \<Rightarrow> user from = AffirmationStatus.Affirmed
    | NonFungibleLeg from _ _ \<Rightarrow> user from = AffirmationStatus.Affirmed | OffChainLeg _ _ _ _ \<Rightarrow> False)"
  using assms by (cases leg) (auto simp: leg_ok_def lock_status_def split: if_splits)

lemma legs_okD:
  assumes "instruction_ok s i" "(l, leg) \<in> set (InstructionLegs s i)"
  shows "leg_ok (\<lambda>p. UserAffirmations s p i) (OffChainAffirmations s i l) (InstructionLegStatus s i l) leg"
  using assms by (auto simp: instruction_ok_def legs_ok_def)

lemma demand_pending_legs:
  assumes ok: "instruction_ok s i" and legs: "set legs \<subseteq> set (InstructionLegs s i)"
  shows "legs_demand (pending_legs s i legs) p k =
    (if UserAffirmations s p i = AffirmationStatus.Affirmed then legs_demand legs p k else 0)"
  using legs
proof (induction legs)
  case (Cons x legs)
  obtain l leg where x: "x = (l, leg)" by (cases x)
  have "(l, leg) \<in> set (InstructionLegs s i)" using Cons.prems x by simp
  note st = leg_pending [OF legs_okD [OF ok this]]
  have "demand leg p k = 0 \<or> (InstructionLegStatus s i l = ExecutionPending \<longleftrightarrow> UserAffirmations s p i = AffirmationStatus.Affirmed)"
    unfolding st by (cases leg) (auto simp: demand_def)
  then show ?case using Cons by (auto simp: pending_legs_def x)
qed (simp add: pending_legs_def)

lemma pending_legs_on_chain:
  assumes "instruction_ok s i" "set legs \<subseteq> set (InstructionLegs s i)" "x \<in> set (pending_legs s i legs)"
  shows "\<not> is_off_chain (snd x)"
proof -
  obtain l leg where x: "x = (l, leg)" by (cases x)
  then have "(l, leg) \<in> set (InstructionLegs s i)" using assms(2,3) by (auto simp: pending_legs_def)
  from leg_pending [OF legs_okD [OF assms(1) this]] show ?thesis
    using assms(3) x by (auto simp: pending_legs_def is_off_chain_def split: Leg.splits)
qed

text \<open>The locks of an instruction are exactly its escrow, and releasing them never fails.\<close>

lemma release_escrow:
  fixes s :: "'a settlement_store_scheme"
  assumes good: "settle_good R s" and legs: "mset legs = mset (InstructionLegs s i)"
  defines "s' \<equiv> unchecked_release_locks i legs s"
  shows "forget_locks s' = forget_locks s" "portfolio_inv s'" "locked s p k = locked s' p k + escrow_of s i p k"
proof -
  note inv = settle_goodD [OF good]
  have sub: "set legs \<subseteq> set (InstructionLegs s i)" using mset_eq_setD [OF legs] by simp
  have dem: "legs_demand (pending_legs s i legs) p k = escrow_of s i p k" for p k
    using demand_pending_legs [OF inv(4) sub] by (simp add: escrow_of_def legs_demand_perm [OF legs])
  have "escrow_of s i p k \<le> locked s p k" for p k
  proof (cases "i < InstructionCounter s")
    case True
    then have "escrow_of s i p k \<le> escrow s p k" unfolding escrow_def by (intro member_le_sum) simp_all
    moreover have "escrow s p k + R p k \<le> locked s p k" using inv(3) by (simp add: settle_inv_def)
    ultimately show ?thesis by linarith
  next
    case False
    then show ?thesis using escrow_of_fresh [OF inv(4)] by simp
  qed
  then have "legs_demand (pending_legs s i legs) p k \<le> locked s p k" for p k by (simp add: dem)
  from release_effect [OF inv(1) pending_legs_on_chain [OF inv(4) sub] this]
  show "forget_locks s' = forget_locks s" "portfolio_inv s'" "locked s p k = locked s' p k + escrow_of s i p k"
    unfolding s'_def dem by blast+
qed

section \<open>Booking a leg\<close>

text \<open>The ledger an observer of the chain keeps: what every portfolio holds, and who owns each token.\<close>

record ledger =
  holdings :: "PortfolioId \<Rightarrow> Ticker \<Rightarrow> int"
  owners_of :: "Ticker \<Rightarrow> NFTId \<Rightarrow> PortfolioId option"

definition ledger_of :: "'a portfolio_store_scheme \<Rightarrow> ledger" where
  "ledger_of s = \<lparr>holdings = (\<lambda>p t. int (PortfolioAssetBalances s p t)), owners_of = NFTOwner s\<rparr>"

fun book_leg :: "Leg \<Rightarrow> ledger \<Rightarrow> ledger" where
  "book_leg (FungibleLeg from to t a) b =
     (let h = holdings b; h1 = h(from := (h from)(t := h from t - int a))
      in b\<lparr>holdings := h1(to := (h1 to)(t := h1 to t + int a))\<rparr>)"
| "book_leg (NonFungibleLeg from to nfts) b =
     b\<lparr>owners_of := (\<lambda>t n. if t = nfts_ticker nfts \<and> n \<in> set (nfts_ids nfts) then Some to else owners_of b t n)\<rparr>"
| "book_leg (OffChainLeg _ _ _ _) b = b"

definition settle_state where
  "settle_state s = (InstructionLegs s, UserAffirmations s, InstructionLegStatus s, AffirmsReceived s,
     OffChainAffirmations s, InstructionMediatorsAffirmations s, InstructionAffirmsPending s, InstructionCounter s,
     InstructionDetails s, InstructionStatuses s, ReceiptsUsed s, Agenda s, block_number s, settlement_store.more s)"

lemma settle_state_books: "settle_state (forget_books s) = settle_state s"
  by (simp add: settle_state_def forget_books_def forget_schedules_def)

lemma settle_state_portfolio: "settle_state (forget_portfolio s) = settle_state s"
  by (simp add: settle_state_def forget_portfolio_def)

lemma transfer_frame:
  fixes s s' :: "'a settlement_store_scheme"
  assumes "unsafe_transfer cfg from to t v (m, s) = Inr (m', s')"
  shows "settle_state s' = settle_state s" "locked s' = locked s" "NFTOwner s' = NFTOwner s"
proof -
  let ?u = "unchecked_transfer_portfolio_balance from to t v (
       put_balance_of t (pid_did to) (BalanceOf s t (pid_did to) + v) (
       put_balance_of t (pid_did from) (BalanceOf s t (pid_did from) - v) s))"
  have b: "forget_books s' = forget_books ?u" using assms by (rule unsafe_transfer_effect)
  have u: "settle_state ?u = settle_state s" "PortfolioLockedAssets ?u = PortfolioLockedAssets s"
    "PortfolioLockedNFT ?u = PortfolioLockedNFT s" "NFTOwner ?u = NFTOwner s"
    by (simp_all add: settle_state_def asset_put_defs unchecked_transfer_portfolio_balance_def transition_asset_count_eq
        put_defs Let_def)
  show "settle_state s' = settle_state s" using arg_cong [OF b, of settle_state] by (simp only: settle_state_books u)
  have v: "portfolio_view s' = portfolio_view ?u" by (rule same_books(4) [OF b])
  then show "locked s' = locked s" by (auto simp: locked_def view_defs u fun_eq_iff split: lock_key.splits)
  show "NFTOwner s' = NFTOwner s" using v by (simp add: view_defs u)
qed

lemma base_transfer_books:
  fixes s s' :: "'a settlement_store_scheme"
  assumes "base_transfer cfg from to t v (m, s) = Inr (m', s')" and "ledger_inv s"
  shows "settle_state s' = settle_state s" "locked s' = locked s" "ledger_inv s'"
    and "ledger_of s' = book_leg (FungibleLeg from to t v) (ledger_of s)"
proof -
  obtain m1 where tr: "unsafe_transfer cfg from to t v (the m1, s) = Inr (m', s')"
    using assms(1) by (rule base_transfer_unsafe)
  have ne: "from \<noteq> to" and le: "v \<le> PortfolioAssetBalances s from t"
    using tr by (auto elim!: unsafe_transfer_effect)
  show "settle_state s' = settle_state s" "locked s' = locked s" "ledger_inv s'"
    using transfer_frame [OF tr] transfer_ledger(1) [OF tr assms(2)] by simp_all
  show "ledger_of s' = book_leg (FungibleLeg from to t v) (ledger_of s)"
    using transfer_ledger(4) [OF tr assms(2)] transfer_frame(3) [OF tr] ne le
    by (auto simp: ledger_of_def Let_def fun_eq_iff of_nat_diff)
qed

lemma nfts_transfer_locks:
  "PortfolioLockedNFT (unverified_nfts_transfer from to nfts s) = PortfolioLockedNFT s"
  "balance_view (unverified_nfts_transfer from to nfts s) = balance_view s"
  "name_view (unverified_nfts_transfer from to nfts s) = name_view s"
proof -
  have f: "balance_view (fold (move_nft from to t) ids u) = balance_view u"
    "name_view (fold (move_nft from to t) ids u) = name_view u" for t ids u
    by (rule fold_keep, simp add: move_nft_def move_portfolio_owner_def put_defs view_defs)+
  have n: "balance_view (put_number_of_nfts t d v u) = balance_view u" "name_view (put_number_of_nfts t d v u) = name_view u"
    "PortfolioLockedNFT (put_number_of_nfts t d v u) = PortfolioLockedNFT u" for t d v u
    by (simp_all add: put_number_of_nfts_def view_defs)
  show "PortfolioLockedNFT (unverified_nfts_transfer from to nfts s) = PortfolioLockedNFT s"
    "balance_view (unverified_nfts_transfer from to nfts s) = balance_view s"
    "name_view (unverified_nfts_transfer from to nfts s) = name_view s"
    by (simp_all add: unverified_nfts_transfer_def Let_def fold_move_nft_keep f n)
qed

lemma nfts_transfer_portfolio_inv:
  assumes inv: "portfolio_inv s" and val: "validate_nft_ownership cfg s from to nfts = Inr ()"
  shows "portfolio_inv (unverified_nfts_transfer from to nfts s)" (is "portfolio_inv ?s'")
proof -
  have own: "nft_owner_exact s" and lk: "locked_nft_owned s" using inv by (simp_all add: portfolio_inv_def)
  note o' = nfts_transfer_owner [OF own val]
  have "(t, n) |\<in>| PortfolioNFT ?s' p" if k: "(t, n) |\<in>| PortfolioLockedNFT ?s' p" for t n p
  proof -
    have k: "(t, n) |\<in>| PortfolioLockedNFT s p" using k by (simp add: nfts_transfer_locks(1))
    then have p: "NFTOwner s t n = Some p" using lk own unfolding locked_nft_owned_def nft_owner_exact_def by blast
    have "\<not> (t = nfts_ticker nfts \<and> n \<in> set (nfts_ids nfts))"
      using ownership_valid(5,6) [OF val, of n] own p k unfolding nft_owner_exact_def by (metis option.inject)
    then have "NFTOwner ?s' t n = Some p" using p by (auto simp: o'(2))
    then show ?thesis using o'(1) by (simp add: nft_owner_exact_def)
  qed
  then have "nft_inv ?s'" using o'(1) by (auto simp: nft_inv_def locked_nft_owned_def)
  then show ?thesis by (rule nft_only_inv [OF inv _ nfts_transfer_locks(2,3)])
qed

lemma base_nft_transfer_books:
  fixes s s' :: "'a settlement_store_scheme"
  assumes "base_nft_transfer cfg from to nfts (m, s) = Inr (m', s')" and "ledger_inv s"
  shows "settle_state s' = settle_state s" "locked s' = locked s" "ledger_inv s'"
    and "ledger_of s' = book_leg (NonFungibleLeg from to nfts) (ledger_of s)"
proof -
  have val: "validate_nft_ownership cfg s from to nfts = Inr ()" and s': "s' = unverified_nfts_transfer from to nfts s"
    using assms(1) by (auto simp: base_nft_transfer_def validate_nft_transfer_def attempt_Inr_iff ensure_Inr_iff)
  have inv: "portfolio_inv s" using assms(2) by (simp add: ledger_inv_def)
  then have own: "nft_owner_exact s" by (simp add: portfolio_inv_def)
  have bal: "PortfolioAssetBalances s' = PortfolioAssetBalances s" "PortfolioLockedAssets s' = PortfolioLockedAssets s"
    using nfts_transfer_locks(2) [of "from" to nfts s] by (simp_all add: s' balance_view_def)
  note fr = nfts_transfer_frame [of "from" to nfts s, folded s']
  have "settle_state (s\<lparr>NumberOfNFTs := x\<rparr>) = settle_state s" for x by (simp add: settle_state_def)
  then show "settle_state s' = settle_state s" using arg_cong [OF fr, of settle_state] by (simp only: settle_state_portfolio)
  show "locked s' = locked s"
    using nfts_transfer_locks(1) [of "from" to nfts s] by (auto simp: locked_def s' bal [unfolded s'] fun_eq_iff split: lock_key.splits)
  have "BalanceOf s' = BalanceOf s" "Tokens s' = Tokens s"
    using arg_cong [OF fr, of BalanceOf] arg_cong [OF fr, of Tokens] by (simp_all add: forget_portfolio_def)
  then show "ledger_inv s'"
    using ledger_inv_locks [OF assms(2) _ bal(1)] nfts_transfer_portfolio_inv [OF inv val] by (simp add: s')
  show "ledger_of s' = book_leg (NonFungibleLeg from to nfts) (ledger_of s)"
    using nfts_transfer_owner(2) [OF own val, folded s'] bal(1) by (auto simp: ledger_of_def fun_eq_iff)
qed

lemma transfer_legs_effect:
  fixes s s' :: "'a settlement_store_scheme"
  assumes "fold_res (transfer_leg cfg i) legs (m, s) = Inr (m', s')" and "ledger_inv s"
  shows "settle_state s' = settle_state s \<and> locked s' = locked s \<and> ledger_inv s' \<and>
    ledger_of s' = fold (book_leg \<circ> snd) (pending_legs s i legs) (ledger_of s)"
  using assms
proof (induction legs arbitrary: m s)
  case Nil
  then show ?case by (simp add: pending_legs_def)
next
  case (Cons x legs)
  obtain l leg where x: "x = (l, leg)" by (cases x)
  obtain m1 s1 where s1: "transfer_leg cfg i x (m, s) = Inr (m1, s1)" "fold_res (transfer_leg cfg i) legs (m1, s1) = Inr (m', s')"
    using Cons.prems(1) by (auto simp: attempt_Inr_iff)
  have e: "settle_state s1 = settle_state s \<and> locked s1 = locked s \<and> ledger_inv s1 \<and>
      ledger_of s1 = (if InstructionLegStatus s i l = ExecutionPending then book_leg leg (ledger_of s) else ledger_of s)"
  proof (cases "InstructionLegStatus s i l = ExecutionPending")
    case True
    show ?thesis
    proof (cases leg)
      case (FungibleLeg "from" to t a)
      then have tr: "base_transfer cfg from to t a (m, s) = Inr (m1, s1)"
        using s1(1) True by (simp add: transfer_leg_def x map_err_Inr)
      show ?thesis using base_transfer_books [OF tr Cons.prems(2)] True by (simp only: FungibleLeg if_True simp_thms)
    next
      case (NonFungibleLeg "from" to nfts)
      then have tr: "base_nft_transfer cfg from to nfts (m, s) = Inr (m1, s1)"
        using s1(1) True by (simp add: transfer_leg_def x map_err_Inr)
      show ?thesis using base_nft_transfer_books [OF tr Cons.prems(2)] True by (simp only: NonFungibleLeg if_True simp_thms)
    qed (use s1(1) True Cons.prems(2) in \<open>simp add: transfer_leg_def x\<close>)
  next
    case False
    then show ?thesis using s1(1) Cons.prems(2) by (simp add: transfer_leg_def x)
  qed
  then have "pending_legs s1 i legs = pending_legs s i legs" by (simp add: settle_state_def pending_legs_def)
  then show ?case using Cons.IH [OF s1(2)] e by (simp add: x) (simp add: pending_legs_def)
qed

section \<open>Execution\<close>

lemma sorted_legs: "mset (sort_key fst legs) = mset legs"
  by simp

lemma execute_effect:
  fixes s s' :: "'a settlement_store_scheme"
  assumes "execute_instruction cfg i (m, s) = Inr (m', s')" and good: "settle_good R s"
  defines "legs \<equiv> sort_key fst (InstructionLegs s i)"
  shows "settle_state s' = settle_state s" "ledger_inv s'" "locked s p k = locked s' p k + escrow_of s i p k"
    and "ledger_of s' = fold (book_leg \<circ> snd) (pending_legs s i legs) (ledger_of s)"
    and "InstructionAffirmsPending s i = 0" "ensure_non_expired_affirmations s i = Inr ()"
      "InstructionStatuses s i \<in> {InstructionStatus.Pending, InstructionStatus.Failed}"
proof -
  obtain m1 where guards: "InstructionAffirmsPending s i = 0" "ensure_non_expired_affirmations s i = Inr ()"
      "InstructionStatuses s i \<in> {InstructionStatus.Pending, InstructionStatus.Failed}"
    and tr: "fold_res (transfer_leg cfg i) legs (m1, unchecked_release_locks i legs s) = Inr (m', s')"
    using assms(1)
    by (auto simp: execute_instruction_def release_asset_locks_and_transfer_pending_legs_def map_err_Inr legs_def
        attempt_Inr_iff ensure_Inr_iff Let_def)
  note inv = settle_goodD [OF good]
  let ?r = "unchecked_release_locks i legs s"
  have rel: "forget_locks ?r = forget_locks s" "portfolio_inv ?r" "\<And>p k. locked s p k = locked ?r p k + escrow_of s i p k"
    using release_escrow [OF good, of legs i] by (simp_all add: legs_def)
  note same = same_but_locks [OF rel(1)]
  have linv: "ledger_inv ?r" by (rule ledger_inv_locks [OF inv(2) rel(2) same(13-15)])
  have st: "settle_state ?r = settle_state s" by (simp add: settle_state_def same)
  have "NFTOwner ?r = NFTOwner s" using arg_cong [OF rel(1), of NFTOwner] by (simp add: forget_locks_def)
  then have led: "ledger_of ?r = ledger_of s" by (simp add: ledger_of_def same)
  have pl: "pending_legs ?r i legs = pending_legs s i legs" by (simp add: pending_legs_def same)
  note e = transfer_legs_effect [OF tr linv]
  show "settle_state s' = settle_state s" "ledger_inv s'" using e st by simp_all
  show "locked s p k = locked s' p k + escrow_of s i p k" using e rel(3) by simp
  show "ledger_of s' = fold (book_leg \<circ> snd) (pending_legs s i legs) (ledger_of s)" using e led pl by simp
  show "InstructionAffirmsPending s i = 0" "ensure_non_expired_affirmations s i = Inr ()"
    "InstructionStatuses s i \<in> {InstructionStatus.Pending, InstructionStatus.Failed}" by (rule guards)+
qed

section \<open>Pruning\<close>

lemma fold_forget_affirmations:
  "fold (forget_affirmations i) legs s =
     s\<lparr>UserAffirmations := (\<lambda>p j. if j = i \<and> p \<in> parties legs then AffirmationStatus.Unknown else UserAffirmations s p j)\<rparr>"
proof (induction legs arbitrary: s)
  case Nil
  then show ?case by (simp add: parties_def)
next
  case (Cons x legs)
  have "UserAffirmations (forget_affirmations i x s) = (\<lambda>p j. if j = i \<and> p \<in> leg_parties (snd x)
      then AffirmationStatus.Unknown else UserAffirmations s p j)"
    by (auto simp: forget_affirmations_def leg_parties_def put_user_affirmation_def fun_eq_iff Let_def split: Leg.splits)
  moreover have "(forget_affirmations i x s)\<lparr>UserAffirmations := u\<rparr> = s\<lparr>UserAffirmations := u\<rparr>" for u
    by (simp add: forget_affirmations_def put_user_affirmation_def Let_def split: Leg.splits)
  moreover have "parties (x # legs) = leg_parties (snd x) \<union> parties legs" by (simp add: parties_def)
  ultimately show ?case using Cons by (auto simp: fun_eq_iff cong: if_cong)
qed

lemma prune_sel:
  fixes s :: "'a settlement_store_scheme" and b :: bool
  assumes "affirmations_ok s i"
  defines "s' \<equiv> prune_instruction i b s"
  shows "InstructionLegs s' = (InstructionLegs s)(i := [])"
    "UserAffirmations s' p j = (if j = i then AffirmationStatus.Unknown else UserAffirmations s p j)"
    "InstructionLegStatus s' = (InstructionLegStatus s)(i := (\<lambda>_. PendingTokenLock))"
    "AffirmsReceived s' = (AffirmsReceived s)(i := (\<lambda>_. AffirmationStatus.Unknown))"
    "OffChainAffirmations s' = (OffChainAffirmations s)(i := (\<lambda>_. AffirmationStatus.Unknown))"
    "InstructionMediatorsAffirmations s' = (InstructionMediatorsAffirmations s)(i := [])"
    "InstructionAffirmsPending s' = (InstructionAffirmsPending s)(i := 0)"
    "InstructionCounter s' = InstructionCounter s" "locked s' = locked s" "ledger_inv s' = ledger_inv s"
    "InstructionStatuses s' = (InstructionStatuses s)(i := if b then Success (block_number s) else Rejected (block_number s))"
    "ledger_of s' = ledger_of s" "Agenda s' = Agenda s" "block_number s' = block_number s"
    "ReceiptsUsed s' = ReceiptsUsed s" "InstructionDetails s' = (InstructionDetails s)(i := default_instruction)"
proof -
  have un: "p \<notin> parties (InstructionLegs s i) \<Longrightarrow> UserAffirmations s p i = AffirmationStatus.Unknown" for p
    using assms(1) unfolding affirmations_ok_def by blast
  show "UserAffirmations s' p j = (if j = i then AffirmationStatus.Unknown else UserAffirmations s p j)"
    using un [of p] by (auto simp: s'_def prune_instruction_def fold_forget_affirmations put_status_def Let_def)
  have "ledger_view s' = ledger_view s"
    by (simp add: s'_def prune_instruction_def fold_forget_affirmations put_status_def Let_def ledger_view_def view_defs)
  then show "ledger_inv s' = ledger_inv s" by (rule ledger_inv_cong)
qed (simp_all add: s'_def prune_instruction_def fold_forget_affirmations put_status_def Let_def ledger_of_def locked_def
    fun_eq_iff split: lock_key.splits)

lemma prune_ok:
  fixes s :: "'a settlement_store_scheme"
  assumes "affirmations_ok s i"
  shows "instruction_ok (prune_instruction i b s) i" "escrow_of (prune_instruction i b s) i p k = 0"
    and "j \<noteq> i \<Longrightarrow> instruction_view (prune_instruction i b s) j = instruction_view s j"
  by (simp_all add: instruction_ok_defs prune_sel [OF assms] pending_parties_def all_parties_def parties_def
      mediator_status_def escrow_of_def instruction_view_def)

lemma settle_state_views:
  assumes "settle_state s1 = settle_state s"
  shows "instruction_view s1 j = instruction_view s j" "InstructionCounter s1 = InstructionCounter s"
  using assms by (simp_all add: settle_state_def instruction_view_def)

text \<open>Pruning after at most the escrow of the instruction has been released keeps the invariant.\<close>

lemma prune_good:
  fixes s s1 :: "'a settlement_store_scheme"
  assumes good: "settle_good R s" and v: "\<And>j. instruction_view s1 j = instruction_view s j"
    and cnt: "InstructionCounter s1 = InstructionCounter s" and ledger: "ledger_inv s1"
    and lock: "\<And>p k. locked s p k \<le> locked s1 p k + escrow_of s i p k"
  shows "settle_good R (prune_instruction i b s1)"
proof -
  note inv = settle_goodD [OF good]
  have "instruction_ok s1 i" using instruction_ok_cong [OF v _ inv(4)] cnt by simp
  then have aff: "affirmations_ok s1 i" by (simp add: instruction_ok_def)
  have "settle_inv R (prune_instruction i b s1)"
    by (rule settle_inv_upd [OF inv(3), of i])
      (use prune_ok [OF aff] v cnt lock in \<open>simp_all add: prune_sel [OF aff]\<close>)
  then show ?thesis using ledger by (simp add: settle_good_def prune_sel [OF aff])
qed

lemma put_status_good: "settle_good R s \<Longrightarrow> settle_good R (put_status i v s)"
  by (rule settle_good_cong [of R s])
    (auto simp: put_status_def instruction_view_def locked_def dest!: settle_goodD(2) split: lock_key.splits
      intro: iffD2 [OF ledger_inv_cong] simp: ledger_view_def view_defs)

lemma execute_retryable_good:
  fixes s :: "'a settlement_store_scheme"
  assumes good: "settle_good R s"
  shows "settle_good R (snd (execute_instruction_retryable cfg i (m, s)))"
proof (cases "execute_instruction cfg i (m, s)")
  case (Inl e)
  then show ?thesis using put_status_good [OF good] by (simp add: execute_instruction_retryable_def)
next
  case (Inr r)
  obtain m' s' where r: "r = (m', s')" by (cases r)
  note e = execute_effect [OF Inr [unfolded r] good]
  have "settle_good R (prune_instruction i True s')"
    by (rule prune_good [OF good settle_state_views [OF e(1)] e(2)]) (simp add: e(3))
  then show ?thesis using Inr r by (simp add: execute_instruction_retryable_def)
qed

lemma cancel_sel [simp]:
  "instruction_view (cancel_instruction cfg i s) j = instruction_view s j"
  "InstructionCounter (cancel_instruction cfg i s) = InstructionCounter s"
  "locked (cancel_instruction cfg i s) = locked s" "ledger_inv (cancel_instruction cfg i s) = ledger_inv s"
  by (auto simp: cancel_instruction_def instruction_view_def locked_def fun_eq_iff ledger_view_def view_defs
      split: option.splits lock_key.splits intro!: ledger_inv_cong)

lemma reject_good:
  fixes s s' :: "'a settlement_store_scheme"
  assumes "base_reject_instruction cfg origin i portfolio c s = Inr s'" and good: "settle_good R s"
  shows "settle_good R s'"
proof -
  let ?r = "unchecked_release_locks i (InstructionLegs s i) s"
  have s': "s' = prune_instruction i False (cancel_instruction cfg i ?r)"
    using assms(1) by (auto simp: base_reject_instruction_def attempt_Inr_iff ensure_Inr_iff Let_def)
  note rel = release_escrow [where i = i, OF good refl]
  note same = same_but_locks [OF rel(1)]
  have "ledger_inv ?r" by (rule ledger_inv_locks [OF settle_goodD(2) [OF good] rel(2) same(13-15)])
  then show ?thesis
    unfolding s' by (intro prune_good [OF good]) (simp_all add: rel(3), simp_all add: instruction_view_def same)
qed

lemma execute_on_affirmation_good:
  fixes s s' :: "'a settlement_store_scheme"
  assumes "execute_settle_on_affirmation_instruction cfg i n typ (m, s) = Inr (m', s')" and good: "settle_good R s"
  shows "settle_good R (prune_instruction i True s')"
proof (cases "typ = SettleOnAffirmation \<and> n = 0")
  case True
  then have "execute_instruction cfg i (m, s) = Inr (m', s')"
    using assms(1) by (simp add: execute_settle_on_affirmation_instruction_def)
  note e = execute_effect [OF this good]
  show ?thesis by (rule prune_good [OF good settle_state_views [OF e(1)] e(2)]) (simp add: e(3))
next
  case False
  then have "s' = s" using assms(1) by (auto simp: execute_settle_on_affirmation_instruction_def)
  then show ?thesis using settle_goodD(2) [OF good] by (intro prune_good [OF good]) simp_all
qed

lemma base_affirm_good:
  fixes s s' :: "'a settlement_store_scheme"
  assumes "base_affirm_instruction origin i portfolios c s = Inr (f, s')" and "settle_good R s"
  shows "settle_good R s'"
  using assms by (auto simp: base_affirm_instruction_def attempt_Inr_iff intro: unsafe_affirm_good)

lemma affirm_and_execute_good:
  fixes s s' :: "'a settlement_store_scheme"
  assumes "affirm_and_execute_instruction cfg origin i receipt portfolios (m, s) = Inr (m', s')" and good: "settle_good R s"
  shows "settle_good R s'"
proof -
  obtain f s1 s2 where aff: "(case receipt of Some r \<Rightarrow> base_affirm_with_receipts cfg origin i [r] portfolios None s
      | None \<Rightarrow> base_affirm_instruction origin i portfolios None s) = Inr (f, s1)"
    and ex: "execute_settle_on_affirmation_instruction cfg i (InstructionAffirmsPending s1 i)
      (settlement_type (InstructionDetails s1 i)) (m, s1) = Inr (m', s2)" and s': "s' = prune_instruction i True s2"
    using assms(1) by (auto simp: affirm_and_execute_instruction_def attempt_Inr_iff)
  have "settle_good R s1"
    using aff base_affirm_good [OF _ good] base_affirm_with_receipts_good [OF _ good] by (auto split: option.splits)
  then show ?thesis unfolding s' by (rule execute_on_affirmation_good [OF ex])
qed

section \<open>Adding an instruction\<close>

definition info_ok :: "Leg list \<Rightarrow> InstructionInfo \<Rightarrow> bool" where
  "info_ok legs info \<longleftrightarrow> distinct (portfolios_pending_approval info) \<and> distinct (mediators info) \<and>
     set (portfolios_pending_approval info) \<union> set (portfolios_pre_approved info) = \<Union> (leg_parties ` set legs) \<and>
     (\<forall>leg \<in> set legs. \<forall>p l. sender_in [p] (l, leg) \<longrightarrow> p \<in> set (portfolios_pending_approval info)) \<and>
     off_chain (instruction_asset_count info) = length (filter is_off_chain legs)"

lemma collect_leg_off [simp]: "is_off_chain leg \<Longrightarrow> collect_leg s t leg info = info"
  by (simp add: collect_leg_def is_off_chain_def Let_def split: Leg.splits)

lemma collect_leg_count [simp]: "instruction_asset_count (collect_leg s t leg info) = instruction_asset_count info"
  by (simp add: collect_leg_def extend_mediators_def Let_def split: Leg.splits)

lemma collect_leg_ok:
  assumes "info_ok legs info" and "off_chain c = off_chain (instruction_asset_count info) + (if is_off_chain leg then 1 else 0)"
  shows "info_ok (legs @ [leg]) (collect_leg s t leg (info\<lparr>instruction_asset_count := c\<rparr>))"
  using assms
  by (cases leg) (auto simp: info_ok_def collect_leg_def extend_mediators_def Let_def leg_parties_def sender_in_def is_off_chain_def)

lemma ensure_valid_leg_count:
  assumes "ensure_valid_leg cfg s leg v tk c = Inr (t, tk', c')"
  shows "off_chain c' = off_chain c + (if is_off_chain leg then 1 else 0)"
  using assms
  by (cases leg) (auto simp: ensure_valid_leg_def is_off_chain_def attempt_Inr_iff ensure_Inr_iff map_err_Inr
      try_add_fungible_def try_add_non_fungible_def try_add_off_chain_def split: option.splits)

lemma validate_legs_ok:
  assumes "fold_res (validate_leg cfg s v) legs (tk, info) = Inr (tk', info')" and "info_ok before info"
  shows "info_ok (before @ legs) info'"
  using assms
proof (induction legs arbitrary: tk info before)
  case (Cons leg legs)
  obtain t tk1 c where v: "ensure_valid_leg cfg s leg v tk (instruction_asset_count info) = Inr (t, tk1, c)"
    and rest: "fold_res (validate_leg cfg s v) legs (tk1, collect_leg s t leg (info\<lparr>instruction_asset_count := c\<rparr>)) = Inr (tk', info')"
    using Cons.prems(1) by (auto simp: attempt_Inr_iff validate_leg_def [of _ _ _ leg])
  show ?case
    using Cons.IH [OF rest collect_leg_ok [OF Cons.prems(2) ensure_valid_leg_count [OF v]]] by simp
qed simp

lemma ensure_valid_legs_ok:
  assumes "ensure_valid_legs cfg s legs v = Inr info"
  shows "info_ok legs info"
proof -
  obtain tk where "fold_res (validate_leg cfg s v) legs ([], empty_info) = Inr (tk, info)"
    using assms by (auto simp: ensure_valid_legs_def attempt_Inr_iff)
  moreover have "info_ok [] empty_info" by (simp add: info_ok_def empty_info_def default_count_def)
  ultimately have "info_ok ([] @ legs) info" by (rule validate_legs_ok)
  then show ?thesis by simp
qed

lemma extend_mediators_ok: "info_ok legs info \<Longrightarrow> info_ok legs (extend_mediators ms info)"
  by (simp add: info_ok_def extend_mediators_def)

lemma fold_put_user:
  "fold (\<lambda>p. put_user_affirmation p i v) ps s =
     s\<lparr>UserAffirmations := (\<lambda>p j. if j = i \<and> p \<in> set ps then v else UserAffirmations s p j)\<rparr>"
proof (induction ps arbitrary: s)
  case (Cons p ps)
  then show ?case by (auto simp: put_user_affirmation_def fun_eq_iff)
qed simp

lemma fold_put_mediator:
  assumes "distinct ds" "InstructionMediatorsAffirmations s i = ms" "distinct (map fst ms)" "set ds \<inter> fst ` set ms = {}"
  shows "\<exists>ms'. fold (\<lambda>d. put_mediator i d v) ds s =
      s\<lparr>InstructionMediatorsAffirmations := (InstructionMediatorsAffirmations s)(i := ms')\<rparr> \<and>
    mset ms' = mset ms + mset (map (\<lambda>d. (d, v)) ds)"
  using assms
proof (induction ds arbitrary: s ms)
  case Nil
  then show ?case by (intro exI [of _ ms]) (simp flip: Nil(2))
next
  case (Cons d ds)
  let ?ms = "insort_key fst (d, v) ms"
  have f: "filter (\<lambda>x. fst x \<noteq> d) ms = ms" using Cons.prems(4) by (force simp: filter_id_conv)
  then have m: "InstructionMediatorsAffirmations (put_mediator i d v s) i = ?ms" using Cons.prems(2) by (simp add: put_mediator_def)
  have "mset (map fst ?ms) = mset (d # map fst ms)" by simp
  moreover have "distinct (d # map fst ms)" using Cons.prems(3,4) by auto
  ultimately have d': "distinct (map fst ?ms)" using mset_eq_imp_distinct_iff by blast
  have dis: "set ds \<inter> fst ` set ?ms = {}" using Cons.prems by (auto simp: set_insort_key)
  have "distinct ds" using Cons.prems(1) by simp
  from Cons.IH [OF this m d' dis] obtain ms' where
    ms': "fold (\<lambda>d. put_mediator i d v) ds (put_mediator i d v s) = (put_mediator i d v s)
      \<lparr>InstructionMediatorsAffirmations := (InstructionMediatorsAffirmations (put_mediator i d v s))(i := ms')\<rparr>"
    "mset ms' = mset ?ms + mset (map (\<lambda>d. (d, v)) ds)" by blast
  have "(put_mediator i d v s)\<lparr>InstructionMediatorsAffirmations :=
      (InstructionMediatorsAffirmations (put_mediator i d v s))(i := ms')\<rparr> =
    s\<lparr>InstructionMediatorsAffirmations := (InstructionMediatorsAffirmations s)(i := ms')\<rparr>"
    by (simp add: put_mediator_def)
  then show ?case by (intro exI [of _ ms']) (simp add: ms' fun_upd_def)
qed

lemma fold_add_leg:
  assumes "distinct (map fst xs)" "InstructionLegs s i = ls" "set (map fst xs) \<inter> fst ` set ls = {}"
  shows "\<exists>ls'. fold (add_leg cfg i) xs s = s\<lparr>InstructionLegs := (InstructionLegs s)(i := ls'),
      OffChainAffirmations := (\<lambda>j l. if j = i \<and> (\<exists>leg. (l, leg) \<in> set xs \<and> is_off_chain leg)
        then AffirmationStatus.Pending else OffChainAffirmations s j l)\<rparr> \<and> mset ls' = mset ls + mset xs"
  using assms
proof (induction xs arbitrary: s ls)
  case Nil
  then show ?case by (intro exI [of _ ls]) (simp flip: Nil(2))
next
  case (Cons x xs)
  obtain l leg where x: "x = (l, leg)" by (cases x)
  let ?ls = "insort_key (\<lambda>x. leg_order cfg (fst x)) (l, leg) ls" and ?s = "add_leg cfg i x s"
  have "filter (\<lambda>x. fst x \<noteq> l) ls = ls" using Cons.prems(3) x by (force simp: filter_id_conv)
  then have s1: "?s = s\<lparr>InstructionLegs := (InstructionLegs s)(i := ?ls), OffChainAffirmations :=
      (\<lambda>j k. if j = i \<and> k = l \<and> is_off_chain leg then AffirmationStatus.Pending else OffChainAffirmations s j k)\<rparr>"
    using Cons.prems(2) by (auto simp: add_leg_def x put_leg_def put_offchain_def Let_def fun_eq_iff)
  have dis: "set (map fst xs) \<inter> fst ` set ?ls = {}" using Cons.prems x by (auto simp: set_insort_key)
  have "distinct (map fst xs)" "InstructionLegs ?s i = ?ls" using Cons.prems(1) by (simp_all add: s1)
  from Cons.IH [OF this dis] obtain ls' where ls': "fold (add_leg cfg i) xs ?s = ?s\<lparr>InstructionLegs := (InstructionLegs ?s)(i := ls'),
      OffChainAffirmations := (\<lambda>j l. if j = i \<and> (\<exists>leg. (l, leg) \<in> set xs \<and> is_off_chain leg)
        then AffirmationStatus.Pending else OffChainAffirmations ?s j l)\<rparr>" "mset ls' = mset ?ls + mset xs" by blast
  have off: "(\<lambda>j l. if j = i \<and> (\<exists>leg. (l, leg) \<in> set xs \<and> is_off_chain leg) then AffirmationStatus.Pending
      else OffChainAffirmations ?s j l) = (\<lambda>j l. if j = i \<and> (\<exists>leg. (l, leg) \<in> set (x # xs) \<and> is_off_chain leg)
      then AffirmationStatus.Pending else OffChainAffirmations s j l)"
    unfolding s1 by (auto simp: x fun_eq_iff)
  have "?s\<lparr>InstructionLegs := (InstructionLegs ?s)(i := ls'),
      OffChainAffirmations := (\<lambda>j l. if j = i \<and> (\<exists>leg. (l, leg) \<in> set xs \<and> is_off_chain leg)
        then AffirmationStatus.Pending else OffChainAffirmations ?s j l)\<rparr> =
    s\<lparr>InstructionLegs := (InstructionLegs s)(i := ls'),
      OffChainAffirmations := (\<lambda>j l. if j = i \<and> (\<exists>leg. (l, leg) \<in> set (x # xs) \<and> is_off_chain leg)
        then AffirmationStatus.Pending else OffChainAffirmations s j l)\<rparr>"
    unfolding off by (simp add: s1)
  then show ?case by (intro exI [of _ ls']) (simp add: ls', simp add: x fun_upd_def)
qed

lemma distinct_enumerate: "distinct (map fst (enumerate n xs))"
  by simp

lemma mark_affirmed_eta:
  "(\<lambda>p s. put_affirms_received i p AffirmationStatus.Affirmed (put_user_affirmation p i AffirmationStatus.Affirmed s)) =
     mark_affirmed i"
  by (simp add: mark_affirmed_def fun_eq_iff)

definition committed where
  "committed i details legs memo info ls ms s = s\<lparr>
       InstructionStatuses := (InstructionStatuses s)(i := InstructionStatus.Pending),
       UserAffirmations := (\<lambda>p j. if j = i \<and> p \<in> set (portfolios_pre_approved_difference info) then AffirmationStatus.Affirmed
         else if j = i \<and> p \<in> set (portfolios_pending_approval info) then AffirmationStatus.Pending
         else UserAffirmations s p j),
       AffirmsReceived := (\<lambda>j p. if j = i \<and> p \<in> set (portfolios_pre_approved_difference info)
         then AffirmationStatus.Affirmed else AffirmsReceived s j p),
       InstructionMediatorsAffirmations := (InstructionMediatorsAffirmations s)(i := ms),
       InstructionAffirmsPending := (InstructionAffirmsPending s)(i := number_of_pending_affirmations info),
       InstructionLegs := (InstructionLegs s)(i := ls),
       OffChainAffirmations := (\<lambda>j l. if j = i \<and> (\<exists>leg. (l, leg) \<in> set (enumerate 0 legs) \<and> is_off_chain leg)
         then AffirmationStatus.Pending else OffChainAffirmations s j l),
       InstructionDetails := (InstructionDetails s)(i := details),
       InstructionMemos := (case memo of Some m \<Rightarrow> (InstructionMemos s)(i \<mapsto> m) | None \<Rightarrow> InstructionMemos s),
       VenueInstructions := (VenueInstructions s)(venue_id details := (VenueInstructions s (venue_id details))(i := True))\<rparr>"

lemma commit_effect:
  fixes s :: "'a settlement_store_scheme"
  assumes fresh: "InstructionLegs s i = []" "InstructionMediatorsAffirmations s i = []" and "distinct (mediators info)"
  obtains ls ms where "mset ls = mset (enumerate 0 legs)"
    "mset ms = mset (map (\<lambda>d. (d, MediatorAffirmationStatus.Pending)) (mediators info))"
    "commit_instruction cfg i details legs memo info s = committed i details legs memo info ls ms s"
proof -
  let ?s1 = "put_status i InstructionStatus.Pending s"
  let ?s2 = "fold (\<lambda>p. put_user_affirmation p i AffirmationStatus.Pending) (portfolios_pending_approval info) ?s1"
  let ?s3 = "fold (mark_affirmed i) (portfolios_pre_approved_difference info) ?s2"
  have "InstructionMediatorsAffirmations ?s3 i = []"
    by (simp add: fold_mark with_affirmations_def fold_put_user put_status_def fresh)
  from fold_put_mediator [OF assms(3) this, of MediatorAffirmationStatus.Pending] obtain ms where
    ms: "fold (\<lambda>d. put_mediator i d MediatorAffirmationStatus.Pending) (mediators info) ?s3 =
      ?s3\<lparr>InstructionMediatorsAffirmations := (InstructionMediatorsAffirmations ?s3)(i := ms)\<rparr>"
    "mset ms = mset (map (\<lambda>d. (d, MediatorAffirmationStatus.Pending)) (mediators info))" by auto
  let ?s5 = "put_pending i (number_of_pending_affirmations info)
      (?s3\<lparr>InstructionMediatorsAffirmations := (InstructionMediatorsAffirmations ?s3)(i := ms)\<rparr>)"
  have "InstructionLegs ?s5 i = []"
    by (simp add: fold_mark with_affirmations_def fold_put_user put_status_def put_pending_def fresh)
  from fold_add_leg [OF distinct_enumerate [of 0 legs] this, of cfg] obtain ls where
    ls: "fold (add_leg cfg i) (enumerate 0 legs) ?s5 = ?s5\<lparr>InstructionLegs := (InstructionLegs ?s5)(i := ls),
      OffChainAffirmations := (\<lambda>j l. if j = i \<and> (\<exists>leg. (l, leg) \<in> set (enumerate 0 legs) \<and> is_off_chain leg)
        then AffirmationStatus.Pending else OffChainAffirmations ?s5 j l)\<rparr>" "mset ls = mset (enumerate 0 legs)" by auto
  show thesis
    by (rule that [OF ls(2) ms(2)])
      (cases memo; simp add: commit_instruction_def Let_def mark_affirmed_eta ms(1) ls(1);
        simp add: committed_def fold_mark with_affirmations_def fold_put_user put_status_def put_pending_def cong: if_cong)
qed

lemma card_off_chain:
  "card {l. \<exists>leg. (l, leg) \<in> set (enumerate 0 legs) \<and> is_off_chain leg} = length (filter is_off_chain legs)"
  unfolding length_filter_conv_card by (rule arg_cong [where f = card]) (auto simp: in_set_enumerate_eq)

lemma enumerate_legs:
  assumes "mset ls = mset (enumerate 0 legs)"
  shows "set ls = set (enumerate 0 legs)" "distinct (map fst ls)" "parties ls = \<Union> (leg_parties ` set legs)"
    "length ls = length legs" "(l, leg) \<in> set ls \<Longrightarrow> leg \<in> set legs"
proof -
  show st: "set ls = set (enumerate 0 legs)" by (rule mset_eq_setD [OF assms])
  have "mset (map fst ls) = mset (map fst (enumerate 0 legs))" by (simp only: mset_map assms)
  then show "distinct (map fst ls)" using distinct_enumerate mset_eq_imp_distinct_iff by blast
  have "snd ` set ls = set legs" unfolding st by (metis list.set_map map_snd_enumerate)
  then show "parties ls = \<Union> (leg_parties ` set legs)" unfolding parties_def by (metis image_image)
  show "length ls = length legs" using mset_eq_length [OF assms] by simp
  show "leg \<in> set legs" if "(l, leg) \<in> set ls" using that \<open>snd ` set ls = set legs\<close> by force
qed

lemma pending_mediators:
  assumes "mset ms = mset (map (\<lambda>d. (d, MediatorAffirmationStatus.Pending)) ds)" "distinct ds"
    and "InstructionMediatorsAffirmations s i = ms"
  shows "mediators_ok s i" "length ms = length ds"
    "{d. mediator_status s i d = MediatorAffirmationStatus.Pending} = set ds"
proof -
  have m: "mset (map fst ms) = mset ds" using assms(1) by (simp add: image_mset.compositionality comp_def)
  have st: "set ms = (\<lambda>d. (d, MediatorAffirmationStatus.Pending)) ` set ds" using mset_eq_setD [OF assms(1)] by simp
  have "distinct (map fst ms)" using m assms(2) mset_eq_imp_distinct_iff by blast
  then show "mediators_ok s i" by (auto simp: mediators_ok_def assms(3) st)
  show "length ms = length ds" using mset_eq_length [OF assms(1)] by simp
  have "map_of ms d = (if d \<in> set ds then Some MediatorAffirmationStatus.Pending else None)" for d
  proof (cases "d \<in> set ds")
    case True
    then show ?thesis using \<open>distinct (map fst ms)\<close> by (simp add: st)
  next
    case False
    then show ?thesis by (auto simp: map_of_eq_None_iff st)
  qed
  then show "{d. mediator_status s i d = MediatorAffirmationStatus.Pending} = set ds"
    by (auto simp: mediator_status_def assms(3))
qed

lemma commit_ok:
  fixes s s' :: "'a settlement_store_scheme"
  assumes ok: "instruction_ok s i" "InstructionCounter s \<le> i" and info: "info_ok legs info"
    and ls: "mset ls = mset (enumerate 0 legs)"
    and ms: "mset ms = mset (map (\<lambda>d. (d, MediatorAffirmationStatus.Pending)) (mediators info))"
    and sel: "InstructionLegs s' i = ls" "InstructionMediatorsAffirmations s' i = ms"
      "InstructionLegStatus s' i = InstructionLegStatus s i"
      "InstructionAffirmsPending s' i = number_of_pending_affirmations info" "i < InstructionCounter s'"
      "\<And>p. UserAffirmations s' p i = (if p \<in> set (portfolios_pre_approved_difference info) then AffirmationStatus.Affirmed
         else if p \<in> set (portfolios_pending_approval info) then AffirmationStatus.Pending else UserAffirmations s p i)"
      "\<And>p. AffirmsReceived s' i p = (if p \<in> set (portfolios_pre_approved_difference info)
         then AffirmationStatus.Affirmed else AffirmsReceived s i p)"
      "\<And>l. OffChainAffirmations s' i l = (if \<exists>leg. (l, leg) \<in> set (enumerate 0 legs) \<and> is_off_chain leg
         then AffirmationStatus.Pending else OffChainAffirmations s i l)"
    and max: "all_parties s' i \<le> u64_max"
  shows "instruction_ok s' i" "escrow_of s' i p k = 0"
proof -
  have old: "affirmations_ok s i" "InstructionLegs s i = []" "InstructionLegStatus s i = (\<lambda>_. PendingTokenLock)"
    using ok by (simp_all add: instruction_ok_def fresh_ok_def)
  have un: "UserAffirmations s p i = AffirmationStatus.Unknown" "AffirmsReceived s i p = AffirmationStatus.Unknown"
    "OffChainAffirmations s i l = AffirmationStatus.Unknown" for p l
    using old(1,2) by (simp_all add: affirmations_ok_def parties_def)
  note en = enumerate_legs [OF ls]
  let ?pend = "set (portfolios_pending_approval info)" and ?diff = "set (portfolios_pre_approved_difference info)"
  have dis: "?diff \<inter> ?pend = {}" "?pend \<union> ?diff = parties ls"
    using info by (auto simp: portfolios_pre_approved_difference_def info_ok_def en(3))
  have send: "p \<in> ?pend" if "(l, leg) \<in> set ls" "sender_in [p] (l, leg)" for p l leg
    using info en(5) [OF that(1)] that(2) unfolding info_ok_def by blast
  have "leg_ok (\<lambda>p. UserAffirmations s' p i) (OffChainAffirmations s' i l) (InstructionLegStatus s' i l) leg"
    if l: "(l, leg) \<in> set ls" for l leg
    using send [OF l] dis(1) by (cases leg) (auto simp: leg_ok_def sel old un lock_status_def sender_in_def)
  then have "legs_ok s' i" using en(2) by (auto simp: legs_ok_def sel)
  moreover have "affirmations_ok s' i"
    using dis by (auto simp: affirmations_ok_def sel un en(1) simp flip: dis(2))
  moreover have ds: "distinct (mediators info)" "distinct (portfolios_pending_approval info)" using info by (simp_all add: info_ok_def)
  note pm = pending_mediators [OF ms ds(1) sel(2)]
  have "{p. UserAffirmations s' p i = AffirmationStatus.Pending} = ?pend" using dis(1) by (auto simp: sel un)
  moreover have "{l. OffChainAffirmations s' i l = AffirmationStatus.Pending} =
      {l. \<exists>leg. (l, leg) \<in> set (enumerate 0 legs) \<and> is_off_chain leg}" by (auto simp: sel un)
  ultimately have "count_ok s' i"
    using info max ds
    by (simp add: count_ok_def pending_parties_def sel(4) number_of_pending_affirmations_def card_off_chain pm(3)
        distinct_card info_ok_def)
  moreover have "fresh_ok s' i" using sel(5) by (simp add: fresh_ok_def)
  ultimately show "instruction_ok s' i"
    using \<open>legs_ok s' i\<close> \<open>affirmations_ok s' i\<close> pm(1) by (simp add: instruction_ok_def)
  have "demand leg p k = 0" if "p \<in> ?diff" "(l, leg) \<in> set ls" for l leg
    using demand_sender [of leg p k "[p]" l] send [OF that(2), of p] dis(1) that(1) by auto
  then have "p \<in> ?diff \<Longrightarrow> legs_demand ls p k = 0" by (force simp: legs_demand_def sum_list_eq_0_iff)
  then show "escrow_of s' i p k = 0" by (auto simp: escrow_of_def sel un)
qed

lemma base_add_effect:
  fixes s s' :: "'a settlement_store_scheme"
  assumes "base_add_instruction cfg did v typ trade val legs memo meds s = Inr (i, s')"
  obtains info details s1 where "i = InstructionCounter s" "i + 1 \<le> u64_max" "info_ok legs info"
    "details = \<lparr>instruction_id = i, venue_id = v, settlement_type = typ, created_at = Some (timestamp s),
       trade_date = trade, value_date = val\<rparr>"
    "s1 = commit_instruction cfg i details legs memo info (s\<lparr>InstructionCounter := i + 1\<rparr>)"
    "s' = (case typ of SettleOnBlock b \<Rightarrow>
        schedule_instruction cfg i b (scheduled_weight cfg (instruction_asset_count info)) s1 | _ \<Rightarrow> s1)"
proof -
  obtain info0 where ok: "ensure_valid_legs cfg s legs v = Inr info0"
    and c: "i = InstructionCounter s" "i + 1 \<le> u64_max"
    and s': "s' = (let info = (case meds of Some ms \<Rightarrow> extend_mediators ms info0 | None \<Rightarrow> info0);
        s1 = commit_instruction cfg i \<lparr>instruction_id = i, venue_id = v, settlement_type = typ,
          created_at = Some (timestamp s), trade_date = trade, value_date = val\<rparr> legs memo info
          (s\<lparr>InstructionCounter := i + 1\<rparr>)
       in case typ of SettleOnBlock b \<Rightarrow>
         schedule_instruction cfg i b (scheduled_weight cfg (instruction_asset_count info)) s1 | _ \<Rightarrow> s1)"
    using assms
    by (auto simp: base_add_instruction_def attempt_Inr_iff try_next_post_Inr Let_def split: SettlementType.splits)
  have "info_ok legs (case meds of Some ms \<Rightarrow> extend_mediators ms info0 | None \<Rightarrow> info0)"
    using ensure_valid_legs_ok [OF ok] extend_mediators_ok by (simp split: option.splits)
  then show thesis by (rule that [OF c _ refl refl]) (simp only: s' Let_def)
qed

lemma all_parties_agenda: "all_parties (s\<lparr>Agenda := a\<rparr>) i = all_parties s i"
  by (simp add: all_parties_def)

lemma schedule_parties: "all_parties (schedule_instruction cfg i b w s) j = all_parties s j"
  by (simp add: schedule_instruction_def all_parties_def split: option.splits)

lemma counter_step:
  fixes s :: "'a settlement_store_scheme"
  assumes "settle_good R s" "InstructionCounter s \<le> n"
  shows "settle_good R (s\<lparr>InstructionCounter := n\<rparr>)" (is "settle_good R ?s")
proof -
  note inv = settle_goodD [OF assms(1)]
  have v: "instruction_view ?s j = instruction_view s j" for j by (simp add: instruction_view_def)
  have "instruction_ok ?s j" for j using instruction_ok_cong [OF v _ inv(4)] assms(2) by simp
  moreover have "escrow ?s p k = escrow s p k" for p k
    unfolding escrow_def using escrow_of_fresh [OF inv(4)] assms(2)
    by (intro sum.mono_neutral_cong_right) (auto simp: escrow_of_cong [OF v])
  moreover have "locked ?s = locked s" by (auto simp: locked_def fun_eq_iff split: lock_key.splits)
  moreover have "ledger_inv ?s" using inv(2) ledger_inv_cong [of ?s s] by (simp add: ledger_view_def view_defs)
  ultimately show ?thesis using inv(3) by (simp add: settle_good_def settle_inv_def)
qed

lemma base_add_good:
  fixes s s' :: "'a settlement_store_scheme"
  assumes "base_add_instruction cfg did v typ trade val legs memo meds s = Inr (i, s')" and good: "settle_good R s"
    and max: "all_parties s' i \<le> u64_max"
  shows "settle_good R s'"
proof -
  obtain info details s1 where i: "i = InstructionCounter s" "info_ok legs info"
    and s1: "s1 = commit_instruction cfg i details legs memo info (s\<lparr>InstructionCounter := i + 1\<rparr>)"
    and s': "s' = (case typ of SettleOnBlock b \<Rightarrow>
        schedule_instruction cfg i b (scheduled_weight cfg (instruction_asset_count info)) s1 | _ \<Rightarrow> s1)"
    using assms(1) by (rule base_add_effect)
  have max: "all_parties s1 i \<le> u64_max" using max by (simp add: s' schedule_parties split: SettlementType.splits)
  let ?s = "s\<lparr>InstructionCounter := i + 1\<rparr>"
  have g: "settle_good R ?s" using counter_step [OF good] by (simp add: i)
  note inv = settle_goodD [OF g]
  have fresh: "InstructionLegs s i = []" "InstructionMediatorsAffirmations s i = []"
    using settle_goodD(4) [OF good, of i] by (simp_all add: instruction_ok_def fresh_ok_def i)
  have "distinct (mediators info)" using i(2) by (simp add: info_ok_def)
  then obtain ls ms where ls: "mset ls = mset (enumerate 0 legs)"
    and ms: "mset ms = mset (map (\<lambda>d. (d, MediatorAffirmationStatus.Pending)) (mediators info))"
    and eq: "s1 = committed i details legs memo info ls ms ?s"
    using commit_effect [of ?s i info legs cfg details memo] fresh s1 by auto
  note eq = eq [unfolded committed_def]
  have sel: "InstructionLegs s1 i = ls" "InstructionMediatorsAffirmations s1 i = ms"
    "InstructionLegStatus s1 i = InstructionLegStatus s i"
    "InstructionAffirmsPending s1 i = number_of_pending_affirmations info" "i < InstructionCounter s1"
    "\<And>p. UserAffirmations s1 p i = (if p \<in> set (portfolios_pre_approved_difference info) then AffirmationStatus.Affirmed
       else if p \<in> set (portfolios_pending_approval info) then AffirmationStatus.Pending else UserAffirmations s p i)"
    "\<And>p. AffirmsReceived s1 i p = (if p \<in> set (portfolios_pre_approved_difference info)
       then AffirmationStatus.Affirmed else AffirmsReceived s i p)"
    "\<And>l. OffChainAffirmations s1 i l = (if \<exists>leg. (l, leg) \<in> set (enumerate 0 legs) \<and> is_off_chain leg
       then AffirmationStatus.Pending else OffChainAffirmations s i l)"
    by (auto simp: eq)
  have le: "InstructionCounter s \<le> i" by (simp add: i(1))
  note ok = commit_ok [OF settle_goodD(4) [OF good] le i(2) ls ms sel max]
  have "escrow_of ?s i p k = 0" for p k by (simp add: escrow_of_def fresh)
  moreover have "locked s1 = locked s" unfolding eq by (auto simp: locked_def fun_eq_iff split: lock_key.splits)
  ultimately have "settle_inv R s1"
    by (intro settle_inv_upd [OF inv(3) _ _ ok(1)])
      (simp_all add: ok(2), simp_all add: eq instruction_view_def locked_def fun_eq_iff split: lock_key.splits)
  moreover have "ledger_inv s1"
    using inv(2) ledger_inv_cong [of s1 ?s] by (simp add: ledger_view_def view_defs eq)
  ultimately have "settle_good R s1" by (simp add: settle_good_def)
  then show ?thesis by (simp add: s' split: SettlementType.splits)
qed

section \<open>The pallet as a transition system\<close>

text \<open>
  What the invariant reads. A step of the pallet on venues, and of any other pallet that releases no
  lock and keeps the ledger, leaves the rest alone.
\<close>

definition settle_view where
  "settle_view s = (\<lambda>j. instruction_view s j, InstructionCounter s, ReceiptsUsed s)"

lemma fold_venue [simp]:
  "settle_view (fold (put_signer v b) ks s) = settle_view s" "locked (fold (put_signer v b) ks s) = locked s"
  "ledger_view (fold (put_signer v b) ks s) = ledger_view s"
  "settle_view (fold (put_allowed t b) vs s) = settle_view s" "locked (fold (put_allowed t b) vs s) = locked s"
  "ledger_view (fold (put_allowed t b) vs s) = ledger_view s"
  by (rule fold_keep, simp add: put_signer_def put_allowed_def settle_view_def instruction_view_def locked_def
      fun_eq_iff ledger_view_def view_defs split: lock_key.splits)+

definition venue_frame where
  "venue_frame s s' \<longleftrightarrow> settle_view s' = settle_view s \<and> locked s' = locked s \<and> ledger_view s' = ledger_view s"

lemma venue_frames:
  fixes s s' :: "'a settlement_store_scheme"
  shows "create_venue cfg origin det signers typ s = Inr s' \<Longrightarrow> venue_frame s s'"
    and "update_venue_details cfg origin v det s = Inr s' \<Longrightarrow> venue_frame s s'"
    and "update_venue_type origin v typ s = Inr s' \<Longrightarrow> venue_frame s s'"
    and "update_venue_signers cfg origin v signers add s = Inr s' \<Longrightarrow> venue_frame s s'"
    and "set_venue_filtering origin t b s = Inr s' \<Longrightarrow> venue_frame s s'"
    and "allow_venues origin t vs s = Inr s' \<Longrightarrow> venue_frame s s'"
    and "disallow_venues origin t vs s = Inr s' \<Longrightarrow> venue_frame s s'"
proof -
  have f: "settle_view (put_signer_count v n s) = settle_view s" "locked (put_signer_count v n s) = locked s"
    "ledger_view (put_signer_count v n s) = ledger_view s" "settle_view (put_venue v x s) = settle_view s"
    "locked (put_venue v x s) = locked s" "ledger_view (put_venue v x s) = ledger_view s"
    "settle_view (s\<lparr>Details := d\<rparr>) = settle_view s" "locked (s\<lparr>Details := d\<rparr>) = locked s"
    "ledger_view (s\<lparr>Details := d\<rparr>) = ledger_view s" "settle_view (s\<lparr>VenueCounter := n\<rparr>) = settle_view s"
    "locked (s\<lparr>VenueCounter := n\<rparr>) = locked s" "ledger_view (s\<lparr>VenueCounter := n\<rparr>) = ledger_view s"
    "settle_view (s\<lparr>UserVenues := u\<rparr>) = settle_view s" "locked (s\<lparr>UserVenues := u\<rparr>) = locked s"
    "ledger_view (s\<lparr>UserVenues := u\<rparr>) = ledger_view s" "settle_view (s\<lparr>VenueFiltering := g\<rparr>) = settle_view s"
    "locked (s\<lparr>VenueFiltering := g\<rparr>) = locked s" "ledger_view (s\<lparr>VenueFiltering := g\<rparr>) = ledger_view s"
    for v n x d u g and s :: "'a settlement_store_scheme"
    by (simp_all add: put_signer_count_def put_venue_def settle_view_def instruction_view_def locked_def fun_eq_iff
        ledger_view_def view_defs split: lock_key.splits)
  show "create_venue cfg origin det signers typ s = Inr s' \<Longrightarrow> venue_frame s s'"
    "update_venue_details cfg origin v det s = Inr s' \<Longrightarrow> venue_frame s s'"
    "update_venue_type origin v typ s = Inr s' \<Longrightarrow> venue_frame s s'"
    "update_venue_signers cfg origin v signers add s = Inr s' \<Longrightarrow> venue_frame s s'"
    "set_venue_filtering origin t b s = Inr s' \<Longrightarrow> venue_frame s s'"
    "allow_venues origin t vs s = Inr s' \<Longrightarrow> venue_frame s s'"
    "disallow_venues origin t vs s = Inr s' \<Longrightarrow> venue_frame s s'"
    by (auto simp: create_venue_def update_venue_details_def update_venue_type_def update_venue_signers_def
        base_update_venue_signers_def set_venue_filtering_def allow_venues_def disallow_venues_def venue_frame_def
        attempt_Inr_iff ensure_Inr_iff Let_def f split: if_splits)
qed

inductive settle_step ::
  "'c settlement_config_scheme \<Rightarrow> 'a settlement_store_scheme \<Rightarrow> 'a settlement_store_scheme \<Rightarrow> bool" for cfg where
  add: "base_add_instruction cfg did v typ trade val legs memo meds s = Inr (i, s') \<Longrightarrow> all_parties s' i \<le> u64_max
    \<Longrightarrow> settle_step cfg s s'"
| affirm: "affirm_and_maybe_schedule_instruction cfg origin i ps c s = Inr s' \<Longrightarrow> settle_step cfg s s'"
| affirm_with_receipts: "affirm_with_receipts_and_maybe_schedule_instruction cfg origin i rs ps c s = Inr s'
    \<Longrightarrow> settle_step cfg s s'"
| withdraw: "base_withdraw_affirmation cfg origin i ps c s = Inr s' \<Longrightarrow> settle_step cfg s s'"
| mediator_affirm: "base_affirm_instruction_as_mediator cfg origin i expiry s = Inr s' \<Longrightarrow> settle_step cfg s s'"
| mediator_withdraw: "base_withdraw_affirmation_as_mediator cfg origin i s = Inr s' \<Longrightarrow> settle_step cfg s s'"
| reject: "base_reject_instruction cfg origin i p c s = Inr s' \<Longrightarrow> settle_step cfg s s'"
| scheduled: "execute_scheduled_instruction cfg origin i w s = Inr s' \<Longrightarrow> settle_step cfg s s'"
| manual: "execute_manual_instruction cfg origin i p f n o' w s = Inr s' \<Longrightarrow> settle_step cfg s s'"
| affirm_and_execute: "affirm_and_execute_instruction cfg origin i r ps (m, s) = Inr (m', s') \<Longrightarrow> settle_step cfg s s'"
| create_venue: "create_venue cfg origin det signers vt s = Inr s' \<Longrightarrow> settle_step cfg s s'"
| venue_details: "update_venue_details cfg origin v det s = Inr s' \<Longrightarrow> settle_step cfg s s'"
| venue_type: "update_venue_type origin v vt s = Inr s' \<Longrightarrow> settle_step cfg s s'"
| venue_signers: "update_venue_signers cfg origin v signers b s = Inr s' \<Longrightarrow> settle_step cfg s s'"
| filtering: "set_venue_filtering origin t b s = Inr s' \<Longrightarrow> settle_step cfg s s'"
| allow: "allow_venues origin t vs s = Inr s' \<Longrightarrow> settle_step cfg s s'"
| disallow: "disallow_venues origin t vs s = Inr s' \<Longrightarrow> settle_step cfg s s'"
| elsewhere: "settle_view s' = settle_view s \<Longrightarrow> (\<And>p k. locked s p k \<le> locked s' p k) \<Longrightarrow> ledger_inv s'
    \<Longrightarrow> settle_step cfg s s'"

lemma settle_view_good:
  fixes s s' :: "'a settlement_store_scheme"
  assumes "settle_good R s" "settle_view s' = settle_view s" "\<And>p k. locked s p k \<le> locked s' p k" "ledger_inv s'"
  shows "settle_good R s'"
  using assms by (intro settle_good_cong [OF assms(1)]) (auto simp: settle_view_def dest: fun_cong)

lemma venue_frame_good:
  fixes s s' :: "'a settlement_store_scheme"
  assumes "venue_frame s s'" "settle_good R s"
  shows "settle_good R s'"
  using settle_view_good [OF assms(2), of s'] assms(1) settle_goodD(2) [OF assms(2)] ledger_inv_cong [of s' s]
  by (simp add: venue_frame_def)

lemma retry_Inr:
  "(case execute_instruction_retryable cfg i ms of (Inl e, _) \<Rightarrow> Inl e | (Inr m1, s1) \<Rightarrow> Inr (m1, s1)) = Inr (m', s') \<longleftrightarrow>
     execute_instruction_retryable cfg i ms = (Inr m', s')"
  by (auto split: prod.splits sum.splits)

lemma execute_good:
  fixes s s' :: "'a settlement_store_scheme"
  assumes good: "settle_good R s"
  shows "execute_scheduled_instruction cfg origin i w s = Inr s' \<Longrightarrow> settle_good R s'"
    and "execute_manual_instruction cfg origin i p f n o' w' s = Inr s' \<Longrightarrow> settle_good R s'"
proof -
  show "settle_good R s'" if "execute_scheduled_instruction cfg origin i w s = Inr s'"
    using that execute_retryable_good [OF good, of cfg i]
    by (auto simp: execute_scheduled_instruction_def base_execute_scheduled_instruction_def attempt_Inr_iff)
  assume "execute_manual_instruction cfg origin i p f n o' w' s = Inr s'"
  then obtain m m' where "execute_instruction_retryable cfg i (m, s) = (Inr m', s')"
    by (auto simp: execute_manual_instruction_def base_execute_manual_instruction_def attempt_Inr_iff Let_def retry_Inr)
  then show "settle_good R s'" using execute_retryable_good [OF good, of cfg i m] by simp
qed

lemma settle_step_good:
  fixes s s' :: "'a settlement_store_scheme"
  assumes "settle_step cfg s s'" and good: "settle_good R s"
  shows "settle_good R s'"
  using assms(1)
proof cases
  case (add did v ty trade valu legs memo meds i)
  then show ?thesis using base_add_good good by blast
next
  case (affirm origin i ps c)
  then show ?thesis
    using base_affirm_good [OF _ good] by (auto simp: affirm_and_maybe_schedule_instruction_def attempt_Inr_iff)
next
  case (affirm_with_receipts origin i rs ps c)
  then show ?thesis
    by (auto simp: affirm_with_receipts_and_maybe_schedule_instruction_def attempt_Inr_iff
        intro!: schedule_good(3) intro: base_affirm_with_receipts_good [OF _ good])
next
  case (withdraw origin i ps c)
  then show ?thesis
    using unsafe_withdraw_good [OF _ good] by (auto simp: base_withdraw_affirmation_def attempt_Inr_iff)
next
  case (elsewhere)
  then show ?thesis using settle_view_good [OF good] by blast
qed (use good in \<open>blast intro: mediator_affirm_good mediator_withdraw_good reject_good execute_good
      affirm_and_execute_good venue_frame_good [OF venue_frames(1)] venue_frame_good [OF venue_frames(2)]
      venue_frame_good [OF venue_frames(3)] venue_frame_good [OF venue_frames(4)] venue_frame_good [OF venue_frames(5)]
      venue_frame_good [OF venue_frames(6)] venue_frame_good [OF venue_frames(7)]\<close>)+

interpretation settle_system: invariant_system "settle_step cfg" "settle_good R"
  by unfold_locales (rule settle_step_good)

end
