(* ===== verification/Asset_Properties.thy ===== *)
theory Asset_Properties
  imports Asset_System
begin

text \<open>
  The properties of the asset pallet: what any sequence of operations keeps, the effect of issuing
  and transferring down to the rules and statistics of the asset, the agreement of the reports on a
  transfer with the transfer itself, and the protection of locked metadata.
\<close>

section \<open>A transfer and the statistics\<close>

lemma sum_did_totals:
  assumes "portfolio_inv s"
  shows "fin_supp (\<lambda>d. did_total s d t)" "sum_supp (\<lambda>d. did_total s d t) UNIV = portfolio_total s t"
proof -
  let ?f = "\<lambda>p. PortfolioAssetBalances s p t"
  let ?S = "{p. ?f p \<noteq> 0}"
  have fs: "fin_supp ?f" using assms by (simp add: portfolio_inv_defs)
  then have fin: "finite ?S" by (simp add: fin_supp_def)
  have eq: "did_total s d t = sum ?f {p \<in> ?S. pid_did p = d}" for d
    by (simp add: did_total_def sum_supp_def Collect_conj_eq Int_commute)
  have sup: "{d. did_total s d t \<noteq> 0} \<subseteq> pid_did ` ?S"
  proof
    fix d
    assume "d \<in> {d. did_total s d t \<noteq> 0}"
    then have "sum ?f {p \<in> ?S. pid_did p = d} \<noteq> 0" using eq [of d] by simp
    then obtain p where "p \<in> {p \<in> ?S. pid_did p = d}" by (rule sum.not_neutral_contains_not_neutral)
    then show "d \<in> pid_did ` ?S" by auto
  qed
  then show "fin_supp (\<lambda>d. did_total s d t)"
    unfolding fin_supp_def using fin by (meson finite_imageI finite_subset)
  have "sum_supp (\<lambda>d. did_total s d t) UNIV = (\<Sum>d \<in> pid_did ` ?S. did_total s d t)"
    unfolding sum_supp_def
  proof (rule sum.mono_neutral_left)
    show "finite (pid_did ` ?S)" using fin by simp
    show "{d \<in> UNIV. did_total s d t \<noteq> 0} \<subseteq> pid_did ` ?S" using sup by simp
    show "\<forall>d \<in> pid_did ` ?S - {d \<in> UNIV. did_total s d t \<noteq> 0}. did_total s d t = 0" by simp
  qed
  also have "\<dots> = sum ?f ?S" unfolding eq by (rule sum.image_gen [OF fin, symmetric])
  finally show "sum_supp (\<lambda>d. did_total s d t) UNIV = portfolio_total s t"
    by (simp add: portfolio_total_def sum_supp_def)
qed

lemma ledger_balances:
  assumes "ledger_inv s"
  shows "fin_supp (BalanceOf s t)" "sum_supp (BalanceOf s t) UNIV = asset_supply s t"
proof -
  have "BalanceOf s t = (\<lambda>d. did_total s d t)" "asset_supply s t = portfolio_total s t" "portfolio_inv s"
    using assms unfolding ledger_inv_def by auto
  then show "fin_supp (BalanceOf s t)" "sum_supp (BalanceOf s t) UNIV = asset_supply s t"
    using sum_did_totals [of s t] by simp_all
qed

text \<open>The statistics see neither the checkpoints nor the ledger of an asset.\<close>

definition statistics_view where
  "statistics_view s = (ActiveAssetStats s, AssetStats s, AssetTransferCompliances s,
     TransferConditionExemptEntities s, Claims s, timestamp s)"

lemma stats_exact_cong:
  assumes "statistics_view s' = statistics_view s"
  shows "stats_exact s' t B = stats_exact s t B"
proof -
  have "fetch_claim_as_key s' = fetch_claim_as_key s"
    using assms by (intro fetch_claim_as_key_cong) (simp_all add: statistics_view_def)
  then have "claim_key s' = claim_key s" by (simp add: claim_key_def fun_eq_iff)
  then show ?thesis using assms by (simp add: stats_exact_def statistics_view_def)
qed

lemma statistics_view_put [simp]:
  "statistics_view (put_token t tok s) = statistics_view s"
  "statistics_view (put_balance_of t d b s) = statistics_view s"
  "statistics_view (put_issued t r b s) = statistics_view s"
  "statistics_view (set_portfolio_balance p t b s) = statistics_view s"
  "statistics_view (unchecked_transfer_portfolio_balance p q t b s) = statistics_view s"
  by (simp_all add: statistics_view_def asset_put_defs set_portfolio_balance_eq put_defs
      unchecked_transfer_portfolio_balance_def transition_asset_count_eq Let_def)

lemma advance_statistics_view:
  assumes "advance_update_balances t us s = Inr s'"
  shows "statistics_view s' = statistics_view s"
proof -
  obtain s1 where s1: "advance_schedules t s = Inr s1" and s': "s' = update_balances t us s1"
    using assms by (auto simp: advance_update_balances_def attempt_Inr_iff)
  have "statistics_view (forget_schedules x) = statistics_view x" for x :: "'a statistics_store_scheme"
    by (simp add: forget_schedules_def statistics_view_def)
  then have "statistics_view s1 = statistics_view s" using advance_schedules_keep [OF s1] by metis
  moreover have "statistics_view (update_balances t us s1) = statistics_view s1"
  proof -
    have "statistics_view (record_balance t l u x) = statistics_view x" for l u and x :: "'a statistics_store_scheme"
      by (simp add: record_balance_def statistics_view_def split: prod.splits)
    then show ?thesis by (simp add: update_balances_def Let_def fold_keep [where g = statistics_view])
  qed
  ultimately show ?thesis by (simp add: s')
qed

lemma unsafe_transfer_stats:
  assumes tr: "unsafe_transfer cfg from to t v (m, s) = Inr (m', s')" and inv: "ledger_inv s"
    and ex: "stats_exact s t (BalanceOf s t)"
  shows "stats_exact s' t (BalanceOf s' t)"
proof -
  let ?f = "pid_did from" and ?r = "pid_did to"
  let ?B' = "balances_after (Some ?f) (Some ?r) v (BalanceOf s t)"
  obtain s1 where ne: "?f \<noteq> ?r" and le: "v \<le> BalanceOf s t ?f"
    and adv: "advance_update_balances t [(?f, BalanceOf s t ?f), (?r, BalanceOf s t ?r)] s = Inr s1"
    and up: "update_asset_stats cfg t (Some ?f) (Some ?r) (Some (BalanceOf s t ?f - v)) (Some (BalanceOf s t ?r + v)) v
        (m, unchecked_transfer_portfolio_balance from to t v (put_balance_of t ?r (BalanceOf s t ?r + v) (
          put_balance_of t ?f (BalanceOf s t ?f - v) s1))) = Inr (m', s')" (is "update_asset_stats _ _ _ _ _ _ _ (m, ?s4) = _")
    using tr
    by (auto simp: unsafe_transfer_def ensure_granular_def token_details_def ensure_sufficient_balance_Inr
        attempt_Inr_iff ensure_Inr_iff ok_or_Inr_iff checked_add_Some Let_def)
  have ex4: "stats_exact ?s4 t (BalanceOf s t)"
    using ex stats_exact_cong [of ?s4 s] advance_statistics_view [OF adv] by simp
  have B': "map_option ?B' (Some ?f) = Some (BalanceOf s t ?f - v)" "map_option ?B' (Some ?r) = Some (BalanceOf s t ?r + v)"
    using ne by (simp_all add: balances_after_def)
  have up': "update_asset_stats cfg t (Some ?f) (Some ?r) (map_option ?B' (Some ?f)) (map_option ?B' (Some ?r)) v
      (m, ?s4) = Inr (m', s')"
    unfolding B' by (rule up)
  have bal: "BalanceOf s' t = ?B'" using transfer_ledger(3) [OF tr inv] by simp
  have "sum_supp ?B' UNIV \<le> u128_max"
    using ledger_balances(2) [OF transfer_ledger(1) [OF tr inv], of t] ledger_bounds(3) [OF transfer_ledger(1) [OF tr inv], of t]
      max_supply_fits bal by simp
  then show ?thesis
    unfolding bal using le ne update_asset_stats_exact [OF up' ex4 ledger_balances(1) [OF inv]] by blast
qed

lemma transfer_condition_respected:
  assumes tr: "unsafe_transfer cfg from to t v (m1, s) = Inr (m', s')"
    and chk: "statistics_check cfg s (pid_did from) (pid_did to) t v m = Inr m2"
    and inv: "ledger_inv s" and st: "stats_inv s" "stats_exact s t (BalanceOf s t)"
    and c: "\<not> tc_paused (AssetTransferCompliances s (AssetScope.Ticker t))"
      "c \<in> set (tc_requirements (AssetTransferCompliances s (AssetScope.Ticker t)))"
      "\<not> is_exempt s (AssetScope.Ticker t) c (pid_did from) (pid_did to)"
    and v: "0 < v"
  shows "condition_respected cfg c (claim_key s t (get_stat_type c)) (BalanceOf s t) (BalanceOf s' t) (pid_did to)
    (asset_supply s t)"
proof -
  let ?f = "pid_did from" and ?r = "pid_did to" and ?B = "BalanceOf s t"
  have active: "get_stat_type c \<in> set (ActiveAssetStats s (AssetScope.Ticker t))"
    using st(1) c(2) by (simp add: stats_inv_def)
  have ex: "AssetStats s \<lparr>stat_asset = AssetScope.Ticker t, stat_type = get_stat_type c\<rparr> k =
      stat_value (stat_op (get_stat_type c)) (claim_key s t (get_stat_type c)) ?B k" for k
    using st(2) active by (simp add: stats_exact_def)
  have "verify_requirements cfg s (tc_requirements (AssetTransferCompliances s (AssetScope.Ticker t)))
      (AssetScope.Ticker t) ?f ?r (?B ?f) (?B ?r) v (asset_supply s t) m = Inr m2"
    using chk c(1) by (simp add: statistics_check_def verify_transfer_restrictions_def Let_def)
  then obtain m3 m4 where "check_transfer_condition cfg s c (AssetScope.Ticker t) ?f ?r (?B ?r) v (asset_supply s t)
      (investor_count_changes (Some (?B ?f - v)) (Some (saturating_add u128_max (?B ?r) v)) v) m3 = Inr (True, m4)"
    using verify_requirements_all [OF _ c(2)] by blast
  note sound = check_transfer_condition_sound [where B = ?B, OF this ex c(3) ledger_balances(1) [OF inv] v]
  have bal: "BalanceOf s' t = balances_after (Some ?f) (Some ?r) v ?B" using transfer_ledger(3) [OF tr inv] by simp
  have "sum_supp (BalanceOf s' t) UNIV \<le> u128_max"
    using ledger_balances(2) [OF transfer_ledger(1) [OF tr inv], of t] max_supply_fits
      ledger_bounds(3) [OF transfer_ledger(1) [OF tr inv], of t] by linarith
  moreover have "v \<le> ?B ?f" "?f \<noteq> ?r" using tr by (auto elim: unsafe_transfer_effect)
  ultimately show ?thesis unfolding bal by (intro sound)
qed

section \<open>Reports on a transfer\<close>

text \<open>A check that spends weight either runs out of it or gives an answer that the weight does not influence.\<close>

definition decides :: "(WeightMeter \<Rightarrow> (bool \<times> WeightMeter) result) \<Rightarrow> bool \<Rightarrow> bool" where
  "decides f b \<longleftrightarrow> (\<forall>m. f m = Inl (StatisticsError statistics_error.WeightLimitExceeded) \<or> (\<exists>m'. f m = Inr (b, m')))"

lemma decides_consume: "decides (\<lambda>m. attempt (stats_consume_weight cfg w m) (\<lambda>m. Inr (b, m))) b"
  by (auto simp: decides_def stats_consume_weight_def split: prod.splits bool.splits)

lemma decides_consume_if:
  "decides (\<lambda>m. attempt (stats_consume_weight cfg w m) (\<lambda>m. if P then Inr (b, m) else if Q then Inr (b', m) else Inr (b'', m)))
     (if P then b else if Q then b' else b'')"
  by (auto intro: decides_consume)

lemma decides_if:
  "decides f b \<Longrightarrow> decides g b' \<Longrightarrow> decides (\<lambda>m. if P then f m else g m) (if P then b else b')"
  by simp

lemma decides_check: "\<exists>b. decides (check_transfer_condition cfg s c a f r rb v supply ch) b"
proof -
  have count: "\<exists>b. decides (verify_asset_count_restriction cfg s k ch n) b" for k n
    using decides_consume unfolding verify_asset_count_restriction_def
    by (cases ch; (cases "the ch"; cases "fst (the ch)"; cases "snd (the ch)")?) auto
  have own: "\<exists>b. decides (verify_ownership_restriction cfg v rb supply p) b" for p
    unfolding verify_ownership_restriction_def using decides_consume by blast
  have cown: "\<exists>b. decides (verify_claim_ownership_restriction cfg s k k2 f r v supply mn mx) b" for k k2 mn mx
    unfolding verify_claim_ownership_restriction_def
    by (cases "has_matching_claim s f k k2"; cases "has_matching_claim s r k k2") (auto intro: decides_consume)
  have ccount: "\<exists>b. decides (verify_claim_count_restriction cfg s k k2 f r ch mn mx) b" for k k2 mn mx
  proof (cases ch)
    case None
    then show ?thesis unfolding verify_claim_count_restriction_def using decides_consume by auto
  next
    case (Some p)
    then show ?thesis
      unfolding verify_claim_count_restriction_def Let_def
      by (cases p) (simp only: option.case prod.case, rule exI, rule decides_if,
          rule decides_consume, rule decides_consume_if)
  qed
  have "\<exists>b. decides (\<lambda>m. case c of
          MaxInvestorCount n \<Rightarrow> verify_asset_count_restriction cfg s k ch n m
        | MaxInvestorOwnership p \<Rightarrow> verify_ownership_restriction cfg v rb supply p m
        | ClaimCount cl _ mn mx \<Rightarrow> verify_claim_count_restriction cfg s k (Claim cl) f r ch mn mx m
        | ClaimOwnership cl _ mn mx \<Rightarrow> verify_claim_ownership_restriction cfg s k (Claim cl) f r v supply mn mx m) b" for k
    using count own cown ccount by (cases c) simp_all
  then obtain b where b: "decides (\<lambda>m. case c of
          MaxInvestorCount n \<Rightarrow> verify_asset_count_restriction cfg s \<lparr>stat_asset = a, stat_type = get_stat_type c\<rparr> ch n m
        | MaxInvestorOwnership p \<Rightarrow> verify_ownership_restriction cfg v rb supply p m
        | ClaimCount cl _ mn mx \<Rightarrow>
            verify_claim_count_restriction cfg s \<lparr>stat_asset = a, stat_type = get_stat_type c\<rparr> (Claim cl) f r ch mn mx m
        | ClaimOwnership cl _ mn mx \<Rightarrow>
            verify_claim_ownership_restriction cfg s \<lparr>stat_asset = a, stat_type = get_stat_type c\<rparr> (Claim cl) f r v supply mn mx m) b"
    by blast
  have "decides (check_transfer_condition cfg s c a f r rb v supply ch) (b \<or> is_exempt s a c f r)"
    unfolding decides_def
  proof
    fix m
    show "check_transfer_condition cfg s c a f r rb v supply ch m = Inl (StatisticsError statistics_error.WeightLimitExceeded) \<or>
      (\<exists>m'. check_transfer_condition cfg s c a f r rb v supply ch m = Inr (b \<or> is_exempt s a c f r, m'))"
      using b [unfolded decides_def, rule_format, of m]
      by (cases b) (auto simp: check_transfer_condition_def Let_def stats_consume_weight_def split: prod.splits bool.splits)
  qed
  then show ?thesis by blast
qed

definition condition_met ::
  "'c statistics_config_scheme \<Rightarrow> 'a statistics_store_scheme \<Rightarrow> Ticker \<Rightarrow> IdentityId \<Rightarrow> IdentityId \<Rightarrow> Balance
    \<Rightarrow> TransferCondition \<Rightarrow> bool" where
  "condition_met cfg s t f r v c \<longleftrightarrow> decides (check_transfer_condition cfg s c (AssetScope.Ticker t) f r (BalanceOf s t r) v
     (asset_supply s t) (investor_count_changes (Some (BalanceOf s t f - v))
       (Some (saturating_add u128_max (BalanceOf s t r) v)) v)) True"

lemma check_condition_met:
  fixes cfg s c t f r v
  defines "f' \<equiv> check_transfer_condition cfg s c (AssetScope.Ticker t) f r (BalanceOf s t r) v (asset_supply s t)
    (investor_count_changes (Some (BalanceOf s t f - v)) (Some (saturating_add u128_max (BalanceOf s t r) v)) v)"
  shows "f' m = Inr (b, m') \<Longrightarrow> b \<longleftrightarrow> condition_met cfg s t f r v c"
    and "f' m = Inl e \<Longrightarrow> e = StatisticsError statistics_error.WeightLimitExceeded"
proof -
  have same: "b = b'" if "decides f' b'" "f' m = Inr (b, m')" for b'
    using that(1) [unfolded decides_def, rule_format, of m] that(2) by auto
  obtain b' where b': "decides f' b'" unfolding f'_def by (rule exE [OF decides_check])
  show "b \<longleftrightarrow> condition_met cfg s t f r v c" if "f' m = Inr (b, m')"
    using same [OF b' that] same [OF _ that, of True] b' unfolding condition_met_def f'_def [symmetric] by (cases b) auto
  show "e = StatisticsError statistics_error.WeightLimitExceeded" if "f' m = Inl e"
    using b' [unfolded decides_def, rule_format, of m] that by auto
qed

lemma report_conditions_met:
  fixes cfg s t f r v
  defines "ch \<equiv> investor_count_changes (Some (BalanceOf s t f - v))
    (Some (saturating_add u128_max (BalanceOf s t r) v)) v"
  shows "transfer_condition_results cfg s (AssetScope.Ticker t) f r (BalanceOf s t r) v (asset_supply s t) ch cs m =
      Inr (rs, m') \<Longrightarrow> list_all transfer_condition_result rs \<longleftrightarrow> (\<forall>c \<in> set cs. condition_met cfg s t f r v c)"
proof (induction cs arbitrary: m rs)
  case (Cons c cs)
  obtain b m1 rs' where b: "check_transfer_condition cfg s c (AssetScope.Ticker t) f r (BalanceOf s t r) v
      (asset_supply s t) ch m = Inr (b, m1)"
    and rs': "transfer_condition_results cfg s (AssetScope.Ticker t) f r (BalanceOf s t r) v (asset_supply s t) ch cs m1 =
      Inr (rs', m')" "rs = \<lparr>transfer_condition = c, transfer_condition_result = b\<rparr> # rs'"
    using Cons.prems by (auto simp: attempt_Inr_iff)
  show ?case using check_condition_met(1) [OF b [unfolded ch_def]] Cons.IH [OF rs'(1)] by (simp add: rs'(2))
qed simp

lemma check_conditions_met:
  fixes cfg s t f r v
  defines "step \<equiv> \<lambda>c m. attempt (check_transfer_condition cfg s c (AssetScope.Ticker t) f r (BalanceOf s t r) v
      (asset_supply s t) (investor_count_changes (Some (BalanceOf s t f - v))
        (Some (saturating_add u128_max (BalanceOf s t r) v)) v) m)
    (\<lambda>(holds, m). if \<not> holds then Inl (StatisticsError statistics_error.InvalidTransfer) else Inr m)"
  shows "fold_res step cs m = Inr m' \<Longrightarrow> c \<in> set cs \<Longrightarrow> condition_met cfg s t f r v c"
    and "fold_res step cs m = Inl e \<Longrightarrow> e \<noteq> StatisticsError statistics_error.WeightLimitExceeded \<Longrightarrow>
      \<exists>c \<in> set cs. \<not> condition_met cfg s t f r v c"
proof -
  show "fold_res step cs m = Inr m' \<Longrightarrow> c \<in> set cs \<Longrightarrow> condition_met cfg s t f r v c"
    by (induction cs arbitrary: m)
      (auto simp: step_def attempt_Inr_iff dest!: check_condition_met(1) split: if_splits)
  show "fold_res step cs m = Inl e \<Longrightarrow> e \<noteq> StatisticsError statistics_error.WeightLimitExceeded \<Longrightarrow>
      \<exists>c \<in> set cs. \<not> condition_met cfg s t f r v c"
    by (induction cs arbitrary: m)
      (auto simp: step_def attempt_Inl_iff attempt_Inr_iff dest!: check_condition_met split: if_splits)
qed

lemma statistics_check_met:
  assumes run: "\<not> tc_paused (AssetTransferCompliances s (AssetScope.Ticker t))"
    and weight: "statistics_check cfg s f r t v m \<noteq> Inl (StatisticsError statistics_error.WeightLimitExceeded)"
  shows "is_ok (statistics_check cfg s f r t v m) \<longleftrightarrow>
    (\<forall>c \<in> set (tc_requirements (AssetTransferCompliances s (AssetScope.Ticker t))). condition_met cfg s t f r v c)"
  using assms check_conditions_met [of cfg s t f r v]
  by (cases "statistics_check cfg s f r t v m")
    (auto simp: statistics_check_def verify_transfer_restrictions_def verify_requirements_def Let_def)

lemma validity_result_iff:
  "validity_result (ensure_portfolio_transfer_validity_granular s from to t v) \<longleftrightarrow> \<not> portfolio_failure s from to t v"
  by (auto simp: portfolio_failure_def ensure_portfolio_transfer_validity_granular_def Let_def
      ensure_portfolio_transfer_validity_def is_ok_iff attempt_Inr_iff ensure_Inr_iff)

lemma is_compliant_result:
  "claims_keyed s \<Longrightarrow> is_compliant cfg s t f r m = Inr (b, m') \<Longrightarrow> b \<longleftrightarrow> compliant s t f r"
  by (auto simp: is_compliant_def Let_def compliant_def split: if_splits dest!: requirements_exact)

lemma granular_result:
  assumes keyed: "claims_keyed s" and g: "verify_restriction_granular cfg s t (Some f) (Some r) m = Inr (res, m')"
  shows "compliance_result res \<longleftrightarrow> compliant s t f r"
proof -
  let ?c = "AssetCompliances s t"
  obtain rs where g: "granular_requirements cfg s t (Some f) (Some r) (map requirement_to_result (requirements ?c))
      (paused ?c) m = Inr (rs, compliance_result res, m')"
    using g by (auto simp: verify_restriction_granular_def Let_def compliance_to_result_def attempt_Inr_iff)
  have t: "list_all requirement_result (map requirement_to_result (requirements ?c))"
    by (simp add: list_all_iff requirement_to_result_def Let_def)
  note e = granular_exact [OF keyed g t]
  have *: "map requirement_result rs = map (requirement_holds s t f r) (requirements ?c)"
    using e by (simp add: comp_def requirement_to_result_def Let_def all_hold_def requirement_holds_def list_all_iff)
  have "list_ex requirement_result rs \<longleftrightarrow> (\<exists>req \<in> set (requirements ?c). requirement_holds s t f r req)"
    using arg_cong [OF *, of "\<lambda>bs. True \<in> set bs"] by (auto simp: list_ex_iff)
  then show ?thesis using e by (simp add: compliant_def)
qed

section \<open>Locked metadata\<close>

text \<open>The extrinsics that touch metadata, and the passing of time.\<close>

inductive metadata_step ::
  "'c assets_config_scheme \<Rightarrow> 'a assets_store_scheme \<Rightarrow> 'a assets_store_scheme \<Rightarrow> bool" for cfg where
  set_value: "base_set_asset_metadata cfg origin t key val detail s = Inr s' \<Longrightarrow> metadata_step cfg s s'"
| set_details: "base_set_asset_metadata_details origin t key det s = Inr s' \<Longrightarrow> metadata_step cfg s s'"
| register: "base_register_and_set_local_asset_metadata cfg origin t name spec val detail s = Inr s'
    \<Longrightarrow> metadata_step cfg s s'"
| local_type: "base_register_asset_metadata_local_type cfg origin t name spec s = Inr s' \<Longrightarrow> metadata_step cfg s s'"
| global_type: "base_register_asset_metadata_global_type cfg origin name spec s = Inr s' \<Longrightarrow> metadata_step cfg s s'"
| remove_key: "base_remove_local_metadata_key origin t lk s = Inr s' \<Longrightarrow> metadata_step cfg s s'"
| remove_value: "base_remove_metadata_value origin t key s = Inr s' \<Longrightarrow> metadata_step cfg s s'"
| tick: "timestamp s \<le> now \<Longrightarrow> metadata_step cfg s (s\<lparr>timestamp := now\<rparr>)"

definition metadata_at where
  "metadata_at s t k = (AssetMetadataValues s t k, AssetMetadataValueDetails s t k)"

lemma metadata_at_put [simp]:
  "metadata_at (put_metadata_value u l v s) t k = (if u = t \<and> l = k then (v, AssetMetadataValueDetails s t k) else metadata_at s t k)"
  "metadata_at (put_metadata_detail u l d s) t k = (if u = t \<and> l = k then (AssetMetadataValues s t k, d) else metadata_at s t k)"
  by (simp_all add: metadata_at_def put_metadata_value_def put_metadata_detail_def)

lemma set_metadata_other:
  assumes "unverified_set_asset_metadata cfg u l v d s = Inr s'" "is_asset_metadata_locked s t k"
  shows "metadata_at s' t k = metadata_at s t k \<and> timestamp s' = timestamp s"
  using assms
  by (cases "u = t \<and> l = k")
    (auto simp: unverified_set_asset_metadata_def attempt_Inr_iff ensure_Inr_iff Let_def put_metadata_value_def
      put_metadata_detail_def metadata_at_def split: option.splits)

lemma register_local_keeps:
  "unverified_register_asset_metadata_local_type cfg u name spec s = Inr (l, s') \<Longrightarrow>
    AssetMetadataValues s' = AssetMetadataValues s \<and> AssetMetadataValueDetails s' = AssetMetadataValueDetails s \<and>
    timestamp s' = timestamp s"
  by (auto simp: unverified_register_asset_metadata_local_type_def attempt_Inr_iff ensure_Inr_iff)

lemma metadata_step_time: "metadata_step cfg s s' \<Longrightarrow> timestamp s \<le> timestamp s'"
proof (induction rule: metadata_step.induct)
  case (register origin t name spec val detail s s')
  then obtain l s1 where "unverified_register_asset_metadata_local_type cfg t name spec s = Inr (l, s1)"
    "unverified_set_asset_metadata cfg t l val detail s1 = Inr s'"
    by (auto simp: base_register_and_set_local_asset_metadata_def attempt_Inr_iff)
  then show ?case
    by (auto dest!: register_local_keeps simp: unverified_set_asset_metadata_def attempt_Inr_iff ensure_Inr_iff Let_def
        put_metadata_value_def put_metadata_detail_def split: option.splits)
qed (auto simp: base_set_asset_metadata_def base_set_asset_metadata_details_def
    base_register_asset_metadata_local_type_def base_register_asset_metadata_global_type_def
    base_remove_local_metadata_key_def base_remove_metadata_value_def unverified_set_asset_metadata_def
    unverified_register_asset_metadata_local_type_def attempt_Inr_iff ensure_Inr_iff Let_def
    put_metadata_value_def put_metadata_detail_def split: option.splits)

lemma metadata_step_locked:
  assumes "metadata_step cfg s s'" "is_asset_metadata_locked s t k"
  shows "metadata_at s' t k = metadata_at s t k"
  using assms
proof (induction rule: metadata_step.induct)
  case (set_value origin u l v d s s')
  then show ?case by (auto simp: base_set_asset_metadata_def attempt_Inr_iff dest: set_metadata_other)
next
  case (register origin u name spec v d s s')
  then obtain l s1 where r: "unverified_register_asset_metadata_local_type cfg u name spec s = Inr (l, s1)"
    and w: "unverified_set_asset_metadata cfg u l v d s1 = Inr s'"
    by (auto simp: base_register_and_set_local_asset_metadata_def attempt_Inr_iff)
  have "is_asset_metadata_locked s1 t k"
    using register.prems register_local_keeps [OF r] by (auto simp: is_asset_metadata_locked_def split: option.splits)
  then show ?case using set_metadata_other [OF w] register_local_keeps [OF r] by (simp add: metadata_at_def)
next
  case (local_type origin u name spec s s')
  then show ?case
    using register_local_keeps by (fastforce simp: base_register_asset_metadata_local_type_def attempt_Inr_iff metadata_at_def)
next
  case (set_details origin u l d s s')
  then show ?case by (auto simp: base_set_asset_metadata_details_def attempt_Inr_iff ensure_Inr_iff)
next
  case (global_type origin name spec s s')
  then show ?case
    by (auto simp: base_register_asset_metadata_global_type_def attempt_Inr_iff ensure_Inr_iff metadata_at_def)
next
  case (remove_key origin u lk s s')
  then show ?case
    by (auto simp: base_remove_local_metadata_key_def attempt_Inr_iff ensure_Inr_iff Let_def metadata_at_def
        put_metadata_value_def put_metadata_detail_def)
next
  case (remove_value origin u l s s')
  then show ?case
    by (auto simp: base_remove_metadata_value_def attempt_Inr_iff ensure_Inr_iff metadata_at_def
        put_metadata_value_def put_metadata_detail_def)
next
  case (tick s now)
  then show ?case by (simp add: metadata_at_def)
qed

lemma is_locked_antimono: "is_locked d now \<Longrightarrow> before \<le> now \<Longrightarrow> is_locked d before"
  by (auto simp: is_locked_def split: AssetMetadataLockStatus.splits)

section \<open>A concrete asset\<close>

text \<open>
  Ticker 7 of identity 1 with identity 2 as an accredited investor; transfers must come from identity 1
  and go to accredited identities, and the asset has room for two investors.
\<close>

definition ex_rule :: ComplianceRequirement where
  "ex_rule = \<lparr>sender_conditions = [\<lparr>condition_type = IsIdentity (TargetIdentity.Specific 1), issuers = []\<rparr>],
     receiver_conditions = [\<lparr>condition_type = IsPresent ex_accredited, issuers = []\<rparr>], req_id = 1\<rparr>"

definition ex_systematic_cdd :: IdentityClaim where
  "ex_systematic_cdd = \<lparr>claim_issuer = as_id CDDProvider, issuance_date = 9, last_update_date = 9, claim_expiry = None,
     claim = Claim.CustomerDueDiligence 0\<rparr>"

definition ex_assets :: assets_store where
  "ex_assets = (compliance_store.extend ex_compliance
     (assets_store.fields (\<lambda>_. []) (\<lambda>_ _. None) (\<lambda>_. 0) ((\<lambda>_ _. None)(7 := [Local 1 \<mapsto> ''v'']))
       ((\<lambda>_ _. None)(7 := [Local 1 \<mapsto> \<lparr>value_expire = None, lock_status = Locked\<rparr>]))
       ((\<lambda>_ _. None)(7 := [''n'' \<mapsto> 1])) (\<lambda>_. None) (\<lambda>_ _. None) (\<lambda>_. None) (\<lambda>_. 1) 0))
     \<lparr>Tickers := [7 \<mapsto> \<lparr>ticker_owner = 1, ticker_expiry = None\<rparr>],
      AssetOwnershipRelations := (\<lambda>_ _. NotOwned)(1 := (\<lambda>_. NotOwned)(7 := AssetOwned)),
      AssetMetadataLocalKeyToName := (\<lambda>_ _. None)(7 := [1 \<mapsto> ''n'']),
      CachedNextCheckpoints := (\<lambda>_. None), ScheduledCheckpoints := (\<lambda>_ _. None),
      Claims := (\<lambda>k. if key_claim_type k = ClaimType.CustomerDueDiligence \<and> claim_target k \<in> {1, 2}
        then [(\<lparr>key_issuer = as_id CDDProvider, key_scope = None\<rparr>, ex_systematic_cdd)] else Claims ex_compliance k),
      AssetCompliances := (\<lambda>_. default_compliance)(7 := \<lparr>paused = False, requirements = [ex_rule]\<rparr>)\<rparr>"

definition ex_assets_config :: assets_config where
  "ex_assets_config = compliance_config.extend ex_compliance_config
     (assets_config.fields 16 16 16 16 16 4 (\<lambda>bs. 1000 + length bs))"

lemmas ex_assets_defs = ex_assets_def compliance_store.defs assets_store.defs ex_compliance_defs ex_stats_defs

lemma ex_assets_sel [simp]:
  "timestamp ex_assets = 100" "Frozen ex_assets t = False" "Tickers ex_assets = [7 \<mapsto> \<lparr>ticker_owner = 1, ticker_expiry = None\<rparr>]"
  "AssetOwnershipRelations ex_assets = (\<lambda>_ _. NotOwned)(1 := (\<lambda>_. NotOwned)(7 := AssetOwned))"
  "Tokens ex_assets = [7 \<mapsto> \<lparr>total_supply = 50000000, owner_did = 1, divisible = False, asset_type = EquityCommon\<rparr>]"
  "BalanceOf ex_assets = (\<lambda>_ _. 0)(7 := (\<lambda>_. 0)(1 := 50000000))"
  "PortfolioAssetBalances ex_assets = (\<lambda>_ _. 0)(default_portfolio 1 := (\<lambda>_. 0)(7 := 50000000))"
  "PortfolioLockedAssets ex_assets p t = 0" "PortfolioCustodian ex_assets p = None"
  "ActiveAssetStats ex_assets a = (if a = AssetScope.Ticker 7 then [ex_count] else [])"
  "AssetStats ex_assets k = (if k = \<lparr>stat_asset = AssetScope.Ticker 7, stat_type = ex_count\<rparr>
     then (\<lambda>_. 0)(NoClaimStat := 1) else (\<lambda>_. 0))"
  "AssetTransferCompliances ex_assets a = (if a = AssetScope.Ticker 7
     then \<lparr>tc_paused = False, tc_requirements = [MaxInvestorCount 2]\<rparr> else default_transfer_compliance)"
  "TransferConditionExemptEntities ex_assets key d = False"
  "CachedNextCheckpoints ex_assets = (\<lambda>_. None)" "CheckpointIdSequence ex_assets t = 0"
  "AssetCompliances ex_assets = (\<lambda>_. default_compliance)(7 := \<lparr>paused = False, requirements = [ex_rule]\<rparr>)"
  "TrustedClaimIssuer ex_assets t =
     (if t = 7 then [\<lparr>issuer = 3, trusted_for = TrustedFor.Specific [ClaimType.Accredited]\<rparr>] else [])"
  "Claims ex_assets = (\<lambda>k. if key_claim_type k = ClaimType.CustomerDueDiligence \<and> claim_target k \<in> {1, 2}
     then [(\<lparr>key_issuer = as_id CDDProvider, key_scope = None\<rparr>, ex_systematic_cdd)] else Claims ex_compliance k)"
  "portfolio_view ex_assets = portfolio_view ex_ledger"
  "agents_view ex_assets = agents_view ex_agents" "CurrentPayer ex_assets = Some 1" "BaseFees ex_assets op = 0"
  "Coefficient ex_assets = PosRatio 1 1" "FundingRound ex_assets t = ''r''" "IssuedInFundingRound ex_assets t r = 0"
  "AssetMetadataValues ex_assets = (\<lambda>_ _. None)(7 := [Local 1 \<mapsto> ''v''])"
  "AssetMetadataValueDetails ex_assets = (\<lambda>_ _. None)(7 := [Local 1 \<mapsto> \<lparr>value_expire = None, lock_status = Locked\<rparr>])"
  "AssetMetadataLocalKeyToName ex_assets = (\<lambda>_ _. None)(7 := [1 \<mapsto> ''n''])"
  "CollectionTicker ex_assets t = None" "NextPortfolioNumber ex_assets = (\<lambda>_. 1)(1 := 2)"
  by (simp_all add: ex_assets_defs view_defs agents_view_def fun_eq_iff)

lemma ex_assets_perms:
  "ensure_agent_asset_perms ex_assets (Signed 1) 7 = Inr \<lparr>sender = 1, primary_did = 1, secondary_key = None\<rparr>"
  by (simp add: ensure_agent_asset_perms_def ensure_asset_perms_def ensure_origin_call_permissions_def
      ensure_signed_def ensure_call_permissions_def check_account_call_permissions_def
      ensure_agent_permissioned_def agent_permissions_def sufficient_for_def ex_assets_defs)

lemma ex_assets_inv: "asset_inv ex_assets"
proof -
  have pinv: "portfolio_inv ex_assets" using portfolio_inv_cong [of ex_assets ex_ledger] ex_ledger_inv by simp
  have "BalanceOf ex_assets t d = did_total ex_assets d t" for t d
    by (cases "t = 7"; cases "d = 1") (simp_all add: did_total_def sum_supp_def)
  moreover have "asset_supply ex_assets t = portfolio_total ex_assets t" for t
    by (cases "t = 7") (simp_all add: portfolio_total_def sum_supp_def asset_supply_def token_details_def)
  moreover have "asset_supply ex_assets t \<le> MAX_SUPPLY" for t
    by (cases "t = 7") (simp_all add: asset_supply_def token_details_def MAX_SUPPLY_def ONE_UNIT_def)
  ultimately have l: "ledger_inv ex_assets" using pinv unfolding ledger_inv_def by metis
  have "agents_inv ex_assets" using agents_inv_cong [of ex_assets ex_agents] ex_agents_inv by simp
  moreover have "GroupOfAgent ex_assets = GroupOfAgent ex_agents"
    using ex_assets_sel(20) by (simp only: agents_view_def prod.inject)
  ultimately have "registry_inv ex_assets"
    by (auto simp: registry_inv_def relation_of_def owners_def full_agents_def ex_agents_defs)
  then show ?thesis using l by (simp add: asset_inv_def)
qed

lemma ex_assets_left: "numbers_left ex_assets" "assets_left ex_assets"
  by (simp_all add: numbers_left_def assets_left_def u64_max_def)

lemma ex_assets_config_sel:
  "w_active_asset_statistics_load ex_assets_config n = Weight 2 0"
  "w_update_asset_count_stats ex_assets_config n = Weight 2 0"
  "w_max_investor_count_restriction ex_assets_config n = Weight 2 0"
  "w_is_exempt ex_assets_config = Weight 2 0"
  "w_is_condition_satisfied ex_assets_config i n = Weight 2 0"
  "w_is_identity_condition ex_assets_config n = Weight 2 0"
  "perbill_of_rational_mul ex_assets_config n d b = n * b div d"
  by (simp_all add: ex_assets_config_def compliance_config.defs assets_config.defs ex_compliance_config_def statistics_config.defs ex_stats_config_def fee_config.defs
    ex_fee_config_def config.defs)

lemma ex_assets_accrue: "accrue ex_assets_config limit used w = (if ref_time used + ref_time w \<le> ref_time limit
     then Some (Weight (ref_time used + ref_time w) (proof_size used + proof_size w)) else None)"
  by (simp add: ex_assets_config_def compliance_config.defs assets_config.defs ex_compliance_config_def statistics_config.defs ex_stats_config_def fee_config.defs
    ex_fee_config_def config.defs ex_config_def)

lemmas ex_assets_run = ex_assets_config_sel ex_assets_accrue ex_assets_perms [unfolded One_nat_def] default_portfolio_def
    ensure_origin_ticker_and_portfolio_permissions_def ensure_portfolio_validity_def ensure_user_portfolio_permission_def
   ensure_granular_def check_granularity_def is_unit_multiple_def ONE_UNIT_def token_details_def is_fungible_def
   checked_add_def u128_max_def ensure_within_max_supply_def MAX_SUPPLY_def Let_def wrapping_add_def
  charge_fee_def charge_fees_def compute_fee_def
  advance_update_balances_def advance_schedules_def update_balances_def asset_put_defs set_portfolio_balance_eq put_defs update_asset_stats_def
  stats_consume_weight_def consume_weight_until_limit_def max_limit_no_minimum_def u64_max_def update_asset_stat_def
        investor_count_changes_eq update_asset_count_stats_def ex_count_def

lemma ex_issue_ok: "is_ok (base_issue ex_assets_config (Signed 1) 7 2000000 Default ex_assets)"
  by (simp add: base_issue_def mint_def ex_assets_run)

lemma ex_assets_fetch:
  "fetch_base_claim_with_issuer ex_assets t ct i sc =
     (if ct = ClaimType.CustomerDueDiligence \<and> t \<in> {1, 2}
      then if i = as_id CDDProvider \<and> sc = None then Some ex_systematic_cdd else None
      else fetch_base_claim_with_issuer ex_compliance t ct i sc)"
  by (auto simp: fetch_base_claim_with_issuer_def)

lemma ex_assets_keyed: "claims_keyed ex_assets"
  using ex_claims_keyed
  by (simp add: claims_keyed_def ex_assets_fetch ex_systematic_cdd_def claim_type_def as_scope_def)

lemmas ex_assets_transfer = ex_assets_run is_valid_transfer_def portfolio_failure_def ensure_portfolio_transfer_validity_def
  ensure_sufficient_balance_def checked_sub_def is_compliant_def ex_rule_def is_condition_satisfied_def fetch_context_def
  issuers_for_def compliance_consume_weight_def ex_meter_def run_condition_def fetch_claims_def List.map_filter_simps
  ex_accredited_def claim_type_def as_scope_def is_trusted_for_def fetch_claim_def ex_compliance_fetch ex_assets_fetch
  is_identity_claim_not_expired_at_def exists_claim_def statistics_check_def verify_transfer_restrictions_def
  verify_requirements_def check_transfer_condition_def saturating_add_def verify_asset_count_restriction_def status_codes
  asset_supply_def get_stat_type_def

lemma ex_transfer_ok:
  "is_ok (base_transfer ex_assets_config (default_portfolio 1) (default_portfolio 2) 7 20000000 (ex_meter, ex_assets))"
  by (simp add: base_transfer_def unsafe_transfer_def unchecked_transfer_portfolio_balance_def transition_asset_count_eq
      ex_assets_transfer)

section \<open>Properties\<close>

text \<open>
  (C3) The three records of who holds how much of an asset never drift apart: whatever sequence of
  operations of the asset, portfolio and agents pallets runs, the supply of an asset is the sum of the
  balances of all portfolios and of all identities, the balance of an identity is the sum over its
  portfolios, and no supply exceeds the limit.
\<close>

theorem asset_ledger_agrees:
  assumes "(\<lambda>s s'. numbers_left s \<and> assets_left s \<and> asset_step cfg s s')\<^sup>*\<^sup>* s s'" and "asset_inv s"
  shows "asset_supply s' t = portfolio_total s' t \<and> BalanceOf s' t d = did_total s' d t \<and>
    sum_supp (BalanceOf s' t) UNIV = asset_supply s' t \<and> asset_supply s' t \<le> MAX_SUPPLY"
proof -
  have "ledger_inv s'" using asset_system.reach_good [OF assms] by (simp add: asset_inv_def)
  then show ?thesis using ledger_balances(2) [of s' t] unfolding ledger_inv_def by blast
qed

lemma ex_issue:
  obtains s' where "base_issue ex_assets_config (Signed 1) 7 2000000 Default ex_assets = Inr s'"
    "(\<lambda>s s'. numbers_left s \<and> assets_left s \<and> asset_step ex_assets_config s s')\<^sup>*\<^sup>* ex_assets s'"
proof -
  obtain s' where s': "base_issue ex_assets_config (Signed 1) 7 2000000 Default ex_assets = Inr s'"
    using ex_issue_ok by (auto simp: is_ok_iff)
  then show thesis using that ex_assets_left asset_step.issue [OF s'] by blast
qed

theorem asset_ledger_agrees_witness:
  "\<exists>s'. base_issue ex_assets_config (Signed 1) 7 2000000 Default ex_assets = Inr s' \<and>
    asset_supply s' 7 = portfolio_total s' 7 \<and> BalanceOf s' 7 1 = did_total s' 1 7"
proof (rule ex_issue)
  fix s'
  assume "base_issue ex_assets_config (Signed 1) 7 2000000 Default ex_assets = Inr s'"
    and "(\<lambda>s s'. numbers_left s \<and> assets_left s \<and> asset_step ex_assets_config s s')\<^sup>*\<^sup>* ex_assets s'"
  then show ?thesis using asset_ledger_agrees [OF _ ex_assets_inv, of ex_assets_config s' 7 1] by blast
qed

text \<open>
  (C9) Every asset has one owner and someone in charge: along any sequence of operations an existing
  asset keeps its ticker registered to its owner without expiry, the owner is the only identity related
  to the asset, and the asset has at least one full agent; nobody is an agent of a ticker without an
  asset.
\<close>

theorem asset_owner_and_agents:
  assumes "(\<lambda>s s'. numbers_left s \<and> assets_left s \<and> asset_step cfg s s')\<^sup>*\<^sup>* s s'" and "asset_inv s"
  shows "case Tokens s' t of
      Some token \<Rightarrow> Tickers s' t = Some \<lparr>ticker_owner = owner_did token, ticker_expiry = None\<rparr> \<and>
        AssetOwnershipRelations s' d t = (if d = owner_did token then AssetOwned else NotOwned) \<and>
        full_agents s' t \<noteq> {} \<and> NumFullAgents s' t = card (full_agents s' t)
    | None \<Rightarrow> GroupOfAgent s' t d = None"
proof -
  have r: "registry_inv s'" using asset_system.reach_good [OF assms] by (simp add: asset_inv_def)
  then have a: "NumFullAgents s' t = card (full_agents s' t)"
    "if owners s' t = None then \<forall>d. GroupOfAgent s' t d = None else full_agents s' t \<noteq> {}"
    "AssetOwnershipRelations s' d t = relation_of (Tickers s' t) (owners s' t \<noteq> None) d"
    "\<And>d. owners s' t = Some d \<Longrightarrow> Tickers s' t = Some \<lparr>ticker_owner = d, ticker_expiry = None\<rparr>"
    unfolding registry_inv_def by (auto simp: agents_inv_defs)
  show ?thesis
    using a by (cases "Tokens s' t") (auto simp: owners_def relation_of_def)
qed

theorem asset_owner_and_agents_witness:
  "\<exists>s' token. base_issue ex_assets_config (Signed 1) 7 2000000 Default ex_assets = Inr s' \<and>
    Tokens s' 7 = Some token \<and> Tickers s' 7 = Some \<lparr>ticker_owner = owner_did token, ticker_expiry = None\<rparr> \<and>
    full_agents s' 7 \<noteq> {}"
proof (rule ex_issue)
  fix s'
  assume s': "base_issue ex_assets_config (Signed 1) 7 2000000 Default ex_assets = Inr s'"
    and r: "(\<lambda>s s'. numbers_left s \<and> assets_left s \<and> asset_step ex_assets_config s s')\<^sup>*\<^sup>* ex_assets s'"
  have "registry_view s' = registry_view ex_assets"
    using s' by (auto simp: base_issue_def attempt_Inr_iff dest!: mint_registry)
  then have "owners s' 7 = owners ex_assets 7" by (simp add: registry_view_def)
  then have "Tokens s' 7 \<noteq> None" by (auto simp: owners_def)
  then show ?thesis using asset_owner_and_agents [OF r ex_assets_inv, of 7] s' by (auto split: option.splits)
qed

text \<open>
  Issuing creates exactly the issued amount: an agent of the asset with permission for the call
  and the receiving portfolio of its identity are behind it, the supply stays within its limit, and the
  supply, the balance of the identity and the balance of the portfolio all grow by the amount while
  every other balance stays.
\<close>

theorem issue_exact:
  assumes "base_issue cfg origin t v kind s = Inr s'" and "ledger_inv s" and "assets_left s"
  shows "\<exists>d. ensure_agent_asset_perms s origin t = Inr d \<and>
    (let p = PortfolioId (primary_did d) kind in
     asset_supply s' t = asset_supply s t + v \<and> asset_supply s' t \<le> MAX_SUPPLY \<and> check_granularity s t v \<and>
     BalanceOf s' = (BalanceOf s)(t := (BalanceOf s t)(primary_did d := BalanceOf s t (primary_did d) + v)) \<and>
     PortfolioAssetBalances s' = (PortfolioAssetBalances s)(p :=
       (PortfolioAssetBalances s p)(t := PortfolioAssetBalances s p t + v)))"
proof -
  obtain d m' where d: "ensure_agent_asset_perms s origin t = Inr d"
    and m: "mint cfg t (PortfolioId (primary_did d) kind) v (Some AssetIssue) (max_limit_no_minimum, s) = Inr (m', s')"
    using assms(1)
    by (auto simp: base_issue_def ensure_origin_ticker_and_portfolio_permissions_def attempt_Inr_iff Let_def)
  note l = mint_ledger [OF m assms(2,3)]
  have "check_granularity s t v" using m by (rule mint_effect)
  then show ?thesis using d l ledger_bounds(3) [OF l(1), of t] by (simp add: Let_def)
qed

theorem issue_exact_witness:
  "\<exists>s'. base_issue ex_assets_config (Signed 1) 7 2000000 Default ex_assets = Inr s' \<and> asset_supply s' 7 = 52000000"
proof (rule ex_issue)
  fix s'
  assume s': "base_issue ex_assets_config (Signed 1) 7 2000000 Default ex_assets = Inr s'"
  have "ledger_inv ex_assets" using ex_assets_inv by (simp add: asset_inv_def)
  from issue_exact [OF s' this ex_assets_left(2)] show ?thesis
    using s' by (auto simp: Let_def asset_supply_def token_details_def)
qed

text \<open>
  (C7) A transfer obeys every rule of the asset and moves exactly its amount: it only goes through
  when transfers are not frozen, both portfolios exist and belong to different identities, the
  amount is unlocked in the sending portfolio, and the compliance requirements are met; then it
  debits and credits the two portfolios and identities and keeps the supply and every other balance.
\<close>

theorem transfer_obeys_rules:
  assumes "base_transfer cfg from to t v (m, s) = Inr (m', s')" and "ledger_inv s" and "claims_keyed s"
  shows "\<not> Frozen s t \<and> pid_did from \<noteq> pid_did to \<and>
    is_ok (ensure_portfolio_validity s from) \<and> is_ok (ensure_portfolio_validity s to) \<and>
    PortfolioLockedAssets s from t + v \<le> PortfolioAssetBalances s from t \<and>
    compliant s t (pid_did from) (pid_did to) \<and>
    asset_supply s' = asset_supply s \<and>
    BalanceOf s' = (BalanceOf s)(t := (BalanceOf s t)(pid_did from := BalanceOf s t (pid_did from) - v,
      pid_did to := BalanceOf s t (pid_did to) + v)) \<and>
    PortfolioAssetBalances s' p u = (if u = t \<and> p = from then PortfolioAssetBalances s from t - v
      else if u = t \<and> p = to then PortfolioAssetBalances s to t + v else PortfolioAssetBalances s p u)"
proof -
  obtain m1 where val: "is_valid_transfer cfg s t from to v m = Inr (ERC1400_TRANSFER_SUCCESS, m1)"
    and tr: "unsafe_transfer cfg from to t v (the m1, s) = Inr (m', s')"
    using assms(1) by (rule base_transfer_unsafe)
  obtain m2 m3 where nf: "\<not> Frozen s t" "\<not> portfolio_failure s from to t v"
    and c: "is_compliant cfg s t (pid_did from) (pid_did to) m2 = Inr (True, m3)"
    using val by (auto simp: is_valid_transfer_def attempt_Inr_iff status_codes split: if_splits sum.splits)
  have un: "v \<le> PortfolioAssetBalances s from t - PortfolioLockedAssets s from t" "pid_did from \<noteq> pid_did to"
    using tr by (auto elim: unsafe_transfer_effect)
  have "PortfolioLockedAssets s from t \<le> PortfolioAssetBalances s from t"
    using assms(2) by (intro locked_within) (simp add: ledger_inv_def)
  moreover have "is_ok (ensure_portfolio_validity s from)" "is_ok (ensure_portfolio_validity s to)"
    using nf(2) by (auto simp: portfolio_failure_def ensure_portfolio_transfer_validity_def is_ok_iff attempt_Inr_iff
        ensure_Inr_iff)
  ultimately show ?thesis
    using nf(1) un is_compliant_result [OF assms(3) c] transfer_ledger(2-4) [OF tr assms(2)]
    by (simp add: balances_after_def)
qed

lemma ex_transfer:
  obtains m' s' where "base_transfer ex_assets_config (default_portfolio 1) (default_portfolio 2) 7 20000000
    (ex_meter, ex_assets) = Inr (m', s')"
  using ex_transfer_ok by (auto simp: is_ok_iff)

lemma ex_ledger_agrees: "ledger_inv ex_assets"
  using ex_assets_inv by (simp add: asset_inv_def)

theorem transfer_obeys_rules_witness:
  "\<exists>m' s'. base_transfer ex_assets_config (default_portfolio 1) (default_portfolio 2) 7 20000000 (ex_meter, ex_assets) =
      Inr (m', s') \<and> compliant ex_assets 7 1 2 \<and> PortfolioAssetBalances s' (default_portfolio 2) 7 = 20000000"
proof (rule ex_transfer)
  fix m' s'
  assume tr: "base_transfer ex_assets_config (default_portfolio 1) (default_portfolio 2) 7 20000000
    (ex_meter, ex_assets) = Inr (m', s')"
  from transfer_obeys_rules [OF tr ex_ledger_agrees ex_assets_keyed, of "default_portfolio 2" 7] show ?thesis
    using tr by (simp add: default_portfolio_def)
qed

text \<open>
  (C8) Transfers, statistics and restrictions fit together: if the statistics of an asset are
  exact before a transfer they are exact afterwards, and every transfer restriction that is not
  paused and from which the parties are not exempt is respected by the holdings after the transfer.
\<close>

theorem transfer_keeps_statistics:
  assumes "base_transfer cfg from to t v (m, s) = Inr (m', s')" and "ledger_inv s"
    and "stats_inv s" and "stats_exact s t (BalanceOf s t)"
  shows "stats_exact s' t (BalanceOf s' t) \<and>
    (\<forall>c. 0 < v \<and> \<not> tc_paused (AssetTransferCompliances s (AssetScope.Ticker t)) \<and>
       c \<in> set (tc_requirements (AssetTransferCompliances s (AssetScope.Ticker t))) \<and>
       \<not> is_exempt s (AssetScope.Ticker t) c (pid_did from) (pid_did to) \<longrightarrow>
       condition_respected cfg c (claim_key s t (get_stat_type c)) (BalanceOf s t) (BalanceOf s' t) (pid_did to)
         (asset_supply s t))"
proof -
  obtain m1 where val: "is_valid_transfer cfg s t from to v m = Inr (ERC1400_TRANSFER_SUCCESS, m1)"
    and tr: "unsafe_transfer cfg from to t v (the m1, s) = Inr (m', s')"
    using assms(1) by (rule base_transfer_unsafe)
  obtain m2 where chk: "statistics_check cfg s (pid_did from) (pid_did to) t v m = Inr m2"
    using val by (auto simp: is_valid_transfer_def attempt_Inr_iff status_codes split: if_splits sum.splits)
  show ?thesis
    using unsafe_transfer_stats [OF tr assms(2,4)] transfer_condition_respected [OF tr chk assms(2-4)] by blast
qed

theorem transfer_keeps_statistics_witness:
  "\<exists>m' s'. base_transfer ex_assets_config (default_portfolio 1) (default_portfolio 2) 7 20000000 (ex_meter, ex_assets) =
      Inr (m', s') \<and> stats_exact s' 7 (BalanceOf s' 7) \<and>
    condition_respected ex_assets_config (MaxInvestorCount 2) (claim_key ex_assets 7 ex_count) (BalanceOf ex_assets 7)
      (BalanceOf s' 7) 2 50000000"
proof (rule ex_transfer)
  fix m' s'
  assume tr: "base_transfer ex_assets_config (default_portfolio 1) (default_portfolio 2) 7 20000000
    (ex_meter, ex_assets) = Inr (m', s')"
  have st: "stats_inv ex_assets"
    by (auto simp: stats_inv_def get_stat_type_def ex_count_def default_transfer_compliance_def)
  have "stat_value Count (claim_key ex_assets 7 ex_count) ((\<lambda>_. 0)(1 := 50000000)) k = ((\<lambda>_. 0)(NoClaimStat := 1)) k" for k
    by (cases k) (simp_all add: stat_value_def claim_key_def fetch_claim_as_key_def ex_count_def supp_card_def)
  then have ex: "stats_exact ex_assets 7 (BalanceOf ex_assets 7)" by (simp add: stats_exact_def ex_count_def)
  have "get_stat_type (MaxInvestorCount 2) = ex_count" by (simp add: get_stat_type_def ex_count_def)
  then show ?thesis
    using tr transfer_keeps_statistics [OF tr ex_ledger_agrees st ex]
    by (auto simp: is_exempt_def asset_supply_def token_details_def default_portfolio_def Let_def
        split: StatOpType.splits dest!: spec [of _ "MaxInvestorCount 2"])
qed

text \<open>
  (C34) The report on a transfer agrees with the check of it: when the detailed report is produced,
  compliance is not paused on the side of the statistics, and the check does not run out of weight,
  the report is positive if and only if \<open>unsafe_can_transfer\<close> returns the success code.
\<close>

theorem can_transfer_report_agrees:
  assumes "unsafe_can_transfer_granular cfg s from_custodian from to_custodian to t v m1 = Inr (g, m1')"
    and "claims_keyed s" and "\<not> tc_paused (AssetTransferCompliances s (AssetScope.Ticker t))"
    and "statistics_check cfg s (pid_did from) (pid_did to) t v m \<noteq> Inl (StatisticsError statistics_error.WeightLimitExceeded)"
    and "is_ok (is_valid_transfer cfg s t from to v m)"
  shows "g_result g \<longleftrightarrow>
    unsafe_can_transfer cfg s from_custodian from to_custodian to t v m = ERC1400_TRANSFER_SUCCESS"
proof -
  let ?f = "pid_did from" and ?r = "pid_did to"
  obtain tcs m2 comp m3 where tcs: "transfer_condition_failures_granular cfg s ?f ?r t v m1 = Inr (tcs, m2)"
    and comp: "verify_restriction_granular cfg s t (Some ?f) (Some ?r) m2 = Inr (comp, m3)"
    and g: "g_result g \<longleftrightarrow> \<not> invalid_granularity s t v \<and> \<not> self_transfer from to \<and> \<not> invalid_cdd s ?r \<and> \<not> invalid_cdd s ?f \<and>
      \<not> custodian_error s to (case to_custodian of Some c \<Rightarrow> c | None \<Rightarrow> ?r) \<and>
      \<not> custodian_error s from (case from_custodian of Some c \<Rightarrow> c | None \<Rightarrow> ?f) \<and>
      \<not> insufficient_balance s t ?f v \<and> validity_result (ensure_portfolio_transfer_validity_granular s from to t v) \<and>
      \<not> Frozen s t \<and> list_all transfer_condition_result tcs \<and> compliance_result comp"
    using assms(1) by (auto simp: unsafe_can_transfer_granular_def Let_def attempt_Inr_iff)
  have "list_all transfer_condition_result tcs \<longleftrightarrow> is_ok (statistics_check cfg s ?f ?r t v m)"
    using tcs statistics_check_met [OF assms(3,4)]
    by (auto simp: transfer_condition_failures_granular_def get_transfer_restrictions_results_def Let_def
        dest!: report_conditions_met)
  moreover have "compliance_result comp \<longleftrightarrow> compliant s t ?f ?r" by (rule granular_result [OF assms(2) comp])
  ultimately show ?thesis
    using assms(5) unfolding g validity_result_iff
    by (auto simp: unsafe_can_transfer_def is_valid_transfer_def status_codes is_ok_iff attempt_Inr_iff
        dest: is_compliant_result [OF assms(2)] split: sum.splits if_splits)
qed

lemma ex_report:
  "\<exists>g m. unsafe_can_transfer_granular ex_assets_config ex_assets None (default_portfolio 1) None (default_portfolio 2)
     7 20000000 ex_meter = Inr (g, m) \<and> g_result g"
  by (simp add: unsafe_can_transfer_granular_def transfer_condition_failures_granular_def
      get_transfer_restrictions_results_def verify_restriction_granular_def compliance_to_result_def
      requirement_to_result_def all_conditions_hold_def invalid_granularity_def self_transfer_def invalid_cdd_def
      custodian_error_def insufficient_balance_def ensure_portfolio_transfer_validity_granular_def
      ensure_portfolio_custody_def custodian_def has_valid_cdd_def base_fetch_cdd_def base_fetch_valid_cdd_claims_def
      fetch_base_claims_def filter_cdd_claims_def new_checker_def is_cdd_claim_valid_def is_systematic_cdd_provider_def
      ex_systematic_cdd_def ex_assets_transfer cong: if_cong)

theorem can_transfer_report_agrees_witness:
  "unsafe_can_transfer ex_assets_config ex_assets None (default_portfolio 1) None (default_portfolio 2) 7 20000000 ex_meter =
     ERC1400_TRANSFER_SUCCESS"
proof -
  obtain g m where g: "unsafe_can_transfer_granular ex_assets_config ex_assets None (default_portfolio 1) None
      (default_portfolio 2) 7 20000000 ex_meter = Inr (g, m)" "g_result g" using ex_report by blast
  have "is_ok (is_valid_transfer ex_assets_config ex_assets 7 (default_portfolio 1) (default_portfolio 2) 20000000 ex_meter)"
    by (simp add: ex_assets_transfer)
  moreover have "is_ok (statistics_check ex_assets_config ex_assets 1 2 7 20000000 ex_meter)"
    by (simp add: ex_assets_transfer)
  ultimately show ?thesis
    using can_transfer_report_agrees [OF g(1) ex_assets_keyed, where m = ex_meter] g(2)
    by (auto simp: default_portfolio_def is_ok_iff)
qed

lemma create_check_errors:
  "ensure_origin_call_permissions s origin = Inl e \<Longrightarrow> e \<noteq> Other msg"
  "ensure_asset_name_bounded acfg name = Inl e \<Longrightarrow> e \<noteq> Other msg"
  "ensure_funding_round_name_bounded acfg fr = Inl e \<Longrightarrow> e \<noteq> Other msg"
  "ensure_asset_idents_valid idents = Inl e \<Longrightarrow> e \<noteq> Other msg"
  "ensure_asset_type_valid s ty = Inl e \<Longrightarrow> e \<noteq> Other msg"
  "ensure_create_asset_parameters s t = Inl e \<Longrightarrow> e \<noteq> Other msg"
  "ensure_no_id_record s did = Inl e \<Longrightarrow> e \<noteq> Other msg"
  "ensure_portfolio_custody_and_permission s p did sk = Inl e \<Longrightarrow> e \<noteq> Other msg"
  by (auto simp: ensure_origin_call_permissions_def ensure_signed_def ensure_call_permissions_def
      ensure_asset_name_bounded_def ensure_funding_round_name_bounded_def ensure_asset_idents_valid_def
      ensure_asset_type_valid_def ensure_create_asset_parameters_def ensure_asset_fresh_def ensure_ticker_length_def
      ensure_no_id_record_def ensure_portfolio_custody_and_permission_def ensure_portfolio_custody_def
      ensure_user_portfolio_permission_def attempt_Inl_iff ensure_def ok_or_def
      split: Origin.splits option.splits AssetType.splits if_splits)

lemma create_parameters_fresh: "ensure_create_asset_parameters s t = Inr u \<Longrightarrow> Tokens s t = None"
  by (auto simp: ensure_create_asset_parameters_def ensure_asset_fresh_def attempt_Inr_iff ensure_Inr_iff)

lemma verify_ticker_error: "verify_ticker_characters t = Inl e \<Longrightarrow> e \<noteq> Other msg"
proof -
  have "verify_ticker_bytes bs = Inl e \<Longrightarrow> e \<noteq> Other msg" for bs
    by (induction bs) (auto split: if_splits)
  then show "verify_ticker_characters t = Inl e \<Longrightarrow> e \<noteq> Other msg"
    by (auto simp: verify_ticker_characters_def Let_def split: if_splits)
qed

lemma charge_fees_error: "charge_fees cfg ops s = Inl e \<Longrightarrow> e \<noteq> Other msg"
  by (auto simp: charge_fees_def withdraw_from_payer_def withdraw_fee_def Let_def attempt_Inl_iff ok_or_def
      split: if_splits option.splits)

lemma attempt_ne: "r \<noteq> Inl e \<Longrightarrow> (\<And>x. r = Inr x \<Longrightarrow> k x \<noteq> Inl e) \<Longrightarrow> attempt r k \<noteq> Inl e"
  by (cases r) simp_all

lemma commit_asset_no_panic:
  assumes inv: "asset_inv s" and fee: "charge_fees cfg ops s = Inr s1" and new: "Tokens s t = None"
    and av: "(case is_ticker_available_or_registered_to s t did of
        RegisteredByOther \<Rightarrow> Inl (AssetError TickerAlreadyRegistered)
      | RegisteredByDid \<Rightarrow> Inr False | Available \<Rightarrow> Inr True) = Inr available"
  shows "commit_asset did name t divis ty idents fround available token_did s1 \<noteq> Inl e"
proof -
  have b: "forget_books s1 = forget_books s" using fee by (rule charge_fees_books)
  have may: "may_create s1 t did available"
    using av same_books(6) [OF b]
    by (auto simp: may_create_def is_ticker_available_or_registered_to_def split: option.splits if_splits)
  have "registry_inv s1" "Tokens s1 t = None"
    using registry_inv_cong [OF registry_books [OF b]] inv new same_books(2) [OF b] by (simp_all add: asset_inv_def)
  then show ?thesis by (rule commit_asset_effect [OF _ may, of name divis ty idents fround token_did]) simp
qed

lemma unsafe_create_asset_error:
  assumes inv: "asset_inv s"
  shows "unsafe_create_asset cfg did sk name t divis ty idents fround s \<noteq> Inl (Other msg)"
  unfolding unsafe_create_asset_def Let_def
proof (intro attempt_ne)
  show "ensure_asset_name_bounded cfg name \<noteq> Inl (Other msg)" "ensure_asset_idents_valid idents \<noteq> Inl (Other msg)"
    "ensure_asset_type_valid s ty \<noteq> Inl (Other msg)" "ensure_create_asset_parameters s t \<noteq> Inl (Other msg)"
    "ensure_no_id_record s (get_token_did cfg t) \<noteq> Inl (Other msg)"
    "ensure_portfolio_custody_and_permission s (default_portfolio did) did sk \<noteq> Inl (Other msg)"
    "charge_fees cfg (if available then [AssetRegisterTicker, AssetCreateAsset] else []) s \<noteq> Inl (Other msg)" for available
    by (auto dest: create_check_errors charge_fees_error)
  show "(case fround of None \<Rightarrow> Inr () | Some fr \<Rightarrow> ensure_funding_round_name_bounded cfg fr) \<noteq> Inl (Other msg)"
    using create_check_errors(3) by (auto split: option.splits)
  show "(case is_ticker_available_or_registered_to s t did of
        RegisteredByOther \<Rightarrow> Inl (AssetError TickerAlreadyRegistered)
      | Available \<Rightarrow> Inr True | RegisteredByDid \<Rightarrow> Inr False) \<noteq> Inl (Other msg)"
    by (simp split: TickerRegistrationStatus.splits)
  show "(if available then verify_ticker_characters t else Inr ()) \<noteq> Inl (Other msg)" for available
    using verify_ticker_error by auto
qed (rule commit_asset_no_panic [OF inv], assumption, erule create_parameters_fresh, assumption)

text \<open>
  (C32) Creating an asset never panics: in every reachable state the creation of an asset, whose last
  step unwraps a result without a check, returns a new asset owned by the caller with a supply of zero
  or one of its declared errors, never the panic.
\<close>

theorem create_asset_no_panic:
  assumes "asset_inv s"
  shows "case base_create_asset cfg origin name t divis ty idents fround s of
      Inr s' \<Rightarrow> asset_inv s' \<and> Tokens s t = None \<and> (\<exists>d. ensure_origin_call_permissions s origin = Inr d \<and>
        Tokens s' = (Tokens s)(t \<mapsto> \<lparr>total_supply = 0, owner_did = primary_did d, divisible = divis, asset_type = ty\<rparr>))
    | Inl e \<Rightarrow> e \<noteq> Other ''called `Result::unwrap()` on an `Err` value''"
proof (cases "base_create_asset cfg origin name t divis ty idents fround s")
  case (Inr s')
  then show ?thesis
    using unsafe_create_asset_effect [OF _ assms] by (auto simp: base_create_asset_def attempt_Inr_iff)
next
  case (Inl e)
  have "e \<noteq> Other msg" for msg
    using Inl
    by (auto simp: base_create_asset_def attempt_Inl_iff unsafe_create_asset_error [OF assms] dest: create_check_errors(1))
  then show ?thesis using Inl by simp
qed

lemma ex_create_ok:
  "is_ok (base_create_asset ex_assets_config (Signed 1) ''n'' (65 * 256 ^ 11) True EquityCommon [] None ex_assets)"
proof -
  have perm: "ensure_origin_call_permissions ex_assets (Signed 1) = Inr \<lparr>sender = 1, primary_did = 1, secondary_key = None\<rparr>"
    by (simp add: ensure_origin_call_permissions_def ensure_signed_def ensure_call_permissions_def
        check_account_call_permissions_def ex_assets_defs)
  have bytes: "ticker_bytes (65 * 256 ^ 11) = [65, 0, 0, 0, 0, 0, 0, 0, 0, 0, 0, 0]"
    by (simp add: ticker_bytes_def upt_rec)
  have len: "ticker_len (65 * 256 ^ 11) = 1" unfolding ticker_len_def bytes by (simp add: numeral_eq_Suc)
  have chars: "verify_ticker_characters (65 * 256 ^ 11) = Inr ()"
    unfolding verify_ticker_characters_def bytes by (simp add: is_ascii_uppercase_def is_ascii_digit_def)
  have rec: "DidRecords ex_assets = [1 \<mapsto> \<lparr>primary_key = Some 1\<rparr>, 2 \<mapsto> \<lparr>primary_key = Some 2\<rparr>]"
    "TickerConfig ex_assets = \<lparr>max_ticker_length = 12, registration_length = None\<rparr>" "NumFullAgents ex_assets = (\<lambda>_. 0)(7 := 1)"
    by (simp_all add: ex_assets_defs)
  have cfg: "AssetNameMaxLength ex_assets_config = 16" "Hashing ex_assets_config = (\<lambda>bs. 1000 + length bs)"
    by (simp_all add: ex_assets_config_def compliance_config.defs assets_config.defs)
  have ne: "65 * 256 ^ 11 \<noteq> (7 :: nat)" by simp
  have u32: "u32_max = 4294967295" by (simp add: u32_max_def)
  show ?thesis
    by (simp add: base_create_asset_def perm [unfolded One_nat_def] ne checked_inc_def unsafe_create_asset_def ensure_asset_name_bounded_def
        cfg u32 ensure_asset_idents_valid_def ensure_asset_type_valid_def ensure_create_asset_parameters_def
        ensure_asset_fresh_def ensure_ticker_length_def len rec is_ticker_available_or_registered_to_def chars
        get_token_did_def bytes SECURITY_TOKEN_def ensure_no_id_record_def is_identity_exists_def
        ensure_portfolio_custody_and_permission_def ensure_portfolio_custody_def custodian_def
        ensure_user_portfolio_permission_def default_portfolio_def charge_fees_def compute_fee_def ex_assets_config_sel
        wrapping_add_def Let_def commit_asset_def commit_token_did_def unverified_register_ticker_def asset_put_defs
        unverified_update_idents_def unchecked_add_agent_def inc_full_count_def try_next_post_def checked_add_def
        set_group_of_agent_def set_agent_of_def del: power_Suc power_numeral)
qed

theorem create_asset_no_panic_witness:
  "\<exists>s'. base_create_asset ex_assets_config (Signed 1) ''n'' (65 * 256 ^ 11) True EquityCommon [] None ex_assets = Inr s' \<and>
    asset_inv s' \<and> Tokens s' (65 * 256 ^ 11) \<noteq> None"
proof -
  obtain s' where s': "base_create_asset ex_assets_config (Signed 1) ''n'' (65 * 256 ^ 11) True EquityCommon [] None
      ex_assets = Inr s'"
    using ex_create_ok by (auto simp only: is_ok_iff)
  from create_asset_no_panic [where cfg = ex_assets_config and origin = "Signed 1" and name = "''n''" and t = "65 * 256 ^ 11"
      and divis = True and ty = EquityCommon and idents = "[]" and fround = None, OF ex_assets_inv] show ?thesis unfolding s' by auto
qed

text \<open>
  Locked metadata stays as it is: while the lock of a metadata value has not run out, no
  sequence of metadata extrinsics (and no passing of time) changes the value or its details.
\<close>

theorem locked_metadata_protected:
  assumes "(metadata_step cfg)\<^sup>*\<^sup>* s s'"
    and "AssetMetadataValueDetails s t k = Some d" and "is_locked d (timestamp s')"
  shows "AssetMetadataValues s' t k = AssetMetadataValues s t k \<and> AssetMetadataValueDetails s' t k = Some d"
  using assms(1,3)
proof (induction rule: rtranclp_induct)
  case (step s1 s2)
  have locked: "is_locked d (timestamp s1)"
    using step.prems metadata_step_time [OF step.hyps(2)] by (rule is_locked_antimono)
  note ih = step.IH [OF locked]
  from ih locked have "is_asset_metadata_locked s1 t k" by (simp add: is_asset_metadata_locked_def)
  from metadata_step_locked [OF step.hyps(2) this] ih show ?case by (simp add: metadata_at_def)
qed (simp add: assms(2))

theorem locked_metadata_protected_witness:
  "(metadata_step ex_assets_config)\<^sup>*\<^sup>* ex_assets (ex_assets\<lparr>timestamp := 199\<rparr>) \<and>
   AssetMetadataValues (ex_assets\<lparr>timestamp := 199\<rparr>) 7 (Local 1) = Some ''v''"
proof -
  have step: "(metadata_step ex_assets_config)\<^sup>*\<^sup>* ex_assets (ex_assets\<lparr>timestamp := 199\<rparr>)"
    by (intro r_into_rtranclp metadata_step.tick) (simp add: ex_assets_defs)
  from locked_metadata_protected [OF step, of 7 "Local 1"] step show ?thesis
    by (simp add: ex_assets_defs is_locked_def)
qed

lemma caller_did:
  assumes "ensure_agent_asset_perms s origin t = Inr d" and "ensure_agent_asset_perms s' origin t = Inr d'"
    and "KeyRecords s' = KeyRecords s"
  shows "primary_did d' = primary_did d"
  using assms
  by (auto simp: ensure_agent_asset_perms_def ensure_asset_perms_def ensure_origin_call_permissions_def
      ensure_signed_def ensure_call_permissions_def check_account_call_permissions_def attempt_Inr_iff ok_or_Inr_iff
      ensure_Inr_iff Let_def split: option.splits KeyRecord.splits if_splits Origin.splits)

lemma forget_books_keys: "forget_books s' = forget_books s \<Longrightarrow> KeyRecords s' = KeyRecords s"
  by (drule arg_cong [of _ _ KeyRecords]) (simp add: forget_books_def forget_schedules_def)

text \<open>
  (C33) Issuing an amount and redeeming it again (in a later call by the same account) restores the
  books: the balances of identities and portfolios and the supply are those before the issue. What
  stays is the amount counted as issued in the current funding round.
\<close>

theorem issue_redeem_roundtrip:
  assumes "base_issue cfg origin t v kind s = Inr s1"
    and "base_redeem cfg origin t v kind (m, s1\<lparr>CurrentDispatchableName := call\<rparr>) = Inr (m', s2)"
    and "ledger_inv s" and "assets_left s"
  shows "BalanceOf s2 = BalanceOf s \<and> PortfolioAssetBalances s2 = PortfolioAssetBalances s \<and>
    asset_supply s2 t = asset_supply s t \<and> IssuedInFundingRound s2 = IssuedInFundingRound s1"
proof -
  obtain d m1 where d: "ensure_agent_asset_perms s origin t = Inr d"
    and m: "mint cfg t (PortfolioId (primary_did d) kind) v (Some AssetIssue) (max_limit_no_minimum, s) = Inr (m1, s1)"
    using assms(1)
    by (auto simp: base_issue_def ensure_origin_ticker_and_portfolio_permissions_def attempt_Inr_iff Let_def)
  note l = mint_ledger [OF m assms(3,4)]
  let ?s1 = "s1\<lparr>CurrentDispatchableName := call\<rparr>"
  have inv: "ledger_inv ?s1"
    using l(1) ledger_inv_cong [of ?s1 s1] by (simp add: ledger_view_def view_defs)
  obtain p where p: "ensure_origin_ticker_and_portfolio_permissions ?s1 origin t kind True = Inr p"
    and r: "asset_supply ?s1 t = asset_supply s2 t + v"
      "BalanceOf s2 = (BalanceOf ?s1)(t := (BalanceOf ?s1 t)(pid_did p := BalanceOf ?s1 t (pid_did p) - v))"
      "PortfolioAssetBalances s2 = (PortfolioAssetBalances ?s1)(p :=
        (PortfolioAssetBalances ?s1 p)(t := PortfolioAssetBalances ?s1 p t - v))"
      "IssuedInFundingRound s2 = IssuedInFundingRound ?s1"
    using assms(2) inv by (rule redeem_ledger)
  have keys: "KeyRecords ?s1 = KeyRecords s"
    using m by (rule mint_effect) (drule forget_books_keys, simp add: asset_put_defs
      set_portfolio_balance_eq put_defs)
  obtain d' where "ensure_agent_asset_perms ?s1 origin t = Inr d'" "p = PortfolioId (primary_did d') kind"
    using p by (auto simp: ensure_origin_ticker_and_portfolio_permissions_def attempt_Inr_iff Let_def)
  with caller_did [OF d _ keys] have "p = PortfolioId (primary_did d) kind" by simp
  moreover have "asset_supply ?s1 t = asset_supply s1 t" by (simp add: asset_supply_def token_details_def)
  ultimately show ?thesis using l(2-4) r by (simp add: fun_eq_iff)
qed

lemma ex_issue_redeem_ok:
  "is_ok (attempt (base_issue ex_assets_config (Signed 1) 7 2000000 Default ex_assets) (\<lambda>s1.
     base_redeem ex_assets_config (Signed 1) 7 2000000 Default
       (max_limit_no_minimum, s1\<lparr>CurrentDispatchableName := ''redeem''\<rparr>)))"
proof -
  have keys: "KeyRecords ex_assets (Suc 0) = Some (PrimaryKey 1)" "GroupOfAgent ex_assets 7 (Suc 0) = Some Full"
    by (simp_all add: ex_assets_defs)
  show ?thesis
    by (simp add: base_issue_def mint_def base_redeem_def ex_assets_run keys ensure_agent_asset_perms_def
      ensure_asset_perms_def ensure_origin_call_permissions_def ensure_signed_def ensure_call_permissions_def
      check_account_call_permissions_def ensure_agent_permissioned_def agent_permissions_def sufficient_for_def
      ensure_portfolio_custody_def reduce_portfolio_balance_def checked_sub_def wrapping_sub_def
      transition_asset_count_def)
qed

theorem issue_redeem_roundtrip_witness:
  "\<exists>s1 m2 s2. base_issue ex_assets_config (Signed 1) 7 2000000 Default ex_assets = Inr s1 \<and>
    base_redeem ex_assets_config (Signed 1) 7 2000000 Default
      (max_limit_no_minimum, s1\<lparr>CurrentDispatchableName := ''redeem''\<rparr>) = Inr (m2, s2) \<and>
    asset_supply s2 7 = 50000000"
proof -
  obtain s1 m2 s2 where s: "base_issue ex_assets_config (Signed 1) 7 2000000 Default ex_assets = Inr s1"
    "base_redeem ex_assets_config (Signed 1) 7 2000000 Default
      (max_limit_no_minimum, s1\<lparr>CurrentDispatchableName := ''redeem''\<rparr>) = Inr (m2, s2)"
    using ex_issue_redeem_ok by (auto simp: is_ok_iff attempt_Inr_iff)
  have "ledger_inv ex_assets" using ex_assets_inv by (simp add: asset_inv_def)
  from issue_redeem_roundtrip [OF s this ex_assets_left(2)] s show ?thesis
    by (auto simp: asset_supply_def token_details_def)
qed

end
