(* ===== verification/NFT_Properties.thy ===== *)
theory NFT_Properties
  imports NFT_Theorems Asset_Properties
begin

text \<open>What the NFT pallet guarantees to its callers, with a collection of one token as the example.\<close>

section \<open>A concrete collection\<close>

text \<open>
  Ticker 9 is a collection of identity 2 whose only token is in the default portfolio of identity 2.
  Identity 1 is an agent of ticker 7 and not of ticker 9.
\<close>

definition ex_nfts :: assets_store where
  "ex_nfts = ex_assets\<lparr>
     Tokens := (Tokens ex_assets)(9 \<mapsto> \<lparr>total_supply = 0, owner_did = 2, divisible = False,
       asset_type = NonFungible NFDerivative\<rparr>),
     AssetMetadataGlobalKeyToName := [1 \<mapsto> ''art''],
     NumberOfNFTs := (\<lambda>_ _. 0)(9 := (\<lambda>_. 0)(2 := 1)), CollectionTicker := [9 \<mapsto> 1],
     Collection := [1 \<mapsto> \<lparr>collection_id = 1, collection_ticker = 9\<rparr>],
     CollectionKeys := (\<lambda>_. [])(1 := [Global 1]), MetadataValue := (\<lambda>_. Map.empty)((1, 1) := [Global 1 \<mapsto> ''x'']),
     NextCollectionId := 1, NextNFTId := (\<lambda>_. 0)(1 := 1), NFTsInCollection := (\<lambda>_. 0)(9 := 1),
     NFTOwner := (\<lambda>_. Map.empty)(9 := [1 \<mapsto> default_portfolio 2]),
     PortfolioNFT := (\<lambda>_. {||})(default_portfolio 2 := {|(9, 1)|}), PortfolioLockedNFT := (\<lambda>_. {||}),
     AssetCompliances := (AssetCompliances ex_assets)(9 := \<lparr>paused = True, requirements = []\<rparr>)\<rparr>"

definition ex_nft_config :: nft_config where
  "ex_nft_config = assets_config.extend ex_assets_config (nft_config.fields 8 10)"

definition ex_token :: NFTs where
  "ex_token = \<lparr>nfts_ticker = 9, nfts_ids = [1]\<rparr>"

lemma ex_nfts_sel [simp]:
  "NumberOfNFTs ex_nfts = (\<lambda>_ _. 0)(9 := (\<lambda>_. 0)(2 := 1))" "CollectionTicker ex_nfts = [9 \<mapsto> 1]"
  "Collection ex_nfts = [1 \<mapsto> \<lparr>collection_id = 1, collection_ticker = 9\<rparr>]"
  "CollectionKeys ex_nfts = (\<lambda>_. [])(1 := [Global 1])"
  "MetadataValue ex_nfts = (\<lambda>_. Map.empty)((1, 1) := [Global 1 \<mapsto> ''x''])"
  "NextCollectionId ex_nfts = 1" "NextNFTId ex_nfts = (\<lambda>_. 0)(1 := 1)" "NFTsInCollection ex_nfts = (\<lambda>_. 0)(9 := 1)"
  "NFTOwner ex_nfts = (\<lambda>_. Map.empty)(9 := [1 \<mapsto> default_portfolio 2])"
  "PortfolioNFT ex_nfts = (\<lambda>_. {||})(default_portfolio 2 := {|(9, 1)|})" "PortfolioLockedNFT ex_nfts = (\<lambda>_. {||})"
  "Frozen ex_nfts t = False" "MaxNumberOfNFTsCount ex_nft_config = 10"
  by (simp_all add: ex_nfts_def ex_nft_config_def assets_config.defs nft_config.defs)

lemma ex_nfts_good: "nft_good ex_nfts"
proof -
  have "nft_owner_exact ex_nfts" by (auto simp: nft_owner_exact_def split: if_splits)
  moreover have "owned_by ex_nfts t d = (if t = 9 \<and> d = 2 then {1} else {})" for t d
    by (auto simp: owned_by_def default_portfolio_def split: if_splits)
  then have "nft_counts_exact ex_nfts" by (simp add: nft_counts_exact_def u64_max_def)
  moreover have "collections_exact ex_nfts" "tokens_in_collection ex_nfts"
    by (auto simp: collections_exact_def tokens_in_collection_def split: if_splits)
  moreover have "metadata_exact ex_nfts" by (auto simp: metadata_exact_def split: if_splits)
  moreover have "collection_keys_ok ex_nfts"
    by (auto simp: collection_keys_ok_def nft_asset_def is_non_fungible_def check_asset_metadata_key_exists_def
        ex_nfts_def split: if_splits)
  ultimately show ?thesis by (simp add: nft_good_def)
qed

lemma ex_nft_valid: "validate_nft_ownership ex_nft_config ex_nfts (default_portfolio 2) (default_portfolio 1) ex_token = Inr ()"
  by (simp add: validate_nft_ownership_def ensure_within_nfts_transfer_limits_def ensure_no_duplicate_nfts_def
      nfts_len_def ex_token_def btree_def default_portfolio_def checked_add_def u64_max_def Let_def)

lemma ex_nft_transfer:
  "base_nft_transfer ex_nft_config (default_portfolio 2) (default_portfolio 1) ex_token (ex_meter, ex_nfts) =
     Inr (ex_meter, unverified_nfts_transfer (default_portfolio 2) (default_portfolio 1) ex_token ex_nfts)"
  using ex_nft_valid
  by (simp add: base_nft_transfer_def validate_nft_transfer_def is_compliant_def Let_def ex_token_def ex_nfts_def)

section \<open>Properties\<close>

text \<open>
  (C35) The records of the NFT pallet agree along every sequence of its operations and those of the
  portfolio and asset pallets that share its storage: a portfolio holds a token exactly when it is
  recorded as its owner, the number of tokens of a collection and of an identity are the numbers of
  tokens they own, every token belongs to a registered collection with a number already given out,
  and a token carries a metadata value for exactly the mandatory keys of its collection, all of which
  are registered.
\<close>

theorem nft_records_agree:
  assumes "(nft_step cfg)\<^sup>*\<^sup>* s s'" and "nft_good s"
  shows "((t, i) |\<in>| PortfolioNFT s' p \<longleftrightarrow> NFTOwner s' t i = Some p) \<and>
    NFTsInCollection s' t = card (dom (NFTOwner s' t)) \<and>
    NumberOfNFTs s' t d = card {i. \<exists>p. NFTOwner s' t i = Some p \<and> pid_did p = d} \<and>
    (\<forall>q. NFTOwner s' t i = Some q \<longrightarrow> (\<exists>c. CollectionTicker s' t = Some c \<and> i \<le> NextNFTId s' c \<and>
      dom (MetadataValue s' (c, i)) = set (CollectionKeys s' c) \<and>
      list_all (check_asset_metadata_key_exists s' t) (CollectionKeys s' c)))"
proof (intro conjI allI impI)
  have good: "nft_good s'" using assms by (rule nft_system.reach_good)
  show "(t, i) |\<in>| PortfolioNFT s' p \<longleftrightarrow> NFTOwner s' t i = Some p"
    using good by (simp add: nft_good_def nft_owner_exact_def)
  have "owned_by s' t d = {i. \<exists>p. NFTOwner s' t i = Some p \<and> pid_did p = d}" by (auto simp: owned_by_def)
  then show "NFTsInCollection s' t = card (dom (NFTOwner s' t))"
    "NumberOfNFTs s' t d = card {i. \<exists>p. NFTOwner s' t i = Some p \<and> pid_did p = d}"
    using good by (simp_all add: nft_good_def nft_counts_exact_def)
  fix q
  assume q: "NFTOwner s' t i = Some q"
  then obtain c where c: "CollectionTicker s' t = Some c" "i \<le> NextNFTId s' c"
    using good unfolding nft_good_def tokens_in_collection_def by blast
  have "dom (MetadataValue s' (c, i)) = set (CollectionKeys s' c)"
    using token_metadata [OF good c(1), of i] q by (auto simp: dom_def)
  then show "\<exists>c. CollectionTicker s' t = Some c \<and> i \<le> NextNFTId s' c \<and>
      dom (MetadataValue s' (c, i)) = set (CollectionKeys s' c) \<and>
      list_all (check_asset_metadata_key_exists s' t) (CollectionKeys s' c)"
    using c good by (auto simp: nft_good_def collection_keys_ok_def)
qed

theorem nft_records_agree_witness:
  "\<exists>s'. (nft_step ex_nft_config)\<^sup>*\<^sup>* ex_nfts s' \<and> NFTOwner s' 9 1 = Some (default_portfolio 1) \<and>
     NumberOfNFTs s' 9 1 = card {i. \<exists>p. NFTOwner s' 9 i = Some p \<and> pid_did p = 1}"
proof -
  let ?s' = "unverified_nfts_transfer (default_portfolio 2) (default_portfolio 1) ex_token ex_nfts"
  have step: "(nft_step ex_nft_config)\<^sup>*\<^sup>* ex_nfts ?s'"
    by (intro r_into_rtranclp nft_step.transfer [OF ex_nft_transfer])
  have "nft_owner_exact ex_nfts" using ex_nfts_good by (simp add: nft_good_def)
  from nfts_transfer_owner(2) [OF this ex_nft_valid] have "NFTOwner ?s' 9 1 = Some (default_portfolio 1)"
    by (simp add: ex_token_def)
  with step nft_records_agree [OF step ex_nfts_good] show ?thesis by blast
qed

text \<open>
  (C36) A transfer of tokens obeys the rules and moves exactly the named tokens: it only goes through
  when the asset is not frozen, the sending portfolio holds every named token, none of them twice and
  none of them locked, and the compliance rules allow it; afterwards the receiving portfolio owns
  them, the two counters have changed by their number and every other token stays where it was.
\<close>

theorem nft_transfer_exact:
  assumes "base_nft_transfer cfg from to nfts (m, s) = Inr (m', s')" and "nft_good s"
  shows "\<not> Frozen s (nfts_ticker nfts) \<and> from \<noteq> to \<and> distinct (nfts_ids nfts) \<and> nfts_ids nfts \<noteq> [] \<and>
    (\<exists>m1. is_compliant cfg s (nfts_ticker nfts) (pid_did from) (pid_did to) m = Inr (True, m1)) \<and>
    (\<forall>i \<in> set (nfts_ids nfts). NFTOwner s (nfts_ticker nfts) i = Some from \<and>
       (nfts_ticker nfts, i) |\<notin>| PortfolioLockedNFT s from) \<and>
    NFTOwner s' = (NFTOwner s)(nfts_ticker nfts :=
      (\<lambda>i. if i \<in> set (nfts_ids nfts) then Some to else NFTOwner s (nfts_ticker nfts) i)) \<and>
    (pid_did from \<noteq> pid_did to \<longrightarrow>
       NumberOfNFTs s' (nfts_ticker nfts) (pid_did from) + length (nfts_ids nfts) =
         NumberOfNFTs s (nfts_ticker nfts) (pid_did from) \<and>
       NumberOfNFTs s' (nfts_ticker nfts) (pid_did to) =
         NumberOfNFTs s (nfts_ticker nfts) (pid_did to) + length (nfts_ids nfts)) \<and>
    NFTsInCollection s' = NFTsInCollection s \<and> nft_good s'"
proof -
  obtain m1 where nf: "\<not> Frozen s (nfts_ticker nfts)" and val: "validate_nft_ownership cfg s from to nfts = Inr ()"
    and com: "is_compliant cfg s (nfts_ticker nfts) (pid_did from) (pid_did to) m = Inr (True, m1)"
    and s': "s' = unverified_nfts_transfer from to nfts s"
    using assms(1)
    by (auto simp: base_nft_transfer_def validate_nft_transfer_def attempt_Inr_iff ensure_Inr_iff)
  have parts: "nft_owner_exact s" "nft_counts_exact s" using assms(2) by (simp_all add: nft_good_def)
  note v = ownership_valid [OF val]
  have "NFTOwner s (nfts_ticker nfts) i = Some from" if "i \<in> set (nfts_ids nfts)" for i
    using v(5) [OF that] parts(1) by (simp add: nft_owner_exact_def)
  moreover have "NFTsInCollection s' = NFTsInCollection s"
    by (simp add: s' unverified_nfts_transfer_def Let_def fold_move_nft_keep put_number_of_nfts_def)
  ultimately show ?thesis
    using nf com v nfts_transfer_owner(2) [OF parts(1) val] nfts_transfer_counts(2) [OF parts(2,1) val]
      nfts_transfer_good [OF assms(2) val]
    unfolding s' [symmetric] by (auto simp: Let_def nfts_len_def)
qed

theorem nft_transfer_exact_witness:
  "\<exists>m' s'. base_nft_transfer ex_nft_config (default_portfolio 2) (default_portfolio 1) ex_token (ex_meter, ex_nfts)
      = Inr (m', s') \<and> NFTOwner s' 9 1 = Some (default_portfolio 1) \<and> NumberOfNFTs s' 9 1 = 1"
  using nft_transfer_exact [OF ex_nft_transfer ex_nfts_good] ex_nft_transfer
  by (auto simp: ex_token_def default_portfolio_def)

text \<open>
  (C37) A controller transfer asks for the permission of one asset and moves the tokens of any other:
  whoever is an agent of some ticker with a portfolio of their own takes the unlocked tokens of every
  collection out of every portfolio, because the ticker of the tokens is not compared with the ticker
  the caller is an agent of.
\<close>

theorem controller_transfer_any_collection:
  assumes "ensure_origin_ticker_and_portfolio_permissions s origin t kind True = Inr pid"
    and "validate_nft_ownership cfg s source pid nfts = Inr ()" and "nft_good s"
  shows "\<exists>s'. nft_controller_transfer cfg origin t nfts source kind s = Inr s' \<and>
    (\<forall>i \<in> set (nfts_ids nfts). NFTOwner s (nfts_ticker nfts) i = Some source \<and> NFTOwner s' (nfts_ticker nfts) i = Some pid)"
proof -
  have own: "nft_owner_exact s" using assms(3) by (simp add: nft_good_def)
  have "NFTOwner s (nfts_ticker nfts) i = Some source" if "i \<in> set (nfts_ids nfts)" for i
    using ownership_valid(5) [OF assms(2) that] own by (simp add: nft_owner_exact_def)
  then show ?thesis
    using assms(1,2) nfts_transfer_owner(2) [OF own assms(2)] by (simp add: nft_controller_transfer_def)
qed

lemma ex_nft_perms:
  "ensure_origin_ticker_and_portfolio_permissions ex_nfts (Signed 1) 7 Default True = Inr (default_portfolio 1)"
  "ensure_agent_asset_perms ex_nfts (Signed 1) 9 = Inl (ExternalAgentsError UnauthorizedAgent)"
  by (simp_all add: ensure_origin_ticker_and_portfolio_permissions_def ensure_agent_asset_perms_def
      ensure_asset_perms_def ensure_origin_call_permissions_def ensure_signed_def ensure_call_permissions_def
      check_account_call_permissions_def ensure_agent_permissioned_def agent_permissions_def sufficient_for_def
      ensure_portfolio_validity_def ensure_portfolio_custody_def ensure_user_portfolio_permission_def
      default_portfolio_def Let_def ex_nfts_def ex_assets_defs)

theorem controller_transfer_any_collection_witness:
  "\<exists>s'. nft_controller_transfer ex_nft_config (Signed 1) 7 ex_token (default_portfolio 2) Default ex_nfts = Inr s' \<and>
     ensure_agent_asset_perms ex_nfts (Signed 1) 9 = Inl (ExternalAgentsError UnauthorizedAgent) \<and>
     NFTOwner ex_nfts 9 1 = Some (default_portfolio 2) \<and> NFTOwner s' 9 1 = Some (default_portfolio 1)"
  using controller_transfer_any_collection [OF ex_nft_perms(1) ex_nft_valid ex_nfts_good] ex_nft_perms(2)
  by (auto simp: ex_token_def)

end
