(* ===== verification/Settlement_Properties.thy ===== *)
theory Settlement_Properties
  imports Settlement_Execution NFT_Properties
begin

text \<open>
  What the settlement pallet guarantees to the parties of an instruction, and where it falls short of
  its documentation.
\<close>

section \<open>An instruction all of whose parties have affirmed\<close>

lemma all_affirmed:
  assumes "instruction_ok s i" "InstructionAffirmsPending s i = 0"
  shows "p \<in> parties (InstructionLegs s i) \<Longrightarrow> UserAffirmations s p i = AffirmationStatus.Affirmed"
    and "(l, leg) \<in> set (InstructionLegs s i) \<Longrightarrow> is_off_chain leg \<Longrightarrow> OffChainAffirmations s i l = AffirmationStatus.Affirmed"
    and "mediator_status s i d \<noteq> MediatorAffirmationStatus.Pending"
proof -
  have ok: "legs_ok s i" "affirmations_ok s i" "count_ok s i" using assms(1) by (auto simp: instruction_ok_def)
  have none: "{p. UserAffirmations s p i = AffirmationStatus.Pending} = {}"
    "{l. OffChainAffirmations s i l = AffirmationStatus.Pending} = {}"
    "{d. mediator_status s i d = MediatorAffirmationStatus.Pending} = {}"
    using assms(2) ok(3) finite_pending(1,2) [OF ok(2)] finite_mediators(1) [of s i]
    by (simp_all add: count_ok_def pending_parties_def)
  show "UserAffirmations s p i = AffirmationStatus.Affirmed" if "p \<in> parties (InstructionLegs s i)"
    using that ok(2) none(1) unfolding affirmations_ok_def by (metis (mono_tags) AffirmationStatus.exhaust empty_iff mem_Collect_eq)
  show "OffChainAffirmations s i l = AffirmationStatus.Affirmed"
    if "(l, leg) \<in> set (InstructionLegs s i)" "is_off_chain leg"
    using off_chain_leg [OF ok(1,2) that(1)] that(2) none(2) by (metis (mono_tags) AffirmationStatus.exhaust empty_iff mem_Collect_eq)
  show "mediator_status s i d \<noteq> MediatorAffirmationStatus.Pending" using none(3) by blast
qed

lemma leg_sender_party: "sender_in [p] (l, leg) \<Longrightarrow> (l, leg) \<in> set legs \<Longrightarrow> p \<in> parties legs"
  by (force simp: sender_in_def parties_def leg_parties_def split: Leg.splits)

lemma all_legs_pending:
  assumes "instruction_ok s i" "InstructionAffirmsPending s i = 0" "(l, leg) \<in> set (InstructionLegs s i)"
  shows "InstructionLegStatus s i l = ExecutionPending \<longleftrightarrow> \<not> is_off_chain leg"
    and "is_off_chain leg \<Longrightarrow> \<exists>k u. InstructionLegStatus s i l = ExecutionToBeSkipped k u"
proof -
  note lo = legs_okD [OF assms(1,3)]
  have "\<And>p. sender_in [p] (l, leg) \<Longrightarrow> UserAffirmations s p i = AffirmationStatus.Affirmed"
    using leg_sender_party [OF _ assms(3)] all_affirmed(1) [OF assms(1,2)] by blast
  then show "InstructionLegStatus s i l = ExecutionPending \<longleftrightarrow> \<not> is_off_chain leg"
    using leg_pending [OF lo] by (cases leg) (auto simp: is_off_chain_def sender_in_def)
  show "\<exists>k u. InstructionLegStatus s i l = ExecutionToBeSkipped k u" if "is_off_chain leg"
    using lo all_affirmed(2) [OF assms(1-3) that] that by (auto simp: leg_ok_def is_off_chain_def split: Leg.splits)
qed

lemma fold_book_pending:
  assumes "\<And>l leg. (l, leg) \<in> set legs \<Longrightarrow> InstructionLegStatus s i l = ExecutionPending \<longleftrightarrow> \<not> is_off_chain leg"
  shows "fold (book_leg \<circ> snd) (pending_legs s i legs) b = fold (book_leg \<circ> snd) legs b"
  using assms
proof (induction legs arbitrary: b)
  case (Cons x legs)
  obtain l leg where x: "x = (l, leg)" by (cases x)
  have st: "InstructionLegStatus s i l = ExecutionPending \<longleftrightarrow> \<not> is_off_chain leg" using Cons.prems x by simp
  have IH: "fold (book_leg \<circ> snd) (pending_legs s i legs) b = fold (book_leg \<circ> snd) legs b" for b
    by (rule Cons.IH) (use Cons.prems in simp)
  show ?case
    using st IH by (cases leg) (simp_all add: pending_legs_def x is_off_chain_def comp_def del: book_leg.simps(1,2))
qed (simp add: pending_legs_def)

lemma execution_booked:
  fixes s s' :: "'a settlement_store_scheme"
  assumes "execute_instruction cfg i (m, s) = Inr (m', s')" and "settle_good R s"
  shows "ledger_of s' = fold (book_leg \<circ> snd) (sort_key fst (InstructionLegs s i)) (ledger_of s)"
proof -
  note e = execute_effect [OF assms]
  show ?thesis
    unfolding e(4)
    by (rule fold_book_pending) (use all_legs_pending(1) [OF settle_goodD(4) [OF assms(2)] e(5)] in simp)
qed

lemma mediators_checked:
  "ensure_non_expired now sts = Inr u \<Longrightarrow> st \<in> set sts \<Longrightarrow>
     \<exists>expiry. st = MediatorAffirmationStatus.Affirmed expiry \<and> (\<forall>e. expiry = Some e \<longrightarrow> e < now)"
proof (induction sts)
  case (Cons a sts)
  then show ?case by (cases a) (auto simp: attempt_Inr_iff ensure_Inr_iff split: option.splits)
qed simp

section \<open>Properties\<close>

text \<open>
  (C1) Along every sequence of operations of the settlement pallet, interleaved with anything that
  releases no locks, the number of pending affirmations of an instruction is the number of portfolios,
  legs outside the chain and mediators that have still to affirm; a leg on the chain is ready to execute
  exactly when its sender has affirmed; and every portfolio has under lock all the tokens and
  non-fungible tokens that the instructions it affirmed take from it, next to the amounts \<open>R\<close> that other
  pallets have locked there.
\<close>

theorem settlement_reachable_inv:
  assumes "(settle_step cfg)\<^sup>*\<^sup>* s s'" and "settle_good R s"
  shows "InstructionAffirmsPending s' i =
      card {p. UserAffirmations s' p i = AffirmationStatus.Pending} +
      card {l. OffChainAffirmations s' i l = AffirmationStatus.Pending} +
      card {d. mediator_status s' i d = MediatorAffirmationStatus.Pending} \<and>
    ((l, FungibleLeg from to t a) \<in> set (InstructionLegs s' i) \<longrightarrow>
      (InstructionLegStatus s' i l = ExecutionPending \<longleftrightarrow> UserAffirmations s' from i = AffirmationStatus.Affirmed)) \<and>
    (\<Sum>j < InstructionCounter s'. if UserAffirmations s' p j = AffirmationStatus.Affirmed
       then legs_demand (InstructionLegs s' j) p (TokenKey u) else 0) + R p (TokenKey u) \<le> PortfolioLockedAssets s' p u \<and>
    (UserAffirmations s' p i = AffirmationStatus.Affirmed \<and> (k, NonFungibleLeg p q nfts) \<in> set (InstructionLegs s' i) \<and>
      n \<in> set (nfts_ids nfts) \<longrightarrow> (nfts_ticker nfts, n) |\<in>| PortfolioLockedNFT s' p)"
proof (intro conjI impI)
  note inv = settle_goodD [OF settle_system.reach_good [OF assms]]
  show "InstructionAffirmsPending s' i =
      card {p. UserAffirmations s' p i = AffirmationStatus.Pending} +
      card {l. OffChainAffirmations s' i l = AffirmationStatus.Pending} +
      card {d. mediator_status s' i d = MediatorAffirmationStatus.Pending}"
    using inv(4) [of i] by (simp add: instruction_ok_def count_ok_def pending_parties_def)
  show "InstructionLegStatus s' i l = ExecutionPending \<longleftrightarrow> UserAffirmations s' from i = AffirmationStatus.Affirmed"
    if "(l, FungibleLeg from to t a) \<in> set (InstructionLegs s' i)"
    using leg_pending [OF legs_okD [OF inv(4) that]] by simp
  have esc: "escrow s' p k + R p k \<le> locked s' p k" for k using inv(3) by (simp add: settle_inv_def)
  show "(\<Sum>j < InstructionCounter s'. if UserAffirmations s' p j = AffirmationStatus.Affirmed
       then legs_demand (InstructionLegs s' j) p (TokenKey u) else 0) + R p (TokenKey u) \<le> PortfolioLockedAssets s' p u"
    using esc [of "TokenKey u"] by (simp add: escrow_def escrow_of_def locked_def)
  assume a: "UserAffirmations s' p i = AffirmationStatus.Affirmed \<and> (k, NonFungibleLeg p q nfts) \<in> set (InstructionLegs s' i) \<and>
      n \<in> set (nfts_ids nfts)"
  let ?key = "NftKey (nfts_ticker nfts) n"
  have "demand (NonFungibleLeg p q nfts) p ?key \<le> legs_demand (InstructionLegs s' i) p ?key"
    unfolding legs_demand_def using a by (intro member_le_sum_list) (force, simp)
  moreover have "1 \<le> demand (NonFungibleLeg p q nfts) p ?key"
    using a count_list_0_iff [of "nfts_ids nfts" n] by (simp add: demand_def nft_demand_def Suc_le_eq)
  moreover have "escrow_of s' i p ?key \<le> locked s' p ?key"
    using release_escrow(3) [OF settle_system.reach_good [OF assms] refl, of p ?key i] by simp
  ultimately have "1 \<le> locked s' p ?key" using a by (simp add: escrow_of_def)
  then show "(nfts_ticker nfts, n) |\<in>| PortfolioLockedNFT s' p" by (simp add: locked_def split: if_splits)
qed

text \<open>
  (C2) Executing an instruction settles it as a whole: on success the holdings of all portfolios and the
  owners of all non-fungible tokens are those of the ledger on which every leg of the instruction has been
  booked, in the order of the legs, and none left out.
\<close>

theorem execution_refines_ledger:
  assumes "execute_instruction cfg i (m, s) = Inr (m', s')" and "settle_good R s"
  shows "ledger_of s' = fold (book_leg \<circ> snd) (sort_key fst (InstructionLegs s i)) (ledger_of s)"
  by (rule execution_booked [OF assms])

text \<open>
  (C4) Nothing is settled without the consent of everyone involved: an instruction is executed only when
  every portfolio of a leg has affirmed, every leg outside the chain is covered by a receipt, and every
  mediator has affirmed; then the locks that held the tokens are gone.
\<close>

theorem execution_needs_all_parties:
  assumes "execute_instruction cfg i (m, s) = Inr (m', s')" and "settle_good R s"
  shows "(\<forall>p \<in> parties (InstructionLegs s i). UserAffirmations s p i = AffirmationStatus.Affirmed) \<and>
    (\<forall>(l, leg) \<in> set (InstructionLegs s i). is_off_chain leg \<longrightarrow>
       (\<exists>k u. InstructionLegStatus s i l = ExecutionToBeSkipped k u)) \<and>
    (\<forall>(d, st) \<in> set (InstructionMediatorsAffirmations s i). \<exists>expiry. st = MediatorAffirmationStatus.Affirmed expiry) \<and>
    locked s' p k = locked s p k - (if p \<in> parties (InstructionLegs s i) then legs_demand (InstructionLegs s i) p k else 0)"
proof (intro conjI)
  note e = execute_effect [OF assms]
  note ok = settle_goodD(4) [OF assms(2), of i]
  show "\<forall>p \<in> parties (InstructionLegs s i). UserAffirmations s p i = AffirmationStatus.Affirmed"
    using all_affirmed(1) [OF ok e(5)] by blast
  show "\<forall>(l, leg) \<in> set (InstructionLegs s i). is_off_chain leg \<longrightarrow> (\<exists>k u. InstructionLegStatus s i l = ExecutionToBeSkipped k u)"
    using all_legs_pending(2) [OF ok e(5)] by blast
  show "\<forall>(d, st) \<in> set (InstructionMediatorsAffirmations s i). \<exists>expiry. st = MediatorAffirmationStatus.Affirmed expiry"
    using mediators_checked [OF e(6) [unfolded ensure_non_expired_affirmations_def]] by fastforce
  have "UserAffirmations s p i = AffirmationStatus.Affirmed \<longleftrightarrow> p \<in> parties (InstructionLegs s i)"
    using all_affirmed(1) [OF ok e(5)] ok unfolding instruction_ok_def affirmations_ok_def
    by (metis AffirmationStatus.distinct(3))
  then show "locked s' p k = locked s p k - (if p \<in> parties (InstructionLegs s i) then legs_demand (InstructionLegs s i) p k else 0)"
    using e(3) [of p k] by (simp add: escrow_of_def)
qed

text \<open>
  (C12) A party or a mediator that rejects an instruction frees everything it holds: no holding changes, each
  portfolio gets back exactly the locks it had for the instruction, the instruction is marked as rejected,
  and it can no longer be executed.
\<close>

theorem reject_releases_locks:
  fixes s s' :: "'a settlement_store_scheme"
  assumes "base_reject_instruction cfg origin i portfolio c s = Inr s'" and good: "settle_good R s"
  shows "ledger_of s' = ledger_of s \<and>
    locked s' p k = locked s p k - (if UserAffirmations s p i = AffirmationStatus.Affirmed
      then legs_demand (InstructionLegs s i) p k else 0) \<and>
    InstructionStatuses s' i = Rejected (block_number s) \<and> InstructionLegs s' i = [] \<and>
    execute_instruction cfg' i (m, s') = Inl (SettlementError InvalidInstructionStatusForExecution)"
proof -
  let ?r = "unchecked_release_locks i (InstructionLegs s i) s"
  have s': "s' = prune_instruction i False (cancel_instruction cfg i ?r)"
    using assms(1) by (auto simp: base_reject_instruction_def attempt_Inr_iff ensure_Inr_iff Let_def)
  note rel = release_escrow [where i = i, OF good refl]
  note same = same_but_locks [OF rel(1)]
  have "NFTOwner ?r = NFTOwner s" using arg_cong [OF rel(1), of NFTOwner] by (simp add: forget_locks_def)
  then have led: "ledger_of ?r = ledger_of s" by (simp add: ledger_of_def same)
  have c: "ledger_of (cancel_instruction cfg i x) = ledger_of x" "block_number (cancel_instruction cfg i x) = block_number x"
    "affirmations_ok (cancel_instruction cfg i x) i = affirmations_ok x i" for x :: "'a settlement_store_scheme"
    by (simp_all add: cancel_instruction_def ledger_of_def affirmations_ok_def split: option.splits)
  have "affirmations_ok s i" using settle_goodD(4) [OF good, of i] by (simp add: instruction_ok_def)
  then have aff: "affirmations_ok (cancel_instruction cfg i ?r) i" by (simp add: c) (simp add: affirmations_ok_def same)
  note pr = prune_sel [OF aff, of False, folded s']
  show ?thesis
    using rel(3) [of p k] led
    by (simp add: pr c same escrow_of_def) (simp add: execute_instruction_def ensure_non_expired_affirmations_def pr c)
qed

section \<open>Affirming and withdrawing again\<close>

lemma forget_locks_upd:
  fixes s u :: "'a portfolio_store_scheme"
  assumes "forget_locks s = forget_locks u"
  obtains A N where "s = u\<lparr>PortfolioLockedAssets := A, PortfolioLockedNFT := N\<rparr>"
proof (rule that)
  have "x = (forget_locks x)\<lparr>PortfolioLockedAssets := PortfolioLockedAssets x, PortfolioLockedNFT := PortfolioLockedNFT x\<rparr>"
    for x :: "'a portfolio_store_scheme" by (simp add: forget_locks_def)
  then have "s = (forget_locks u)\<lparr>PortfolioLockedAssets := PortfolioLockedAssets s, PortfolioLockedNFT := PortfolioLockedNFT s\<rparr>"
    by (metis assms)
  then show "s = u\<lparr>PortfolioLockedAssets := PortfolioLockedAssets s, PortfolioLockedNFT := PortfolioLockedNFT s\<rparr>"
    by (simp add: forget_locks_def)
qed

text \<open>Who may act does not depend on what affirming changes.\<close>

lemma affirm_keeps_permissions:
  fixes s s1 :: "'a settlement_store_scheme"
  assumes "unsafe_affirm_instruction did i ps sk c s = Inr (f, s1)" and "portfolio_inv s"
  shows "ensure_origin_call_permissions s1 origin = ensure_origin_call_permissions s origin"
    "ensure_portfolio_custody_and_permission s1 p d sk' = ensure_portfolio_custody_and_permission s p d sk'"
proof -
  obtain A N where s1: "s1 = (put_pending i (InstructionAffirmsPending s i - length ps)
      (with_affirmations i ps AffirmationStatus.Affirmed AffirmationStatus.Affirmed
        (with_leg_status i (sent_legs s i ps) ExecutionPending s)))\<lparr>PortfolioLockedAssets := A, PortfolioLockedNFT := N\<rparr>"
    using forget_locks_upd [OF unsafe_affirm_effect(5) [OF assms]] .
  show "ensure_origin_call_permissions s1 origin = ensure_origin_call_permissions s origin"
    by (simp add: s1 with_defs ensure_origin_call_permissions_def ensure_call_permissions_def
        check_account_call_permissions_def cong: option.case_cong KeyRecord.case_cong)
  show "ensure_portfolio_custody_and_permission s1 p d sk' = ensure_portfolio_custody_and_permission s p d sk'"
    by (simp add: s1 with_defs ensure_portfolio_custody_and_permission_def ensure_portfolio_custody_def
        ensure_user_portfolio_permission_def)
qed

lemma fold_withdraw_ok:
  fixes s :: "'a settlement_store_scheme"
  assumes "portfolio_inv s" "distinct (map fst legs)"
    and "\<And>l leg. (l, leg) \<in> set legs \<Longrightarrow> InstructionLegStatus s i l = ExecutionPending \<and> \<not> is_off_chain leg"
    and "\<And>p k. legs_demand legs p k \<le> locked s p k"
  shows "is_ok (fold_res (withdraw_leg i) legs s)"
  using assms
proof (induction legs arbitrary: s)
  case (Cons x legs)
  obtain l leg where x: "x = (l, leg)" by (cases x)
  have st: "InstructionLegStatus s i l = ExecutionPending" "\<not> is_off_chain leg" using Cons.prems(3) x by auto
  have "demand leg p k \<le> locked s p k" for p k using Cons.prems(4) [of p k] by (simp add: x)
  from unlock_via_leg_ok [OF st(2) this] obtain s1 where s1: "unlock_via_leg leg s = Inr s1" by (auto simp: is_ok_iff)
  note e = unlock_via_leg_effect [OF s1 Cons.prems(1)]
  let ?s = "put_leg_status i l PendingTokenLock s1"
  have w: "?s = with_leg_status i {l} PendingTokenLock s1"
    by (simp add: put_leg_status_def with_leg_status_def fun_upd_def)
  have "is_ok (fold_res (withdraw_leg i) legs ?s)"
  proof (rule Cons.IH)
    show "portfolio_inv ?s" using e by (simp add: w)
    show "distinct (map fst legs)" using Cons.prems(2) by simp
    show "InstructionLegStatus ?s i l' = ExecutionPending \<and> \<not> is_off_chain leg'" if m: "(l', leg') \<in> set legs" for l' leg'
    proof -
      have "l' \<noteq> l" using Cons.prems(2) m x by force
      then show ?thesis using Cons.prems(3) [of l' leg'] m same_but_locks(3) [OF conjunct1 [OF e]] by (simp add: put_leg_status_def)
    qed
    show "legs_demand legs p k \<le> locked ?s p k" for p k using Cons.prems(4) [of p k] e by (simp add: w x)
  qed
  moreover have "withdraw_leg i x s = Inr ?s" by (simp add: x withdraw_leg_def st s1)
  ultimately show ?case by simp
qed simp

lemma withdraw_after_affirm:
  fixes s s1 :: "'a settlement_store_scheme"
  assumes aff: "unsafe_affirm_instruction did i (btree ps) sk c s = Inr (f, s1)" and good: "settle_good R s"
  shows "\<exists>f'. unsafe_withdraw_instruction_affirmation did i ps sk c s1 = Inr (f', s)"
proof -
  let ?ps = "btree ps" and ?legs = "filter (sender_in (btree ps)) (InstructionLegs s i)"
  note inv = settle_goodD [OF good] and good1 = unsafe_affirm_good [OF aff distinct_btree good]
  note e = unsafe_affirm_effect [OF aff inv(1)] and inv1 = settle_goodD [OF good1]
  note fld = same_but_locks [OF e(5), simplified with_defs, simplified]
  have old: "legs_ok s i" "affirmations_ok s i" "count_ok s i" using inv(4) [of i] by (auto simp: instruction_ok_def)
  have ok: "ensure_portfolios_and_affirmation_status s1 i ?ps did sk [AffirmationStatus.Affirmed] = Inr ()"
    "ensure_affirmation_estimate (filtered_legs s i ?ps) c = Inr ()"
    using aff
    by (auto simp: unsafe_affirm_instruction_def ensure_portfolios_and_affirmation_status_def attempt_Inr_iff
        ensure_Inr_iff each_res_Inr_iff Let_def affirm_keeps_permissions [OF aff inv(1)] fld)
  have "is_ok (fold_res (withdraw_leg i) ?legs s1)"
  proof (rule fold_withdraw_ok [OF inv1(1)])
    show "distinct (map fst ?legs)" using old(1) by (simp add: legs_ok_def distinct_map_filter)
    show "InstructionLegStatus s1 i l = ExecutionPending \<and> \<not> is_off_chain leg" if "(l, leg) \<in> set ?legs" for l leg
      using that by (force simp: fld sent_legs_def sender_in_def is_off_chain_def split: Leg.splits)
    show "legs_demand ?legs p k \<le> locked s1 p k" for p k by (simp add: legs_demand_filter e(4) demand_of_def)
  qed
  then obtain s2 where "fold_res (withdraw_leg i) ?legs s1 = Inr s2" by (auto simp: is_ok_iff)
  then obtain f' s' where w: "unsafe_withdraw_instruction_affirmation did i ps sk c s1 = Inr (f', s')"
    using ok by (simp add: unsafe_withdraw_instruction_affirmation_def filtered_legs_def fld Let_def)
  note w' = unsafe_withdraw_effect [OF w inv1(1)]
  have dem: "demand_of s1 i ?ps = demand_of s i ?ps" "sent_legs s1 i ?ps = sent_legs s i ?ps"
    by (simp_all add: demand_of_def sent_legs_def fld fun_eq_iff)
  have st: "InstructionLegStatus s i l = PendingTokenLock" if sent: "l \<in> sent_legs s i ?ps" for l
  proof -
    obtain leg where l: "(l, leg) \<in> set (InstructionLegs s i)" "sender_in ?ps (l, leg)" using sent by (auto simp: sent_legs_def)
    show ?thesis
      using legs_okD [OF inv(4) l(1)] l(2) e(2) by (cases leg) (auto simp: leg_ok_def lock_status_def sender_in_def)
  qed
  have pend: "length ?ps \<le> InstructionAffirmsPending s i" "InstructionAffirmsPending s i \<le> u64_max"
  proof -
    have "set ?ps \<subseteq> {p. UserAffirmations s p i = AffirmationStatus.Pending}" using e(2) by auto
    from card_mono [OF finite_pending(1) [OF old(2)] this] show "length ?ps \<le> InstructionAffirmsPending s i"
      using old(3) distinct_card [OF distinct_btree, of ps] by (simp add: count_ok_def pending_parties_def)
    show "InstructionAffirmsPending s i \<le> u64_max"
      using old(3) parties_bound [OF old(2) finite_pending(3) [OF old(2)]] by (simp add: count_ok_def pending_parties_def)
  qed
  have recv: "AffirmsReceived s i p = AffirmationStatus.Unknown" if "p \<in> set ps" for p
    using old(2) e(2) that by (simp add: affirmations_ok_def)
  have "forget_locks s' = forget_locks s"
  proof -
    let ?u = "put_pending i (InstructionAffirmsPending s i - length ?ps)
      (with_affirmations i ?ps AffirmationStatus.Affirmed AffirmationStatus.Affirmed
        (with_leg_status i (sent_legs s i ?ps) ExecutionPending s))"
    have n: "wrapping_add u64_max (InstructionAffirmsPending s1 i) (length ?ps) = InstructionAffirmsPending s i"
      using pend by (simp add: fld wrapping_add_exact)
    have "put_pending i (InstructionAffirmsPending s i)
      (with_affirmations i ?ps AffirmationStatus.Pending AffirmationStatus.Unknown
        (with_leg_status i (sent_legs s i ?ps) PendingTokenLock ?u)) = s" (is "?v = s")
    proof -
      have "(\<lambda>p j. if j = i \<and> p \<in> set ps then AffirmationStatus.Pending else UserAffirmations s p j) = UserAffirmations s"
        "(\<lambda>j p. if j = i \<and> p \<in> set ps then AffirmationStatus.Unknown else AffirmsReceived s j p) = AffirmsReceived s"
        "(InstructionLegStatus s)(i := (\<lambda>l. if l \<in> sent_legs s i ?ps then PendingTokenLock
          else InstructionLegStatus s i l)) = InstructionLegStatus s"
        "(InstructionAffirmsPending s)(i := InstructionAffirmsPending s i) = InstructionAffirmsPending s"
        using e(2) recv st by (auto simp: fun_eq_iff)
      then show ?thesis by (simp add: with_defs cong: if_cong)
    qed
    moreover have "forget_locks s' = forget_locks ?v" unfolding w'(4) n dem by (simp add: e(5))
    ultimately show ?thesis by simp
  qed
  moreover have "locked s' = locked s" using w'(3) e(4) dem by (simp add: fun_eq_iff)
  ultimately have "s' = s" by (rule locks_determine)
  then show ?thesis using w by blast
qed

text \<open>
  (C11) Affirming can be undone: whoever affirmed an instruction for some portfolios can withdraw the
  affirmation right away, and the state is again what it was before, locks, leg statuses and counters
  included; only a scheduled execution is taken off the agenda.
\<close>

theorem affirm_withdraw_roundtrip:
  fixes s s1 :: "'a settlement_store_scheme"
  assumes "base_affirm_instruction origin i ps c s = Inr (f, s1)" and "settle_good R s"
  shows "base_withdraw_affirmation cfg origin i ps c s1 =
    Inr (if settlement_type (InstructionDetails s i) = SettleOnAffirmation then cancel_instruction cfg i s else s)"
proof -
  obtain did sk details where val: "ensure_origin_perm_and_instruction_validity s origin i False = Inr (did, sk, details)"
    and aff: "unsafe_affirm_instruction did i (btree ps) sk c s = Inr (f, s1)"
    using assms(1) by (auto simp: base_affirm_instruction_def attempt_Inr_iff)
  note inv = settle_goodD [OF assms(2)]
  note e = unsafe_affirm_effect [OF aff inv(1)]
  note fld = same_but_locks [OF e(5), simplified with_defs, simplified]
  have "ensure_origin_perm_and_instruction_validity s1 origin i False = Inr (did, sk, details)"
    using val unfolding ensure_origin_perm_and_instruction_validity_def ensure_instruction_validity_def fld(16)
    by (simp add: affirm_keeps_permissions [OF aff inv(1)] fld)
  moreover obtain f' where "unsafe_withdraw_instruction_affirmation did i ps sk c s1 = Inr (f', s)"
    using withdraw_after_affirm [OF aff assms(2)] by blast
  ultimately show ?thesis by (simp add: base_withdraw_affirmation_def validity_details [OF val])
qed

section \<open>From the last affirmation to the execution\<close>









section \<open>Receipts\<close>

lemma receipts_used_keep:
  fixes s s' :: "'a settlement_store_scheme"
  shows "unsafe_affirm_instruction did i ps sk c s = Inr (f, s') \<Longrightarrow> portfolio_inv s \<Longrightarrow> ReceiptsUsed s' = ReceiptsUsed s"
    and "unsafe_withdraw_instruction_affirmation did i ps sk c s = Inr (f, s') \<Longrightarrow> portfolio_inv s \<Longrightarrow>
      ReceiptsUsed s' = ReceiptsUsed s"
    and "execute_instruction cfg i (m, s) = Inr (m', s') \<Longrightarrow> settle_good R s \<Longrightarrow> ReceiptsUsed s' = ReceiptsUsed s"
    and "ReceiptsUsed (schedule_instruction cfg i b w s) = ReceiptsUsed s"
    "ReceiptsUsed (cancel_instruction cfg i s) = ReceiptsUsed s"
    "ReceiptsUsed (maybe_schedule_instruction cfg n i w s) = ReceiptsUsed s"
    "ReceiptsUsed (prune_instruction i e s) = ReceiptsUsed s"
    "settle_good R s \<Longrightarrow> ReceiptsUsed (unchecked_release_locks i (InstructionLegs s i) s) = ReceiptsUsed s"
proof -
  show "ReceiptsUsed s' = ReceiptsUsed s" if "unsafe_affirm_instruction did i ps sk c s = Inr (f, s')" "portfolio_inv s"
    using same_but_locks(11) [OF unsafe_affirm_effect(5) [OF that]] by (simp add: with_defs)
  show "ReceiptsUsed s' = ReceiptsUsed s"
    if "unsafe_withdraw_instruction_affirmation did i ps sk c s = Inr (f, s')" "portfolio_inv s"
    using same_but_locks(11) [OF unsafe_withdraw_effect(4) [OF that]] by (simp add: with_defs)
  show "ReceiptsUsed s' = ReceiptsUsed s" if "execute_instruction cfg i (m, s) = Inr (m', s')" "settle_good R s"
    using execute_effect(1) [OF that] by (simp add: settle_state_def)
  show "ReceiptsUsed (schedule_instruction cfg i b w s) = ReceiptsUsed s"
    "ReceiptsUsed (cancel_instruction cfg i s) = ReceiptsUsed s"
    "ReceiptsUsed (maybe_schedule_instruction cfg n i w s) = ReceiptsUsed s"
    by (simp_all add: maybe_schedule_instruction_def schedule_instruction_def cancel_instruction_def split: option.splits)
  show "ReceiptsUsed (prune_instruction i e s) = ReceiptsUsed s"
    by (simp add: prune_instruction_def fold_forget_affirmations put_status_def Let_def)
  show "ReceiptsUsed (unchecked_release_locks i (InstructionLegs s i) s) = ReceiptsUsed s" if "settle_good R s"
    by (rule same_but_locks(11) [OF release_escrow(1) [OF that refl]])
qed

lemma receipts_used_affirm:
  fixes s s' :: "'a settlement_store_scheme"
  shows "base_affirm_instruction origin i ps c s = Inr (f, s') \<Longrightarrow> portfolio_inv s \<Longrightarrow> ReceiptsUsed s' = ReceiptsUsed s"
    and "base_affirm_with_receipts cfg origin i rs ps c s = Inr (f, s') \<Longrightarrow> portfolio_inv s \<Longrightarrow>
      ReceiptsUsed s' k u \<longleftrightarrow> ReceiptsUsed s k u \<or> (k, u) \<in> receipt_key ` set rs"
proof -
  show "ReceiptsUsed s' = ReceiptsUsed s" if "base_affirm_instruction origin i ps c s = Inr (f, s')" "portfolio_inv s"
    using that receipts_used_keep(1) by (force simp: base_affirm_instruction_def attempt_Inr_iff)
  show "ReceiptsUsed s' k u \<longleftrightarrow> ReceiptsUsed s k u \<or> (k, u) \<in> receipt_key ` set rs"
    if "base_affirm_with_receipts cfg origin i rs ps c s = Inr (f, s')" "portfolio_inv s"
    using base_affirm_with_receipts_effect(5) [OF that] by (simp add: affirmed_with_receipts_def)
qed

lemma receipts_used_add:
  fixes s s' :: "'a settlement_store_scheme"
  assumes "base_add_instruction cfg did v ty trade valu legs memo meds s = Inr (i, s')"
  shows "ReceiptsUsed s' = ReceiptsUsed s"
proof -
  obtain info details s1 where s1: "s1 = commit_instruction cfg i details legs memo info (s\<lparr>InstructionCounter := i + 1\<rparr>)"
    "s' = (case ty of SettleOnBlock b \<Rightarrow>
        schedule_instruction cfg i b (scheduled_weight cfg (instruction_asset_count info)) s1 | _ \<Rightarrow> s1)"
    by (rule base_add_effect [OF assms])
  have "ReceiptsUsed (fold (add_leg cfg i) xs t) = ReceiptsUsed t" for xs and t :: "'a settlement_store_scheme"
    by (rule fold_keep) (simp add: add_leg_def settlement_put_defs Let_def split: prod.splits)
  moreover have "ReceiptsUsed (fold (\<lambda>d. put_mediator i d st) ds t) = ReceiptsUsed t" for st ds and t :: "'a settlement_store_scheme"
    by (rule fold_keep) (simp add: put_mediator_def)
  ultimately have "ReceiptsUsed s1 = ReceiptsUsed s"
    by (simp add: s1(1) commit_instruction_def Let_def put_pending_def put_status_def fold_put_user mark_affirmed_eta fold_mark
        with_affirmations_def split: option.splits)
  then show ?thesis by (simp add: s1(2) receipts_used_keep split: SettlementType.splits)
qed

lemma manual_Inr:
  assumes "execute_manual_instruction cfg origin i p f n o' w s = Inr s'"
  obtains m m' s1 where "execute_instruction cfg i (m, s) = Inr (m', s1)" "s' = prune_instruction i True s1"
proof -
  obtain m m' where "execute_instruction_retryable cfg i (m, s) = (Inr m', s')"
    using assms
    by (auto simp: execute_manual_instruction_def base_execute_manual_instruction_def attempt_Inr_iff Let_def retry_Inr)
  then show thesis by (auto simp: execute_instruction_retryable_def intro: that split: sum.split_asm prod.split_asm)
qed

lemma withdraw_as_mediator_Inr:
  assumes "base_withdraw_affirmation_as_mediator cfg origin i s = Inr s'"
  obtains did t where "mediator_status s i did \<noteq> MediatorAffirmationStatus.Unknown"
    "t = put_mediator i did MediatorAffirmationStatus.Pending s"
    "s' = put_pending i (saturating_add u64_max (InstructionAffirmsPending t i) 1) t \<or>
      s' = cancel_instruction cfg i (put_pending i (saturating_add u64_max (InstructionAffirmsPending t i) 1) t)"
proof -
  obtain did sk details where val: "ensure_origin_perm_and_instruction_validity s origin i False = Inr (did, sk, details)"
    using assms by (auto simp: base_withdraw_affirmation_as_mediator_def attempt_Inr_iff)
  show thesis
    by (rule that [of did, OF _ refl]; use assms val in \<open>cases "mediator_status s i did"\<close>)
      (simp_all add: base_withdraw_affirmation_as_mediator_def Let_def split: if_split_asm)
qed

lemma scheduled_Inr:
  assumes "execute_scheduled_instruction cfg origin i w s = Inr s'"
  obtains m m' s1 where "execute_instruction cfg i (m, s) = Inr (m', s1)" "s' = prune_instruction i True s1"
  | "s' = put_status i InstructionStatus.Failed s"
proof -
  obtain m where m: "s' = base_execute_scheduled_instruction cfg i (m, s)"
    using assms by (auto simp: execute_scheduled_instruction_def attempt_Inr_iff)
  show thesis
    by (cases "execute_instruction cfg i (m, s)")
      (use that m in \<open>force simp: base_execute_scheduled_instruction_def execute_instruction_retryable_def\<close>)+
qed

lemma receipts_used_mono:
  fixes s s' :: "'a settlement_store_scheme"
  assumes "settle_step cfg s s'" and good: "settle_good R s" and used: "ReceiptsUsed s k u"
  shows "ReceiptsUsed s' k u"
  using assms(1)
proof cases
  case (add did v ty trade valu legs memo meds i)
  then show ?thesis using receipts_used_add used by force
next
  case (affirm origin i ps c)
  then show ?thesis
    using receipts_used_affirm(1) [OF _ settle_goodD(1) [OF good]] used
    by (auto simp: affirm_and_maybe_schedule_instruction_def attempt_Inr_iff receipts_used_keep)
next
  case (affirm_with_receipts origin i rs ps c)
  then show ?thesis
    using receipts_used_affirm(2) [OF _ settle_goodD(1) [OF good], THEN iffD2, OF _ disjI1, OF _ used]
    by (auto simp: affirm_with_receipts_and_maybe_schedule_instruction_def attempt_Inr_iff receipts_used_keep)
next
  case (withdraw origin i ps c)
  then show ?thesis
    using receipts_used_keep(2) [OF _ settle_goodD(1) [OF good]] used
    by (auto simp: base_withdraw_affirmation_def attempt_Inr_iff receipts_used_keep)
next
  case (mediator_affirm origin i expiry)
  then show ?thesis
    using used by (auto simp: base_affirm_instruction_as_mediator_def attempt_Inr_iff ensure_Inr_iff Let_def receipts_used_keep
        put_mediator_def put_pending_def)
next
  case (mediator_withdraw origin i)
  then obtain did t where "mediator_status s i did \<noteq> MediatorAffirmationStatus.Unknown"
    and t: "t = put_mediator i did MediatorAffirmationStatus.Pending s"
    and s': "s' = put_pending i (saturating_add u64_max (InstructionAffirmsPending t i) 1) t \<or>
      s' = cancel_instruction cfg i (put_pending i (saturating_add u64_max (InstructionAffirmsPending t i) 1) t)"
    using withdraw_as_mediator_Inr by metis
  then show ?thesis using used by (auto simp: receipts_used_keep put_mediator_def put_pending_def)
next
  case (reject origin i p c)
  then show ?thesis
    using used good by (auto simp: base_reject_instruction_def attempt_Inr_iff ensure_Inr_iff Let_def receipts_used_keep)
next
  case (scheduled origin i w)
  then show ?thesis
    by (rule scheduled_Inr) (use used in \<open>auto simp: receipts_used_keep(7) put_status_def dest!: receipts_used_keep(3) [OF _ good]\<close>)
next
  case (manual origin i p f n o' w)
  then show ?thesis
    by (rule manual_Inr) (use used in \<open>auto simp: receipts_used_keep(7) dest!: receipts_used_keep(3) [OF _ good]\<close>)
next
  case (affirm_and_execute origin i r ps m m')
  then obtain f s1 s2 where aff: "(case r of Some r \<Rightarrow> base_affirm_with_receipts cfg origin i [r] ps None s
        | None \<Rightarrow> base_affirm_instruction origin i ps None s) = Inr (f, s1)"
    and ex: "execute_settle_on_affirmation_instruction cfg i (InstructionAffirmsPending s1 i)
      (settlement_type (InstructionDetails s1 i)) (m, s1) = Inr (m', s2)" and s': "s' = prune_instruction i True s2"
    by (auto simp: affirm_and_execute_instruction_def attempt_Inr_iff)
  have "ReceiptsUsed s1 k u"
    using aff used receipts_used_affirm(1) [OF _ settle_goodD(1) [OF good]]
      receipts_used_affirm(2) [OF _ settle_goodD(1) [OF good], THEN iffD2, OF _ disjI1, OF _ used]
    by (auto split: option.splits)
  moreover have "settle_good R s1"
    using aff base_affirm_good(1) [OF _ good] base_affirm_with_receipts_good [OF _ good] by (auto split: option.splits)
  ultimately show ?thesis
    using ex receipts_used_keep(3)
    by (force simp: s' receipts_used_keep execute_settle_on_affirmation_instruction_def split: if_splits)
next
  case elsewhere
  then show ?thesis using used by (simp add: settle_view_def)
qed (use used in \<open>auto dest!: venue_frames simp: settle_view_def venue_frame_def\<close>)

text \<open>
  (C13) A receipt for a leg outside the chain can be used once: after it has been claimed, no sequence of
  operations of the pallet makes it possible to affirm any instruction with a receipt of the same signer and
  the same identifier again.
\<close>

theorem receipt_used_once:
  fixes s s1 s2 :: "'a settlement_store_scheme"
  assumes "affirm_with_receipts_and_maybe_schedule_instruction cfg origin i rs ps c s = Inr s1" "settle_good R s"
    and "(settle_step cfg')\<^sup>*\<^sup>* s1 s2" and "r \<in> set rs" "r' \<in> set rs'" "signer r' = signer r" "uid r' = uid r"
  shows "ReceiptsUsed s2 (signer r) (uid r) \<and> \<not> ReceiptsUsed s (signer r) (uid r) \<and>
    \<not> is_ok (affirm_with_receipts_and_maybe_schedule_instruction cfg' origin' i' rs' ps' c' s2)"
proof -
  obtain f s0 where aff: "base_affirm_with_receipts cfg origin i rs ps c s = Inr (f, s0)"
    and s1: "s1 = maybe_schedule_instruction cfg (InstructionAffirmsPending s0 i) i (scheduled_weight cfg (unfiltered_asset_count f)) s0"
    using assms(1) by (auto simp: affirm_with_receipts_and_maybe_schedule_instruction_def attempt_Inr_iff)
  have good1: "settle_good R s1" unfolding s1 by (intro schedule_good(3) base_affirm_with_receipts_good [OF aff assms(2)])
  have "ReceiptsUsed s1 (signer r) (uid r)"
    using receipts_used_affirm(2) [OF aff settle_goodD(1) [OF assms(2)]] assms(4) by (auto simp: s1 receipts_used_keep receipt_key_def)
  with assms(3) have used: "ReceiptsUsed s2 (signer r) (uid r) \<and> settle_good R s2"
    by (induction rule: rtranclp_induct) (use good1 receipts_used_mono settle_step_good in blast)+
  have "\<not> ReceiptsUsed s (signer r) (uid r)"
    using valid_receipts(3) [OF base_affirm_with_receipts_effect(2) [OF aff settle_goodD(1) [OF assms(2)]] assms(4)]
    by (simp add: receipt_ok_def)
  moreover have "base_affirm_with_receipts cfg' origin' i' rs' ps' c' s2 \<noteq> Inr (f', s3)" for f' s3
    using valid_receipts(3) [OF base_affirm_with_receipts_effect(2) assms(5)] used settle_goodD(1) assms(6,7)
    by (force simp: receipt_ok_def)
  ultimately show ?thesis
    using used by (auto simp: affirm_with_receipts_and_maybe_schedule_instruction_def is_ok_iff attempt_Inr_iff)
qed

section \<open>Mediators and the scheduler\<close>

text \<open>
  (C39) A mediator may give the time at which the affirmation expires, which has to lie ahead. Up to that
  time the instruction cannot be executed; the check lets it pass only once the affirmation has expired.
\<close>

theorem mediator_expiry_inverted:
  assumes "base_affirm_instruction_as_mediator cfg origin i (Some e) s = Inr s1"
    and "InstructionMediatorsAffirmations s2 i = InstructionMediatorsAffirmations s1 i" "timestamp s2 \<le> e"
  shows "timestamp s < e \<and> \<not> is_ok (execute_instruction cfg' i (m, s2))"
proof -
  obtain did sk details where val: "ensure_origin_perm_and_instruction_validity s origin i False = Inr (did, sk, details)"
    using assms(1) by (auto simp: base_affirm_instruction_as_mediator_def attempt_Inr_iff)
  let ?s1 = "put_mediator i did (MediatorAffirmationStatus.Affirmed (Some e)) s"
  have e: "timestamp s < e"
    using assms(1) val by (auto simp: base_affirm_instruction_as_mediator_def ensure_Inr_iff attempt_Inr_iff Let_def)
  have keep: "InstructionMediatorsAffirmations (maybe_schedule_instruction cfg k i w t) = InstructionMediatorsAffirmations t"
    "InstructionMediatorsAffirmations (put_pending i k t) = InstructionMediatorsAffirmations t" for k w t
    by (simp_all add: maybe_schedule_instruction_def schedule_instruction_def put_pending_def split: option.split)
  have med: "InstructionMediatorsAffirmations s1 = InstructionMediatorsAffirmations ?s1"
    using assms(1) val
    by (auto simp: base_affirm_instruction_as_mediator_def ensure_Inr_iff Let_def e keep split: if_split_asm)
  have "MediatorAffirmationStatus.Affirmed (Some e) \<in> set (map snd (InstructionMediatorsAffirmations s2 i))"
    by (simp add: assms(2) med put_mediator_def set_insort_key)
  then have "\<nexists>u. ensure_non_expired_affirmations s2 i = Inr u"
    using mediators_checked assms(3) by (fastforce simp: ensure_non_expired_affirmations_def)
  then show ?thesis using e by (auto simp: is_ok_iff execute_instruction_def attempt_Inr_iff ensure_Inr_iff Let_def)
qed

text \<open>
  (C40) Executing an instruction by hand leaves its scheduled execution on the agenda. When that runs, the
  instruction, settled and recorded as a success, is recorded as failed.
\<close>

theorem executed_then_failed:
  fixes s s1 s2 :: "'a settlement_store_scheme"
  assumes "execute_manual_instruction cfg origin i p f n o' w s = Inr s1" and "settle_good R s"
    and "execute_scheduled_instruction cfg Root i w' s1 = Inr s2"
  shows "Agenda s1 = Agenda s \<and> InstructionStatuses s1 i = Success (block_number s) \<and>
    InstructionStatuses s2 i = InstructionStatus.Failed \<and> ledger_of s2 = ledger_of s1"
proof -
  obtain m m1 s0 where ex: "execute_instruction cfg i (m, s) = Inr (m1, s0)" and s1: "s1 = prune_instruction i True s0"
    by (rule manual_Inr [OF assms(1)])
  note e = execute_effect(1) [OF ex assms(2)]
  have "affirmations_ok s0 i" "block_number s0 = block_number s" "Agenda s0 = Agenda s"
    using e settle_goodD(4) [OF assms(2), of i] by (auto simp: settle_state_def instruction_ok_def affirmations_ok_def)
  note st = prune_sel [OF this(1), of True, folded s1] this
  have "execute_instruction cfg i (m', s1) = Inl (SettlementError InvalidInstructionStatusForExecution)" for m'
    by (simp add: execute_instruction_def ensure_non_expired_affirmations_def st)
  then have "s2 = put_status i InstructionStatus.Failed s1"
    using assms(3) by (auto simp: execute_scheduled_instruction_def attempt_Inr_iff base_execute_scheduled_instruction_def
        execute_instruction_retryable_def)
  then show ?thesis by (simp add: st put_status_def ledger_of_def)
qed

section \<open>Affirming for immediate execution\<close>

lemma affirm_with_receipts_owner:
  fixes s s1 :: "'a settlement_store_scheme"
  assumes "base_affirm_with_receipts cfg origin i rs ps c s = Inr (f, s1)" "portfolio_inv s"
  shows "NFTOwner s1 = NFTOwner s"
proof -
  obtain t where lock: "fold_res (lock_leg i) (filter (sender_in (btree ps)) (InstructionLegs s i)) s = Inr t"
    and s1: "s1 = with_affirmations i (btree ps) AffirmationStatus.Affirmed AffirmationStatus.Affirmed
      (fold (claim_receipt i) rs (put_pending i (InstructionAffirmsPending t i - length (btree ps) - length rs) t))"
    using assms(1)
    by (auto simp: base_affirm_with_receipts_def attempt_Inr_iff ensure_Inr_iff Let_def filtered_legs_def fold_mark)
  have "NFTOwner t = NFTOwner s"
    using arg_cong [OF conjunct1 [OF fold_lock_leg [OF lock assms(2)]], of NFTOwner] by (simp add: forget_locks_def)
  moreover have "NFTOwner (fold (claim_receipt i) rs u) = NFTOwner u" for u :: "'a settlement_store_scheme"
    by (rule fold_keep) (simp add: claim_receipt_def settlement_put_defs Let_def)
  ultimately show ?thesis by (simp add: s1 with_defs)
qed

lemma affirmed_for_execution:
  fixes s s1 :: "'a settlement_store_scheme"
  assumes "(case r of Some r \<Rightarrow> base_affirm_with_receipts cfg origin i [r] ps None s
      | None \<Rightarrow> base_affirm_instruction origin i ps None s) = Inr (f, s1)" and good: "settle_good R s"
  shows "settle_good R s1" "InstructionMediatorsAffirmations s1 i = InstructionMediatorsAffirmations s i"
    "block_number s1 = block_number s" "ledger_of s1 = ledger_of s" "InstructionLegs s1 i = InstructionLegs s i"
    "locked s1 p k = locked s p k + demand_of s i (btree ps) p k"
proof -
  note inv = settle_goodD(1) [OF good]
  have "settle_good R s1 \<and> InstructionMediatorsAffirmations s1 i = InstructionMediatorsAffirmations s i \<and>
    block_number s1 = block_number s \<and> ledger_of s1 = ledger_of s \<and> InstructionLegs s1 i = InstructionLegs s i \<and>
    locked s1 p k = locked s p k + demand_of s i (btree ps) p k"
  proof (cases r)
    case None
    then obtain did sk where aff: "unsafe_affirm_instruction did i (btree ps) sk None s = Inr (f, s1)"
      using assms(1) by (auto simp: base_affirm_instruction_def attempt_Inr_iff)
    note e = unsafe_affirm_effect [OF aff inv]
    have "NFTOwner s1 = NFTOwner s" using arg_cong [OF e(5), of NFTOwner] by (simp add: forget_locks_def with_defs)
    then show ?thesis
      using e(4) [of p k] same_but_locks [OF e(5), simplified with_defs, simplified] unsafe_affirm_good [OF aff distinct_btree good]
      by (simp add: ledger_of_def)
  next
    case (Some r')
    then have aff: "base_affirm_with_receipts cfg origin i [r'] ps None s = Inr (f, s1)" using assms(1) by simp
    note e = base_affirm_with_receipts_effect [OF aff inv]
    have "NFTOwner s1 = NFTOwner s" by (rule affirm_with_receipts_owner [OF aff inv])
    then show ?thesis
      using e(4,5) base_affirm_with_receipts_good [OF aff good]
      by (simp add: ledger_of_def affirmed_with_receipts_def ledger_fields_def)
  qed
  then show "settle_good R s1" "InstructionMediatorsAffirmations s1 i = InstructionMediatorsAffirmations s i"
    "block_number s1 = block_number s" "ledger_of s1 = ledger_of s" "InstructionLegs s1 i = InstructionLegs s i"
    "locked s1 p k = locked s p k + demand_of s i (btree ps) p k" by blast+
qed

text \<open>
  (C38) Affirming and executing in one go, as a fundraiser does for an investment, records the instruction
  as a success even when it was not executed. If a mediator, such as one that the asset's issuer made
  mandatory, has still to affirm, no leg is settled, but the instruction is gone, and the tokens that its
  affirmations put under lock stay there.
\<close>

theorem unsettled_marked_success:
  fixes s s' :: "'a settlement_store_scheme"
  assumes "affirm_and_execute_instruction cfg origin i r ps (m, s) = Inr (m', s')" and good: "settle_good R s"
    and "mediator_status s i d = MediatorAffirmationStatus.Pending"
  shows "InstructionStatuses s' i = Success (block_number s) \<and> ledger_of s' = ledger_of s \<and> InstructionLegs s' i = [] \<and>
    locked s' p k = locked s p k + (if p \<in> set ps then legs_demand (InstructionLegs s i) p k else 0)"
proof -
  obtain f s1 s2 where aff: "(case r of Some r \<Rightarrow> base_affirm_with_receipts cfg origin i [r] ps None s
        | None \<Rightarrow> base_affirm_instruction origin i ps None s) = Inr (f, s1)"
    and ex: "execute_settle_on_affirmation_instruction cfg i (InstructionAffirmsPending s1 i)
      (settlement_type (InstructionDetails s1 i)) (m, s1) = Inr (m', s2)" and s': "s' = prune_instruction i True s2"
    using assms(1) by (auto simp: affirm_and_execute_instruction_def attempt_Inr_iff)
  have good1: "settle_good R s1" by (rule affirmed_for_execution(1) [OF aff good])
  note a = affirmed_for_execution [OF aff good]
  have "{d. mediator_status s1 i d = MediatorAffirmationStatus.Pending} \<noteq> {}"
    using assms(3) a(2) by (auto simp: mediator_status_def)
  moreover have "count_ok s1 i" "affirmations_ok s1 i" using settle_goodD(4) [OF good1, of i] by (auto simp: instruction_ok_def)
  ultimately have "InstructionAffirmsPending s1 i \<noteq> 0"
    using finite_mediators(1) [of s1 i] by (simp add: count_ok_def pending_parties_def)
  then have "s2 = s1" using ex by (simp add: execute_settle_on_affirmation_instruction_def)
  then show ?thesis
    using a(3-6) by (simp add: s' prune_sel [OF \<open>affirmations_ok s1 i\<close>] demand_of_def)
qed

section \<open>The legs of instructions\<close>

definition leg_wf :: "'c nft_config_scheme \<Rightarrow> Leg \<Rightarrow> bool" where
  "leg_wf cfg leg =
     (case leg of
        FungibleLeg from to _ amount \<Rightarrow> pid_did from \<noteq> pid_did to \<and> 0 < amount
      | NonFungibleLeg from to nfts \<Rightarrow> pid_did from \<noteq> pid_did to \<and> distinct (nfts_ids nfts) \<and>
          0 < length (nfts_ids nfts) \<and> length (nfts_ids nfts) \<le> MaxNumberOfNFTsCount cfg
      | OffChainLeg from_id to_id _ amount \<Rightarrow> from_id \<noteq> to_id \<and> 0 < amount)"

lemma ensure_valid_leg_wf: "ensure_valid_leg cfg s leg v tickers c = Inr r \<Longrightarrow> leg_wf cfg leg"
  by (cases leg)
    (auto simp: ensure_valid_leg_def leg_wf_def ensure_valid_fungible_leg_def ensure_valid_nft_leg_def
      ensure_valid_off_chain_leg_def ensure_within_nfts_transfer_limits_def ensure_no_duplicate_nfts_def nfts_len_def
      length_btree attempt_Inr_iff ensure_Inr_iff card_distinct)

lemma validate_legs_wf:
  assumes "fold_res (validate_leg cfg s v) legs acc = Inr acc'"
  shows "\<forall>leg \<in> set legs. leg_wf cfg leg"
  using assms
  by (induction legs arbitrary: acc) (auto simp: validate_leg_def attempt_Inr_iff dest!: ensure_valid_leg_wf split: prod.splits)

lemma base_add_legs:
  fixes s s' :: "'a settlement_store_scheme"
  assumes "base_add_instruction cfg did v ty trade valu legs memo meds s = Inr (i, s')" and good: "settle_good R s"
  shows "mset (InstructionLegs s' i) = mset (enumerate 0 legs)" "\<forall>leg \<in> set legs. leg_wf cfg leg"
    "j \<noteq> i \<Longrightarrow> InstructionLegs s' j = InstructionLegs s j"
proof -
  obtain info details s1 where i: "i = InstructionCounter s" and info: "info_ok legs info"
    and s1: "s1 = commit_instruction cfg i details legs memo info (s\<lparr>InstructionCounter := i + 1\<rparr>)"
    and s': "s' = (case ty of SettleOnBlock b \<Rightarrow>
        schedule_instruction cfg i b (scheduled_weight cfg (instruction_asset_count info)) s1 | _ \<Rightarrow> s1)"
    by (rule base_add_effect [OF assms(1)])
  let ?s = "s\<lparr>InstructionCounter := i + 1\<rparr>"
  have fresh: "InstructionLegs ?s i = []" "InstructionMediatorsAffirmations ?s i = []"
    using settle_goodD(4) [OF good, of i] by (simp_all add: instruction_ok_def fresh_ok_def i)
  have "distinct (mediators info)" using info by (simp add: info_ok_def)
  from commit_effect [OF fresh this] obtain ls ms where ls: "mset ls = mset (enumerate 0 legs)"
    "s1 = committed i details legs memo info ls ms ?s" unfolding s1 by metis
  have "InstructionLegs s' = InstructionLegs s1"
    by (simp add: s' schedule_instruction_def split: SettlementType.split option.split)
  then have "InstructionLegs s' = (InstructionLegs s)(i := ls)" by (simp add: ls(2) committed_def)
  then show "mset (InstructionLegs s' i) = mset (enumerate 0 legs)" "j \<noteq> i \<Longrightarrow> InstructionLegs s' j = InstructionLegs s j"
    using ls(1) by simp_all
  show "\<forall>leg \<in> set legs. leg_wf cfg leg"
    using assms(1) by (auto simp: base_add_instruction_def ensure_valid_legs_def attempt_Inr_iff dest: validate_legs_wf)
qed

lemma legs_keep:
  fixes s s' :: "'a settlement_store_scheme"
  shows "unsafe_affirm_instruction did i ps sk c s = Inr (f, s') \<Longrightarrow> portfolio_inv s \<Longrightarrow> InstructionLegs s' = InstructionLegs s"
    and "unsafe_withdraw_instruction_affirmation did i ps sk c s = Inr (f, s') \<Longrightarrow> portfolio_inv s \<Longrightarrow>
      InstructionLegs s' = InstructionLegs s"
    and "execute_instruction cfg i (m, s) = Inr (m', s') \<Longrightarrow> settle_good R s \<Longrightarrow> InstructionLegs s' = InstructionLegs s"
    and "base_affirm_with_receipts cfg origin i rs ps c s = Inr (f, s') \<Longrightarrow> portfolio_inv s \<Longrightarrow> InstructionLegs s' = InstructionLegs s"
    and "InstructionLegs (schedule_instruction cfg i b w s) = InstructionLegs s"
    "InstructionLegs (cancel_instruction cfg i s) = InstructionLegs s"
    "InstructionLegs (maybe_schedule_instruction cfg n i w s) = InstructionLegs s"
    "InstructionLegs (prune_instruction i e s) = (InstructionLegs s)(i := [])"
    "settle_good R s \<Longrightarrow> InstructionLegs (unchecked_release_locks i (InstructionLegs s i) s) = InstructionLegs s"
proof -
  show "InstructionLegs s' = InstructionLegs s" if "unsafe_affirm_instruction did i ps sk c s = Inr (f, s')" "portfolio_inv s"
    using same_but_locks(1) [OF unsafe_affirm_effect(5) [OF that]] by (simp add: with_defs)
  show "InstructionLegs s' = InstructionLegs s"
    if "unsafe_withdraw_instruction_affirmation did i ps sk c s = Inr (f, s')" "portfolio_inv s"
    using same_but_locks(1) [OF unsafe_withdraw_effect(4) [OF that]] by (simp add: with_defs)
  show "InstructionLegs s' = InstructionLegs s" if "execute_instruction cfg i (m, s) = Inr (m', s')" "settle_good R s"
    using execute_effect(1) [OF that] by (simp add: settle_state_def)
  show "InstructionLegs s' = InstructionLegs s"
    if "base_affirm_with_receipts cfg origin i rs ps c s = Inr (f, s')" "portfolio_inv s"
    using base_affirm_with_receipts_effect(5) [OF that] by (simp add: affirmed_with_receipts_def fun_eq_iff)
  show "InstructionLegs (schedule_instruction cfg i b w s) = InstructionLegs s"
    "InstructionLegs (cancel_instruction cfg i s) = InstructionLegs s"
    "InstructionLegs (maybe_schedule_instruction cfg n i w s) = InstructionLegs s"
    by (simp_all add: maybe_schedule_instruction_def schedule_instruction_def cancel_instruction_def split: option.splits)
  show "InstructionLegs (prune_instruction i e s) = (InstructionLegs s)(i := [])"
    by (simp add: prune_instruction_def fold_forget_affirmations put_status_def Let_def)
  show "InstructionLegs (unchecked_release_locks i (InstructionLegs s i) s) = InstructionLegs s" if "settle_good R s"
    by (rule same_but_locks(1) [OF release_escrow(1) [OF that refl]])
qed

lemma step_legs:
  fixes s s' :: "'a settlement_store_scheme"
  assumes "settle_step cfg s s'" and good: "settle_good R s"
  shows "InstructionLegs s' j \<in> {InstructionLegs s j, []} \<or>
    (\<exists>legs. mset (InstructionLegs s' j) = mset (enumerate 0 legs) \<and> (\<forall>leg \<in> set legs. leg_wf cfg leg))"
  using assms(1)
proof cases
  case (add did v ty trade valu legs memo meds i)
  then show ?thesis using base_add_legs [OF add(1) good] by (cases "j = i") auto
next
  case (affirm origin i ps c)
  then show ?thesis
    using legs_keep(1) [OF _ settle_goodD(1) [OF good]]
    by (auto simp: affirm_and_maybe_schedule_instruction_def base_affirm_instruction_def attempt_Inr_iff legs_keep(7))
next
  case (affirm_with_receipts origin i rs ps c)
  then show ?thesis
    by (auto simp: affirm_with_receipts_and_maybe_schedule_instruction_def attempt_Inr_iff legs_keep(7)
        dest!: legs_keep(4) [OF _ settle_goodD(1) [OF good]])
next
  case (withdraw origin i ps c)
  then have "InstructionLegs s' = InstructionLegs s"
    by (auto simp: base_withdraw_affirmation_def attempt_Inr_iff legs_keep(6)
        dest!: legs_keep(2) [OF _ settle_goodD(1) [OF good]])
  then show ?thesis by simp
next
  case (mediator_affirm origin i expiry)
  then have "InstructionLegs s' = InstructionLegs s"
    by (auto simp: base_affirm_instruction_as_mediator_def attempt_Inr_iff ensure_Inr_iff Let_def legs_keep(7)
        put_mediator_def put_pending_def)
  then show ?thesis by simp
next
  case (mediator_withdraw origin i)
  then have "InstructionLegs s' = InstructionLegs s"
    by (rule withdraw_as_mediator_Inr) (auto simp: legs_keep(6) put_mediator_def put_pending_def)
  then show ?thesis by simp
next
  case (reject origin i p c)
  then have "InstructionLegs s' = (InstructionLegs s)(i := [])"
    using good by (auto simp: base_reject_instruction_def attempt_Inr_iff ensure_Inr_iff Let_def legs_keep(6,8,9))
  then show ?thesis by simp
next
  case (scheduled origin i w)
  then have "InstructionLegs s' \<in> {InstructionLegs s, (InstructionLegs s)(i := [])}"
    by (rule scheduled_Inr) (auto simp: legs_keep(8) put_status_def dest!: legs_keep(3) [OF _ good])
  then show ?thesis by auto
next
  case (manual origin i p f n o' w)
  then have "InstructionLegs s' = (InstructionLegs s)(i := [])"
    by (rule manual_Inr) (auto simp: legs_keep(8) dest!: legs_keep(3) [OF _ good])
  then show ?thesis by simp
next
  case (affirm_and_execute origin i r ps m m')
  then obtain f s1 s2 where aff: "(case r of Some r \<Rightarrow> base_affirm_with_receipts cfg origin i [r] ps None s
        | None \<Rightarrow> base_affirm_instruction origin i ps None s) = Inr (f, s1)"
    and ex: "execute_settle_on_affirmation_instruction cfg i (InstructionAffirmsPending s1 i)
      (settlement_type (InstructionDetails s1 i)) (m, s1) = Inr (m', s2)" and s': "s' = prune_instruction i True s2"
    by (auto simp: affirm_and_execute_instruction_def attempt_Inr_iff)
  have "InstructionLegs s1 = InstructionLegs s"
    using aff legs_keep(1,4) [OF _ settle_goodD(1) [OF good]]
    by (auto simp: base_affirm_instruction_def attempt_Inr_iff split: option.splits)
  moreover have "InstructionLegs s2 = InstructionLegs s1"
    using ex legs_keep(3) affirmed_for_execution(1) [OF aff good]
    by (auto simp: execute_settle_on_affirmation_instruction_def split: if_split_asm)
  ultimately show ?thesis by (simp add: s' legs_keep(8))
next
  case elsewhere
  then have "instruction_view s' j = instruction_view s j" by (simp add: settle_view_def fun_eq_iff)
  then show ?thesis by (simp add: instruction_view_def)
qed (auto dest!: venue_frames simp: settle_view_def venue_frame_def instruction_view_def fun_eq_iff)

definition legs_wf :: "'c nft_config_scheme \<Rightarrow> (LegId \<times> Leg) list \<Rightarrow> bool" where
  "legs_wf cfg legs \<longleftrightarrow> sort_key fst legs = enumerate 0 (map snd (sort_key fst legs)) \<and> list_all (leg_wf cfg) (map snd legs)"

lemma enumerate_wf:
  assumes "mset ls = mset (enumerate 0 legs)" "\<forall>leg \<in> set legs. leg_wf cfg leg"
  shows "legs_wf cfg ls"
proof -
  note e = enumerate_legs [OF assms(1)]
  have "sort_key fst ls = enumerate 0 legs"
    by (rule sort_key_inj_key_eq [OF assms(1)]) (use e(2) in \<open>simp_all add: distinct_map\<close>)
  then show ?thesis using assms(2) e(5) by (auto simp: legs_wf_def list_all_iff)
qed

text \<open>
  (C10) The legs of every instruction are well formed at all times: numbered without gaps from zero,
  between two different identities, of a positive amount or of distinct non-fungible tokens that are not
  too many for one leg.
\<close>

theorem legs_reachable_wf:
  fixes s s' :: "'a settlement_store_scheme"
  assumes "(settle_step cfg)\<^sup>*\<^sup>* s s'" "settle_good R s" and "\<And>j. legs_wf cfg (InstructionLegs s j)"
  shows "legs_wf cfg (InstructionLegs s' i)"
proof -
  have "settle_good R s' \<and> (\<forall>j. legs_wf cfg (InstructionLegs s' j))" using assms(1)
  proof (induction rule: rtranclp_induct)
    case (step t u)
    moreover have "legs_wf cfg (InstructionLegs u j)" for j
      using step_legs [OF step(2), where j = j and R = R] step(3) enumerate_wf by (auto simp: legs_wf_def [of _ "[]"])
    ultimately show ?case using settle_step_good by blast
  qed (use assms in auto)
  then show ?thesis by blast
qed

end
