(* ===== verification/Settlement_Examples.thy ===== *)
theory Settlement_Examples
  imports Settlement_Properties
begin

text \<open>
  Concrete instructions on which the theorems about the settlement pallet are applied. Identity 1 delivers
  20 of its 50 units of ticker 7 to identity 2 in one leg, which identity 2 has affirmed already; or
  identity 1 owes identity 2 an amount outside the chain, for which account 5 signs a receipt.
\<close>

section \<open>Instructions of one leg\<close>

definition ex_market :: assets_store where
  "ex_market = ex_assets\<lparr>AssetCompliances := (\<lambda>_. \<lparr>paused = True, requirements = []\<rparr>), ActiveAssetStats := (\<lambda>_. []),
     AssetTransferCompliances := (\<lambda>_. \<lparr>tc_paused = True, tc_requirements = []\<rparr>)\<rparr>"

definition ex_deal ::
  "Leg \<Rightarrow> LegStatus \<Rightarrow> AffirmationStatus \<Rightarrow> AffirmationStatus \<Rightarrow> AffirmationStatus
    \<Rightarrow> (IdentityId \<times> MediatorAffirmationStatus) list \<Rightarrow> nat \<Rightarrow> Balance \<Rightarrow> settlement_store" where
  "ex_deal leg st a1 a2 off meds n amount = (assets_store.extend ex_market (settlement_store.fields
     [1 \<mapsto> \<lparr>creator = 1, venue_type = Exchange\<rparr>] (\<lambda>_. '''') (\<lambda>v i. v = 1 \<and> i = 1) (\<lambda>v k. v = 1 \<and> k = 5)
     (\<lambda>d v. d = 1 \<and> v = 1)
     ((\<lambda>_. default_instruction)(1 := default_instruction\<lparr>instruction_id := 1, venue_id := 1\<rparr>))
     ((\<lambda>_ _. PendingTokenLock)(1 := (\<lambda>_. PendingTokenLock)(0 := st))) ((\<lambda>_. 0)(1 := n))
     (\<lambda>i p. if i = 1 \<and> p = default_portfolio 1 \<and> a1 = AffirmationStatus.Affirmed \<or>
       i = 1 \<and> p = default_portfolio 2 \<and> a2 = AffirmationStatus.Affirmed
       then AffirmationStatus.Affirmed else AffirmationStatus.Unknown)
     (\<lambda>p i. if i = 1 \<and> p = default_portfolio 1 then a1 else if i = 1 \<and> p = default_portfolio 2 then a2
       else AffirmationStatus.Unknown)
     (\<lambda>_ _. False) (\<lambda>_. False) (\<lambda>_ _. False) 2 2 (\<lambda>_. None) ((\<lambda>_. InstructionStatus.Unknown)(1 := InstructionStatus.Pending))
     ((\<lambda>_. [])(1 := [(0, leg)])) ((\<lambda>_ _. AffirmationStatus.Unknown)(1 := (\<lambda>_. AffirmationStatus.Unknown)(0 := off)))
     ((\<lambda>_. 0)(1 := 1)) ((\<lambda>_. [])(1 := meds)) []))
     \<lparr>PortfolioLockedAssets := (\<lambda>_ _. 0)(default_portfolio 1 := (\<lambda>_. 0)(7 := amount))\<rparr>"

definition ex_leg :: Leg where
  "ex_leg = FungibleLeg (default_portfolio 1) (default_portfolio 2) 7 20000000"

definition ex_pending :: "(IdentityId \<times> MediatorAffirmationStatus) list \<Rightarrow> settlement_store" where
  "ex_pending meds = ex_deal ex_leg PendingTokenLock AffirmationStatus.Pending AffirmationStatus.Affirmed
     AffirmationStatus.Unknown meds (1 + length meds) 0"

definition ex_affirmed :: settlement_store where
  "ex_affirmed = ex_deal ex_leg ExecutionPending AffirmationStatus.Affirmed AffirmationStatus.Affirmed
     AffirmationStatus.Unknown [] 0 20000000"

definition ex_off_chain :: settlement_store where
  "ex_off_chain = ex_deal (OffChainLeg 1 2 8 100) PendingTokenLock AffirmationStatus.Unknown AffirmationStatus.Unknown
     AffirmationStatus.Pending [] 1 0"

definition ex_receipt :: ReceiptDetails where
  "ex_receipt = \<lparr>uid = 3, details_instruction = 1, leg_id = 0, signer = 5, signature = 0, receipt_metadata = None\<rparr>"

text \<open>
  The scheduler appends a task to its agenda unless a task of that name is on it, and cancelling takes the
  task of an instruction off it.
\<close>

definition ex_settlement_config :: settlement_config where
  "ex_settlement_config = nft_config.extend ex_nft_config (settlement_config.fields 10 10 10 10 id (\<lambda>_ _ _. True)
     (\<lambda>i b w a. if i \<in> fst ` set a then None else Some (a @ [(i, b, w)])) (\<lambda>i a. Some (filter (\<lambda>x. fst x \<noteq> i) a))
     (\<lambda>_ _ _. Weight 100 0) (\<lambda>_ _ _. Weight 100 0) (\<lambda>_ _ _. Weight 10 0))"

lemmas ex_deal_defs = ex_deal_def ex_market_def assets_store.defs settlement_store.defs

lemma ex_deal_sel [simp]:
  "InstructionLegs (ex_deal leg st a1 a2 off meds n l) = (\<lambda>_. [])(1 := [(0, leg)])"
  "InstructionLegStatus (ex_deal leg st a1 a2 off meds n l) = (\<lambda>_ _. PendingTokenLock)(1 := (\<lambda>_. PendingTokenLock)(0 := st))"
  "InstructionAffirmsPending (ex_deal leg st a1 a2 off meds n l) = (\<lambda>_. 0)(1 := n)"
  "AffirmsReceived (ex_deal leg st a1 a2 off meds n l) = (\<lambda>i p. if i = 1 \<and> p = default_portfolio 1 \<and> a1 = AffirmationStatus.Affirmed \<or>
       i = 1 \<and> p = default_portfolio 2 \<and> a2 = AffirmationStatus.Affirmed
       then AffirmationStatus.Affirmed else AffirmationStatus.Unknown)"
  "UserAffirmations (ex_deal leg st a1 a2 off meds n l) = (\<lambda>p i. if i = 1 \<and> p = default_portfolio 1 then a1
       else if i = 1 \<and> p = default_portfolio 2 then a2 else AffirmationStatus.Unknown)"
  "OffChainAffirmations (ex_deal leg st a1 a2 off meds n l) =
     (\<lambda>_ _. AffirmationStatus.Unknown)(1 := (\<lambda>_. AffirmationStatus.Unknown)(0 := off))"
  "InstructionMediatorsAffirmations (ex_deal leg st a1 a2 off meds n l) = (\<lambda>_. [])(1 := meds)"
  "InstructionCounter (ex_deal leg st a1 a2 off meds n l) = 2"
  "InstructionStatuses (ex_deal leg st a1 a2 off meds n l) = (\<lambda>_. InstructionStatus.Unknown)(1 := InstructionStatus.Pending)"
  "InstructionDetails (ex_deal leg st a1 a2 off meds n l) = (\<lambda>_. default_instruction)(1 := default_instruction\<lparr>instruction_id := 1, venue_id := 1\<rparr>)"
  "VenueInfo (ex_deal leg st a1 a2 off meds n l) = [1 \<mapsto> \<lparr>creator = 1, venue_type = Exchange\<rparr>]"
  "VenueSigners (ex_deal leg st a1 a2 off meds n l) v k \<longleftrightarrow> v = 1 \<and> k = 5"
  "VenueFiltering (ex_deal leg st a1 a2 off meds n l) t = False" "ReceiptsUsed (ex_deal leg st a1 a2 off meds n l) k u = False"
  "Agenda (ex_deal leg st a1 a2 off meds n l) = []" "timestamp (ex_deal leg st a1 a2 off meds n l) = 100"
  "block_number (ex_deal leg st a1 a2 off meds n l) = block_number ex_assets"
  "PortfolioLockedAssets (ex_deal leg st a1 a2 off meds n l) = (\<lambda>_ _. 0)(default_portfolio 1 := (\<lambda>_. 0)(7 := l))"
  "PortfolioLockedNFT (ex_deal leg st a1 a2 off meds n l) = PortfolioLockedNFT ex_assets"
  "PortfolioAssetBalances (ex_deal leg st a1 a2 off meds n l) = PortfolioAssetBalances ex_assets"
  "BalanceOf (ex_deal leg st a1 a2 off meds n l) = BalanceOf ex_assets"
  "Tokens (ex_deal leg st a1 a2 off meds n l) = Tokens ex_assets"
  "PortfolioCustodian (ex_deal leg st a1 a2 off meds n l) = PortfolioCustodian ex_assets"
  "ensure_origin_call_permissions (ex_deal leg st a1 a2 off meds n l) (Signed 1) =
     Inr \<lparr>sender = 1, primary_did = 1, secondary_key = None\<rparr>"
  by (simp_all add: ex_deal_defs ensure_origin_call_permissions_def ensure_signed_def ensure_call_permissions_def
      check_account_call_permissions_def ex_assets_defs)

lemma ex_settlement_config_sel [simp]:
  "MaxNumberOfOffChainAssets ex_settlement_config = 10" "verify_receipt ex_settlement_config x r k"
  "schedule_named ex_settlement_config i b w a = (if i \<in> fst ` set a then None else Some (a @ [(i, b, w)]))"
  "execute_scheduled_weight ex_settlement_config f n o' = Weight 100 0"
  "execute_manual_weight ex_settlement_config f n o' = Weight 100 0"
  "execute_paused_weight ex_settlement_config f n o' = Weight 10 0"
  by (simp_all add: ex_settlement_config_def nft_config.defs settlement_config.defs)

lemma ex_deal_ledger:
  assumes "l \<le> 50000000"
  shows "ledger_inv (ex_deal leg st a1 a2 off meds n l)" (is "ledger_inv ?s")
proof -
  have inv: "ledger_inv ex_assets" using ex_assets_inv by (simp add: asset_inv_def)
  have v: "name_view ?s = name_view ex_assets" "nft_view ?s = nft_view ex_assets"
    "PortfolioAssetCount ?s = PortfolioAssetCount ex_assets"
    by (simp_all add: view_defs ex_deal_defs)
  have "portfolio_inv ex_assets" using inv by (simp add: ledger_inv_def)
  then have "balance_inv ?s" "name_inv ?s" "nft_inv ?s"
    using v assms name_inv_cong [OF v(1)] nft_inv_cong [OF v(2)]
    by (auto simp: portfolio_inv_parts balance_inv_def locked_within_balance_def asset_count_exact_def balances_bounded_def
        tickers_bounded_def portfolio_total_def circulating_def)
  then have "portfolio_inv ?s" by (simp add: portfolio_inv_parts)
  then show ?thesis by (rule ledger_inv_locks [OF inv]) simp_all
qed

lemma ex_deal_good:
  assumes "instruction_ok (ex_deal leg st a1 a2 off meds n l) 1" (is "instruction_ok ?s 1")
    and "\<And>p k. escrow_of (ex_deal leg st a1 a2 off meds n l) 1 p k \<le> locked (ex_deal leg st a1 a2 off meds n l) p k"
    and "l \<le> 50000000"
  shows "settle_good (\<lambda>_ _. 0) (ex_deal leg st a1 a2 off meds n l)"
proof -
  have "instruction_ok ?s i" for i
    using assms(1) by (cases "i = 1")
      (auto simp: instruction_ok_defs pending_parties_def all_parties_def parties_def mediator_status_def)
  moreover have "escrow ?s p k = escrow_of ?s 1 p k" for p k
    by (simp add: escrow_def escrow_of_def numeral_2_eq_2)
  ultimately show ?thesis using assms(2) ex_deal_ledger [OF assms(3)] by (simp add: settle_good_def settle_inv_def)
qed

lemma ex_portfolios [simp]: "default_portfolio d = default_portfolio e \<longleftrightarrow> d = e"
  by (simp add: default_portfolio_def)

lemma ex_deal_pending:
  "pending_parties (ex_deal leg st a1 a2 off [] n l) 1 =
     (if a1 = AffirmationStatus.Pending then 1 else 0) + (if a2 = AffirmationStatus.Pending then 1 else 0) +
     (if off = AffirmationStatus.Pending then 1 else 0)"
  "pending_parties (ex_deal leg st a1 a2 off [(d, MediatorAffirmationStatus.Pending)] n l) 1 =
     (if a1 = AffirmationStatus.Pending then 1 else 0) + (if a2 = AffirmationStatus.Pending then 1 else 0) +
     (if off = AffirmationStatus.Pending then 1 else 0) + 1"
proof -
  let ?s = "\<lambda>meds. ex_deal leg st a1 a2 off meds n l"
  have "{p. UserAffirmations (?s meds) p 1 = AffirmationStatus.Pending} =
      (if a1 = AffirmationStatus.Pending then {default_portfolio 1} else {}) \<union>
      (if a2 = AffirmationStatus.Pending then {default_portfolio 2} else {})"
    "{k. OffChainAffirmations (?s meds) 1 k = AffirmationStatus.Pending} =
      (if off = AffirmationStatus.Pending then {0} else {})" for meds by auto
  moreover have "{e. mediator_status (?s []) 1 e = MediatorAffirmationStatus.Pending} = {}"
    "{e. mediator_status (?s [(d, MediatorAffirmationStatus.Pending)]) 1 e = MediatorAffirmationStatus.Pending} = {d}"
    by (auto simp: mediator_status_def)
  ultimately show "pending_parties (?s []) 1 =
     (if a1 = AffirmationStatus.Pending then 1 else 0) + (if a2 = AffirmationStatus.Pending then 1 else 0) +
     (if off = AffirmationStatus.Pending then 1 else 0)"
    "pending_parties (?s [(d, MediatorAffirmationStatus.Pending)]) 1 =
     (if a1 = AffirmationStatus.Pending then 1 else 0) + (if a2 = AffirmationStatus.Pending then 1 else 0) +
     (if off = AffirmationStatus.Pending then 1 else 0) + 1"
    unfolding pending_parties_def by (simp_all only:) simp_all
qed

lemmas ex_deal_ok = instruction_ok_defs ex_deal_pending [unfolded One_nat_def] all_parties_def parties_def
  escrow_of_def ex_leg_def leg_ok_def leg_parties_def lock_status_def is_off_chain_def legs_demand_def demand_def locked_def
  u64_max_def

lemma ex_pending_good: "settle_good (\<lambda>_ _. 0) (ex_pending [])" "settle_good (\<lambda>_ _. 0) (ex_pending [(d, MediatorAffirmationStatus.Pending)])"
  unfolding ex_pending_def by (rule ex_deal_good; auto simp: ex_deal_ok split: lock_key.splits)+

lemma ex_affirmed_good: "settle_good (\<lambda>_ _. 0) ex_affirmed"
  unfolding ex_affirmed_def by (rule ex_deal_good; auto simp: ex_deal_ok split: lock_key.splits)

lemma ex_off_chain_good: "settle_good (\<lambda>_ _. 0) ex_off_chain"
  unfolding ex_off_chain_def by (rule ex_deal_good; auto simp: ex_deal_ok split: lock_key.splits)

section \<open>Runs\<close>

lemma ex_deal_permissions:
  "ensure_portfolio_custody_and_permission (ex_deal leg st a1 a2 off meds n l) (default_portfolio 1) 1 None = Inr ()"
  by (simp add: ensure_portfolio_custody_and_permission_def ensure_portfolio_custody_def ensure_user_portfolio_permission_def
      custodian_def default_portfolio_def)

lemma ex_deal_validity:
  "ensure_origin_perm_and_instruction_validity (ex_deal leg st a1 a2 off meds n l) (Signed 1) 1 b =
     Inr (1, None, default_instruction\<lparr>instruction_id := 1, venue_id := 1\<rparr>)"
  by (simp add: ensure_origin_perm_and_instruction_validity_def ensure_instruction_validity_def default_instruction_def Let_def
      ex_deal_sel(24) [unfolded One_nat_def])

lemma ex_deal_balance:
  "ensure_sufficient_balance (ex_deal leg st a1 a2 off meds n 0) (default_portfolio 1) 7 20000000 = Inr ()"
  by (simp add: ensure_sufficient_balance_def ensure_granular_def check_granularity_def is_unit_multiple_def ONE_UNIT_def
      token_details_def checked_sub_def)

lemma btree_simps: "btree [] = []" "btree [x] = [x]"
  by (simp_all add: btree_def)

lemma ex_settlement_accrue: "accrue ex_settlement_config limit used w = accrue ex_assets_config limit used w"
  "w_active_asset_statistics_load ex_settlement_config n = w_active_asset_statistics_load ex_assets_config n"
  by (simp_all add: ex_settlement_config_def nft_config.defs settlement_config.defs ex_nft_config_def assets_config.defs)

lemma ex_deal_transfer_sel:
  "Frozen (ex_deal leg st a1 a2 off meds n l) t = False"
  "AssetCompliances (ex_deal leg st a1 a2 off meds n l) t = \<lparr>paused = True, requirements = []\<rparr>"
  "ActiveAssetStats (ex_deal leg st a1 a2 off meds n l) a = []"
  "AssetTransferCompliances (ex_deal leg st a1 a2 off meds n l) a = \<lparr>tc_paused = True, tc_requirements = []\<rparr>"
  "CachedNextCheckpoints (ex_deal leg st a1 a2 off meds n l) = (\<lambda>_. None)"
  "CheckpointIdSequence (ex_deal leg st a1 a2 off meds n l) t = 0"
  by (simp_all add: ex_deal_defs)

lemma ex_deal_transfer: "is_ok (base_transfer ex_settlement_config (default_portfolio 1) (default_portfolio 2) 7 20000000
    (ex_meter\<lparr>minimum_charge := c, meter_consumed := Weight 10 0\<rparr>, ex_deal leg st a1 a2 off meds n 0))"
  by (simp add: base_transfer_def is_valid_transfer_def ex_deal_transfer_sel portfolio_failure_def
      ensure_portfolio_transfer_validity_def statistics_check_def
      ex_deal_balance [unfolded One_nat_def default_portfolio_def] is_compliant_def
      verify_transfer_restrictions_def unsafe_transfer_def ex_assets_run ex_settlement_accrue
      unchecked_transfer_portfolio_balance_def transition_asset_count_eq ex_meter_def status_codes)

lemma ex_release: "release_lock 1 (0, ex_leg) (ex_deal ex_leg ExecutionPending a1 a2 off meds n 20000000) =
    ex_deal ex_leg ExecutionPending a1 a2 off meds n 0"
  by (simp add: release_lock_def ex_leg_def unlock_via_leg_def unlock_tokens_def put_locked_def) (simp add: ex_deal_defs)

lemmas ex_deal_run = ex_deal_balance [unfolded One_nat_def] ex_deal_permissions [unfolded One_nat_def] ex_deal_validity [unfolded One_nat_def]

lemma ex_affirm: "is_ok (base_affirm_instruction (Signed 1) 1 [default_portfolio 1] None (ex_pending meds))"
  by (simp add: ex_pending_def base_affirm_instruction_def unsafe_affirm_instruction_def ex_deal_run Let_def
      ensure_portfolios_and_affirmation_status_def ensure_affirmation_estimate_def filtered_legs_def lock_leg_def lock_via_leg_def
      ex_leg_def sender_subset_filter sender_in_def btree_simps lock_tokens_def)

lemma ex_execute: "is_ok (execute_instruction ex_settlement_config 1 (ex_meter\<lparr>minimum_charge := c\<rparr>, ex_affirmed))"
proof -
  have "check_accrue ex_settlement_config (Weight 10 0) (ex_meter\<lparr>minimum_charge := c\<rparr>) =
      Some (ex_meter\<lparr>minimum_charge := c, meter_consumed := Weight 10 0\<rparr>)"
    by (simp add: check_accrue_def ex_settlement_accrue ex_assets_accrue ex_meter_def)
  then show ?thesis
    using ex_deal_transfer [of c ex_leg ExecutionPending AffirmationStatus.Affirmed AffirmationStatus.Affirmed AffirmationStatus.Unknown
        "[]" 0]
    by (auto simp: ex_affirmed_def execute_instruction_def ensure_non_expired_affirmations_def Let_def
        ensure_allowed_venue_def ensure_venue_filtering_def release_asset_locks_and_transfer_pending_legs_def
        unchecked_release_locks_def ex_release [unfolded One_nat_def ex_leg_def] transfer_leg_def ex_leg_def is_ok_iff map_err_def)
qed

lemma ex_reject: "is_ok (base_reject_instruction ex_settlement_config (Signed 1) 1 (Some (default_portfolio 1)) None ex_affirmed)"
  by (simp add: ex_affirmed_def base_reject_instruction_def Let_def ex_deal_run is_portfolio_present_def ex_leg_def
      ex_deal_sel(24) [unfolded One_nat_def])

lemma ex_claim: "is_ok (base_affirm_with_receipts ex_settlement_config (Signed 1) 1 [ex_receipt] [] None ex_off_chain)"
  by (simp add: ex_off_chain_def base_affirm_with_receipts_def ex_receipt_def ex_deal_run Let_def
      ensure_portfolios_and_affirmation_status_def ensure_valid_receipts_details_def ensure_affirmation_estimate_def
      filtered_legs_def sender_subset_filter sender_in_def btree_simps)

lemma ex_mediator: "is_ok (base_affirm_instruction_as_mediator ex_settlement_config (Signed 1) 1 (Some 150)
    (ex_pending [(1, MediatorAffirmationStatus.Pending)]))"
  by (simp add: ex_pending_def base_affirm_instruction_as_mediator_def ex_deal_run Let_def mediator_status_def)

lemma ex_manual:
  "is_ok (execute_manual_instruction ex_settlement_config (Signed 1) 1 None 1 0 0 (Some (Weight 1000 1000)) ex_affirmed)"
proof -
  have m: "from_limit (Weight 100 0) (Weight 1000 1000) = Some (ex_meter\<lparr>minimum_charge := Weight 100 0\<rparr>)"
    by (simp add: from_limit_def ex_meter_def)
  obtain m' s' where ex: "execute_instruction ex_settlement_config (Suc 0) (ex_meter\<lparr>minimum_charge := Weight 100 0\<rparr>, ex_affirmed) =
      Inr (m', s')" using ex_execute [of "Weight 100 0"] by (auto simp: is_ok_iff)
  have v: "ensure_origin_perm_and_instruction_validity ex_affirmed (Signed (Suc 0)) (Suc 0) True =
      Inr (1, None, default_instruction\<lparr>instruction_id := 1, venue_id := 1\<rparr>)"
    "is_ok (venue_for_management ex_affirmed 1 1)" "InstructionLegs ex_affirmed 1 = [(0, ex_leg)]"
    by (simp_all add: ex_affirmed_def ex_deal_validity [unfolded One_nat_def] venue_for_management_def)
  show ?thesis
    using v(2,3)
    by (simp add: execute_manual_instruction_def ensure_valid_weight_meter_def m base_execute_manual_instruction_def v(1) Let_def
        ensure_valid_cost_def from_legs_def default_count_def ex_leg_def add_fungible_def as_u32_def u32_max_def wrapping_add_def
        execute_instruction_retryable_def ex)
qed

section \<open>The theorems at work\<close>

lemma ex_affirm_step:
  obtains f s0 s1 where
    "base_affirm_instruction (Signed 1) 1 [default_portfolio 1] None (ex_pending []) = Inr (f, s0)"
    "affirm_and_maybe_schedule_instruction ex_settlement_config (Signed 1) 1 [default_portfolio 1] None (ex_pending []) = Inr s1"
    "(settle_step ex_settlement_config)\<^sup>*\<^sup>* (ex_pending []) s1"
proof -
  obtain f s0 where f: "base_affirm_instruction (Signed 1) 1 [default_portfolio 1] None (ex_pending []) = Inr (f, s0)"
    using ex_affirm [of "[]"] by (auto simp: is_ok_iff)
  then obtain s1 where
    "affirm_and_maybe_schedule_instruction ex_settlement_config (Signed 1) 1 [default_portfolio 1] None (ex_pending []) = Inr s1"
    by (simp add: affirm_and_maybe_schedule_instruction_def)
  then show thesis using that [OF f] settle_step.affirm by blast
qed

theorem settlement_reachable_inv_witness:
  "\<exists>s'. (settle_step ex_settlement_config)\<^sup>*\<^sup>* (ex_pending []) s' \<and>
    affirm_and_maybe_schedule_instruction ex_settlement_config (Signed 1) 1 [default_portfolio 1] None (ex_pending []) = Inr s' \<and>
    InstructionAffirmsPending s' 1 =
      card {p. UserAffirmations s' p 1 = AffirmationStatus.Pending} +
      card {l. OffChainAffirmations s' 1 l = AffirmationStatus.Pending} +
      card {d. mediator_status s' 1 d = MediatorAffirmationStatus.Pending}"
proof (rule ex_affirm_step)
  fix s'
  assume "(settle_step ex_settlement_config)\<^sup>*\<^sup>* (ex_pending []) s'" and
    "affirm_and_maybe_schedule_instruction ex_settlement_config (Signed 1) 1 [default_portfolio 1] None (ex_pending []) = Inr s'"
  then show ?thesis using settlement_reachable_inv [OF _ ex_pending_good(1), of ex_settlement_config s' 1] by blast
qed

theorem legs_reachable_wf_witness:
  "\<exists>s'. (settle_step ex_settlement_config)\<^sup>*\<^sup>* (ex_pending []) s' \<and> legs_wf ex_settlement_config (InstructionLegs s' 1)"
proof (rule ex_affirm_step)
  fix s'
  assume "(settle_step ex_settlement_config)\<^sup>*\<^sup>* (ex_pending []) s'"
  moreover have "legs_wf ex_settlement_config (InstructionLegs (ex_pending []) j)" for j
    by (simp add: ex_pending_def legs_wf_def leg_wf_def ex_leg_def default_portfolio_def)
  ultimately show ?thesis using legs_reachable_wf [OF _ ex_pending_good(1)] by blast
qed

lemma ex_execution:
  obtains m' s' where "execute_instruction ex_settlement_config 1 (ex_meter, ex_affirmed) = Inr (m', s')"
  using ex_execute [of "Weight 0 0"] by (auto simp: is_ok_iff ex_meter_def)

theorem execution_refines_ledger_witness:
  "\<exists>m' s'. execute_instruction ex_settlement_config 1 (ex_meter, ex_affirmed) = Inr (m', s') \<and>
    ledger_of s' = book_leg ex_leg (ledger_of ex_affirmed)"
proof (rule ex_execution)
  fix m' s'
  assume ex: "execute_instruction ex_settlement_config 1 (ex_meter, ex_affirmed) = Inr (m', s')"
  have "InstructionLegs ex_affirmed 1 = [(0, ex_leg)]" by (simp add: ex_affirmed_def)
  with ex execution_refines_ledger [OF ex ex_affirmed_good] show ?thesis by simp
qed

theorem execution_needs_all_parties_witness:
  "\<exists>m' s'. execute_instruction ex_settlement_config 1 (ex_meter, ex_affirmed) = Inr (m', s') \<and>
    (\<forall>p \<in> parties [(0, ex_leg)]. UserAffirmations ex_affirmed p 1 = AffirmationStatus.Affirmed)"
proof (rule ex_execution)
  fix m' s'
  assume ex: "execute_instruction ex_settlement_config 1 (ex_meter, ex_affirmed) = Inr (m', s')"
  have "InstructionLegs ex_affirmed 1 = [(0, ex_leg)]" by (simp add: ex_affirmed_def)
  with ex execution_needs_all_parties [OF ex ex_affirmed_good] show ?thesis by auto
qed

theorem reject_releases_locks_witness:
  "\<exists>s'. base_reject_instruction ex_settlement_config (Signed 1) 1 (Some (default_portfolio 1)) None ex_affirmed = Inr s' \<and>
    InstructionStatuses s' 1 = Rejected (block_number ex_affirmed) \<and> locked s' (default_portfolio 1) (TokenKey 7) = 0"
proof -
  obtain s' where s': "base_reject_instruction ex_settlement_config (Signed 1) 1 (Some (default_portfolio 1)) None ex_affirmed = Inr s'"
    using ex_reject by (auto simp: is_ok_iff)
  have "locked ex_affirmed (default_portfolio 1) (TokenKey 7) = 20000000" "InstructionLegs ex_affirmed 1 = [(0, ex_leg)]"
    "UserAffirmations ex_affirmed (default_portfolio 1) 1 = AffirmationStatus.Affirmed"
    "legs_demand [(0, ex_leg)] (default_portfolio 1) (TokenKey 7) = 20000000"
    by (simp_all add: ex_affirmed_def locked_def legs_demand_def demand_def ex_leg_def)
  then show ?thesis
    using s' reject_releases_locks [OF s' ex_affirmed_good, of "default_portfolio 1" "TokenKey 7"] by auto
qed

theorem affirm_withdraw_roundtrip_witness:
  "\<exists>f s1. base_affirm_instruction (Signed 1) 1 [default_portfolio 1] None (ex_pending []) = Inr (f, s1) \<and>
    base_withdraw_affirmation ex_settlement_config (Signed 1) 1 [default_portfolio 1] None s1 =
      Inr (cancel_instruction ex_settlement_config 1 (ex_pending []))"
proof (rule ex_affirm_step)
  fix f s1
  assume aff: "base_affirm_instruction (Signed 1) 1 [default_portfolio 1] None (ex_pending []) = Inr (f, s1)"
  have "settlement_type (InstructionDetails (ex_pending []) 1) = SettleOnAffirmation"
    by (simp add: ex_pending_def default_instruction_def)
  with aff affirm_withdraw_roundtrip [OF aff ex_pending_good(1)] show ?thesis by simp
qed


theorem receipt_used_once_witness:
  "\<exists>s1. affirm_with_receipts_and_maybe_schedule_instruction ex_settlement_config (Signed 1) 1 [ex_receipt] [] None ex_off_chain = Inr s1 \<and>
    \<not> is_ok (affirm_with_receipts_and_maybe_schedule_instruction ex_settlement_config (Signed 1) 1 [ex_receipt] [] None s1)"
proof -
  obtain s1 where s1: "affirm_with_receipts_and_maybe_schedule_instruction ex_settlement_config (Signed 1) 1 [ex_receipt] [] None
      ex_off_chain = Inr s1"
    using ex_claim by (auto simp: affirm_with_receipts_and_maybe_schedule_instruction_def is_ok_iff)
  then show ?thesis
    using receipt_used_once [OF s1 ex_off_chain_good rtranclp.rtrancl_refl, where r = ex_receipt and r' = ex_receipt and
        rs' = "[ex_receipt]" and cfg' = ex_settlement_config and origin' = "Signed 1" and i' = 1 and ps' = "[]" and c' = None] by simp
qed

theorem mediator_expiry_inverted_witness:
  "\<exists>s1. base_affirm_instruction_as_mediator ex_settlement_config (Signed 1) 1 (Some 150)
      (ex_pending [(1, MediatorAffirmationStatus.Pending)]) = Inr s1 \<and>
    \<not> is_ok (execute_instruction ex_settlement_config 1 (ex_meter, s1\<lparr>timestamp := 120\<rparr>))"
proof -
  obtain s1 where s1: "base_affirm_instruction_as_mediator ex_settlement_config (Signed 1) 1 (Some 150)
      (ex_pending [(1, MediatorAffirmationStatus.Pending)]) = Inr s1" using ex_mediator by (auto simp: is_ok_iff)
  then show ?thesis
    using mediator_expiry_inverted [OF s1, of "s1\<lparr>timestamp := 120\<rparr>" ex_settlement_config ex_meter] by simp
qed

theorem executed_then_failed_witness:
  "\<exists>s1 s2. execute_manual_instruction ex_settlement_config (Signed 1) 1 None 1 0 0 (Some (Weight 1000 1000)) ex_affirmed = Inr s1 \<and>
    execute_scheduled_instruction ex_settlement_config Root 1 (Weight 1000 1000) s1 = Inr s2 \<and>
    InstructionStatuses s1 1 = Success (block_number ex_affirmed) \<and> InstructionStatuses s2 1 = InstructionStatus.Failed"
proof -
  obtain s1 where s1: "execute_manual_instruction ex_settlement_config (Signed 1) 1 None 1 0 0 (Some (Weight 1000 1000)) ex_affirmed = Inr s1"
    using ex_manual by (auto simp: is_ok_iff)
  obtain s2 where s2: "execute_scheduled_instruction ex_settlement_config Root 1 (Weight 1000 1000) s1 = Inr s2"
    by (simp add: execute_scheduled_instruction_def ensure_root_def ensure_valid_weight_meter_def from_limit_def)
  show ?thesis using s1 s2 executed_then_failed [OF s1 ex_affirmed_good s2] by blast
qed

theorem unsettled_marked_success_witness:
  "\<exists>m' s'. affirm_and_execute_instruction ex_settlement_config (Signed 1) 1 None [default_portfolio 1]
      (ex_meter, ex_pending [(3, MediatorAffirmationStatus.Pending)]) = Inr (m', s') \<and>
    InstructionStatuses s' 1 = Success (block_number (ex_pending [(3, MediatorAffirmationStatus.Pending)])) \<and>
    ledger_of s' = ledger_of (ex_pending [(3, MediatorAffirmationStatus.Pending)]) \<and>
    locked s' (default_portfolio 1) (TokenKey 7) = 20000000"
proof -
  let ?s = "ex_pending [(3, MediatorAffirmationStatus.Pending)]"
  obtain f s1 where aff: "base_affirm_instruction (Signed 1) 1 [default_portfolio 1] None ?s = Inr (f, s1)"
    using ex_affirm [of "[(3, MediatorAffirmationStatus.Pending)]"] by (auto simp: is_ok_iff)
  have med: "mediator_status ?s 1 3 = MediatorAffirmationStatus.Pending" by (simp add: mediator_status_def ex_pending_def)
  have good1: "settle_good (\<lambda>_ _. 0) s1" by (rule base_affirm_good [OF aff ex_pending_good(2)])
  have "InstructionMediatorsAffirmations s1 1 = InstructionMediatorsAffirmations ?s 1"
    using affirmed_for_execution(2) [OF _ ex_pending_good(2), where r = None] aff by simp
  then have "{d. mediator_status s1 1 d = MediatorAffirmationStatus.Pending} \<noteq> {}"
    using med by (auto simp: mediator_status_def)
  moreover have "count_ok s1 1" using settle_goodD(4) [OF good1, of 1] by (simp add: instruction_ok_def)
  ultimately have "InstructionAffirmsPending s1 1 \<noteq> 0"
    using finite_mediators(1) [of s1 1] by (simp add: count_ok_def pending_parties_def)
  then obtain m' s' where run: "affirm_and_execute_instruction ex_settlement_config (Signed 1) 1 None [default_portfolio 1]
      (ex_meter, ?s) = Inr (m', s')"
    using aff by (simp add: affirm_and_execute_instruction_def execute_settle_on_affirmation_instruction_def)
  have "locked ?s (default_portfolio 1) (TokenKey 7) = 0" "InstructionLegs ?s 1 = [(0, ex_leg)]"
    "legs_demand [(0, ex_leg)] (default_portfolio 1) (TokenKey 7) = 20000000"
    by (simp_all add: ex_pending_def locked_def legs_demand_def demand_def ex_leg_def)
  then show ?thesis
    using run unsettled_marked_success [OF run ex_pending_good(2) med, of "default_portfolio 1" "TokenKey 7"] by auto
qed

end
