(* ===== verification/Spec2Isabelle.thy ===== *)
theory Spec2Isabelle
  imports Settlement_Examples
begin

text \<open>
  \<^bold>\<open>Polymesh runtime: a verification library.\<close>

  Polymesh is a Substrate runtime for regulated assets. Identities (\<open>pallets/identity\<close>) own accounts, and
  providers of customer due diligence (\<open>pallets/group\<close>) vouch for them with claims. Fungible assets
  (\<open>pallets/asset\<close>) and non-fungible tokens (\<open>pallets/nft\<close>) are held in portfolios
  (\<open>pallets/portfolio\<close>), managed by external agents (\<open>pallets/external-agents\<close>) and watched by checkpoints
  (\<open>pallets/asset/src/checkpoint\<close>), statistics (\<open>pallets/statistics\<close>) and compliance rules
  (\<open>pallets/compliance-manager\<close>). They change hands by instructions of the settlement engine
  (\<open>pallets/settlement\<close>): parties affirm, which locks what they deliver, and when all have affirmed the legs are
  transferred together, each through the transfer of its pallet with all its checks.

  \<^bold>\<open>How the code is modelled.\<close> The storage of a pallet is a record whose fields have the names of the storage
  items, each pallet extending the record of the pallets it calls, up to \<open>settlement_store\<close>: an operation
  works on every extension of its own record. A storage map is a function or a list of entries where its
  iteration order matters. An extrinsic is a function from its arguments and the storage to an
  error or the new storage; an error carries no storage because the framework rolls it back. The errors are the
  enumerations of \<open>Dispatch_Errors\<close>. Unsigned integers are natural numbers with the bounds \<open>u32_max\<close>,
  \<open>u64_max\<close> and \<open>u128_max\<close> and the checked, saturating and wrapping operations that the code uses; an unchecked
  operation wraps, as in a release build. All recursion is over finite lists, so that no fuel is needed, but for
  the binary search, which is proved to terminate.

  \<^bold>\<open>Theories and sources.\<close>
  \<^item> \<open>Prelude\<close>: results and their combinators, machine integers, ordered vectors and sets, sums over storage
    maps, and the locale \<open>invariant_system\<close> of a step relation with an invariant. \<open>Locking\<close>: the
    locale \<open>lock_ledger\<close>, the contract of a ledger that locks amounts, with its client lemmas about batches.
  \<^item> \<open>Dispatch_Errors\<close>, \<open>Primitives\<close>: error enumerations and the data types of \<open>primitives/src\<close>, among them
    portfolio ids, permissions, authorizations and the weight meter.
  \<^item> \<open>Identity_Keys\<close>: key records, call permissions and authorizations (\<open>identity/src/keys.rs\<close>, \<open>auth.rs\<close>).
  \<^item> \<open>Asset_Storage\<close>: storage of the asset and NFT pallets and the queries that other pallets make of it.
  \<^item> \<open>Portfolio\<close>, \<open>Portfolio_Invariants\<close>, \<open>Portfolio_Theorems\<close>: portfolios, custody, movements and locks. No portfolio
    has more under lock than it holds, no operation changes what an identity holds, and the pallet
    is an instance of \<open>lock_ledger\<close>.
  \<^item> \<open>External_Agents\<close>: agents and their groups. The counts agree with the agents, and a full agent remains.
  \<^item> \<open>Protocol_Fee\<close>: fees and the subsidies of \<open>pallets/relayer\<close> from which they are paid.
  \<^item> \<open>Checkpoint\<close>, \<open>Checkpoint_Theorems\<close>: checkpoints and schedules. A checkpoint reports the balance of its
    time whatever happens later, and no due checkpoint is missed.
  \<^item> \<open>Group\<close>, \<open>Identity_Claims\<close>, \<open>Cdd_Claims\<close>: groups of identities, claims, and the group of providers
    of customer due diligence with the claims that go with a membership (\<open>identity/src/claims.rs\<close>).
  \<^item> \<open>Statistics\<close>, \<open>Statistics_Theorems\<close>: counters of investors and balances and the transfer conditions on
    them. The counters stay exact, and a transfer that passes keeps the limits.
  \<^item> \<open>Compliance\<close>, \<open>Compliance_Theorems\<close>: requirements on sender and receiver. The decision is
    proved equal to its meaning in terms of claims, and equal to the detailed report.
  \<^item> \<open>Asset_Identifier\<close>: check digits of CUSIP, CINS, ISIN, LEI and FIGI (\<open>primitives/src/asset_identifier.rs\<close>).
  \<^item> \<open>Asset\<close>, \<open>Asset_Theorems\<close>, \<open>Asset_System\<close>, \<open>Asset_Properties\<close>: tickers, assets, issuing, redeeming,
    transfers, metadata. Supply, balances of identities and balances of portfolios agree along all
    runs; transfers obey the rules of the asset, keep the statistics and agree with their reports.
  \<^item> \<open>NFT\<close>, \<open>NFT_Theorems\<close>, \<open>NFT_Properties\<close>: collections and tokens. The records of owners, portfolios
    and counts agree along the runs of the NFT, portfolio and asset pallets together.
  \<^item> \<open>Settlement\<close>: venues, instructions, affirmations, receipts, mediators, execution, rejection, in the order of
    \<open>settlement/src/lib.rs\<close>. \<open>Settlement_Locks\<close>: what a leg demands of its sender, as locks of
    tokens and NFTs alike. \<open>Settlement_Theorems\<close>, \<open>Settlement_Execution\<close>: the invariant \<open>settle_good\<close> and that every operation
    keeps it; execution as a refinement of booking the legs on an abstract ledger (\<open>book_leg\<close>).
    \<open>Settlement_Properties\<close>: what parties can rely on, and the places where the code falls short
    of its documentation. \<open>Settlement_Examples\<close>: concrete instructions on which the properties are applied.

  \<^bold>\<open>Step relations.\<close> For each pallet an inductive relation has one rule per operation, with the success of the
    call as its premise, together with the operations of other pallets on the shared storage where they matter:
    \<open>portfolio_step\<close>, \<open>agents_step\<close>, \<open>checkpoint_step\<close>, \<open>group_step\<close>, \<open>cdd_step\<close>, \<open>stats_step\<close>, \<open>compliance_step\<close>,
    \<open>asset_step\<close>, \<open>nft_step\<close>, \<open>settle_step\<close>. Each is an interpretation of \<open>invariant_system\<close>. What a run must avoid for an
    invariant to hold is written in the theorem: a counter of 64 bits at its end for the portfolio numbers, a
    group of providers that lists a member twice, a requirement with the last number of 32 bits.

  \<^bold>\<open>Parameters and assumptions.\<close> Code that is not in the repository is an argument. The configuration records
    hold the limits of the runtime, the weights, which benchmarks generate, the currency with
    its withdrawals, hash functions, the order of iteration over a hashed map, the verification of signatures
    and the scheduler. The scheduler may refuse a task, and no theorem assumes that it does not. \<open>compute_members_diff_sorted\<close>
    is assumed to compute the two differences of ordered lists (\<open>diff_exact\<close>). A list that arrives with a call has a length
    of 32 bits at most, and the parties of an instruction are fewer than \<open>2^64\<close>. The settlement
    invariant has a parameter \<open>R\<close>: what pallets outside the library, such as offerings and distributions, hold
    under lock in the same portfolios. A step of such a pallet in \<open>settle_step\<close> leaves the storage of settlement
    alone and may lock more; where it has released what it held, a run continues with a smaller \<open>R\<close>.

  \<^bold>\<open>Not modelled.\<close> Events, returned weights and storage migrations that only rewrite encodings. The registration and
    rotation of keys. The clients of the settlement and portfolio pallets (\<open>pallets/sto\<close>,
    \<open>pallets/corporate-actions\<close>), governance and dispatch of encoded calls (\<open>committee\<close>, \<open>pips\<close>, \<open>multisig\<close>,
    \<open>utility\<close>, \<open>sudo\<close>, \<open>contracts\<close>), the adaptations of pallets of the framework (\<open>balances\<close>,
    \<open>staking\<close>, \<open>transaction-payment\<close>, \<open>treasury\<close>, \<open>bridge\<close>), and the node with its input and output.
\<close>

end
